(* ===== verification/Prelude.thy ===== *)
theory Prelude
  imports Complex_Main "HOL-Library.Word" "HOL-Library.Monad_Syntax"
begin

text \<open>
  What every other theory of the development shares: the machine integers of the Rust
  source, slices with bounds-checked access, bit flags, little-endian pairs, and the
  collections of facts that the component proofs use.

  Conventions of the whole development.
  \<^item> \<open>u8\<close>, \<open>u16\<close>, \<open>u32\<close>, \<open>u64\<close> are words of that width. The plain \<open>+\<close>, \<open>-\<close>, \<open>*\<close> of
    the source wrap in the release profile (no \<open>overflow-checks\<close> in \<open>Cargo.toml\<close>), as
    \<open>+\<close>, \<open>-\<close>, \<open>*\<close> on words do.
  \<^item> \<open>usize\<close> is a \<open>nat\<close> where it is an index or a size (a subtraction that can go below
    zero is \<open>usize_sub\<close>), and a 64-bit word where it is a free running counter.
  \<^item> A \<open>Vec\<close>, a slice or an array is a list. \<open>vec_get\<close> and \<open>vec_set\<close> are the checked
    accesses: \<open>None\<close> where Rust panics. Only an index that is in range for every value of
    its type is written with \<open>!\<close>.
  \<^item> A function that may panic, or a loop that may not end, returns an option: \<open>None\<close> is
    ``panicked or did not return''.
\<close>

unbundle bit_operations_syntax

section \<open>Types\<close>

type_synonym u8 = "8 word"
type_synonym u16 = "16 word"
type_synonym u32 = "32 word"
type_synonym u64 = "64 word"
type_synonym usize = "64 word"

named_theorems wf_intros \<open>preservation of well-formedness by the operations\<close>
named_theorems op_defs \<open>definitions that component proofs unfold together\<close>

section \<open>usize arithmetic on indices\<close>

definition usize_sub :: "nat \<Rightarrow> nat \<Rightarrow> nat" where
  "usize_sub a b = (if b \<le> a then a - b else a + 2 ^ 64 - b)"

lemma usize_sub_le [simp]: "b \<le> a \<Longrightarrow> usize_sub a b = a - b"
  by (simp add: usize_sub_def)

section \<open>Slices with checked access\<close>

definition vec_get :: "'a list \<Rightarrow> nat \<Rightarrow> 'a option" where
  "vec_get xs i = (if i < length xs then Some (xs ! i) else None)"

definition vec_set :: "'a list \<Rightarrow> nat \<Rightarrow> 'a \<Rightarrow> 'a list option" where
  "vec_set xs i v = (if i < length xs then Some (xs[i := v]) else None)"

lemma vec_get_in [simp]: "i < length xs \<Longrightarrow> vec_get xs i = Some (xs ! i)"
  by (simp add: vec_get_def)

lemma vec_set_in [simp]: "i < length xs \<Longrightarrow> vec_set xs i v = Some (xs[i := v])"
  by (simp add: vec_set_def)

lemma vec_get_Some_iff: "vec_get xs i = Some v \<longleftrightarrow> i < length xs \<and> v = xs ! i"
  by (auto simp: vec_get_def)

lemma vec_set_Some_iff: "vec_set xs i v = Some ys \<longleftrightarrow> i < length xs \<and> ys = xs[i := v]"
  by (auto simp: vec_set_def)

lemma vec_get_None_iff [simp]: "vec_get xs i = None \<longleftrightarrow> length xs \<le> i"
  by (auto simp: vec_get_def)

lemma vec_get_out: "length xs \<le> i \<Longrightarrow> vec_get xs i = None"
  by simp

lemma vec_set_None_iff [simp]: "vec_set xs i v = None \<longleftrightarrow> length xs \<le> i"
  by (auto simp: vec_set_def)

lemma vec_get_set_same: "vec_set xs i v = Some ys \<Longrightarrow> vec_get ys i = Some v"
  by (auto simp: vec_set_Some_iff vec_get_def)

lemma vec_get_set_other: "vec_set xs i v = Some ys \<Longrightarrow> i \<noteq> j \<Longrightarrow> vec_get ys j = vec_get xs j"
  by (auto simp: vec_set_Some_iff vec_get_def)

lemma bind_Some_iff: "Option.bind m f = Some y \<longleftrightarrow> (\<exists>x. m = Some x \<and> f x = Some y)"
  by (cases m) auto

lemma bind_eq_SomeE:
  assumes "Option.bind m f = Some y"
  obtains x where "m = Some x" and "f x = Some y"
  using assms by (cases m) auto

text \<open>A property of an option-valued operation: it returns, and its result satisfies \<open>Q\<close>.\<close>

definition returns :: "'a option \<Rightarrow> ('a \<Rightarrow> bool) \<Rightarrow> bool" where
  "returns m Q \<longleftrightarrow> (\<exists>x. m = Some x \<and> Q x)"

lemma returns_Some [simp]: "returns (Some x) Q \<longleftrightarrow> Q x"
  by (simp add: returns_def)

lemma returns_None [simp]: "\<not> returns None Q"
  by (simp add: returns_def)

lemma returns_bind [simp]: "returns (Option.bind m f) Q \<longleftrightarrow> returns m (\<lambda>x. returns (f x) Q)"
  by (cases m) auto

lemma returns_mono: "returns m P \<Longrightarrow> (\<And>x. P x \<Longrightarrow> Q x) \<Longrightarrow> returns m Q"
  by (auto simp: returns_def)

lemma returnsD: "returns m Q \<Longrightarrow> \<exists>x. m = Some x \<and> Q x"
  by (simp add: returns_def)

lemma returns_vec_get [simp]: "returns (vec_get xs i) Q \<longleftrightarrow> i < length xs \<and> Q (xs ! i)"
  by (auto simp: vec_get_def)

lemma returns_vec_set [simp]: "returns (vec_set xs i v) Q \<longleftrightarrow> i < length xs \<and> Q (xs[i := v])"
  by (auto simp: vec_set_def)

lemma returns_if [simp]:
  "returns (if b then m else m') Q \<longleftrightarrow> (if b then returns m Q else returns m' Q)"
  by simp

lemma set_update_all: "(\<forall>x\<in>set xs. P x) \<Longrightarrow> P v \<Longrightarrow> \<forall>x\<in>set (xs[i := v]). P x"
  using set_update_subset_insert by fastforce

section \<open>Bit flags (the bitflags crate on a byte)\<close>

definition flag_set :: "'a::len word \<Rightarrow> 'a word \<Rightarrow> bool \<Rightarrow> 'a word" where
  "flag_set s f b = (if b then s OR f else s AND NOT f)"

definition flag_contains :: "'a::len word \<Rightarrow> 'a word \<Rightarrow> bool" where
  "flag_contains s f \<longleftrightarrow> s AND f = f"

definition flag_intersects :: "'a::len word \<Rightarrow> 'a word \<Rightarrow> bool" where
  "flag_intersects s f \<longleftrightarrow> s AND f \<noteq> 0"

lemma bit_flag_set:
  "bit (flag_set s f b) n \<longleftrightarrow> (if bit f n then b else bit s n)" for s f :: "'a::len word"
  by (auto simp: flag_set_def bit_simps dest: bit_imp_le_length)

lemma flag_contains_iff: "flag_contains s f \<longleftrightarrow> (\<forall>n. bit f n \<longrightarrow> bit s n)"
  for s f :: "'a::len word"
  by (auto simp: flag_contains_def bit_eq_iff bit_simps dest: bit_imp_le_length)

lemma flag_intersects_iff: "flag_intersects s f \<longleftrightarrow> (\<exists>n. bit f n \<and> bit s n)"
  for s f :: "'a::len word"
  by (auto simp: flag_intersects_def bit_eq_iff bit_simps dest: bit_imp_le_length)

lemma word_nonzero_iff: "f \<noteq> 0 \<longleftrightarrow> (\<exists>n. bit f n)" for f :: "'a::len word"
  by (auto simp: bit_eq_iff bit_simps dest: bit_imp_le_length)

lemma word_disjoint_iff: "f AND g = 0 \<longleftrightarrow> (\<forall>n. \<not> (bit f n \<and> bit g n))" for f g :: "'a::len word"
  by (auto simp: bit_eq_iff bit_simps dest: bit_imp_le_length)

lemma flag_contains_set_same [simp]: "f \<noteq> 0 \<Longrightarrow> flag_contains (flag_set s f b) f \<longleftrightarrow> b"
  for s f :: "'a::len word"
  by (auto simp: flag_contains_iff bit_flag_set word_nonzero_iff)

lemma flag_intersects_set_same [simp]: "f \<noteq> 0 \<Longrightarrow> flag_intersects (flag_set s f b) f \<longleftrightarrow> b"
  for s f :: "'a::len word"
  by (auto simp: flag_intersects_iff bit_flag_set word_nonzero_iff)

lemma flag_contains_set_other [simp]:
  "f AND g = 0 \<Longrightarrow> flag_contains (flag_set s f b) g = flag_contains s g" for s f g :: "'a::len word"
  by (auto simp: flag_contains_iff bit_flag_set word_disjoint_iff)

lemma flag_intersects_set_other [simp]:
  "f AND g = 0 \<Longrightarrow> flag_intersects (flag_set s f b) g = flag_intersects s g"
  for s f g :: "'a::len word"
  by (auto simp: flag_intersects_iff bit_flag_set word_disjoint_iff)

section \<open>Bytes and words\<close>

definition u16_from_le_bytes :: "u8 \<Rightarrow> u8 \<Rightarrow> u16" where
  "u16_from_le_bytes lo hi = push_bit 8 (ucast hi) OR ucast lo"

definition u16_lo :: "u16 \<Rightarrow> u8" where
  "u16_lo w = ucast w"

definition u16_hi :: "u16 \<Rightarrow> u8" where
  "u16_hi w = ucast (drop_bit 8 w)"

lemma u16_from_le_bytes_lo_hi [simp]: "u16_from_le_bytes (u16_lo w) (u16_hi w) = w"
  by (rule bit_word_eqI) (auto simp: u16_from_le_bytes_def u16_lo_def u16_hi_def bit_simps)

lemma u16_lo_from [simp]: "u16_lo (u16_from_le_bytes lo hi) = lo"
  by (rule bit_word_eqI) (auto simp: u16_from_le_bytes_def u16_lo_def bit_simps)

lemma u16_hi_from [simp]: "u16_hi (u16_from_le_bytes lo hi) = hi"
  by (rule bit_word_eqI)
    (auto simp: u16_from_le_bytes_def u16_hi_def bit_simps dest: bit_imp_le_length)

lemma unat_u8_less [simp]: "unat (x :: u8) < 256"
  using unsigned_less [of x] by simp

lemma unat_u16_less [simp]: "unat (x :: u16) < 65536"
  using unsigned_less [of x] by simp

lemma unat_ucast_u8_u16 [simp]: "unat (ucast (x :: u8) :: u16) = unat x"
  by (simp add: unsigned_ucast_eq take_bit_nat_eq_self_iff less_trans [OF unat_u8_less])

lemma unat_ucast_u8_u32 [simp]: "unat (ucast (x :: u8) :: u32) = unat x"
  by (simp add: unsigned_ucast_eq take_bit_nat_eq_self_iff less_trans [OF unat_u8_less])

lemma unat_ucast_u16_u32 [simp]: "unat (ucast (x :: u16) :: u32) = unat x"
  by (simp add: unsigned_ucast_eq take_bit_nat_eq_self_iff less_trans [OF unat_u16_less])

lemma unat_and_le: "unat (a AND b) \<le> unat b" for a b :: "'a::len word"
  by (rule word_and_le1 [THEN word_le_nat_alt [THEN iffD1]])

lemma unat_and_less: "unat b < n \<Longrightarrow> unat (a AND b) < n" for a b :: "'a::len word"
  by (rule le_less_trans [OF unat_and_le])

lemma nat_and_le2: "(a AND b :: nat) \<le> b"
  using AND_upper2 [of "int b" "int a"] by (simp flip: of_nat_and_eq)

lemma nat_and_mask: "(a AND (2 ^ n - 1) :: nat) = a mod 2 ^ n"
proof -
  have "a AND mask n = take_bit n a"
    by (simp add: take_bit_eq_mask)
  then show ?thesis
    by (simp add: take_bit_eq_mod mask_eq_exp_minus_1)
qed

section \<open>Counting with words\<close>

lemma unat_of_nat_le: "n \<le> unat x \<Longrightarrow> unat (of_nat n :: 'a word) = n" for x :: "'a::len word"
  by (metis le_less_trans mod_less unat_of_nat unsigned_less)

lemma word_gt0_iff: "0 < x \<longleftrightarrow> 0 < unat x" for x :: "'a::len word"
  by (simp add: word_less_nat_alt)

lemma unat_dec: "0 < x \<Longrightarrow> unat (x - 1) = unat x - 1" for x :: "'a::len word"
  by (simp add: unat_sub_if' word_less_nat_alt)

lemma unat_minus_of_nat: "n \<le> unat x \<Longrightarrow> unat (x - of_nat n) = unat x - n" for x :: "'a::len word"
  by (simp add: unat_sub_if' unat_of_nat_le)

lemma word_not_gt0: "\<not> 0 < x \<longleftrightarrow> x = 0" for x :: "'a::len word"
  using word_neq_0_conv by blast

lemma unat_drop_bit_less: "unat x < n * 2 ^ k \<Longrightarrow> unat (drop_bit k x) < n" for x :: "'a::len word"
  by (subst unat_drop_bit_eq) (simp add: drop_bit_eq_div less_mult_imp_div_less)

lemma word_and_mask_self: "unat x < 2 ^ n \<Longrightarrow> x AND mask n = x" for x :: "'a::len word"
  by (rule word_unat_eq_iff [THEN iffD2])
    (simp add: take_bit_eq_mask [symmetric] unsigned_take_bit_eq take_bit_nat_eq_self)

lemma word_and_mask_less: "x AND mask n = x \<Longrightarrow> n < LENGTH('a) \<Longrightarrow> unat x < 2 ^ n" for x :: "'a::len word"
  by (metis take_bit_eq_mask take_bit_nat_less_exp unsigned_take_bit_eq)

lemma word_high_bits: "unat x < 2 ^ n \<Longrightarrow> n \<le> k \<Longrightarrow> \<not> bit x k" for x :: "'a::len word"
  by (metis bit_and_iff bit_mask_iff not_le word_and_mask_self)

lemma word_less_by_bits:
  "n < LENGTH('a) \<Longrightarrow> (\<And>k. n \<le> k \<Longrightarrow> k < LENGTH('a) \<Longrightarrow> \<not> bit x k) \<Longrightarrow> unat x < 2 ^ n"
  for x :: "'a::len word"
  by (rule word_and_mask_less, rule bit_word_eqI) (auto simp: bit_simps intro: ccontr [of "_ < n"] simp: not_less)

lemma bit_u8_ge [simp]: "8 \<le> n \<Longrightarrow> \<not> bit (v :: u8) n"
  by (auto dest: bit_imp_le_length)

lemma bit_u16_ge [simp]: "16 \<le> n \<Longrightarrow> \<not> bit (v :: u16) n"
  by (auto dest: bit_imp_le_length)

lemma bit_if_or: "bit (if c then s OR m else s) n \<longleftrightarrow> bit s n \<or> c \<and> bit m n" for s m :: "'a::len word"
  by (simp add: bit_or_iff)

text \<open>The single-bit masks of a byte.\<close>

lemma bit_u8_masks:
  "bit (0x01::u8) n \<longleftrightarrow> n = 0" "bit (0x02::u8) n \<longleftrightarrow> n = 1" "bit (0x04::u8) n \<longleftrightarrow> n = 2"
  "bit (0x08::u8) n \<longleftrightarrow> n = 3" "bit (0x10::u8) n \<longleftrightarrow> n = 4" "bit (0x20::u8) n \<longleftrightarrow> n = 5"
  "bit (0x40::u8) n \<longleftrightarrow> n = 6" "bit (0x80::u8) n \<longleftrightarrow> n = 7"
proof -
  have p: "bit (push_bit k 1 :: u8) n \<longleftrightarrow> n = k" if "k < 8" for k
    using that by (auto simp: bit_simps)
  show "bit (0x01::u8) n \<longleftrightarrow> n = 0" using p [of 0] by simp
  show "bit (0x02::u8) n \<longleftrightarrow> n = 1" using p [of 1] by simp
  show "bit (0x04::u8) n \<longleftrightarrow> n = 2" using p [of 2] by simp
  show "bit (0x08::u8) n \<longleftrightarrow> n = 3" using p [of 3] by simp
  show "bit (0x10::u8) n \<longleftrightarrow> n = 4" using p [of 4] by simp
  show "bit (0x20::u8) n \<longleftrightarrow> n = 5" using p [of 5] by simp
  show "bit (0x40::u8) n \<longleftrightarrow> n = 6" using p [of 6] by simp
  show "bit (0x80::u8) n \<longleftrightarrow> n = 7" using p [of 7] by simp
qed

section \<open>Equality of bytes and words, bit by bit\<close>

lemma u8_eqI:
  "\<lbrakk>bit x 0 = bit y 0; bit x 1 = bit y 1; bit x 2 = bit y 2; bit x 3 = bit y 3;
     bit x 4 = bit y 4; bit x 5 = bit y 5; bit x 6 = bit y 6; bit x 7 = bit y 7\<rbrakk> \<Longrightarrow> x = (y :: u8)"
  by (rule bit_word_eqI) (simp add: less_Suc_eq numeral_eq_Suc, elim disjE; simp)

lemma u16_eqI:
  "\<lbrakk>bit x 0 = bit y 0; bit x 1 = bit y 1; bit x 2 = bit y 2; bit x 3 = bit y 3;
     bit x 4 = bit y 4; bit x 5 = bit y 5; bit x 6 = bit y 6; bit x 7 = bit y 7;
     bit x 8 = bit y 8; bit x 9 = bit y 9; bit x 10 = bit y 10; bit x 11 = bit y 11;
     bit x 12 = bit y 12; bit x 13 = bit y 13; bit x 14 = bit y 14; bit x 15 = bit y 15\<rbrakk> \<Longrightarrow> x = (y :: u16)"
  by (rule bit_word_eqI) (simp add: less_Suc_eq numeral_eq_Suc, elim disjE; simp)

end
