(* ===== verification/Common.thy ===== *)
theory Common
  imports Prelude
begin

text \<open>
  \<open>src/common.rs\<close>: the console regions with their names and numberings, the two kinds of
  reset. The traits \<open>Regional\<close>, \<open>Reset\<close> and \<open>Clock\<close> have no definition of their own:
  each component defines its \<open>set_region\<close>, \<open>reset\<close> and \<open>clock\<close>.
\<close>

datatype nes_region = Ntsc | Pal | Dendy

datatype kind = Soft | Hard

definition nes_region_as_slice :: "nes_region list" where
  "nes_region_as_slice = [Ntsc, Pal, Dendy]"

fun nes_region_as_ref :: "nes_region \<Rightarrow> string" where
  "nes_region_as_ref Ntsc = ''NTSC''"
| "nes_region_as_ref Pal = ''PAL''"
| "nes_region_as_ref Dendy = ''Dendy''"

definition nes_region_try_from :: "string \<Rightarrow> string + nes_region" where
  "nes_region_try_from value =
     (if value = ''NTSC'' then Inr Ntsc
      else if value = ''PAL'' then Inr Pal
      else if value = ''Dendy'' then Inr Dendy
      else Inl ''invalid nes region'')"

definition nes_region_from :: "nat \<Rightarrow> nes_region" where
  "nes_region_from value = (if value = 1 then Pal else if value = 2 then Dendy else Ntsc)"

lemma nes_region_as_slice_all: "set nes_region_as_slice = UNIV"
  using nes_region.exhaust by (auto simp: nes_region_as_slice_def)

lemma nes_region_roundtrip:
  "nes_region_try_from s = Inr r \<longleftrightarrow> s = nes_region_as_ref r"
  by (cases r) (auto simp: nes_region_try_from_def)

lemma nes_region_from_slice:
  "i < length nes_region_as_slice \<Longrightarrow> nes_region_from i = nes_region_as_slice ! i"
  by (auto simp: nes_region_from_def nes_region_as_slice_def less_Suc_eq numeral_3_eq_3)

end
