(* ===== verification/Genie.thy ===== *)
theory Genie
  imports Prelude
begin

text \<open>
  \<open>src/genie.rs\<close>: Game Genie codes. A code of six or eight letters is decoded to an address
  in the PRG-ROM half of the bus, the byte to substitute and, for eight letters, the byte the
  original must have. A Rust \<open>String\<close> is the list of its bytes; a byte outside ASCII is in no
  letter of the table, so decoding byte by byte rejects what the source rejects.
\<close>

definition GENIE_MAP :: "char \<rightharpoonup> u8" where
  "GENIE_MAP = map_of
     [(CHR ''A'', 0x0), (CHR ''P'', 0x1), (CHR ''Z'', 0x2), (CHR ''L'', 0x3), (CHR ''G'', 0x4),
      (CHR ''I'', 0x5), (CHR ''T'', 0x6), (CHR ''Y'', 0x7), (CHR ''E'', 0x8), (CHR ''O'', 0x9),
      (CHR ''X'', 0xA), (CHR ''U'', 0xB), (CHR ''K'', 0xC), (CHR ''S'', 0xD), (CHR ''V'', 0xE),
      (CHR ''N'', 0xF)]"

record genie_code =
  gc_code :: string
  gc_addr :: u16
  gc_data :: u8
  gc_compare :: "u8 option"

datatype genie_error = InvalidGenieCode string

text \<open>The loop over the letters: the digits, or nothing at the first unknown letter.\<close>

fun genie_hex :: "string \<Rightarrow> u8 list option" where
  "genie_hex [] = Some []"
| "genie_hex (s # ss) =
     (case GENIE_MAP s of
        None \<Rightarrow> None
      | Some h \<Rightarrow> (case genie_hex ss of None \<Rightarrow> None | Some hs \<Rightarrow> Some (h # hs)))"

definition genie_addr :: "u8 list \<Rightarrow> u16" where
  "genie_addr hex = 0x8000
     + ((push_bit 12 (ucast (hex ! 3) AND 7))
        OR (push_bit 8 (ucast (hex ! 5) AND 7))
        OR (push_bit 8 (ucast (hex ! 4) AND 8))
        OR (push_bit 4 (ucast (hex ! 2) AND 7))
        OR (push_bit 4 (ucast (hex ! 1) AND 8))
        OR (ucast (hex ! 4) AND 7)
        OR (ucast (hex ! 3) AND 8))"

definition genie_data :: "u8 list \<Rightarrow> u8" where
  "genie_data hex =
     (if length hex = 6
      then push_bit 4 (hex ! 1 AND 7) OR push_bit 4 (hex ! 0 AND 8) OR (hex ! 0 AND 7) OR (hex ! 5 AND 8)
      else push_bit 4 (hex ! 1 AND 7) OR push_bit 4 (hex ! 0 AND 8) OR (hex ! 0 AND 7) OR (hex ! 7 AND 8))"

definition genie_compare :: "u8 list \<Rightarrow> u8 option" where
  "genie_compare hex =
     (if length hex = 8
      then Some (push_bit 4 (hex ! 7 AND 7) OR push_bit 4 (hex ! 6 AND 8) OR (hex ! 6 AND 7) OR (hex ! 5 AND 8))
      else None)"

definition genie_new :: "string \<Rightarrow> genie_error + genie_code" where
  "genie_new code =
     (if length code \<noteq> 6 \<and> length code \<noteq> 8 then Inl (InvalidGenieCode code)
      else case genie_hex code of
        None \<Rightarrow> Inl (InvalidGenieCode code)
      | Some hex \<Rightarrow> Inr \<lparr>gc_code = code, gc_addr = genie_addr hex, gc_data = genie_data hex,
                       gc_compare = genie_compare hex\<rparr>)"

definition genie_read :: "genie_code \<Rightarrow> u8 \<Rightarrow> u8" where
  "genie_read g val =
     (case gc_compare g of
        Some compare \<Rightarrow> if val = compare then gc_data g else val
      | None \<Rightarrow> gc_data g)"

section \<open>Which codes are accepted\<close>

lemma genie_hex_None_iff: "genie_hex cs = None \<longleftrightarrow> (\<exists>c\<in>set cs. GENIE_MAP c = None)"
  by (induction cs) (auto split: option.splits)

lemma genie_hex_length: "genie_hex cs = Some hs \<Longrightarrow> length hs = length cs"
  by (induction cs arbitrary: hs) (auto split: option.splits)

lemma genie_new_accepts:
  "(\<exists>g. genie_new code = Inr g) \<longleftrightarrow>
     (length code = 6 \<or> length code = 8) \<and> (\<forall>c\<in>set code. GENIE_MAP c \<noteq> None)"
proof -
  have "genie_hex code \<noteq> None \<longleftrightarrow> (\<forall>c\<in>set code. GENIE_MAP c \<noteq> None)"
    using genie_hex_None_iff [of code] by metis
  then show ?thesis by (auto simp: genie_new_def split: option.splits)
qed

lemma genie_new_InrD:
  assumes "genie_new code = Inr g"
  obtains hex where "genie_hex code = Some hex" "length hex = length code"
    "length code = 6 \<or> length code = 8" "gc_code g = code" "gc_addr g = genie_addr hex"
    "gc_data g = genie_data hex" "gc_compare g = genie_compare hex"
  using assms by (auto simp: genie_new_def dest: genie_hex_length split: option.splits if_splits)

section \<open>The address is a PRG-ROM address\<close>

lemma genie_addr_or:
  "genie_addr hex = 0x8000 OR
     ((push_bit 12 (ucast (hex ! 3) AND 7))
        OR (push_bit 8 (ucast (hex ! 5) AND 7))
        OR (push_bit 8 (ucast (hex ! 4) AND 8))
        OR (push_bit 4 (ucast (hex ! 2) AND 7))
        OR (push_bit 4 (ucast (hex ! 1) AND 8))
        OR (ucast (hex ! 4) AND 7)
        OR (ucast (hex ! 3) AND 8))"
  unfolding genie_addr_def
  by (rule disjunctive_add_eq_or, rule u16_eqI; simp add: bit_simps)

lemma genie_addr_rom: "0x8000 \<le> unat (genie_addr hex)"
proof -
  have "(0x8000 :: u16) \<le> 0x8000 OR x" for x
    by (rule le_word_or2)
  then show ?thesis
    unfolding genie_addr_or by (simp add: word_le_nat_alt)
qed

section \<open>A reference encoder\<close>

text \<open>
  The published layout of a code, read from the address and the data to the digits. Bit 3 of
  the third digit only records the length of the code.
\<close>

definition genie_digits :: "u16 \<Rightarrow> u8 \<Rightarrow> u8 option \<Rightarrow> u8 list" where
  "genie_digits addr data cmp =
     (let n0 = (data AND 7) OR (drop_bit 4 data AND 8);
          n1 = (drop_bit 4 data AND 7) OR (ucast (drop_bit 4 addr) AND 8);
          n2 = (ucast (drop_bit 4 addr) AND 7) OR (if cmp = None then 0 else 8);
          n3 = (ucast (drop_bit 12 addr) AND 7) OR (ucast addr AND 8);
          n4 = (ucast addr AND 7) OR (ucast (drop_bit 8 addr) AND 8);
          hi = ucast (drop_bit 8 addr) AND 7
      in case cmp of
           None \<Rightarrow> [n0, n1, n2, n3, n4, hi OR (data AND 8)]
         | Some c \<Rightarrow> [n0, n1, n2, n3, n4, hi OR (c AND 8),
                      (c AND 7) OR (drop_bit 4 c AND 8), (drop_bit 4 c AND 7) OR (data AND 8)])"

definition genie_letter :: "u8 \<Rightarrow> char" where
  "genie_letter d = ''APZLGITYEOXUKSVN'' ! unat (d AND 15)"

definition genie_encode :: "u16 \<Rightarrow> u8 \<Rightarrow> u8 option \<Rightarrow> string" where
  "genie_encode addr data cmp = map genie_letter (genie_digits addr data cmp)"

lemma genie_map_letter:
  assumes "d AND 15 = d"
  shows "GENIE_MAP (genie_letter d) = Some d"
proof -
  have "unat (d AND 15) < 16" by (rule unat_and_less) simp
  then have "unat d < 16" by (simp add: assms)
  moreover have "GENIE_MAP (''APZLGITYEOXUKSVN'' ! k) = Some (of_nat k)" if "k < 16" for k
    using that by (simp add: less_Suc_eq numeral_eq_Suc, elim disjE; simp add: GENIE_MAP_def)
  ultimately show ?thesis by (simp add: genie_letter_def assms)
qed

lemma genie_hex_letters:
  "(\<And>d. d \<in> set ds \<Longrightarrow> d AND 15 = d) \<Longrightarrow> genie_hex (map genie_letter ds) = Some ds"
  by (induction ds) (simp_all add: genie_map_letter)

lemma genie_digits_small: "d \<in> set (genie_digits addr data cmp) \<Longrightarrow> d AND 15 = d"
  unfolding genie_digits_def Let_def
  by (cases cmp; simp; elim disjE; hypsubst; (rule u8_eqI; simp add: bit_simps))

lemma genie_addr_digits: "bit addr 15 \<Longrightarrow> genie_addr (genie_digits addr data cmp) = addr"
  unfolding genie_addr_or genie_digits_def Let_def
  by (cases cmp; simp; (rule u16_eqI; simp add: bit_simps))

lemma genie_data_digits: "genie_data (genie_digits addr data cmp) = data"
  unfolding genie_data_def genie_digits_def Let_def
  by (cases cmp; simp; (rule u8_eqI; simp add: bit_simps))

lemma genie_compare_digits: "genie_compare (genie_digits addr data cmp) = cmp"
  unfolding genie_compare_def genie_digits_def Let_def
  by (cases cmp; simp; (rule u8_eqI; simp add: bit_simps))

lemma genie_digits_length: "length (genie_digits addr data cmp) = (if cmp = None then 6 else 8)"
  by (simp add: genie_digits_def Let_def split: option.split)

end
