(* ===== verification/Mem.thy ===== *)
theory Mem
  imports Common
begin

text \<open>
  \<open>src/mem.rs\<close>: the access kinds, the RAM fill patterns and \<open>MemBanks\<close>, the bank window
  every mapper uses to turn a 16-bit bus address into an index of its ROM or RAM. The
  default methods of the \<open>Mem\<close> trait are defined over the \<open>read\<close>, \<open>peek\<close> and \<open>write\<close> of an
  implementor, which are their parameters. The random generator of \<open>RamState::Random\<close> is a
  third-party crate: it is the parameter \<open>rng\<close>, the sequence of bytes it returns.
\<close>

datatype access = AccRead | AccWrite | AccExecute | AccDummy

section \<open>Default methods of the trait\<close>

definition mem_read_u16 ::
    "('m \<Rightarrow> u16 \<Rightarrow> access \<Rightarrow> u8 \<times> 'm) \<Rightarrow> 'm \<Rightarrow> u16 \<Rightarrow> access \<Rightarrow> u16 \<times> 'm" where
  "mem_read_u16 read m addr access =
     (let (lo, m) = read m addr access;
          (hi, m) = read m (addr + 1) access
      in (u16_from_le_bytes lo hi, m))"

definition mem_peek_u16 :: "('m \<Rightarrow> u16 \<Rightarrow> access \<Rightarrow> u8) \<Rightarrow> 'm \<Rightarrow> u16 \<Rightarrow> access \<Rightarrow> u16" where
  "mem_peek_u16 peek m addr access =
     (let lo = peek m addr access;
          hi = peek m (addr + 1) access
      in u16_from_le_bytes lo hi)"

text \<open>The source writes both bytes to \<open>addr\<close>; so does the model.\<close>

definition mem_write_u16 ::
    "('m \<Rightarrow> u16 \<Rightarrow> u8 \<Rightarrow> access \<Rightarrow> 'm) \<Rightarrow> 'm \<Rightarrow> u16 \<Rightarrow> u16 \<Rightarrow> access \<Rightarrow> 'm" where
  "mem_write_u16 write m addr val access =
     (let lo = u16_lo val; hi = u16_hi val;
          m = write m addr lo access
      in write m addr hi access)"

section \<open>Fill patterns\<close>

datatype ram_state = AllZeros | AllOnes | Random

definition ram_state_as_slice :: "ram_state list" where
  "ram_state_as_slice = [AllZeros, AllOnes, Random]"

definition ram_fill :: "(nat \<Rightarrow> u8) \<Rightarrow> u8 list \<Rightarrow> ram_state \<Rightarrow> u8 list" where
  "ram_fill rng ram state =
     (case state of
        AllZeros \<Rightarrow> map (\<lambda>_. 0x00) ram
      | AllOnes \<Rightarrow> map (\<lambda>_. 0xFF) ram
      | Random \<Rightarrow> map rng [0..<length ram])"

definition ram_with_capacity :: "(nat \<Rightarrow> u8) \<Rightarrow> nat \<Rightarrow> ram_state \<Rightarrow> u8 list" where
  "ram_with_capacity rng capacity state = ram_fill rng (replicate capacity 0x00) state"

definition ram_state_from :: "nat \<Rightarrow> ram_state" where
  "ram_state_from value = (if value = 0 then AllZeros else if value = 1 then AllOnes else Random)"

fun ram_state_as_ref :: "ram_state \<Rightarrow> string" where
  "ram_state_as_ref AllZeros = ''All $00''"
| "ram_state_as_ref AllOnes = ''All $FF''"
| "ram_state_as_ref Random = ''Random''"

definition ram_state_from_str :: "string \<Rightarrow> string + ram_state" where
  "ram_state_from_str s =
     (if s = ''all_zeros'' then Inr AllZeros
      else if s = ''all_ones'' then Inr AllOnes
      else if s = ''random'' then Inr Random
      else Inl ''invalid RamState value. valid options: `all_zeros`, `all_ones`, or `random`'')"

lemma length_ram_fill [simp]: "length (ram_fill rng ram state) = length ram"
  by (simp add: ram_fill_def split: ram_state.split)

lemma length_ram_with_capacity [simp]: "length (ram_with_capacity rng n state) = n"
  by (simp add: ram_with_capacity_def)

lemma ram_fill_empty_iff [simp]: "ram_fill rng ram state = [] \<longleftrightarrow> ram = []"
  by (metis length_0_conv length_ram_fill)

section \<open>Memory banks\<close>

record mem_banks =
  mb_start :: nat
  mb_end :: nat
  mb_size :: nat
  mb_window :: nat
  mb_shift :: nat
  mb_mask :: nat
  mb_banks :: "nat list"
  mb_page_count :: nat

text \<open>\<open>usize::trailing_zeros\<close>.\<close>

fun trailing_zeros :: "nat \<Rightarrow> nat" where
  "trailing_zeros n = (if n = 0 then 64 else if odd n then 0 else Suc (trailing_zeros (n div 2)))"

declare trailing_zeros.simps [simp del]

lemma trailing_zeros_power: "trailing_zeros (2 ^ k) = k"
  by (induction k) (simp_all add: trailing_zeros.simps)

definition mb_new :: "nat \<Rightarrow> nat \<Rightarrow> nat \<Rightarrow> nat \<Rightarrow> mem_banks" where
  "mb_new start en capacity window =
     (let size = en - start;
          banks = map (\<lambda>i. i * window) [0..<(size + 1) div window];
          page_count = max 1 (capacity div window)
      in \<lparr>mb_start = start, mb_end = en, mb_size = size, mb_window = window,
          mb_shift = trailing_zeros window, mb_mask = page_count - 1,
          mb_banks = banks, mb_page_count = page_count\<rparr>)"

text \<open>The debug assertion of \<open>set\<close> and \<open>set_range\<close> is not part of these definitions, which are those of
  a release build; \<open>mb_bounded\<close> below states it.\<close>

definition mb_set :: "mem_banks \<Rightarrow> nat \<Rightarrow> nat \<Rightarrow> mem_banks option" where
  "mb_set b slot bank =
     do { banks \<leftarrow> vec_set (mb_banks b) slot (push_bit (mb_shift b) (bank AND mb_mask b));
          Some (b\<lparr>mb_banks := banks\<rparr>) }"

fun mb_set_slots :: "nat list \<Rightarrow> nat \<Rightarrow> mem_banks \<Rightarrow> mem_banks option" where
  "mb_set_slots [] new_addr b = Some b"
| "mb_set_slots (slot # slots) new_addr b =
     do { banks \<leftarrow> vec_set (mb_banks b) slot new_addr;
          mb_set_slots slots (new_addr + mb_window b) (b\<lparr>mb_banks := banks\<rparr>) }"

definition mb_set_range :: "mem_banks \<Rightarrow> nat \<Rightarrow> nat \<Rightarrow> nat \<Rightarrow> mem_banks option" where
  "mb_set_range b start en bank =
     mb_set_slots [start..<Suc en] (push_bit (mb_shift b) (bank AND mb_mask b)) b"

definition mb_last :: "mem_banks \<Rightarrow> nat" where
  "mb_last b = mb_page_count b - 1"

definition mb_get_bank :: "mem_banks \<Rightarrow> u16 \<Rightarrow> nat" where
  "mb_get_bank b addr = drop_bit (mb_shift b) (unat addr AND mb_size b)"

definition mb_translate :: "mem_banks \<Rightarrow> u16 \<Rightarrow> nat option" where
  "mb_translate b addr =
     do { page \<leftarrow> vec_get (mb_banks b) (mb_get_bank b addr);
          Some (page OR (unat addr AND (mb_window b - 1))) }"

section \<open>Well-formed bank windows\<close>

text \<open>
  \<open>mb_wf\<close> is what \<open>MemBanks::new\<close> establishes: the window is a power of two, the slots
  cover the address range exactly and every slot starts at a multiple of the window.
  \<open>mb_bounded\<close> is what the \<open>debug_assert!\<close> of \<open>set\<close> and \<open>set_range\<close> states: no slot
  starts past the last page.
\<close>

definition mb_wf :: "mem_banks \<Rightarrow> bool" where
  "mb_wf b \<longleftrightarrow> mb_window b = 2 ^ mb_shift b
     \<and> mb_size b + 1 = length (mb_banks b) * mb_window b
     \<and> 0 < mb_page_count b \<and> mb_mask b = mb_page_count b - 1
     \<and> (\<forall>x\<in>set (mb_banks b). mb_window b dvd x)"

definition mb_bounded :: "mem_banks \<Rightarrow> bool" where
  "mb_bounded b \<longleftrightarrow> (\<forall>x\<in>set (mb_banks b). x < mb_page_count b * mb_window b)"

definition mb_ok :: "mem_banks \<Rightarrow> bool" where
  "mb_ok b \<longleftrightarrow> mb_wf b \<and> mb_bounded b"

lemma mb_new_simps [simp]:
  "mb_page_count (mb_new start en cap w) = max 1 (cap div w)"
  "mb_window (mb_new start en cap w) = w"
  "mb_size (mb_new start en cap w) = en - start"
  "mb_shift (mb_new start en cap w) = trailing_zeros w"
  "mb_mask (mb_new start en cap w) = max 1 (cap div w) - 1"
  "mb_banks (mb_new start en cap w) = map (\<lambda>i. i * w) [0..<(en - start + 1) div w]"
  by (simp_all add: mb_new_def Let_def)

lemma mb_new_wf:
  assumes "w = 2 ^ k" and "w dvd en - start + 1"
  shows "mb_wf (mb_new start en cap w)"
  using assms by (auto simp: mb_wf_def trailing_zeros_power)

lemma mb_new_bounded:
  assumes "0 < w" and "en - start + 1 \<le> cap \<or> en - start + 1 = w"
  shows "mb_bounded (mb_new start en cap w)"
proof -
  have "i * w < max 1 (cap div w) * w" if "i < (en - start + 1) div w" for i
  proof -
    have "(en - start + 1) div w \<le> max 1 (cap div w)"
      using assms by (auto intro: le_trans [OF div_le_mono])
    with that have "i < max 1 (cap div w)" by simp
    with assms(1) show ?thesis by simp
  qed
  then show ?thesis by (auto simp: mb_bounded_def)
qed

lemma mb_new_ok:
  "w = 2 ^ k \<Longrightarrow> w dvd en - start + 1 \<Longrightarrow> en - start + 1 \<le> cap \<or> en - start + 1 = w
     \<Longrightarrow> mb_ok (mb_new start en cap w)"
  by (simp add: mb_ok_def mb_new_wf mb_new_bounded)

section \<open>Switching a slot\<close>

text \<open>\<open>mb_put\<close> is the state after a \<open>set\<close> that does not panic.\<close>

definition mb_put :: "mem_banks \<Rightarrow> nat \<Rightarrow> nat \<Rightarrow> mem_banks" where
  "mb_put b slot bank =
     b\<lparr>mb_banks := (mb_banks b)[slot := (bank AND mb_mask b) * 2 ^ mb_shift b]\<rparr>"

lemma mb_put_frame [simp]:
  "length (mb_banks (mb_put b s n)) = length (mb_banks b)"
  "mb_page_count (mb_put b s n) = mb_page_count b" "mb_window (mb_put b s n) = mb_window b"
  "mb_size (mb_put b s n) = mb_size b" "mb_shift (mb_put b s n) = mb_shift b"
  "mb_mask (mb_put b s n) = mb_mask b" "mb_start (mb_put b s n) = mb_start b"
  "mb_end (mb_put b s n) = mb_end b"
  by (simp_all add: mb_put_def)

lemma mb_get_bank_put [simp]: "mb_get_bank (mb_put b s n) a = mb_get_bank b a"
  by (simp add: mb_get_bank_def)

lemma mb_last_put [simp]: "mb_last (mb_put b s n) = mb_last b"
  by (simp add: mb_last_def)

lemma mb_set_put: "s < length (mb_banks b) \<Longrightarrow> mb_set b s n = Some (mb_put b s n)"
  by (simp add: mb_set_def mb_put_def push_bit_eq_mult)

lemma mb_wf_banks_update:
  "mb_wf b \<Longrightarrow> length xs = length (mb_banks b) \<Longrightarrow> (\<And>x. x \<in> set xs \<Longrightarrow> mb_window b dvd x)
     \<Longrightarrow> mb_wf (b\<lparr>mb_banks := xs\<rparr>)"
  by (simp add: mb_wf_def)

lemma mb_and_mask_less: "mb_wf b \<Longrightarrow> n AND mb_mask b < mb_page_count b"
  using nat_and_le2 [of n "mb_mask b"] by (auto simp: mb_wf_def)

lemma mb_wf_put [wf_intros, simp]:
  assumes "mb_wf b"
  shows "mb_wf (mb_put b s n)"
  unfolding mb_put_def
proof (rule mb_wf_banks_update [OF assms])
  fix x assume "x \<in> set ((mb_banks b)[s := (n AND mb_mask b) * 2 ^ mb_shift b])"
  then have "x = (n AND mb_mask b) * mb_window b \<or> x \<in> set (mb_banks b)"
    using set_update_subset_insert assms by (fastforce simp: mb_wf_def)
  then show "mb_window b dvd x"
    using assms by (auto simp: mb_wf_def)
qed simp

lemma mb_ok_put [wf_intros, simp]:
  assumes "mb_ok b"
  shows "mb_ok (mb_put b s n)"
proof -
  have wf: "mb_wf b" and bd: "mb_bounded b" using assms by (simp_all add: mb_ok_def)
  have "x < mb_page_count b * mb_window b" if "x \<in> set (mb_banks (mb_put b s n))" for x
  proof -
    from that have "x = (n AND mb_mask b) * mb_window b \<or> x \<in> set (mb_banks b)"
      using set_update_subset_insert wf by (fastforce simp: mb_put_def mb_wf_def)
    then show ?thesis
      using mb_and_mask_less [OF wf, of n] wf bd by (auto simp: mb_wf_def mb_bounded_def)
  qed
  with wf show ?thesis by (simp add: mb_ok_def mb_bounded_def)
qed

section \<open>Switching a range of slots\<close>

text \<open>The banks after a \<open>set_range\<close> that does not panic.\<close>

fun mb_fill :: "nat list \<Rightarrow> nat \<Rightarrow> nat \<Rightarrow> nat list \<Rightarrow> nat list" where
  "mb_fill [] a w xs = xs"
| "mb_fill (s # ss) a w xs = mb_fill ss (a + w) w (xs[s := a])"

definition mb_put_range :: "mem_banks \<Rightarrow> nat \<Rightarrow> nat \<Rightarrow> nat \<Rightarrow> mem_banks" where
  "mb_put_range b s en n =
     b\<lparr>mb_banks := mb_fill [s..<Suc en] ((n AND mb_mask b) * 2 ^ mb_shift b) (mb_window b) (mb_banks b)\<rparr>"

lemma length_mb_fill [simp]: "length (mb_fill ss a w xs) = length xs"
  by (induction ss a w xs rule: mb_fill.induct) simp_all

lemma set_mb_fill:
  "x \<in> set (mb_fill ss a w xs) \<Longrightarrow> x \<in> set xs \<or> (\<exists>i<length ss. x = a + i * w)"
proof (induction ss a w xs rule: mb_fill.induct)
  case (1 a w xs)
  then show ?case by simp
next
  case (2 s ss a w xs)
  then consider "x \<in> set (xs[s := a])" | i where "i < length ss" "x = a + w + i * w" by auto
  then show ?case
  proof cases
    case 1
    then have "x = a \<or> x \<in> set xs" using set_update_subset_insert by fastforce
    then show ?thesis by auto
  next
    case (2 i)
    then show ?thesis by (intro disjI2 exI [of _ "Suc i"]) simp
  qed
qed

lemma mb_set_slots_fill:
  "(\<And>s. s \<in> set ss \<Longrightarrow> s < length (mb_banks b)) \<Longrightarrow>
   mb_set_slots ss a b = Some (b\<lparr>mb_banks := mb_fill ss a (mb_window b) (mb_banks b)\<rparr>)"
  by (induction ss arbitrary: a b) simp_all

lemma mb_set_range_put:
  "en < length (mb_banks b) \<Longrightarrow> mb_set_range b s en n = Some (mb_put_range b s en n)"
  unfolding mb_set_range_def mb_put_range_def push_bit_eq_mult
  by (rule mb_set_slots_fill) (auto simp del: upt_Suc)

lemma mb_put_range_frame [simp]:
  "length (mb_banks (mb_put_range b s en n)) = length (mb_banks b)"
  "mb_page_count (mb_put_range b s en n) = mb_page_count b"
  "mb_window (mb_put_range b s en n) = mb_window b"
  "mb_size (mb_put_range b s en n) = mb_size b" "mb_shift (mb_put_range b s en n) = mb_shift b"
  "mb_mask (mb_put_range b s en n) = mb_mask b" "mb_start (mb_put_range b s en n) = mb_start b"
  "mb_end (mb_put_range b s en n) = mb_end b"
  by (simp_all add: mb_put_range_def)

lemma mb_get_bank_put_range [simp]: "mb_get_bank (mb_put_range b s en n) a = mb_get_bank b a"
  by (simp add: mb_get_bank_def)

lemma mb_last_put_range [simp]: "mb_last (mb_put_range b s en n) = mb_last b"
  by (simp add: mb_last_def)

lemma mb_wf_put_range [wf_intros, simp]:
  assumes "mb_wf b"
  shows "mb_wf (mb_put_range b s en n)"
  unfolding mb_put_range_def
  by (rule mb_wf_banks_update [OF assms]) (use assms in \<open>auto simp: mb_wf_def dest!: set_mb_fill\<close>)

text \<open>The slots stay inside the pages when the range does: the last slot gets page
  \<open>(n AND mask) + (en - s)\<close>.\<close>

lemma mb_ok_put_range [wf_intros, simp]:
  assumes ok: "mb_ok b" and fit: "(n AND mb_mask b) + (en - s) < mb_page_count b"
  shows "mb_ok (mb_put_range b s en n)"
proof -
  have wf: "mb_wf b" and bd: "mb_bounded b" using ok by (simp_all add: mb_ok_def)
  have "x < mb_page_count b * mb_window b" if "x \<in> set (mb_banks (mb_put_range b s en n))" for x
  proof -
    have w: "mb_window b = 2 ^ mb_shift b" using wf by (simp add: mb_wf_def)
    from that consider "x \<in> set (mb_banks b)"
      | i where "i < Suc en - s" "x = (n AND mb_mask b) * mb_window b + i * mb_window b"
      unfolding mb_put_range_def w by (auto simp del: upt_Suc dest!: set_mb_fill)
    then show ?thesis
    proof cases
      case 1
      with bd show ?thesis by (simp add: mb_bounded_def)
    next
      case (2 i)
      from 2(1) have "(n AND mb_mask b) + i \<le> (n AND mb_mask b) + (en - s)" by simp
      with fit have "(n AND mb_mask b) + i < mb_page_count b" by linarith
      then show ?thesis
        unfolding 2(2) using wf by (simp add: mb_wf_def flip: add_mult_distrib)
    qed
  qed
  with wf show ?thesis by (simp add: mb_ok_def mb_bounded_def)
qed

section \<open>Translating an address\<close>

lemma mb_get_bank_less [simp]: "mb_wf b \<Longrightarrow> mb_get_bank b a < length (mb_banks b)"
proof -
  assume wf: "mb_wf b"
  then have w: "mb_window b = 2 ^ mb_shift b" "0 < mb_window b" by (simp_all add: mb_wf_def)
  have "unat a AND mb_size b < length (mb_banks b) * mb_window b"
    using nat_and_le2 [of "unat a" "mb_size b"] wf by (auto simp only: mb_wf_def)
  then show ?thesis
    using w by (simp add: mb_get_bank_def drop_bit_eq_div less_mult_imp_div_less)
qed

lemma nat_or_aligned:
  fixes p o' :: nat
  assumes "2 ^ k dvd p" and "o' < 2 ^ k"
  shows "p OR o' = p + o'"
proof -
  obtain q where q: "p = push_bit k q" using assms(1) by (auto simp: push_bit_eq_mult mult.commute)
  have "o' = take_bit k o'" using assms(2) by (simp add: take_bit_nat_eq_self)
  then have "\<not> bit p n \<or> \<not> bit o' n" for n
    using q by (metis bit_push_bit_iff_nat bit_take_bit_iff not_le)
  then have "p AND o' = 0" by (auto simp: bit_eq_iff bit_simps)
  then show ?thesis by (simp add: disjunctive_add_eq_or)
qed

lemma mb_translate_eq:
  assumes "mb_wf b"
  shows "mb_translate b a = Some (mb_banks b ! mb_get_bank b a + unat a mod mb_window b)"
proof -
  have w: "mb_window b = 2 ^ mb_shift b" using assms by (simp add: mb_wf_def)
  have "2 ^ mb_shift b dvd mb_banks b ! mb_get_bank b a"
    using assms w mb_get_bank_less [OF assms, of a] by (auto simp: mb_wf_def)
  then show ?thesis
    using assms by (simp add: mb_translate_def w nat_and_mask nat_or_aligned flip: One_nat_def)
qed

lemma mb_translate_in_range:
  assumes "mb_ok b"
  shows "returns (mb_translate b a) (\<lambda>i. i < mb_page_count b * mb_window b)"
proof -
  have wf: "mb_wf b" and bd: "mb_bounded b" using assms by (simp_all add: mb_ok_def)
  have "mb_banks b ! mb_get_bank b a \<in> set (mb_banks b)" (is "?x \<in> _") using wf by simp
  then have "?x < mb_page_count b * mb_window b" and "mb_window b dvd ?x"
    using wf bd by (auto simp: mb_wf_def mb_bounded_def)
  then obtain q where "?x = q * mb_window b" "q < mb_page_count b"
    by (auto simp: dvd_def mult.commute)
  moreover have "unat a mod mb_window b < mb_window b" using wf by (simp add: mb_wf_def)
  ultimately have "?x + unat a mod mb_window b < Suc q * mb_window b" by simp
  also have "\<dots> \<le> mb_page_count b * mb_window b"
    using \<open>q < mb_page_count b\<close> by (intro mult_le_mono1) simp
  finally show ?thesis using wf by (simp add: mb_translate_eq)
qed

lemma mb_translate_put:
  assumes "mb_wf b" and "s < length (mb_banks b)"
  shows "mb_translate (mb_put b s n) a =
    (if mb_get_bank b a = s
     then Some ((n AND mb_mask b) * mb_window b + unat a mod mb_window b)
     else mb_translate b a)"
  using assms by (simp add: mb_translate_eq) (simp add: mb_put_def mb_wf_def)

section \<open>The bank window as an interface\<close>

text \<open>
  What a mapper relies on: a window whose accesses always land inside the memory of
  \<open>capacity\<close> bytes behind it, and a switch of one slot that moves that slot's accesses to the
  chosen bank and no other access.
\<close>

locale bank_window =
  fixes ok :: "'b \<Rightarrow> bool"
    and slots :: "'b \<Rightarrow> nat" and pages :: "'b \<Rightarrow> nat" and window :: "'b \<Rightarrow> nat"
    and slot_of :: "'b \<Rightarrow> u16 \<Rightarrow> nat"
    and switch :: "'b \<Rightarrow> nat \<Rightarrow> nat \<Rightarrow> 'b option"
    and translate :: "'b \<Rightarrow> u16 \<Rightarrow> nat option"
  assumes translate_in: "ok b \<Longrightarrow> returns (translate b a) (\<lambda>i. i < pages b * window b)"
    and switch_ok: "ok b \<Longrightarrow> s < slots b \<Longrightarrow>
      returns (switch b s n) (\<lambda>b'. ok b' \<and> slots b' = slots b \<and> pages b' = pages b
        \<and> window b' = window b \<and> slot_of b' = slot_of b)"
    and switch_same: "ok b \<Longrightarrow> switch b s n = Some b' \<Longrightarrow> n < pages b \<Longrightarrow> pages b = 2 ^ k
      \<Longrightarrow> slot_of b a = s \<Longrightarrow> translate b' a = Some (n * window b + unat a mod window b)"
    and switch_other: "ok b \<Longrightarrow> switch b s n = Some b' \<Longrightarrow> slot_of b a \<noteq> s
      \<Longrightarrow> translate b' a = translate b a"
begin

text \<open>Any sequence of switches inside the slots keeps every access inside the memory.\<close>

fun switches :: "'b \<Rightarrow> (nat \<times> nat) list \<Rightarrow> 'b option" where
  "switches b [] = Some b"
| "switches b ((s, n) # ss) = do { b' \<leftarrow> switch b s n; switches b' ss }"

lemma switches_ok:
  "ok b \<Longrightarrow> (\<And>s n. (s, n) \<in> set ss \<Longrightarrow> s < slots b) \<Longrightarrow>
   returns (switches b ss) (\<lambda>b'. ok b' \<and> slots b' = slots b \<and> pages b' = pages b
     \<and> window b' = window b \<and> slot_of b' = slot_of b)"
proof (induction ss arbitrary: b)
  case Nil
  then show ?case by simp
next
  case (Cons p ss)
  obtain s n where p: "p = (s, n)" by force
  then have "s < slots b" using Cons.prems(2) [of s n] by simp
  from returnsD [OF switch_ok [OF Cons.prems(1) this, of n]] obtain b' where
    b': "switch b s n = Some b'" "ok b'" "slots b' = slots b" "pages b' = pages b"
      "window b' = window b" "slot_of b' = slot_of b" by blast
  have "returns (switches b' ss) (\<lambda>c. ok c \<and> slots c = slots b' \<and> pages c = pages b'
     \<and> window c = window b' \<and> slot_of c = slot_of b')"
    by (rule Cons.IH [OF b'(2)]) (use Cons.prems(2) b'(3) in \<open>auto simp: p\<close>)
  with b' p show ?case by simp
qed

lemma switches_in_range:
  assumes "ok b" and "\<And>s n. (s, n) \<in> set ss \<Longrightarrow> s < slots b"
  shows "returns (switches b ss) (\<lambda>b'. returns (translate b' a) (\<lambda>i. i < pages b * window b))"
proof (rule returns_mono [OF switches_ok [OF assms]])
  fix b' assume "ok b' \<and> slots b' = slots b \<and> pages b' = pages b \<and> window b' = window b
    \<and> slot_of b' = slot_of b"
  then show "returns (translate b' a) (\<lambda>i. i < pages b * window b)"
    using translate_in [of b' a] by simp
qed

end

lemma nat_and_pages: "n < 2 ^ k \<Longrightarrow> n AND (2 ^ k - 1) = (n :: nat)"
  using nat_and_mask [of n k] by (simp only: mod_less)

interpretation banks: bank_window mb_ok "\<lambda>b. length (mb_banks b)" mb_page_count mb_window
  mb_get_bank mb_set mb_translate
proof
  fix b a
  show "mb_ok b \<Longrightarrow> returns (mb_translate b a) (\<lambda>i. i < mb_page_count b * mb_window b)"
    by (rule mb_translate_in_range)
next
  fix b s n
  assume "mb_ok b" "s < length (mb_banks b)"
  then show "returns (mb_set b s n) (\<lambda>b'. mb_ok b' \<and> length (mb_banks b') = length (mb_banks b)
      \<and> mb_page_count b' = mb_page_count b \<and> mb_window b' = mb_window b
      \<and> mb_get_bank b' = mb_get_bank b)"
    by (simp add: mb_set_put fun_eq_iff)
next
  fix b s n b' k a
  assume ok: "mb_ok b" and b': "mb_set b s n = Some b'" and n: "n < mb_page_count b"
    and k: "mb_page_count b = 2 ^ k" and a: "mb_get_bank b a = s"
  have wf: "mb_wf b" using ok by (simp add: mb_ok_def)
  then have s: "s < length (mb_banks b)" using mb_get_bank_less a by blast
  then have "b' = mb_put b s n" using b' by (simp add: mb_set_put)
  moreover have "n AND mb_mask b = n"
    using wf n nat_and_pages [of n k] unfolding mb_wf_def k by metis
  ultimately show "mb_translate b' a = Some (n * mb_window b + unat a mod mb_window b)"
    by (simp add: mb_translate_put [OF wf s] a)
next
  fix b s n b' a
  assume ok: "mb_ok b" and b': "mb_set b s n = Some b'" and a: "mb_get_bank b a \<noteq> s"
  from b' have s: "s < length (mb_banks b)" by (auto simp: mb_set_def bind_Some_iff vec_set_Some_iff)
  then have "b' = mb_put b s n" using b' by (simp add: mb_set_put)
  then show "mb_translate b' a = mb_translate b a"
    using ok a by (simp add: mb_ok_def mb_translate_put s)
qed

lemma mb_new_slots:
  assumes "w = 2 ^ k" and "w dvd en - start + 1" and "0 < w"
  shows "length (mb_banks (mb_new start en cap w)) * w = en - start + 1"
  using assms by simp

end
