(* ===== verification/GenieMemProps.thy ===== *)
theory GenieMemProps
  imports Genie Mem
begin

text \<open>Properties of the Game Genie decoder and of the bank windows.\<close>

section \<open>Game Genie\<close>

text \<open>\<open>GenieCode::new\<close> accepts exactly the strings of six or eight letters of the Game Genie
  alphabet; every accepted code patches an address of the PRG-ROM half of the bus, has a
  compare byte exactly if it has eight letters, and its \<open>read\<close> replaces a byte exactly when there
  is no compare byte or it matches.\<close>

theorem genie_new_spec:
  "((\<exists>g. genie_new code = Inr g) \<longleftrightarrow>
     (length code = 6 \<or> length code = 8) \<and> set code \<subseteq> dom GENIE_MAP)
   \<and> (case genie_new code of
        Inl e \<Rightarrow> e = InvalidGenieCode code
      | Inr g \<Rightarrow> gc_code g = code \<and> 0x8000 \<le> unat (gc_addr g)
          \<and> (gc_compare g = None \<longleftrightarrow> length code = 6)
          \<and> genie_read g v = (if gc_compare g = None \<or> gc_compare g = Some v then gc_data g else v))"
proof -
  have "set code \<subseteq> dom GENIE_MAP \<longleftrightarrow> (\<forall>c\<in>set code. GENIE_MAP c \<noteq> None)" by auto
  then have "(\<exists>g. genie_new code = Inr g) \<longleftrightarrow>
     (length code = 6 \<or> length code = 8) \<and> set code \<subseteq> dom GENIE_MAP"
    using genie_new_accepts [of code] by simp
  moreover have "e = InvalidGenieCode code" if "genie_new code = Inl e" for e
    using that by (auto simp: genie_new_def split: if_splits option.splits)
  moreover have "gc_code g = code \<and> 0x8000 \<le> unat (gc_addr g)
      \<and> (gc_compare g = None \<longleftrightarrow> length code = 6)
      \<and> genie_read g v = (if gc_compare g = None \<or> gc_compare g = Some v then gc_data g else v)"
    if "genie_new code = Inr g" for g
    using that
    by (rule genie_new_InrD)
      (auto simp: genie_addr_rom genie_compare_def genie_read_def split: option.split)
  ultimately show ?thesis by (auto split: sum.split)
qed

text \<open>Decoding inverts the published encoding: for every PRG-ROM address, byte and optional
  compare byte, the code that the layout of the Game Genie assigns to them decodes to exactly
  that address, byte and compare byte.\<close>

theorem genie_decode_encode:
  assumes "bit addr 15"
  shows "genie_new (genie_encode addr data cmp) =
    Inr \<lparr>gc_code = genie_encode addr data cmp, gc_addr = addr, gc_data = data, gc_compare = cmp\<rparr>"
  using genie_hex_letters [of "genie_digits addr data cmp"] genie_digits_small [of _ addr data cmp]
  by (simp add: genie_new_def genie_encode_def genie_digits_length genie_addr_digits assms
      genie_data_digits genie_compare_digits)

theorem genie_decode_encode_witness:
  "genie_new (genie_encode 0x91D9 0xAD None) =
    Inr \<lparr>gc_code = ''SXIOPO'', gc_addr = 0x91D9, gc_data = 0xAD, gc_compare = None\<rparr>"
proof -
  have "genie_encode 0x91D9 0xAD None = ''SXIOPO''"
    by (simp add: genie_encode_def genie_digits_def genie_letter_def Let_def)
  then show ?thesis using genie_decode_encode [of "0x91D9" "0xAD" None] by simp
qed

section \<open>Bank windows\<close>

text \<open>The switches of a bank window: one slot, or a range of slots that get consecutive banks. A switch
  fits when its slots exist and its last bank is one of the pages.\<close>

datatype bank_switch = SwitchSlot nat nat | SwitchRange nat nat nat

fun apply_switch :: "mem_banks \<Rightarrow> bank_switch \<Rightarrow> mem_banks option" where
  "apply_switch b (SwitchSlot s n) = mb_set b s n"
| "apply_switch b (SwitchRange s e n) = mb_set_range b s e n"

fun apply_switches :: "mem_banks \<Rightarrow> bank_switch list \<Rightarrow> mem_banks option" where
  "apply_switches b [] = Some b"
| "apply_switches b (x # xs) = do { b \<leftarrow> apply_switch b x; apply_switches b xs }"

fun switch_fits :: "nat \<Rightarrow> nat \<Rightarrow> bank_switch \<Rightarrow> bool" where
  "switch_fits slots pages (SwitchSlot s n) \<longleftrightarrow> s < slots"
| "switch_fits slots pages (SwitchRange s e n) \<longleftrightarrow> e < slots \<and> (n AND (pages - 1)) + (e - s) < pages"

lemma apply_switch_ok:
  assumes ok: "mb_ok b" and fits: "switch_fits (length (mb_banks b)) (mb_page_count b) x"
  shows "returns (apply_switch b x) (\<lambda>b'. mb_ok b' \<and> length (mb_banks b') = length (mb_banks b)
    \<and> mb_page_count b' = mb_page_count b \<and> mb_window b' = mb_window b)"
proof (cases x)
  case (SwitchSlot s n)
  then show ?thesis using assms by (simp add: mb_set_put)
next
  case (SwitchRange s e n)
  have "mb_mask b = mb_page_count b - 1" using ok by (simp add: mb_ok_def mb_wf_def)
  then show ?thesis using assms SwitchRange by (simp add: mb_set_range_put)
qed

lemma apply_switches_ok:
  assumes "mb_ok b" and "\<forall>x\<in>set xs. switch_fits (length (mb_banks b)) (mb_page_count b) x"
  shows "returns (apply_switches b xs) (\<lambda>b'. mb_ok b' \<and> mb_page_count b' = mb_page_count b \<and> mb_window b' = mb_window b)"
  using assms
proof (induction xs arbitrary: b)
  case (Cons x xs)
  obtain b' where "apply_switch b x = Some b'" "mb_ok b'" "length (mb_banks b') = length (mb_banks b)"
    "mb_page_count b' = mb_page_count b" "mb_window b' = mb_window b"
    using returnsD [OF apply_switch_ok [OF Cons.prems(1)], of x] Cons.prems(2) by auto
  then show ?case using Cons.IH [of b'] Cons.prems(2) by simp
qed simp

text \<open>C40: A bank window built by \<open>MemBanks::new\<close> over a power-of-two window that divides the address
  range, with at least as much memory as addresses, keeps every access inside the whole pages of the memory
  behind it through any sequence of switches that fit: a single slot, to any bank at all, or a
  range of slots whose last bank is still a page of the memory. No such switch and no translation
  panics, and the debug assertion of \<open>set\<close> and \<open>set_range\<close>, that no slot starts past the last page,
  holds throughout. (A range that does not fit leaves the memory: the large PRG modes of the MMC5 do that.)\<close>

theorem banks_switches_in_range:
  assumes "window = 2 ^ k" and "window dvd en - start + 1" and "en - start + 1 \<le> capacity"
    and "\<forall>x\<in>set switches. switch_fits ((en - start + 1) div window) (capacity div window) x"
  shows "returns (apply_switches (mb_new start en capacity window) switches)
    (\<lambda>b. (\<forall>x\<in>set (mb_banks b). x < capacity div window * window)
       \<and> returns (mb_translate b addr) (\<lambda>i. i < capacity div window * window))"
proof -
  have ok: "mb_ok (mb_new start en capacity window)"
    by (rule mb_new_ok [OF assms(1,2)]) (use assms(3) in simp)
  have "0 < window" using assms(1) by simp
  moreover have "window \<le> capacity"
    using assms(2,3) by (meson dvd_imp_le le_trans zero_less_Suc less_add_one order_le_less_trans not_less_eq_eq zero_less_iff_neq_zero add_is_0 one_neq_zero)
  ultimately have pages: "max 1 (capacity div window) = capacity div window"
    by (simp add: div_greater_zero_iff Suc_le_eq max_absorb2)
  have "\<forall>x\<in>set switches. switch_fits (length (mb_banks (mb_new start en capacity window)))
      (mb_page_count (mb_new start en capacity window)) x"
    using assms(4) by (simp add: pages [unfolded One_nat_def])
  from apply_switches_ok [OF ok this] show ?thesis
  proof (rule returns_mono)
    fix b
    assume "mb_ok b \<and> mb_page_count b = mb_page_count (mb_new start en capacity window)
      \<and> mb_window b = mb_window (mb_new start en capacity window)"
    then show "(\<forall>x\<in>set (mb_banks b). x < capacity div window * window)
       \<and> returns (mb_translate b addr) (\<lambda>i. i < capacity div window * window)"
      using mb_translate_in_range [of b addr] by (auto simp: pages [unfolded One_nat_def] mb_ok_def mb_bounded_def)
  qed
qed

theorem banks_switches_in_range_witness:
  "returns (apply_switches (mb_new 0x8000 0xFFFF 0x20000 0x4000) [SwitchSlot 0 5, SwitchRange 0 1 6, SwitchSlot 1 9])
     (\<lambda>b. returns (mb_translate b 0x9234) (\<lambda>i. i < 0x20000))"
proof -
  have fits: "\<forall>x\<in>set [SwitchSlot 0 5, SwitchRange 0 1 6, SwitchSlot 1 9]. switch_fits ((0xFFFF - 0x8000 + 1) div 0x4000) (0x20000 div 0x4000) x"
    using nat_and_pages [of 6 3] by simp
  have "(0x4000 :: nat) = 2 ^ 14" "(0x4000 :: nat) dvd 0xFFFF - 0x8000 + 1" "0xFFFF - 0x8000 + 1 \<le> (0x20000 :: nat)"
    by simp_all
  from banks_switches_in_range [OF this fits, of "0x9234"] show ?thesis by (rule returns_mono) simp
qed

text \<open>Switching slot \<open>s\<close> to bank \<open>n\<close> (of a power-of-two number of pages) makes every address of
  that slot read page \<open>n\<close> at the address's offset, and no other address changes; a bank number
  past the last page wraps around.\<close>

theorem banks_switch_spec:
  assumes "mb_ok b" and "s < length (mb_banks b)" and "mb_page_count b = 2 ^ k"
  shows "\<exists>b'. mb_set b s n = Some b' \<and> mb_ok b'
    \<and> mb_translate b' addr =
        (if mb_get_bank b addr = s
         then Some (n mod mb_page_count b * mb_window b + unat addr mod mb_window b)
         else mb_translate b addr)"
proof -
  have wf: "mb_wf b" using assms(1) by (simp add: mb_ok_def)
  have "n AND mb_mask b = n mod mb_page_count b"
    using wf nat_and_mask [of n k] unfolding mb_wf_def assms(3) by metis
  then show ?thesis
    using assms(1) by (simp add: mb_set_put [OF assms(2)] mb_translate_put [OF wf assms(2)])
qed

theorem banks_switch_spec_witness:
  "\<exists>b'. mb_set (mb_new 0x8000 0xFFFF 0x20000 0x4000) 1 11 = Some b'
     \<and> mb_translate b' 0xC123 = Some (3 * 0x4000 + 0x123)"
proof -
  have ok: "mb_ok (mb_new 0x8000 0xFFFF 0x20000 0x4000)"
    by (rule mb_new_ok [of _ 14]) simp_all
  have "trailing_zeros 0x4000 = 14" using trailing_zeros_power [of 14] by simp
  then show ?thesis
    using banks_switch_spec [OF ok, of 1 3 11 "0xC123"]
    by (auto simp: mb_get_bank_def drop_bit_eq_div)
qed

end
