(* ===== verification/ApuUnits.thy ===== *)
theory ApuUnits
  imports Common
begin

text \<open>
  The units the sound channels are built from: \<open>src/apu/length_counter.rs\<close>,
  \<open>src/apu/envelope.rs\<close>, \<open>src/apu/sweep.rs\<close>, \<open>src/apu/linear_counter.rs\<close> and
  \<open>src/apu/frame_counter.rs\<close>. A \<open>Clock::clock\<close> is a function from the state to the new
  state, paired with its return value where a caller uses it.
\<close>

section \<open>Samples\<close>

text \<open>\<open>f32::from\<close> of a byte, which is exact.\<close>

definition f32_from :: "u8 \<Rightarrow> rat" where
  "f32_from v = of_nat (unat v)"

lemma f32_from_ge [simp]: "0 \<le> f32_from v"
  unfolding f32_from_def by (rule of_nat_0_le_iff)

lemma f32_from_le: "unat v \<le> n \<Longrightarrow> f32_from v \<le> of_nat n"
  unfolding f32_from_def by (rule of_nat_mono)

lemma f32_from_0 [simp]: "f32_from 0 = 0"
  by (simp add: f32_from_def)

section \<open>Length counter\<close>

record length_counter =
  lc_enabled :: bool
  lc_counter :: u8

definition LENGTH_TABLE :: "u8 list" where
  "LENGTH_TABLE = [10, 254, 20, 2, 40, 4, 80, 6, 160, 8, 60, 10, 14, 12, 26, 14, 12, 16, 24, 18,
     48, 20, 96, 22, 192, 24, 72, 26, 16, 28, 32, 30]"

definition lc_new :: length_counter where
  "lc_new = \<lparr>lc_enabled = False, lc_counter = 0\<rparr>"

definition lc_load_value :: "length_counter \<Rightarrow> u8 \<Rightarrow> length_counter" where
  "lc_load_value l val = l\<lparr>lc_counter := LENGTH_TABLE ! unat (drop_bit 3 val)\<rparr>"

definition lc_write_ctrl :: "length_counter \<Rightarrow> u8 \<Rightarrow> length_counter" where
  "lc_write_ctrl l val = l\<lparr>lc_enabled := drop_bit 5 val AND 1 = 0\<rparr>"

definition lc_clock :: "length_counter \<Rightarrow> nat \<times> length_counter" where
  "lc_clock l =
     (if lc_enabled l \<and> lc_counter l > 0
      then (1, l\<lparr>lc_counter := lc_counter l - 1\<rparr>)
      else (0, l))"

lemma drop_bit_3_u8_less: "unat (drop_bit 3 (val :: u8)) < 32"
  by (rule unat_drop_bit_less) simp

lemma lc_load_value_pos: "0 < lc_counter (lc_load_value l val)"
proof -
  have "\<forall>x\<in>set LENGTH_TABLE. (0::u8) < x"
    by (simp add: LENGTH_TABLE_def)
  moreover have "unat (drop_bit 3 val) < length LENGTH_TABLE"
    using drop_bit_3_u8_less [of val] by (simp add: LENGTH_TABLE_def)
  then have "LENGTH_TABLE ! unat (drop_bit 3 val) \<in> set LENGTH_TABLE"
    by (rule nth_mem)
  ultimately show ?thesis by (simp add: lc_load_value_def)
qed

lemma lc_load_value_enabled [simp]: "lc_enabled (lc_load_value l val) = lc_enabled l"
  by (simp add: lc_load_value_def)

lemma lc_write_ctrl_counter [simp]: "lc_counter (lc_write_ctrl l val) = lc_counter l"
  by (simp add: lc_write_ctrl_def)

lemma lc_clock_zero [simp]: "lc_counter l = 0 \<Longrightarrow> lc_clock l = (0, l)"
  by (simp add: lc_clock_def)

lemma lc_clock_halted [simp]: "\<not> lc_enabled l \<Longrightarrow> lc_clock l = (0, l)"
  by (simp add: lc_clock_def)

lemma lc_clock_enabled [simp]: "lc_enabled (snd (lc_clock l)) = lc_enabled l"
  by (simp add: lc_clock_def)

lemma lc_clock_counter:
  "lc_enabled l \<Longrightarrow> unat (lc_counter (snd (lc_clock l))) = unat (lc_counter l) - 1"
  by (auto simp: lc_clock_def unat_dec word_not_gt0)

text \<open>The counter runs out after exactly as many clocks as it holds.\<close>

lemma lc_clocks_counter:
  "lc_enabled l \<Longrightarrow> lc_enabled (((snd \<circ> lc_clock) ^^ n) l)
     \<and> unat (lc_counter (((snd \<circ> lc_clock) ^^ n) l)) = unat (lc_counter l) - n"
  by (induction n) (auto simp: lc_clock_counter)

section \<open>Envelope\<close>

record envelope =
  env_enabled :: bool
  env_loops :: bool
  env_reset :: bool
  env_volume :: u8
  env_constant_volume :: u8
  env_counter :: u8

definition env_new :: envelope where
  "env_new = \<lparr>env_enabled = False, env_loops = False, env_reset = False, env_volume = 0,
     env_constant_volume = 0, env_counter = 0\<rparr>"

definition env_write_ctrl :: "envelope \<Rightarrow> u8 \<Rightarrow> envelope" where
  "env_write_ctrl e val =
     e\<lparr>env_loops := drop_bit 5 val AND 1 = 1,
       env_enabled := drop_bit 4 val AND 1 = 0,
       env_constant_volume := val AND 0x0F\<rparr>"

definition env_clock :: "envelope \<Rightarrow> envelope" where
  "env_clock e =
     (if env_reset e
      then e\<lparr>env_reset := False, env_volume := 0x0F, env_counter := env_constant_volume e\<rparr>
      else if env_counter e > 0 then e\<lparr>env_counter := env_counter e - 1\<rparr>
      else let e = e\<lparr>env_counter := env_constant_volume e\<rparr>
           in if env_volume e > 0 then e\<lparr>env_volume := env_volume e - 1\<rparr>
              else if env_loops e then e\<lparr>env_volume := 0x0F\<rparr>
              else e)"

text \<open>Both volumes are four bits wide.\<close>

definition env_wf :: "envelope \<Rightarrow> bool" where
  "env_wf e \<longleftrightarrow> unat (env_volume e) \<le> 15 \<and> unat (env_constant_volume e) \<le> 15
     \<and> unat (env_counter e) \<le> 15"

lemma env_wf_new [simp, wf_intros]: "env_wf env_new"
  by (simp add: env_wf_def env_new_def)

lemma unat_and_0F [simp]: "unat (val AND 0x0F :: u8) \<le> 15"
  using unat_and_le [of val "0x0F"] by simp

lemma env_wf_write_ctrl [simp, wf_intros]: "env_wf e \<Longrightarrow> env_wf (env_write_ctrl e val)"
  by (simp add: env_wf_def env_write_ctrl_def)

lemma env_wf_reset [simp, wf_intros]: "env_wf e \<Longrightarrow> env_wf (e\<lparr>env_reset := b\<rparr>)"
  by (simp add: env_wf_def)

lemma env_wf_clock [simp, wf_intros]: "env_wf e \<Longrightarrow> env_wf (env_clock e)"
  by (auto simp: env_wf_def env_clock_def Let_def unat_dec)

definition env_out :: "envelope \<Rightarrow> u8" where
  "env_out e = (if env_enabled e then env_volume e else env_constant_volume e)"

lemma env_out_le: "env_wf e \<Longrightarrow> unat (env_out e) \<le> 15"
  by (simp add: env_wf_def env_out_def)

text \<open>A started envelope decays: from a restart, \<open>n * (V + 1) + 1\<close> clocks bring the volume
  to \<open>15 - n\<close>, where \<open>V\<close> is the constant volume used as the divider period.\<close>

lemma env_divider:
  "\<not> env_reset e \<Longrightarrow> n \<le> unat (env_counter e) \<Longrightarrow>
   (env_clock ^^ n) e = e\<lparr>env_counter := env_counter e - of_nat n\<rparr>"
proof (induction n)
  case (Suc n)
  have gt: "0 < env_counter e - of_nat n"
    using Suc.prems(2) by (simp add: word_gt0_iff unat_minus_of_nat)
  have "(env_clock ^^ Suc n) e = env_clock (e\<lparr>env_counter := env_counter e - of_nat n\<rparr>)"
    using Suc by simp
  also have "\<dots> = e\<lparr>env_counter := env_counter e - of_nat (Suc n)\<rparr>"
    using gt Suc.prems(1) by (simp add: env_clock_def algebra_simps)
  finally show ?case .
qed simp

lemma env_period:
  assumes "\<not> env_reset e" and "env_counter e = env_constant_volume e" and "0 < env_volume e"
  shows "(env_clock ^^ (unat (env_constant_volume e) + 1)) e = e\<lparr>env_volume := env_volume e - 1\<rparr>"
proof -
  have "(env_clock ^^ unat (env_counter e)) e = e\<lparr>env_counter := 0\<rparr>"
    using env_divider [OF assms(1), of "unat (env_counter e)"] by simp
  then have "(env_clock ^^ Suc (unat (env_constant_volume e))) e = env_clock (e\<lparr>env_counter := 0\<rparr>)"
    using assms(2) by simp
  then show ?thesis using assms by (simp add: env_clock_def)
qed

lemma env_decay:
  assumes "\<not> env_reset e" and "env_counter e = env_constant_volume e" and "n \<le> unat (env_volume e)"
  shows "(env_clock ^^ (n * (unat (env_constant_volume e) + 1))) e
    = e\<lparr>env_volume := env_volume e - of_nat n\<rparr>"
  using assms(3)
proof (induction n)
  case (Suc n)
  let ?p = "unat (env_constant_volume e) + 1"
  let ?e = "e\<lparr>env_volume := env_volume e - of_nat n\<rparr>"
  have pos: "0 < env_volume ?e"
    using Suc.prems by (simp add: word_gt0_iff unat_minus_of_nat)
  have "(env_clock ^^ (Suc n * ?p)) e = (env_clock ^^ ?p) ((env_clock ^^ (n * ?p)) e)"
    by (simp only: mult_Suc funpow_add comp_apply)
  also have "\<dots> = (env_clock ^^ ?p) ?e" using Suc by simp
  also have "\<dots> = ?e\<lparr>env_volume := env_volume ?e - 1\<rparr>"
    using env_period [of ?e] assms(1,2) pos by simp
  finally show ?case by (simp add: algebra_simps)
qed simp

section \<open>Sweep and linear counter\<close>

record sweep =
  sw_enabled :: bool
  sw_reload :: bool
  sw_negate :: bool
  sw_timer :: u8
  sw_counter :: u8
  sw_shift :: u8

definition sw_new :: sweep where
  "sw_new = \<lparr>sw_enabled = False, sw_reload = False, sw_negate = False, sw_timer = 0,
     sw_counter = 0, sw_shift = 0\<rparr>"

record linear_counter =
  lin_reload :: bool
  lin_control :: bool
  lin_load :: u8
  lin_counter :: u8

definition lin_new :: linear_counter where
  "lin_new = \<lparr>lin_reload = False, lin_control = False, lin_load = 0, lin_counter = 0\<rparr>"

definition lin_load_value :: "linear_counter \<Rightarrow> u8 \<Rightarrow> linear_counter" where
  "lin_load_value l val = l\<lparr>lin_load := drop_bit 1 val\<rparr>"

text \<open>The load value is bits 7 to 1 of the byte, so it is seven bits wide.\<close>

lemma lin_load_value_bits: "bit (lin_load (lin_load_value l val)) n \<longleftrightarrow> bit val (Suc n)"
  by (simp add: lin_load_value_def bit_simps)

section \<open>Frame counter\<close>

datatype fc_mode = Step4 | Step5

fun fc_mode_idx :: "fc_mode \<Rightarrow> nat" where
  "fc_mode_idx Step4 = 0"
| "fc_mode_idx Step5 = 1"

record frame_counter =
  fc_region :: nes_region
  fc_step_cycles :: "u16 list list"
  fc_cycles :: u16
  fc_step :: nat
  fc_mode :: fc_mode
  fc_write_buffer :: "u8 option"
  fc_write_delay :: u8

definition STEP_CYCLES_NTSC :: "u16 list list" where
  "STEP_CYCLES_NTSC = [[7457, 7456, 7458, 7457, 1, 1], [7457, 7456, 7458, 7458, 7452, 1]]"

definition STEP_CYCLES_PAL :: "u16 list list" where
  "STEP_CYCLES_PAL = [[8313, 8314, 8312, 8313, 1, 1], [8313, 8314, 8312, 8314, 8312, 1]]"

fun fc_region_cycles :: "nes_region \<Rightarrow> u16 list list" where
  "fc_region_cycles Ntsc = STEP_CYCLES_NTSC"
| "fc_region_cycles Dendy = STEP_CYCLES_NTSC"
| "fc_region_cycles Pal = STEP_CYCLES_PAL"

definition fc_new :: frame_counter where
  "fc_new = (let sc = fc_region_cycles Ntsc in
     \<lparr>fc_region = Ntsc, fc_step_cycles = sc, fc_cycles = sc ! 0 ! 0, fc_step = 0,
      fc_mode = Step4, fc_write_buffer = None, fc_write_delay = 0\<rparr>)"

definition fc_set_region :: "frame_counter \<Rightarrow> nes_region \<Rightarrow> frame_counter" where
  "fc_set_region f region = f\<lparr>fc_region := region, fc_step_cycles := fc_region_cycles region\<rparr>"

definition fc_period :: "frame_counter \<Rightarrow> u16" where
  "fc_period f = fc_step_cycles f ! fc_mode_idx (fc_mode f) ! fc_step f"

definition fc_clock :: "frame_counter \<Rightarrow> nat \<times> frame_counter" where
  "fc_clock f =
     (let f = (if fc_cycles f > 0 then f\<lparr>fc_cycles := fc_cycles f - 1\<rparr> else f)
      in if fc_cycles f = 0
         then let clock = fc_step f;
                  f = f\<lparr>fc_step := fc_step f + 1\<rparr>;
                  f = (if fc_step f > 5 then f\<lparr>fc_step := 0\<rparr> else f);
                  f = f\<lparr>fc_cycles := fc_period f\<rparr>
              in (clock, f)
         else (0, f))"

definition fc_reload :: "frame_counter \<Rightarrow> u8 \<Rightarrow> frame_counter" where
  "fc_reload f val =
     (let f = f\<lparr>fc_mode := (if val AND 0x80 = 0x80 then Step5 else Step4), fc_step := 0\<rparr>;
          f = f\<lparr>fc_cycles := fc_period f\<rparr>
      in if fc_mode f = Step5 then snd (fc_clock f) else f)"

definition fc_update :: "frame_counter \<Rightarrow> bool \<times> frame_counter" where
  "fc_update f =
     (case fc_write_buffer f of
        Some val \<Rightarrow>
          (let f = f\<lparr>fc_write_delay := fc_write_delay f - 1\<rparr>
           in if fc_write_delay f = 0
              then (True, (fc_reload f val)\<lparr>fc_write_buffer := None\<rparr>)
              else (False, f))
      | None \<Rightarrow> (False, f))"

definition fc_write :: "frame_counter \<Rightarrow> u8 \<Rightarrow> usize \<Rightarrow> frame_counter" where
  "fc_write f val cycle =
     f\<lparr>fc_write_buffer := Some val,
       fc_write_delay := (if cycle AND 0x01 = 0x01 then 4 else 3)\<rparr>"

definition fc_reset :: "frame_counter \<Rightarrow> kind \<Rightarrow> frame_counter" where
  "fc_reset f kind =
     (let f = (if kind = Hard then f\<lparr>fc_mode := Step4\<rparr> else f);
          f = f\<lparr>fc_step := 0\<rparr>;
          f = f\<lparr>fc_cycles := fc_period f\<rparr>
      in f\<lparr>fc_write_buffer := Some (case fc_mode f of Step4 \<Rightarrow> 0x00 | Step5 \<Rightarrow> 0x80),
          fc_write_delay := 3\<rparr>)"

text \<open>The step stays a column of the table and the table is the region's, so every period
  is looked up inside the table and is positive.\<close>

definition fc_wf :: "frame_counter \<Rightarrow> bool" where
  "fc_wf f \<longleftrightarrow> fc_step_cycles f = fc_region_cycles (fc_region f) \<and> fc_step f \<le> 5 \<and> 0 < fc_cycles f"

lemma fc_period_pos:
  assumes "fc_step_cycles f = fc_region_cycles (fc_region f)" and "fc_step f \<le> 5"
  shows "0 < fc_period f"
proof -
  have "fc_step f \<in> {0, 1, 2, 3, 4, 5}" using assms(2) by auto
  then show ?thesis
    using assms(1)
    by (cases "fc_region f"; cases "fc_mode f")
      (auto simp: fc_period_def STEP_CYCLES_NTSC_def STEP_CYCLES_PAL_def)
qed

lemma fc_period_update [simp]:
  "fc_period (f\<lparr>fc_cycles := c\<rparr>) = fc_period f"
  by (simp add: fc_period_def)

lemma fc_wf_new [simp, wf_intros]: "fc_wf fc_new"
  by (simp add: fc_wf_def fc_new_def STEP_CYCLES_NTSC_def)

lemma fc_wf_set_region [simp, wf_intros]: "fc_wf f \<Longrightarrow> fc_wf (fc_set_region f r)"
  by (simp add: fc_wf_def fc_set_region_def)

text \<open>One period: the counter counts down silently and reports its step at the last clock.\<close>

definition fc_next :: "frame_counter \<Rightarrow> frame_counter" where
  "fc_next f = (let f' = f\<lparr>fc_step := (if fc_step f \<ge> 5 then 0 else fc_step f + 1)\<rparr>
     in f'\<lparr>fc_cycles := fc_period f'\<rparr>)"

lemma fc_clock_tick: "1 < fc_cycles f \<Longrightarrow> fc_clock f = (0, f\<lparr>fc_cycles := fc_cycles f - 1\<rparr>)"
proof -
  assume a: "1 < fc_cycles f"
  then have "0 < fc_cycles f" "fc_cycles f - 1 \<noteq> 0" by (auto simp: word_less_nat_alt)
  then show ?thesis by (simp add: fc_clock_def)
qed

lemma fc_clock_last: "fc_cycles f = 1 \<Longrightarrow> fc_step f \<le> 5 \<Longrightarrow> fc_clock f = (fc_step f, fc_next f)"
  by (auto simp: fc_clock_def fc_next_def Let_def fc_period_def)

lemma fc_wf_next: "fc_wf f \<Longrightarrow> fc_wf (fc_next f)"
  by (auto simp: fc_wf_def fc_next_def Let_def intro!: fc_period_pos)

lemma fc_wf_clock [simp, wf_intros]:
  assumes wf: "fc_wf f"
  shows "fc_wf (snd (fc_clock f))"
proof (cases "fc_cycles f = 1")
  case True
  then show ?thesis
    using wf fc_wf_next [OF wf] by (simp add: fc_clock_last fc_wf_def)
next
  case False
  then have "0 < fc_cycles f - 1"
    using word_neq_0_conv [of "fc_cycles f - 1"] by auto
  with False wf show ?thesis by (auto simp: fc_clock_def fc_wf_def)
qed

lemma fc_wf_reload [simp, wf_intros]: "fc_wf f \<Longrightarrow> fc_wf (fc_reload f val)"
  by (auto simp: fc_reload_def Let_def intro!: fc_wf_clock) (auto simp: fc_wf_def intro: fc_period_pos)

lemma fc_wf_update [simp, wf_intros]: "fc_wf f \<Longrightarrow> fc_wf (snd (fc_update f))"
proof -
  assume wf: "fc_wf f"
  have "fc_wf (f\<lparr>fc_write_delay := d\<rparr>)" for d using wf by (simp add: fc_wf_def)
  then have "fc_wf (fc_reload (f\<lparr>fc_write_delay := d\<rparr>) v)" for d v by (rule fc_wf_reload)
  with wf show ?thesis by (auto simp: fc_update_def fc_wf_def Let_def split: option.split)
qed

lemma fc_wf_write [simp, wf_intros]: "fc_wf f \<Longrightarrow> fc_wf (fc_write f val cycle)"
  by (simp add: fc_wf_def fc_write_def)

lemma fc_wf_reset [simp, wf_intros]: "fc_wf f \<Longrightarrow> fc_wf (fc_reset f kind)"
  by (auto simp: fc_wf_def fc_reset_def Let_def intro: fc_period_pos)

lemma fc_clock_silent:
  "n < unat (fc_cycles f) \<Longrightarrow>
   ((snd \<circ> fc_clock) ^^ n) f = f\<lparr>fc_cycles := fc_cycles f - of_nat n\<rparr>"
proof (induction n)
  case (Suc n)
  have "1 < fc_cycles f - of_nat n"
    using Suc.prems by (simp add: word_less_nat_alt unat_minus_of_nat)
  with Suc show ?case by (simp add: fc_clock_tick algebra_simps)
qed simp

lemma fc_clock_period:
  assumes "0 < fc_cycles f" and "fc_step f \<le> 5"
  shows "((snd \<circ> fc_clock) ^^ unat (fc_cycles f)) f = fc_next f"
    and "fc_clock (((snd \<circ> fc_clock) ^^ (unat (fc_cycles f) - 1)) f) = (fc_step f, fc_next f)"
proof -
  let ?n = "unat (fc_cycles f) - 1"
  have n: "?n < unat (fc_cycles f)" using assms(1) by (simp add: word_less_nat_alt)
  have "fc_cycles f - of_nat ?n = 1"
    using assms(1) by (intro word_unat_eq_iff [THEN iffD2]) (simp add: unat_minus_of_nat word_gt0_iff)
  then have e: "((snd \<circ> fc_clock) ^^ ?n) f = f\<lparr>fc_cycles := 1\<rparr>"
    using fc_clock_silent [OF n] by simp
  have l: "fc_clock (f\<lparr>fc_cycles := 1\<rparr>) = (fc_step f, fc_next f)"
    using assms(2) fc_clock_last [of "f\<lparr>fc_cycles := 1\<rparr>"]
    by (simp add: fc_next_def Let_def fc_period_def)
  from e l show "fc_clock (((snd \<circ> fc_clock) ^^ ?n) f) = (fc_step f, fc_next f)" by simp
  have "Suc ?n = unat (fc_cycles f)" using n by simp
  then show "((snd \<circ> fc_clock) ^^ unat (fc_cycles f)) f = fc_next f"
    using e l by (metis comp_apply funpow.simps(2) snd_conv)
qed

end
