(* ===== verification/ApuPulse.thy ===== *)
theory ApuPulse
  imports ApuUnits
begin

text \<open>
  \<open>src/apu/pulse.rs\<close>: a pulse channel, and the interface \<open>apu_channel\<close> that the three
  length-counted channels share: a well-formed channel outputs at most 15, its clocks keep it
  well-formed, and once disabled its length counter stays at zero until it is enabled again.
  The \<open>f32\<close> samples of the source are small exact numbers; the model uses \<open>rat\<close>.
\<close>

section \<open>The interface of a length-counted channel\<close>

locale apu_channel =
  fixes wf :: "'c \<Rightarrow> bool" and len :: "'c \<Rightarrow> u8" and out :: "'c \<Rightarrow> rat"
    and clock :: "'c \<Rightarrow> 'c" and quarter :: "'c \<Rightarrow> 'c" and half :: "'c \<Rightarrow> 'c"
    and set_enabled :: "'c \<Rightarrow> bool \<Rightarrow> 'c"
  assumes out_le: "wf c \<Longrightarrow> 0 \<le> out c \<and> out c \<le> 15"
    and wf_clock: "wf c \<Longrightarrow> wf (clock c)" and wf_quarter: "wf c \<Longrightarrow> wf (quarter c)"
    and wf_half: "wf c \<Longrightarrow> wf (half c)" and wf_enabled: "wf c \<Longrightarrow> wf (set_enabled c b)"
    and len_clock: "len (clock c) = len c" and len_quarter: "len (quarter c) = len c"
    and len_half: "len (half c) \<le> len c"
    and len_disable: "len (set_enabled c False) = 0"
begin

text \<open>A run of a channel: any interleaving of the three clocks.\<close>

inductive ticks :: "'c \<Rightarrow> 'c \<Rightarrow> bool" where
  ticks_refl: "ticks c c"
| ticks_clock: "ticks c d \<Longrightarrow> ticks c (clock d)"
| ticks_quarter: "ticks c d \<Longrightarrow> ticks c (quarter d)"
| ticks_half: "ticks c d \<Longrightarrow> ticks c (half d)"

lemma ticks_wf: "ticks c d \<Longrightarrow> wf c \<Longrightarrow> wf d"
  by (induction rule: ticks.induct) (auto intro: wf_clock wf_quarter wf_half)

lemma ticks_out: "ticks c d \<Longrightarrow> wf c \<Longrightarrow> 0 \<le> out d \<and> out d \<le> 15"
  by (rule out_le) (rule ticks_wf)

lemma ticks_len: "ticks c d \<Longrightarrow> len d \<le> len c"
  by (induction rule: ticks.induct) (auto simp: len_clock len_quarter intro: order_trans [OF len_half])

lemma disabled_stays: "ticks (set_enabled c False) d \<Longrightarrow> len d = 0"
  using ticks_len [of "set_enabled c False" d] by (simp add: len_disable)

end

section \<open>Pulse channel\<close>

datatype pulse_channel = PulseOne | PulseTwo

datatype output_freq = DefaultFreq | Ultrasonic

record pulse =
  pl_enabled :: bool
  pl_force_silent :: bool
  pl_duty_cycle :: u8
  pl_duty_counter :: u8
  pl_freq_timer :: u16
  pl_freq_counter :: u16
  pl_channel :: pulse_channel
  pl_length :: length_counter
  pl_envelope :: envelope
  pl_sweep :: sweep
  pl_output_freq :: output_freq

definition DUTY_TABLE :: "u8 list list" where
  "DUTY_TABLE = [[0, 1, 0, 0, 0, 0, 0, 0], [0, 1, 1, 0, 0, 0, 0, 0], [0, 1, 1, 1, 1, 0, 0, 0],
     [1, 0, 0, 1, 1, 1, 1, 1]]"

definition pl_new :: "pulse_channel \<Rightarrow> output_freq \<Rightarrow> pulse" where
  "pl_new channel output_freq =
     \<lparr>pl_enabled = False, pl_force_silent = False, pl_duty_cycle = 0, pl_duty_counter = 0,
      pl_freq_timer = 0, pl_freq_counter = 0, pl_channel = channel, pl_length = lc_new,
      pl_envelope = env_new, pl_sweep = sw_new, pl_output_freq = output_freq\<rparr>"

definition pl_silent :: "pulse \<Rightarrow> bool" where
  "pl_silent p = pl_force_silent p"

definition pl_toggle_silent :: "pulse \<Rightarrow> pulse" where
  "pl_toggle_silent p = p\<lparr>pl_force_silent := \<not> pl_force_silent p\<rparr>"

definition pl_length_counter :: "pulse \<Rightarrow> u8" where
  "pl_length_counter p = lc_counter (pl_length p)"

definition pl_clock_quarter_frame :: "pulse \<Rightarrow> pulse" where
  "pl_clock_quarter_frame p = p\<lparr>pl_envelope := env_clock (pl_envelope p)\<rparr>"

definition pl_sweep_forcing_silence :: "pulse \<Rightarrow> bool" where
  "pl_sweep_forcing_silence p =
     (case pl_output_freq p of
        DefaultFreq \<Rightarrow>
          (let next_freq = pl_freq_timer p + drop_bit (unat (sw_shift (pl_sweep p))) (pl_freq_timer p)
           in pl_freq_timer p < 8 \<or> (\<not> sw_negate (pl_sweep p) \<and> next_freq \<ge> 0x800))
      | Ultrasonic \<Rightarrow> False)"

definition pl_sweep_clock :: "pulse \<Rightarrow> pulse" where
  "pl_sweep_clock p =
     (let sweep_forcing_silence = pl_sweep_forcing_silence p;
          swp = pl_sweep p
      in if sw_reload swp
         then p\<lparr>pl_sweep := swp\<lparr>sw_counter := sw_timer swp, sw_reload := False\<rparr>\<rparr>
         else if sw_counter swp > 0
         then p\<lparr>pl_sweep := swp\<lparr>sw_counter := sw_counter swp - 1\<rparr>\<rparr>
         else let swp = swp\<lparr>sw_counter := sw_timer swp\<rparr>;
                  p = p\<lparr>pl_sweep := swp\<rparr>
              in if sw_enabled swp \<and> \<not> sweep_forcing_silence
                 then let delta = drop_bit (unat (sw_shift swp)) (pl_freq_timer p)
                      in if sw_negate swp
                         then let p = p\<lparr>pl_freq_timer := pl_freq_timer p - (delta + 1)\<rparr>
                              in if pl_channel p = PulseOne
                                 then p\<lparr>pl_freq_timer := pl_freq_timer p + 1\<rparr> else p
                         else p\<lparr>pl_freq_timer := pl_freq_timer p + delta\<rparr>
                 else p)"

definition pl_clock_half_frame :: "pulse \<Rightarrow> pulse" where
  "pl_clock_half_frame p =
     (let p = pl_sweep_clock p in p\<lparr>pl_length := snd (lc_clock (pl_length p))\<rparr>)"

definition pl_output :: "pulse \<Rightarrow> rat" where
  "pl_output p =
     (if DUTY_TABLE ! unat (pl_duty_cycle p) ! unat (pl_duty_counter p) \<noteq> 0
         \<and> lc_counter (pl_length p) \<noteq> 0 \<and> \<not> pl_sweep_forcing_silence p \<and> \<not> pl_force_silent p
      then (if env_enabled (pl_envelope p) then f32_from (env_volume (pl_envelope p))
            else f32_from (env_constant_volume (pl_envelope p)))
      else 0)"

definition pl_write_ctrl :: "pulse \<Rightarrow> u8 \<Rightarrow> pulse" where
  "pl_write_ctrl p val =
     p\<lparr>pl_duty_cycle := drop_bit 6 val AND 0x03,
       pl_length := lc_write_ctrl (pl_length p) val,
       pl_envelope := env_write_ctrl (pl_envelope p) val\<rparr>"

definition pl_write_sweep :: "pulse \<Rightarrow> u8 \<Rightarrow> pulse" where
  "pl_write_sweep p val =
     p\<lparr>pl_sweep := (pl_sweep p)
       \<lparr>sw_timer := drop_bit 4 val AND 0x07, sw_negate := drop_bit 3 val AND 1 = 1,
        sw_shift := val AND 0x07,
        sw_enabled := drop_bit 7 val AND 1 = 1 \<and> val AND 0x07 \<noteq> 0, sw_reload := True\<rparr>\<rparr>"

definition pl_write_timer_lo :: "pulse \<Rightarrow> u8 \<Rightarrow> pulse" where
  "pl_write_timer_lo p val =
     p\<lparr>pl_freq_timer := (pl_freq_timer p AND 0xFF00) OR ucast val\<rparr>"

definition pl_write_timer_hi :: "pulse \<Rightarrow> u8 \<Rightarrow> pulse" where
  "pl_write_timer_hi p val =
     (let p = p\<lparr>pl_freq_timer := (pl_freq_timer p AND 0x00FF) OR push_bit 8 (ucast (val AND 0x07))\<rparr>;
          p = p\<lparr>pl_freq_counter := pl_freq_timer p, pl_duty_counter := 0,
                pl_envelope := (pl_envelope p)\<lparr>env_reset := True\<rparr>\<rparr>
      in if pl_enabled p then p\<lparr>pl_length := lc_load_value (pl_length p) val\<rparr> else p)"

definition pl_set_enabled :: "pulse \<Rightarrow> bool \<Rightarrow> pulse" where
  "pl_set_enabled p enabled =
     (let p = p\<lparr>pl_enabled := enabled\<rparr>
      in if \<not> enabled then p\<lparr>pl_length := (pl_length p)\<lparr>lc_counter := 0\<rparr>\<rparr> else p)"

definition pl_clock :: "pulse \<Rightarrow> pulse" where
  "pl_clock p =
     (if pl_freq_counter p > 0 then p\<lparr>pl_freq_counter := pl_freq_counter p - 1\<rparr>
      else p\<lparr>pl_freq_counter := pl_freq_timer p,
             pl_duty_counter := (pl_duty_counter p + 1) AND 0x07\<rparr>)"

definition pl_reset :: "pulse \<Rightarrow> kind \<Rightarrow> pulse" where
  "pl_reset p kind = pl_new (pl_channel p) DefaultFreq"

section \<open>Invariant of a pulse channel\<close>

text \<open>The duty indices are inside the table and the volumes are four bits. For the channels of
  the APU the period is 11 bits, and a sweep that is enabled has a shift of one to seven.\<close>

definition pl_wf :: "pulse \<Rightarrow> bool" where
  "pl_wf p \<longleftrightarrow> unat (pl_duty_cycle p) < 4 \<and> unat (pl_duty_counter p) < 8 \<and> env_wf (pl_envelope p)
     \<and> (pl_output_freq p = DefaultFreq \<longrightarrow> unat (pl_freq_timer p) < 0x800)
     \<and> (sw_enabled (pl_sweep p) \<longrightarrow> sw_shift (pl_sweep p) \<noteq> 0)"

lemma pl_wf_new [simp, wf_intros]: "pl_wf (pl_new ch f)"
  by (simp add: pl_wf_def pl_new_def sw_new_def)

lemma pl_wf_reset [simp, wf_intros]: "pl_wf (pl_reset p k)"
  by (simp add: pl_reset_def)

lemma pl_wf_toggle_silent [simp, wf_intros]: "pl_wf p \<Longrightarrow> pl_wf (pl_toggle_silent p)"
  by (simp add: pl_wf_def pl_toggle_silent_def)

lemma pl_wf_quarter [simp, wf_intros]: "pl_wf p \<Longrightarrow> pl_wf (pl_clock_quarter_frame p)"
  by (simp add: pl_wf_def pl_clock_quarter_frame_def)

lemma pl_wf_write_ctrl [simp, wf_intros]: "pl_wf p \<Longrightarrow> pl_wf (pl_write_ctrl p val)"
  using unat_and_le [of "drop_bit 6 val" 3] by (simp add: pl_wf_def pl_write_ctrl_def)

lemma pl_wf_write_sweep [simp, wf_intros]: "pl_wf p \<Longrightarrow> pl_wf (pl_write_sweep p val)"
  by (simp add: pl_wf_def pl_write_sweep_def)

lemma timer_lo_less:
  assumes "unat t < 0x800"
  shows "unat ((t AND 0xFF00) OR ucast (v :: u8) :: u16) < 0x800"
proof -
  have t: "t = t AND 0x7FF"
    using word_and_mask_self [of t 11] assms by (simp add: mask_eq_exp_minus_1)
  have "(t AND 0xFF00) OR ucast v = ((t AND 0xFF00) OR ucast v) AND 0x7FF"
    by (subst t, subst (2) t) (rule u16_eqI; simp add: bit_simps)
  then have "unat ((t AND 0xFF00) OR ucast v) \<le> unat (0x7FF :: u16)"
    by (metis unat_and_le)
  then show ?thesis by simp
qed

lemma timer_hi_less:
  "unat ((t AND 0x00FF) OR push_bit 8 (ucast (v AND 0x07 :: u8)) :: u16) < 0x800"
proof -
  have "(t AND 0x00FF) OR push_bit 8 (ucast (v AND 0x07))
      = ((t AND 0x00FF) OR push_bit 8 (ucast (v AND 0x07))) AND (0x7FF :: u16)"
    by (rule u16_eqI; simp add: bit_simps)
  then have "unat ((t AND 0x00FF) OR push_bit 8 (ucast (v AND 0x07))) \<le> unat (0x7FF :: u16)"
    by (metis unat_and_le)
  then show ?thesis by simp
qed

lemma pl_wf_write_timer_lo [simp, wf_intros]: "pl_wf p \<Longrightarrow> pl_wf (pl_write_timer_lo p val)"
  using timer_lo_less by (simp add: pl_wf_def pl_write_timer_lo_def)

lemma pl_wf_write_timer_hi [simp, wf_intros]: "pl_wf p \<Longrightarrow> pl_wf (pl_write_timer_hi p val)"
  using timer_hi_less [of "pl_freq_timer p" val] by (simp add: pl_wf_def pl_write_timer_hi_def Let_def)

lemma pl_wf_set_enabled [simp, wf_intros]: "pl_wf p \<Longrightarrow> pl_wf (pl_set_enabled p b)"
  by (simp add: pl_wf_def pl_set_enabled_def Let_def)

lemma pl_wf_clock [simp, wf_intros]: "pl_wf p \<Longrightarrow> pl_wf (pl_clock p)"
  using unat_and_le [of "pl_duty_counter p + 1" 7] by (simp add: pl_wf_def pl_clock_def)

text \<open>The sweep unit only moves a period inside the 11 bits: up only when the result stays
  below \<open>0x800\<close>, down by at most half of a period of at least eight.\<close>

lemma unat_shift_half: "s \<noteq> 0 \<Longrightarrow> unat (drop_bit (unat (s :: u8)) (t :: u16)) \<le> unat t div 2"
proof -
  assume "s \<noteq> 0"
  then have "1 \<le> unat s" by (simp add: unat_gt_0 Suc_le_eq)
  then have "(2::nat) ^ 1 \<le> 2 ^ unat s" by (rule power_increasing) simp
  then show ?thesis
    by (subst unat_drop_bit_eq) (simp add: drop_bit_eq_div div_le_mono2)
qed

lemma sweep_down:
  assumes "8 \<le> unat t" and "unat t < 0x800" and "unat d \<le> unat t div 2"
  shows "unat (t - (d + 1) :: u16) = unat t - (unat d + 1)"
    and "t - (d + 1) + 1 = t - d" and "unat (t - d) = unat t - unat d"
  using assms by (simp_all add: unat_sub_if' unat_plus_if')

lemma sweep_up:
  assumes "\<not> (t :: u16) + d \<ge> 0x800"
  shows "unat (t + d) < 0x800"
  using assms by (simp add: word_le_nat_alt)

lemma pl_wf_sweep_clock [simp, wf_intros]:
  assumes "pl_wf p"
  shows "pl_wf (pl_sweep_clock p)"
proof -
  let ?d = "drop_bit (unat (sw_shift (pl_sweep p))) (pl_freq_timer p)"
  have dn: "unat (pl_freq_timer p - (?d + 1)) < 0x800" "unat (pl_freq_timer p - (?d + 1) + 1) < 0x800"
    if "sw_enabled (pl_sweep p)" "\<not> pl_sweep_forcing_silence p" "pl_output_freq p = DefaultFreq"
  proof -
    have t: "8 \<le> unat (pl_freq_timer p)" "unat (pl_freq_timer p) < 0x800"
      using that assms by (simp_all add: pl_sweep_forcing_silence_def pl_wf_def Let_def word_less_nat_alt)
    have d: "unat ?d \<le> unat (pl_freq_timer p) div 2"
      using that(1) assms by (intro unat_shift_half) (simp add: pl_wf_def)
    show "unat (pl_freq_timer p - (?d + 1)) < 0x800"
      using sweep_down(1) [OF t d] t by simp
    show "unat (pl_freq_timer p - (?d + 1) + 1) < 0x800"
      using sweep_down(2,3) [OF t d] t by simp
  qed
  have up: "unat (pl_freq_timer p + ?d) < 0x800"
    if "\<not> pl_sweep_forcing_silence p" "pl_output_freq p = DefaultFreq" "\<not> sw_negate (pl_sweep p)"
    using that by (intro sweep_up) (simp add: pl_sweep_forcing_silence_def Let_def)
  show ?thesis
    using assms dn up unfolding pl_wf_def pl_sweep_clock_def Let_def by simp
qed

lemma pl_wf_half [simp, wf_intros]: "pl_wf p \<Longrightarrow> pl_wf (pl_clock_half_frame p)"
proof -
  assume "pl_wf p"
  then have "pl_wf (pl_sweep_clock p)" by simp
  then show ?thesis by (simp add: pl_wf_def pl_clock_half_frame_def Let_def)
qed

lemma pl_length_sweep [simp]: "pl_length (pl_sweep_clock p) = pl_length p"
  by (simp add: pl_sweep_clock_def Let_def)

lemma pl_output_le: "pl_wf p \<Longrightarrow> 0 \<le> pl_output p \<and> pl_output p \<le> 15"
  using f32_from_le [of _ 15] by (simp add: pl_output_def pl_wf_def env_wf_def)

lemma lc_clock_le: "lc_counter (snd (lc_clock l)) \<le> lc_counter l"
  by (auto simp: lc_clock_def word_le_nat_alt unat_dec)

lemma pl_length_counter_frame [simp]:
  "pl_length_counter (pl_clock p) = pl_length_counter p"
  "pl_length_counter (pl_clock_quarter_frame p) = pl_length_counter p"
  "pl_length_counter (pl_set_enabled p False) = 0"
  by (simp_all add: pl_length_counter_def pl_clock_def pl_clock_quarter_frame_def
      pl_set_enabled_def Let_def)

lemma pl_length_counter_half [simp]: "pl_length_counter (pl_clock_half_frame p) \<le> pl_length_counter p"
  by (simp add: pl_length_counter_def pl_clock_half_frame_def Let_def lc_clock_le)

interpretation pulse: apu_channel pl_wf pl_length_counter pl_output pl_clock
  pl_clock_quarter_frame pl_clock_half_frame pl_set_enabled
  by unfold_locales (simp_all add: pl_output_le)

end
