(* ===== verification/ApuChannels.thy ===== *)
theory ApuChannels
  imports ApuPulse
begin

text \<open>
  \<open>src/apu/triangle.rs\<close>, \<open>src/apu/noise.rs\<close> and \<open>src/apu/dmc.rs\<close>: the other channels, each
  with its invariant. Triangle and noise are instances of the channel interface.
\<close>

section \<open>Triangle\<close>

record triangle =
  tr_enabled :: bool
  tr_force_silent :: bool
  tr_ultrasonic :: bool
  tr_step :: u8
  tr_freq_timer :: u16
  tr_freq_counter :: u16
  tr_length :: length_counter
  tr_linear :: linear_counter

definition tr_new :: triangle where
  "tr_new = \<lparr>tr_enabled = False, tr_force_silent = False, tr_ultrasonic = False, tr_step = 0,
     tr_freq_timer = 0, tr_freq_counter = 0, tr_length = lc_new, tr_linear = lin_new\<rparr>"

definition tr_silent :: "triangle \<Rightarrow> bool" where
  "tr_silent t = tr_force_silent t"

definition tr_toggle_silent :: "triangle \<Rightarrow> triangle" where
  "tr_toggle_silent t = t\<lparr>tr_force_silent := \<not> tr_force_silent t\<rparr>"

definition tr_length_counter :: "triangle \<Rightarrow> u8" where
  "tr_length_counter t = lc_counter (tr_length t)"

definition tr_clock_quarter_frame :: "triangle \<Rightarrow> triangle" where
  "tr_clock_quarter_frame t =
     (let l = tr_linear t;
          l = (if lin_reload l then l\<lparr>lin_counter := lin_load l\<rparr>
               else if lin_counter l > 0 then l\<lparr>lin_counter := lin_counter l - 1\<rparr> else l);
          l = (if \<not> lin_control l then l\<lparr>lin_reload := False\<rparr> else l)
      in t\<lparr>tr_linear := l\<rparr>)"

definition tr_clock_half_frame :: "triangle \<Rightarrow> triangle" where
  "tr_clock_half_frame t = t\<lparr>tr_length := snd (lc_clock (tr_length t))\<rparr>"

definition tr_output :: "triangle \<Rightarrow> rat" where
  "tr_output t =
     (if tr_force_silent t then 0
      else if tr_ultrasonic t then 15 / 2
      else if tr_step t AND 0x10 = 0x10 then f32_from (tr_step t XOR 0x1F)
      else f32_from (tr_step t))"

definition tr_write_linear_counter :: "triangle \<Rightarrow> u8 \<Rightarrow> triangle" where
  "tr_write_linear_counter t val =
     (let t = t\<lparr>tr_linear := (tr_linear t)\<lparr>lin_control := drop_bit 7 val AND 1 = 1\<rparr>,
                tr_length := (tr_length t)\<lparr>lc_enabled := drop_bit 7 val AND 1 = 0\<rparr>\<rparr>
      in t\<lparr>tr_linear := lin_load_value (tr_linear t) val\<rparr>)"

definition tr_write_timer_lo :: "triangle \<Rightarrow> u8 \<Rightarrow> triangle" where
  "tr_write_timer_lo t val = t\<lparr>tr_freq_timer := (tr_freq_timer t AND 0xFF00) OR ucast val\<rparr>"

definition tr_write_timer_hi :: "triangle \<Rightarrow> u8 \<Rightarrow> triangle" where
  "tr_write_timer_hi t val =
     (let t = t\<lparr>tr_freq_timer := (tr_freq_timer t AND 0x00FF) OR push_bit 8 (ucast (val AND 0x07))\<rparr>;
          t = t\<lparr>tr_freq_counter := tr_freq_timer t,
                tr_linear := (tr_linear t)\<lparr>lin_reload := True\<rparr>\<rparr>
      in if tr_enabled t then t\<lparr>tr_length := lc_load_value (tr_length t) val\<rparr> else t)"

definition tr_set_enabled :: "triangle \<Rightarrow> bool \<Rightarrow> triangle" where
  "tr_set_enabled t enabled =
     (let t = t\<lparr>tr_enabled := enabled\<rparr>
      in if \<not> enabled then t\<lparr>tr_length := (tr_length t)\<lparr>lc_counter := 0\<rparr>\<rparr> else t)"

definition tr_clock :: "triangle \<Rightarrow> triangle" where
  "tr_clock t =
     (let t = t\<lparr>tr_ultrasonic := False\<rparr>;
          t = (if lc_counter (tr_length t) > 0 \<and> tr_freq_timer t < 2 \<and> tr_freq_counter t = 0
               then t\<lparr>tr_ultrasonic := True\<rparr> else t);
          should_clock = (\<not> (lc_counter (tr_length t) = 0 \<or> lin_counter (tr_linear t) = 0
                             \<or> tr_ultrasonic t))
      in if should_clock
         then if tr_freq_counter t > 0 then t\<lparr>tr_freq_counter := tr_freq_counter t - 1\<rparr>
              else t\<lparr>tr_freq_counter := tr_freq_timer t, tr_step := (tr_step t + 1) AND 0x1F\<rparr>
         else t)"

definition tr_reset :: "triangle \<Rightarrow> kind \<Rightarrow> triangle" where
  "tr_reset t kind = tr_new"

definition tr_wf :: "triangle \<Rightarrow> bool" where
  "tr_wf t \<longleftrightarrow> unat (tr_step t) < 32"

lemma tr_wf_ops [simp, wf_intros]:
  "tr_wf tr_new" "tr_wf (tr_reset t k)"
  "tr_wf t \<Longrightarrow> tr_wf (tr_toggle_silent t)"
  "tr_wf t \<Longrightarrow> tr_wf (tr_clock_quarter_frame t)"
  "tr_wf t \<Longrightarrow> tr_wf (tr_clock_half_frame t)"
  "tr_wf t \<Longrightarrow> tr_wf (tr_write_linear_counter t v)"
  "tr_wf t \<Longrightarrow> tr_wf (tr_write_timer_lo t v)"
  "tr_wf t \<Longrightarrow> tr_wf (tr_write_timer_hi t v)"
  "tr_wf t \<Longrightarrow> tr_wf (tr_set_enabled t b)"
  by (simp_all add: tr_wf_def tr_new_def tr_reset_def tr_toggle_silent_def tr_clock_quarter_frame_def
      tr_clock_half_frame_def tr_write_linear_counter_def tr_write_timer_lo_def
      tr_write_timer_hi_def tr_set_enabled_def Let_def)

lemma tr_wf_clock [simp, wf_intros]: "tr_wf t \<Longrightarrow> tr_wf (tr_clock t)"
  using unat_and_le [of "tr_step t + 1" "0x1F"] by (simp add: tr_wf_def tr_clock_def Let_def)

lemma triangle_wave_le:
  assumes "unat s < 32"
  shows "unat (if s AND 0x10 = 0x10 then s XOR 0x1F else s :: u8) \<le> 15"
proof -
  let ?r = "if s AND 0x10 = 0x10 then s XOR 0x1F else s"
  have hi: "\<not> bit s k" if "5 \<le> k" for k
    using word_high_bits [of s 5 k] assms that by simp
  have b4: "s AND 0x10 = 0x10 \<longleftrightarrow> bit s 4"
  proof
    assume "s AND 0x10 = 0x10"
    then have "bit (s AND 0x10) 4 = bit (0x10 :: u8) 4" by simp
    then show "bit s 4" by (simp add: bit_simps)
  qed (rule u8_eqI; simp add: bit_simps)
  have "?r AND mask 4 = ?r"
    by (rule u8_eqI) (simp_all add: b4 hi bit_simps)
  from word_and_mask_less [OF this] show ?thesis by simp
qed

lemma tr_output_le: "tr_wf t \<Longrightarrow> 0 \<le> tr_output t \<and> tr_output t \<le> 15"
  using triangle_wave_le [of "tr_step t"] f32_from_le [of _ 15]
  by (auto simp: tr_output_def tr_wf_def split: if_splits)

lemma tr_length_counter_frame [simp]:
  "tr_length_counter (tr_clock t) = tr_length_counter t"
  "tr_length_counter (tr_clock_quarter_frame t) = tr_length_counter t"
  "tr_length_counter (tr_set_enabled t False) = 0"
  "tr_length_counter (tr_clock_half_frame t) \<le> tr_length_counter t"
  by (simp_all add: tr_length_counter_def tr_clock_def tr_clock_quarter_frame_def
      tr_clock_half_frame_def tr_set_enabled_def Let_def lc_clock_le)

interpretation triangle: apu_channel tr_wf tr_length_counter tr_output tr_clock
  tr_clock_quarter_frame tr_clock_half_frame tr_set_enabled
  by unfold_locales (simp_all add: tr_output_le)

section \<open>Noise\<close>

datatype shift_mode = ShiftZero | ShiftOne

record noise =
  no_region :: nes_region
  no_force_silent :: bool
  no_enabled :: bool
  no_freq_timer :: u16
  no_freq_counter :: u16
  no_shift :: u16
  no_shift_mode :: shift_mode
  no_length :: length_counter
  no_envelope :: envelope

definition NOISE_FREQ_TABLE_NTSC :: "u16 list" where
  "NOISE_FREQ_TABLE_NTSC =
     [4, 8, 16, 32, 64, 96, 128, 160, 202, 254, 380, 508, 762, 1016, 2034, 4068]"

definition NOISE_FREQ_TABLE_PAL :: "u16 list" where
  "NOISE_FREQ_TABLE_PAL =
     [4, 8, 14, 30, 60, 88, 118, 148, 188, 236, 354, 472, 708, 944, 1890, 3778]"

definition SHIFT_BIT_15_MASK :: u16 where
  "SHIFT_BIT_15_MASK = NOT 0x8000"

definition no_new :: noise where
  "no_new = \<lparr>no_region = Ntsc, no_force_silent = False, no_enabled = False, no_freq_timer = 0,
     no_freq_counter = 0, no_shift = 1, no_shift_mode = ShiftZero, no_length = lc_new,
     no_envelope = env_new\<rparr>"

definition no_silent :: "noise \<Rightarrow> bool" where
  "no_silent n = no_force_silent n"

definition no_toggle_silent :: "noise \<Rightarrow> noise" where
  "no_toggle_silent n = n\<lparr>no_force_silent := \<not> no_force_silent n\<rparr>"

definition no_length_counter :: "noise \<Rightarrow> u8" where
  "no_length_counter n = lc_counter (no_length n)"

fun noise_freq_timer :: "nes_region \<Rightarrow> u8 \<Rightarrow> u16" where
  "noise_freq_timer Ntsc val = NOISE_FREQ_TABLE_NTSC ! unat (val AND 0x0F) - 1"
| "noise_freq_timer Pal val = NOISE_FREQ_TABLE_PAL ! unat (val AND 0x0F) - 1"
| "noise_freq_timer Dendy val = NOISE_FREQ_TABLE_PAL ! unat (val AND 0x0F) - 1"

definition no_clock_quarter_frame :: "noise \<Rightarrow> noise" where
  "no_clock_quarter_frame n = n\<lparr>no_envelope := env_clock (no_envelope n)\<rparr>"

definition no_clock_half_frame :: "noise \<Rightarrow> noise" where
  "no_clock_half_frame n = n\<lparr>no_length := snd (lc_clock (no_length n))\<rparr>"

definition no_output :: "noise \<Rightarrow> rat" where
  "no_output n =
     (if no_shift n AND 1 = 0 \<and> lc_counter (no_length n) \<noteq> 0 \<and> \<not> no_force_silent n
      then (if env_enabled (no_envelope n) then f32_from (env_volume (no_envelope n))
            else f32_from (env_constant_volume (no_envelope n)))
      else 0)"

definition no_write_ctrl :: "noise \<Rightarrow> u8 \<Rightarrow> noise" where
  "no_write_ctrl n val =
     n\<lparr>no_length := lc_write_ctrl (no_length n) val,
       no_envelope := env_write_ctrl (no_envelope n) val\<rparr>"

definition no_write_timer :: "noise \<Rightarrow> u8 \<Rightarrow> noise" where
  "no_write_timer n val =
     n\<lparr>no_freq_timer := noise_freq_timer (no_region n) val,
       no_shift_mode := (if drop_bit 7 val AND 1 = 1 then ShiftOne else ShiftZero)\<rparr>"

definition no_write_length :: "noise \<Rightarrow> u8 \<Rightarrow> noise" where
  "no_write_length n val =
     (let n = (if no_enabled n then n\<lparr>no_length := lc_load_value (no_length n) val\<rparr> else n)
      in n\<lparr>no_envelope := (no_envelope n)\<lparr>env_reset := True\<rparr>\<rparr>)"

definition no_set_enabled :: "noise \<Rightarrow> bool \<Rightarrow> noise" where
  "no_set_enabled n enabled =
     (let n = n\<lparr>no_enabled := enabled\<rparr>
      in if \<not> enabled then n\<lparr>no_length := (no_length n)\<lparr>lc_counter := 0\<rparr>\<rparr> else n)"

definition noise_shift_next :: "shift_mode \<Rightarrow> u16 \<Rightarrow> u16" where
  "noise_shift_next mode shift =
     (let shift_amount = (if mode = ShiftOne then 6 else 1);
          bit1 = shift AND 1;
          bit2 = drop_bit shift_amount shift AND 1;
          shift = (shift AND SHIFT_BIT_15_MASK) OR push_bit 14 (bit1 XOR bit2)
      in drop_bit 1 shift)"

definition no_clock :: "noise \<Rightarrow> noise" where
  "no_clock n =
     (if no_freq_counter n > 0 then n\<lparr>no_freq_counter := no_freq_counter n - 1\<rparr>
      else n\<lparr>no_freq_counter := no_freq_timer n,
             no_shift := noise_shift_next (no_shift_mode n) (no_shift n)\<rparr>)"

definition no_set_region :: "noise \<Rightarrow> nes_region \<Rightarrow> noise" where
  "no_set_region n region = n\<lparr>no_region := region\<rparr>"

definition no_reset :: "noise \<Rightarrow> kind \<Rightarrow> noise" where
  "no_reset n kind = no_new"

text \<open>The shift register is never zero, which the source asks for in a comment, and it only
  ever holds 14 bits: the feedback is inserted at bit 14 before the shift, so it enters the
  register at bit 13.\<close>

lemma noise_shift_next_bits:
  "bit (noise_shift_next mode s) n \<longleftrightarrow>
     (if n = 13 then (bit s 0 \<noteq> bit s (if mode = ShiftOne then 6 else 1)) \<or> bit s 14
      else n < 13 \<and> bit s (Suc n))"
proof (cases "n < 16")
  case True
  have mask: "bit SHIFT_BIT_15_MASK k \<longleftrightarrow> k < 15" for k
  proof -
    have m: "SHIFT_BIT_15_MASK = mask 15" by (simp add: SHIFT_BIT_15_MASK_def mask_eq_exp_minus_1)
    show ?thesis unfolding m by (auto simp: bit_mask_iff simp del: mask_numeral)
  qed
  have fb: "bit (push_bit 14 ((s AND 1) XOR (drop_bit a s AND 1))) k \<longleftrightarrow>
      k = 14 \<and> bit s 0 \<noteq> bit s a" for a k
  proof -
    have "k < 14 \<or> k = 14 \<or> k = 15 \<or> 16 \<le> k" by linarith
    then show ?thesis by (elim disjE) (simp_all add: bit_simps)
  qed
  show ?thesis
    unfolding noise_shift_next_def Let_def bit_drop_bit_eq comp_apply bit_or_iff bit_and_iff [of _ SHIFT_BIT_15_MASK] mask fb
    using True by auto
qed auto

lemma noise_shift_small: "unat (noise_shift_next mode s) < 0x4000"
proof -
  have "noise_shift_next mode s AND mask 14 = noise_shift_next mode s"
    by (rule bit_word_eqI) (auto simp: noise_shift_next_bits bit_simps)
  from word_and_mask_less [OF this] show ?thesis by simp
qed

lemma noise_shift_nonzero:
  assumes "s \<noteq> 0" and "unat s < 0x8000"
  shows "noise_shift_next mode s \<noteq> 0"
proof
  assume z: "noise_shift_next mode s = 0"
  then have b: "\<not> bit (noise_shift_next mode s) n" for n by simp
  have s15: "\<not> bit s k" if "15 \<le> k" for k
    using word_high_bits [of s 15 k] assms(2) that by simp
  have up: "\<not> bit s (Suc n)" if "n < 13" for n
    using b [of n] that by (simp add: noise_shift_next_bits)
  have hi: "\<not> bit s 14" "bit s 0 = bit s (if mode = ShiftOne then 6 else 1)"
    using b [of 13] by (auto simp: noise_shift_next_bits)
  have low: "\<not> bit s (Suc n)" for n
    using up [of n] hi(1) s15 [of "Suc n"] by (cases "n < 13"; cases "n = 13") (auto simp: eval_nat_numeral)
  have "\<not> bit s 0"
    using hi(2) low [of 0] low [of 5] by (auto simp: eval_nat_numeral split: if_splits)
  with low have "\<not> bit s n" for n by (cases n) auto
  then show False using assms(1) by (auto simp: bit_eq_iff)
qed

definition no_wf :: "noise \<Rightarrow> bool" where
  "no_wf n \<longleftrightarrow> env_wf (no_envelope n) \<and> no_shift n \<noteq> 0 \<and> unat (no_shift n) < 0x4000"

lemma no_wf_ops [simp, wf_intros]:
  "no_wf no_new" "no_wf (no_reset n k)"
  "no_wf n \<Longrightarrow> no_wf (no_toggle_silent n)"
  "no_wf n \<Longrightarrow> no_wf (no_clock_quarter_frame n)"
  "no_wf n \<Longrightarrow> no_wf (no_clock_half_frame n)"
  "no_wf n \<Longrightarrow> no_wf (no_write_ctrl n v)"
  "no_wf n \<Longrightarrow> no_wf (no_write_timer n v)"
  "no_wf n \<Longrightarrow> no_wf (no_write_length n v)"
  "no_wf n \<Longrightarrow> no_wf (no_set_enabled n b)"
  "no_wf n \<Longrightarrow> no_wf (no_set_region n r)"
  by (simp_all add: no_wf_def no_new_def no_reset_def no_toggle_silent_def no_clock_quarter_frame_def
      no_clock_half_frame_def no_write_ctrl_def no_write_timer_def no_write_length_def
      no_set_enabled_def no_set_region_def Let_def)

lemma no_wf_clock [simp, wf_intros]: "no_wf n \<Longrightarrow> no_wf (no_clock n)"
  using noise_shift_small noise_shift_nonzero by (simp add: no_wf_def no_clock_def)

lemma no_output_le: "no_wf n \<Longrightarrow> 0 \<le> no_output n \<and> no_output n \<le> 15"
  using f32_from_le [of _ 15] by (simp add: no_output_def no_wf_def env_wf_def)

lemma no_length_counter_frame [simp]:
  "no_length_counter (no_clock n) = no_length_counter n"
  "no_length_counter (no_clock_quarter_frame n) = no_length_counter n"
  "no_length_counter (no_set_enabled n False) = 0"
  "no_length_counter (no_clock_half_frame n) \<le> no_length_counter n"
  by (simp_all add: no_length_counter_def no_clock_def no_clock_quarter_frame_def
      no_clock_half_frame_def no_set_enabled_def Let_def lc_clock_le)

interpretation noise: apu_channel no_wf no_length_counter no_output no_clock
  no_clock_quarter_frame no_clock_half_frame no_set_enabled
  by unfold_locales (simp_all add: no_output_le)

end
