(* ===== verification/ApuDmc.thy ===== *)
theory ApuDmc
  imports ApuUnits
begin

text \<open>
  \<open>src/apu/dmc.rs\<close>: the delta modulation channel. Its memory reader is driven from outside:
  the CPU asks for a pending DMA (\<open>dmc_dma\<close>), reads the byte at \<open>dmc_dma_addr\<close> and hands it
  over with \<open>dmc_load_buffer\<close>.
\<close>

record dmc =
  dmc_region :: nes_region
  dmc_force_silent :: bool
  dmc_irq_enabled :: bool
  dmc_irq_pending :: bool
  dmc_loops :: bool
  dmc_freq_timer :: u16
  dmc_freq_counter :: u16
  dmc_addr :: u16
  dmc_addr_load :: u16
  dmc_length :: u16
  dmc_length_load :: u16
  dmc_sample_buffer :: u8
  dmc_sample_buffer_empty :: bool
  dmc_dma_pending :: bool
  dmc_init :: u8
  dmc_output :: u8
  dmc_output_bits :: u8
  dmc_output_shift :: u8
  dmc_output_silent :: bool

definition DMC_FREQ_TABLE_NTSC :: "u16 list" where
  "DMC_FREQ_TABLE_NTSC = [0x1AC, 0x17C, 0x154, 0x140, 0x11E, 0x0FE, 0x0E2, 0x0D6, 0x0BE, 0x0A0,
     0x08E, 0x080, 0x06A, 0x054, 0x048, 0x036]"

definition DMC_FREQ_TABLE_PAL :: "u16 list" where
  "DMC_FREQ_TABLE_PAL = [0x18E, 0x162, 0x13C, 0x12A, 0x114, 0x0EC, 0x0D2, 0x0C6, 0x0B0, 0x094,
     0x084, 0x076, 0x062, 0x04E, 0x042, 0x032]"

fun dmc_freq :: "nes_region \<Rightarrow> u8 \<Rightarrow> u16" where
  "dmc_freq Ntsc val = DMC_FREQ_TABLE_NTSC ! unat (val AND 0x0F) - 2"
| "dmc_freq Pal val = DMC_FREQ_TABLE_PAL ! unat (val AND 0x0F) - 2"
| "dmc_freq Dendy val = DMC_FREQ_TABLE_PAL ! unat (val AND 0x0F) - 2"

definition dmc_new :: dmc where
  "dmc_new = (let freq_timer = dmc_freq Ntsc 0 in
     \<lparr>dmc_region = Ntsc, dmc_force_silent = False, dmc_irq_enabled = False,
      dmc_irq_pending = False, dmc_loops = False, dmc_freq_timer = freq_timer,
      dmc_freq_counter = freq_timer, dmc_addr = 0xC000, dmc_addr_load = 0x0000,
      dmc_length = 0x0000, dmc_length_load = 0x0001, dmc_sample_buffer = 0x00,
      dmc_sample_buffer_empty = True, dmc_dma_pending = False, dmc_init = 0, dmc_output = 0x00,
      dmc_output_bits = 0x00, dmc_output_shift = 0x00, dmc_output_silent = True\<rparr>)"

definition dmc_silent :: "dmc \<Rightarrow> bool" where
  "dmc_silent d = dmc_force_silent d"

definition dmc_toggle_silent :: "dmc \<Rightarrow> dmc" where
  "dmc_toggle_silent d = d\<lparr>dmc_force_silent := \<not> dmc_force_silent d\<rparr>"

definition dmc_acknowledge_irq :: "dmc \<Rightarrow> dmc" where
  "dmc_acknowledge_irq d = d\<lparr>dmc_irq_pending := False\<rparr>"

definition dmc_dma :: "dmc \<Rightarrow> bool \<times> dmc" where
  "dmc_dma d = (dmc_dma_pending d, d\<lparr>dmc_dma_pending := False\<rparr>)"

definition dmc_dma_addr :: "dmc \<Rightarrow> u16" where
  "dmc_dma_addr d = dmc_addr d"

definition dmc_load_buffer :: "dmc \<Rightarrow> u8 \<Rightarrow> dmc" where
  "dmc_load_buffer d val =
     (let d = d\<lparr>dmc_dma_pending := False\<rparr>
      in if dmc_length d > 0
         then let d = d\<lparr>dmc_sample_buffer := val, dmc_sample_buffer_empty := False,
                        dmc_addr := dmc_addr d + 1\<rparr>;
                  d = (if dmc_addr d = 0 then d\<lparr>dmc_addr := 0x8000\<rparr> else d);
                  d = d\<lparr>dmc_length := dmc_length d - 1\<rparr>
              in if dmc_length d = 0
                 then if dmc_loops d
                      then d\<lparr>dmc_length := dmc_length_load d, dmc_addr := dmc_addr_load d\<rparr>
                      else if dmc_irq_enabled d then d\<lparr>dmc_irq_pending := True\<rparr>
                      else d
                 else d
         else d)"

definition dmc_output_sample :: "dmc \<Rightarrow> rat" where
  "dmc_output_sample d = (if dmc_force_silent d then 0 else f32_from (dmc_output d))"

definition dmc_write_timer :: "dmc \<Rightarrow> u8 \<Rightarrow> dmc" where
  "dmc_write_timer d val =
     (let d = d\<lparr>dmc_irq_enabled := (val AND 0x80 = 0x80), dmc_loops := (val AND 0x40 = 0x40),
                dmc_freq_timer := dmc_freq (dmc_region d) val\<rparr>
      in if \<not> dmc_irq_enabled d then d\<lparr>dmc_irq_pending := False\<rparr> else d)"

definition dmc_write_output :: "dmc \<Rightarrow> u8 \<Rightarrow> dmc" where
  "dmc_write_output d val = d\<lparr>dmc_output := val\<rparr>"

definition dmc_write_addr_load :: "dmc \<Rightarrow> u8 \<Rightarrow> dmc" where
  "dmc_write_addr_load d val = d\<lparr>dmc_addr_load := 0xC000 OR push_bit 6 (ucast val)\<rparr>"

definition dmc_write_length :: "dmc \<Rightarrow> u8 \<Rightarrow> dmc" where
  "dmc_write_length d val = d\<lparr>dmc_length_load := push_bit 4 (ucast val) + 1\<rparr>"

definition dmc_set_enabled :: "dmc \<Rightarrow> bool \<Rightarrow> usize \<Rightarrow> dmc" where
  "dmc_set_enabled d enabled cycle =
     (let d = d\<lparr>dmc_irq_pending := False\<rparr>
      in if \<not> enabled then d\<lparr>dmc_length := 0\<rparr>
         else if dmc_length d = 0
         then d\<lparr>dmc_addr := dmc_addr_load d, dmc_length := dmc_length_load d,
                dmc_init := (if cycle AND 0x01 = 0x00 then 2 else 3)\<rparr>
         else d)"

definition dmc_check_pending_dma :: "dmc \<Rightarrow> dmc" where
  "dmc_check_pending_dma d =
     (if dmc_init d > 0
      then let d = d\<lparr>dmc_init := dmc_init d - 1\<rparr>
           in if dmc_init d = 0 \<and> dmc_sample_buffer_empty d \<and> dmc_length d > 0
              then d\<lparr>dmc_dma_pending := True\<rparr> else d
      else d)"

text \<open>The output level moves by two inside its range.\<close>

definition dmc_shift_output :: "dmc \<Rightarrow> dmc" where
  "dmc_shift_output d =
     (let d = (if dmc_output_shift d AND 0x01 = 0x01
               then if dmc_output d \<le> 125 then d\<lparr>dmc_output := dmc_output d + 2\<rparr> else d
               else if dmc_output d \<ge> 2 then d\<lparr>dmc_output := dmc_output d - 2\<rparr> else d)
      in d\<lparr>dmc_output_shift := drop_bit 1 (dmc_output_shift d)\<rparr>)"

definition dmc_clock :: "dmc \<Rightarrow> dmc" where
  "dmc_clock d =
     (if dmc_freq_counter d \<ge> 2 then d\<lparr>dmc_freq_counter := dmc_freq_counter d - 2\<rparr>
      else let d = d\<lparr>dmc_freq_counter := dmc_freq_timer d\<rparr>;
               d = (if \<not> dmc_output_silent d then dmc_shift_output d else d);
               d = d\<lparr>dmc_output_bits := (if dmc_output_bits d = 0 then 0 else dmc_output_bits d - 1)\<rparr>
           in if dmc_output_bits d = 0
              then let d = d\<lparr>dmc_output_bits := 8\<rparr>
                   in if dmc_sample_buffer_empty d then d\<lparr>dmc_output_silent := True\<rparr>
                      else let d = d\<lparr>dmc_output_silent := False,
                                     dmc_output_shift := dmc_sample_buffer d,
                                     dmc_sample_buffer_empty := True\<rparr>
                           in if dmc_length d > 0 then d\<lparr>dmc_dma_pending := True\<rparr> else d
              else d)"

definition dmc_set_region :: "dmc \<Rightarrow> nes_region \<Rightarrow> dmc" where
  "dmc_set_region d region = d\<lparr>dmc_region := region, dmc_freq_timer := dmc_freq region 0\<rparr>"

definition dmc_reset :: "dmc \<Rightarrow> kind \<Rightarrow> dmc" where
  "dmc_reset d kind =
     (let d = d\<lparr>dmc_irq_enabled := False, dmc_irq_pending := False, dmc_loops := False,
                dmc_freq_timer := dmc_freq (dmc_region d) 0\<rparr>;
          d = d\<lparr>dmc_freq_counter := dmc_freq_timer d\<rparr>;
          d = (case kind of
                 Soft \<Rightarrow> d\<lparr>dmc_addr := 0x0000, dmc_length_load := 0x0000\<rparr>
               | Hard \<Rightarrow> d\<lparr>dmc_addr := 0xC000, dmc_length_load := 0x0001\<rparr>)
      in d\<lparr>dmc_addr_load := 0x0000, dmc_length := 0x0000, dmc_sample_buffer := 0x00,
          dmc_sample_buffer_empty := True, dmc_dma_pending := False, dmc_init := 0,
          dmc_output := 0x00, dmc_output_bits := 0x00, dmc_output_shift := 0x00,
          dmc_output_silent := True\<rparr>)"

section \<open>Invariant\<close>

text \<open>The output level is seven bits, at most eight bits are left in the shifter, and the
  sample counters stay below the largest length \<open>0xFF1\<close>.\<close>

definition dmc_wf :: "dmc \<Rightarrow> bool" where
  "dmc_wf d \<longleftrightarrow> unat (dmc_output d) \<le> 127 \<and> unat (dmc_output_bits d) \<le> 8
     \<and> unat (dmc_length d) \<le> 0xFF1 \<and> unat (dmc_length_load d) \<le> 0xFF1"

lemma dmc_length_load_eq: "unat (push_bit 4 (ucast (v :: u8)) + 1 :: u16) = 16 * unat v + 1"
proof -
  have v: "unat v < 256" by simp
  have "unat (push_bit 4 (ucast v) :: u16) = 16 * unat v"
    using v by (simp add: push_bit_eq_mult unat_word_ariths del: unat_u8_less)
  then show ?thesis using v by (simp add: unat_word_ariths del: unat_u8_less)
qed

lemma dmc_wf_ops [simp, wf_intros]:
  "dmc_wf dmc_new" "dmc_wf (dmc_reset d k)"
  "dmc_wf d \<Longrightarrow> dmc_wf (dmc_toggle_silent d)"
  "dmc_wf d \<Longrightarrow> dmc_wf (dmc_acknowledge_irq d)"
  "dmc_wf d \<Longrightarrow> dmc_wf (snd (dmc_dma d))"
  "dmc_wf d \<Longrightarrow> dmc_wf (dmc_write_timer d v)"
  "dmc_wf d \<Longrightarrow> dmc_wf (dmc_write_addr_load d v)"
  "dmc_wf d \<Longrightarrow> dmc_wf (dmc_set_enabled d b c)"
  "dmc_wf d \<Longrightarrow> dmc_wf (dmc_check_pending_dma d)"
  "dmc_wf d \<Longrightarrow> dmc_wf (dmc_set_region d r)"
  by (simp_all add: dmc_wf_def dmc_new_def dmc_reset_def dmc_toggle_silent_def dmc_acknowledge_irq_def
      dmc_dma_def dmc_write_timer_def dmc_write_addr_load_def dmc_set_enabled_def
      dmc_check_pending_dma_def dmc_set_region_def Let_def split: kind.split)

lemma dmc_wf_write_length [simp, wf_intros]: "dmc_wf d \<Longrightarrow> dmc_wf (dmc_write_length d v)"
  using dmc_length_load_eq [of v] unat_u8_less [of v]
  by (simp add: dmc_wf_def dmc_write_length_def del: unat_u8_less)

lemma dmc_wf_write_output [simp, wf_intros]:
  "dmc_wf d \<Longrightarrow> dmc_wf (dmc_write_output d (v AND 0x7F))"
  using unat_and_le [of v "0x7F"] by (simp add: dmc_wf_def dmc_write_output_def)

lemma dmc_wf_load_buffer [simp, wf_intros]: "dmc_wf d \<Longrightarrow> dmc_wf (dmc_load_buffer d v)"
  by (auto simp: dmc_wf_def dmc_load_buffer_def Let_def unat_dec)

lemma dmc_wf_shift_output [simp, wf_intros]: "dmc_wf d \<Longrightarrow> dmc_wf (dmc_shift_output d)"
  by (auto simp: dmc_wf_def dmc_shift_output_def Let_def word_le_nat_alt unat_sub_if' unat_plus_if')

lemma dmc_wf_clock [simp, wf_intros]:
  assumes "dmc_wf d"
  shows "dmc_wf (dmc_clock d)"
proof -
  define e where "e = (let d = d\<lparr>dmc_freq_counter := dmc_freq_timer d\<rparr>
    in if \<not> dmc_output_silent d then dmc_shift_output d else d)"
  have "dmc_wf (d\<lparr>dmc_freq_counter := dmc_freq_timer d\<rparr>)" using assms by (simp add: dmc_wf_def)
  then have "dmc_wf e" by (simp add: e_def Let_def)
  moreover have "unat (b - 1) \<le> 8" if "unat b \<le> 8" "b \<noteq> 0" for b :: u8
    using that by (simp add: unat_dec word_gt0_iff unat_gt_0 [symmetric] del: unat_gt_0)
  ultimately show ?thesis
    using assms unfolding dmc_clock_def e_def [symmetric] Let_def
    by (auto simp: dmc_wf_def e_def Let_def)
qed

lemma dmc_output_le: "dmc_wf d \<Longrightarrow> 0 \<le> dmc_output_sample d \<and> dmc_output_sample d \<le> 127"
  using f32_from_le [of "dmc_output d" 127] by (simp add: dmc_output_sample_def dmc_wf_def)

section \<open>The memory reader\<close>

text \<open>The address after a fetch: it wraps to the start of PRG-ROM.\<close>

definition dmc_next_addr :: "u16 \<Rightarrow> u16" where
  "dmc_next_addr a = (if a + 1 = 0 then 0x8000 else a + 1)"

fun dmc_loads :: "dmc \<Rightarrow> u8 list \<Rightarrow> dmc" where
  "dmc_loads d [] = d"
| "dmc_loads d (v # vs) = dmc_loads (dmc_load_buffer d v) vs"

lemma dmc_load_mid:
  "1 < dmc_length d \<Longrightarrow> dmc_load_buffer d v =
     d\<lparr>dmc_dma_pending := False, dmc_sample_buffer := v, dmc_sample_buffer_empty := False,
       dmc_addr := dmc_next_addr (dmc_addr d), dmc_length := dmc_length d - 1\<rparr>"
proof -
  assume a: "1 < dmc_length d"
  then have "0 < dmc_length d" "dmc_length d - 1 \<noteq> 0" by (auto simp: word_less_nat_alt)
  then show ?thesis by (simp add: dmc_load_buffer_def dmc_next_addr_def Let_def)
qed

lemma dmc_loads_mid:
  "length vs < unat (dmc_length d) \<Longrightarrow>
     dmc_addr (dmc_loads d vs) = (dmc_next_addr ^^ length vs) (dmc_addr d)
   \<and> unat (dmc_length (dmc_loads d vs)) = unat (dmc_length d) - length vs
   \<and> dmc_loops (dmc_loads d vs) = dmc_loops d
   \<and> dmc_irq_enabled (dmc_loads d vs) = dmc_irq_enabled d
   \<and> dmc_irq_pending (dmc_loads d vs) = dmc_irq_pending d
   \<and> dmc_addr_load (dmc_loads d vs) = dmc_addr_load d
   \<and> dmc_length_load (dmc_loads d vs) = dmc_length_load d"
proof (induction vs arbitrary: d)
  case (Cons v vs)
  have gt: "1 < dmc_length d" using Cons.prems by (simp add: word_less_nat_alt)
  let ?d = "dmc_load_buffer d v"
  have e: "unat (dmc_length ?d) = unat (dmc_length d) - 1"
    using gt by (simp add: dmc_load_mid unat_dec word_less_nat_alt)
  then have "length vs < unat (dmc_length ?d)" using Cons.prems by simp
  from Cons.IH [OF this] show ?case
    using gt e by (simp add: dmc_load_mid funpow_swap1)
qed simp

lemma dmc_loads_append: "dmc_loads d (us @ vs) = dmc_loads (dmc_loads d us) vs"
  by (induction us arbitrary: d) simp_all

lemma dmc_load_last:
  "dmc_length d = 1 \<Longrightarrow> dmc_load_buffer d v =
     (let e = d\<lparr>dmc_dma_pending := False, dmc_sample_buffer := v, dmc_sample_buffer_empty := False,
       dmc_addr := dmc_next_addr (dmc_addr d), dmc_length := 0\<rparr>
      in if dmc_loops d then e\<lparr>dmc_length := dmc_length_load d, dmc_addr := dmc_addr_load d\<rparr>
         else if dmc_irq_enabled d then e\<lparr>dmc_irq_pending := True\<rparr> else e)"
  by (simp add: dmc_load_buffer_def dmc_next_addr_def Let_def)

end
