(* ===== verification/Apu.thy ===== *)
theory Apu
  imports ApuChannels ApuDmc
begin

text \<open>
  \<open>src/apu.rs\<close>: the audio processing unit: the five channels, the frame counter that clocks
  their envelopes, sweeps and length counters, and the registers \<open>$4000\<close>--\<open>$4017\<close>. A register
  write to a channel that has no such register panics in the source; it is \<open>None\<close> here. The
  two lookup tables of the mixer hold \<open>f32\<close> values: they are the parameters of \<open>apu_output\<close>,
  and the model keeps how their indices are computed.
\<close>

section \<open>Interrupt sources (the \<open>Irq\<close> flags of \<open>src/cpu.rs\<close>)\<close>

definition IRQ_MAPPER :: u8 where "IRQ_MAPPER = 2"

definition IRQ_FRAME_COUNTER :: u8 where "IRQ_FRAME_COUNTER = 4"

definition IRQ_DMC :: u8 where "IRQ_DMC = 8"

section \<open>State\<close>

datatype channel = Pulse1 | Pulse2 | Triangle | Noise | Dmc

record apu =
  apu_cycle :: usize
  apu_region :: nes_region
  apu_irq_pending :: bool
  apu_irq_disabled :: bool
  apu_frame_counter :: frame_counter
  apu_pulse1 :: pulse
  apu_pulse2 :: pulse
  apu_triangle :: triangle
  apu_noise :: noise
  apu_dmc :: dmc

definition apu_new :: apu where
  "apu_new =
     \<lparr>apu_cycle = 0, apu_region = Ntsc, apu_irq_pending = False, apu_irq_disabled = False,
      apu_frame_counter = fc_new, apu_pulse1 = pl_new PulseOne DefaultFreq,
      apu_pulse2 = pl_new PulseTwo DefaultFreq, apu_triangle = tr_new, apu_noise = no_new,
      apu_dmc = dmc_new\<rparr>"

text \<open>The source answers for \<open>Pulse2\<close> with \<open>Pulse1\<close>, and with the muted flag; so does the
  model.\<close>

definition apu_channel_enabled :: "apu \<Rightarrow> channel \<Rightarrow> bool" where
  "apu_channel_enabled a ch =
     (case ch of
        Pulse1 \<Rightarrow> pl_silent (apu_pulse1 a)
      | Pulse2 \<Rightarrow> pl_silent (apu_pulse1 a)
      | Triangle \<Rightarrow> tr_silent (apu_triangle a)
      | Noise \<Rightarrow> no_silent (apu_noise a)
      | Dmc \<Rightarrow> dmc_silent (apu_dmc a))"

definition apu_toggle_channel :: "apu \<Rightarrow> channel \<Rightarrow> apu" where
  "apu_toggle_channel a ch =
     (case ch of
        Pulse1 \<Rightarrow> a\<lparr>apu_pulse1 := pl_toggle_silent (apu_pulse1 a)\<rparr>
      | Pulse2 \<Rightarrow> a\<lparr>apu_pulse1 := pl_toggle_silent (apu_pulse1 a)\<rparr>
      | Triangle \<Rightarrow> a\<lparr>apu_triangle := tr_toggle_silent (apu_triangle a)\<rparr>
      | Noise \<Rightarrow> a\<lparr>apu_noise := no_toggle_silent (apu_noise a)\<rparr>
      | Dmc \<Rightarrow> a\<lparr>apu_dmc := dmc_toggle_silent (apu_dmc a)\<rparr>)"

definition apu_irqs_pending :: "apu \<Rightarrow> u8" where
  "apu_irqs_pending a =
     (let irq = 0;
          irq = flag_set irq IRQ_FRAME_COUNTER (apu_irq_pending a);
          irq = flag_set irq IRQ_DMC (dmc_irq_pending (apu_dmc a))
      in irq)"

definition apu_dmc_dma :: "apu \<Rightarrow> bool \<times> apu" where
  "apu_dmc_dma a = (let (p, d) = dmc_dma (apu_dmc a) in (p, a\<lparr>apu_dmc := d\<rparr>))"

definition apu_dmc_dma_addr :: "apu \<Rightarrow> u16" where
  "apu_dmc_dma_addr a = dmc_dma_addr (apu_dmc a)"

definition apu_load_dmc_buffer :: "apu \<Rightarrow> u8 \<Rightarrow> apu" where
  "apu_load_dmc_buffer a val = a\<lparr>apu_dmc := dmc_load_buffer (apu_dmc a) val\<rparr>"

section \<open>Frame counter events\<close>

definition apu_clock_quarter_frame :: "apu \<Rightarrow> apu" where
  "apu_clock_quarter_frame a =
     a\<lparr>apu_pulse1 := pl_clock_quarter_frame (apu_pulse1 a),
       apu_pulse2 := pl_clock_quarter_frame (apu_pulse2 a),
       apu_triangle := tr_clock_quarter_frame (apu_triangle a),
       apu_noise := no_clock_quarter_frame (apu_noise a)\<rparr>"

definition apu_clock_half_frame :: "apu \<Rightarrow> apu" where
  "apu_clock_half_frame a =
     a\<lparr>apu_pulse1 := pl_clock_half_frame (apu_pulse1 a),
       apu_pulse2 := pl_clock_half_frame (apu_pulse2 a),
       apu_triangle := tr_clock_half_frame (apu_triangle a),
       apu_noise := no_clock_half_frame (apu_noise a)\<rparr>"

definition apu_clock_frame_counter :: "apu \<Rightarrow> apu" where
  "apu_clock_frame_counter a =
     (let (clock, fc) = fc_clock (apu_frame_counter a);
          a = a\<lparr>apu_frame_counter := fc\<rparr>;
          a = (if fc_mode fc = Step4 \<and> \<not> apu_irq_disabled a \<and> fc_step fc \<ge> 4
               then a\<lparr>apu_irq_pending := True\<rparr> else a);
          a = (if clock = 1 \<or> clock = 3 then apu_clock_quarter_frame a
               else if clock = 2 \<or> clock = 5
               then apu_clock_half_frame (apu_clock_quarter_frame a)
               else a);
          (updated, fc) = fc_update (apu_frame_counter a);
          a = a\<lparr>apu_frame_counter := fc\<rparr>
      in if updated \<and> fc_mode fc = Step5
         then apu_clock_half_frame (apu_clock_quarter_frame a) else a)"

section \<open>Registers\<close>

definition apu_write_ctrl :: "apu \<Rightarrow> channel \<Rightarrow> u8 \<Rightarrow> apu option" where
  "apu_write_ctrl a ch val =
     (case ch of
        Pulse1 \<Rightarrow> Some (a\<lparr>apu_pulse1 := pl_write_ctrl (apu_pulse1 a) val\<rparr>)
      | Pulse2 \<Rightarrow> Some (a\<lparr>apu_pulse2 := pl_write_ctrl (apu_pulse2 a) val\<rparr>)
      | Noise \<Rightarrow> Some (a\<lparr>apu_noise := no_write_ctrl (apu_noise a) val\<rparr>)
      | _ \<Rightarrow> None)"

definition apu_write_sweep :: "apu \<Rightarrow> channel \<Rightarrow> u8 \<Rightarrow> apu option" where
  "apu_write_sweep a ch val =
     (case ch of
        Pulse1 \<Rightarrow> Some (a\<lparr>apu_pulse1 := pl_write_sweep (apu_pulse1 a) val\<rparr>)
      | Pulse2 \<Rightarrow> Some (a\<lparr>apu_pulse2 := pl_write_sweep (apu_pulse2 a) val\<rparr>)
      | _ \<Rightarrow> None)"

definition apu_write_timer_lo :: "apu \<Rightarrow> channel \<Rightarrow> u8 \<Rightarrow> apu option" where
  "apu_write_timer_lo a ch val =
     (case ch of
        Pulse1 \<Rightarrow> Some (a\<lparr>apu_pulse1 := pl_write_timer_lo (apu_pulse1 a) val\<rparr>)
      | Pulse2 \<Rightarrow> Some (a\<lparr>apu_pulse2 := pl_write_timer_lo (apu_pulse2 a) val\<rparr>)
      | Triangle \<Rightarrow> Some (a\<lparr>apu_triangle := tr_write_timer_lo (apu_triangle a) val\<rparr>)
      | Noise \<Rightarrow> Some (a\<lparr>apu_noise := no_write_timer (apu_noise a) val\<rparr>)
      | Dmc \<Rightarrow> Some (a\<lparr>apu_dmc := dmc_write_timer (apu_dmc a) val\<rparr>))"

definition apu_write_timer_hi :: "apu \<Rightarrow> channel \<Rightarrow> u8 \<Rightarrow> apu option" where
  "apu_write_timer_hi a ch val =
     (case ch of
        Pulse1 \<Rightarrow> Some (a\<lparr>apu_pulse1 := pl_write_timer_hi (apu_pulse1 a) val\<rparr>)
      | Pulse2 \<Rightarrow> Some (a\<lparr>apu_pulse2 := pl_write_timer_hi (apu_pulse2 a) val\<rparr>)
      | Triangle \<Rightarrow> Some (a\<lparr>apu_triangle := tr_write_timer_hi (apu_triangle a) val\<rparr>)
      | _ \<Rightarrow> None)"

definition apu_write_linear_counter :: "apu \<Rightarrow> channel \<Rightarrow> u8 \<Rightarrow> apu option" where
  "apu_write_linear_counter a ch val =
     (if ch = Triangle
      then Some (a\<lparr>apu_triangle := tr_write_linear_counter (apu_triangle a) val\<rparr>)
      else None)"

definition apu_write_length :: "apu \<Rightarrow> channel \<Rightarrow> u8 \<Rightarrow> apu option" where
  "apu_write_length a ch val =
     (case ch of
        Noise \<Rightarrow> Some (a\<lparr>apu_noise := no_write_length (apu_noise a) val\<rparr>)
      | Dmc \<Rightarrow> Some (a\<lparr>apu_dmc := dmc_write_length (apu_dmc a) val\<rparr>)
      | _ \<Rightarrow> None)"

definition apu_write_output :: "apu \<Rightarrow> channel \<Rightarrow> u8 \<Rightarrow> apu option" where
  "apu_write_output a ch val =
     (if ch = Dmc then Some (a\<lparr>apu_dmc := dmc_write_output (apu_dmc a) (val AND 0x7F)\<rparr>)
      else None)"

definition apu_write_addr_load :: "apu \<Rightarrow> channel \<Rightarrow> u8 \<Rightarrow> apu option" where
  "apu_write_addr_load a ch val =
     (if ch = Dmc then Some (a\<lparr>apu_dmc := dmc_write_addr_load (apu_dmc a) val\<rparr>) else None)"

definition apu_peek_status :: "apu \<Rightarrow> u8" where
  "apu_peek_status a =
     (let status = 0x00;
          status = (if pl_length_counter (apu_pulse1 a) > 0 then status OR 0x01 else status);
          status = (if pl_length_counter (apu_pulse2 a) > 0 then status OR 0x02 else status);
          status = (if tr_length_counter (apu_triangle a) > 0 then status OR 0x04 else status);
          status = (if no_length_counter (apu_noise a) > 0 then status OR 0x08 else status);
          status = (if dmc_length (apu_dmc a) > 0 then status OR 0x10 else status);
          status = (if apu_irq_pending a then status OR 0x40 else status);
          status = (if dmc_irq_pending (apu_dmc a) then status OR 0x80 else status)
      in status)"

definition apu_read_status :: "apu \<Rightarrow> u8 \<times> apu" where
  "apu_read_status a = (let val = apu_peek_status a in (val, a\<lparr>apu_irq_pending := False\<rparr>))"

definition apu_write_status :: "apu \<Rightarrow> u8 \<Rightarrow> apu" where
  "apu_write_status a val =
     a\<lparr>apu_pulse1 := pl_set_enabled (apu_pulse1 a) (val AND 0x01 = 0x01),
       apu_pulse2 := pl_set_enabled (apu_pulse2 a) (val AND 0x02 = 0x02),
       apu_triangle := tr_set_enabled (apu_triangle a) (val AND 0x04 = 0x04),
       apu_noise := no_set_enabled (apu_noise a) (val AND 0x08 = 0x08),
       apu_dmc := dmc_set_enabled (apu_dmc a) (val AND 0x10 = 0x10) (apu_cycle a)\<rparr>"

definition apu_write_frame_counter :: "apu \<Rightarrow> u8 \<Rightarrow> apu" where
  "apu_write_frame_counter a val =
     (let a = a\<lparr>apu_frame_counter := fc_write (apu_frame_counter a) val (apu_cycle a),
                apu_irq_disabled := (val AND 0x40 = 0x40)\<rparr>
      in if apu_irq_disabled a then a\<lparr>apu_irq_pending := False\<rparr> else a)"

section \<open>Mixer, clock, region and reset\<close>

text \<open>A Rust float-to-integer cast truncates; the sums below are not negative.\<close>

definition f32_as_usize :: "rat \<Rightarrow> nat" where
  "f32_as_usize x = nat \<lfloor>x\<rfloor>"

definition apu_pulse_idx :: "apu \<Rightarrow> nat" where
  "apu_pulse_idx a =
     (let i = f32_as_usize (pl_output (apu_pulse1 a) + pl_output (apu_pulse2 a))
      in if i > 31 then i mod 31 else i)"

definition apu_tnd_idx :: "apu \<Rightarrow> nat" where
  "apu_tnd_idx a =
     (let i = f32_as_usize (3 * tr_output (apu_triangle a) + 2 * no_output (apu_noise a)
                            + dmc_output_sample (apu_dmc a))
      in if i > 203 then i mod 203 else i)"

definition apu_output :: "('s \<Rightarrow> 's \<Rightarrow> 's) \<Rightarrow> 's list \<Rightarrow> 's list \<Rightarrow> apu \<Rightarrow> 's option" where
  "apu_output add pulse_table tnd_table a =
     do { p \<leftarrow> vec_get pulse_table (apu_pulse_idx a);
          t \<leftarrow> vec_get tnd_table (apu_tnd_idx a);
          Some (add p t) }"

definition apu_clock :: "apu \<Rightarrow> apu" where
  "apu_clock a =
     (let a = a\<lparr>apu_dmc := dmc_check_pending_dma (apu_dmc a)\<rparr>;
          a = (if apu_cycle a AND 0x01 = 0x00
               then a\<lparr>apu_pulse1 := pl_clock (apu_pulse1 a), apu_pulse2 := pl_clock (apu_pulse2 a),
                      apu_noise := no_clock (apu_noise a), apu_dmc := dmc_clock (apu_dmc a)\<rparr>
               else a);
          a = a\<lparr>apu_triangle := tr_clock (apu_triangle a)\<rparr>;
          a = apu_clock_frame_counter a
      in a\<lparr>apu_cycle := apu_cycle a + 1\<rparr>)"

definition apu_set_region :: "apu \<Rightarrow> nes_region \<Rightarrow> apu" where
  "apu_set_region a region =
     a\<lparr>apu_region := region,
       apu_frame_counter := fc_set_region (apu_frame_counter a) region,
       apu_noise := no_set_region (apu_noise a) region,
       apu_dmc := dmc_set_region (apu_dmc a) region\<rparr>"

definition apu_reset :: "apu \<Rightarrow> kind \<Rightarrow> apu" where
  "apu_reset a kind =
     a\<lparr>apu_cycle := 0, apu_irq_pending := False, apu_irq_disabled := False,
       apu_frame_counter := fc_reset (apu_frame_counter a) kind,
       apu_pulse1 := pl_reset (apu_pulse1 a) kind, apu_pulse2 := pl_reset (apu_pulse2 a) kind,
       apu_triangle := tr_reset (apu_triangle a) kind, apu_noise := no_reset (apu_noise a) kind,
       apu_dmc := dmc_reset (apu_dmc a) kind\<rparr>"

section \<open>Invariant\<close>

definition apu_wf :: "apu \<Rightarrow> bool" where
  "apu_wf a \<longleftrightarrow> fc_wf (apu_frame_counter a) \<and> pl_wf (apu_pulse1 a) \<and> pl_wf (apu_pulse2 a)
     \<and> tr_wf (apu_triangle a) \<and> no_wf (apu_noise a) \<and> dmc_wf (apu_dmc a)"

lemma apu_wf_new [simp, wf_intros]: "apu_wf apu_new"
  by (simp add: apu_wf_def apu_new_def)

lemma apu_wf_quarter [simp, wf_intros]: "apu_wf a \<Longrightarrow> apu_wf (apu_clock_quarter_frame a)"
  by (simp add: apu_wf_def apu_clock_quarter_frame_def)

lemma apu_wf_half [simp, wf_intros]: "apu_wf a \<Longrightarrow> apu_wf (apu_clock_half_frame a)"
  by (simp add: apu_wf_def apu_clock_half_frame_def)

lemma apu_wf_fields [simp]:
  "apu_wf (a\<lparr>apu_irq_pending := b\<rparr>) = apu_wf a" "apu_wf (a\<lparr>apu_irq_disabled := b\<rparr>) = apu_wf a"
  "apu_wf (a\<lparr>apu_cycle := c\<rparr>) = apu_wf a"
  "apu_wf a \<Longrightarrow> fc_wf f \<Longrightarrow> apu_wf (a\<lparr>apu_frame_counter := f\<rparr>)"
  "apu_wf a \<Longrightarrow> pl_wf p \<Longrightarrow> apu_wf (a\<lparr>apu_pulse1 := p\<rparr>)"
  "apu_wf a \<Longrightarrow> pl_wf p \<Longrightarrow> apu_wf (a\<lparr>apu_pulse2 := p\<rparr>)"
  "apu_wf a \<Longrightarrow> tr_wf t \<Longrightarrow> apu_wf (a\<lparr>apu_triangle := t\<rparr>)"
  "apu_wf a \<Longrightarrow> no_wf n \<Longrightarrow> apu_wf (a\<lparr>apu_noise := n\<rparr>)"
  "apu_wf a \<Longrightarrow> dmc_wf d \<Longrightarrow> apu_wf (a\<lparr>apu_dmc := d\<rparr>)"
  by (simp_all add: apu_wf_def)

lemma apu_wfD:
  assumes "apu_wf a"
  shows "fc_wf (apu_frame_counter a)" "pl_wf (apu_pulse1 a)" "pl_wf (apu_pulse2 a)"
    "tr_wf (apu_triangle a)" "no_wf (apu_noise a)" "dmc_wf (apu_dmc a)"
  using assms by (simp_all add: apu_wf_def)

lemma apu_wf_clock_frame_counter [simp, wf_intros]:
  assumes "apu_wf a"
  shows "apu_wf (apu_clock_frame_counter a)"
proof -
  have 1: "apu_wf (a\<lparr>apu_frame_counter := snd (fc_clock (apu_frame_counter a))\<rparr>)"
    using assms by (simp add: apu_wfD)
  have 2: "apu_wf b \<Longrightarrow> apu_wf (b\<lparr>apu_frame_counter := snd (fc_update (apu_frame_counter b))\<rparr>)" for b
    by (simp add: apu_wfD)
  show ?thesis
    using 1 by (simp add: apu_clock_frame_counter_def Let_def split_beta 2)
qed

lemma apu_wf_ops [simp, wf_intros]:
  "apu_wf a \<Longrightarrow> apu_wf (apu_toggle_channel a ch)"
  "apu_wf a \<Longrightarrow> apu_wf (snd (apu_dmc_dma a))"
  "apu_wf a \<Longrightarrow> apu_wf (apu_load_dmc_buffer a v)"
  "apu_wf a \<Longrightarrow> apu_wf (snd (apu_read_status a))"
  "apu_wf a \<Longrightarrow> apu_wf (apu_write_status a v)"
  "apu_wf a \<Longrightarrow> apu_wf (apu_write_frame_counter a v)"
  "apu_wf a \<Longrightarrow> apu_wf (apu_set_region a r)"
  "apu_wf a \<Longrightarrow> apu_wf (apu_reset a k)"
  by (auto simp: apu_wf_def apu_toggle_channel_def apu_dmc_dma_def apu_load_dmc_buffer_def
      apu_read_status_def apu_write_status_def apu_write_frame_counter_def apu_set_region_def
      apu_reset_def Let_def split_beta split: channel.split)

lemma apu_wf_writes [wf_intros]:
  assumes "apu_wf a"
  shows "apu_write_ctrl a ch v = Some a' \<Longrightarrow> apu_wf a'"
    "apu_write_sweep a ch v = Some a' \<Longrightarrow> apu_wf a'"
    "apu_write_timer_lo a ch v = Some a' \<Longrightarrow> apu_wf a'"
    "apu_write_timer_hi a ch v = Some a' \<Longrightarrow> apu_wf a'"
    "apu_write_linear_counter a ch v = Some a' \<Longrightarrow> apu_wf a'"
    "apu_write_length a ch v = Some a' \<Longrightarrow> apu_wf a'"
    "apu_write_output a ch v = Some a' \<Longrightarrow> apu_wf a'"
    "apu_write_addr_load a ch v = Some a' \<Longrightarrow> apu_wf a'"
  using assms
  by (auto simp: apu_write_ctrl_def apu_write_sweep_def apu_write_timer_lo_def apu_write_timer_hi_def
      apu_write_linear_counter_def apu_write_length_def apu_write_output_def
      apu_write_addr_load_def apu_wfD split: channel.splits if_splits)

lemma apu_wf_clock [simp, wf_intros]: "apu_wf a \<Longrightarrow> apu_wf (apu_clock a)"
  by (simp add: apu_clock_def Let_def apu_wfD)

section \<open>The mixer stays inside its tables\<close>

lemma f32_as_usize_le: "x \<le> of_nat n \<Longrightarrow> f32_as_usize x \<le> n"
proof -
  assume "x \<le> of_nat n"
  then have "\<lfloor>x\<rfloor> \<le> \<lfloor>of_nat n :: rat\<rfloor>" by (rule floor_mono)
  then show ?thesis by (simp add: f32_as_usize_def nat_le_iff)
qed

lemma apu_pulse_idx_less: "apu_wf a \<Longrightarrow> apu_pulse_idx a \<le> 30"
proof -
  assume "apu_wf a"
  then have "pl_output (apu_pulse1 a) + pl_output (apu_pulse2 a) \<le> of_nat 30"
    using pl_output_le [of "apu_pulse1 a"] pl_output_le [of "apu_pulse2 a"] by (simp add: apu_wfD)
  from f32_as_usize_le [OF this] show ?thesis by (simp add: apu_pulse_idx_def Let_def)
qed

lemma apu_tnd_idx_less: "apu_wf a \<Longrightarrow> apu_tnd_idx a \<le> 202"
proof -
  assume "apu_wf a"
  then have "3 * tr_output (apu_triangle a) + 2 * no_output (apu_noise a)
      + dmc_output_sample (apu_dmc a) \<le> of_nat 202"
    using tr_output_le [of "apu_triangle a"] no_output_le [of "apu_noise a"]
      dmc_output_le [of "apu_dmc a"] by (simp add: apu_wfD)
  from f32_as_usize_le [OF this] show ?thesis by (simp add: apu_tnd_idx_def Let_def)
qed

end
