(* ===== verification/ApuProps.thy ===== *)
theory ApuProps
  imports Apu
begin

text \<open>
  Properties of the APU: what holds in every state the register interface and the clock can
  reach, the timing of the frame counter, the life of a length counter, the sample reader of
  the DMC and the sweep unit.
\<close>

section \<open>Reachable states\<close>

text \<open>One operation of the CPU bus or the control deck on the APU. A register write that panics
  has no successor.\<close>

inductive apu_step :: "apu \<Rightarrow> apu \<Rightarrow> bool" where
  step_clock: "apu_step a (apu_clock a)"
| step_ctrl: "apu_write_ctrl a ch v = Some a' \<Longrightarrow> apu_step a a'"
| step_sweep: "apu_write_sweep a ch v = Some a' \<Longrightarrow> apu_step a a'"
| step_timer_lo: "apu_write_timer_lo a ch v = Some a' \<Longrightarrow> apu_step a a'"
| step_timer_hi: "apu_write_timer_hi a ch v = Some a' \<Longrightarrow> apu_step a a'"
| step_linear: "apu_write_linear_counter a ch v = Some a' \<Longrightarrow> apu_step a a'"
| step_length: "apu_write_length a ch v = Some a' \<Longrightarrow> apu_step a a'"
| step_output: "apu_write_output a ch v = Some a' \<Longrightarrow> apu_step a a'"
| step_addr_load: "apu_write_addr_load a ch v = Some a' \<Longrightarrow> apu_step a a'"
| step_read_status: "apu_step a (snd (apu_read_status a))"
| step_write_status: "apu_step a (apu_write_status a v)"
| step_frame_counter: "apu_step a (apu_write_frame_counter a v)"
| step_dma: "apu_step a (snd (apu_dmc_dma a))"
| step_load_buffer: "apu_step a (apu_load_dmc_buffer a v)"
| step_toggle: "apu_step a (apu_toggle_channel a ch)"
| step_region: "apu_step a (apu_set_region a r)"
| step_reset: "apu_step a (apu_reset a k)"

inductive apu_reach :: "apu \<Rightarrow> bool" where
  reach_new: "apu_reach apu_new"
| reach_step: "apu_reach a \<Longrightarrow> apu_step a a' \<Longrightarrow> apu_reach a'"

inductive_cases apu_stepE: "apu_step a a'"

lemma apu_step_wf: "apu_step a a' \<Longrightarrow> apu_wf a \<Longrightarrow> apu_wf a'"
  by (induction rule: apu_step.induct) (auto intro: wf_intros)

lemma apu_reach_wf: "apu_reach a \<Longrightarrow> apu_wf a"
  by (induction rule: apu_reach.induct) (auto dest: apu_step_wf)

lemma apu_reach_clock: "apu_reach (apu_clock apu_new)"
  by (rule reach_step [OF reach_new step_clock])

text \<open>C6: In every reachable state of the APU the mixer indexes its two tables (31 and 203
  entries) in range, so computing a sample never panics.\<close>

theorem apu_output_total:
  assumes "apu_reach a" and "length pulse_table = 31" and "length tnd_table = 203"
  shows "apu_output add pulse_table tnd_table a
      = Some (add (pulse_table ! apu_pulse_idx a) (tnd_table ! apu_tnd_idx a))
    \<and> apu_pulse_idx a \<le> 30 \<and> apu_tnd_idx a \<le> 202"
  using apu_pulse_idx_less [OF apu_reach_wf [OF assms(1)]]
    apu_tnd_idx_less [OF apu_reach_wf [OF assms(1)]] assms(2,3)
  by (simp_all add: apu_output_def)

theorem apu_output_total_witness:
  "apu_output (+) (replicate 31 (0::int)) (replicate 203 0) (apu_clock apu_new) \<noteq> None"
  using apu_output_total [OF apu_reach_clock, of "replicate 31 (0::int)" "replicate 203 0" "(+)"]
  by simp

section \<open>The noise register\<close>

text \<open>In every reachable state the noise shift register is never zero (the comment on the
  field) and never uses more than 14 bits: the feedback bit is inserted at bit 14 before the
  register is shifted right, so bit 14, the top bit of the 15-bit register of the hardware,
  is always clear.\<close>

theorem apu_noise_shift:
  assumes "apu_reach a"
  shows "no_shift (apu_noise a) \<noteq> 0 \<and> unat (no_shift (apu_noise a)) < 0x4000"
  using apu_reach_wf [OF assms] by (simp add: apu_wf_def no_wf_def)

theorem apu_noise_shift_witness: "no_shift (apu_noise (apu_clock apu_new)) \<noteq> 0"
  using apu_noise_shift [OF apu_reach_clock] by simp

section \<open>Timing of the frame counter\<close>

text \<open>The clocks that the next \<open>k\<close> steps of a sequence take, from the start of a step.\<close>

fun fc_span :: "nat \<Rightarrow> frame_counter \<Rightarrow> nat" where
  "fc_span 0 f = 0"
| "fc_span (Suc k) f = unat (fc_cycles f) + fc_span k (fc_next f)"

lemma fc_span_next: "fc_wf f \<Longrightarrow> ((snd \<circ> fc_clock) ^^ fc_span k f) f = (fc_next ^^ k) f"
proof (induction k arbitrary: f)
  case (Suc k)
  from Suc.prems have f: "0 < fc_cycles f" "fc_step f \<le> 5" by (simp_all add: fc_wf_def)
  have "((snd \<circ> fc_clock) ^^ (unat (fc_cycles f) + fc_span k (fc_next f))) f
      = ((snd \<circ> fc_clock) ^^ fc_span k (fc_next f)) (((snd \<circ> fc_clock) ^^ unat (fc_cycles f)) f)"
    by (simp only: add.commute [of "unat (fc_cycles f)"] funpow_add comp_apply)
  also have "\<dots> = (fc_next ^^ k) (fc_next f)"
    unfolding fc_clock_period(1) [OF f] by (rule Suc.IH [OF fc_wf_next [OF Suc.prems]])
  also have "\<dots> = (fc_next ^^ Suc k) f" by (simp add: funpow_swap1)
  finally show ?case by (simp only: fc_span.simps)
qed simp

text \<open>A frame counter at the start of its sequence.\<close>

definition fc_start :: "nes_region \<Rightarrow> fc_mode \<Rightarrow> frame_counter \<Rightarrow> bool" where
  "fc_start r m f \<longleftrightarrow> fc_wf f \<and> fc_region f = r \<and> fc_mode f = m \<and> fc_step f = 0
     \<and> fc_cycles f = fc_period f"

text \<open>The state at the start of step \<open>j\<close>.\<close>

definition fc_at :: "frame_counter \<Rightarrow> nat \<Rightarrow> frame_counter" where
  "fc_at f j = f\<lparr>fc_step := j, fc_cycles := fc_step_cycles f ! fc_mode_idx (fc_mode f) ! j\<rparr>"

lemma fc_at_simps [simp]:
  "fc_step (fc_at f j) = j"
  "fc_cycles (fc_at f j) = fc_step_cycles f ! fc_mode_idx (fc_mode f) ! j"
  "fc_next (fc_at f j) = fc_at f (if j \<ge> 5 then 0 else Suc j)"
  by (simp_all add: fc_at_def fc_next_def Let_def fc_period_def)

lemma fc_start_at: "fc_start r m f \<Longrightarrow> fc_at f 0 = f"
  by (simp add: fc_start_def fc_at_def fc_period_def)

lemma fc_next_at:
  assumes "fc_start r m f" and "j \<le> 5"
  shows "(fc_next ^^ j) f = fc_at f j" and "fc_wf ((fc_next ^^ j) f)"
    and "fc_span (Suc j) f = fc_span j f + unat (fc_region_cycles r ! fc_mode_idx m ! j)"
proof -
  show at: "(fc_next ^^ j) f = fc_at f j" using assms(2)
    by (induction j) (simp_all add: fc_start_at [OF assms(1)])
  have "fc_wf f" using assms(1) by (simp add: fc_start_def)
  then show "fc_wf ((fc_next ^^ j) f)" by (induction j) (simp_all add: fc_wf_next)
  have span: "fc_span (Suc j) f = fc_span j f + unat (fc_cycles ((fc_next ^^ j) f))" for f
    by (induction j arbitrary: f) (simp_all add: funpow_swap1)
  have "fc_cycles ((fc_next ^^ j) f) = fc_region_cycles r ! fc_mode_idx m ! j"
    using assms(1) by (simp add: at fc_start_def fc_wf_def)
  then show "fc_span (Suc j) f = fc_span j f + unat (fc_region_cycles r ! fc_mode_idx m ! j)"
    by (simp only: span)
qed

text \<open>Within step \<open>j\<close> the counter is silent; its last clock gives \<open>j\<close> and moves to the next step.\<close>

lemma fc_within_step:
  assumes f: "fc_start r m f" and j: "j \<le> 5" and i: "fc_span j f \<le> i" "i < fc_span (Suc j) f"
  shows "fc_clock (((snd \<circ> fc_clock) ^^ i) f)
      = (if Suc i = fc_span (Suc j) f then (j, fc_at f (if j \<ge> 5 then 0 else Suc j))
         else (0, (fc_at f j)\<lparr>fc_cycles := fc_cycles (fc_at f j) - of_nat (Suc i - fc_span j f)\<rparr>))"
proof -
  let ?g = "fc_at f j" and ?d = "i - fc_span j f"
  note at = fc_next_at [OF f j]
  have wf: "fc_wf f" "fc_wf ?g" using f at(1,2) by (simp_all add: fc_start_def)
  have g: "0 < fc_cycles ?g" "fc_step ?g \<le> 5" using wf(2) by (simp_all add: fc_wf_def)
  have span: "fc_span (Suc j) f = fc_span j f + unat (fc_cycles ?g)"
    using at(3) f by (simp add: fc_start_def fc_wf_def del: fc_span.simps)
  have "i = ?d + fc_span j f" using i(1) by simp
  then have "((snd \<circ> fc_clock) ^^ i) f = ((snd \<circ> fc_clock) ^^ (?d + fc_span j f)) f" by simp
  also have "\<dots> = ((snd \<circ> fc_clock) ^^ ?d) (((snd \<circ> fc_clock) ^^ fc_span j f) f)"
    by (simp only: funpow_add comp_apply)
  also have "\<dots> = ((snd \<circ> fc_clock) ^^ ?d) ?g" by (simp only: fc_span_next [OF wf(1)] at(1))
  finally have run: "((snd \<circ> fc_clock) ^^ i) f = ((snd \<circ> fc_clock) ^^ ?d) ?g" .
  show ?thesis
  proof (cases "Suc i = fc_span (Suc j) f")
    case True
    then have "?d = unat (fc_cycles ?g) - 1" using span i by simp
    then show ?thesis using True fc_clock_period(2) [OF g] run by simp
  next
    case False
    then have d: "Suc ?d < unat (fc_cycles ?g)" using span i by linarith
    have one: "fc_clock (((snd \<circ> fc_clock) ^^ ?d) ?g) = (0, ((snd \<circ> fc_clock) ^^ Suc ?d) ?g)"
    proof -
      have "unat (fc_cycles ?g - of_nat ?d) = unat (fc_cycles ?g) - ?d"
      proof -
        have "unat (fc_cycles ?g) < 2 ^ 16" by (rule order_less_le_trans [OF unsigned_less]) simp
        then have "?d < 2 ^ 16" using d by linarith
        then have "unat (of_nat ?d :: u16) = ?d" by (simp add: unsigned_of_nat take_bit_nat_eq_self)
        then show ?thesis using d by (simp add: unat_sub word_le_nat_alt)
      qed
      then have "1 < fc_cycles ?g - of_nat ?d" using d by (simp add: word_less_nat_alt)
      moreover have "((snd \<circ> fc_clock) ^^ ?d) ?g = ?g\<lparr>fc_cycles := fc_cycles ?g - of_nat ?d\<rparr>"
        by (rule fc_clock_silent) (use d in simp)
      ultimately show ?thesis by (simp add: fc_clock_tick)
    qed
    have "Suc i - fc_span j f = Suc ?d" using i by simp
    then show ?thesis using False one fc_clock_silent [OF d] run by simp
  qed
qed

text \<open>A clock of the APU: the timers of the channels, then the frame counter.\<close>

definition apu_timers :: "apu \<Rightarrow> apu" where
  "apu_timers a =
     (let a = a\<lparr>apu_dmc := dmc_check_pending_dma (apu_dmc a)\<rparr>;
          a = (if apu_cycle a AND 0x01 = 0x00
               then a\<lparr>apu_pulse1 := pl_clock (apu_pulse1 a), apu_pulse2 := pl_clock (apu_pulse2 a),
                      apu_noise := no_clock (apu_noise a), apu_dmc := dmc_clock (apu_dmc a)\<rparr>
               else a)
      in a\<lparr>apu_triangle := tr_clock (apu_triangle a)\<rparr>)"

lemma apu_clock_timers:
  "apu_clock a = (let b = apu_clock_frame_counter (apu_timers a) in b\<lparr>apu_cycle := apu_cycle b + 1\<rparr>)"
  by (simp add: apu_clock_def apu_timers_def Let_def)

lemma apu_timers_frame [simp]:
  "apu_frame_counter (apu_timers a) = apu_frame_counter a" "apu_irq_pending (apu_timers a) = apu_irq_pending a"
  "apu_irq_disabled (apu_timers a) = apu_irq_disabled a"
  by (simp_all add: apu_timers_def Let_def)

text \<open>The units that the frame counter clocks.\<close>

definition apu_units :: "apu \<Rightarrow> pulse \<times> pulse \<times> triangle \<times> noise" where
  "apu_units a = (apu_pulse1 a, apu_pulse2 a, apu_triangle a, apu_noise a)"

lemma fc_clock_buffer [simp]: "fc_write_buffer (snd (fc_clock f)) = fc_write_buffer f"
  by (simp add: fc_clock_def Let_def)

lemma apu_frame_clocks [simp]:
  "apu_frame_counter (apu_clock_quarter_frame a) = apu_frame_counter a"
  "apu_frame_counter (apu_clock_half_frame a) = apu_frame_counter a"
  "apu_irq_pending (apu_clock_quarter_frame a) = apu_irq_pending a"
  "apu_irq_pending (apu_clock_half_frame a) = apu_irq_pending a"
  by (simp_all add: apu_clock_quarter_frame_def apu_clock_half_frame_def)

lemma apu_units_clocks:
  "apu_units a = apu_units b \<Longrightarrow> apu_units (apu_clock_quarter_frame a) = apu_units (apu_clock_quarter_frame b)"
  "apu_units a = apu_units b \<Longrightarrow> apu_units (apu_clock_half_frame a) = apu_units (apu_clock_half_frame b)"
  by (simp_all add: apu_units_def apu_clock_quarter_frame_def apu_clock_half_frame_def)

lemma apu_units_upd [simp]:
  "apu_units (a\<lparr>apu_frame_counter := g\<rparr>) = apu_units a" "apu_units (a\<lparr>apu_irq_pending := p\<rparr>) = apu_units a"
  "apu_units (a\<lparr>apu_cycle := c\<rparr>) = apu_units a"
  by (simp_all add: apu_units_def)

lemma apu_frame_same: "apu_frame_counter a = g \<Longrightarrow> a\<lparr>apu_frame_counter := g\<rparr> = a"
  by auto

lemma apu_clock_frame:
  assumes "fc_write_buffer (apu_frame_counter a) = None"
  shows "apu_frame_counter (apu_clock a) = snd (fc_clock (apu_frame_counter a))"
    and "apu_units (apu_clock a) = apu_units (let clock = fst (fc_clock (apu_frame_counter a)) in
        if clock = 1 \<or> clock = 3 then apu_clock_quarter_frame (apu_timers a)
        else if clock = 2 \<or> clock = 5 then apu_clock_half_frame (apu_clock_quarter_frame (apu_timers a))
        else apu_timers a)"
    and "apu_irq_pending (apu_clock a) \<longleftrightarrow> apu_irq_pending a
      \<or> \<not> apu_irq_disabled a \<and> fc_mode (snd (fc_clock (apu_frame_counter a))) = Step4
         \<and> 4 \<le> fc_step (snd (fc_clock (apu_frame_counter a)))"
proof -
  obtain c g where c: "fc_clock (apu_frame_counter a) = (c, g)" by force
  have g: "fc_update g = (False, g)" using assms fc_clock_buffer [of "apu_frame_counter a"] by (simp add: c fc_update_def)
  define b where "b = (let b = (apu_timers a)\<lparr>apu_frame_counter := g\<rparr>
    in if fc_mode g = Step4 \<and> \<not> apu_irq_disabled a \<and> fc_step g \<ge> 4 then b\<lparr>apu_irq_pending := True\<rparr> else b)"
  have b: "apu_frame_counter b = g" "apu_units b = apu_units (apu_timers a)"
    "apu_irq_pending b \<longleftrightarrow> apu_irq_pending a \<or> \<not> apu_irq_disabled a \<and> fc_mode g = Step4 \<and> 4 \<le> fc_step g"
    by (auto simp: b_def Let_def)
  define d where "d = (if c = 1 \<or> c = 3 then apu_clock_quarter_frame b
      else if c = 2 \<or> c = 5 then apu_clock_half_frame (apu_clock_quarter_frame b) else b)"
  have d: "apu_frame_counter d = g" "apu_irq_pending d = apu_irq_pending b" by (simp_all add: d_def b)
  have "apu_clock_frame_counter (apu_timers a) = (let (updated, fc) = fc_update (apu_frame_counter d); d = d\<lparr>apu_frame_counter := fc\<rparr>
      in if updated \<and> fc_mode fc = Step5 then apu_clock_half_frame (apu_clock_quarter_frame d) else d)"
    unfolding apu_clock_frame_counter_def d_def b_def Let_def by (simp add: c)
  then have r: "apu_clock a = d\<lparr>apu_cycle := apu_cycle d + 1\<rparr>"
    by (simp add: apu_clock_timers d(1) g apu_frame_same Let_def)
  show "apu_frame_counter (apu_clock a) = snd (fc_clock (apu_frame_counter a))" by (simp add: r d c)
  show "apu_units (apu_clock a) = apu_units (let clock = fst (fc_clock (apu_frame_counter a)) in
        if clock = 1 \<or> clock = 3 then apu_clock_quarter_frame (apu_timers a)
        else if clock = 2 \<or> clock = 5 then apu_clock_half_frame (apu_clock_quarter_frame (apu_timers a))
        else apu_timers a)" 
    using b(2) apu_units_clocks(1) [OF b(2)] apu_units_clocks(2) [OF apu_units_clocks(1) [OF b(2)]]
    by (simp add: r d_def c Let_def)
  show "apu_irq_pending (apu_clock a) \<longleftrightarrow> apu_irq_pending a
      \<or> \<not> apu_irq_disabled a \<and> fc_mode (snd (fc_clock (apu_frame_counter a))) = Step4
         \<and> 4 \<le> fc_step (snd (fc_clock (apu_frame_counter a)))" by (simp add: r d b c)
qed

lemma apu_clocks_frame:
  assumes "fc_write_buffer (apu_frame_counter a) = None"
  shows "fc_write_buffer (apu_frame_counter ((apu_clock ^^ n) a)) = None
    \<and> apu_frame_counter ((apu_clock ^^ n) a) = ((snd \<circ> fc_clock) ^^ n) (apu_frame_counter a)"
  by (induction n) (use assms apu_clock_frame(1) in auto)



section \<open>Length counters and the status register\<close>

text \<open>Bit \<open>n\<close> of \<open>$4015\<close>: bits 0 to 3 say that the length counter of the channel is not
  zero, bit 4 that the DMC has bytes left, bit 6 and 7 are the two interrupt flags and bit 5 is
  clear. Reading it clears the frame interrupt and nothing else.\<close>

theorem apu_status_bits:
  "bit (apu_peek_status a) n \<longleftrightarrow>
     (n = 0 \<and> pl_length_counter (apu_pulse1 a) \<noteq> 0) \<or> (n = 1 \<and> pl_length_counter (apu_pulse2 a) \<noteq> 0)
     \<or> (n = 2 \<and> tr_length_counter (apu_triangle a) \<noteq> 0) \<or> (n = 3 \<and> no_length_counter (apu_noise a) \<noteq> 0)
     \<or> (n = 4 \<and> dmc_length (apu_dmc a) \<noteq> 0) \<or> (n = 6 \<and> apu_irq_pending a)
     \<or> (n = 7 \<and> dmc_irq_pending (apu_dmc a))"
  unfolding apu_peek_status_def Let_def bit_if_or bit_u8_masks word_neq_0_conv
  by auto

lemma pl_half_length: "pl_length (pl_clock_half_frame p) = snd (lc_clock (pl_length p))"
  by (simp add: pl_clock_half_frame_def Let_def)

lemma pl_half_lengths: "pl_length ((pl_clock_half_frame ^^ n) p) = ((snd \<circ> lc_clock) ^^ n) (pl_length p)"
  by (induction n) (simp_all add: pl_half_length)

text \<open>The length counter of a pulse channel that is enabled and not halted runs out after
  exactly as many half-frame clocks as were loaded, whatever the sweep unit does meanwhile.\<close>

theorem pulse_length_runs_out:
  assumes "lc_enabled (pl_length p)"
  shows "unat (pl_length_counter ((pl_clock_half_frame ^^ n) p)) = unat (pl_length_counter p) - n"
  using lc_clocks_counter [OF assms, of n] by (simp add: pl_length_counter_def pl_half_lengths)

theorem pulse_length_runs_out_witness:
  "unat (pl_length_counter ((pl_clock_half_frame ^^ 3)
     (pl_write_timer_hi (pl_set_enabled (pl_write_ctrl (pl_new PulseOne DefaultFreq) 0) True) 0))) = 7"
  by (subst pulse_length_runs_out)
    (simp_all add: pl_write_timer_hi_def pl_set_enabled_def pl_write_ctrl_def pl_new_def lc_new_def
      lc_write_ctrl_def lc_load_value_def LENGTH_TABLE_def pl_length_counter_def Let_def)

lemma pl_output_zero: "pl_length_counter p = 0 \<Longrightarrow> pl_output p = 0"
  by (simp add: pl_output_def pl_length_counter_def)

lemma no_output_zero: "no_length_counter n = 0 \<Longrightarrow> no_output n = 0"
  by (simp add: no_output_def no_length_counter_def)

text \<open>Once a channel is disabled through \<open>$4015\<close>, its length counter stays at zero under every
  interleaving of timer, quarter-frame and half-frame clocks, so its bit of the status
  register stays clear and, for the pulse and noise channels, it is silent.\<close>

theorem disabled_channels_stay_silent:
  "(pulse.ticks (pl_set_enabled p False) p' \<longrightarrow> pl_length_counter p' = 0 \<and> pl_output p' = 0)
   \<and> (triangle.ticks (tr_set_enabled t False) t' \<longrightarrow> tr_length_counter t' = 0)
   \<and> (noise.ticks (no_set_enabled n False) n' \<longrightarrow> no_length_counter n' = 0 \<and> no_output n' = 0)"
  by (simp add: pulse.disabled_stays triangle.disabled_stays noise.disabled_stays
      pl_output_zero no_output_zero)

theorem disabled_channels_stay_silent_witness:
  "pl_output (pl_clock (pl_clock_half_frame (pl_set_enabled (pl_new PulseTwo DefaultFreq) False))) = 0"
proof -
  have "pulse.ticks (pl_set_enabled (pl_new PulseTwo DefaultFreq) False)
      (pl_clock (pl_clock_half_frame (pl_set_enabled (pl_new PulseTwo DefaultFreq) False)))"
    by (intro pulse.ticks_clock pulse.ticks_half pulse.ticks_refl)
  then show ?thesis
    using disabled_channels_stay_silent [of "pl_new PulseTwo DefaultFreq"] by blast
qed

section \<open>The sample reader of the DMC\<close>

lemma dmc_set_enabled_start:
  "dmc_length d = 0 \<Longrightarrow>
     (let e = dmc_set_enabled d True cycle in
        dmc_addr e = dmc_addr_load d \<and> dmc_length e = dmc_length_load d
        \<and> dmc_loops e = dmc_loops d \<and> dmc_irq_enabled e = dmc_irq_enabled d \<and> \<not> dmc_irq_pending e
        \<and> dmc_addr_load e = dmc_addr_load d \<and> dmc_length_load e = dmc_length_load d)"
  by (simp add: dmc_set_enabled_def Let_def)

text \<open>A DMC sample enabled through \<open>$4015\<close> is read as a block: for \<open>length_load\<close> bytes the
  addresses run up from \<open>addr_load\<close> (wrapping from \<open>$FFFF\<close> to \<open>$8000\<close>); with the last byte the
  sample either restarts (loop flag) or stops, raising the interrupt exactly if it is enabled.\<close>

theorem dmc_sample_block:
  assumes "dmc_length d = 0" and "0 < dmc_length_load d"
    and "length vs + 1 = unat (dmc_length_load d)" and "k \<le> length vs"
  shows "let e = dmc_set_enabled d True cycle; l = dmc_loads e (vs @ [v]) in
      dmc_addr (dmc_loads e (take k vs)) = (dmc_next_addr ^^ k) (dmc_addr_load d)
    \<and> unat (dmc_length (dmc_loads e (take k vs))) = unat (dmc_length_load d) - k
    \<and> dmc_sample_buffer l = v \<and> \<not> dmc_sample_buffer_empty l
    \<and> (dmc_loops d \<longrightarrow> dmc_addr l = dmc_addr_load d \<and> dmc_length l = dmc_length_load d
         \<and> \<not> dmc_irq_pending l)
    \<and> (\<not> dmc_loops d \<longrightarrow> dmc_length l = 0 \<and> dmc_irq_pending l = dmc_irq_enabled d)"
proof -
  define e where "e = dmc_set_enabled d True cycle"
  have e: "dmc_addr e = dmc_addr_load d" "dmc_length e = dmc_length_load d"
    "dmc_loops e = dmc_loops d" "dmc_irq_enabled e = dmc_irq_enabled d" "\<not> dmc_irq_pending e"
    "dmc_addr_load e = dmc_addr_load d" "dmc_length_load e = dmc_length_load d"
    using dmc_set_enabled_start [OF assms(1)] by (simp_all add: e_def Let_def)
  have mid: "length (take k vs) < unat (dmc_length e)" "length vs < unat (dmc_length e)"
    using assms(3,4) e by simp_all
  define m where "m = dmc_loads e vs"
  have "unat (dmc_length m) = 1" using dmc_loads_mid [OF mid(2)] assms(3) e by (simp add: m_def)
  then have m: "dmc_length m = 1" by (simp add: word_unat_eq_iff)
  show ?thesis
    using dmc_loads_mid [OF mid(1)] dmc_loads_mid [OF mid(2)] e assms(4)
    unfolding e_def [symmetric] Let_def
    by (simp add: dmc_loads_append dmc_load_last [OF m] Let_def flip: m_def)
qed

theorem dmc_sample_block_witness:
  "dmc_irq_pending (dmc_loads (dmc_set_enabled (dmc_write_timer dmc_new 0x80) True 0) [7])"
proof -
  have "dmc_irq_pending (dmc_loads (dmc_set_enabled (dmc_write_timer dmc_new 0x80) True 0) ([] @ [7]))"
    using dmc_sample_block [of "dmc_write_timer dmc_new 0x80" "[]" 0 0 7]
    by (simp add: dmc_write_timer_def dmc_new_def Let_def)
  then show ?thesis by simp
qed

section \<open>The sweep unit\<close>

definition sweep_fires :: "pulse \<Rightarrow> bool" where
  "sweep_fires p \<longleftrightarrow> \<not> sw_reload (pl_sweep p) \<and> sw_counter (pl_sweep p) = 0
     \<and> sw_enabled (pl_sweep p) \<and> \<not> pl_sweep_forcing_silence p"

text \<open>A sweep clock that fires on a pulse channel of the APU keeps the period in 11 bits and
  moves it by \<open>delta = period >> shift\<close>: up by \<open>delta\<close>; with the negate flag down by \<open>delta\<close>
  on channel one and by \<open>delta + 1\<close> on channel two. (The two channels are exchanged with respect
  to the hardware, where the extra one is subtracted on channel one.)\<close>

theorem sweep_moves_period:
  assumes "pl_wf p" and "pl_output_freq p = DefaultFreq" and "sweep_fires p"
  shows "let t = unat (pl_freq_timer p);
             d = t div 2 ^ unat (sw_shift (pl_sweep p));
             t' = unat (pl_freq_timer (pl_clock_half_frame p)) in
      t' < 0x800
    \<and> (\<not> sw_negate (pl_sweep p) \<longrightarrow> t' = t + d)
    \<and> (sw_negate (pl_sweep p) \<and> pl_channel p = PulseOne \<longrightarrow> t' = t - d \<and> d \<le> t)
    \<and> (sw_negate (pl_sweep p) \<and> pl_channel p = PulseTwo \<longrightarrow> t' = t - (d + 1) \<and> d + 1 \<le> t)"
proof -
  let ?t = "pl_freq_timer p" and ?d = "drop_bit (unat (sw_shift (pl_sweep p))) (pl_freq_timer p)"
  have t: "8 \<le> unat ?t" "unat ?t < 0x800"
    using assms by (simp_all add: sweep_fires_def pl_sweep_forcing_silence_def pl_wf_def Let_def
        word_less_nat_alt)
  have d: "unat ?d \<le> unat ?t div 2"
    using assms by (intro unat_shift_half) (simp add: pl_wf_def sweep_fires_def)
  have dv: "unat ?t div 2 ^ unat (sw_shift (pl_sweep p)) = unat ?d"
    by (subst unat_drop_bit_eq) (simp add: drop_bit_eq_div)
  have up: "unat (?t + ?d) = unat ?t + unat ?d" using t d by (simp add: unat_plus_if')
  have wf: "unat (pl_freq_timer (pl_clock_half_frame p)) < 0x800"
    using pl_wf_half [OF assms(1)] assms(2)
    by (simp add: pl_wf_def pl_clock_half_frame_def pl_sweep_clock_def Let_def)
  have "pl_freq_timer (pl_clock_half_frame p) =
      (if sw_negate (pl_sweep p)
       then if pl_channel p = PulseOne then ?t - (?d + 1) + 1 else ?t - (?d + 1)
       else ?t + ?d)"
    using assms(3) by (simp add: pl_clock_half_frame_def pl_sweep_clock_def sweep_fires_def Let_def)
  then show ?thesis
    using wf up sweep_down [OF t d] t d unfolding Let_def dv by auto
qed

theorem sweep_moves_period_witness:
  "let p = (pl_new PulseTwo DefaultFreq)\<lparr>pl_freq_timer := 0x100,
       pl_sweep := sw_new\<lparr>sw_enabled := True, sw_negate := True, sw_shift := 1\<rparr>\<rparr>
   in unat (pl_freq_timer (pl_clock_half_frame p)) = 0x7F"
proof -
  let ?p = "(pl_new PulseTwo DefaultFreq)\<lparr>pl_freq_timer := 0x100,
       pl_sweep := sw_new\<lparr>sw_enabled := True, sw_negate := True, sw_shift := 1\<rparr>\<rparr>"
  have "pl_wf ?p" "pl_output_freq ?p = DefaultFreq" "sweep_fires ?p"
    by (simp_all add: pl_wf_def pl_new_def sw_new_def sweep_fires_def pl_sweep_forcing_silence_def)
  from sweep_moves_period [OF this] show ?thesis
    by (simp add: pl_new_def sw_new_def Let_def)
qed

section \<open>Muting\<close>

text \<open>\<open>toggle_channel\<close> and \<open>channel_enabled\<close> do not reach the second pulse channel: toggling
  \<open>Pulse2\<close> mutes the first one and leaves the second as it is, \<open>channel_enabled\<close> answers the
  same for both, and it answers ``enabled'' exactly for the channels that are muted.\<close>

theorem pulse2_not_toggled:
  "apu_pulse2 (apu_toggle_channel a Pulse2) = apu_pulse2 a
   \<and> pl_force_silent (apu_pulse1 (apu_toggle_channel a Pulse2)) = (\<not> pl_force_silent (apu_pulse1 a))
   \<and> apu_channel_enabled a Pulse2 = apu_channel_enabled a Pulse1
   \<and> apu_channel_enabled a Noise = no_force_silent (apu_noise a)"
  by (simp add: apu_toggle_channel_def apu_channel_enabled_def pl_toggle_silent_def pl_silent_def
      no_silent_def)

end
