(* ===== verification/Cart.thy ===== *)
theory Cart
  imports Mem
begin

text \<open>
  \<open>src/cart.rs\<close>: the iNES / NES 2.0 header and the memories of a cartridge. A reader is the
  list of bytes that are left; \<open>read_exact\<close> fails when there are not enough. Errors are
  values of \<open>cart_error\<close>, one constructor per message of the source. The random generator of
  \<open>RamState::fill\<close> is the parameter \<open>rng\<close> (first argument: which memory is filled), and
  \<open>lookup_region\<close>, a hash of the PRG-ROM looked up in a data file, is the parameter \<open>region_of\<close>.
\<close>

section \<open>Nametable mirroring (\<open>src/ppu.rs\<close>)\<close>

datatype mirroring = Vertical | Horizontal | SingleScreenA | SingleScreenB | FourScreen

definition mirroring_default :: mirroring where
  "mirroring_default = Horizontal"

section \<open>Header\<close>

record nes_header =
  hd_version :: u8
  hd_mapper_num :: u16
  hd_submapper_num :: u8
  hd_flags :: u8
  hd_prg_rom_banks :: u16
  hd_chr_rom_banks :: u16
  hd_prg_ram_shift :: u8
  hd_chr_ram_shift :: u8
  hd_tv_mode :: u8
  hd_vs_data :: u8

datatype cart_error =
    UnexpectedEof
  | SignatureNotFound
  | DiskDude
  | UnrecognizedFormat
  | InvalidPrgRamSize
  | InvalidChrRamSize
  | BatteryChrRam
  | UnrecognizedData2
  | UnrecognizedData nat
  | Trained
  | InvalidPrgRom u16
  | InvalidChrRom u16
  | InvalidRamSize u8
  | UnimplementedMapper u16

definition read_exact :: "nat \<Rightarrow> u8 list \<Rightarrow> cart_error + u8 list \<times> u8 list" where
  "read_exact n rom = (if length rom < n then Inl UnexpectedEof else Inr (take n rom, drop n rom))"

text \<open>The offset of the first non-zero byte among those at 8 to 15.\<close>

definition first_data :: "u8 list \<Rightarrow> nat option" where
  "first_data header = List.find (\<lambda>i. header ! i > 0) [8..<16]"

definition header_mapper_num :: "u8 list \<Rightarrow> u16" where
  "header_mapper_num header =
     ucast (drop_bit 4 (header ! 6 AND 0xF0) OR (header ! 7 AND 0xF0))"

definition header_flags :: "u8 list \<Rightarrow> u8" where
  "header_flags header = (header ! 6 AND 0x0F) OR push_bit 4 (header ! 7 AND 0x0F)"

definition header_trainer :: "nes_header \<Rightarrow> cart_error + nes_header" where
  "header_trainer h = (if hd_flags h AND 0x04 = 0x04 then Inl Trained else Inr h)"

definition header_ines :: "u8 list \<Rightarrow> cart_error + nes_header" where
  "header_ines header =
     (case first_data header of
        Some i \<Rightarrow> Inl (UnrecognizedData i)
      | None \<Rightarrow> header_trainer
          \<lparr>hd_version = 1, hd_mapper_num = header_mapper_num header, hd_submapper_num = 0,
           hd_flags = header_flags header, hd_prg_rom_banks = ucast (header ! 4),
           hd_chr_rom_banks = ucast (header ! 5), hd_prg_ram_shift = 0, hd_chr_ram_shift = 0,
           hd_tv_mode = 0, hd_vs_data = 0\<rparr>)"

definition header_nes20 :: "u8 list \<Rightarrow> cart_error + nes_header" where
  "header_nes20 header =
     (let mapper_num = header_mapper_num header OR push_bit 8 (ucast (header ! 8 AND 0x0F));
          submapper_num = drop_bit 4 (header ! 8 AND 0xF0);
          prg_rom_banks = ucast (header ! 4) OR push_bit 8 (ucast (header ! 9 AND 0x0F));
          chr_rom_banks = ucast (header ! 5) OR push_bit 4 (ucast (header ! 9 AND 0xF0));
          prg_ram_shift = header ! 10;
          chr_ram_shift = header ! 11
      in if prg_ram_shift AND 0x0F = 0x0F \<or> prg_ram_shift AND 0xF0 = 0xF0 then Inl InvalidPrgRamSize
         else if chr_ram_shift AND 0x0F = 0x0F \<or> chr_ram_shift AND 0xF0 = 0xF0 then Inl InvalidChrRamSize
         else if chr_ram_shift AND 0xF0 = 0xF0 then Inl BatteryChrRam
         else if header ! 14 > 0 \<or> header ! 15 > 0 then Inl UnrecognizedData2
         else header_trainer
           \<lparr>hd_version = 2, hd_mapper_num = mapper_num, hd_submapper_num = submapper_num,
            hd_flags = header_flags header, hd_prg_rom_banks = prg_rom_banks,
            hd_chr_rom_banks = chr_rom_banks, hd_prg_ram_shift = prg_ram_shift,
            hd_chr_ram_shift = chr_ram_shift, hd_tv_mode = header ! 12, hd_vs_data = header ! 13\<rparr>)"

definition NES_SIGNATURE :: "u8 list" where
  "NES_SIGNATURE = [0x4E, 0x45, 0x53, 0x1A]"

definition nes_header_load :: "u8 list \<Rightarrow> cart_error + nes_header \<times> u8 list" where
  "nes_header_load rom =
     (case read_exact 16 rom of
        Inl e \<Rightarrow> Inl e
      | Inr (header, rom) \<Rightarrow>
          (if take 4 header \<noteq> NES_SIGNATURE then Inl SignatureNotFound
           else if header ! 7 AND 0x0C = 0x04 then Inl DiskDude
           else if header ! 7 AND 0x0C = 0x0C then Inl UnrecognizedFormat
           else case (if header ! 7 AND 0x0C = 0x08 then header_nes20 header else header_ines header) of
                  Inl e \<Rightarrow> Inl e
                | Inr h \<Rightarrow> Inr (h, rom)))"

section \<open>Cartridge memories\<close>

record cart =
  cart_name :: string
  cart_header :: nes_header
  cart_region :: nes_region
  cart_ram_state :: ram_state
  cart_chr_rom :: "u8 list"
  cart_chr_ram :: "u8 list"
  cart_ex_ram :: "u8 list"
  cart_prg_rom :: "u8 list"
  cart_prg_ram :: "u8 list"

definition PRG_ROM_BANK_SIZE :: nat where "PRG_ROM_BANK_SIZE = 0x4000"

definition CHR_ROM_BANK_SIZE :: nat where "CHR_ROM_BANK_SIZE = 0x2000"

text \<open>\<open>Vec::resize\<close> with zeros.\<close>

definition vec_resize :: "u8 list \<Rightarrow> nat \<Rightarrow> u8 list" where
  "vec_resize xs n = take n xs @ replicate (n - length xs) 0x00"

lemma length_vec_resize [simp]: "length (vec_resize xs n) = n"
  by (simp add: vec_resize_def)

definition cart_has_chr :: "cart \<Rightarrow> bool" where
  "cart_has_chr c \<longleftrightarrow> cart_chr_rom c \<noteq> [] \<or> cart_chr_ram c \<noteq> []"

definition cart_chr_len :: "cart \<Rightarrow> nat" where
  "cart_chr_len c =
     (if cart_chr_rom c \<noteq> [] then length (cart_chr_rom c)
      else if cart_chr_ram c \<noteq> [] then length (cart_chr_ram c) else 0)"

definition cart_has_prg_ram :: "cart \<Rightarrow> bool" where
  "cart_has_prg_ram c \<longleftrightarrow> cart_prg_ram c \<noteq> []"

definition cart_battery_backed :: "cart \<Rightarrow> bool" where
  "cart_battery_backed c \<longleftrightarrow> hd_flags (cart_header c) AND 0x02 = 0x02"

definition cart_mirroring :: "cart \<Rightarrow> mirroring" where
  "cart_mirroring c =
     (if hd_flags (cart_header c) AND 0x08 = 0x08 then FourScreen
      else if hd_flags (cart_header c) AND 0x01 = 0 then Horizontal else Vertical)"

definition cart_mapper_num :: "cart \<Rightarrow> u16" where
  "cart_mapper_num c = hd_mapper_num (cart_header c)"

definition cart_submapper_num :: "cart \<Rightarrow> u8" where
  "cart_submapper_num c = hd_submapper_num (cart_header c)"

definition cart_add_prg_ram :: "(nat \<Rightarrow> nat \<Rightarrow> u8) \<Rightarrow> nat \<Rightarrow> cart \<Rightarrow> cart" where
  "cart_add_prg_ram rng capacity c =
     c\<lparr>cart_prg_ram := ram_fill (rng 2) (vec_resize (cart_prg_ram c) capacity) (cart_ram_state c)\<rparr>"

definition cart_add_chr_ram :: "(nat \<Rightarrow> nat \<Rightarrow> u8) \<Rightarrow> nat \<Rightarrow> cart \<Rightarrow> cart" where
  "cart_add_chr_ram rng capacity c =
     c\<lparr>cart_chr_ram := ram_fill (rng 3) (vec_resize (cart_chr_ram c) capacity) (cart_ram_state c)\<rparr>"

definition cart_add_ex_ram :: "(nat \<Rightarrow> nat \<Rightarrow> u8) \<Rightarrow> nat \<Rightarrow> cart \<Rightarrow> cart" where
  "cart_add_ex_ram rng capacity c =
     c\<lparr>cart_ex_ram := ram_fill (rng 4) (vec_resize (cart_ex_ram c) capacity) (cart_ram_state c)\<rparr>"

text \<open>\<open>checked_shl\<close> only rejects a shift of 64 or more; the shifted-out bits are lost.\<close>

definition calculate_ram_size :: "u8 \<Rightarrow> cart_error + nat" where
  "calculate_ram_size value =
     (if value > 0
      then if unat value < 64 then Inr (64 * 2 ^ unat value mod 2 ^ 64) else Inl (InvalidRamSize value)
      else Inr 0)"

text \<open>\<open>from_rom\<close> up to the choice of the mapper.\<close>

definition cart_memories ::
    "(nat \<Rightarrow> nat \<Rightarrow> u8) \<Rightarrow> (u8 list \<Rightarrow> nes_region) \<Rightarrow> string \<Rightarrow> u8 list \<Rightarrow> ram_state
       \<Rightarrow> cart_error + cart" where
  "cart_memories rng region_of name rom ram_state =
     (case nes_header_load rom of
        Inl e \<Rightarrow> Inl e
      | Inr (header, rom) \<Rightarrow>
     (case read_exact (unat (hd_prg_rom_banks header) * PRG_ROM_BANK_SIZE) rom of
        Inl _ \<Rightarrow> Inl (InvalidPrgRom (hd_prg_rom_banks header))
      | Inr (prg_rom, rom) \<Rightarrow>
     (case calculate_ram_size (hd_prg_ram_shift header) of
        Inl e \<Rightarrow> Inl e
      | Inr prg_ram_size \<Rightarrow>
     (let prg_ram = ram_with_capacity (rng 0) prg_ram_size ram_state in
     (case (if hd_chr_rom_banks header > 0
            then read_exact (unat (hd_chr_rom_banks header) * CHR_ROM_BANK_SIZE) rom
            else Inr ([], rom)) of
        Inl _ \<Rightarrow> Inl (InvalidChrRom (hd_chr_rom_banks header))
      | Inr (chr_rom, rom) \<Rightarrow>
     (case (if chr_rom = [] then calculate_ram_size (hd_chr_ram_shift header) else Inr 0) of
        Inl e \<Rightarrow> Inl e
      | Inr chr_ram_size \<Rightarrow>
          Inr \<lparr>cart_name = name, cart_header = header, cart_region = region_of prg_rom,
               cart_ram_state = ram_state, cart_chr_rom = chr_rom,
               cart_chr_ram = (if chr_rom = [] then ram_with_capacity (rng 1) chr_ram_size ram_state else []),
               cart_ex_ram = [], cart_prg_rom = prg_rom, cart_prg_ram = prg_ram\<rparr>))))))"

section \<open>Lemmas\<close>

lemma cart_add_frame [simp]:
  "cart_prg_rom (cart_add_prg_ram rng n c) = cart_prg_rom c"
  "cart_chr_rom (cart_add_prg_ram rng n c) = cart_chr_rom c"
  "cart_chr_ram (cart_add_prg_ram rng n c) = cart_chr_ram c"
  "cart_header (cart_add_prg_ram rng n c) = cart_header c"
  "length (cart_prg_ram (cart_add_prg_ram rng n c)) = n"
  "cart_prg_rom (cart_add_chr_ram rng n c) = cart_prg_rom c"
  "cart_chr_rom (cart_add_chr_ram rng n c) = cart_chr_rom c"
  "cart_prg_ram (cart_add_chr_ram rng n c) = cart_prg_ram c"
  "cart_header (cart_add_chr_ram rng n c) = cart_header c"
  "length (cart_chr_ram (cart_add_chr_ram rng n c)) = n"
  "cart_prg_rom (cart_add_ex_ram rng n c) = cart_prg_rom c"
  "cart_chr_rom (cart_add_ex_ram rng n c) = cart_chr_rom c"
  "cart_chr_ram (cart_add_ex_ram rng n c) = cart_chr_ram c"
  "cart_prg_ram (cart_add_ex_ram rng n c) = cart_prg_ram c"
  "cart_header (cart_add_ex_ram rng n c) = cart_header c"
  "length (cart_ex_ram (cart_add_ex_ram rng n c)) = n"
  "cart_ex_ram (cart_add_prg_ram rng n c) = cart_ex_ram c"
  "cart_ex_ram (cart_add_chr_ram rng n c) = cart_ex_ram c"
  by (simp_all add: cart_add_prg_ram_def cart_add_chr_ram_def cart_add_ex_ram_def)

lemma cart_mirroring_cong: "cart_header c = cart_header c' \<Longrightarrow> cart_mirroring c = cart_mirroring c'"
  by (simp add: cart_mirroring_def)

lemma cart_has_chr_len: "cart_has_chr c \<longleftrightarrow> 0 < cart_chr_len c"
  by (auto simp: cart_has_chr_def cart_chr_len_def)

lemma cart_memories_sizes:
  assumes "cart_memories rng region_of name rom st = Inr c"
  shows "length (cart_prg_rom c) = unat (hd_prg_rom_banks (cart_header c)) * 0x4000"
    and "length (cart_chr_rom c) = unat (hd_chr_rom_banks (cart_header c)) * 0x2000"
    and "cart_ex_ram c = []" and "cart_ram_state c = st" and "cart_name c = name"
  using assms
  by (auto simp: cart_memories_def read_exact_def PRG_ROM_BANK_SIZE_def CHR_ROM_BANK_SIZE_def
      Let_def word_not_gt0 split: sum.splits if_splits prod.splits)

end
