(* ===== verification/MapperBase.thy ===== *)
theory MapperBase
  imports Cart
begin

text \<open>
  \<open>src/mapper.rs\<close>: what a mapper answers to a bus access, and the interface all boards share.
  A mapper does not hold memory: it maps an address to an index of one of the cartridge's
  memories. The interface \<open>mem_map\<close> states the contract the two buses rely on: on a
  well-formed board no access panics, every index is inside the memory it names, a read
  returns what \<open>map_peek\<close> returns, and reads and writes keep the board well-formed.
\<close>

datatype mapped_read =
    NoRead
  | ChrR nat
  | CIRamR nat
  | ExRamR nat
  | PrgRomR nat
  | PrgRamR nat
  | DataR u8

datatype mapped_write =
    NoWrite
  | ChrW nat u8
  | CIRamW nat u8
  | ExRamW nat u8
  | PrgRamW nat u8
  | PrgRamProtect bool

text \<open>The trait \<open>PpuAddr\<close> of \<open>src/ppu/bus.rs\<close>, which the boards use too.\<close>

definition addr_is_attr :: "u16 \<Rightarrow> bool" where
  "addr_is_attr addr \<longleftrightarrow> addr AND 0x03FF \<ge> 0x03C0"

definition addr_is_palette :: "u16 \<Rightarrow> bool" where
  "addr_is_palette addr \<longleftrightarrow> addr \<ge> 0x3F00"

text \<open>The memories behind a mapper: their sizes.\<close>

record board =
  bd_prg :: nat
  bd_chr :: nat
  bd_prg_ram :: nat

text \<open>Indices of cartridge memory stay inside it. EX-RAM is left to the boards that have it; an index
  into the console's own video memory is masked by the bus when it reads.\<close>

fun read_in :: "board \<Rightarrow> mapped_read \<Rightarrow> bool" where
  "read_in bd (ChrR i) \<longleftrightarrow> i < bd_chr bd"
| "read_in bd (PrgRomR i) \<longleftrightarrow> i < bd_prg bd"
| "read_in bd (PrgRamR i) \<longleftrightarrow> i < bd_prg_ram bd"
| "read_in bd _ \<longleftrightarrow> True"

fun write_in :: "board \<Rightarrow> mapped_write \<Rightarrow> bool" where
  "write_in bd (ChrW i v) \<longleftrightarrow> i < bd_chr bd"
| "write_in bd (PrgRamW i v) \<longleftrightarrow> i < bd_prg_ram bd"
| "write_in bd (CIRamW i v) \<longleftrightarrow> i < 0x800"
| "write_in bd _ \<longleftrightarrow> True"

definition board_of :: "cart \<Rightarrow> board" where
  "board_of c = \<lparr>bd_prg = length (cart_prg_rom c), bd_chr = cart_chr_len c,
     bd_prg_ram = length (cart_prg_ram c)\<rparr>"

text \<open>The sizes the boards are made for: powers of two, at least one full PRG window and one
  full pattern-table window.\<close>

definition board_ok :: "cart \<Rightarrow> bool" where
  "board_ok c \<longleftrightarrow> (\<exists>j. length (cart_prg_rom c) = 0x8000 * 2 ^ j)
     \<and> (\<exists>k. length (cart_chr_rom c) = 0x2000 * 2 ^ k)"

locale mem_map =
  fixes wf :: "board \<Rightarrow> 'm \<Rightarrow> bool"
    and map_peek :: "'m \<Rightarrow> u16 \<Rightarrow> mapped_read option"
    and map_read :: "'m \<Rightarrow> u16 \<Rightarrow> (mapped_read \<times> 'm) option"
    and map_write :: "'m \<Rightarrow> u16 \<Rightarrow> u8 \<Rightarrow> (mapped_write \<times> 'm) option"
  assumes peek_in: "wf bd m \<Longrightarrow> returns (map_peek m a) (read_in bd)"
    and read_peek: "wf bd m \<Longrightarrow> returns (map_read m a) (\<lambda>(r, m'). map_peek m a = Some r \<and> wf bd m')"
    and write_ok: "wf bd m \<Longrightarrow> returns (map_write m a v) (\<lambda>(w, m'). write_in bd w \<and> wf bd m')"
begin

text \<open>A bus transaction on the mapper, and a sequence of them.\<close>

fun access1 :: "'m \<Rightarrow> u16 \<times> u8 option \<Rightarrow> 'm option" where
  "access1 m (a, None) = map_option snd (map_read m a)"
| "access1 m (a, Some v) = map_option snd (map_write m a v)"

fun accesses :: "'m \<Rightarrow> (u16 \<times> u8 option) list \<Rightarrow> 'm option" where
  "accesses m [] = Some m"
| "accesses m (x # xs) = do { m' \<leftarrow> access1 m x; accesses m' xs }"

lemma access1_wf: "wf bd m \<Longrightarrow> returns (access1 m x) (wf bd)"
  using read_peek [of bd m "fst x"] write_ok [of bd m "fst x" "the (snd x)"]
  by (cases x; cases "snd x") (auto simp: returns_def)

lemma accesses_wf: "wf bd m \<Longrightarrow> returns (accesses m xs) (wf bd)"
proof (induction xs arbitrary: m)
  case (Cons x xs)
  obtain m' where "access1 m x = Some m'" "wf bd m'"
    using returnsD [OF access1_wf [OF Cons.prems, of x]] by blast
  then show ?case using Cons.IH by simp
qed simp

text \<open>The contract of the buses: after any accesses, the next one does not panic and stays
  inside the memories.\<close>

lemma accesses_then_in:
  assumes "wf bd m"
  shows "returns (accesses m xs) (\<lambda>m'. returns (map_peek m' a) (read_in bd)
    \<and> returns (map_read m' a) (\<lambda>(r, m''). read_in bd r)
    \<and> returns (map_write m' a v) (\<lambda>(w, m''). write_in bd w))"
proof (rule returns_mono [OF accesses_wf [OF assms]])
  fix m' assume wf: "wf bd m'"
  have "returns (map_read m' a) (\<lambda>(r, m''). read_in bd r)"
    using returnsD [OF read_peek [OF wf, of a]] peek_in [OF wf, of a] by (auto simp: returns_def)
  moreover have "returns (map_write m' a v) (\<lambda>(w, m''). write_in bd w)"
    using write_ok [OF wf, of a v] by (rule returns_mono) auto
  ultimately show "returns (map_peek m' a) (read_in bd)
      \<and> returns (map_read m' a) (\<lambda>(r, m''). read_in bd r)
      \<and> returns (map_write m' a v) (\<lambda>(w, m''). write_in bd w)"
    using peek_in [OF wf] by blast
qed

end

section \<open>Bank windows that fit a memory\<close>

definition mb_fits :: "nat \<Rightarrow> mem_banks \<Rightarrow> bool" where
  "mb_fits sz b \<longleftrightarrow> mb_ok b \<and> mb_page_count b * mb_window b \<le> sz"

lemma mb_fits_translate: "mb_fits sz b \<Longrightarrow> returns (mb_translate b a) (\<lambda>i. i < sz)"
  using mb_translate_in_range [of b a] unfolding mb_fits_def
  by (elim conjE) (rule returns_mono, assumption, simp)

lemma mb_fits_put [simp]: "mb_fits sz b \<Longrightarrow> mb_fits sz (mb_put b s n)"
  by (simp add: mb_fits_def)

lemma mb_fits_put_range:
  "mb_fits sz b \<Longrightarrow> (n AND mb_mask b) + (en - s) < mb_page_count b
     \<Longrightarrow> mb_fits sz (mb_put_range b s en n)"
  by (simp add: mb_fits_def)

text \<open>A pair of slots set to an even bank and its successor fits when the number of pages is even.\<close>

lemma even_pages_pair:
  assumes "mb_wf b" and "even (mb_page_count b)" and "even n"
  shows "(n AND mb_mask b) + 1 < mb_page_count b"
proof -
  have "n AND mb_mask b < mb_page_count b" by (rule mb_and_mask_less [OF assms(1)])
  moreover have "even (n AND mb_mask b)"
    using assms(3) by (auto simp: even_iff_mod_2_eq_zero and_nat_unfold [of n])
  ultimately show ?thesis using assms(2) by presburger
qed

lemma mb_fits_pair:
  "mb_fits sz b \<Longrightarrow> even (mb_page_count b) \<Longrightarrow> even n \<Longrightarrow> en = Suc s
     \<Longrightarrow> mb_fits sz (mb_put_range b s en n)"
  using even_pages_pair [of b n] by (intro mb_fits_put_range) (auto simp: mb_fits_def mb_ok_def)

lemma mb_fits_new:
  assumes "w = 2 ^ k" and "w dvd en - start + 1" and "en - start + 1 \<le> cap"
  shows "mb_fits cap (mb_new start en cap w)"
proof -
  have "w \<le> cap" using assms(2,3) dvd_imp_le [of w "en - start + 1"] by simp
  then have "max 1 (cap div w) * w \<le> cap"
    using assms(1) by (simp add: max_def div_times_less_eq_dividend)
  then show ?thesis
    using mb_new_ok [OF assms(1,2)] assms(3) by (simp add: mb_fits_def)
qed

lemma mb_new_even:
  assumes "cap = c * 2 ^ j" and "2 * w dvd c" and "0 < w" and "0 < c"
  shows "even (mb_page_count (mb_new start en cap w))"
proof -
  obtain q where "c = 2 * w * q" using assms(2) by (auto simp: dvd_def)
  then have "cap = w * (2 * q * 2 ^ j)" using assms(1) by simp
  then have "cap div w = 2 * q * 2 ^ j" using assms(3) by simp
  moreover have "0 < q" using \<open>c = 2 * w * q\<close> assms(4) by (cases q) auto
  ultimately show ?thesis by (simp add: max_def)
qed

end
