(* ===== verification/MapperDiscrete.thy ===== *)
theory MapperDiscrete
  imports MapperBase
begin

text \<open>
  The boards made of discrete logic: \<open>src/mapper/m000_nrom.rs\<close>, \<open>m002_uxrom.rs\<close>,
  \<open>m003_cnrom.rs\<close>, \<open>m007_axrom.rs\<close>, \<open>m066_gxrom.rs\<close> and \<open>m071_bf909x.rs\<close>. Each has its
  state, its \<open>load\<close> from a cartridge, its maps and an interpretation of the mapper interface.
\<close>

text \<open>The default \<open>map_read\<close> of the trait.\<close>

definition map_read_default :: "('m \<Rightarrow> u16 \<Rightarrow> mapped_read option) \<Rightarrow> 'm \<Rightarrow> u16 \<Rightarrow> (mapped_read \<times> 'm) option" where
  "map_read_default peek m a = do { r \<leftarrow> peek m a; Some (r, m) }"

lemma returns_read_default:
  "returns (peek m a) (read_in bd) \<Longrightarrow> ok bd m \<Longrightarrow>
   returns (map_read_default peek m a) (\<lambda>(r, m'). peek m a = Some r \<and> ok bd m')"
  by (auto simp: map_read_default_def returns_def)

definition window_in :: "nat \<Rightarrow> nat \<Rightarrow> u16 \<Rightarrow> bool" where
  "window_in lo hi a \<longleftrightarrow> lo \<le> unat a \<and> unat a \<le> hi"

lemma window_in_upper: "window_in lo hi a \<Longrightarrow> hi < n \<Longrightarrow> unat a < n"
  by (simp add: window_in_def)

lemma unat_and_3FFF [simp]: "0x4000 \<le> n \<Longrightarrow> unat (a AND 0x3FFF :: u16) < n"
  by (rule unat_and_less) simp

lemma unat_and_7FFF [simp]: "0x8000 \<le> n \<Longrightarrow> unat (a AND 0x7FFF :: u16) < n"
  by (rule unat_and_less) simp

lemma unat_and_1FFF [simp]: "0x2000 \<le> n \<Longrightarrow> unat (a AND 0x1FFF :: u16) < n"
  by (rule unat_and_less) simp

text \<open>What \<open>load\<close> ensures about the pattern memory: present, or supplied.\<close>

definition chr_or_ram :: "(nat \<Rightarrow> nat \<Rightarrow> u8) \<Rightarrow> nat \<Rightarrow> cart \<Rightarrow> cart" where
  "chr_or_ram rng n c = (if \<not> cart_has_chr c then cart_add_chr_ram rng n c else c)"

lemma chr_or_ram_frame [simp]:
  "cart_prg_rom (chr_or_ram rng n c) = cart_prg_rom c"
  "cart_prg_ram (chr_or_ram rng n c) = cart_prg_ram c"
  "cart_header (chr_or_ram rng n c) = cart_header c"
  "cart_ex_ram (chr_or_ram rng n c) = cart_ex_ram c"
  by (simp_all add: chr_or_ram_def cart_add_chr_ram_def)

lemma cart_add_chr_ram_nonempty: "0 < n \<Longrightarrow> cart_chr_ram (cart_add_chr_ram rng n c) \<noteq> []"
  by (metis cart_add_frame(10) less_numeral_extra(3) list.size(3))

lemma chr_or_ram_len:
  "0 < n \<Longrightarrow> cart_chr_len (chr_or_ram rng n c) = (if cart_chr_len c = 0 then n else cart_chr_len c)"
  by (auto simp: chr_or_ram_def cart_chr_len_def cart_has_chr_def cart_add_chr_ram_nonempty)

section \<open>NROM (mapper 0)\<close>

record nrom =
  nrom_mirroring :: mirroring
  nrom_mirror_prg_rom :: bool

definition nrom_load :: "(nat \<Rightarrow> nat \<Rightarrow> u8) \<Rightarrow> cart \<Rightarrow> nrom \<times> cart" where
  "nrom_load rng c =
     (let c = cart_add_prg_ram rng (8 * 1024) c;
          c = chr_or_ram rng (8 * 1024) c
      in (\<lparr>nrom_mirroring = cart_mirroring c,
           nrom_mirror_prg_rom = (length (cart_prg_rom c) \<le> 0x4000)\<rparr>, c))"

definition nrom_map_peek :: "nrom \<Rightarrow> u16 \<Rightarrow> mapped_read option" where
  "nrom_map_peek m addr =
     Some (if window_in 0x0000 0x1FFF addr then ChrR (unat addr)
           else if window_in 0x6000 0x7FFF addr then PrgRamR (unat (addr AND 0x1FFF))
           else if window_in 0x8000 0xBFFF addr then PrgRomR (unat (addr AND 0x3FFF))
           else if window_in 0xC000 0xFFFF addr
           then let mirror = (if nrom_mirror_prg_rom m then 0x3FFF else 0x7FFF)
                in PrgRomR (unat (addr AND mirror))
           else NoRead)"

definition nrom_map_write :: "nrom \<Rightarrow> u16 \<Rightarrow> u8 \<Rightarrow> (mapped_write \<times> nrom) option" where
  "nrom_map_write m addr val =
     Some (if window_in 0x0000 0x1FFF addr then ChrW (unat addr) val
           else if window_in 0x6000 0x7FFF addr then PrgRamW (unat (addr AND 0x1FFF)) val
           else NoWrite, m)"

definition nrom_wf :: "board \<Rightarrow> nrom \<Rightarrow> bool" where
  "nrom_wf bd m \<longleftrightarrow> 0x2000 \<le> bd_chr bd \<and> 0x2000 \<le> bd_prg_ram bd
     \<and> (if nrom_mirror_prg_rom m then 0x4000 else 0x8000) \<le> bd_prg bd"

lemma nrom_peek_in: "nrom_wf bd m \<Longrightarrow> returns (nrom_map_peek m a) (read_in bd)"
  by (auto simp: nrom_map_peek_def nrom_wf_def window_in_def split: if_splits)

interpretation nrom: mem_map nrom_wf nrom_map_peek "map_read_default nrom_map_peek" nrom_map_write
proof
  fix bd m a v
  assume wf: "nrom_wf bd m"
  then show "returns (nrom_map_write m a v) (\<lambda>(w, m'). write_in bd w \<and> nrom_wf bd m')"
    by (auto simp: nrom_map_write_def nrom_wf_def window_in_def)
qed (simp_all add: nrom_peek_in returns_read_default)

lemma nrom_load_wf:
  "nrom_load rng c = (m, c') \<Longrightarrow> length (cart_prg_rom c) = 0x4000 \<or> 0x8000 \<le> length (cart_prg_rom c)
     \<Longrightarrow> cart_chr_len c = 0 \<or> 0x2000 \<le> cart_chr_len c \<Longrightarrow> nrom_wf (board_of c') m"
proof -
  have "cart_chr_len (cart_add_prg_ram rng n c) = cart_chr_len c" for n
    by (simp add: cart_chr_len_def)
  then show "nrom_load rng c = (m, c') \<Longrightarrow> length (cart_prg_rom c) = 0x4000 \<or> 0x8000 \<le> length (cart_prg_rom c)
     \<Longrightarrow> cart_chr_len c = 0 \<or> 0x2000 \<le> cart_chr_len c \<Longrightarrow> nrom_wf (board_of c') m"
    by (auto simp: nrom_load_def Let_def nrom_wf_def board_of_def chr_or_ram_len)
qed

section \<open>UxROM (mapper 2)\<close>

record uxrom =
  ux_mirroring :: mirroring
  ux_prg_rom_banks :: mem_banks

definition uxrom_load :: "(nat \<Rightarrow> nat \<Rightarrow> u8) \<Rightarrow> cart \<Rightarrow> (uxrom \<times> cart) option" where
  "uxrom_load rng c =
     (let c = chr_or_ram rng (8 * 1024) c;
          banks = mb_new 0x8000 0xFFFF (length (cart_prg_rom c)) (16 * 1024)
      in do { banks \<leftarrow> mb_set banks 1 (mb_last banks);
              Some (\<lparr>ux_mirroring = cart_mirroring c, ux_prg_rom_banks = banks\<rparr>, c) })"

definition uxrom_map_peek :: "uxrom \<Rightarrow> u16 \<Rightarrow> mapped_read option" where
  "uxrom_map_peek m addr =
     (if window_in 0x0000 0x1FFF addr then Some (ChrR (unat addr))
      else if window_in 0x8000 0xFFFF addr
      then map_option PrgRomR (mb_translate (ux_prg_rom_banks m) addr)
      else Some NoRead)"

definition uxrom_map_write :: "uxrom \<Rightarrow> u16 \<Rightarrow> u8 \<Rightarrow> (mapped_write \<times> uxrom) option" where
  "uxrom_map_write m addr val =
     (if window_in 0x0000 0x1FFF addr then Some (ChrW (unat addr) val, m)
      else if window_in 0x8000 0xFFFF addr
      then do { banks \<leftarrow> mb_set (ux_prg_rom_banks m) 0 (unat val);
                Some (NoWrite, m\<lparr>ux_prg_rom_banks := banks\<rparr>) }
      else Some (NoWrite, m))"

definition uxrom_wf :: "board \<Rightarrow> uxrom \<Rightarrow> bool" where
  "uxrom_wf bd m \<longleftrightarrow> 0x2000 \<le> bd_chr bd \<and> mb_fits (bd_prg bd) (ux_prg_rom_banks m)
     \<and> length (mb_banks (ux_prg_rom_banks m)) = 2"

lemma returns_map_option [simp]: "returns (map_option f m) Q \<longleftrightarrow> returns m (\<lambda>x. Q (f x))"
  by (cases m) simp_all

lemma uxrom_peek_in: "uxrom_wf bd m \<Longrightarrow> returns (uxrom_map_peek m a) (read_in bd)"
  by (auto simp: uxrom_map_peek_def uxrom_wf_def window_in_def mb_fits_translate)

interpretation uxrom: mem_map uxrom_wf uxrom_map_peek "map_read_default uxrom_map_peek" uxrom_map_write
proof
  fix bd m a v
  assume wf: "uxrom_wf bd m"
  then show "returns (uxrom_map_write m a v) (\<lambda>(w, m'). write_in bd w \<and> uxrom_wf bd m')"
    by (auto simp: uxrom_map_write_def uxrom_wf_def window_in_def mb_set_put)
qed (simp_all add: uxrom_peek_in returns_read_default)

section \<open>CNROM (mapper 3)\<close>

record cnrom =
  cn_mirroring :: mirroring
  cn_chr_banks :: mem_banks
  cn_mirror_prg_rom :: bool

text \<open>The end of the CHR window is written \<open>0x1FFFF\<close> in the source, so the window has sixteen
  slots; only the first is ever reached.\<close>

definition cnrom_load :: "cart \<Rightarrow> cnrom \<times> cart" where
  "cnrom_load c =
     (\<lparr>cn_mirroring = cart_mirroring c,
       cn_chr_banks = mb_new 0x0000 0x1FFFF (length (cart_chr_rom c)) (8 * 1024),
       cn_mirror_prg_rom = (length (cart_prg_rom c) \<le> 0x4000)\<rparr>, c)"

definition cnrom_map_peek :: "cnrom \<Rightarrow> u16 \<Rightarrow> mapped_read option" where
  "cnrom_map_peek m addr =
     (if window_in 0x0000 0x1FFF addr then map_option ChrR (mb_translate (cn_chr_banks m) addr)
      else if window_in 0x8000 0xBFFF addr then Some (PrgRomR (unat (addr AND 0x3FFF)))
      else if window_in 0xC000 0xFFFF addr
      then let mirror = (if cn_mirror_prg_rom m then 0x3FFF else 0x7FFF)
           in Some (PrgRomR (unat (addr AND mirror)))
      else Some NoRead)"

definition cnrom_map_write :: "cnrom \<Rightarrow> u16 \<Rightarrow> u8 \<Rightarrow> (mapped_write \<times> cnrom) option" where
  "cnrom_map_write m addr val =
     (if window_in 0x8000 0xFFFF addr
      then do { banks \<leftarrow> mb_set (cn_chr_banks m) 0 (unat val);
                Some (NoWrite, m\<lparr>cn_chr_banks := banks\<rparr>) }
      else Some (NoWrite, m))"

text \<open>Only the first slot of the window has to be inside the memory.\<close>

definition cnrom_wf :: "board \<Rightarrow> cnrom \<Rightarrow> bool" where
  "cnrom_wf bd m \<longleftrightarrow> mb_wf (cn_chr_banks m) \<and> mb_window (cn_chr_banks m) = 0x2000
     \<and> mb_banks (cn_chr_banks m) ! 0 < mb_page_count (cn_chr_banks m) * 0x2000
     \<and> mb_page_count (cn_chr_banks m) * 0x2000 \<le> bd_chr bd
     \<and> (if cn_mirror_prg_rom m then 0x4000 else 0x8000) \<le> bd_prg bd"

lemma cn_slot0:
  assumes "mb_wf b" and "mb_window b = 0x2000" and "unat a \<le> 0x1FFF"
  shows "mb_get_bank b a = 0"
proof -
  have "(2::nat) ^ mb_shift b = 0x2000" using assms(1,2) by (simp add: mb_wf_def)
  moreover have "unat a AND mb_size b \<le> 0x1FFF"
    using assms(3) nat_and_le2 [of "mb_size b" "unat a"] by (simp add: and.commute)
  ultimately show ?thesis by (simp add: mb_get_bank_def drop_bit_eq_div)
qed

lemma cn_wf_nonempty: "mb_wf b \<Longrightarrow> 0 < length (mb_banks b)"
  by (cases "mb_banks b") (simp_all add: mb_wf_def)

lemma cnrom_translate:
  assumes "cnrom_wf bd m" and "unat a \<le> 0x1FFF"
  shows "returns (mb_translate (cn_chr_banks m) a) (\<lambda>i. i < bd_chr bd)"
proof -
  let ?b = "cn_chr_banks m"
  have wf: "mb_wf ?b" and w: "mb_window ?b = 0x2000" and x: "mb_banks ?b ! 0 < mb_page_count ?b * 0x2000"
    and le: "mb_page_count ?b * 0x2000 \<le> bd_chr bd"
    using assms(1) by (simp_all add: cnrom_wf_def)
  have "mb_window ?b dvd mb_banks ?b ! 0"
    using wf cn_wf_nonempty [OF wf] nth_mem unfolding mb_wf_def by blast
  then obtain q where q: "mb_banks ?b ! 0 = q * 0x2000" by (auto simp: dvd_def w)
  with x have "q < mb_page_count ?b" by simp
  then have "Suc q * 0x2000 \<le> bd_chr bd"
    using le by (meson Suc_leI le_trans mult_le_mono1)
  then show ?thesis
    using wf by (simp add: mb_translate_eq cn_slot0 [OF wf w assms(2)] w q)
qed

lemma cnrom_peek_in: "cnrom_wf bd m \<Longrightarrow> returns (cnrom_map_peek m a) (read_in bd)"
  using cnrom_translate [of bd m a]
  by (auto simp: cnrom_map_peek_def window_in_def Let_def) (auto simp: cnrom_wf_def)

interpretation cnrom: mem_map cnrom_wf cnrom_map_peek "map_read_default cnrom_map_peek" cnrom_map_write
proof
  fix bd m a and v :: u8
  assume wf: "cnrom_wf bd m"
  let ?b = "cn_chr_banks m"
  have b: "mb_wf ?b" using wf by (simp add: cnrom_wf_def)
  have "mb_banks (mb_put ?b 0 (unat v)) ! 0 < mb_page_count ?b * 0x2000"
  proof -
    have "(2::nat) ^ mb_shift ?b = 0x2000" using wf b by (simp add: cnrom_wf_def mb_wf_def)
    then show ?thesis
      using mb_and_mask_less [OF b, of "unat v"] cn_wf_nonempty [OF b] by (simp add: mb_put_def)
  qed
  then show "returns (cnrom_map_write m a v) (\<lambda>(w, m'). write_in bd w \<and> cnrom_wf bd m')"
    using wf b mb_set_put [OF cn_wf_nonempty [OF b]] by (auto simp: cnrom_map_write_def cnrom_wf_def)
qed (simp_all add: cnrom_peek_in returns_read_default)

section \<open>AxROM (mapper 7)\<close>

record axrom =
  ax_mirroring :: mirroring
  ax_prg_rom_banks :: mem_banks

definition axrom_load :: "(nat \<Rightarrow> nat \<Rightarrow> u8) \<Rightarrow> cart \<Rightarrow> axrom \<times> cart" where
  "axrom_load rng c =
     (let c = chr_or_ram rng (8 * 1024) c
      in (\<lparr>ax_mirroring = cart_mirroring c,
           ax_prg_rom_banks = mb_new 0x8000 0xFFFF (length (cart_prg_rom c)) (32 * 1024)\<rparr>, c))"

definition axrom_map_peek :: "axrom \<Rightarrow> u16 \<Rightarrow> mapped_read option" where
  "axrom_map_peek m addr =
     (if window_in 0x0000 0x1FFF addr then Some (ChrR (unat addr))
      else if window_in 0x8000 0xFFFF addr
      then map_option PrgRomR (mb_translate (ax_prg_rom_banks m) addr)
      else Some NoRead)"

definition axrom_map_write :: "axrom \<Rightarrow> u16 \<Rightarrow> u8 \<Rightarrow> (mapped_write \<times> axrom) option" where
  "axrom_map_write m addr val =
     (if window_in 0x0000 0x1FFF addr then Some (ChrW (unat addr) val, m)
      else if window_in 0x8000 0xFFFF addr
      then do { banks \<leftarrow> mb_set (ax_prg_rom_banks m) 0 (unat (val AND 0x0F));
                Some (NoWrite, m\<lparr>ax_prg_rom_banks := banks,
                  ax_mirroring := (if val AND 0x10 = 0x10 then SingleScreenB else SingleScreenA)\<rparr>) }
      else Some (NoWrite, m))"

definition axrom_wf :: "board \<Rightarrow> axrom \<Rightarrow> bool" where
  "axrom_wf bd m \<longleftrightarrow> 0x2000 \<le> bd_chr bd \<and> mb_fits (bd_prg bd) (ax_prg_rom_banks m)
     \<and> length (mb_banks (ax_prg_rom_banks m)) = 1"

lemma axrom_peek_in: "axrom_wf bd m \<Longrightarrow> returns (axrom_map_peek m a) (read_in bd)"
  by (auto simp: axrom_map_peek_def axrom_wf_def window_in_def mb_fits_translate)

interpretation axrom: mem_map axrom_wf axrom_map_peek "map_read_default axrom_map_peek" axrom_map_write
proof
  fix bd m a v
  assume wf: "axrom_wf bd m"
  then show "returns (axrom_map_write m a v) (\<lambda>(w, m'). write_in bd w \<and> axrom_wf bd m')"
    by (auto simp: axrom_map_write_def axrom_wf_def window_in_def mb_set_put)
qed (simp_all add: axrom_peek_in returns_read_default)

section \<open>GxROM (mapper 66)\<close>

record gxrom =
  gx_mirroring :: mirroring
  gx_chr_banks :: mem_banks
  gx_prg_rom_banks :: mem_banks

definition gxrom_load :: "cart \<Rightarrow> gxrom \<times> cart" where
  "gxrom_load c =
     (\<lparr>gx_mirroring = cart_mirroring c,
       gx_chr_banks = mb_new 0x0000 0x1FFF (length (cart_chr_rom c)) (8 * 1024),
       gx_prg_rom_banks = mb_new 0x8000 0xFFFF (length (cart_prg_rom c)) (32 * 1024)\<rparr>, c)"

definition gxrom_map_peek :: "gxrom \<Rightarrow> u16 \<Rightarrow> mapped_read option" where
  "gxrom_map_peek m addr =
     (if window_in 0x0000 0x1FFF addr then map_option ChrR (mb_translate (gx_chr_banks m) addr)
      else if window_in 0x8000 0xFFFF addr
      then map_option PrgRomR (mb_translate (gx_prg_rom_banks m) addr)
      else Some NoRead)"

definition gxrom_map_write :: "gxrom \<Rightarrow> u16 \<Rightarrow> u8 \<Rightarrow> (mapped_write \<times> gxrom) option" where
  "gxrom_map_write m addr val =
     (if window_in 0x8000 0xFFFF addr
      then do { chr \<leftarrow> mb_set (gx_chr_banks m) 0 (unat (val AND 0x0F));
                prg \<leftarrow> mb_set (gx_prg_rom_banks m) 0 (unat (drop_bit 4 (val AND 0x30)));
                Some (NoWrite, m\<lparr>gx_chr_banks := chr, gx_prg_rom_banks := prg\<rparr>) }
      else Some (NoWrite, m))"

definition gxrom_wf :: "board \<Rightarrow> gxrom \<Rightarrow> bool" where
  "gxrom_wf bd m \<longleftrightarrow> mb_fits (bd_chr bd) (gx_chr_banks m) \<and> length (mb_banks (gx_chr_banks m)) = 1
     \<and> mb_fits (bd_prg bd) (gx_prg_rom_banks m) \<and> length (mb_banks (gx_prg_rom_banks m)) = 1"

lemma gxrom_peek_in: "gxrom_wf bd m \<Longrightarrow> returns (gxrom_map_peek m a) (read_in bd)"
  by (auto simp: gxrom_map_peek_def gxrom_wf_def mb_fits_translate)

interpretation gxrom: mem_map gxrom_wf gxrom_map_peek "map_read_default gxrom_map_peek" gxrom_map_write
proof
  fix bd m a v
  assume wf: "gxrom_wf bd m"
  then show "returns (gxrom_map_write m a v) (\<lambda>(w, m'). write_in bd w \<and> gxrom_wf bd m')"
    by (auto simp: gxrom_map_write_def gxrom_wf_def mb_set_put)
qed (simp_all add: gxrom_peek_in returns_read_default)

section \<open>BF909x (mapper 71)\<close>

datatype bf909_revision = Bf909xRev | Bf9097

record bf909x =
  bf_variant :: bf909_revision
  bf_mirroring :: mirroring
  bf_prg_rom_banks :: mem_banks

definition bf909x_load :: "(nat \<Rightarrow> nat \<Rightarrow> u8) \<Rightarrow> cart \<Rightarrow> (bf909x \<times> cart) option" where
  "bf909x_load rng c =
     (let c = chr_or_ram rng (8 * 1024) c;
          banks = mb_new 0x8000 0xFFFF (length (cart_prg_rom c)) (16 * 1024)
      in do { banks \<leftarrow> mb_set banks 1 (mb_last banks);
              Some (\<lparr>bf_variant = (if cart_submapper_num c = 1 then Bf9097 else Bf909xRev),
                     bf_mirroring = cart_mirroring c, bf_prg_rom_banks = banks\<rparr>, c) })"

definition bf909x_map_peek :: "bf909x \<Rightarrow> u16 \<Rightarrow> mapped_read option" where
  "bf909x_map_peek m addr =
     (if window_in 0x0000 0x1FFF addr then Some (ChrR (unat addr))
      else if window_in 0x8000 0xFFFF addr
      then map_option PrgRomR (mb_translate (bf_prg_rom_banks m) addr)
      else Some NoRead)"

definition bf909x_map_write :: "bf909x \<Rightarrow> u16 \<Rightarrow> u8 \<Rightarrow> (mapped_write \<times> bf909x) option" where
  "bf909x_map_write m addr val =
     (let m = (if addr = 0x9000 then m\<lparr>bf_variant := Bf9097\<rparr> else m)
      in if window_in 0x0000 0x1FFF addr then Some (ChrW (unat addr) val, m)
         else if window_in 0x8000 0xFFFF addr
         then if addr \<ge> 0xC000 \<or> bf_variant m \<noteq> Bf9097
              then do { banks \<leftarrow> mb_set (bf_prg_rom_banks m) 0 (unat val);
                        Some (NoWrite, m\<lparr>bf_prg_rom_banks := banks\<rparr>) }
              else Some (NoWrite, m\<lparr>bf_mirroring :=
                     (if val AND 0x10 = 0x10 then SingleScreenA else SingleScreenB)\<rparr>)
         else Some (NoWrite, m))"

definition bf909x_wf :: "board \<Rightarrow> bf909x \<Rightarrow> bool" where
  "bf909x_wf bd m \<longleftrightarrow> 0x2000 \<le> bd_chr bd \<and> mb_fits (bd_prg bd) (bf_prg_rom_banks m)
     \<and> length (mb_banks (bf_prg_rom_banks m)) = 2"

lemma bf909x_peek_in: "bf909x_wf bd m \<Longrightarrow> returns (bf909x_map_peek m a) (read_in bd)"
  by (auto simp: bf909x_map_peek_def bf909x_wf_def window_in_def mb_fits_translate)

interpretation bf909x: mem_map bf909x_wf bf909x_map_peek "map_read_default bf909x_map_peek" bf909x_map_write
proof
  fix bd m a v
  assume wf: "bf909x_wf bd m"
  then show "returns (bf909x_map_write m a v) (\<lambda>(w, m'). write_in bd w \<and> bf909x_wf bd m')"
    by (auto simp: bf909x_map_write_def bf909x_wf_def window_in_def mb_set_put Let_def)
qed (simp_all add: bf909x_peek_in returns_read_default)

section \<open>Loading\<close>

text \<open>A fixed last bank at the second of two 16K slots.\<close>

lemma two_slots_fit:
  assumes "length prg = 0x8000 * 2 ^ j"
  defines "b \<equiv> mb_new 0x8000 0xFFFF (length (prg :: u8 list)) (16 * 1024)"
  shows "mb_set b 1 (mb_last b) = Some (mb_put b 1 (mb_last b))"
    and "mb_fits (length prg) (mb_put b 1 (mb_last b))" and "length (mb_banks b) = 2"
proof -
  have "mb_fits (length prg) b"
    unfolding b_def by (rule mb_fits_new [where k = 14]) (simp_all add: assms(1))
  then show "mb_fits (length prg) (mb_put b 1 (mb_last b))" by simp
  show l: "length (mb_banks b) = 2" by (simp add: b_def)
  show "mb_set b 1 (mb_last b) = Some (mb_put b 1 (mb_last b))"
    by (rule mb_set_put) (simp add: l)
qed

lemma one_slot_fits:
  "length prg = 0x8000 * 2 ^ j \<Longrightarrow> mb_fits (length prg) (mb_new 0x8000 0xFFFF (length (prg :: u8 list)) (32 * 1024))"
  by (rule mb_fits_new [where k = 15]) simp_all

lemma board_ok_chr: "board_ok c \<Longrightarrow> 0x2000 \<le> cart_chr_len c \<and> cart_chr_len c = length (cart_chr_rom c)"
  by (auto simp: board_ok_def cart_chr_len_def)

lemma board_ok_has_chr [simp]: "board_ok c \<Longrightarrow> chr_or_ram rng n c = c"
  using board_ok_chr [of c] by (auto simp: chr_or_ram_def cart_has_chr_def)

lemma nrom_load_board: "board_ok c \<Longrightarrow> nrom_load rng c = (m, c') \<Longrightarrow> nrom_wf (board_of c') m"
  using board_ok_chr [of c] by (intro nrom_load_wf) (auto simp: board_ok_def)

lemma uxrom_load_board: "board_ok c \<Longrightarrow> returns (uxrom_load rng c) (\<lambda>(m, c'). uxrom_wf (board_of c') m)"
proof -
  assume ok: "board_ok c"
  then obtain j where j: "length (cart_prg_rom c) = 0x8000 * 2 ^ j" by (auto simp: board_ok_def)
  show ?thesis
    using two_slots_fit [OF j] board_ok_chr [OF ok] ok
    by (simp add: uxrom_load_def uxrom_wf_def board_of_def Let_def)
qed

lemma bf909x_load_board: "board_ok c \<Longrightarrow> returns (bf909x_load rng c) (\<lambda>(m, c'). bf909x_wf (board_of c') m)"
proof -
  assume ok: "board_ok c"
  then obtain j where j: "length (cart_prg_rom c) = 0x8000 * 2 ^ j" by (auto simp: board_ok_def)
  show ?thesis
    using two_slots_fit [OF j] board_ok_chr [OF ok] ok
    by (simp add: bf909x_load_def bf909x_wf_def board_of_def Let_def)
qed

lemma cnrom_load_board: "board_ok c \<Longrightarrow> cnrom_load c = (m, c') \<Longrightarrow> cnrom_wf (board_of c') m"
proof -
  assume ok: "board_ok c" and l: "cnrom_load c = (m, c')"
  then obtain j k where "length (cart_prg_rom c) = 0x8000 * 2 ^ j" "length (cart_chr_rom c) = 0x2000 * 2 ^ k"
    by (auto simp: board_ok_def)
  moreover have "mb_wf (mb_new 0 0x1FFFF n (8 * 1024))" for n
    by (rule mb_new_wf [where k = 13]) simp_all
  ultimately show ?thesis
    using l board_ok_chr [OF ok]
    by (auto simp: cnrom_load_def cnrom_wf_def board_of_def max_def)
qed

lemma axrom_load_board: "board_ok c \<Longrightarrow> axrom_load rng c = (m, c') \<Longrightarrow> axrom_wf (board_of c') m"
  using board_ok_chr [of c] one_slot_fits [of "cart_prg_rom c"]
  by (auto simp: board_ok_def axrom_load_def axrom_wf_def board_of_def Let_def)

lemma gxrom_load_board: "board_ok c \<Longrightarrow> gxrom_load c = (m, c') \<Longrightarrow> gxrom_wf (board_of c') m"
proof -
  assume ok: "board_ok c" and l: "gxrom_load c = (m, c')"
  then obtain j k where j: "length (cart_prg_rom c) = 0x8000 * 2 ^ j"
    and k: "length (cart_chr_rom c) = 0x2000 * 2 ^ k"
    by (auto simp: board_ok_def)
  have "mb_fits (length (cart_chr_rom c)) (mb_new 0 0x1FFF (length (cart_chr_rom c)) (8 * 1024))"
    by (rule mb_fits_new [where k = 13]) (simp_all add: k)
  then show ?thesis
    using l board_ok_chr [OF ok] one_slot_fits [OF j]
    by (auto simp: gxrom_load_def gxrom_wf_def board_of_def)
qed

end
