(* ===== verification/MapperSxrom.thy ===== *)
theory MapperSxrom
  imports MapperDiscrete
begin

text \<open>
  \<open>src/mapper/m001_sxrom.rs\<close>: the MMC1 boards. Their registers are written one bit at a time
  through a five-bit shift register; a write in the cycle after another one is ignored.
\<close>

datatype mmc1_revision = Mmc1A | Mmc1BC

record sx_regs =
  sxr_write_just_occurred :: u8
  sxr_shift_register :: u8
  sxr_control :: u8
  sxr_chr0 :: u8
  sxr_chr1 :: u8
  sxr_prg :: u8

record sxrom =
  sx_regs :: sx_regs
  sx_submapper_num :: u8
  sx_mirroring :: mirroring
  sx_board :: mmc1_revision
  sx_chr_select :: bool
  sx_chr_banks :: mem_banks
  sx_prg_ram_banks :: mem_banks
  sx_prg_rom_banks :: mem_banks

definition DEFAULT_SHIFT_REGISTER :: u8 where "DEFAULT_SHIFT_REGISTER = 0x10"

definition PRG_MODE_MASK :: u8 where "PRG_MODE_MASK = 0x0C"

definition DEFAULT_PRG_MODE :: u8 where "DEFAULT_PRG_MODE = 0x0C"

definition PRG_RAM_DISABLED :: u8 where "PRG_RAM_DISABLED = 0x10"

definition sx_control_mirroring :: "u8 \<Rightarrow> mirroring" where
  "sx_control_mirroring control =
     (let m = control AND 0x03 in
      if m = 0 then SingleScreenA else if m = 1 then SingleScreenB
      else if m = 2 then Vertical else Horizontal)"

definition sx_chr4k :: "sx_regs \<Rightarrow> bool" where
  "sx_chr4k r \<longleftrightarrow> sxr_control r AND 0x10 = 0x10"

definition sx_update_chr :: "sx_regs \<Rightarrow> mem_banks \<Rightarrow> mem_banks option" where
  "sx_update_chr r banks =
     (let chr0 = unat (sxr_chr0 r); chr1 = unat (sxr_chr1 r)
      in if sx_chr4k r
         then do { banks \<leftarrow> mb_set banks 0 chr0; mb_set banks 1 chr1 }
         else mb_set_range banks 0 1 (chr0 AND 0x1E))"

definition sx_bank_select :: "sxrom \<Rightarrow> u16 \<Rightarrow> nat" where
  "sx_bank_select m addr =
     (let r = sx_regs m;
          extra_reg = (if window_in 0xC000 0xDFFF addr \<and> sx_chr4k r then sxr_chr1 r else sxr_chr0 r)
      in if sx_chr_select m then unat (extra_reg AND 0x10) else 0)"

definition sx_update_prg :: "sxrom \<Rightarrow> u16 \<Rightarrow> mem_banks \<Rightarrow> mem_banks option" where
  "sx_update_prg m addr banks =
     (if sx_submapper_num m = 5 then mb_set_range banks 0 1 0
      else let r = sx_regs m;
               bank_select = sx_bank_select m addr;
               prg_bank = unat (sxr_prg r AND 0x0F);
               prg_mode = drop_bit 2 (sxr_control r AND PRG_MODE_MASK)
           in if prg_mode = 0 \<or> prg_mode = 1
              then mb_set_range banks 0 1 (bank_select OR (prg_bank AND 0x1E))
              else if prg_mode = 2
              then do { banks \<leftarrow> mb_set banks 0 bank_select;
                        mb_set banks 1 (bank_select OR prg_bank) }
              else let last = mb_last banks in
                   do { banks \<leftarrow> mb_set banks 0 (bank_select OR prg_bank);
                        mb_set banks 1 (bank_select OR last) })"

definition sx_update_banks :: "sxrom \<Rightarrow> u16 \<Rightarrow> sxrom option" where
  "sx_update_banks m addr =
     (let m = m\<lparr>sx_mirroring := sx_control_mirroring (sxr_control (sx_regs m))\<rparr>
      in do { chr \<leftarrow> sx_update_chr (sx_regs m) (sx_chr_banks m);
              prg \<leftarrow> sx_update_prg m addr (sx_prg_rom_banks m);
              Some (m\<lparr>sx_chr_banks := chr, sx_prg_rom_banks := prg\<rparr>) })"

definition sx_prg_ram_enabled :: "sxrom \<Rightarrow> bool" where
  "sx_prg_ram_enabled m \<longleftrightarrow> sx_board m = Mmc1A \<or> sxr_prg (sx_regs m) AND PRG_RAM_DISABLED = 0"

definition sxrom_load :: "(nat \<Rightarrow> nat \<Rightarrow> u8) \<Rightarrow> mmc1_revision \<Rightarrow> cart \<Rightarrow> (sxrom \<times> cart) option" where
  "sxrom_load rng revision c =
     (let c = (if \<not> cart_has_prg_ram c then cart_add_prg_ram rng (32 * 1024) c else c);
          c = chr_or_ram rng (8 * 1024) c;
          m = \<lparr>sx_regs = \<lparr>sxr_write_just_occurred = 0x00,
                 sxr_shift_register = DEFAULT_SHIFT_REGISTER, sxr_control = DEFAULT_PRG_MODE,
                 sxr_chr0 = 0x00, sxr_chr1 = 0x00, sxr_prg = 0x00\<rparr>,
               sx_submapper_num = cart_submapper_num c, sx_mirroring = SingleScreenA,
               sx_board = revision, sx_chr_select = (length (cart_prg_rom c) = 0x80000),
               sx_chr_banks = mb_new 0x0000 0x1FFF (cart_chr_len c) (4 * 1024),
               sx_prg_ram_banks = mb_new 0x6000 0x7FFF (length (cart_prg_ram c)) (8 * 1024),
               sx_prg_rom_banks = mb_new 0x8000 0xFFFF (length (cart_prg_rom c)) (16 * 1024)\<rparr>
      in do { m \<leftarrow> sx_update_banks m 0x0000; Some (m, c) })"

definition sxrom_map_peek :: "sxrom \<Rightarrow> u16 \<Rightarrow> mapped_read option" where
  "sxrom_map_peek m addr =
     (if window_in 0x0000 0x1FFF addr then map_option ChrR (mb_translate (sx_chr_banks m) addr)
      else if window_in 0x6000 0x7FFF addr \<and> sx_prg_ram_enabled m
      then map_option PrgRamR (mb_translate (sx_prg_ram_banks m) addr)
      else if window_in 0x8000 0xFFFF addr
      then map_option PrgRomR (mb_translate (sx_prg_rom_banks m) addr)
      else Some NoRead)"

text \<open>The register file after the shift register is complete.\<close>

definition sx_load_register :: "u16 \<Rightarrow> sx_regs \<Rightarrow> sx_regs" where
  "sx_load_register addr r =
     (let v = sxr_shift_register r
      in if window_in 0x8000 0x9FFF addr then r\<lparr>sxr_control := v\<rparr>
         else if window_in 0xA000 0xBFFF addr then r\<lparr>sxr_chr0 := v AND 0x1F\<rparr>
         else if window_in 0xC000 0xDFFF addr then r\<lparr>sxr_chr1 := v AND 0x1F\<rparr>
         else r\<lparr>sxr_prg := v AND 0x1F\<rparr>)"

definition sx_write_serial :: "sxrom \<Rightarrow> u16 \<Rightarrow> u8 \<Rightarrow> sxrom option" where
  "sx_write_serial m addr val =
     (if sxr_write_just_occurred (sx_regs m) > 0 then Some m
      else let r = (sx_regs m)\<lparr>sxr_write_just_occurred := 2\<rparr>
           in if val AND 0x80 > 0
              then Some (m\<lparr>sx_regs := r\<lparr>sxr_shift_register := DEFAULT_SHIFT_REGISTER,
                                        sxr_control := sxr_control r OR PRG_MODE_MASK\<rparr>\<rparr>)
              else let write = (sxr_shift_register r AND 1 = 1);
                       r = r\<lparr>sxr_shift_register := drop_bit 1 (sxr_shift_register r)\<rparr>;
                       r = r\<lparr>sxr_shift_register := sxr_shift_register r OR push_bit 4 (val AND 1)\<rparr>
                   in if write
                      then let r = sx_load_register addr r;
                               r = r\<lparr>sxr_shift_register := DEFAULT_SHIFT_REGISTER\<rparr>
                           in sx_update_banks (m\<lparr>sx_regs := r\<rparr>) addr
                      else Some (m\<lparr>sx_regs := r\<rparr>))"

definition sxrom_map_write :: "sxrom \<Rightarrow> u16 \<Rightarrow> u8 \<Rightarrow> (mapped_write \<times> sxrom) option" where
  "sxrom_map_write m addr val =
     (if window_in 0x0000 0x1FFF addr
      then do { i \<leftarrow> mb_translate (sx_chr_banks m) addr; Some (ChrW i val, m) }
      else if window_in 0x6000 0x7FFF addr \<and> sx_prg_ram_enabled m
      then do { i \<leftarrow> mb_translate (sx_prg_ram_banks m) addr; Some (PrgRamW i val, m) }
      else if window_in 0x8000 0xFFFF addr
      then do { m \<leftarrow> sx_write_serial m addr val; Some (NoWrite, m) }
      else Some (NoWrite, m))"

definition sxrom_clock :: "sxrom \<Rightarrow> sxrom" where
  "sxrom_clock m =
     (if sxr_write_just_occurred (sx_regs m) > 0
      then m\<lparr>sx_regs := (sx_regs m)\<lparr>sxr_write_just_occurred := sxr_write_just_occurred (sx_regs m) - 1\<rparr>\<rparr>
      else m)"

definition sxrom_reset :: "sxrom \<Rightarrow> kind \<Rightarrow> sxrom option" where
  "sxrom_reset m kind =
     (let m = m\<lparr>sx_regs := (sx_regs m)\<lparr>sxr_shift_register := DEFAULT_SHIFT_REGISTER,
                  sxr_control := DEFAULT_PRG_MODE, sxr_prg := PRG_RAM_DISABLED\<rparr>\<rparr>
      in do { m \<leftarrow> sx_update_banks m 0x0000;
              Some (if kind = Hard then m\<lparr>sx_regs := (sx_regs m)\<lparr>sxr_write_just_occurred := 0\<rparr>\<rparr>
                    else m) })"

section \<open>Invariant\<close>

definition sx_pair_ok :: "nat \<Rightarrow> mem_banks \<Rightarrow> bool" where
  "sx_pair_ok sz b \<longleftrightarrow> mb_fits sz b \<and> length (mb_banks b) = 2 \<and> even (mb_page_count b)"

definition sxrom_wf :: "board \<Rightarrow> sxrom \<Rightarrow> bool" where
  "sxrom_wf bd m \<longleftrightarrow> sx_pair_ok (bd_chr bd) (sx_chr_banks m)
     \<and> mb_fits (bd_prg_ram bd) (sx_prg_ram_banks m)
     \<and> sx_pair_ok (bd_prg bd) (sx_prg_rom_banks m)"

lemma sx_pair_set: "sx_pair_ok sz b \<Longrightarrow> s < 2 \<Longrightarrow> returns (mb_set b s n) (sx_pair_ok sz)"
  by (simp add: sx_pair_ok_def mb_set_put)

lemma sx_pair_set2:
  "sx_pair_ok sz b \<Longrightarrow> returns (do { b \<leftarrow> mb_set b 0 n; mb_set b 1 k }) (sx_pair_ok sz)"
  by (simp, rule returns_mono [OF sx_pair_set]) (auto intro: sx_pair_set)

lemma sx_pair_range: "sx_pair_ok sz b \<Longrightarrow> even n \<Longrightarrow> returns (mb_set_range b 0 1 n) (sx_pair_ok sz)"
  by (simp add: sx_pair_ok_def mb_set_range_put mb_fits_pair)

lemma even_and_1E: "even (n AND 0x1E :: nat)"
  by (simp add: even_and_iff)

lemma even_bank_select: "even (sx_bank_select m addr)"
proof -
  have "even (unat (x AND 0x10 :: u8))" for x
    by (simp add: unsigned_and_eq even_and_iff)
  then show ?thesis by (simp add: sx_bank_select_def Let_def)
qed

lemma sx_update_chr_ok: "sx_pair_ok sz b \<Longrightarrow> returns (sx_update_chr r b) (sx_pair_ok sz)"
  using sx_pair_set2 [of sz b] sx_pair_range [of sz b] even_and_1E
  by (simp add: sx_update_chr_def Let_def)

lemma sx_update_prg_ok: "sx_pair_ok sz b \<Longrightarrow> returns (sx_update_prg m addr b) (sx_pair_ok sz)"
  using sx_pair_set2 [of sz b] sx_pair_range [of sz b] even_and_1E even_bank_select [of m addr]
  by (simp add: sx_update_prg_def Let_def even_or_iff)

lemma sx_update_banks_ok:
  assumes "sxrom_wf bd m"
  shows "returns (sx_update_banks m addr) (sxrom_wf bd)"
proof -
  obtain chr where "sx_update_chr (sx_regs m) (sx_chr_banks m) = Some chr" "sx_pair_ok (bd_chr bd) chr"
    using returnsD [OF sx_update_chr_ok, of "bd_chr bd" "sx_chr_banks m" "sx_regs m"] assms
    by (auto simp: sxrom_wf_def)
  moreover have "returns (sx_update_prg m' addr (sx_prg_rom_banks m)) (sx_pair_ok (bd_prg bd))" for m'
    using assms by (simp add: sxrom_wf_def sx_update_prg_ok)
  ultimately show ?thesis
    using assms by (simp add: sx_update_banks_def Let_def sxrom_wf_def)
qed

lemma sxrom_wf_regs [simp]: "sxrom_wf bd (m\<lparr>sx_regs := r\<rparr>) = sxrom_wf bd m"
  by (simp add: sxrom_wf_def)

lemma sx_write_serial_ok: "sxrom_wf bd m \<Longrightarrow> returns (sx_write_serial m addr v) (sxrom_wf bd)"
  by (simp add: sx_write_serial_def Let_def sx_update_banks_ok)

lemma sxrom_clock_wf [simp]: "sxrom_wf bd m \<Longrightarrow> sxrom_wf bd (sxrom_clock m)"
  by (simp add: sxrom_clock_def)

lemma sxrom_reset_ok: "sxrom_wf bd m \<Longrightarrow> returns (sxrom_reset m k) (sxrom_wf bd)"
  using sx_update_banks_ok [of bd "m\<lparr>sx_regs := r\<rparr>" for r]
  by (auto simp: sxrom_reset_def Let_def intro: returns_mono)

lemma sxrom_peek_in: "sxrom_wf bd m \<Longrightarrow> returns (sxrom_map_peek m a) (read_in bd)"
  by (simp add: sxrom_map_peek_def sxrom_wf_def sx_pair_ok_def mb_fits_translate)

interpretation sxrom: mem_map sxrom_wf sxrom_map_peek "map_read_default sxrom_map_peek" sxrom_map_write
proof
  fix bd m a and v :: u8
  assume wf: "sxrom_wf bd m"
  then have "returns (mb_translate (sx_chr_banks m) a) (\<lambda>i. i < bd_chr bd)"
    "returns (mb_translate (sx_prg_ram_banks m) a) (\<lambda>i. i < bd_prg_ram bd)"
    by (simp_all add: sxrom_wf_def sx_pair_ok_def mb_fits_translate)
  then show "returns (sxrom_map_write m a v) (\<lambda>(w, m'). write_in bd w \<and> sxrom_wf bd m')"
    using sx_write_serial_ok [OF wf, of a v] wf by (simp add: sxrom_map_write_def)
qed (simp_all add: sxrom_peek_in returns_read_default)

lemma sxrom_load_board:
  assumes ok: "board_ok c" and ram: "cart_prg_ram c = [] \<or> 0x2000 \<le> length (cart_prg_ram c)"
  shows "returns (sxrom_load rng rv c) (\<lambda>(m, c'). sxrom_wf (board_of c') m)"
proof -
  obtain j k where j: "length (cart_prg_rom c) = 0x8000 * 2 ^ j"
    and k: "length (cart_chr_rom c) = 0x2000 * 2 ^ k"
    using ok by (auto simp: board_ok_def)
  define c1 where "c1 = (if \<not> cart_has_prg_ram c then cart_add_prg_ram rng (32 * 1024) c else c)"
  have c1: "cart_prg_rom c1 = cart_prg_rom c" "cart_chr_rom c1 = cart_chr_rom c"
    "0x2000 \<le> length (cart_prg_ram c1)"
    using ram by (auto simp: c1_def cart_has_prg_ram_def)
  have "board_ok c1" using ok c1 by (simp add: board_ok_def)
  then have chr: "chr_or_ram rng n c1 = c1" "cart_chr_len c1 = length (cart_chr_rom c)" for n
    using board_ok_chr [of c1] c1 by simp_all
  have "sx_pair_ok (length (cart_chr_rom c)) (mb_new 0 0x1FFF (length (cart_chr_rom c)) (4 * 1024))"
    using mb_fits_new [of "4 * 1024" 12 "0x1FFF" 0 "length (cart_chr_rom c)"]
      mb_new_even [of "length (cart_chr_rom c)" "0x2000" k "4 * 1024" "0x1FFF" 0] k
    by (simp add: sx_pair_ok_def)
  moreover have "sx_pair_ok (length (cart_prg_rom c)) (mb_new 0x8000 0xFFFF (length (cart_prg_rom c)) (16 * 1024))"
    using mb_fits_new [of "16 * 1024" 14 "0xFFFF" "0x8000" "length (cart_prg_rom c)"]
      mb_new_even [of "length (cart_prg_rom c)" "0x8000" j "16 * 1024" "0xFFFF" "0x8000"] j
    by (simp add: sx_pair_ok_def)
  moreover have "mb_fits (length (cart_prg_ram c1)) (mb_new 0x6000 0x7FFF (length (cart_prg_ram c1)) (8 * 1024))"
    by (rule mb_fits_new [where k = 13]) (use c1(3) in simp_all)
  ultimately have "sxrom_wf (board_of c1) \<lparr>sx_regs = r, sx_submapper_num = n, sx_mirroring = mi,
      sx_board = rv, sx_chr_select = s,
      sx_chr_banks = mb_new 0 0x1FFF (length (cart_chr_rom c)) (4 * 1024),
      sx_prg_ram_banks = mb_new 0x6000 0x7FFF (length (cart_prg_ram c1)) (8 * 1024),
      sx_prg_rom_banks = mb_new 0x8000 0xFFFF (length (cart_prg_rom c)) (16 * 1024)\<rparr>" for r n mi s
    by (simp add: sxrom_wf_def board_of_def c1 chr)
  from sx_update_banks_ok [OF this] show ?thesis
    unfolding sxrom_load_def c1_def [symmetric] by (simp add: Let_def chr c1)
qed

section \<open>The serial port\<close>

lemma sx_not_reset: "(val :: u8) AND 0x80 > 0 \<longleftrightarrow> bit val 7"
proof -
  have "val AND 0x80 \<noteq> 0 \<longleftrightarrow> bit val 7"
    unfolding word_nonzero_iff bit_and_iff bit_u8_masks by auto
  then show ?thesis by (simp add: word_gt_0)
qed

text \<open>What one accepted data write does to the shift register.\<close>

definition sx_shift_in :: "u8 \<Rightarrow> u8 \<Rightarrow> u8" where
  "sx_shift_in s val = drop_bit 1 s OR push_bit 4 (val AND 1)"

lemma sx_write_shift:
  assumes "sxr_write_just_occurred (sx_regs m) = 0" and "\<not> bit val 7"
    and "\<not> bit (sxr_shift_register (sx_regs m)) 0"
  shows "sx_write_serial m addr val =
    Some (m\<lparr>sx_regs := (sx_regs m)\<lparr>sxr_write_just_occurred := 2,
       sxr_shift_register := sx_shift_in (sxr_shift_register (sx_regs m)) val\<rparr>\<rparr>)"
  using assms by (simp add: sx_write_serial_def sx_not_reset Let_def sx_shift_in_def
      and_one_eq mod_2_eq_odd bit_0)

lemma sx_write_complete:
  assumes "sxr_write_just_occurred (sx_regs m) = 0" and "\<not> bit val 7"
    and "bit (sxr_shift_register (sx_regs m)) 0"
  shows "sx_write_serial m addr val =
    sx_update_banks (m\<lparr>sx_regs := (sx_load_register addr ((sx_regs m)\<lparr>sxr_write_just_occurred := 2,
       sxr_shift_register := sx_shift_in (sxr_shift_register (sx_regs m)) val\<rparr>))
       \<lparr>sxr_shift_register := DEFAULT_SHIFT_REGISTER\<rparr>\<rparr>) addr"
  using assms by (simp add: sx_write_serial_def sx_not_reset Let_def sx_shift_in_def
      and_one_eq mod_2_eq_odd bit_0)

lemma sxrom_clock2:
  "sxr_write_just_occurred (sx_regs m) = 2 \<Longrightarrow>
     sxrom_clock (sxrom_clock m) = m\<lparr>sx_regs := (sx_regs m)\<lparr>sxr_write_just_occurred := 0\<rparr>\<rparr>"
  by (simp add: sxrom_clock_def)

end
