(* ===== verification/MapperTxrom.thy ===== *)
theory MapperTxrom
  imports MapperDiscrete
begin

text \<open>
  \<open>src/mapper/m004_txrom.rs\<close>: the MMC3 boards, with the scanline counter clocked by the rising
  edges of PPU address line 12.
\<close>

datatype mmc3_revision = Mmc3A | Mmc3BC | Mmc3Acc

record tx_regs =
  txr_bank_select :: u8
  txr_bank_values :: "u8 list"
  txr_irq_latch :: u8
  txr_irq_counter :: u8
  txr_irq_enabled :: bool
  txr_irq_reload :: bool
  txr_last_clock :: u16

definition tx_regs_new :: tx_regs where
  "tx_regs_new =
     \<lparr>txr_bank_select = 0x00, txr_bank_values = replicate 8 0x00, txr_irq_latch = 0x00,
      txr_irq_counter = 0x00, txr_irq_enabled = False, txr_irq_reload = False,
      txr_last_clock = 0x0000\<rparr>"

record txrom =
  tx_regs :: tx_regs
  tx_mirroring :: mirroring
  tx_irq_pending :: bool
  tx_revision :: mmc3_revision
  tx_chr_banks :: mem_banks
  tx_prg_ram_banks :: mem_banks
  tx_prg_rom_banks :: mem_banks

definition txrom_load :: "(nat \<Rightarrow> nat \<Rightarrow> u8) \<Rightarrow> cart \<Rightarrow> (txrom \<times> cart) option" where
  "txrom_load rng c =
     (let c = cart_add_prg_ram rng (8 * 1024) c;
          c = (if cart_mirroring c = FourScreen then cart_add_ex_ram rng (4 * 1024) c else c);
          c = chr_or_ram rng (8 * 1024) c;
          banks = mb_new 0x8000 0xFFFF (length (cart_prg_rom c)) (8 * 1024);
          last_bank = mb_last banks
      in do { banks \<leftarrow> mb_set banks 2 (usize_sub last_bank 1);
              banks \<leftarrow> mb_set banks 3 last_bank;
              Some (\<lparr>tx_regs = tx_regs_new, tx_mirroring = cart_mirroring c, tx_irq_pending = False,
                     tx_revision = Mmc3BC,
                     tx_chr_banks = mb_new 0x0000 0x1FFF (cart_chr_len c) 1024,
                     tx_prg_ram_banks = mb_new 0x6000 0x7FFF (length (cart_prg_ram c)) (8 * 1024),
                     tx_prg_rom_banks = banks\<rparr>, c) })"

definition txrom_set_revision :: "txrom \<Rightarrow> mmc3_revision \<Rightarrow> txrom" where
  "txrom_set_revision m revision = m\<lparr>tx_revision := revision\<rparr>"

definition tx_update_prg :: "tx_regs \<Rightarrow> mem_banks \<Rightarrow> mem_banks option" where
  "tx_update_prg r banks =
     (let prg_last = mb_last banks;
          prg_lo = unat (txr_bank_values r ! 6);
          prg_hi = unat (txr_bank_values r ! 7)
      in do { banks \<leftarrow>
                (if txr_bank_select r AND 0x40 = 0x40
                 then do { b \<leftarrow> mb_set banks 0 (usize_sub prg_last 1);
                           b \<leftarrow> mb_set b 1 prg_hi;
                           mb_set b 2 prg_lo }
                 else do { b \<leftarrow> mb_set banks 0 prg_lo;
                           b \<leftarrow> mb_set b 1 prg_hi;
                           mb_set b 2 (usize_sub prg_last 1) });
              mb_set banks 3 prg_last })"

definition tx_update_chr :: "tx_regs \<Rightarrow> mem_banks \<Rightarrow> mem_banks option" where
  "tx_update_chr r banks =
     (let chr = (\<lambda>i. txr_bank_values r ! i)
      in if txr_bank_select r AND 0x80 = 0x80
         then do { b \<leftarrow> mb_set banks 0 (unat (chr 2));
                   b \<leftarrow> mb_set b 1 (unat (chr 3));
                   b \<leftarrow> mb_set b 2 (unat (chr 4));
                   b \<leftarrow> mb_set b 3 (unat (chr 5));
                   b \<leftarrow> mb_set_range b 4 5 (unat (chr 0 AND 0xFE));
                   mb_set_range b 6 7 (unat (chr 1 AND 0xFE)) }
         else do { b \<leftarrow> mb_set_range banks 0 1 (unat (chr 0 AND 0xFE));
                   b \<leftarrow> mb_set_range b 2 3 (unat (chr 1 AND 0xFE));
                   b \<leftarrow> mb_set b 4 (unat (chr 2));
                   b \<leftarrow> mb_set b 5 (unat (chr 3));
                   b \<leftarrow> mb_set b 6 (unat (chr 4));
                   mb_set b 7 (unat (chr 5)) })"

definition tx_update_banks :: "txrom \<Rightarrow> txrom option" where
  "tx_update_banks m =
     do { prg \<leftarrow> tx_update_prg (tx_regs m) (tx_prg_rom_banks m);
          chr \<leftarrow> tx_update_chr (tx_regs m) (tx_chr_banks m);
          Some (m\<lparr>tx_prg_rom_banks := prg, tx_chr_banks := chr\<rparr>) }"

definition tx_clock_irq :: "txrom \<Rightarrow> u16 \<Rightarrow> txrom" where
  "tx_clock_irq m addr =
     (if addr < 0x2000
      then let next_clock = drop_bit 12 addr AND 1;
               (last, next) = (if tx_revision m = Mmc3Acc then (1, 0) else (0, 1));
               m = (if txr_last_clock (tx_regs m) = last \<and> next_clock = next
                    then let r = tx_regs m;
                             counter = txr_irq_counter r;
                             r = (if counter = 0 \<or> txr_irq_reload r
                                  then r\<lparr>txr_irq_counter := txr_irq_latch r\<rparr>
                                  else r\<lparr>txr_irq_counter := txr_irq_counter r - 1\<rparr>);
                             pending = (if (counter AND 0x01 = 0x01 \<or> tx_revision m = Mmc3BC
                                            \<or> txr_irq_reload r)
                                           \<and> txr_irq_counter r = 0 \<and> txr_irq_enabled r
                                        then True else tx_irq_pending m)
                         in m\<lparr>tx_regs := r\<lparr>txr_irq_reload := False\<rparr>, tx_irq_pending := pending\<rparr>
                    else m)
           in m\<lparr>tx_regs := (tx_regs m)\<lparr>txr_last_clock := next_clock\<rparr>\<rparr>
      else m)"

definition txrom_ppu_bus_read :: "txrom \<Rightarrow> u16 \<Rightarrow> txrom" where
  "txrom_ppu_bus_read m addr = tx_clock_irq m addr"

definition txrom_ppu_bus_write :: "txrom \<Rightarrow> u16 \<Rightarrow> u8 \<Rightarrow> txrom" where
  "txrom_ppu_bus_write m addr val = tx_clock_irq m addr"

definition txrom_map_peek :: "txrom \<Rightarrow> u16 \<Rightarrow> mapped_read option" where
  "txrom_map_peek m addr =
     (if window_in 0x0000 0x1FFF addr then map_option ChrR (mb_translate (tx_chr_banks m) addr)
      else if window_in 0x2000 0x3EFF addr \<and> tx_mirroring m = FourScreen
      then Some (ExRamR (unat (addr AND 0x1FFF)))
      else if window_in 0x6000 0x7FFF addr
      then map_option PrgRamR (mb_translate (tx_prg_ram_banks m) addr)
      else if window_in 0x8000 0xFFFF addr
      then map_option PrgRomR (mb_translate (tx_prg_rom_banks m) addr)
      else Some NoRead)"

definition txrom_map_read :: "txrom \<Rightarrow> u16 \<Rightarrow> (mapped_read \<times> txrom) option" where
  "txrom_map_read m addr =
     (let m = tx_clock_irq m addr in do { r \<leftarrow> txrom_map_peek m addr; Some (r, m) })"

definition tx_write_register :: "txrom \<Rightarrow> u16 \<Rightarrow> u8 \<Rightarrow> txrom option" where
  "tx_write_register m addr val =
     (let sel = addr AND 0xE001; r = tx_regs m
      in if sel = 0x8000
         then tx_update_banks (m\<lparr>tx_regs := r\<lparr>txr_bank_select := val\<rparr>\<rparr>)
         else if sel = 0x8001
         then let bank = txr_bank_select r AND 0x07
              in do { values \<leftarrow> vec_set (txr_bank_values r) (unat bank) val;
                      tx_update_banks (m\<lparr>tx_regs := r\<lparr>txr_bank_values := values\<rparr>\<rparr>) }
         else if sel = 0xA000
         then if tx_mirroring m \<noteq> FourScreen
              then tx_update_banks (m\<lparr>tx_mirroring := (if val AND 0x01 = 0 then Vertical else Horizontal)\<rparr>)
              else Some m
         else if sel = 0xA001 then Some m
         else if sel = 0xC000 then Some (m\<lparr>tx_regs := r\<lparr>txr_irq_latch := val\<rparr>\<rparr>)
         else if sel = 0xC001 then Some (m\<lparr>tx_regs := r\<lparr>txr_irq_reload := True\<rparr>\<rparr>)
         else if sel = 0xE000
         then Some (m\<lparr>tx_irq_pending := False, tx_regs := r\<lparr>txr_irq_enabled := False\<rparr>\<rparr>)
         else Some (m\<lparr>tx_regs := r\<lparr>txr_irq_enabled := True\<rparr>\<rparr>))"

definition txrom_map_write :: "txrom \<Rightarrow> u16 \<Rightarrow> u8 \<Rightarrow> (mapped_write \<times> txrom) option" where
  "txrom_map_write m addr val =
     (if window_in 0x0000 0x1FFF addr
      then do { i \<leftarrow> mb_translate (tx_chr_banks m) addr; Some (ChrW i val, m) }
      else if window_in 0x2000 0x3EFF addr \<and> tx_mirroring m = FourScreen
      then Some (ExRamW (unat (addr AND 0x1FFF)) val, m)
      else if window_in 0x6000 0x7FFF addr
      then do { i \<leftarrow> mb_translate (tx_prg_ram_banks m) addr; Some (PrgRamW i val, m) }
      else if window_in 0x8000 0xFFFF addr
      then do { m \<leftarrow> tx_write_register m addr val; Some (NoWrite, m) }
      else Some (NoWrite, m))"

definition txrom_reset :: "txrom \<Rightarrow> kind \<Rightarrow> txrom option" where
  "txrom_reset m kind = tx_update_banks (m\<lparr>tx_irq_pending := False, tx_regs := tx_regs_new\<rparr>)"

section \<open>Invariant\<close>

definition tx_chr_ok :: "nat \<Rightarrow> mem_banks \<Rightarrow> bool" where
  "tx_chr_ok sz b \<longleftrightarrow> mb_fits sz b \<and> length (mb_banks b) = 8 \<and> even (mb_page_count b)"

definition tx_prg_ok :: "nat \<Rightarrow> mem_banks \<Rightarrow> bool" where
  "tx_prg_ok sz b \<longleftrightarrow> mb_fits sz b \<and> length (mb_banks b) = 4"

definition txrom_wf :: "board \<Rightarrow> txrom \<Rightarrow> bool" where
  "txrom_wf bd m \<longleftrightarrow> tx_chr_ok (bd_chr bd) (tx_chr_banks m) \<and> tx_prg_ok (bd_prg bd) (tx_prg_rom_banks m)
     \<and> mb_fits (bd_prg_ram bd) (tx_prg_ram_banks m) \<and> length (txr_bank_values (tx_regs m)) = 8"

lemma even_unat_and_FE: "even (unat (x AND 0xFE :: u8))"
  by (simp add: unsigned_and_eq even_and_iff)

lemma tx_update_chr_ok: "tx_chr_ok sz b \<Longrightarrow> returns (tx_update_chr r b) (tx_chr_ok sz)"
  by (simp add: tx_update_chr_def Let_def tx_chr_ok_def mb_set_put mb_set_range_put mb_fits_pair
      even_unat_and_FE)

lemma tx_update_prg_ok: "tx_prg_ok sz b \<Longrightarrow> returns (tx_update_prg r b) (tx_prg_ok sz)"
  by (simp add: tx_update_prg_def Let_def tx_prg_ok_def mb_set_put)

lemma tx_update_banks_ok:
  assumes "txrom_wf bd m"
  shows "returns (tx_update_banks m) (txrom_wf bd)"
proof -
  obtain prg where "tx_update_prg (tx_regs m) (tx_prg_rom_banks m) = Some prg" "tx_prg_ok (bd_prg bd) prg"
    using returnsD [OF tx_update_prg_ok, of "bd_prg bd" "tx_prg_rom_banks m" "tx_regs m"] assms
    by (auto simp: txrom_wf_def)
  moreover obtain chr where "tx_update_chr (tx_regs m) (tx_chr_banks m) = Some chr" "tx_chr_ok (bd_chr bd) chr"
    using returnsD [OF tx_update_chr_ok, of "bd_chr bd" "tx_chr_banks m" "tx_regs m"] assms
    by (auto simp: txrom_wf_def)
  ultimately show ?thesis
    using assms by (simp add: tx_update_banks_def txrom_wf_def)
qed

lemma tx_clock_irq_wf [simp]: "txrom_wf bd (tx_clock_irq m a) = txrom_wf bd m"
  by (simp add: tx_clock_irq_def Let_def txrom_wf_def split_beta)

lemma txrom_peek_in: "txrom_wf bd m \<Longrightarrow> returns (txrom_map_peek m a) (read_in bd)"
  by (simp add: txrom_map_peek_def txrom_wf_def tx_chr_ok_def tx_prg_ok_def mb_fits_translate)

lemma tx_clock_irq_frame [simp]:
  "tx_chr_banks (tx_clock_irq m a) = tx_chr_banks m"
  "tx_prg_rom_banks (tx_clock_irq m a) = tx_prg_rom_banks m"
  "tx_prg_ram_banks (tx_clock_irq m a) = tx_prg_ram_banks m"
  "tx_mirroring (tx_clock_irq m a) = tx_mirroring m"
  by (simp_all add: tx_clock_irq_def Let_def split_beta)

lemma txrom_peek_clock [simp]: "txrom_map_peek (tx_clock_irq m a) b = txrom_map_peek m b"
  by (simp add: txrom_map_peek_def)

lemma tx_write_register_ok:
  assumes "txrom_wf bd m"
  shows "returns (tx_write_register m addr v) (txrom_wf bd)"
proof -
  have regs: "txrom_wf bd (m\<lparr>tx_regs := r\<rparr>)" if "length (txr_bank_values r) = 8" for r
    using assms that by (simp add: txrom_wf_def)
  have len: "length (txr_bank_values (tx_regs m)) = 8" using assms by (simp add: txrom_wf_def)
  have mir: "txrom_wf bd (m\<lparr>tx_mirroring := x\<rparr>)" for x using assms by (simp add: txrom_wf_def)
  have pend: "txrom_wf bd (m\<lparr>tx_irq_pending := b, tx_regs := r\<rparr>)"
    if "length (txr_bank_values r) = 8" for b r
    using assms that by (simp add: txrom_wf_def)
  have "unat (x AND 0x07 :: u8) < 8" for x by (rule unat_and_less) simp
  then show ?thesis
    using assms by (simp add: tx_write_register_def Let_def tx_update_banks_ok regs mir pend len)
qed

interpretation txrom: mem_map txrom_wf txrom_map_peek txrom_map_read txrom_map_write
proof
  fix bd m a and v :: u8
  assume wf: "txrom_wf bd m"
  then have "returns (mb_translate (tx_chr_banks m) a) (\<lambda>i. i < bd_chr bd)"
    "returns (mb_translate (tx_prg_ram_banks m) a) (\<lambda>i. i < bd_prg_ram bd)"
    by (simp_all add: txrom_wf_def tx_chr_ok_def mb_fits_translate)
  then show "returns (txrom_map_write m a v) (\<lambda>(w, m'). write_in bd w \<and> txrom_wf bd m')"
    using tx_write_register_ok [OF wf, of a v] wf by (simp add: txrom_map_write_def)
  show "returns (txrom_map_read m a) (\<lambda>(r, m'). txrom_map_peek m a = Some r \<and> txrom_wf bd m')"
    using wf returnsD [OF txrom_peek_in [OF wf, of a]] by (auto simp: txrom_map_read_def Let_def)
qed (rule txrom_peek_in)

lemma txrom_reset_ok: "txrom_wf bd m \<Longrightarrow> returns (txrom_reset m k) (txrom_wf bd)"
  unfolding txrom_reset_def by (rule tx_update_banks_ok) (simp add: txrom_wf_def tx_regs_new_def)

lemma txrom_load_board:
  assumes ok: "board_ok c"
  shows "returns (txrom_load rng c) (\<lambda>(m, c'). txrom_wf (board_of c') m)"
proof -
  obtain j k where j: "length (cart_prg_rom c) = 0x8000 * 2 ^ j"
    and k: "length (cart_chr_rom c) = 0x2000 * 2 ^ k"
    using ok by (auto simp: board_ok_def)
  define c1 where "c1 = (let c = cart_add_prg_ram rng (8 * 1024) c
    in if cart_mirroring c = FourScreen then cart_add_ex_ram rng (4 * 1024) c else c)"
  have c1: "cart_prg_rom c1 = cart_prg_rom c" "cart_chr_rom c1 = cart_chr_rom c"
    "length (cart_prg_ram c1) = 8 * 1024"
    by (simp_all add: c1_def Let_def)
  have "board_ok c1" using ok c1 by (simp add: board_ok_def)
  then have chr: "chr_or_ram rng n c1 = c1" "cart_chr_len c1 = length (cart_chr_rom c)" for n
    using board_ok_chr [of c1] c1 by simp_all
  let ?p = "mb_new 0x8000 0xFFFF (length (cart_prg_rom c)) (8 * 1024)"
  have "tx_chr_ok (length (cart_chr_rom c)) (mb_new 0 0x1FFF (length (cart_chr_rom c)) 1024)"
    using mb_fits_new [of 1024 10 "0x1FFF" 0 "length (cart_chr_rom c)"]
      mb_new_even [of "length (cart_chr_rom c)" "0x2000" k 1024 "0x1FFF" 0] k
    by (simp add: tx_chr_ok_def)
  moreover have p: "tx_prg_ok (length (cart_prg_rom c)) ?p"
    using mb_fits_new [of "8 * 1024" 13 "0xFFFF" "0x8000" "length (cart_prg_rom c)"] j
    by (simp add: tx_prg_ok_def)
  moreover have "mb_fits (8 * 1024) (mb_new 0x6000 0x7FFF (8 * 1024) (8 * 1024))"
    by (rule mb_fits_new [where k = 13]) simp_all
  ultimately have wf: "txrom_wf (board_of c1) \<lparr>tx_regs = tx_regs_new, tx_mirroring = mi,
      tx_irq_pending = False, tx_revision = Mmc3BC,
      tx_chr_banks = mb_new 0x0000 0x1FFF (length (cart_chr_rom c)) 1024,
      tx_prg_ram_banks = mb_new 0x6000 0x7FFF (8 * 1024) (8 * 1024),
      tx_prg_rom_banks = mb_put (mb_put ?p 2 x) 3 y\<rparr>" for mi x y
    by (simp add: txrom_wf_def board_of_def tx_regs_new_def c1 chr tx_prg_ok_def)
  have l: "length (mb_banks ?p) = 4" using p by (simp add: tx_prg_ok_def)
  have "txrom_load rng c = Some (\<lparr>tx_regs = tx_regs_new, tx_mirroring = cart_mirroring c1,
      tx_irq_pending = False, tx_revision = Mmc3BC,
      tx_chr_banks = mb_new 0x0000 0x1FFF (length (cart_chr_rom c)) 1024,
      tx_prg_ram_banks = mb_new 0x6000 0x7FFF (8 * 1024) (8 * 1024),
      tx_prg_rom_banks = mb_put (mb_put ?p 2 (usize_sub (mb_last ?p) 1)) 3 (mb_last ?p)\<rparr>, c1)"
    using c1 chr l unfolding txrom_load_def Let_def c1_def [unfolded Let_def, symmetric]
    by (simp add: mb_set_put)
  with wf show ?thesis by simp
qed

section \<open>The scanline counter\<close>

text \<open>A rising and falling edge of A12, as a rendered scanline gives one.\<close>

definition tx_edge :: "txrom \<Rightarrow> txrom" where
  "tx_edge m = tx_clock_irq (tx_clock_irq m 0x1000) 0x0000"

text \<open>A counter ready to be reloaded at the next edge.\<close>

definition tx_armed :: "txrom \<Rightarrow> bool" where
  "tx_armed m \<longleftrightarrow> tx_revision m = Mmc3BC \<and> txr_last_clock (tx_regs m) = 0
     \<and> txr_irq_enabled (tx_regs m) \<and> \<not> tx_irq_pending m"

lemma tx_edge_eq:
  assumes "tx_revision m = Mmc3BC" and "txr_last_clock (tx_regs m) = 0" and "txr_irq_enabled (tx_regs m)"
  shows "tx_edge m =
    (let r = tx_regs m;
         n = (if txr_irq_counter r = 0 \<or> txr_irq_reload r then txr_irq_latch r
              else txr_irq_counter r - 1)
     in m\<lparr>tx_regs := r\<lparr>txr_irq_counter := n, txr_irq_reload := False\<rparr>,
          tx_irq_pending := (n = 0 \<or> tx_irq_pending m)\<rparr>)"
proof -
  have "(0x1000 :: u16) < 0x2000" "drop_bit 12 (0x1000 :: u16) AND 1 = 1" by simp_all
  then show ?thesis
    using assms by (simp add: tx_edge_def tx_clock_irq_def Let_def)
qed

lemma tx_edges_count:
  assumes "tx_armed m" and "txr_irq_reload (tx_regs m)" and "n \<le> unat (txr_irq_latch (tx_regs m))"
  shows "(tx_edge ^^ Suc n) m =
    m\<lparr>tx_regs := (tx_regs m)\<lparr>txr_irq_counter := txr_irq_latch (tx_regs m) - of_nat n,
        txr_irq_reload := False\<rparr>,
      tx_irq_pending := (n = unat (txr_irq_latch (tx_regs m)))\<rparr>"
  using assms(3)
proof (induction n)
  case 0
  then show ?case
    using assms(1,2) by (auto simp: tx_edge_eq tx_armed_def Let_def unat_eq_zero)
next
  case (Suc n)
  let ?l = "txr_irq_latch (tx_regs m)"
  have gt: "?l - of_nat n \<noteq> 0"
    using Suc.prems unat_minus_of_nat [of n ?l] by auto
  have z: "?l - of_nat n - 1 = 0 \<longleftrightarrow> Suc n = unat ?l"
    using Suc.prems unat_minus_of_nat [of "Suc n" ?l]
    by (auto simp: algebra_simps word_unat_eq_iff)
  have "(tx_edge ^^ Suc (Suc n)) m = tx_edge ((tx_edge ^^ Suc n) m)" by simp
  also have "\<dots> = tx_edge (m\<lparr>tx_regs := (tx_regs m)\<lparr>txr_irq_counter := ?l - of_nat n,
      txr_irq_reload := False\<rparr>, tx_irq_pending := (n = unat ?l)\<rparr>)"
    using Suc by (simp only: Suc_leD)
  also have "\<dots> = m\<lparr>tx_regs := (tx_regs m)\<lparr>txr_irq_counter := ?l - of_nat (Suc n),
      txr_irq_reload := False\<rparr>, tx_irq_pending := (Suc n = unat ?l)\<rparr>"
    using assms(1) gt z Suc.prems by (simp add: tx_edge_eq tx_armed_def Let_def algebra_simps)
  finally show ?case .
qed

end
