(* ===== verification/MapperPxrom.thy ===== *)
theory MapperPxrom
  imports MapperDiscrete
begin

text \<open>
  \<open>src/mapper/m009_pxrom.rs\<close>: the MMC2 board, whose pattern banks are switched by the PPU
  reading two special tiles.
\<close>

section \<open>PxROM (mapper 9)\<close>

record pxrom =
  px_mirroring :: mirroring
  px_latch :: "nat list"
  px_latch_banks :: "u8 list"
  px_chr_banks :: mem_banks
  px_prg_rom_banks :: mem_banks

definition pxrom_load :: "(nat \<Rightarrow> nat \<Rightarrow> u8) \<Rightarrow> cart \<Rightarrow> (pxrom \<times> cart) option" where
  "pxrom_load rng c =
     (let c = cart_add_prg_ram rng (8 * 1024) c;
          banks = mb_new 0x8000 0xFFFF (length (cart_prg_rom c)) (8 * 1024);
          last_bank = mb_last banks
      in do { banks \<leftarrow> mb_set banks 1 (usize_sub last_bank 2);
              banks \<leftarrow> mb_set banks 2 (usize_sub last_bank 1);
              banks \<leftarrow> mb_set banks 3 last_bank;
              Some (\<lparr>px_mirroring = cart_mirroring c, px_latch = [0x00, 0x00],
                     px_latch_banks = replicate 4 0x00,
                     px_chr_banks = mb_new 0x0000 0x1FFF (length (cart_chr_rom c)) (4 * 1024),
                     px_prg_rom_banks = banks\<rparr>, c) })"

definition px_update_banks :: "pxrom \<Rightarrow> pxrom option" where
  "px_update_banks m =
     do { l0 \<leftarrow> vec_get (px_latch m) 0;
          bank0 \<leftarrow> vec_get (px_latch_banks m) l0;
          l1 \<leftarrow> vec_get (px_latch m) 1;
          bank1 \<leftarrow> vec_get (px_latch_banks m) (l1 + 2);
          b \<leftarrow> mb_set (px_chr_banks m) 0 (unat bank0);
          b \<leftarrow> mb_set b 1 (unat bank1);
          Some (m\<lparr>px_chr_banks := b\<rparr>) }"

definition pxrom_map_peek :: "pxrom \<Rightarrow> u16 \<Rightarrow> mapped_read option" where
  "pxrom_map_peek m addr =
     (if window_in 0x0000 0x1FFF addr then map_option ChrR (mb_translate (px_chr_banks m) addr)
      else if window_in 0x6000 0x7FFF addr then Some (PrgRamR (unat (addr AND 0x1FFF)))
      else if window_in 0x8000 0xFFFF addr
      then map_option PrgRomR (mb_translate (px_prg_rom_banks m) addr)
      else Some NoRead)"

definition px_latch_addr :: "u16 \<Rightarrow> bool" where
  "px_latch_addr addr \<longleftrightarrow> addr = 0x0FD8 \<or> addr = 0x0FE8 \<or> window_in 0x1FD8 0x1FDF addr
     \<or> window_in 0x1FE8 0x1FEF addr"

definition pxrom_map_read :: "pxrom \<Rightarrow> u16 \<Rightarrow> (mapped_read \<times> pxrom) option" where
  "pxrom_map_read m addr =
     do { val \<leftarrow> pxrom_map_peek m addr;
          m \<leftarrow> (if px_latch_addr addr
               then do { latch \<leftarrow> vec_set (px_latch m) (drop_bit 12 (unat addr))
                                   (usize_sub (drop_bit 4 (unat addr) AND 0xFF) 0xFD);
                         px_update_banks (m\<lparr>px_latch := latch\<rparr>) }
               else Some m);
          Some (val, m) }"

definition pxrom_map_write :: "pxrom \<Rightarrow> u16 \<Rightarrow> u8 \<Rightarrow> (mapped_write \<times> pxrom) option" where
  "pxrom_map_write m addr val =
     (if window_in 0x6000 0x7FFF addr then Some (PrgRamW (unat (addr AND 0x1FFF)) val, m)
      else if window_in 0xA000 0xAFFF addr
      then do { b \<leftarrow> mb_set (px_prg_rom_banks m) 0 (unat (val AND 0x0F));
                Some (NoWrite, m\<lparr>px_prg_rom_banks := b\<rparr>) }
      else if window_in 0xB000 0xEFFF addr
      then do { banks \<leftarrow> vec_set (px_latch_banks m) (unat (drop_bit 12 (addr - 0xB000))) (val AND 0x1F);
                m \<leftarrow> px_update_banks (m\<lparr>px_latch_banks := banks\<rparr>);
                Some (NoWrite, m) }
      else if window_in 0xF000 0xFFFF addr
      then Some (NoWrite, m\<lparr>px_mirroring := (if val AND 0x01 = 0 then Vertical else Horizontal)\<rparr>)
      else Some (NoWrite, m))"

definition pxrom_reset :: "pxrom \<Rightarrow> kind \<Rightarrow> pxrom option" where
  "pxrom_reset m kind =
     px_update_banks (m\<lparr>px_latch := [0x00, 0x00], px_latch_banks := replicate 4 0x00\<rparr>)"

definition pxrom_wf :: "board \<Rightarrow> pxrom \<Rightarrow> bool" where
  "pxrom_wf bd m \<longleftrightarrow> mb_fits (bd_chr bd) (px_chr_banks m) \<and> length (mb_banks (px_chr_banks m)) = 2
     \<and> mb_fits (bd_prg bd) (px_prg_rom_banks m) \<and> length (mb_banks (px_prg_rom_banks m)) = 4
     \<and> 0x2000 \<le> bd_prg_ram bd \<and> length (px_latch_banks m) = 4
     \<and> length (px_latch m) = 2 \<and> (\<forall>l\<in>set (px_latch m). l < 2)"

lemma px_update_banks_ok:
  assumes "pxrom_wf bd m"
  shows "returns (px_update_banks m) (pxrom_wf bd)"
proof -
  have "px_latch m ! 0 < 2" "px_latch m ! 1 < 2" using assms by (simp_all add: pxrom_wf_def)
  then have "px_latch m ! 0 < 4" "px_latch m ! 1 + 2 < 4" by simp_all
  then show ?thesis
    using assms by (simp add: px_update_banks_def pxrom_wf_def mb_set_put)
qed

lemma px_latch_addr_vals:
  assumes "px_latch_addr addr"
  shows "drop_bit 12 (unat addr) < 2 \<and> usize_sub (drop_bit 4 (unat addr) AND 0xFF) 0xFD < 2"
proof -
  have and_ff: "(n AND 0xFF :: nat) = n mod 256" for n
    using nat_and_mask [of n 8] by simp
  consider "unat addr = 0x0FD8" | "unat addr = 0x0FE8" | "0x1FD8 \<le> unat addr" "unat addr \<le> 0x1FDF"
    | "0x1FE8 \<le> unat addr" "unat addr \<le> 0x1FEF"
    using assms by (auto simp: px_latch_addr_def window_in_def)
  then show ?thesis
  proof cases
    case 3
    then have "unat addr div 16 = 0x1FD" "unat addr div 4096 = 1" by simp_all
    then show ?thesis by (simp add: drop_bit_eq_div and_ff)
  next
    case 4
    then have "unat addr div 16 = 0x1FE" "unat addr div 4096 = 1" by simp_all
    then show ?thesis by (simp add: drop_bit_eq_div and_ff)
  qed (simp_all add: drop_bit_eq_div and_ff)
qed

lemma pxrom_peek_in: "pxrom_wf bd m \<Longrightarrow> returns (pxrom_map_peek m a) (read_in bd)"
  by (auto simp: pxrom_map_peek_def pxrom_wf_def mb_fits_translate)

lemma pxrom_wf_latch:
  "pxrom_wf bd m \<Longrightarrow> x < 2 \<Longrightarrow> pxrom_wf bd (m\<lparr>px_latch := (px_latch m)[i := x]\<rparr>)"
  using set_update_all [of "px_latch m" "\<lambda>l. l < 2" x i] by (simp add: pxrom_wf_def)

interpretation pxrom: mem_map pxrom_wf pxrom_map_peek pxrom_map_read pxrom_map_write
proof
  fix bd m a and v :: u8
  assume wf: "pxrom_wf bd m"
  have len: "length (px_latch m) = 2" "length (px_latch_banks m) = 4" using wf by (simp_all add: pxrom_wf_def)
  obtain r where r: "pxrom_map_peek m a = Some r"
    using returnsD [OF pxrom_peek_in [OF wf, of a]] by blast
  have "returns (px_update_banks (m\<lparr>px_latch := (px_latch m)[i := x]\<rparr>)) (pxrom_wf bd)" if "x < 2" for i x
    by (rule px_update_banks_ok [OF pxrom_wf_latch [OF wf that]])
  then show "returns (pxrom_map_read m a) (\<lambda>(r, m'). pxrom_map_peek m a = Some r \<and> pxrom_wf bd m')"
    using px_latch_addr_vals [of a] len r wf by (auto simp: pxrom_map_read_def)
  have "returns (px_update_banks (m\<lparr>px_latch_banks := (px_latch_banks m)[i := x]\<rparr>)) (pxrom_wf bd)" for i x
    by (rule px_update_banks_ok) (use wf in \<open>simp add: pxrom_wf_def\<close>)
  moreover have "unat (drop_bit 12 (a - 0xB000)) < 4" if "window_in 0xB000 0xEFFF a"
    by (rule unat_drop_bit_less) (use that in \<open>auto simp: window_in_def unat_sub_if'\<close>)
  ultimately show "returns (pxrom_map_write m a v) (\<lambda>(w, m'). write_in bd w \<and> pxrom_wf bd m')"
    using wf len by (simp add: pxrom_map_write_def) (auto simp: pxrom_wf_def mb_set_put)
qed (rule pxrom_peek_in)

lemma pxrom_load_board:
  assumes ok: "board_ok c"
  shows "returns (pxrom_load rng c) (\<lambda>(m, c'). pxrom_wf (board_of c') m)"
proof -
  obtain j k where j: "length (cart_prg_rom c) = 0x8000 * 2 ^ j"
    and k: "length (cart_chr_rom c) = 0x2000 * 2 ^ k"
    using ok by (auto simp: board_ok_def)
  let ?p = "mb_new 0x8000 0xFFFF (length (cart_prg_rom c)) (8 * 1024)"
  have "mb_fits (length (cart_chr_rom c)) (mb_new 0 0x1FFF (length (cart_chr_rom c)) (4 * 1024))"
    by (rule mb_fits_new [where k = 12]) (simp_all add: k)
  moreover have "mb_fits (length (cart_prg_rom c)) ?p"
    by (rule mb_fits_new [where k = 13]) (simp_all add: j)
  moreover have "length (mb_banks ?p) = 4" by simp
  moreover have "cart_chr_rom c \<noteq> []" using k by auto
  ultimately show ?thesis
    by (simp add: pxrom_load_def Let_def mb_set_put pxrom_wf_def board_of_def cart_chr_len_def)
qed

end
