(* ===== verification/MapperVrc6.thy ===== *)
theory MapperVrc6
  imports MapperDiscrete ApuUnits
begin

text \<open>
  The Konami boards: \<open>src/mapper/vrc_irq.rs\<close>, their interrupt counter, and
  \<open>src/mapper/m024_m026_vrc6.rs\<close>, the VRC6 in its two revisions, with its three sound channels.
  The \<open>f32\<close> volumes are small integers, so they are exact rationals; the scale of the mixer is
  applied by the CPU's bus. The plain \<open>-=\<close> and \<open>+=\<close> on bytes and words wrap.
\<close>

section \<open>VRC interrupt counter\<close>

type_synonym i16 = "16 word"

record vrc_irq =
  vq_reload :: u8
  vq_counter :: u8
  vq_prescalar_counter :: i16
  vq_enabled :: bool
  vq_enabled_after_ack :: bool
  vq_cycle_mode :: bool
  vq_pending :: bool

definition vrc_irq_write_reload :: "vrc_irq \<Rightarrow> u8 \<Rightarrow> vrc_irq" where
  "vrc_irq_write_reload q val = q\<lparr>vq_reload := val\<rparr>"

definition vrc_irq_write_control :: "vrc_irq \<Rightarrow> u8 \<Rightarrow> vrc_irq" where
  "vrc_irq_write_control q val =
     (let q = q\<lparr>vq_enabled_after_ack := (val AND 0x01 = 0x01), vq_enabled := (val AND 0x02 = 0x02),
                vq_cycle_mode := (val AND 0x04 = 0x04)\<rparr>;
          q = (if vq_enabled q then q\<lparr>vq_counter := vq_reload q, vq_prescalar_counter := 341\<rparr> else q)
      in q\<lparr>vq_pending := False\<rparr>)"

definition vrc_irq_acknowledge :: "vrc_irq \<Rightarrow> vrc_irq" where
  "vrc_irq_acknowledge q = q\<lparr>vq_enabled := vq_enabled_after_ack q, vq_pending := False\<rparr>"

definition vrc_irq_clock :: "vrc_irq \<Rightarrow> vrc_irq" where
  "vrc_irq_clock q =
     (if vq_enabled q
      then let q = q\<lparr>vq_prescalar_counter := vq_prescalar_counter q - 3\<rparr>
           in if vq_cycle_mode q \<or> sint (vq_prescalar_counter q) \<le> 0
              then let q = (if vq_counter q = 0xFF then q\<lparr>vq_counter := vq_reload q, vq_pending := True\<rparr>
                            else q\<lparr>vq_counter := vq_counter q + 1\<rparr>)
                   in q\<lparr>vq_prescalar_counter := vq_prescalar_counter q + 341\<rparr>
              else q
      else q)"

definition vrc_irq_reset :: "vrc_irq \<Rightarrow> kind \<Rightarrow> vrc_irq" where
  "vrc_irq_reset q kind =
     q\<lparr>vq_reload := 0, vq_counter := 0, vq_prescalar_counter := 0, vq_enabled := False,
       vq_enabled_after_ack := False, vq_cycle_mode := False\<rparr>"

section \<open>VRC6 sound\<close>

record vrc6_pulse =
  vp_enabled :: bool
  vp_volume :: u8
  vp_duty_cycle :: u8
  vp_ignore_duty :: bool
  vp_frequency :: u16
  vp_timer :: u16
  vp_step :: u8
  vp_freq_shift :: u8

definition vrc6_pulse_new :: vrc6_pulse where
  "vrc6_pulse_new =
     \<lparr>vp_enabled = False, vp_volume = 0, vp_duty_cycle = 0, vp_ignore_duty = False, vp_frequency = 1,
      vp_timer = 1, vp_step = 0, vp_freq_shift = 0\<rparr>"

text \<open>The fourth register does not exist: \<open>unreachable!\<close>.\<close>

definition vrc6_pulse_write_register :: "vrc6_pulse \<Rightarrow> u16 \<Rightarrow> u8 \<Rightarrow> vrc6_pulse option" where
  "vrc6_pulse_write_register p addr val =
     (let r = addr AND 0x03
      in if r = 0 then
           Some (p\<lparr>vp_volume := val AND 0x0F, vp_duty_cycle := drop_bit 4 (val AND 0x70),
                   vp_ignore_duty := (val AND 0x80 = 0x80)\<rparr>)
         else if r = 1 then Some (p\<lparr>vp_frequency := (vp_frequency p AND 0x0F00) OR ucast val\<rparr>)
         else if r = 2 then
           (let p = p\<lparr>vp_frequency := push_bit 8 (ucast val AND 0x0F) OR (vp_frequency p AND 0xFF),
                      vp_enabled := (val AND 0x80 = 0x80)\<rparr>
            in Some (if \<not> vp_enabled p then p\<lparr>vp_step := 0\<rparr> else p))
         else None)"

definition vrc6_pulse_volume :: "vrc6_pulse \<Rightarrow> rat" where
  "vrc6_pulse_volume p =
     (if vp_enabled p \<and> (vp_ignore_duty p \<or> vp_step p \<le> vp_duty_cycle p) then f32_from (vp_volume p) else 0)"

definition vrc6_pulse_clock :: "vrc6_pulse \<Rightarrow> vrc6_pulse" where
  "vrc6_pulse_clock p =
     (if vp_enabled p then
        let p = p\<lparr>vp_timer := vp_timer p - 1\<rparr>
        in if vp_timer p = 0
           then p\<lparr>vp_step := (vp_step p + 1) AND 0x0F,
                  vp_timer := drop_bit (unat (vp_freq_shift p)) (vp_frequency p) + 1\<rparr>
           else p
      else p)"

record vrc6_saw =
  vs_enabled :: bool
  vs_accum :: u8
  vs_accum_rate :: u8
  vs_frequency :: u16
  vs_timer :: u16
  vs_step :: u8
  vs_freq_shift :: u8

definition vrc6_saw_new :: vrc6_saw where
  "vrc6_saw_new =
     \<lparr>vs_enabled = False, vs_accum = 0, vs_accum_rate = 0, vs_frequency = 1, vs_timer = 1, vs_step = 0,
      vs_freq_shift = 0\<rparr>"

definition vrc6_saw_write_register :: "vrc6_saw \<Rightarrow> u16 \<Rightarrow> u8 \<Rightarrow> vrc6_saw option" where
  "vrc6_saw_write_register w addr val =
     (let r = addr AND 0x03
      in if r = 0 then Some (w\<lparr>vs_accum_rate := val AND 0x3F\<rparr>)
         else if r = 1 then Some (w\<lparr>vs_frequency := (vs_frequency w AND 0x0F00) OR ucast val\<rparr>)
         else if r = 2 then
           (let w = w\<lparr>vs_frequency := push_bit 8 (ucast val AND 0x0F) OR (vs_frequency w AND 0xFF),
                      vs_enabled := (val AND 0x80 = 0x80)\<rparr>
            in Some (if \<not> vs_enabled w then w\<lparr>vs_accum := 0, vs_step := 0\<rparr> else w))
         else None)"

definition vrc6_saw_volume :: "vrc6_saw \<Rightarrow> rat" where
  "vrc6_saw_volume w = (if vs_enabled w then f32_from (drop_bit 3 (vs_accum w)) else 0)"

definition vrc6_saw_clock :: "vrc6_saw \<Rightarrow> vrc6_saw" where
  "vrc6_saw_clock w =
     (if vs_enabled w then
        let w = w\<lparr>vs_timer := vs_timer w - 1\<rparr>
        in if vs_timer w = 0
           then let w = w\<lparr>vs_step := (vs_step w + 1) mod 14,
                          vs_timer := drop_bit (unat (vs_freq_shift w)) (vs_frequency w) + 1\<rparr>
                in if vs_step w = 0 then w\<lparr>vs_accum := 0\<rparr>
                   else if vs_step w AND 0x01 = 0x00 then w\<lparr>vs_accum := vs_accum w + vs_accum_rate w\<rparr>
                   else w
           else w
      else w)"

record vrc6_audio =
  va_pulse1 :: vrc6_pulse
  va_pulse2 :: vrc6_pulse
  va_saw :: vrc6_saw
  va_halt :: bool
  va_out :: rat
  va_last_out :: rat

definition vrc6_audio_new :: vrc6_audio where
  "vrc6_audio_new =
     \<lparr>va_pulse1 = vrc6_pulse_new, va_pulse2 = vrc6_pulse_new, va_saw = vrc6_saw_new, va_halt = False,
      va_out = 0, va_last_out = 0\<rparr>"

definition vrc6_set_freq_shift :: "vrc6_audio \<Rightarrow> u8 \<Rightarrow> vrc6_audio" where
  "vrc6_set_freq_shift a val =
     a\<lparr>va_pulse1 := (va_pulse1 a)\<lparr>vp_freq_shift := val\<rparr>,
       va_pulse2 := (va_pulse2 a)\<lparr>vp_freq_shift := val\<rparr>,
       va_saw := (va_saw a)\<lparr>vs_freq_shift := val\<rparr>\<rparr>"

definition vrc6_audio_write_register :: "vrc6_audio \<Rightarrow> u16 \<Rightarrow> u8 \<Rightarrow> vrc6_audio option" where
  "vrc6_audio_write_register a addr val =
     (let r = addr AND 0xF003
      in if window_in 0x9000 0x9002 r then
           map_option (\<lambda>p. a\<lparr>va_pulse1 := p\<rparr>) (vrc6_pulse_write_register (va_pulse1 a) addr val)
         else if r = 0x9003 then
           (let a = a\<lparr>va_halt := (val AND 0x01 = 0x01)\<rparr>;
                freq_shift = (if val AND 0x04 = 0x04 then 8 else if val AND 0x02 = 0x02 then 4 else 0)
            in Some (vrc6_set_freq_shift a freq_shift))
         else if window_in 0xA000 0xA002 r then
           map_option (\<lambda>p. a\<lparr>va_pulse2 := p\<rparr>) (vrc6_pulse_write_register (va_pulse2 a) addr val)
         else if window_in 0xB000 0xB002 r then
           map_option (\<lambda>w. a\<lparr>va_saw := w\<rparr>) (vrc6_saw_write_register (va_saw a) addr val)
         else None)"

definition vrc6_audio_clock :: "vrc6_audio \<Rightarrow> vrc6_audio" where
  "vrc6_audio_clock a =
     (if \<not> va_halt a then
        let a = a\<lparr>va_pulse1 := vrc6_pulse_clock (va_pulse1 a), va_pulse2 := vrc6_pulse_clock (va_pulse2 a),
                  va_saw := vrc6_saw_clock (va_saw a)\<rparr>
        in a\<lparr>va_out := vrc6_pulse_volume (va_pulse1 a) + vrc6_pulse_volume (va_pulse2 a) + vrc6_saw_volume (va_saw a)\<rparr>
      else a)"

definition vrc6_audio_reset :: "vrc6_audio \<Rightarrow> kind \<Rightarrow> vrc6_audio" where
  "vrc6_audio_reset a kind = a\<lparr>va_last_out := 0, va_halt := False\<rparr>"

section \<open>VRC6 (mappers 24 and 26)\<close>

datatype vrc6_revision = Vrc6A | Vrc6B

record vrc6_regs =
  vr_banking_mode :: u8
  vr_prg :: "nat list"
  vr_chr :: "nat list"

record vrc6 =
  v6_regs :: vrc6_regs
  v6_revision :: vrc6_revision
  v6_mirroring :: mirroring
  v6_irq :: vrc_irq
  v6_audio :: vrc6_audio
  v6_nt_banks :: "nat list"
  v6_chr_banks :: mem_banks
  v6_prg_ram_banks :: mem_banks
  v6_prg_rom_banks :: mem_banks

definition vrc_irq_default :: vrc_irq where
  "vrc_irq_default =
     \<lparr>vq_reload = 0, vq_counter = 0, vq_prescalar_counter = 0, vq_enabled = False,
      vq_enabled_after_ack = False, vq_cycle_mode = False, vq_pending = False\<rparr>"

definition vrc6_regs_default :: vrc6_regs where
  "vrc6_regs_default = \<lparr>vr_banking_mode = 0, vr_prg = replicate 4 0, vr_chr = replicate 8 0\<rparr>"

definition vrc6_load :: "(nat \<Rightarrow> nat \<Rightarrow> u8) \<Rightarrow> vrc6_revision \<Rightarrow> cart \<Rightarrow> (vrc6 \<times> cart) option" where
  "vrc6_load rng revision c =
     (let c = (if \<not> cart_has_prg_ram c then cart_add_prg_ram rng (8 * 1024) c else c);
          prg_rom_banks = mb_new 0x8000 0xFFFF (length (cart_prg_rom c)) (8 * 1024);
          last_bank = mb_last prg_rom_banks
      in do { banks \<leftarrow> mb_set prg_rom_banks 3 last_bank;
              Some (\<lparr>v6_regs = vrc6_regs_default, v6_revision = revision, v6_mirroring = cart_mirroring c,
                     v6_irq = vrc_irq_default, v6_audio = vrc6_audio_new, v6_nt_banks = replicate 4 0,
                     v6_chr_banks = mb_new 0x0000 0x1FFF (length (cart_chr_rom c)) 1024,
                     v6_prg_ram_banks = mb_new 0x6000 0x7FFF (length (cart_prg_ram c)) (8 * 1024),
                     v6_prg_rom_banks = banks\<rparr>, c) })"

definition vrc6_prg_ram_enabled :: "vrc6 \<Rightarrow> bool" where
  "vrc6_prg_ram_enabled m \<longleftrightarrow> vr_banking_mode (v6_regs m) AND 0x80 = 0x80"

definition vrc6_set_nametable_page :: "vrc6 \<Rightarrow> nat \<Rightarrow> nat \<Rightarrow> vrc6 option" where
  "vrc6_set_nametable_page m bank page =
     do { nt_banks \<leftarrow> vec_set (v6_nt_banks m) bank page; Some (m\<lparr>v6_nt_banks := nt_banks\<rparr>) }"

definition vrc6_set_nametables :: "vrc6 \<Rightarrow> nat list \<Rightarrow> vrc6 option" where
  "vrc6_set_nametables m nametables =
     foldl (\<lambda>r (bank, page). do { m \<leftarrow> r; vrc6_set_nametable_page m bank page })
       (Some m) (enumerate 0 nametables)"

text \<open>The inherent \<open>set_mirroring\<close>; the one of the trait \<open>Mapped\<close> only sets the field.\<close>

definition vrc6_set_mirroring :: "vrc6 \<Rightarrow> mirroring \<Rightarrow> vrc6 option" where
  "vrc6_set_mirroring m mi =
     (let m = m\<lparr>v6_mirroring := mi\<rparr>
      in case mi of
           Vertical \<Rightarrow> vrc6_set_nametables m [0, 1, 0, 1]
         | Horizontal \<Rightarrow> vrc6_set_nametables m [0, 0, 1, 1]
         | SingleScreenA \<Rightarrow> vrc6_set_nametables m [0, 0, 0, 0]
         | SingleScreenB \<Rightarrow> vrc6_set_nametables m [1, 1, 1, 1]
         | FourScreen \<Rightarrow> vrc6_set_nametables m [0, 1, 2, 3])"

text \<open>A run of \<open>set\<close> calls on the slots 0, 1, and so on.\<close>

definition mb_set_all :: "mem_banks \<Rightarrow> nat list \<Rightarrow> mem_banks option" where
  "mb_set_all b banks = foldl (\<lambda>r (slot, bank). do { b \<leftarrow> r; mb_set b slot bank }) (Some b) (enumerate 0 banks)"

text \<open>The pattern banks by banking mode; \<open>regs.chr\<close> is an array of eight.\<close>

definition vrc6_chr_pages :: "vrc6_regs \<Rightarrow> nat list" where
  "vrc6_chr_pages r =
     (let chr = (\<lambda>i. vr_chr r ! i);
          (mask, or_mask) = (if vr_banking_mode r AND 0x20 = 0x20 then (0xFE, 1) else (0xFF, 0));
          lo = (\<lambda>i. chr i AND mask); hi = (\<lambda>i. (chr i AND mask) OR or_mask);
          mode = vr_banking_mode r AND 0x03
      in if mode = 0 then [chr 0, chr 1, chr 2, chr 3, chr 4, chr 5, chr 6, chr 7]
         else if mode = 1 then [lo 0, hi 0, lo 1, hi 1, lo 2, hi 2, lo 3, hi 3]
         else [chr 0, chr 1, chr 2, chr 3, lo 4, hi 4, lo 5, hi 5])"

text \<open>The nametable pages when they come from CHR-ROM; \<open>None\<close> is the \<open>unreachable!\<close>.\<close>

definition vrc6_chr_nametables :: "vrc6_regs \<Rightarrow> nat list option" where
  "vrc6_chr_nametables r =
     (let chr = (\<lambda>i. vr_chr r ! i); lo = (\<lambda>i. chr i AND 0xFE); hi = (\<lambda>i. (chr i AND 0xFE) OR 1);
          mode = vr_banking_mode r AND 0x2F; low = vr_banking_mode r AND 0x07
      in if mode = 0x20 \<or> mode = 0x27 then Some [lo 6, hi 6, lo 7, hi 7]
         else if mode = 0x23 \<or> mode = 0x24 then Some [lo 6, lo 7, hi 6, hi 7]
         else if mode = 0x28 \<or> mode = 0x2F then Some [lo 6, lo 6, lo 7, lo 7]
         else if mode = 0x2B \<or> mode = 0x2C then Some [hi 6, hi 7, hi 6, hi 7]
         else if low = 0 \<or> low = 6 \<or> low = 7 then Some [chr 6, chr 6, chr 7, chr 7]
         else if low = 1 \<or> low = 5 then Some [chr 4, chr 5, chr 6, chr 7]
         else if 2 \<le> low \<and> low \<le> 4 then Some [chr 6, chr 7, chr 6, chr 7]
         else None)"

text \<open>The pages in the console's own memory for the modes without a fixed mirroring.\<close>

definition vrc6_ciram_nametables :: "vrc6_regs \<Rightarrow> nat list option" where
  "vrc6_ciram_nametables r =
     (let page = (\<lambda>i. vr_chr r ! i AND 0x01); low = vr_banking_mode r AND 0x07
      in if low = 0 \<or> low = 6 \<or> low = 7 then Some [page 6, page 6, page 7, page 7]
         else if low = 1 \<or> low = 5 then Some [page 4, page 5, page 6, page 7]
         else if 2 \<le> low \<and> low \<le> 4 then Some [page 6, page 7, page 6, page 7]
         else None)"

definition vrc6_update_nametables :: "vrc6 \<Rightarrow> vrc6 option" where
  "vrc6_update_nametables m =
     (let r = v6_regs m; mode = vr_banking_mode r AND 0x2F
      in if vr_banking_mode r AND 0x10 = 0x10 then
           do { m \<leftarrow> vrc6_set_mirroring m FourScreen;
                pages \<leftarrow> vrc6_chr_nametables r;
                vrc6_set_nametables m pages }
         else if mode = 0x20 \<or> mode = 0x27 then vrc6_set_mirroring m Vertical
         else if mode = 0x23 \<or> mode = 0x24 then vrc6_set_mirroring m Horizontal
         else if mode = 0x28 \<or> mode = 0x2F then vrc6_set_mirroring m SingleScreenA
         else if mode = 0x2B \<or> mode = 0x2C then vrc6_set_mirroring m SingleScreenB
         else do { m \<leftarrow> vrc6_set_mirroring m FourScreen;
                   pages \<leftarrow> vrc6_ciram_nametables r;
                   vrc6_set_nametables m pages })"

definition vrc6_update_chr_banks :: "vrc6 \<Rightarrow> vrc6 option" where
  "vrc6_update_chr_banks m =
     do { banks \<leftarrow> mb_set_all (v6_chr_banks m) (vrc6_chr_pages (v6_regs m));
          vrc6_update_nametables (m\<lparr>v6_chr_banks := banks\<rparr>) }"

text \<open>The page number is shifted on a \<open>usize\<close> and then cut to 16 bits.\<close>

definition vrc6_nametable_addr :: "vrc6 \<Rightarrow> u16 \<Rightarrow> u16" where
  "vrc6_nametable_addr m addr =
     (let addr = addr - 0x2000;
          a10 = of_nat (push_bit 10 (v6_nt_banks m ! unat (drop_bit 10 addr AND 0x03)))
      in a10 OR (NOT a10 AND addr))"

definition vrc6_map_peek :: "vrc6 \<Rightarrow> u16 \<Rightarrow> mapped_read option" where
  "vrc6_map_peek m addr =
     (if window_in 0x0000 0x1FFF addr then map_option ChrR (mb_translate (v6_chr_banks m) addr)
      else if window_in 0x2000 0x3EFF addr then
        (let addr = vrc6_nametable_addr m addr
         in if vr_banking_mode (v6_regs m) AND 0x10 = 0x00 then Some (CIRamR (unat addr))
            else map_option ChrR (mb_translate (v6_chr_banks m) addr))
      else if window_in 0x6000 0x7FFF addr \<and> vrc6_prg_ram_enabled m
      then map_option PrgRamR (mb_translate (v6_prg_ram_banks m) addr)
      else if window_in 0x8000 0xFFFF addr
      then map_option PrgRomR (mb_translate (v6_prg_rom_banks m) addr)
      else Some NoRead)"

text \<open>Revision B swaps the two lowest address lines.\<close>

definition vrc6_swap :: "vrc6_revision \<Rightarrow> u16 \<Rightarrow> u16" where
  "vrc6_swap revision addr =
     (if revision = Vrc6B
      then (addr AND 0xFFFC) OR push_bit 1 (addr AND 0x01) OR drop_bit 1 (addr AND 0x02) else addr)"

definition vrc6_write_chr :: "vrc6 \<Rightarrow> nat \<Rightarrow> u8 \<Rightarrow> vrc6 option" where
  "vrc6_write_chr m i val =
     do { chr \<leftarrow> vec_set (vr_chr (v6_regs m)) i (unat val);
          vrc6_update_chr_banks (m\<lparr>v6_regs := (v6_regs m)\<lparr>vr_chr := chr\<rparr>\<rparr>) }"

definition vrc6_write_register :: "vrc6 \<Rightarrow> u16 \<Rightarrow> u8 \<Rightarrow> vrc6 option" where
  "vrc6_write_register m addr val =
     (let r = addr AND 0xF003
      in if window_in 0x8000 0x8003 r then
           do { banks \<leftarrow> mb_set_range (v6_prg_rom_banks m) 0 1 (unat (push_bit 1 (val AND 0x0F)));
                Some (m\<lparr>v6_prg_rom_banks := banks\<rparr>) }
         else if window_in 0x9000 0x9003 r \<or> window_in 0xA000 0xA002 r \<or> window_in 0xB000 0xB002 r then
           do { audio \<leftarrow> vrc6_audio_write_register (v6_audio m) addr val; Some (m\<lparr>v6_audio := audio\<rparr>) }
         else if r = 0xB003 then
           vrc6_update_chr_banks (m\<lparr>v6_regs := (v6_regs m)\<lparr>vr_banking_mode := val\<rparr>\<rparr>)
         else if window_in 0xC000 0xC003 r then
           do { banks \<leftarrow> mb_set (v6_prg_rom_banks m) 2 (unat (val AND 0x1F));
                Some (m\<lparr>v6_prg_rom_banks := banks\<rparr>) }
         else if window_in 0xD000 0xD003 r then vrc6_write_chr m (unat (addr AND 0x03)) val
         else if window_in 0xE000 0xE003 r then vrc6_write_chr m (unat (4 + (addr AND 0x03))) val
         else if r = 0xF000 then Some (m\<lparr>v6_irq := vrc_irq_write_reload (v6_irq m) val\<rparr>)
         else if r = 0xF001 then Some (m\<lparr>v6_irq := vrc_irq_write_control (v6_irq m) val\<rparr>)
         else if r = 0xF002 then Some (m\<lparr>v6_irq := vrc_irq_acknowledge (v6_irq m)\<rparr>)
         else Some m)"

definition vrc6_map_write :: "vrc6 \<Rightarrow> u16 \<Rightarrow> u8 \<Rightarrow> (mapped_write \<times> vrc6) option" where
  "vrc6_map_write m addr val =
     (if vrc6_prg_ram_enabled m \<and> window_in 0x6000 0x7FFF addr
      then do { i \<leftarrow> mb_translate (v6_prg_ram_banks m) addr; Some (PrgRamW i val, m) }
      else do { m \<leftarrow> vrc6_write_register m (vrc6_swap (v6_revision m) addr) val; Some (NoWrite, m) })"

definition vrc6_irq_pending :: "vrc6 \<Rightarrow> bool" where
  "vrc6_irq_pending m = vq_pending (v6_irq m)"

definition vrc6_clock :: "vrc6 \<Rightarrow> vrc6" where
  "vrc6_clock m = m\<lparr>v6_irq := vrc_irq_clock (v6_irq m), v6_audio := vrc6_audio_clock (v6_audio m)\<rparr>"

definition vrc6_reset :: "vrc6 \<Rightarrow> kind \<Rightarrow> vrc6" where
  "vrc6_reset m kind =
     m\<lparr>v6_irq := vrc_irq_reset (v6_irq m) kind, v6_audio := vrc6_audio_reset (v6_audio m) kind\<rparr>"

section \<open>Invariant\<close>

definition vrc6_wf :: "board \<Rightarrow> vrc6 \<Rightarrow> bool" where
  "vrc6_wf bd m \<longleftrightarrow> mb_fits (bd_chr bd) (v6_chr_banks m) \<and> length (mb_banks (v6_chr_banks m)) = 8
     \<and> mb_fits (bd_prg bd) (v6_prg_rom_banks m) \<and> length (mb_banks (v6_prg_rom_banks m)) = 4
     \<and> even (mb_page_count (v6_prg_rom_banks m)) \<and> mb_fits (bd_prg_ram bd) (v6_prg_ram_banks m)
     \<and> length (v6_nt_banks m) = 4 \<and> length (vr_chr (v6_regs m)) = 8"

lemma mb_set_all_ok:
  assumes "mb_fits sz b" and "length (mb_banks b) = 8" and "length ns \<le> 8"
  shows "returns (mb_set_all b ns) (\<lambda>b'. mb_fits sz b' \<and> length (mb_banks b') = 8)"
proof -
  have "returns (foldl (\<lambda>r (slot, bank). do { b \<leftarrow> r; mb_set b slot bank }) (Some b) (enumerate k ns))
      (\<lambda>b'. mb_fits sz b' \<and> length (mb_banks b') = 8)" if "k + length ns \<le> 8" for k
    using assms(1,2) that
    by (induction ns arbitrary: b k) (simp_all add: mb_set_put)
  from this [of 0] assms(3) show ?thesis by (simp add: mb_set_all_def)
qed

lemma vrc6_set_nametables_eq:
  assumes "length (v6_nt_banks m) = 4" and "length ns = 4"
  shows "vrc6_set_nametables m ns = Some (m\<lparr>v6_nt_banks := ns\<rparr>)"
proof -
  obtain a b c d where ns: "ns = [a, b, c, d]"
    using assms(2) by (auto simp: numeral_eq_Suc length_Suc_conv)
  obtain p q r s where nt: "v6_nt_banks m = [p, q, r, s]"
    using assms(1) by (auto simp: numeral_eq_Suc length_Suc_conv)
  show ?thesis
    unfolding ns by (simp add: vrc6_set_nametables_def vrc6_set_nametable_page_def nt vec_set_def numeral_eq_Suc)
qed

text \<open>The page lists of the modes: the three low bits are always covered.\<close>

lemma low_modes: "v AND 7 \<in> {0, 1, 2, 3, 4, 5, 6, 7 :: u8}"
proof -
  have "unat (v AND 7) < 8" by (rule unat_and_less) simp
  then have "unat (v AND 7) \<in> {0, 1, 2, 3, 4, 5, 6, 7}" by auto
  then show ?thesis by (auto simp: word_unat_eq_iff)
qed

lemma vrc6_pages_length [simp]:
  "length (vrc6_chr_pages r) = 8"
  "returns (vrc6_chr_nametables r) (\<lambda>ns. length ns = 4)"
  "returns (vrc6_ciram_nametables r) (\<lambda>ns. length ns = 4)"
  using low_modes [of "vr_banking_mode r"]
  by (auto simp: vrc6_chr_pages_def vrc6_chr_nametables_def vrc6_ciram_nametables_def Let_def split_beta)

definition vrc6_mirroring_pages :: "mirroring \<Rightarrow> nat list" where
  "vrc6_mirroring_pages mi =
     (case mi of Vertical \<Rightarrow> [0, 1, 0, 1] | Horizontal \<Rightarrow> [0, 0, 1, 1] | SingleScreenA \<Rightarrow> [0, 0, 0, 0]
      | SingleScreenB \<Rightarrow> [1, 1, 1, 1] | FourScreen \<Rightarrow> [0, 1, 2, 3])"

lemma vrc6_set_mirroring_eq:
  "length (v6_nt_banks m) = 4 \<Longrightarrow>
   vrc6_set_mirroring m mi = Some (m\<lparr>v6_mirroring := mi, v6_nt_banks := vrc6_mirroring_pages mi\<rparr>)"
  by (simp add: vrc6_set_mirroring_def vrc6_mirroring_pages_def vrc6_set_nametables_eq Let_def split: mirroring.split)

lemma vrc6_mirroring_pages_length [simp]: "length (vrc6_mirroring_pages mi) = 4"
  by (cases mi) (simp_all add: vrc6_mirroring_pages_def)

lemma vrc6_update_nametables_ok:
  assumes "vrc6_wf bd m"
  shows "returns (vrc6_update_nametables m) (vrc6_wf bd)"
proof -
  have nt: "length (v6_nt_banks m) = 4" using assms by (simp add: vrc6_wf_def)
  have wf: "vrc6_wf bd (m\<lparr>v6_mirroring := mi, v6_nt_banks := ns\<rparr>)" if "length ns = 4" for mi ns
    using assms that by (simp add: vrc6_wf_def)
  have "returns (vrc6_set_nametables (m\<lparr>v6_mirroring := mi, v6_nt_banks := vrc6_mirroring_pages mi\<rparr>) ns)
      (vrc6_wf bd)" if "length ns = 4" for mi ns
    using that by (simp add: vrc6_set_nametables_eq wf)
  then show ?thesis
    by (simp add: vrc6_update_nametables_def Let_def vrc6_set_mirroring_eq nt wf)
      (auto intro: returns_mono [OF vrc6_pages_length(2)] returns_mono [OF vrc6_pages_length(3)])
qed

lemma vrc6_update_chr_banks_ok: "vrc6_wf bd m \<Longrightarrow> returns (vrc6_update_chr_banks m) (vrc6_wf bd)"
  unfolding vrc6_update_chr_banks_def returns_bind
  by (rule returns_mono [OF mb_set_all_ok [where sz = "bd_chr bd"]])
    (auto simp: vrc6_wf_def intro!: vrc6_update_nametables_ok)

lemma vrc6_write_chr_ok: "vrc6_wf bd m \<Longrightarrow> i < 8 \<Longrightarrow> returns (vrc6_write_chr m i v) (vrc6_wf bd)"
  by (auto simp: vrc6_write_chr_def vrc6_wf_def intro!: vrc6_update_chr_banks_ok)

lemma unat_and_3: "unat (a AND 3 :: u16) < 4" "unat (4 + (a AND 3) :: u16) < 8"
proof -
  show *: "unat (a AND 3) < 4" by (rule unat_and_less) simp
  then show "unat (4 + (a AND 3)) < 8" by (simp add: unat_plus_if')
qed

text \<open>The registers of the channels: the low bits select one of the three, so no write to the
  sound chip meets an \<open>unreachable!\<close>.\<close>

lemma three_registers:
  assumes "window_in lo (lo + 2) r" and "lo + 2 < 65536" and "lo mod 4 = 0"
  shows "r AND 3 \<in> {0, 1, 2}"
proof -
  have "unat (r AND 3) = unat r mod 4"
    using nat_and_mask [of "unat r" 2] by (simp add: unsigned_and_eq)
  moreover have "unat r = lo \<or> unat r = lo + 1 \<or> unat r = lo + 2"
    using assms(1) by (auto simp: window_in_def)
  ultimately have "unat (r AND 3) = 0 \<or> unat (r AND 3) = 1 \<or> unat (r AND 3) = 2"
    using assms(3) by presburger
  then show ?thesis by (auto simp: word_unat_eq_iff)
qed

lemma and_F003: "(addr AND 0xF003) AND 3 = addr AND (3 :: u16)"
  by (rule u16_eqI) (simp_all add: bit_simps)

lemma vrc6_channel_writes:
  "addr AND 3 \<in> {0, 1, 2} \<Longrightarrow> vrc6_pulse_write_register p addr v \<noteq> None"
  "addr AND 3 \<in> {0, 1, 2} \<Longrightarrow> vrc6_saw_write_register w addr v \<noteq> None"
  by (auto simp: vrc6_pulse_write_register_def vrc6_saw_write_register_def Let_def)

lemma vrc6_audio_write_ok:
  assumes "window_in 0x9000 0x9003 (addr AND 0xF003) \<or> window_in 0xA000 0xA002 (addr AND 0xF003)
    \<or> window_in 0xB000 0xB002 (addr AND 0xF003)"
  shows "\<exists>a'. vrc6_audio_write_register a addr v = Some a'"
proof -
  have sel: "addr AND 3 \<in> {0, 1, 2}" if "window_in lo (lo + 2) (addr AND 0xF003)" "lo \<in> {0x9000, 0xA000, 0xB000}" for lo
    using three_registers [OF that(1)] that(2) by (auto simp: and_F003)
  have "window_in 0x9000 0x9003 r \<longleftrightarrow> window_in 0x9000 0x9002 r \<or> r = 0x9003" for r
    by (auto simp: window_in_def word_unat_eq_iff)
  then consider "window_in 0x9000 0x9002 (addr AND 0xF003)" | "addr AND 0xF003 = 0x9003"
    | "window_in 0xA000 0xA002 (addr AND 0xF003)" | "window_in 0xB000 0xB002 (addr AND 0xF003)"
    using assms by blast
  then show ?thesis
    using sel [of "0x9000"] sel [of "0xA000"] sel [of "0xB000"]
    by cases (use vrc6_channel_writes in \<open>auto simp: vrc6_audio_write_register_def Let_def window_in_def\<close>)
qed

lemma vrc6_write_register_ok:
  assumes "vrc6_wf bd m"
  shows "returns (vrc6_write_register m addr v) (vrc6_wf bd)"
proof -
  have audio: "vrc6_wf bd (m\<lparr>v6_audio := a\<rparr>)" "vrc6_wf bd (m\<lparr>v6_irq := q\<rparr>)" for a q
    using assms by (simp_all add: vrc6_wf_def)
  have mode: "returns (vrc6_update_chr_banks (m\<lparr>v6_regs := (v6_regs m)\<lparr>vr_banking_mode := x\<rparr>\<rparr>)) (vrc6_wf bd)" for x
    by (rule vrc6_update_chr_banks_ok) (use assms in \<open>simp add: vrc6_wf_def\<close>)
  have prg: "returns (mb_set_range (v6_prg_rom_banks m) 0 1 n) (\<lambda>b. vrc6_wf bd (m\<lparr>v6_prg_rom_banks := b\<rparr>))"
    if "even n" for n
    using assms that by (auto simp: vrc6_wf_def mb_set_range_put mb_fits_pair)
  have set2: "returns (mb_set (v6_prg_rom_banks m) 2 n) (\<lambda>b. vrc6_wf bd (m\<lparr>v6_prg_rom_banks := b\<rparr>))" for n
    using assms by (auto simp: vrc6_wf_def mb_set_put)
  have ev: "even (unat (v * 2 AND 30))" by (simp add: unsigned_and_eq even_and_iff)
  have aud: "returns (vrc6_audio_write_register (v6_audio m) addr v) (\<lambda>a. vrc6_wf bd (m\<lparr>v6_audio := a\<rparr>))"
    if "window_in 0x9000 0x9003 (addr AND 0xF003) \<or> window_in 0xA000 0xA002 (addr AND 0xF003)
      \<or> window_in 0xB000 0xB002 (addr AND 0xF003)"
    using vrc6_audio_write_ok [OF that, of "v6_audio m" v] audio by auto
  show ?thesis
    using unat_and_3 [of addr] prg [OF ev] set2 aud
    by (simp add: vrc6_write_register_def Let_def audio mode vrc6_write_chr_ok [OF assms] assms)
qed

lemma vrc6_peek_in: "vrc6_wf bd m \<Longrightarrow> returns (vrc6_map_peek m a) (read_in bd)"
  by (simp add: vrc6_map_peek_def vrc6_wf_def mb_fits_translate Let_def)

interpretation vrc6: mem_map vrc6_wf vrc6_map_peek "map_read_default vrc6_map_peek" vrc6_map_write
proof
  fix bd m a and v :: u8
  assume wf: "vrc6_wf bd m"
  then have "returns (mb_translate (v6_prg_ram_banks m) a) (\<lambda>i. i < bd_prg_ram bd)"
    by (simp add: vrc6_wf_def mb_fits_translate)
  then show "returns (vrc6_map_write m a v) (\<lambda>(w, m'). write_in bd w \<and> vrc6_wf bd m')"
    using vrc6_write_register_ok [OF wf] wf by (simp add: vrc6_map_write_def)
qed (simp_all add: vrc6_peek_in returns_read_default)

lemma vrc6_wf_clock [simp]: "vrc6_wf bd (vrc6_clock m) = vrc6_wf bd m"
  and vrc6_wf_reset [simp]: "vrc6_wf bd (vrc6_reset m k) = vrc6_wf bd m"
  by (simp_all add: vrc6_wf_def vrc6_clock_def vrc6_reset_def)

lemma vrc6_load_board:
  assumes ok: "board_ok c" and ram: "cart_prg_ram c = [] \<or> 0x2000 \<le> length (cart_prg_ram c)"
  shows "returns (vrc6_load rng revision c) (\<lambda>(m, c'). vrc6_wf (board_of c') m)"
proof -
  obtain j k where j: "length (cart_prg_rom c) = 0x8000 * 2 ^ j"
    and k: "length (cart_chr_rom c) = 0x2000 * 2 ^ k"
    using ok by (auto simp: board_ok_def)
  define c1 where "c1 = (if \<not> cart_has_prg_ram c then cart_add_prg_ram rng (8 * 1024) c else c)"
  have c1: "cart_prg_rom c1 = cart_prg_rom c" "cart_chr_rom c1 = cart_chr_rom c" "0x2000 \<le> length (cart_prg_ram c1)"
    using ram by (auto simp: c1_def cart_has_prg_ram_def)
  have chr: "cart_chr_len c1 = length (cart_chr_rom c)"
    using k c1(2) by (auto simp: cart_chr_len_def)
  let ?p = "mb_new 0x8000 0xFFFF (length (cart_prg_rom c)) (8 * 1024)"
  have "mb_fits (length (cart_chr_rom c)) (mb_new 0 0x1FFF (length (cart_chr_rom c)) 1024)"
    by (rule mb_fits_new [where k = 10]) (simp_all add: k)
  moreover have p: "mb_fits (length (cart_prg_rom c)) ?p"
    by (rule mb_fits_new [where k = 13]) (simp_all add: j)
  moreover have "even (mb_page_count ?p)"
    by (rule mb_new_even [where c = "0x8000" and j = j]) (simp_all add: j)
  moreover have "mb_fits (length (cart_prg_ram c1)) (mb_new 0x6000 0x7FFF (length (cart_prg_ram c1)) (8 * 1024))"
    by (rule mb_fits_new [where k = 13]) (simp_all add: c1(3))
  moreover have "length (mb_banks ?p) = 4" by simp
  ultimately show ?thesis
    unfolding vrc6_load_def Let_def c1_def [symmetric]
    by (simp add: mb_set_put vrc6_wf_def board_of_def c1 chr vrc6_regs_default_def del: mb_new_simps)
       (simp add: mb_new_simps)
qed

end
