(* ===== verification/CpuRates.thy ===== *)
theory CpuRates
  imports Common
begin

text \<open>
  The clock rates of \<open>src/cpu.rs\<close>, as the other chips use them. They are \<open>f32\<close> constants; the
  model has the exact value and rounds it where the source does.
\<close>

section \<open>Clock rates of the CPU (\<open>src/cpu.rs\<close>)\<close>

text \<open>
  The \<open>f32\<close> nearest to a rational, for values whose last place is \<open>2 powi - k\<close>. The constants
  lie between 2 to the 20 and 2 to the 21 (three fractional bits); a tenth of the NTSC rate lies between 2 to
  the 17 and 2 to the 18 (six fractional bits). The master clock rates are even integers below
  2 to the 25: exact.
\<close>

definition f32_nearest :: "nat \<Rightarrow> rat \<Rightarrow> rat" where
  "f32_nearest k x = of_int (round (x * 2 ^ k)) / 2 ^ k"

definition NTSC_MASTER_CLOCK_RATE :: rat where "NTSC_MASTER_CLOCK_RATE = 21477272"
definition NTSC_CPU_CLOCK_RATE :: rat where
  "NTSC_CPU_CLOCK_RATE = f32_nearest 3 (NTSC_MASTER_CLOCK_RATE / 12)"
definition PAL_MASTER_CLOCK_RATE :: rat where "PAL_MASTER_CLOCK_RATE = 26601712"
definition PAL_CPU_CLOCK_RATE :: rat where
  "PAL_CPU_CLOCK_RATE = f32_nearest 3 (PAL_MASTER_CLOCK_RATE / 16)"
definition DENDY_CPU_CLOCK_RATE :: rat where
  "DENDY_CPU_CLOCK_RATE = f32_nearest 3 (PAL_MASTER_CLOCK_RATE / 15)"

fun region_clock_rate :: "nes_region \<Rightarrow> rat" where
  "region_clock_rate Ntsc = NTSC_CPU_CLOCK_RATE"
| "region_clock_rate Pal = PAL_CPU_CLOCK_RATE"
| "region_clock_rate Dendy = DENDY_CPU_CLOCK_RATE"

end
