(* ===== verification/MapperExrom.thy ===== *)
theory MapperExrom
  imports MapperDiscrete ApuPulse ApuDmc CpuRates
begin

text \<open>
  \<open>src/mapper/m005_exrom.rs\<close>: the MMC5 board. It watches the PPU's fetches to count scanlines,
  keeps a kilobyte of RAM that can serve as a nametable, and has two pulse channels and a PCM
  channel of its own. The fields have the order of the source; an array is a list of its length.
  The board is outside the interface \<open>mem_map\<close>: its bank numbers and its extended attributes can
  name pages past the end of a memory. What holds of it is in \<open>MapperProps\<close> and \<open>ExromProps\<close>.
\<close>

section \<open>Registers\<close>

datatype prg_mode = PrgBank32k | PrgBank16k | PrgBank16_8k | PrgBank8k
datatype chr_mode = ChrBank8k | ChrBank4k | ChrBank2k | ChrBank1k
datatype chr_bank = SprBank | BgBank

text \<open>The three values of the bit set \<open>ExRamRW\<close> that the source uses.\<close>

datatype exram_rw = ExW | ExR | ExRW

record exram_mode =
  em_bits :: u8
  em_nametable :: bool
  em_attr :: bool
  em_rw :: exram_rw

definition exram_mode_new :: exram_mode where
  "exram_mode_new = \<lparr>em_bits = 0x00, em_nametable = False, em_attr = False, em_rw = ExW\<rparr>"

definition exram_mode_set :: "exram_mode \<Rightarrow> u8 \<Rightarrow> exram_mode" where
  "exram_mode_set e val =
     (let val = val AND 0x03
      in e\<lparr>em_bits := val, em_nametable := (val = 0 \<or> val = 1), em_attr := (val = 1),
           em_rw := (if val = 0 \<or> val = 1 then ExW else if val = 2 then ExRW else ExR)\<rparr>)"

datatype nametable = ScreenA | ScreenB | NtExRam | NtFill

record nametable_mapping =
  nm_mode :: u8
  nm_select :: "nametable list"

definition nametable_mapping_new :: nametable_mapping where
  "nametable_mapping_new = \<lparr>nm_mode = 0x00, nm_select = replicate 4 ScreenA\<rparr>"

definition nametable_of :: "u8 \<Rightarrow> nametable" where
  "nametable_of val =
     (let v = val AND 0x03 in if v = 0 then ScreenA else if v = 1 then ScreenB else if v = 2 then NtExRam else NtFill)"

definition nametable_mapping_set :: "nametable_mapping \<Rightarrow> u8 \<Rightarrow> nametable_mapping" where
  "nametable_mapping_set n val =
     n\<lparr>nm_mode := val,
       nm_select := [nametable_of val, nametable_of (drop_bit 2 val), nametable_of (drop_bit 4 val),
                     nametable_of (drop_bit 6 val)]\<rparr>"

record fill =
  fl_tile :: u8
  fl_attr :: nat

definition fill_new :: fill where
  "fill_new = \<lparr>fl_tile = 0xFF, fl_attr = 0x03\<rparr>"

datatype side = LeftSide | RightSide

record vsplit =
  sp_mode :: u8
  sp_enabled :: bool
  sp_side :: side
  sp_tile :: u8
  sp_scroll :: u8
  sp_bank :: u8
  sp_in_region :: bool

definition vsplit_new :: vsplit where
  "vsplit_new =
     \<lparr>sp_mode = 0x00, sp_enabled = False, sp_side = LeftSide, sp_tile = 0x00, sp_scroll = 0x00,
      sp_bank = 0x00, sp_in_region = False\<rparr>"

record exrom_regs =
  er_prg_mode :: prg_mode
  er_chr_mode :: chr_mode
  er_prg_ram_protect :: "u8 list"
  er_exram_mode :: exram_mode
  er_nametable_mapping :: nametable_mapping
  er_fill :: fill
  er_prg_banks :: "nat list"
  er_chr_banks :: "nat list"
  er_chr_hi :: nat
  er_vsplit :: vsplit
  er_irq_scanline :: u16
  er_irq_enabled :: bool
  er_multiplicand :: u8
  er_multiplier :: u8
  er_mult_result :: u16

definition ex_regs_new :: exrom_regs where
  "ex_regs_new =
     \<lparr>er_prg_mode = PrgBank8k, er_chr_mode = ChrBank1k, er_prg_ram_protect = [0x00, 0x00],
      er_exram_mode = exram_mode_new, er_nametable_mapping = nametable_mapping_new, er_fill = fill_new,
      er_prg_banks = replicate 5 0x00, er_chr_banks = replicate 16 0x00, er_chr_hi = 0x00,
      er_vsplit = vsplit_new, er_irq_scanline = 0x00, er_irq_enabled = False, er_multiplicand = 0xFF,
      er_multiplier = 0xFF, er_mult_result = 0xFE01\<rparr>"

record exrom_ppu_status =
  es_fetch_count :: u32
  es_prev_addr :: u16
  es_prev_match :: u8
  es_reading :: bool
  es_idle :: u8
  es_sprite8x16 :: bool
  es_rendering :: bool
  es_scanline :: u16
  es_in_frame :: bool

definition ex_ppu_status_write :: "exrom_ppu_status \<Rightarrow> u16 \<Rightarrow> u8 \<Rightarrow> exrom_ppu_status" where
  "ex_ppu_status_write s addr val =
     (if addr = 0x2000 then s\<lparr>es_sprite8x16 := (val AND 0x20 > 0)\<rparr>
      else if addr = 0x2001 then
        (let s = s\<lparr>es_rendering := (val AND 0x18 > 0)\<rparr>
         in if \<not> es_rendering s then s\<lparr>es_in_frame := False, es_prev_addr := 0x0000\<rparr> else s)
      else s)"

section \<open>The board\<close>

record exrom =
  ex_regs :: exrom_regs
  ex_mirroring :: mirroring
  ex_irq_pending :: bool
  ex_ppu_status :: exrom_ppu_status
  ex_exram :: "u8 list"
  ex_prg_ram_banks :: mem_banks
  ex_prg_rom_banks :: mem_banks
  ex_chr_banks :: mem_banks
  ex_tile_cache :: nat
  ex_last_chr_write :: chr_bank
  ex_region :: nes_region
  ex_pulse1 :: pulse
  ex_pulse2 :: pulse
  ex_dmc :: dmc
  ex_dmc_mode :: u8
  ex_cpu_cycle :: usize
  ex_pulse_timer :: rat

definition EX_PRG_RAM_SIZE :: nat where "EX_PRG_RAM_SIZE = 0x10000"
definition EXRAM_SIZE :: nat where "EXRAM_SIZE = 0x0400"
definition ROM_SELECT_MASK :: nat where "ROM_SELECT_MASK = 0x80"
definition BANK_MASK :: nat where "BANK_MASK = 0x7F"
definition EX_SPR_FETCH_START :: u32 where "EX_SPR_FETCH_START = 64"
definition EX_SPR_FETCH_END :: u32 where "EX_SPR_FETCH_END = 81"
definition ATTR_MIRROR :: "u8 list" where "ATTR_MIRROR = [0x00, 0x55, 0xAA, 0xFF]"

definition ex_set_prg_bank_range :: "exrom \<Rightarrow> nat \<Rightarrow> nat \<Rightarrow> nat \<Rightarrow> exrom option" where
  "ex_set_prg_bank_range m start en bank =
     (let rom = (bank AND ROM_SELECT_MASK = ROM_SELECT_MASK); bank = bank AND BANK_MASK
      in if rom then
           do { b \<leftarrow> mb_set_range (ex_prg_rom_banks m) start en bank; Some (m\<lparr>ex_prg_rom_banks := b\<rparr>) }
         else
           do { b \<leftarrow> mb_set_range (ex_prg_ram_banks m) (start + 1) (en + 1) bank;
                Some (m\<lparr>ex_prg_ram_banks := b\<rparr>) })"

definition ex_update_prg_banks :: "exrom \<Rightarrow> exrom option" where
  "ex_update_prg_banks m =
     (let bank = (\<lambda>i. er_prg_banks (ex_regs m) ! i)
      in do { b \<leftarrow> mb_set (ex_prg_ram_banks m) 0 (bank 0);
              let m = m\<lparr>ex_prg_ram_banks := b\<rparr>;
              case er_prg_mode (ex_regs m) of
                PrgBank32k \<Rightarrow>
                  do { b \<leftarrow> mb_set_range (ex_prg_rom_banks m) 0 3 (bank 4); Some (m\<lparr>ex_prg_rom_banks := b\<rparr>) }
              | PrgBank16k \<Rightarrow>
                  do { m \<leftarrow> ex_set_prg_bank_range m 0 1 (bank 2);
                       b \<leftarrow> mb_set_range (ex_prg_rom_banks m) 2 3 (bank 4 AND BANK_MASK);
                       Some (m\<lparr>ex_prg_rom_banks := b\<rparr>) }
              | PrgBank16_8k \<Rightarrow>
                  do { m \<leftarrow> ex_set_prg_bank_range m 0 1 (bank 2);
                       m \<leftarrow> ex_set_prg_bank_range m 2 2 (bank 3);
                       b \<leftarrow> mb_set (ex_prg_rom_banks m) 3 (bank 4 AND BANK_MASK);
                       Some (m\<lparr>ex_prg_rom_banks := b\<rparr>) }
              | PrgBank8k \<Rightarrow>
                  do { m \<leftarrow> ex_set_prg_bank_range m 0 0 (bank 1);
                       m \<leftarrow> ex_set_prg_bank_range m 1 1 (bank 2);
                       m \<leftarrow> ex_set_prg_bank_range m 2 2 (bank 3);
                       b \<leftarrow> mb_set (ex_prg_rom_banks m) 3 (bank 4 AND BANK_MASK);
                       Some (m\<lparr>ex_prg_rom_banks := b\<rparr>) } })"

text \<open>The match on address and mode: windows $8000, $A000, $C000.\<close>

definition ex_rom_select :: "exrom \<Rightarrow> u16 \<Rightarrow> bool" where
  "ex_rom_select m addr =
     (let mode = er_prg_mode (ex_regs m); bank = (\<lambda>i. er_prg_banks (ex_regs m) ! i)
      in if window_in 0x6000 0x7FFF addr then False
         else if window_in 0xE000 0xFFFF addr \<or> mode = PrgBank32k then True
         else
           let b = (if window_in 0x8000 0x9FFF addr \<and> mode = PrgBank8k then bank 1
                    else if window_in 0x8000 0xBFFF addr \<and> (mode = PrgBank16k \<or> mode = PrgBank16_8k)
                            \<or> window_in 0xA000 0xBFFF addr \<and> mode = PrgBank8k then bank 2
                    else if window_in 0xC000 0xDFFF addr \<and> (mode = PrgBank8k \<or> mode = PrgBank16_8k) then bank 3
                    else if window_in 0xC000 0xDFFF addr \<and> mode = PrgBank16k then bank 4
                    else 0x00)
           in b AND ROM_SELECT_MASK = ROM_SELECT_MASK)"

definition ex_update_chr_banks :: "exrom \<Rightarrow> chr_bank \<Rightarrow> exrom option" where
  "ex_update_chr_banks m which =
     (let hi = er_chr_hi (ex_regs m);
          banks = (case which of SprBank \<Rightarrow> take 8 (er_chr_banks (ex_regs m))
                   | BgBank \<Rightarrow> take 8 (drop 8 (er_chr_banks (ex_regs m))));
          page = (\<lambda>i s. hi OR push_bit s (banks ! i)); b = ex_chr_banks m
      in do { b \<leftarrow> (case er_chr_mode (ex_regs m) of
                      ChrBank8k \<Rightarrow> mb_set_range b 0 7 (page 7 3)
                    | ChrBank4k \<Rightarrow> do { b \<leftarrow> mb_set_range b 0 3 (page 3 2); mb_set_range b 4 7 (page 7 2) }
                    | ChrBank2k \<Rightarrow>
                        do { b \<leftarrow> mb_set_range b 0 1 (page 1 1);
                             b \<leftarrow> mb_set_range b 2 3 (page 3 1);
                             b \<leftarrow> mb_set_range b 4 5 (page 5 1);
                             mb_set_range b 6 7 (page 7 1) }
                    | ChrBank1k \<Rightarrow>
                        do { b \<leftarrow> mb_set b 0 (page 0 0); b \<leftarrow> mb_set b 1 (page 1 0);
                             b \<leftarrow> mb_set b 2 (page 2 0); b \<leftarrow> mb_set b 3 (page 3 0);
                             b \<leftarrow> mb_set b 4 (page 4 0); b \<leftarrow> mb_set b 5 (page 5 0);
                             b \<leftarrow> mb_set b 6 (page 6 0); mb_set b 7 (page 7 0) });
              Some (m\<lparr>ex_chr_banks := b\<rparr>) })"

definition exrom_load :: "(nat \<Rightarrow> nat \<Rightarrow> u8) \<Rightarrow> cart \<Rightarrow> (exrom \<times> cart) option" where
  "exrom_load rng c =
     (let c = cart_add_prg_ram rng EX_PRG_RAM_SIZE c;
          prg_rom_banks = mb_new 0x8000 0xFFFF (length (cart_prg_rom c)) 0x2000;
          m = \<lparr>ex_regs = ex_regs_new, ex_mirroring = cart_mirroring c, ex_irq_pending = False,
               ex_ppu_status = \<lparr>es_fetch_count = 0x00, es_prev_addr = 0xFFFF, es_prev_match = 0,
                 es_reading = False, es_idle = 0x00, es_sprite8x16 = False, es_rendering = False,
                 es_scanline = 0x0000, es_in_frame = False\<rparr>,
               ex_exram = replicate EXRAM_SIZE 0x00,
               ex_prg_ram_banks = mb_new 0x6000 0xFFFF (length (cart_prg_ram c)) 0x2000,
               ex_prg_rom_banks = prg_rom_banks,
               ex_chr_banks = mb_new 0x0000 0x1FFF (length (cart_chr_rom c)) 0x0400,
               ex_tile_cache = 0, ex_last_chr_write = SprBank, ex_region = Ntsc,
               ex_pulse1 = pl_new PulseOne Ultrasonic, ex_pulse2 = pl_new PulseTwo Ultrasonic,
               ex_dmc = dmc_new, ex_dmc_mode = 0x01, ex_cpu_cycle = 0, ex_pulse_timer = 0\<rparr>
      in do { banks \<leftarrow> vec_set (er_prg_banks (ex_regs m)) 4 (mb_last prg_rom_banks OR ROM_SELECT_MASK);
              m \<leftarrow> ex_update_prg_banks (m\<lparr>ex_regs := (ex_regs m)\<lparr>er_prg_banks := banks\<rparr>\<rparr>);
              Some (m, c) })"

definition ex_read_exram :: "exrom \<Rightarrow> u16 \<Rightarrow> u8 option" where
  "ex_read_exram m addr = vec_get (ex_exram m) (unat (addr AND 0x03FF))"

definition ex_write_exram :: "exrom \<Rightarrow> u16 \<Rightarrow> u8 \<Rightarrow> exrom option" where
  "ex_write_exram m addr val =
     do { exram \<leftarrow> vec_set (ex_exram m) (unat (addr AND 0x03FF)) val; Some (m\<lparr>ex_exram := exram\<rparr>) }"

definition ex_inc_fetch_count :: "exrom \<Rightarrow> exrom" where
  "ex_inc_fetch_count m =
     m\<lparr>ex_ppu_status := (ex_ppu_status m)\<lparr>es_fetch_count := es_fetch_count (ex_ppu_status m) + 1\<rparr>\<rparr>"

definition ex_spr_fetch :: "exrom \<Rightarrow> bool" where
  "ex_spr_fetch m \<longleftrightarrow>
     EX_SPR_FETCH_START \<le> es_fetch_count (ex_ppu_status m) \<and> es_fetch_count (ex_ppu_status m) < EX_SPR_FETCH_END"

definition ex_nametable_select :: "exrom \<Rightarrow> u16 \<Rightarrow> nametable" where
  "ex_nametable_select m addr =
     nm_select (er_nametable_mapping (ex_regs m)) ! unat (drop_bit 10 addr AND 0x03)"

definition exrom_irq_pending :: "exrom \<Rightarrow> bool" where
  "exrom_irq_pending m \<longleftrightarrow> er_irq_enabled (ex_regs m) \<and> ex_irq_pending m"

definition exrom_cpu_bus_write :: "exrom \<Rightarrow> u16 \<Rightarrow> u8 \<Rightarrow> exrom" where
  "exrom_cpu_bus_write m addr val = m\<lparr>ex_ppu_status := ex_ppu_status_write (ex_ppu_status m) addr val\<rparr>"

definition exrom_region :: "exrom \<Rightarrow> nes_region" where
  "exrom_region m = dmc_region (ex_dmc m)"

definition exrom_set_region :: "exrom \<Rightarrow> nes_region \<Rightarrow> exrom" where
  "exrom_set_region m region = m\<lparr>ex_dmc := dmc_set_region (ex_dmc m) region\<rparr>"

section \<open>Reading\<close>

text \<open>The arms of \<open>map_peek\<close> for the pattern tables and the nametables; \<open>None\<close> for the \<open>todo!()\<close>.\<close>

definition ex_peek_chr :: "exrom \<Rightarrow> u16 \<Rightarrow> mapped_read option" where
  "ex_peek_chr m addr =
     (if em_attr (er_exram_mode (ex_regs m)) \<and> \<not> ex_spr_fetch m then
        do { let bank_hi = push_bit 10 (er_chr_hi (ex_regs m));
             tile \<leftarrow> vec_get (ex_exram m) (ex_tile_cache m);
             let bank_lo = push_bit 12 (unat (tile AND 0x3F));
             Some (ChrR (bank_hi OR bank_lo OR (unat addr AND 0x0FFF))) }
      else map_option ChrR (mb_translate (ex_chr_banks m) addr))"

definition ex_peek_nametable :: "exrom \<Rightarrow> u16 \<Rightarrow> mapped_read option" where
  "ex_peek_nametable m addr =
     (let is_attr = addr_is_attr addr; r = ex_regs m; nametable_mode = em_nametable (er_exram_mode r)
      in if sp_in_region (er_vsplit r) then
           (if is_attr then None else map_option DataR (ex_read_exram m (ucast (sp_tile (er_vsplit r)))))
         else if em_attr (er_exram_mode r) \<and> is_attr \<and> \<not> ex_spr_fetch m then
           do { tile \<leftarrow> vec_get (ex_exram m) (ex_tile_cache m);
                attr \<leftarrow> vec_get ATTR_MIRROR (unat (drop_bit 6 tile AND 0x03));
                Some (DataR attr) }
         else case ex_nametable_select m addr of
                ScreenA \<Rightarrow> Some (CIRamR (unat (addr AND 0x03FF)))
              | ScreenB \<Rightarrow> Some (CIRamR (unat (0x0400 OR (addr AND 0x03FF))))
              | NtExRam \<Rightarrow>
                  if nametable_mode then map_option DataR (ex_read_exram m addr) else Some (DataR 0x00)
              | NtFill \<Rightarrow>
                  if nametable_mode then
                    (if is_attr then map_option DataR (vec_get ATTR_MIRROR (fl_attr (er_fill r)))
                     else Some (DataR (fl_tile (er_fill r))))
                  else Some (DataR 0x00))"

definition bool_u8 :: "bool \<Rightarrow> u8" where
  "bool_u8 b = (if b then 1 else 0)"

definition prg_mode_index :: "prg_mode \<Rightarrow> u8" where
  "prg_mode_index mode =
     (case mode of PrgBank32k \<Rightarrow> 0 | PrgBank16k \<Rightarrow> 1 | PrgBank16_8k \<Rightarrow> 2 | PrgBank8k \<Rightarrow> 3)"

definition chr_mode_index :: "chr_mode \<Rightarrow> u8" where
  "chr_mode_index mode =
     (case mode of ChrBank8k \<Rightarrow> 0 | ChrBank4k \<Rightarrow> 1 | ChrBank2k \<Rightarrow> 2 | ChrBank1k \<Rightarrow> 3)"

text \<open>The registers from $5010 to $5209; \<open>None\<close> for an address without a register.\<close>

definition ex_peek_register :: "exrom \<Rightarrow> u16 \<Rightarrow> u8 option" where
  "ex_peek_register m addr =
     (let r = ex_regs m; d = ex_dmc m
      in if addr = 0x5010 then
           (let irq = dmc_irq_pending d \<and> dmc_irq_enabled d in Some (push_bit 7 (bool_u8 irq) OR ex_dmc_mode m))
         else if addr = 0x5100 then Some (prg_mode_index (er_prg_mode r))
         else if addr = 0x5101 then Some (chr_mode_index (er_chr_mode r))
         else if addr = 0x5104 then Some (em_bits (er_exram_mode r))
         else if addr = 0x5105 then Some (nm_mode (er_nametable_mapping r))
         else if addr = 0x5106 then Some (fl_tile (er_fill r))
         else if addr = 0x5107 then Some (of_nat (fl_attr (er_fill r)))
         else if addr = 0x5015 then
           (let status = 0x00;
                status = (if pl_length_counter (ex_pulse1 m) > 0 then status OR 0x01 else status);
                status = (if pl_length_counter (ex_pulse2 m) > 0 then status OR 0x02 else status)
            in Some status)
         else if window_in 0x5113 0x5117 addr then Some (of_nat (er_prg_banks r ! (unat addr - 0x5113)))
         else if window_in 0x5120 0x512B addr then Some (of_nat (er_chr_banks r ! (unat addr - 0x5120)))
         else if addr = 0x5130 then Some (of_nat (er_chr_hi r))
         else if addr = 0x5200 then Some (sp_mode (er_vsplit r))
         else if addr = 0x5201 then Some (sp_scroll (er_vsplit r))
         else if addr = 0x5202 then Some (sp_bank (er_vsplit r))
         else if addr = 0x5203 then Some (ucast (er_irq_scanline r))
         else if addr = 0x5204 then
           Some (push_bit 7 (bool_u8 (ex_irq_pending m)) OR push_bit 6 (bool_u8 (es_in_frame (ex_ppu_status m))))
         else if addr = 0x5205 then Some (ucast (er_mult_result r AND 0xFF))
         else if addr = 0x5206 then Some (ucast (drop_bit 8 (er_mult_result r) AND 0xFF))
         else if window_in 0x5207 0x5209 addr then Some 0
         else None)"

definition exrom_map_peek :: "exrom \<Rightarrow> u16 \<Rightarrow> mapped_read option" where
  "exrom_map_peek m addr =
     (if window_in 0x0000 0x1FFF addr then ex_peek_chr m addr
      else if window_in 0x2000 0x3EFF addr then ex_peek_nametable m addr
      else case ex_peek_register m addr of
             Some v \<Rightarrow> Some (DataR v)
           | None \<Rightarrow>
               if window_in 0x5C00 0x5FFF addr
                  \<and> (em_rw (er_exram_mode (ex_regs m)) = ExR \<or> em_rw (er_exram_mode (ex_regs m)) = ExRW)
               then map_option DataR (ex_read_exram m addr)
               else if window_in 0x6000 0xDFFF addr then
                 (if ex_rom_select m addr then map_option PrgRomR (mb_translate (ex_prg_rom_banks m) addr)
                  else map_option PrgRamR (mb_translate (ex_prg_ram_banks m) addr))
               else if window_in 0xE000 0xFFFF addr then map_option PrgRomR (mb_translate (ex_prg_rom_banks m) addr)
               else Some NoRead)"

text \<open>The scanline detector: the same nametable address fetched three times in a row.\<close>

definition ex_detect_scanline :: "exrom \<Rightarrow> u16 \<Rightarrow> bool \<Rightarrow> exrom" where
  "ex_detect_scanline m addr is_attr =
     (let s = ex_ppu_status m;
          m = (if \<not> is_attr \<and> addr = es_prev_addr s then
                 let s = s\<lparr>es_prev_match := es_prev_match s + 1\<rparr>;
                     m = m\<lparr>ex_ppu_status := s\<rparr>
                 in if es_prev_match s = 2 then
                      let m = (if es_in_frame s then
                                 let s = s\<lparr>es_scanline := es_scanline s + 1\<rparr>;
                                     m = m\<lparr>ex_ppu_status := s\<rparr>
                                 in if es_scanline s = er_irq_scanline (ex_regs m) then m\<lparr>ex_irq_pending := True\<rparr> else m
                               else m\<lparr>ex_ppu_status := s\<lparr>es_in_frame := True, es_scanline := 0\<rparr>\<rparr>)
                      in m\<lparr>ex_ppu_status := (ex_ppu_status m)\<lparr>es_fetch_count := 0\<rparr>\<rparr>
                    else m
               else m\<lparr>ex_ppu_status := s\<lparr>es_prev_match := 0\<rparr>\<rparr>)
      in m\<lparr>ex_ppu_status := (ex_ppu_status m)\<lparr>es_prev_addr := addr, es_reading := True\<rparr>\<rparr>)"

text \<open>What a read does before the value is taken.\<close>

definition ex_before_read :: "exrom \<Rightarrow> u16 \<Rightarrow> exrom option" where
  "ex_before_read m addr =
     (if window_in 0x0000 0x1FFF addr then
        let m = ex_inc_fetch_count m
        in if es_sprite8x16 (ex_ppu_status m) then
             (if es_fetch_count (ex_ppu_status m) = EX_SPR_FETCH_START then ex_update_chr_banks m SprBank
              else if es_fetch_count (ex_ppu_status m) = EX_SPR_FETCH_END then ex_update_chr_banks m BgBank
              else Some m)
           else Some m
      else if window_in 0x2000 0x3EFF addr then
        let is_attr = addr_is_attr addr;
            m = (if em_attr (er_exram_mode (ex_regs m)) \<and> \<not> is_attr \<and> \<not> ex_spr_fetch m
                 then m\<lparr>ex_tile_cache := unat (addr AND 0x03FF)\<rparr> else m)
        in Some (ex_detect_scanline m addr is_attr)
      else if addr = 0xFFFA \<or> addr = 0xFFFB then
        Some (m\<lparr>ex_ppu_status := (ex_ppu_status m)\<lparr>es_in_frame := False, es_prev_addr := 0x0000\<rparr>\<rparr>)
      else Some m)"

definition exrom_map_read :: "exrom \<Rightarrow> u16 \<Rightarrow> (mapped_read \<times> exrom) option" where
  "exrom_map_read m addr =
     do { m \<leftarrow> ex_before_read m addr;
          val \<leftarrow> exrom_map_peek m addr;
          let m = (if addr = 0x5204 then m\<lparr>ex_irq_pending := False\<rparr>
                   else if addr = 0x5010 then m\<lparr>ex_dmc := dmc_acknowledge_irq (ex_dmc m)\<rparr>
                   else m);
          Some (val, m) }"

section \<open>Writing\<close>

definition ex_on_regs :: "(exrom_regs \<Rightarrow> exrom_regs) \<Rightarrow> exrom \<Rightarrow> exrom" where
  "ex_on_regs f m = m\<lparr>ex_regs := f (ex_regs m)\<rparr>"

text \<open>The sound registers; \<open>None\<close> for another address.\<close>

definition ex_write_sound :: "exrom \<Rightarrow> u16 \<Rightarrow> u8 \<Rightarrow> exrom option" where
  "ex_write_sound m addr val =
     (if addr = 0x5000 then Some (m\<lparr>ex_pulse1 := pl_write_ctrl (ex_pulse1 m) val\<rparr>)
      else if addr = 0x5002 then Some (m\<lparr>ex_pulse1 := pl_write_timer_lo (ex_pulse1 m) val\<rparr>)
      else if addr = 0x5003 then Some (m\<lparr>ex_pulse1 := pl_write_timer_hi (ex_pulse1 m) val\<rparr>)
      else if addr = 0x5004 then Some (m\<lparr>ex_pulse2 := pl_write_ctrl (ex_pulse2 m) val\<rparr>)
      else if addr = 0x5006 then Some (m\<lparr>ex_pulse2 := pl_write_timer_lo (ex_pulse2 m) val\<rparr>)
      else if addr = 0x5007 then Some (m\<lparr>ex_pulse2 := pl_write_timer_hi (ex_pulse2 m) val\<rparr>)
      else if addr = 0x5010 then
        (let m = m\<lparr>ex_dmc_mode := val AND 0x01\<rparr>
         in Some (m\<lparr>ex_dmc := dmc_set_enabled (ex_dmc m) (val AND 0x80 = 0x80) (ex_cpu_cycle m)\<rparr>))
      else if addr = 0x5011 then
        Some (if ex_dmc_mode m = 0 \<and> val \<noteq> 0x00 then m\<lparr>ex_dmc := dmc_write_output (ex_dmc m) val\<rparr> else m)
      else if addr = 0x5015 then
        Some (m\<lparr>ex_pulse1 := pl_set_enabled (ex_pulse1 m) (val AND 0x01 = 0x01),
                ex_pulse2 := pl_set_enabled (ex_pulse2 m) (val AND 0x02 = 0x02)\<rparr>)
      else None)"

definition prg_mode_from :: "u8 \<Rightarrow> prg_mode" where
  "prg_mode_from val =
     (let v = val AND 0x03
      in if v = 0 then PrgBank32k else if v = 1 then PrgBank16k else if v = 2 then PrgBank16_8k else PrgBank8k)"

definition chr_mode_from :: "u8 \<Rightarrow> chr_mode" where
  "chr_mode_from val =
     (let v = val AND 0x03
      in if v = 0 then ChrBank8k else if v = 1 then ChrBank4k else if v = 2 then ChrBank2k else ChrBank1k)"

definition ex_mirroring_from :: "u8 \<Rightarrow> mirroring" where
  "ex_mirroring_from val =
     (if val = 0x50 then Horizontal else if val = 0x44 then Vertical else if val = 0x00 then SingleScreenA
      else if val = 0x55 then SingleScreenB else FourScreen)"

definition ex_multiply :: "exrom_regs \<Rightarrow> exrom_regs" where
  "ex_multiply r = r\<lparr>er_mult_result := ucast (er_multiplicand r) * ucast (er_multiplier r)\<rparr>"

text \<open>The registers from $5100 to $5206 that only change the board; \<open>None\<close> inside is a panic,
  \<open>None\<close> outside another address.\<close>

definition ex_write_register :: "exrom \<Rightarrow> u16 \<Rightarrow> u8 \<Rightarrow> exrom option option" where
  "ex_write_register m addr val =
     (if addr = 0x5100 then Some (ex_update_prg_banks (ex_on_regs (er_prg_mode_update (\<lambda>_. prg_mode_from val)) m))
      else if addr = 0x5101 then
        (let mode = (if em_attr (er_exram_mode (ex_regs m)) then ChrBank4k else chr_mode_from val)
         in Some (ex_update_chr_banks (ex_on_regs (er_chr_mode_update (\<lambda>_. mode)) m) (ex_last_chr_write m)))
      else if addr = 0x5104 then
        Some (Some (ex_on_regs (er_exram_mode_update (\<lambda>e. exram_mode_set e val)) m))
      else if addr = 0x5105 then
        Some (Some ((ex_on_regs (er_nametable_mapping_update (\<lambda>n. nametable_mapping_set n val)) m)
                      \<lparr>ex_mirroring := ex_mirroring_from val\<rparr>))
      else if addr = 0x5106 then Some (Some (ex_on_regs (er_fill_update (fl_tile_update (\<lambda>_. val))) m))
      else if addr = 0x5107 then
        Some (Some (ex_on_regs (er_fill_update (fl_attr_update (\<lambda>_. unat (val AND 0x03)))) m))
      else if window_in 0x5113 0x5117 addr then
        Some (do { banks \<leftarrow> vec_set (er_prg_banks (ex_regs m)) (unat addr - 0x5113) (unat val);
                   ex_update_prg_banks (ex_on_regs (er_prg_banks_update (\<lambda>_. banks)) m) })
      else if window_in 0x5120 0x512B addr then
        (let bank = unat addr - 0x5120
         in Some (do { banks \<leftarrow> vec_set (er_chr_banks (ex_regs m)) bank (unat val);
                       if addr < 0x5128 then ex_update_chr_banks (ex_on_regs (er_chr_banks_update (\<lambda>_. banks)) m) SprBank
                       else do { banks \<leftarrow> vec_set banks (bank + 4) (unat val);
                                 ex_update_chr_banks (ex_on_regs (er_chr_banks_update (\<lambda>_. banks)) m) BgBank } }))
      else if addr = 0x5130 then
        Some (Some (ex_on_regs (er_chr_hi_update (\<lambda>_. push_bit 8 (unat val AND 0x03))) m))
      else if addr = 0x5200 then
        Some (Some (ex_on_regs (er_vsplit_update (\<lambda>s. s\<lparr>sp_enabled := (val AND 0x80 = 0x80),
          sp_side := (if val AND 0x40 = 0x40 then RightSide else LeftSide), sp_tile := val AND 0x1F\<rparr>)) m))
      else if addr = 0x5201 then Some (Some (ex_on_regs (er_vsplit_update (sp_scroll_update (\<lambda>_. val))) m))
      else if addr = 0x5202 then Some (Some (ex_on_regs (er_vsplit_update (sp_bank_update (\<lambda>_. val))) m))
      else if addr = 0x5203 then Some (Some (ex_on_regs (er_irq_scanline_update (\<lambda>_. ucast val)) m))
      else if addr = 0x5204 then Some (Some (ex_on_regs (er_irq_enabled_update (\<lambda>_. val AND 0x80 > 0)) m))
      else if addr = 0x5205 then
        Some (Some (ex_on_regs (\<lambda>r. ex_multiply (r\<lparr>er_multiplicand := val\<rparr>)) m))
      else if addr = 0x5206 then
        Some (Some (ex_on_regs (\<lambda>r. ex_multiply (r\<lparr>er_multiplier := val\<rparr>)) m))
      else None)"

definition ex_write_nametable :: "exrom \<Rightarrow> u16 \<Rightarrow> u8 \<Rightarrow> (mapped_write \<times> exrom) option" where
  "ex_write_nametable m addr val =
     (case ex_nametable_select m addr of
        ScreenA \<Rightarrow> Some (CIRamW (unat (addr AND 0x03FF)) val, m)
      | ScreenB \<Rightarrow> Some (CIRamW (unat (0x0400 OR (addr AND 0x03FF))) val, m)
      | NtExRam \<Rightarrow>
          if em_nametable (er_exram_mode (ex_regs m))
          then do { m \<leftarrow> ex_write_exram m addr val; Some (NoWrite, m) } else Some (NoWrite, m)
      | NtFill \<Rightarrow> Some (NoWrite, m))"

definition ex_write_protect :: "exrom \<Rightarrow> u16 \<Rightarrow> u8 \<Rightarrow> (mapped_write \<times> exrom) option" where
  "ex_write_protect m addr val =
     do { protect \<leftarrow> vec_set (er_prg_ram_protect (ex_regs m)) (unat addr - 0x5102) (val AND 0x03);
          let writable = (protect ! 0 = 2 \<and> protect ! 1 = 1);
          Some (PrgRamProtect (\<not> writable), ex_on_regs (er_prg_ram_protect_update (\<lambda>_. protect)) m) }"

definition exrom_map_write :: "exrom \<Rightarrow> u16 \<Rightarrow> u8 \<Rightarrow> (mapped_write \<times> exrom) option" where
  "exrom_map_write m addr val =
     (if window_in 0x2000 0x3EFF addr then ex_write_nametable m addr val
      else if addr = 0x5102 \<or> addr = 0x5103 then ex_write_protect m addr val
      else case ex_write_sound m addr val of
             Some m \<Rightarrow> Some (NoWrite, m)
           | None \<Rightarrow>
          (case ex_write_register m addr val of
             Some r \<Rightarrow> map_option (\<lambda>m. (NoWrite, m)) r
           | None \<Rightarrow>
               if window_in 0x5C00 0x5FFF addr then
                 (case em_rw (er_exram_mode (ex_regs m)) of
                    ExW \<Rightarrow>
                      let val = (if es_rendering (ex_ppu_status m) then val else 0x00)
                      in map_option (\<lambda>m. (NoWrite, m)) (ex_write_exram m addr val)
                  | ExRW \<Rightarrow> map_option (\<lambda>m. (NoWrite, m)) (ex_write_exram m addr val)
                  | ExR \<Rightarrow> Some (NoWrite, m))
               else if window_in 0x6000 0xDFFF addr \<and> \<not> ex_rom_select m addr then
                 do { i \<leftarrow> mb_translate (ex_prg_ram_banks m) addr; Some (PrgRamW i val, m) }
               else Some (NoWrite, m)))"

section \<open>Clock and reset\<close>

text \<open>The quotient lies between 2 to the 12 and 2 to the 13: eleven fractional bits; counting down
  by one from there is exact.\<close>

definition exrom_clock :: "exrom \<Rightarrow> exrom" where
  "exrom_clock m =
     (let s = ex_ppu_status m;
          s = (if es_reading s then s\<lparr>es_idle := 0\<rparr>
               else let s = s\<lparr>es_idle := es_idle s + 1\<rparr>
                    in if es_idle s = 3 then s\<lparr>es_idle := 0, es_in_frame := False, es_prev_addr := 0x0000\<rparr> else s);
          m = m\<lparr>ex_ppu_status := s\<lparr>es_reading := False\<rparr>\<rparr>;
          m = (if ex_cpu_cycle m AND 0x01 = 0x00
               then m\<lparr>ex_pulse1 := pl_clock (ex_pulse1 m), ex_pulse2 := pl_clock (ex_pulse2 m),
                      ex_dmc := dmc_clock (ex_dmc m)\<rparr>
               else m);
          m = m\<lparr>ex_pulse_timer := ex_pulse_timer m - 1\<rparr>;
          m = (if ex_pulse_timer m \<le> 0
               then m\<lparr>ex_pulse1 := pl_clock_half_frame (pl_clock_quarter_frame (ex_pulse1 m)),
                      ex_pulse2 := pl_clock_half_frame (pl_clock_quarter_frame (ex_pulse2 m)),
                      ex_pulse_timer := f32_nearest 11 (region_clock_rate (ex_region m) / 240)\<rparr>
               else m)
      in m\<lparr>ex_cpu_cycle := ex_cpu_cycle m + 1\<rparr>)"

definition exrom_reset :: "exrom \<Rightarrow> kind \<Rightarrow> exrom" where
  "exrom_reset m kind =
     ex_on_regs (er_prg_mode_update (\<lambda>_. PrgBank8k) \<circ> er_chr_mode_update (\<lambda>_. ChrBank1k)) m"

end
