(* ===== verification/Mapper.thy ===== *)
theory Mapper
  imports MapperSxrom MapperTxrom MapperPxrom MapperVrc6 MapperExrom
begin

text \<open>
  \<open>src/mapper.rs\<close>: the enum of boards and its dispatch, and the choice of the board by
  \<open>Cart::from_rom\<close>. The interface \<open>mem_map\<close> holds of every board but Exrom (see \<open>MapperExrom\<close>),
  which \<open>mapper_wf\<close> therefore leaves out.
\<close>

datatype mapper =
    MEmpty
  | MNrom nrom
  | MSxrom sxrom
  | MUxrom uxrom
  | MCnrom cnrom
  | MTxrom txrom
  | MExrom exrom
  | MAxrom axrom
  | MPxrom pxrom
  | MVrc6 vrc6
  | MGxrom gxrom
  | MBf909x bf909x

definition mapper_none :: mapper where
  "mapper_none = MEmpty"

text \<open>Lifting the maps of a board into the enum.\<close>

definition lift_map :: "('m \<Rightarrow> mapper) \<Rightarrow> ('r \<times> 'm) option \<Rightarrow> ('r \<times> mapper) option" where
  "lift_map con x = map_option (\<lambda>(r, m). (r, con m)) x"

fun mapper_map_peek :: "mapper \<Rightarrow> u16 \<Rightarrow> mapped_read option" where
  "mapper_map_peek MEmpty addr = Some NoRead"
| "mapper_map_peek (MNrom m) addr = nrom_map_peek m addr"
| "mapper_map_peek (MSxrom m) addr = sxrom_map_peek m addr"
| "mapper_map_peek (MUxrom m) addr = uxrom_map_peek m addr"
| "mapper_map_peek (MCnrom m) addr = cnrom_map_peek m addr"
| "mapper_map_peek (MTxrom m) addr = txrom_map_peek m addr"
| "mapper_map_peek (MExrom m) addr = exrom_map_peek m addr"
| "mapper_map_peek (MAxrom m) addr = axrom_map_peek m addr"
| "mapper_map_peek (MPxrom m) addr = pxrom_map_peek m addr"
| "mapper_map_peek (MVrc6 m) addr = vrc6_map_peek m addr"
| "mapper_map_peek (MGxrom m) addr = gxrom_map_peek m addr"
| "mapper_map_peek (MBf909x m) addr = bf909x_map_peek m addr"

text \<open>Boards without a \<open>map_read\<close> of their own use the default of the trait.\<close>

fun mapper_map_read :: "mapper \<Rightarrow> u16 \<Rightarrow> (mapped_read \<times> mapper) option" where
  "mapper_map_read (MTxrom m) addr = lift_map MTxrom (txrom_map_read m addr)"
| "mapper_map_read (MExrom m) addr = lift_map MExrom (exrom_map_read m addr)"
| "mapper_map_read (MPxrom m) addr = lift_map MPxrom (pxrom_map_read m addr)"
| "mapper_map_read m addr = map_read_default mapper_map_peek m addr"

fun mapper_map_write :: "mapper \<Rightarrow> u16 \<Rightarrow> u8 \<Rightarrow> (mapped_write \<times> mapper) option" where
  "mapper_map_write MEmpty addr val = Some (NoWrite, MEmpty)"
| "mapper_map_write (MNrom m) addr val = lift_map MNrom (nrom_map_write m addr val)"
| "mapper_map_write (MSxrom m) addr val = lift_map MSxrom (sxrom_map_write m addr val)"
| "mapper_map_write (MUxrom m) addr val = lift_map MUxrom (uxrom_map_write m addr val)"
| "mapper_map_write (MCnrom m) addr val = lift_map MCnrom (cnrom_map_write m addr val)"
| "mapper_map_write (MTxrom m) addr val = lift_map MTxrom (txrom_map_write m addr val)"
| "mapper_map_write (MExrom m) addr val = lift_map MExrom (exrom_map_write m addr val)"
| "mapper_map_write (MAxrom m) addr val = lift_map MAxrom (axrom_map_write m addr val)"
| "mapper_map_write (MPxrom m) addr val = lift_map MPxrom (pxrom_map_write m addr val)"
| "mapper_map_write (MVrc6 m) addr val = lift_map MVrc6 (vrc6_map_write m addr val)"
| "mapper_map_write (MGxrom m) addr val = lift_map MGxrom (gxrom_map_write m addr val)"
| "mapper_map_write (MBf909x m) addr val = lift_map MBf909x (bf909x_map_write m addr val)"

fun mapper_irq_pending :: "mapper \<Rightarrow> bool" where
  "mapper_irq_pending (MTxrom m) = tx_irq_pending m"
| "mapper_irq_pending (MExrom m) = exrom_irq_pending m"
| "mapper_irq_pending (MVrc6 m) = vrc6_irq_pending m"
| "mapper_irq_pending _ = False"

fun mapper_mirroring :: "mapper \<Rightarrow> mirroring" where
  "mapper_mirroring MEmpty = mirroring_default"
| "mapper_mirroring (MNrom m) = nrom_mirroring m"
| "mapper_mirroring (MSxrom m) = sx_mirroring m"
| "mapper_mirroring (MUxrom m) = ux_mirroring m"
| "mapper_mirroring (MCnrom m) = cn_mirroring m"
| "mapper_mirroring (MTxrom m) = tx_mirroring m"
| "mapper_mirroring (MExrom m) = ex_mirroring m"
| "mapper_mirroring (MAxrom m) = ax_mirroring m"
| "mapper_mirroring (MPxrom m) = px_mirroring m"
| "mapper_mirroring (MVrc6 m) = v6_mirroring m"
| "mapper_mirroring (MGxrom m) = gx_mirroring m"
| "mapper_mirroring (MBf909x m) = bf_mirroring m"

fun mapper_set_mirroring :: "mapper \<Rightarrow> mirroring \<Rightarrow> mapper" where
  "mapper_set_mirroring MEmpty mi = MEmpty"
| "mapper_set_mirroring (MNrom m) mi = MNrom (m\<lparr>nrom_mirroring := mi\<rparr>)"
| "mapper_set_mirroring (MSxrom m) mi = MSxrom (m\<lparr>sx_mirroring := mi\<rparr>)"
| "mapper_set_mirroring (MUxrom m) mi = MUxrom (m\<lparr>ux_mirroring := mi\<rparr>)"
| "mapper_set_mirroring (MCnrom m) mi = MCnrom (m\<lparr>cn_mirroring := mi\<rparr>)"
| "mapper_set_mirroring (MTxrom m) mi = MTxrom (m\<lparr>tx_mirroring := mi\<rparr>)"
| "mapper_set_mirroring (MExrom m) mi = MExrom (m\<lparr>ex_mirroring := mi\<rparr>)"
| "mapper_set_mirroring (MAxrom m) mi = MAxrom (m\<lparr>ax_mirroring := mi\<rparr>)"
| "mapper_set_mirroring (MPxrom m) mi = MPxrom (m\<lparr>px_mirroring := mi\<rparr>)"
| "mapper_set_mirroring (MVrc6 m) mi = MVrc6 (m\<lparr>v6_mirroring := mi\<rparr>)"
| "mapper_set_mirroring (MGxrom m) mi = MGxrom (m\<lparr>gx_mirroring := mi\<rparr>)"
| "mapper_set_mirroring (MBf909x m) mi = MBf909x (m\<lparr>bf_mirroring := mi\<rparr>)"

fun mapper_ppu_bus_read :: "mapper \<Rightarrow> u16 \<Rightarrow> mapper" where
  "mapper_ppu_bus_read (MTxrom m) addr = MTxrom (txrom_ppu_bus_read m addr)"
| "mapper_ppu_bus_read m addr = m"

fun mapper_ppu_bus_write :: "mapper \<Rightarrow> u16 \<Rightarrow> u8 \<Rightarrow> mapper" where
  "mapper_ppu_bus_write (MTxrom m) addr val = MTxrom (txrom_ppu_bus_write m addr val)"
| "mapper_ppu_bus_write m addr val = m"

text \<open>Exrom alone watches the CPU bus, and only its writes.\<close>

definition mapper_cpu_bus_read :: "mapper \<Rightarrow> u16 \<Rightarrow> mapper" where
  "mapper_cpu_bus_read m addr = m"

fun mapper_cpu_bus_write :: "mapper \<Rightarrow> u16 \<Rightarrow> u8 \<Rightarrow> mapper" where
  "mapper_cpu_bus_write (MExrom m) addr val = MExrom (exrom_cpu_bus_write m addr val)"
| "mapper_cpu_bus_write m addr val = m"

fun mapper_clock :: "mapper \<Rightarrow> mapper" where
  "mapper_clock (MSxrom m) = MSxrom (sxrom_clock m)"
| "mapper_clock (MExrom m) = MExrom (exrom_clock m)"
| "mapper_clock (MVrc6 m) = MVrc6 (vrc6_clock m)"
| "mapper_clock m = m"

fun mapper_reset :: "mapper \<Rightarrow> kind \<Rightarrow> mapper option" where
  "mapper_reset (MSxrom m) kind = map_option MSxrom (sxrom_reset m kind)"
| "mapper_reset (MTxrom m) kind = map_option MTxrom (txrom_reset m kind)"
| "mapper_reset (MPxrom m) kind = map_option MPxrom (pxrom_reset m kind)"
| "mapper_reset (MExrom m) kind = Some (MExrom (exrom_reset m kind))"
| "mapper_reset (MVrc6 m) kind = Some (MVrc6 (vrc6_reset m kind))"
| "mapper_reset m kind = Some m"

text \<open>The other boards keep the default \<open>region\<close> and \<open>set_region\<close> of the trait.\<close>

fun mapper_region :: "mapper \<Rightarrow> nes_region" where
  "mapper_region (MExrom m) = exrom_region m"
| "mapper_region m = Ntsc"

fun mapper_set_region :: "mapper \<Rightarrow> nes_region \<Rightarrow> mapper" where
  "mapper_set_region (MExrom m) region = MExrom (exrom_set_region m region)"
| "mapper_set_region m region = m"

section \<open>Loading a cartridge\<close>

text \<open>The \<open>into()\<close> at the end of a board's \<open>load\<close>.\<close>

definition pack_load :: "('m \<Rightarrow> mapper) \<Rightarrow> ('m \<times> cart) option \<Rightarrow> (cart_error + mapper \<times> cart) option" where
  "pack_load con x = map_option (\<lambda>(m, c). Inr (con m, c)) x"

definition mapper_load ::
    "(nat \<Rightarrow> nat \<Rightarrow> u8) \<Rightarrow> cart \<Rightarrow> (cart_error + mapper \<times> cart) option" where
  "mapper_load rng c =
     (let n = hd_mapper_num (cart_header c)
      in if n = 0 then pack_load MNrom (Some (nrom_load rng c))
         else if n = 1 then pack_load MSxrom (sxrom_load rng Mmc1BC c)
         else if n = 2 then pack_load MUxrom (uxrom_load rng c)
         else if n = 3 then pack_load MCnrom (Some (cnrom_load c))
         else if n = 4 then pack_load MTxrom (txrom_load rng c)
         else if n = 5 then pack_load MExrom (exrom_load rng c)
         else if n = 7 then pack_load MAxrom (Some (axrom_load rng c))
         else if n = 9 then pack_load MPxrom (pxrom_load rng c)
         else if n = 24 then pack_load MVrc6 (vrc6_load rng Vrc6A c)
         else if n = 26 then pack_load MVrc6 (vrc6_load rng Vrc6B c)
         else if n = 66 then pack_load MGxrom (Some (gxrom_load c))
         else if n = 71 then pack_load MBf909x (bf909x_load rng c)
         else if n = 155 then pack_load MSxrom (sxrom_load rng Mmc1A c)
         else Some (Inl (UnimplementedMapper n)))"

definition cart_from_rom ::
    "(nat \<Rightarrow> nat \<Rightarrow> u8) \<Rightarrow> (u8 list \<Rightarrow> nes_region) \<Rightarrow> string \<Rightarrow> u8 list \<Rightarrow> ram_state
       \<Rightarrow> (cart_error + mapper \<times> cart) option" where
  "cart_from_rom rng region_of name rom ram_state =
     (case cart_memories rng region_of name rom ram_state of
        Inl e \<Rightarrow> Some (Inl e)
      | Inr c \<Rightarrow> mapper_load rng c)"

definition empty_header :: nes_header where
  "empty_header =
     \<lparr>hd_version = 0, hd_mapper_num = 0, hd_submapper_num = 0, hd_flags = 0, hd_prg_rom_banks = 0,
      hd_chr_rom_banks = 0, hd_prg_ram_shift = 0, hd_chr_ram_shift = 0, hd_tv_mode = 0, hd_vs_data = 0\<rparr>"

definition cart_empty :: "(nat \<Rightarrow> nat \<Rightarrow> u8) \<Rightarrow> mapper \<times> cart" where
  "cart_empty rng =
     (let c = \<lparr>cart_name = ''Empty Cart'', cart_header = empty_header, cart_region = Ntsc,
               cart_ram_state = AllZeros, cart_chr_rom = replicate CHR_ROM_BANK_SIZE 0x00,
               cart_chr_ram = [], cart_ex_ram = [], cart_prg_rom = replicate PRG_ROM_BANK_SIZE 0x00,
               cart_prg_ram = []\<rparr>;
          (m, c) = nrom_load rng c
      in (MNrom m, c))"

section \<open>The interface on the whole enum\<close>

fun mapper_wf :: "board \<Rightarrow> mapper \<Rightarrow> bool" where
  "mapper_wf bd MEmpty \<longleftrightarrow> True"
| "mapper_wf bd (MNrom m) \<longleftrightarrow> nrom_wf bd m"
| "mapper_wf bd (MSxrom m) \<longleftrightarrow> sxrom_wf bd m"
| "mapper_wf bd (MUxrom m) \<longleftrightarrow> uxrom_wf bd m"
| "mapper_wf bd (MCnrom m) \<longleftrightarrow> cnrom_wf bd m"
| "mapper_wf bd (MTxrom m) \<longleftrightarrow> txrom_wf bd m"
| "mapper_wf bd (MExrom m) \<longleftrightarrow> False"
| "mapper_wf bd (MAxrom m) \<longleftrightarrow> axrom_wf bd m"
| "mapper_wf bd (MPxrom m) \<longleftrightarrow> pxrom_wf bd m"
| "mapper_wf bd (MVrc6 m) \<longleftrightarrow> vrc6_wf bd m"
| "mapper_wf bd (MGxrom m) \<longleftrightarrow> gxrom_wf bd m"
| "mapper_wf bd (MBf909x m) \<longleftrightarrow> bf909x_wf bd m"

lemma returns_lift_map [simp]:
  "returns (lift_map con x) Q \<longleftrightarrow> returns x (\<lambda>(r, m). Q (r, con m))"
  by (cases x) (auto simp: lift_map_def)

lemma mapper_peek_in: "mapper_wf bd m \<Longrightarrow> returns (mapper_map_peek m a) (read_in bd)"
  by (cases m) (simp_all add: nrom.peek_in sxrom.peek_in uxrom.peek_in cnrom.peek_in txrom.peek_in
      axrom.peek_in pxrom.peek_in vrc6.peek_in gxrom.peek_in bf909x.peek_in)

lemmas board_writes = nrom.write_ok sxrom.write_ok uxrom.write_ok cnrom.write_ok txrom.write_ok
  axrom.write_ok pxrom.write_ok vrc6.write_ok gxrom.write_ok bf909x.write_ok

interpretation mappers: mem_map mapper_wf mapper_map_peek mapper_map_read mapper_map_write
proof
  fix bd m a and v :: u8
  assume wf: "mapper_wf bd m"
  show "returns (mapper_map_read m a) (\<lambda>(r, m'). mapper_map_peek m a = Some r \<and> mapper_wf bd m')"
  proof (cases m)
    case (MTxrom t)
    then show ?thesis using txrom.read_peek [of bd t a] wf by simp
  next
    case (MPxrom t)
    then show ?thesis using pxrom.read_peek [of bd t a] wf by simp
  qed (use wf mapper_peek_in [OF wf, of a] in \<open>auto simp: map_read_default_def returns_def\<close>)
  show "returns (mapper_map_write m a v) (\<lambda>(w, m'). write_in bd w \<and> mapper_wf bd m')"
    using wf by (cases m) (simp_all add: board_writes)
qed (rule mapper_peek_in)

lemma mapper_wf_set_mirroring [simp]: "mapper_wf bd (mapper_set_mirroring m mi) = mapper_wf bd m"
  by (cases m) (simp_all add: nrom_wf_def sxrom_wf_def uxrom_wf_def cnrom_wf_def txrom_wf_def
      axrom_wf_def pxrom_wf_def vrc6_wf_def gxrom_wf_def bf909x_wf_def)

lemma mapper_wf_ppu_bus [simp]:
  "mapper_wf bd (mapper_ppu_bus_read m a) = mapper_wf bd m"
  "mapper_wf bd (mapper_ppu_bus_write m a v) = mapper_wf bd m"
  by (cases m; simp add: txrom_ppu_bus_read_def txrom_ppu_bus_write_def)+

lemma mapper_wf_cpu_bus [simp]: "mapper_wf bd (mapper_cpu_bus_write m a v) = mapper_wf bd m"
  and mapper_wf_set_region [simp]: "mapper_wf bd (mapper_set_region m r) = mapper_wf bd m"
  by (cases m; simp)+

lemma mapper_wf_clock [simp]: "mapper_wf bd m \<Longrightarrow> mapper_wf bd (mapper_clock m)"
  by (cases m) simp_all

lemma pxrom_reset_ok: "pxrom_wf bd m \<Longrightarrow> returns (pxrom_reset m k) (pxrom_wf bd)"
  unfolding pxrom_reset_def by (rule px_update_banks_ok) (simp add: pxrom_wf_def)

lemma mapper_wf_reset: "mapper_wf bd m \<Longrightarrow> returns (mapper_reset m k) (mapper_wf bd)"
  by (cases m) (simp_all add: sxrom_reset_ok txrom_reset_ok pxrom_reset_ok)

text \<open>A board loaded from a cartridge of a regular size is well-formed.\<close>

definition modelled_mapper :: "u16 \<Rightarrow> bool" where
  "modelled_mapper n \<longleftrightarrow> n \<in> {0, 1, 2, 3, 4, 7, 9, 24, 26, 66, 71, 155}"

lemma mapper_load_board:
  assumes ok: "board_ok c" and ram: "cart_prg_ram c = [] \<or> 0x2000 \<le> length (cart_prg_ram c)"
    and n: "modelled_mapper (hd_mapper_num (cart_header c))"
  shows "returns (mapper_load rng c) (\<lambda>r. \<exists>m c'. r = Inr (m, c') \<and> mapper_wf (board_of c') m)"
proof -
  note loads = sxrom_load_board [OF ok ram] uxrom_load_board [OF ok] txrom_load_board [OF ok]
    pxrom_load_board [OF ok] vrc6_load_board [OF ok ram] bf909x_load_board [OF ok]
  note loads' = nrom_load_board [OF ok] cnrom_load_board [OF ok] axrom_load_board [OF ok]
    gxrom_load_board [OF ok]
  show ?thesis
    using n loads [unfolded split_beta]
    unfolding modelled_mapper_def insert_iff empty_iff
    by (elim disjE) (auto simp: mapper_load_def pack_load_def split_beta intro!: loads' intro: prod.collapse)
qed

end
