(* ===== verification/PpuRegs.thy ===== *)
theory PpuRegs
  imports Common
begin

text \<open>
  The registers of the picture processing unit: \<open>src/ppu/ctrl.rs\<close> ($2000), \<open>src/ppu/mask.rs\<close>
  ($2001), \<open>src/ppu/status.rs\<close> ($2002) and \<open>src/ppu/scroll.rs\<close> ($2005, $2006). The bit flag
  registers are bytes; the scroll register is the record of its four parts, \<open>v\<close>, \<open>t\<close>, fine
  \<open>x\<close> and the write latch. The lemmas relate the bit operations of the scroll register to the
  fields they stand for (coarse X and Y, nametable, fine Y).
\<close>

section \<open>PPUCTRL\<close>

type_synonym ppu_ctrl = u8

definition CTRL_VRAM_INCREMENT :: u8 where "CTRL_VRAM_INCREMENT = 0x04"
definition CTRL_SPR_SELECT :: u8 where "CTRL_SPR_SELECT = 0x08"
definition CTRL_BG_SELECT :: u8 where "CTRL_BG_SELECT = 0x10"
definition CTRL_SPR_HEIGHT :: u8 where "CTRL_SPR_HEIGHT = 0x20"
definition CTRL_MASTER_SLAVE :: u8 where "CTRL_MASTER_SLAVE = 0x40"
definition CTRL_NMI_ENABLE :: u8 where "CTRL_NMI_ENABLE = 0x80"

lemmas ctrl_flags = CTRL_VRAM_INCREMENT_def CTRL_SPR_SELECT_def CTRL_BG_SELECT_def
  CTRL_SPR_HEIGHT_def CTRL_MASTER_SLAVE_def CTRL_NMI_ENABLE_def

definition ctrl_new :: ppu_ctrl where "ctrl_new = 0x00"

definition ctrl_write :: "ppu_ctrl \<Rightarrow> u8 \<Rightarrow> ppu_ctrl" where "ctrl_write c val = val"

definition nametable_addr :: "ppu_ctrl \<Rightarrow> u16" where
  "nametable_addr c =
     (let n = c AND 0x03
      in if n = 0 then 0x2000 else if n = 1 then 0x2400 else if n = 2 then 0x2800 else 0x2C00)"

definition vram_increment :: "ppu_ctrl \<Rightarrow> u16" where
  "vram_increment c = (if flag_contains c CTRL_VRAM_INCREMENT then 32 else 1)"

definition spr_select :: "ppu_ctrl \<Rightarrow> u16" where
  "spr_select c = (if flag_contains c CTRL_SPR_SELECT then 0x1000 else 0x0000)"

definition bg_select :: "ppu_ctrl \<Rightarrow> u16" where
  "bg_select c = (if flag_contains c CTRL_BG_SELECT then 0x1000 else 0x0000)"

definition spr_height :: "ppu_ctrl \<Rightarrow> u32" where
  "spr_height c = (if flag_contains c CTRL_SPR_HEIGHT then 16 else 8)"

definition master_slave :: "ppu_ctrl \<Rightarrow> u8" where
  "master_slave c = (if flag_contains c CTRL_MASTER_SLAVE then 1 else 0)"

definition nmi_enabled :: "ppu_ctrl \<Rightarrow> bool" where
  "nmi_enabled c = flag_contains c CTRL_NMI_ENABLE"

definition ctrl_reset :: "ppu_ctrl \<Rightarrow> kind \<Rightarrow> ppu_ctrl" where "ctrl_reset c k = 0"

section \<open>PPUMASK\<close>

type_synonym ppu_mask = u8

definition MASK_GRAYSCALE :: u8 where "MASK_GRAYSCALE = 0x01"
definition MASK_SHOW_LEFT_BG :: u8 where "MASK_SHOW_LEFT_BG = 0x02"
definition MASK_SHOW_LEFT_SPR :: u8 where "MASK_SHOW_LEFT_SPR = 0x04"
definition MASK_SHOW_BG :: u8 where "MASK_SHOW_BG = 0x08"
definition MASK_SHOW_SPR :: u8 where "MASK_SHOW_SPR = 0x10"
definition MASK_EMPHASIZE_RED :: u8 where "MASK_EMPHASIZE_RED = 0x20"
definition MASK_EMPHASIZE_GREEN :: u8 where "MASK_EMPHASIZE_GREEN = 0x40"
definition MASK_EMPHASIZE_BLUE :: u8 where "MASK_EMPHASIZE_BLUE = 0x80"

lemmas mask_flags = MASK_GRAYSCALE_def MASK_SHOW_LEFT_BG_def MASK_SHOW_LEFT_SPR_def
  MASK_SHOW_BG_def MASK_SHOW_SPR_def MASK_EMPHASIZE_RED_def MASK_EMPHASIZE_GREEN_def
  MASK_EMPHASIZE_BLUE_def

definition mask_new :: ppu_mask where "mask_new = 0x00"

definition mask_write :: "ppu_mask \<Rightarrow> u8 \<Rightarrow> ppu_mask" where "mask_write m val = val"

definition grayscale :: "ppu_mask \<Rightarrow> bool" where
  "grayscale m = flag_contains m MASK_GRAYSCALE"

definition show_left_bg :: "ppu_mask \<Rightarrow> bool" where
  "show_left_bg m = flag_contains m MASK_SHOW_LEFT_BG"

definition show_left_spr :: "ppu_mask \<Rightarrow> bool" where
  "show_left_spr m = flag_contains m MASK_SHOW_LEFT_SPR"

definition show_bg :: "ppu_mask \<Rightarrow> bool" where
  "show_bg m = flag_contains m MASK_SHOW_BG"

definition show_spr :: "ppu_mask \<Rightarrow> bool" where
  "show_spr m = flag_contains m MASK_SHOW_SPR"

definition emphasis :: "ppu_mask \<Rightarrow> nes_region \<Rightarrow> u8" where
  "emphasis m region =
     (case region of
        Ntsc \<Rightarrow> m AND (MASK_EMPHASIZE_RED OR MASK_EMPHASIZE_GREEN OR MASK_EMPHASIZE_BLUE)
      | _ \<Rightarrow>
         (let e = m AND MASK_EMPHASIZE_BLUE;
              e = flag_set e MASK_EMPHASIZE_GREEN (flag_contains m MASK_EMPHASIZE_RED)
          in flag_set e MASK_EMPHASIZE_RED (flag_contains m MASK_EMPHASIZE_GREEN)))"

definition mask_reset :: "ppu_mask \<Rightarrow> kind \<Rightarrow> ppu_mask" where "mask_reset m k = 0"

lemma flag_contains_bits [simp]:
  "flag_contains m (0x01::u8) = bit m 0" "flag_contains m (0x02::u8) = bit m 1"
  "flag_contains m (0x04::u8) = bit m 2" "flag_contains m (0x08::u8) = bit m 3"
  "flag_contains m (0x10::u8) = bit m 4" "flag_contains m (0x20::u8) = bit m 5"
  "flag_contains m (0x40::u8) = bit m 6" "flag_contains m (0x80::u8) = bit m 7"
  unfolding flag_contains_iff bit_u8_masks by simp_all

text \<open>The emphasis bits of PAL and Dendy are those of NTSC with red and green exchanged.\<close>

lemma emphasis_bits:
  "bit (emphasis m region) 5 = bit m (if region = Ntsc then 5 else 6)"
  "bit (emphasis m region) 6 = bit m (if region = Ntsc then 6 else 5)"
  "bit (emphasis m region) 7 = bit m 7"
  "emphasis m region AND 0x1F = 0"
proof -
  show "bit (emphasis m region) 5 = bit m (if region = Ntsc then 5 else 6)"
    "bit (emphasis m region) 6 = bit m (if region = Ntsc then 6 else 5)"
    "bit (emphasis m region) 7 = bit m 7"
    by (cases region; simp add: emphasis_def Let_def mask_flags bit_flag_set bit_simps)+
  show "emphasis m region AND 0x1F = 0"
    by (cases region; rule u8_eqI; simp add: emphasis_def Let_def mask_flags bit_flag_set bit_simps)
qed

section \<open>PPUSTATUS\<close>

type_synonym ppu_status = u8

definition STATUS_SPR_OVERFLOW :: u8 where "STATUS_SPR_OVERFLOW = 0x20"
definition STATUS_SPR_ZERO_HIT :: u8 where "STATUS_SPR_ZERO_HIT = 0x40"
definition STATUS_VBLANK_STARTED :: u8 where "STATUS_VBLANK_STARTED = 0x80"

lemmas status_flags = STATUS_SPR_OVERFLOW_def STATUS_SPR_ZERO_HIT_def STATUS_VBLANK_STARTED_def

definition status_new :: ppu_status where "status_new = 0x00"

definition status_write :: "ppu_status \<Rightarrow> u8 \<Rightarrow> ppu_status" where "status_write s val = val"

definition status_read :: "ppu_status \<Rightarrow> u8" where "status_read s = s"

definition set_spr_overflow :: "ppu_status \<Rightarrow> bool \<Rightarrow> ppu_status" where
  "set_spr_overflow s val = flag_set s STATUS_SPR_OVERFLOW val"

definition spr_zero_hit :: "ppu_status \<Rightarrow> bool" where
  "spr_zero_hit s = flag_contains s STATUS_SPR_ZERO_HIT"

definition set_spr_zero_hit :: "ppu_status \<Rightarrow> bool \<Rightarrow> ppu_status" where
  "set_spr_zero_hit s val = flag_set s STATUS_SPR_ZERO_HIT val"

definition in_vblank :: "ppu_status \<Rightarrow> bool" where
  "in_vblank s = flag_contains s STATUS_VBLANK_STARTED"

definition set_in_vblank :: "ppu_status \<Rightarrow> bool \<Rightarrow> ppu_status" where
  "set_in_vblank s val = flag_set s STATUS_VBLANK_STARTED val"

definition reset_in_vblank :: "ppu_status \<Rightarrow> ppu_status" where
  "reset_in_vblank s = s AND NOT STATUS_VBLANK_STARTED"

definition status_reset :: "ppu_status \<Rightarrow> kind \<Rightarrow> ppu_status" where
  "status_reset s k =
     (if k = Hard then set_spr_overflow (set_spr_zero_hit (set_in_vblank s False) False) False
      else s)"

lemma status_simps [simp]:
  "in_vblank (set_in_vblank s b) = b"
  "in_vblank (set_spr_zero_hit s b) = in_vblank s"
  "in_vblank (set_spr_overflow s b) = in_vblank s"
  "in_vblank (reset_in_vblank s) = False"
  "spr_zero_hit (set_spr_zero_hit s b) = b"
  "spr_zero_hit (set_in_vblank s b) = spr_zero_hit s"
  "spr_zero_hit (set_spr_overflow s b) = spr_zero_hit s"
  "spr_zero_hit (reset_in_vblank s) = spr_zero_hit s"
proof -
  have "reset_in_vblank s = flag_set s STATUS_VBLANK_STARTED False"
    by (simp add: reset_in_vblank_def flag_set_def)
  then show "in_vblank (reset_in_vblank s) = False" "spr_zero_hit (reset_in_vblank s) = spr_zero_hit s"
    by (simp_all add: in_vblank_def spr_zero_hit_def status_flags bit_flag_set bit_simps)
qed (simp_all add: in_vblank_def set_in_vblank_def set_spr_zero_hit_def set_spr_overflow_def
    spr_zero_hit_def status_flags bit_flag_set bit_simps)

section \<open>PPUSCROLL and PPUADDR\<close>

record ppu_scroll =
  sc_v :: u16
  sc_t :: u16
  sc_x :: u16
  sc_latch :: bool

definition COARSE_X_MASK :: u16 where "COARSE_X_MASK = 0x001F"
definition COARSE_Y_MASK :: u16 where "COARSE_Y_MASK = 0x03E0"
definition NT_X_MASK :: u16 where "NT_X_MASK = 0x0400"
definition NT_Y_MASK :: u16 where "NT_Y_MASK = 0x0800"
definition FINE_Y_MASK :: u16 where "FINE_Y_MASK = 0x7000"
definition X_MAX_COL :: u16 where "X_MAX_COL = 31"
definition Y_MAX_COL :: u16 where "Y_MAX_COL = 29"
definition Y_OVER_COL :: u16 where "Y_OVER_COL = 31"
definition Y_INCREMENT :: u16 where "Y_INCREMENT = 0x1000"
definition ATTR_START :: u16 where "ATTR_START = 0x23C0"
definition ADDR_MIRROR :: u16 where "ADDR_MIRROR = 0x3FFF"

lemmas scroll_consts = COARSE_X_MASK_def COARSE_Y_MASK_def NT_X_MASK_def NT_Y_MASK_def
  FINE_Y_MASK_def X_MAX_COL_def Y_MAX_COL_def Y_OVER_COL_def Y_INCREMENT_def ATTR_START_def
  ADDR_MIRROR_def

definition scroll_new :: ppu_scroll where
  "scroll_new = \<lparr>sc_v = 0x0000, sc_t = 0x0000, sc_x = 0x00, sc_latch = False\<rparr>"

definition attr_addr :: "ppu_scroll \<Rightarrow> u16" where
  "attr_addr s =
     (let nametable_select = sc_v s AND (NT_X_MASK OR NT_Y_MASK);
          y_bits = drop_bit 4 (sc_v s) AND 0x38;
          x_bits = drop_bit 2 (sc_v s) AND 0x07
      in ATTR_START OR nametable_select OR y_bits OR x_bits)"

definition attr_shift :: "ppu_scroll \<Rightarrow> u16" where
  "attr_shift s = (sc_v s AND 0x02) OR (drop_bit 4 (sc_v s) AND 0x04)"

definition read_addr :: "ppu_scroll \<Rightarrow> u16" where
  "read_addr s = sc_v s"

definition scroll_write :: "ppu_scroll \<Rightarrow> u8 \<Rightarrow> ppu_scroll" where
  "scroll_write s val =
     (let v = ucast val :: u16; lo_5_bit_mask = 0x1F; fine_mask = 0x07; fine_rshift = 3;
          s = (if sc_latch s then
                 let t = sc_t s AND NOT (FINE_Y_MASK OR COARSE_Y_MASK);
                     t = t OR push_bit 5 (drop_bit fine_rshift v AND lo_5_bit_mask);
                     t = t OR push_bit 12 (v AND fine_mask)
                 in s\<lparr>sc_t := t\<rparr>
               else
                 let t = sc_t s AND NOT COARSE_X_MASK;
                     t = t OR (drop_bit fine_rshift v AND lo_5_bit_mask)
                 in s\<lparr>sc_t := t, sc_x := v AND fine_mask\<rparr>)
      in s\<lparr>sc_latch := \<not> sc_latch s\<rparr>)"

definition scroll_write_addr :: "ppu_scroll \<Rightarrow> u8 \<Rightarrow> ppu_scroll" where
  "scroll_write_addr s val =
     (let s = (if sc_latch s then
                 let t = (sc_t s AND 0x7F00) OR ucast val
                 in s\<lparr>sc_t := t, sc_v := t AND ADDR_MIRROR\<rparr>
               else s\<lparr>sc_t := (sc_t s AND 0x00FF) OR push_bit 8 (ucast val AND 0x003F)\<rparr>)
      in s\<lparr>sc_latch := \<not> sc_latch s\<rparr>)"

definition coarse_x :: "ppu_scroll \<Rightarrow> u16" where
  "coarse_x s = sc_v s AND COARSE_X_MASK"

definition fine_x :: "ppu_scroll \<Rightarrow> u16" where
  "fine_x s = sc_x s"

definition coarse_y :: "ppu_scroll \<Rightarrow> u16" where
  "coarse_y s = drop_bit 5 (sc_v s AND COARSE_Y_MASK)"

definition fine_y :: "ppu_scroll \<Rightarrow> u16" where
  "fine_y s = drop_bit 12 (sc_v s)"

definition scroll_increment :: "ppu_scroll \<Rightarrow> u16 \<Rightarrow> ppu_scroll" where
  "scroll_increment s val = s\<lparr>sc_v := (sc_v s + val) AND ADDR_MIRROR\<rparr>"

definition copy_x :: "ppu_scroll \<Rightarrow> ppu_scroll" where
  "copy_x s =
     (let x_mask = NT_X_MASK OR COARSE_X_MASK
      in s\<lparr>sc_v := (sc_v s AND NOT x_mask) OR (sc_t s AND x_mask)\<rparr>)"

definition copy_y :: "ppu_scroll \<Rightarrow> ppu_scroll" where
  "copy_y s =
     (let y_mask = FINE_Y_MASK OR NT_Y_MASK OR COARSE_Y_MASK
      in s\<lparr>sc_v := (sc_v s AND NOT y_mask) OR (sc_t s AND y_mask)\<rparr>)"

definition increment_x :: "ppu_scroll \<Rightarrow> ppu_scroll" where
  "increment_x s =
     (if sc_v s AND COARSE_X_MASK = X_MAX_COL
      then s\<lparr>sc_v := (sc_v s AND NOT COARSE_X_MASK) XOR NT_X_MASK\<rparr>
      else s\<lparr>sc_v := sc_v s + 1\<rparr>)"

definition increment_y :: "ppu_scroll \<Rightarrow> ppu_scroll" where
  "increment_y s =
     (if sc_v s AND FINE_Y_MASK = FINE_Y_MASK then
        let v = sc_v s AND NOT FINE_Y_MASK;
            y = drop_bit 5 (v AND COARSE_Y_MASK);
            (v, y) = (if y = Y_MAX_COL then (v XOR NT_Y_MASK, 0)
                      else if y = Y_OVER_COL then (v, 0)
                      else (v, y + 1))
        in s\<lparr>sc_v := (v AND NOT COARSE_Y_MASK) OR push_bit 5 y\<rparr>
      else s\<lparr>sc_v := sc_v s + Y_INCREMENT\<rparr>)"

definition reset_latch :: "ppu_scroll \<Rightarrow> ppu_scroll" where
  "reset_latch s = s\<lparr>sc_latch := False\<rparr>"

definition write_nametable_select :: "ppu_scroll \<Rightarrow> u8 \<Rightarrow> ppu_scroll" where
  "write_nametable_select s val =
     (let nt_mask = NT_Y_MASK OR NT_X_MASK
      in s\<lparr>sc_t := (sc_t s AND NOT nt_mask) OR push_bit 10 (ucast val AND 0x03)\<rparr>)"

definition scroll_reset :: "ppu_scroll \<Rightarrow> kind \<Rightarrow> ppu_scroll" where
  "scroll_reset s k =
     (let s = (if k = Hard then s\<lparr>sc_v := 0x0000\<rparr> else s)
      in s\<lparr>sc_t := 0x0000, sc_x := 0x00, sc_latch := False\<rparr>)"

section \<open>The fields of the scroll register\<close>

lemma unat_and_low: "unat (v AND mask n) = unat v mod 2 ^ n" for v :: u16
  by (metis take_bit_eq_mask unsigned_take_bit_eq take_bit_eq_mod)

lemma masks_eq: "(0x1F::u16) = mask 5" "(0xFFF::u16) = mask 12" "(7::u16) = mask 3"
  by (simp_all add: mask_eq_exp_minus_1)

lemma unat_drop: "unat (drop_bit n v) = unat v div 2 ^ n" for v :: u16
  by (simp only: unat_drop_bit_eq) (simp add: drop_bit_eq_div)

text \<open>Adding one to the low five bits, when they are not all ones, does not carry.\<close>

lemma add_one_low:
  fixes v :: u16
  assumes "v AND 0x1F \<noteq> 0x1F"
  shows "drop_bit 5 (v + 1) = drop_bit 5 v" and "(v + 1) AND 0x1F = (v AND 0x1F) + 1"
proof -
  have low: "unat (w AND 0x1F) = unat w mod 32" for w :: u16
    using unat_and_low [of w 5] by (simp add: masks_eq(1) [symmetric])
  have ne: "unat v mod 32 \<noteq> 31" using assms low [of v] by (auto simp: word_unat_eq_iff)
  have "unat v \<noteq> 65535" using ne by auto
  then have "Suc (unat v) < 65536" using unat_u16_less [of v] by linarith
  then have u: "unat (v + 1) = Suc (unat v)" by (simp add: unat_word_ariths)
  have suc: "Suc (unat v) mod 32 = Suc (unat v mod 32)" using ne by (simp add: mod_Suc)
  have "unat (drop_bit 5 (v + 1)) = unat (drop_bit 5 v)"
    using suc by (simp only: unat_drop u) (simp add: div_Suc)
  then show "drop_bit 5 (v + 1) = drop_bit 5 v" by (rule word_unat_eq_iff [THEN iffD2])
  have "unat (v AND 0x1F) < 31" using ne low [of v] by (simp add: less_Suc_eq_le order_le_less)
  then have "unat ((v AND 0x1F) + 1) = Suc (unat (v AND 0x1F))" by (simp add: unat_word_ariths)
  then show "(v + 1) AND 0x1F = (v AND 0x1F) + 1"
    by (intro word_unat_eq_iff [THEN iffD2]) (simp only: low u suc)
qed

lemma add_fine_y:
  fixes v :: u16
  assumes "v AND 0x7000 \<noteq> 0x7000" and "\<not> bit v 15"
  shows "unat (drop_bit 12 (v + 0x1000)) = unat (drop_bit 12 v) + 1"
    and "(v + 0x1000) AND 0xFFF = v AND 0xFFF" and "unat (drop_bit 12 (v + 0x1000)) < 8"
proof -
  have low: "unat (w AND 0xFFF) = unat w mod 4096" for w :: u16
    using unat_and_low [of w 12] by (simp add: masks_eq(2) [symmetric])
  have "unat v < 2 ^ 15"
    using assms(2) by (intro word_less_by_bits) (auto simp: less_Suc_eq numeral_eq_Suc)
  moreover have "unat v div 4096 \<noteq> 7"
  proof
    assume "unat v div 4096 = 7"
    then have "drop_bit 12 v = 7"
      by (intro word_unat_eq_iff [THEN iffD2]) (simp only: unat_drop, simp)
    then have b: "bit (drop_bit 12 v) k = bit (7::u16) k" for k by simp
    have "v AND 0x7000 = 0x7000"
      using b [of 0] b [of 1] b [of 2] by (intro u16_eqI) (simp_all add: bit_simps)
    then show False using assms(1) by simp
  qed
  ultimately have "unat v div 4096 < 7" using div_less_iff_less_mult [of 4096 "unat v" 8] by simp
  then have lt: "unat v < 28672" using div_less_iff_less_mult [of 4096 "unat v" 7] by simp
  then have u: "unat (v + 0x1000) = unat v + 4096" by (simp add: unat_word_ariths)
  show "unat (drop_bit 12 (v + 0x1000)) = unat (drop_bit 12 v) + 1"
    by (simp only: unat_drop u) simp
  show "unat (drop_bit 12 (v + 0x1000)) < 8"
    using lt by (simp only: unat_drop u) simp
  show "(v + 0x1000) AND 0xFFF = v AND 0xFFF"
    by (intro word_unat_eq_iff [THEN iffD2]) (simp only: low u, simp)
qed

text \<open>The position the scroll register stands for: the tile column of the two nametables side by
  side (0 to 63), and the pixel row of the two nametables above each other (0 to 479, as long as
  coarse Y is a row of tiles and not in the attribute table).\<close>

definition tile_column :: "ppu_scroll \<Rightarrow> nat" where
  "tile_column s = (if bit (sc_v s) 10 then 32 else 0) + unat (coarse_x s)"

definition pixel_row :: "ppu_scroll \<Rightarrow> nat" where
  "pixel_row s = (if bit (sc_v s) 11 then 240 else 0) + 8 * unat (coarse_y s) + unat (fine_y s)"

definition scroll_ok :: "ppu_scroll \<Rightarrow> bool" where
  "scroll_ok s \<longleftrightarrow> \<not> bit (sc_v s) 15 \<and> \<not> bit (sc_t s) 15 \<and> unat (sc_x s) < 8"

lemma drop_bit_eq_bits: "drop_bit n v = drop_bit n w \<Longrightarrow> n \<le> k \<Longrightarrow> bit v k = bit w k" for v w :: u16
proof -
  assume eq: "drop_bit n v = drop_bit n w" and le: "n \<le> k"
  have "bit x k = bit (drop_bit n x) (k - n)" for x :: u16 using le by (simp only: bit_drop_bit_eq) simp
  then show ?thesis using eq by simp
qed

lemma increment_x_coarse_x:
  "unat (coarse_x (increment_x s)) = (if coarse_x s = 31 then 0 else unat (coarse_x s) + 1)"
proof (cases "sc_v s AND 0x1F = 31")
  case True
  have "((sc_v s AND NOT 0x1F) XOR 0x400) AND 0x1F = 0" by (rule u16_eqI; simp add: bit_simps)
  then show ?thesis using True by (simp add: coarse_x_def increment_x_def scroll_consts)
next
  case False
  have "unat (sc_v s AND 0x1F) \<le> 31" using unat_and_le [of "sc_v s" "0x1F"] by simp
  moreover have "unat (sc_v s AND 0x1F) \<noteq> 31" using False by (auto simp: word_unat_eq_iff)
  ultimately have "unat ((sc_v s AND 0x1F) + 1) = unat (sc_v s AND 0x1F) + 1"
    by (simp add: unat_word_ariths)
  then show ?thesis
    using False add_one_low(2) [of "sc_v s"]
    by (simp add: coarse_x_def increment_x_def scroll_consts)
qed

lemma increment_x_bits:
  assumes "5 \<le> k" and "k < 16"
  shows "bit (sc_v (increment_x s)) k = (bit (sc_v s) k \<noteq> (k = 10 \<and> coarse_x s = 31))"
proof (cases "sc_v s AND 0x1F = 31")
  case True
  then have "sc_v (increment_x s) = (sc_v s AND NOT (mask 5)) XOR push_bit 10 1" "coarse_x s = 31"
    by (simp_all add: coarse_x_def increment_x_def scroll_consts masks_eq(1) [symmetric])
  moreover have "bit (push_bit 10 (1::u16)) k \<longleftrightarrow> k = 10"
    by (auto simp only: bit_push_bit_iff bit_1_iff) simp_all
  ultimately show ?thesis
    using assms by (simp only: bit_xor_iff bit_and_iff bit_not_iff_eq bit_mask_iff) auto
next
  case False
  then show ?thesis
    using drop_bit_eq_bits [OF add_one_low(1) assms(1)]
    by (simp add: coarse_x_def increment_x_def scroll_consts)
qed

lemma increment_x_rest:
  "coarse_y (increment_x s) = coarse_y s" "fine_y (increment_x s) = fine_y s"
  "sc_t (increment_x s) = sc_t s" "sc_x (increment_x s) = sc_x s"
  "sc_latch (increment_x s) = sc_latch s"
proof -
  show "coarse_y (increment_x s) = coarse_y s" "fine_y (increment_x s) = fine_y s"
    by (rule u16_eqI; simp add: coarse_y_def fine_y_def scroll_consts bit_simps increment_x_bits)+
qed (simp_all add: increment_x_def)

lemma scroll_ok_increment_x [wf_intros]: "scroll_ok s \<Longrightarrow> scroll_ok (increment_x s)"
  by (simp add: scroll_ok_def increment_x_bits increment_x_rest)

lemma tile_column_increment_x: "tile_column (increment_x s) = (tile_column s + 1) mod 64"
proof -
  have "unat (coarse_x s) \<le> 31"
    using unat_and_le [of "sc_v s" "0x1F"] by (simp add: coarse_x_def scroll_consts)
  moreover have "coarse_x s = 31 \<longleftrightarrow> unat (coarse_x s) = 31" by (auto simp: word_unat_eq_iff)
  ultimately show ?thesis
    by (auto simp: tile_column_def increment_x_coarse_x increment_x_bits)
qed

lemma coarse_y_bits: "coarse_y s = drop_bit 5 (sc_v s) AND 0x1F"
  unfolding coarse_y_def scroll_consts by (rule u16_eqI; simp add: bit_simps)

lemma coarse_y_le: "unat (coarse_y s) \<le> 31"
  unfolding coarse_y_bits using unat_and_le [of "drop_bit 5 (sc_v s)" "0x1F"] by simp

text \<open>The last row of a tile: \<open>increment_y\<close> goes to row 0 of the next row of tiles.\<close>

lemma increment_y_carry:
  assumes "sc_v s AND FINE_Y_MASK = FINE_Y_MASK"
  defines "y' \<equiv> if coarse_y s = 29 \<or> coarse_y s = 31 then 0 else coarse_y s + 1"
  shows "sc_v (increment_y s) =
    ((sc_v s AND 0x8C1F) XOR (if coarse_y s = 29 then 0x800 else 0)) OR push_bit 5 y'"
proof -
  have cy: "drop_bit 5 ((sc_v s AND NOT FINE_Y_MASK) AND COARSE_Y_MASK) = coarse_y s"
    unfolding coarse_y_def scroll_consts by (rule u16_eqI; simp add: bit_simps)
  have k: "(sc_v s AND NOT FINE_Y_MASK) AND NOT COARSE_Y_MASK = sc_v s AND 0x8C1F"
    unfolding scroll_consts by (rule u16_eqI; simp add: bit_simps)
  have kx: "((sc_v s AND NOT FINE_Y_MASK) XOR NT_Y_MASK) AND NOT COARSE_Y_MASK = (sc_v s AND 0x8C1F) XOR 0x800"
    unfolding scroll_consts by (rule u16_eqI; simp add: bit_simps)
  show ?thesis
    unfolding increment_y_def if_P [OF assms(1)] Let_def cy y'_def
    by (simp add: k kx Y_MAX_COL_def Y_OVER_COL_def)
qed

lemma fine_y_full: "sc_v s AND FINE_Y_MASK = FINE_Y_MASK \<longleftrightarrow> bit (sc_v s) 12 \<and> bit (sc_v s) 13 \<and> bit (sc_v s) 14"
proof
  assume "sc_v s AND FINE_Y_MASK = FINE_Y_MASK"
  then have "bit (sc_v s AND FINE_Y_MASK) k = bit FINE_Y_MASK k" for k by simp
  from this [of 12] this [of 13] this [of 14]
  show "bit (sc_v s) 12 \<and> bit (sc_v s) 13 \<and> bit (sc_v s) 14"
    by (simp add: scroll_consts bit_simps)
next
  assume "bit (sc_v s) 12 \<and> bit (sc_v s) 13 \<and> bit (sc_v s) 14"
  then show "sc_v s AND FINE_Y_MASK = FINE_Y_MASK"
    by (intro u16_eqI) (simp_all add: scroll_consts bit_simps)
qed

lemma fine_y_7: "\<not> bit (sc_v s) 15 \<Longrightarrow> sc_v s AND FINE_Y_MASK = FINE_Y_MASK \<Longrightarrow> fine_y s = 7"
  unfolding fine_y_full fine_y_def by (intro u16_eqI) (simp_all add: bit_simps)

lemma increment_y_carry_fields:
  assumes full: "sc_v s AND FINE_Y_MASK = FINE_Y_MASK" and hi: "\<not> bit (sc_v s) 15"
  shows "coarse_y (increment_y s) = (if coarse_y s = 29 \<or> coarse_y s = 31 then 0 else coarse_y s + 1)"
    and "fine_y (increment_y s) = 0" and "coarse_x (increment_y s) = coarse_x s"
    and "bit (sc_v (increment_y s)) 10 = bit (sc_v s) 10"
    and "bit (sc_v (increment_y s)) 11 = (bit (sc_v s) 11 \<noteq> (coarse_y s = 29))"
    and "\<not> bit (sc_v (increment_y s)) 15"
proof -
  define y where "y = (if coarse_y s = 29 \<or> coarse_y s = 31 then 0 else coarse_y s + 1)"
  have "unat (coarse_y s + 1) \<le> 31" if "coarse_y s \<noteq> 31"
    using coarse_y_le [of s] that by (auto simp: unat_word_ariths word_unat_eq_iff)
  then have "unat y < 2 ^ 5" by (auto simp: y_def)
  then have y: "\<not> bit y k" if "5 \<le> k" for k using word_high_bits that by blast
  have v: "sc_v (increment_y s) = ((sc_v s AND 0x8C1F) XOR (if coarse_y s = 29 then 0x800 else 0)) OR push_bit 5 y"
    using increment_y_carry [OF full] by (simp add: y_def)
  note b = v bit_or_iff bit_xor_iff bit_and_iff bit_push_bit_iff y
  show "coarse_y (increment_y s) = y"
    unfolding coarse_y_bits by (rule u16_eqI; simp add: b bit_simps)
  show "fine_y (increment_y s) = 0"
    unfolding fine_y_def using hi by (intro u16_eqI; simp add: b bit_simps)
  show "coarse_x (increment_y s) = coarse_x s"
    unfolding coarse_x_def scroll_consts by (rule u16_eqI; simp add: b bit_simps)
  show "bit (sc_v (increment_y s)) 10 = bit (sc_v s) 10" by (simp add: b)
  show "bit (sc_v (increment_y s)) 11 = (bit (sc_v s) 11 \<noteq> (coarse_y s = 29))" by (simp add: b)
  show "\<not> bit (sc_v (increment_y s)) 15" using hi by (simp add: b)
qed

lemma increment_y_step_fields:
  assumes full: "sc_v s AND FINE_Y_MASK \<noteq> FINE_Y_MASK" and hi: "\<not> bit (sc_v s) 15"
  shows "unat (fine_y (increment_y s)) = unat (fine_y s) + 1" and "unat (fine_y (increment_y s)) < 8"
    and "k < 12 \<Longrightarrow> bit (sc_v (increment_y s)) k = bit (sc_v s) k"
    and "\<not> bit (sc_v (increment_y s)) 15"
proof -
  have f: "sc_v s AND 0x7000 \<noteq> 0x7000" using full by (simp add: scroll_consts)
  have v: "sc_v (increment_y s) = sc_v s + 0x1000"
    unfolding increment_y_def if_not_P [OF full] by (simp add: Y_INCREMENT_def)
  show "unat (fine_y (increment_y s)) = unat (fine_y s) + 1"
    using add_fine_y(1) [OF f hi] by (simp only: fine_y_def v)
  show lt: "unat (fine_y (increment_y s)) < 8"
    using add_fine_y(3) [OF f hi] by (simp only: fine_y_def v)
  have low: "bit ((sc_v s + 0x1000) AND mask 12) k = bit (sc_v s AND mask 12) k" for k
    using add_fine_y(2) [OF f hi] by (simp only: masks_eq)
  show "k < 12 \<Longrightarrow> bit (sc_v (increment_y s)) k = bit (sc_v s) k"
    using low [of k] by (auto simp: v bit_and_iff bit_mask_iff)
  have "\<not> bit (fine_y (increment_y s)) 3" using word_high_bits [of _ 3 3] lt by simp
  then show "\<not> bit (sc_v (increment_y s)) 15" by (simp add: fine_y_def bit_simps)
qed

lemma increment_y_rest [simp]:
  "sc_t (increment_y s) = sc_t s" "sc_x (increment_y s) = sc_x s" "sc_latch (increment_y s) = sc_latch s"
  by (simp_all add: increment_y_def Let_def split_beta)

lemma scroll_ok_increment_y [wf_intros]: "scroll_ok s \<Longrightarrow> scroll_ok (increment_y s)"
  using increment_y_carry_fields(6) [of s] increment_y_step_fields(4) [of s]
  by (auto simp: scroll_ok_def)

lemma tile_column_increment_y: "scroll_ok s \<Longrightarrow> tile_column (increment_y s) = tile_column s"
proof (cases "sc_v s AND FINE_Y_MASK = FINE_Y_MASK")
  case False
  assume ok: "scroll_ok s"
  note f = increment_y_step_fields(3) [OF False]
  have "coarse_x (increment_y s) = coarse_x s"
    unfolding coarse_x_def scroll_consts using ok
    by (intro u16_eqI) (simp_all add: bit_simps scroll_ok_def f)
  then show ?thesis using ok by (simp add: tile_column_def scroll_ok_def f)
qed (simp add: scroll_ok_def tile_column_def increment_y_carry_fields)

lemma pixel_row_increment_y:
  assumes ok: "scroll_ok s" and row: "unat (coarse_y s) \<le> 29"
  shows "pixel_row (increment_y s) = (pixel_row s + 1) mod 480"
proof (cases "sc_v s AND FINE_Y_MASK = FINE_Y_MASK")
  case True
  have hi: "\<not> bit (sc_v s) 15" using ok by (simp add: scroll_ok_def)
  note f = increment_y_carry_fields [OF True hi]
  have e: "coarse_y s = 29 \<longleftrightarrow> unat (coarse_y s) = 29" "coarse_y s \<noteq> 31"
    using row by (auto simp: word_unat_eq_iff)
  have "unat (coarse_y s + 1) = unat (coarse_y s) + 1"
    using row by (simp add: unat_word_ariths)
  then show ?thesis
    using fine_y_7 [OF hi True] row e by (auto simp: pixel_row_def f split: if_splits)
next
  case False
  have hi: "\<not> bit (sc_v s) 15" using ok by (simp add: scroll_ok_def)
  note f = increment_y_step_fields [OF False hi]
  have "coarse_y (increment_y s) = coarse_y s"
    unfolding coarse_y_bits by (rule u16_eqI; simp add: bit_simps f)
  then show ?thesis using f(1,2) row by (simp add: pixel_row_def f(3))
qed

lemma tile_column_copy_x: "sc_v s' = sc_t s \<Longrightarrow> tile_column (copy_x s) = tile_column s'"
proof -
  assume t: "sc_v s' = sc_t s"
  have "coarse_x (copy_x s) = coarse_x s'"
    by (rule u16_eqI; simp add: coarse_x_def copy_x_def scroll_consts bit_simps t)
  then show ?thesis by (simp add: tile_column_def copy_x_def scroll_consts bit_simps t)
qed

lemma copy_x_keeps_row: "coarse_y (copy_x s) = coarse_y s" "fine_y (copy_x s) = fine_y s"
  "bit (sc_v (copy_x s)) 11 = bit (sc_v s) 11"
  by (rule u16_eqI | simp add: coarse_y_def fine_y_def copy_x_def scroll_consts bit_simps)+

lemma pixel_row_copy_y:
  assumes "\<not> bit (sc_v s) 15" and "\<not> bit (sc_t s) 15" and t: "sc_v s' = sc_t s"
  shows "pixel_row (copy_y s) = pixel_row s'"
proof -
  have "coarse_y (copy_y s) = coarse_y s'"
    by (rule u16_eqI; simp add: coarse_y_def copy_y_def scroll_consts bit_simps t)
  moreover have "fine_y (copy_y s) = fine_y s'"
    using assms by (intro u16_eqI) (simp_all add: fine_y_def copy_y_def scroll_consts bit_simps)
  moreover have "bit (sc_v (copy_y s)) 11 = bit (sc_v s') 11"
    by (simp add: copy_y_def scroll_consts bit_simps t)
  ultimately show ?thesis by (simp add: pixel_row_def)
qed

lemma scroll_ok_ops [wf_intros]:
  "scroll_ok scroll_new"
  "scroll_ok s \<Longrightarrow> scroll_ok (scroll_write s w)"
  "scroll_ok s \<Longrightarrow> scroll_ok (scroll_write_addr s w)"
  "scroll_ok s \<Longrightarrow> scroll_ok (scroll_increment s n)"
  "scroll_ok s \<Longrightarrow> scroll_ok (copy_x s)"
  "scroll_ok s \<Longrightarrow> scroll_ok (copy_y s)"
  "scroll_ok s \<Longrightarrow> scroll_ok (reset_latch s)"
  "scroll_ok s \<Longrightarrow> scroll_ok (write_nametable_select s w)"
  "scroll_ok s \<Longrightarrow> scroll_ok (scroll_reset s k)"
proof -
  have x: "unat (ucast w AND 0x07 :: u16) < 8" using unat_and_le [of "ucast w" "0x07 :: u16"] by simp
  show "scroll_ok s \<Longrightarrow> scroll_ok (scroll_write s w)"
    using x by (auto simp: scroll_ok_def scroll_write_def scroll_consts Let_def bit_simps)
qed (auto simp: scroll_ok_def scroll_new_def scroll_write_addr_def scroll_increment_def copy_x_def
    copy_y_def reset_latch_def write_nametable_select_def scroll_reset_def scroll_consts Let_def bit_simps)

text \<open>The attribute byte of a tile: one byte for each block of four by four tiles, in the 64 bytes
  after the 960 tiles of the nametable; the shift selects the quarter of the block.\<close>

lemma attr_addr_fields:
  "attr_addr s AND 0x3F = push_bit 3 (drop_bit 2 (coarse_y s)) OR drop_bit 2 (coarse_x s)"
  "attr_addr s AND 0x0C00 = sc_v s AND 0x0C00"
  "attr_addr s AND NOT 0x0C3F = 0x23C0"
  by (rule u16_eqI; simp add: attr_addr_def coarse_y_def coarse_x_def scroll_consts Let_def bit_simps)+

lemma attr_shift_fields:
  "bit (attr_shift s) 1 = bit (coarse_x s) 1" "bit (attr_shift s) 2 = bit (coarse_y s) 1"
  "attr_shift s AND NOT 0x06 = 0"
  by (rule u16_eqI | simp add: attr_shift_def coarse_y_def coarse_x_def scroll_consts bit_simps)+

text \<open>Two writes to PPUSCROLL, two writes to PPUADDR.\<close>

lemma scroll_write_pair:
  fixes x y :: u8
  assumes "\<not> sc_latch s" and ok: "scroll_ok s"
  defines "s' \<equiv> scroll_write (scroll_write s x) y"
  shows "sc_t s' = (sc_t s AND 0x0C00) OR push_bit 12 (ucast y AND 7)
      OR push_bit 5 (drop_bit 3 (ucast y)) OR drop_bit 3 (ucast x)"
    and "sc_x s' = ucast x AND 7" and "sc_v s' = sc_v s" and "\<not> sc_latch s'"
proof -
  show "sc_t s' = (sc_t s AND 0x0C00) OR push_bit 12 (ucast y AND 7)
      OR push_bit 5 (drop_bit 3 (ucast y)) OR drop_bit 3 (ucast x)"
    unfolding s'_def using assms(1) ok
    by (intro u16_eqI) (simp_all add: scroll_ok_def scroll_write_def Let_def scroll_consts bit_simps)
qed (use assms(1) in \<open>simp_all add: s'_def scroll_write_def Let_def\<close>)

lemma scroll_write_addr_pair:
  fixes hi lo :: u8
  assumes "\<not> sc_latch s"
  defines "s' \<equiv> scroll_write_addr (scroll_write_addr s hi) lo"
  shows "sc_v s' = u16_from_le_bytes lo hi AND 0x3FFF" and "sc_t s' = sc_v s'" and "sc_x s' = sc_x s"
    and "\<not> sc_latch s'"
proof -
  have "sc_t s' = u16_from_le_bytes lo hi AND 0x3FFF"
    unfolding s'_def using assms(1)
    by (intro u16_eqI) (simp_all add: scroll_write_addr_def Let_def scroll_consts bit_simps u16_from_le_bytes_def)
  moreover have "sc_v s' = sc_t s' AND 0x3FFF"
    using assms(1) by (simp add: s'_def scroll_write_addr_def Let_def scroll_consts)
  ultimately show "sc_v s' = u16_from_le_bytes lo hi AND 0x3FFF" "sc_t s' = sc_v s'"
    by (simp_all add: and.assoc)
qed (use assms(1) in \<open>simp_all add: s'_def scroll_write_addr_def Let_def\<close>)

end
