(* ===== verification/PpuBus.thy ===== *)
theory PpuBus
  imports Mapper PpuRegs
begin

text \<open>
  \<open>src/ppu/bus.rs\<close>: the address space of the PPU. The pattern tables ($0000-$1FFF) are cartridge
  memory behind the mapper, the nametables ($2000-$3EFF) the console's 2 KB (or the mapper's),
  the palette 32 bytes. The theory relies on the contract \<open>mem_map\<close> of the mappers: on a
  well-formed bus no access panics, and an access keeps the bus well-formed.

  \<open>Mirroring as usize\<close> numbers the enum in the order of its declaration (\<open>mirroring_index\<close>).
\<close>

section \<open>State\<close>

record ppu_bus =
  pb_mapper :: mapper
  pb_mirror_shift :: nat
  pb_ciram :: "u8 list"
  pb_palette :: "u8 list"
  pb_chr_rom :: "u8 list"
  pb_chr_ram :: "u8 list"
  pb_exram :: "u8 list"
  pb_open_bus :: u8

definition VRAM_SIZE :: nat where "VRAM_SIZE = 0x0800"
definition PALETTE_SIZE :: nat where "PALETTE_SIZE = 32"
definition NT_SIZE :: u16 where "NT_SIZE = 0x0400"

fun mirroring_index :: "mirroring \<Rightarrow> nat" where
  "mirroring_index Vertical = 0"
| "mirroring_index Horizontal = 1"
| "mirroring_index SingleScreenA = 2"
| "mirroring_index SingleScreenB = 3"
| "mirroring_index FourScreen = 4"

definition ppu_bus_new :: ppu_bus where
  "ppu_bus_new =
     \<lparr>pb_mapper = mapper_none, pb_mirror_shift = mirroring_index mirroring_default,
      pb_ciram = replicate VRAM_SIZE 0x00, pb_palette = replicate PALETTE_SIZE 0x00,
      pb_chr_rom = [], pb_chr_ram = [], pb_exram = [], pb_open_bus = 0x00\<rparr>"

definition pb_mirroring :: "ppu_bus \<Rightarrow> mirroring" where
  "pb_mirroring b = mapper_mirroring (pb_mapper b)"

definition pb_update_mirroring :: "ppu_bus \<Rightarrow> ppu_bus" where
  "pb_update_mirroring b = b\<lparr>pb_mirror_shift := mirroring_index (pb_mirroring b)\<rparr>"

definition pb_load_chr_rom :: "ppu_bus \<Rightarrow> u8 list \<Rightarrow> ppu_bus" where
  "pb_load_chr_rom b chr_rom = b\<lparr>pb_chr_rom := chr_rom\<rparr>"

definition pb_load_chr_ram :: "ppu_bus \<Rightarrow> u8 list \<Rightarrow> ppu_bus" where
  "pb_load_chr_ram b chr_ram = b\<lparr>pb_chr_ram := chr_ram\<rparr>"

definition pb_load_ex_ram :: "ppu_bus \<Rightarrow> u8 list \<Rightarrow> ppu_bus" where
  "pb_load_ex_ram b ex_ram = b\<lparr>pb_exram := ex_ram\<rparr>"

definition pb_load_mapper :: "ppu_bus \<Rightarrow> mapper \<Rightarrow> ppu_bus" where
  "pb_load_mapper b m = b\<lparr>pb_mapper := m\<rparr>"

section \<open>Address mirroring\<close>

text \<open>Only called with the address of a bus access, so on 16 bits.\<close>

definition ciram_mirror :: "nat \<Rightarrow> u16 \<Rightarrow> u16" where
  "ciram_mirror mirror_shift addr =
     (let nametable = drop_bit mirror_shift addr AND NT_SIZE
      in nametable OR (NOT nametable AND addr AND 0x03FF))"

definition palette_mirror :: "u16 \<Rightarrow> u16" where
  "palette_mirror addr =
     (let addr = addr AND 0x001F
      in if addr \<ge> 16 \<and> addr AND 0x03 = 0 then addr - 16 else addr)"

section \<open>Bus accesses\<close>

text \<open>The nametable access that is left to the console's own memory.\<close>

definition pb_ciram_read :: "ppu_bus \<Rightarrow> u16 \<Rightarrow> u8 option" where
  "pb_ciram_read b addr =
     (if pb_mirroring b = FourScreen then Some 0x00
      else vec_get (pb_ciram b) (unat (ciram_mirror (pb_mirror_shift b) addr)))"

definition pb_nametable_read :: "ppu_bus \<Rightarrow> u16 \<Rightarrow> mapped_read \<Rightarrow> u8 option" where
  "pb_nametable_read b addr r =
     (case r of
        CIRamR i \<Rightarrow> vec_get (pb_ciram b) (i AND 0x07FF)
      | ExRamR i \<Rightarrow> vec_get (pb_exram b) (i AND 0x03FF)
      | DataR data \<Rightarrow> Some data
      | _ \<Rightarrow> pb_ciram_read b addr)"

definition chr_index :: "u16 \<Rightarrow> mapped_read \<Rightarrow> nat" where
  "chr_index addr r = (case r of ChrR i \<Rightarrow> i | _ \<Rightarrow> unat addr)"

definition pb_read :: "ppu_bus \<Rightarrow> u16 \<Rightarrow> (u8 \<times> ppu_bus) option" where
  "pb_read b addr =
     do { (val, b) \<leftarrow>
            (if addr \<le> 0x1FFF then
               do { (r, m) \<leftarrow> mapper_map_read (pb_mapper b) addr;
                    val \<leftarrow> vec_get (if pb_chr_rom b = [] then pb_chr_ram b else pb_chr_rom b)
                            (chr_index addr r);
                    Some (val, b\<lparr>pb_mapper := m\<rparr>) }
             else if addr \<le> 0x3EFF then
               do { (r, m) \<leftarrow> mapper_map_read (pb_mapper b) addr;
                    val \<leftarrow> pb_nametable_read (b\<lparr>pb_mapper := m\<rparr>) addr r;
                    Some (val, b\<lparr>pb_mapper := m\<rparr>) }
             else if addr \<le> 0x3FFF then
               do { val \<leftarrow> vec_get (pb_palette b) (unat (palette_mirror addr)); Some (val, b) }
             else Some (0x00, b));
          Some (val, b\<lparr>pb_open_bus := val\<rparr>) }"

definition pb_peek :: "ppu_bus \<Rightarrow> u16 \<Rightarrow> u8 option" where
  "pb_peek b addr =
     (if 0x2000 \<le> addr \<and> addr \<le> 0x3EFF then
        do { r \<leftarrow> mapper_map_peek (pb_mapper b) addr; pb_nametable_read b addr r }
      else if addr \<le> 0x1FFF then
        do { r \<leftarrow> mapper_map_peek (pb_mapper b) addr;
             vec_get (if pb_chr_ram b \<noteq> [] then pb_chr_ram b else pb_chr_rom b) (chr_index addr r) }
      else if addr \<le> 0x3FFF then vec_get (pb_palette b) (unat (palette_mirror addr))
      else Some 0x00)"

text \<open>The effect of a write to a nametable, given what the mapper answers.\<close>

definition pb_nametable_write :: "ppu_bus \<Rightarrow> u16 \<Rightarrow> u8 \<Rightarrow> mapped_write \<Rightarrow> ppu_bus option" where
  "pb_nametable_write b addr val w =
     (case w of
        CIRamW i v \<Rightarrow> do { ciram \<leftarrow> vec_set (pb_ciram b) i v; Some (b\<lparr>pb_ciram := ciram\<rparr>) }
      | ExRamW i v \<Rightarrow> do { exram \<leftarrow> vec_set (pb_exram b) i v; Some (b\<lparr>pb_exram := exram\<rparr>) }
      | _ \<Rightarrow>
          if pb_mirroring b \<noteq> FourScreen then
            do { ciram \<leftarrow> vec_set (pb_ciram b) (unat (ciram_mirror (pb_mirror_shift b) addr)) val;
                 Some (b\<lparr>pb_ciram := ciram\<rparr>) }
          else Some b)"

definition pb_chr_write :: "ppu_bus \<Rightarrow> mapped_write \<Rightarrow> ppu_bus option" where
  "pb_chr_write b w =
     (case w of
        ChrW i v \<Rightarrow> do { chr_ram \<leftarrow> vec_set (pb_chr_ram b) i v; Some (b\<lparr>pb_chr_ram := chr_ram\<rparr>) }
      | _ \<Rightarrow> Some b)"

definition pb_write :: "ppu_bus \<Rightarrow> u16 \<Rightarrow> u8 \<Rightarrow> ppu_bus option" where
  "pb_write b addr val =
     do { b \<leftarrow>
            (if 0x2000 \<le> addr \<and> addr \<le> 0x3EFF then
               do { (w, m) \<leftarrow> mapper_map_write (pb_mapper b) addr val;
                    pb_nametable_write (b\<lparr>pb_mapper := m\<rparr>) addr val w }
             else if addr \<le> 0x1FFF then
               (if pb_chr_ram b \<noteq> [] then
                  do { (w, m) \<leftarrow> mapper_map_write (pb_mapper b) addr val;
                       pb_chr_write (b\<lparr>pb_mapper := m\<rparr>) w }
                else Some b)
             else if addr \<le> 0x3FFF then
               do { palette \<leftarrow> vec_set (pb_palette b) (unat (palette_mirror addr)) val;
                    Some (b\<lparr>pb_palette := palette\<rparr>) }
             else Some b);
          Some (b\<lparr>pb_mapper := mapper_ppu_bus_write (pb_mapper b) addr val, pb_open_bus := val\<rparr>) }"

definition pb_set_region :: "ppu_bus \<Rightarrow> nes_region \<Rightarrow> ppu_bus" where
  "pb_set_region b region = b\<lparr>pb_mapper := mapper_set_region (pb_mapper b) region\<rparr>"

definition pb_reset :: "ppu_bus \<Rightarrow> kind \<Rightarrow> ppu_bus option" where
  "pb_reset b k =
     do { m \<leftarrow> mapper_reset (pb_mapper b) k; Some (b\<lparr>pb_open_bus := 0x00, pb_mapper := m\<rparr>) }"

section \<open>Four-screen boards\<close>

text \<open>The one board that answers with extended RAM is \<open>Txrom\<close> with a four-screen header. The
  contract of the bus is for the other boards.\<close>

fun uses_exram :: "mapper \<Rightarrow> bool" where
  "uses_exram (MTxrom t) \<longleftrightarrow> tx_mirroring t = FourScreen"
| "uses_exram _ \<longleftrightarrow> False"

lemma tx_mirroring_update_banks: "tx_update_banks t = Some t' \<Longrightarrow> tx_mirroring t' = tx_mirroring t"
  by (auto simp: tx_update_banks_def bind_Some_iff)

lemma tx_mirroring_write_register:
  "tx_write_register t a v = Some t' \<Longrightarrow> tx_mirroring t \<noteq> FourScreen \<Longrightarrow> tx_mirroring t' \<noteq> FourScreen"
  by (auto simp: tx_write_register_def Let_def bind_Some_iff split: if_splits
      dest!: tx_mirroring_update_banks)

lemma tx_mirroring_clock_irq [simp]: "tx_mirroring (tx_clock_irq t a) = tx_mirroring t"
  by (simp add: tx_clock_irq_def Let_def split_beta)

lemma uses_exram_read: "mapper_map_read m a = Some (r, m') \<Longrightarrow> uses_exram m' = uses_exram m"
  by (cases m) (auto simp: lift_map_def map_read_default_def txrom_map_read_def Let_def bind_Some_iff)

lemma uses_exram_set_region [simp]: "uses_exram (mapper_set_region m r) = uses_exram m"
  by (cases m) simp_all

lemma uses_exram_cpu_write [simp]: "uses_exram (mapper_cpu_bus_write m a v) = uses_exram m"
  by (cases m) simp_all

lemma uses_exram_write: "mapper_map_write m a v = Some (w, m') \<Longrightarrow> \<not> uses_exram m \<Longrightarrow> \<not> uses_exram m'"
  by (cases m)
    (auto simp: lift_map_def txrom_map_write_def bind_Some_iff tx_mirroring_write_register split: if_splits)

lemma uses_exram_bus_write [simp]: "uses_exram (mapper_ppu_bus_write m a v) = uses_exram m"
  by (cases m) (simp_all add: txrom_ppu_bus_write_def)

lemma uses_exram_reset: "mapper_reset m k = Some m' \<Longrightarrow> uses_exram m' = uses_exram m"
  by (cases m) (auto simp: txrom_reset_def dest!: tx_mirroring_update_banks)

lemma exrom_peek_no_exram: "exrom_map_peek m a \<noteq> Some (ExRamR i)"
  by (auto simp: exrom_map_peek_def ex_peek_chr_def ex_peek_nametable_def Let_def bind_Some_iff
      split: if_splits option.splits nametable.splits)

lemma exrom_write_no_exram: "exrom_map_write m a v \<noteq> Some (ExRamW i x, m')"
  by (auto simp: exrom_map_write_def ex_write_nametable_def ex_write_protect_def Let_def bind_Some_iff
      split: if_splits option.splits nametable.splits exram_rw.splits)

lemma exram_read:
  "mapper_map_peek m a = Some (ExRamR i) \<Longrightarrow> uses_exram m"
  by (cases m) (auto simp: nrom_map_peek_def sxrom_map_peek_def uxrom_map_peek_def cnrom_map_peek_def
      txrom_map_peek_def axrom_map_peek_def pxrom_map_peek_def gxrom_map_peek_def bf909x_map_peek_def
      vrc6_map_peek_def exrom_peek_no_exram Let_def split: if_splits)

lemma exram_write:
  "mapper_map_write m a v = Some (ExRamW i x, m') \<Longrightarrow> uses_exram m"
  by (cases m) (auto simp: lift_map_def nrom_map_write_def sxrom_map_write_def uxrom_map_write_def
      cnrom_map_write_def txrom_map_write_def axrom_map_write_def pxrom_map_write_def
      gxrom_map_write_def bf909x_map_write_def vrc6_map_write_def exrom_write_no_exram bind_Some_iff Let_def
      split: if_splits)

section \<open>Index bounds\<close>

lemma ciram_mirror_less: "unat (ciram_mirror sh addr) < 0x800"
proof -
  have "ciram_mirror sh addr = ciram_mirror sh addr AND 0x7FF"
    unfolding ciram_mirror_def NT_SIZE_def Let_def
    by (rule u16_eqI; simp add: bit_simps)
  then show ?thesis using unat_and_less [of "0x7FF" "0x800" "ciram_mirror sh addr"] by simp
qed

lemma palette_mirror_less: "unat (palette_mirror addr) < 32"
proof -
  have "unat (addr AND 0x1F) < 32" by (rule unat_and_less) simp
  then show ?thesis by (auto simp: palette_mirror_def Let_def unat_sub_if' word_le_nat_alt)
qed

text \<open>The nametable of an address in $2000-$2FFF, by mirroring mode: the four logical nametables
  (rows of two) and the one of the two physical ones each stands for.\<close>

fun physical_nametable :: "mirroring \<Rightarrow> bool \<Rightarrow> bool \<Rightarrow> bool" where
  "physical_nametable Vertical right lower = right"
| "physical_nametable Horizontal right lower = lower"
| "physical_nametable SingleScreenA right lower = False"
| "physical_nametable SingleScreenB right lower = True"
| "physical_nametable FourScreen right lower = False"

lemma ciram_mirror_bits:
  "k < 10 \<Longrightarrow> bit (ciram_mirror sh addr) k = bit addr k"
  "bit (ciram_mirror sh addr) 10 = bit addr (sh + 10)"
  "11 \<le> k \<Longrightarrow> \<not> bit (ciram_mirror sh addr) k"
proof -
  have m: "(0x400::u16) = push_bit 10 1" "(0x3FF::u16) = mask 10"
    by (simp_all add: mask_eq_exp_minus_1)
  have b: "bit (push_bit 10 (1::u16)) k \<longleftrightarrow> k = 10" for k
    by (auto simp only: bit_push_bit_iff bit_1_iff) simp_all
  note defs = ciram_mirror_def NT_SIZE_def Let_def m bit_or_iff bit_and_iff bit_not_iff_eq b
    bit_mask_iff bit_drop_bit_eq
  show "k < 10 \<Longrightarrow> bit (ciram_mirror sh addr) k = bit addr k"
    by (simp only: defs) (auto simp: less_trans [of k 10 16])
  show "bit (ciram_mirror sh addr) 10 = bit addr (sh + 10)" by (simp only: defs) (simp add: add.commute)
  show "11 \<le> k \<Longrightarrow> \<not> bit (ciram_mirror sh addr) k" by (simp only: defs) auto
qed

lemma nametable_addr_bits:
  "0x2000 \<le> addr \<Longrightarrow> addr < 0x3000 \<Longrightarrow> \<not> bit addr 12 \<and> bit addr 13" for addr :: u16
proof -
  assume "0x2000 \<le> addr" and "addr < 0x3000"
  then have "0x2000 \<le> unat addr" "unat addr < 0x3000"
    by (simp_all add: word_le_nat_alt word_less_nat_alt)
  then have "unat (drop_bit 12 addr) = 2"
    by (simp only: unat_drop) (simp add: div_nat_eqI)
  then have "drop_bit 12 addr = 2" by (simp add: word_unat_eq_iff)
  then have "bit (drop_bit 12 addr) k = bit (2::u16) k" for k by simp
  from this [of 0] this [of 1] show ?thesis by (simp add: bit_simps)
qed

lemma ciram_mirror_nametable:
  assumes "0x2000 \<le> addr" and "addr < 0x3000" and "mi \<noteq> FourScreen"
  shows "bit (ciram_mirror (mirroring_index mi) addr) 10
    = physical_nametable mi (bit addr 10) (bit addr 11)"
  using nametable_addr_bits [OF assms(1,2)] assms(3)
  by (cases mi) (simp_all add: ciram_mirror_bits)

section \<open>The invariant and its preservation\<close>

text \<open>The sizes of the memories against the board, and no four-screen \<open>Txrom\<close>.\<close>

definition ppu_bus_wf :: "board \<Rightarrow> ppu_bus \<Rightarrow> bool" where
  "ppu_bus_wf bd b \<longleftrightarrow>
     mapper_wf bd (pb_mapper b) \<and> \<not> uses_exram (pb_mapper b)
     \<and> length (pb_ciram b) = VRAM_SIZE \<and> length (pb_palette b) = PALETTE_SIZE
     \<and> (pb_chr_rom b \<noteq> [] \<or> pb_chr_ram b \<noteq> [])
     \<and> (\<forall>mem \<in> {pb_chr_rom b, pb_chr_ram b}. mem \<noteq> [] \<longrightarrow> bd_chr bd \<le> length mem \<and> 0x2000 \<le> length mem)"

lemma ppu_bus_wf_sizes:
  "ppu_bus_wf bd b \<Longrightarrow> length (pb_ciram b) = 0x800" "ppu_bus_wf bd b \<Longrightarrow> length (pb_palette b) = 32"
  by (simp_all add: ppu_bus_wf_def VRAM_SIZE_def PALETTE_SIZE_def)

lemma ppu_bus_wf_upd [simp]:
  "ppu_bus_wf bd (b\<lparr>pb_open_bus := x\<rparr>) = ppu_bus_wf bd b"
  "length cs = length (pb_ciram b) \<Longrightarrow> ppu_bus_wf bd (b\<lparr>pb_ciram := cs\<rparr>) = ppu_bus_wf bd b"
  "length ps = length (pb_palette b) \<Longrightarrow> ppu_bus_wf bd (b\<lparr>pb_palette := ps\<rparr>) = ppu_bus_wf bd b"
  "ppu_bus_wf bd (b\<lparr>pb_mirror_shift := n\<rparr>) = ppu_bus_wf bd b"
  by (simp_all add: ppu_bus_wf_def)

lemma ppu_bus_wf_chr_ram [simp]:
  "length cs = length (pb_chr_ram b) \<Longrightarrow> ppu_bus_wf bd (b\<lparr>pb_chr_ram := cs\<rparr>) = ppu_bus_wf bd b"
  by (cases "pb_chr_ram b"; cases cs) (simp_all add: ppu_bus_wf_def)

lemma ppu_bus_wf_mapper:
  "ppu_bus_wf bd b \<Longrightarrow> mapper_wf bd m \<Longrightarrow> \<not> uses_exram m \<Longrightarrow> ppu_bus_wf bd (b\<lparr>pb_mapper := m\<rparr>)"
  by (simp add: ppu_bus_wf_def)

lemma chr_index_in:
  assumes "addr \<le> (0x1FFF::u16)" and "read_in bd r" and "bd_chr bd \<le> n" and "0x2000 \<le> n"
  shows "chr_index addr r < n"
proof -
  have "unat addr < 0x2000" using assms(1) by (simp add: word_le_nat_alt)
  then show ?thesis using assms by (cases r) (auto simp: chr_index_def)
qed

lemma pb_map_read:
  assumes "ppu_bus_wf bd b"
  obtains r m where "mapper_map_read (pb_mapper b) a = Some (r, m)"
    "mapper_map_peek (pb_mapper b) a = Some r" "read_in bd r" "\<forall>i. r \<noteq> ExRamR i"
    "ppu_bus_wf bd (b\<lparr>pb_mapper := m\<rparr>)"
proof -
  have wf: "mapper_wf bd (pb_mapper b)" "\<not> uses_exram (pb_mapper b)"
    using assms by (simp_all add: ppu_bus_wf_def)
  obtain r m where r: "mapper_map_read (pb_mapper b) a = Some (r, m)"
      "mapper_map_peek (pb_mapper b) a = Some r" "mapper_wf bd m"
    using returnsD [OF mappers.read_peek [OF wf(1), of a]] by auto
  moreover have "read_in bd r"
    using mapper_peek_in [OF wf(1), of a] r(2) by simp
  moreover have "\<forall>i. r \<noteq> ExRamR i" using exram_read [of "pb_mapper b" a] r(2) wf(2) by auto
  moreover have "ppu_bus_wf bd (b\<lparr>pb_mapper := m\<rparr>)"
    using uses_exram_read [OF r(1)] wf(2) r(3) assms by (simp add: ppu_bus_wf_mapper)
  ultimately show thesis using that by blast
qed

lemma pb_map_write:
  assumes "ppu_bus_wf bd b"
  obtains w m where "mapper_map_write (pb_mapper b) a v = Some (w, m)" "write_in bd w"
    "\<forall>i x. w \<noteq> ExRamW i x" "ppu_bus_wf bd (b\<lparr>pb_mapper := m\<rparr>)"
proof -
  have wf: "mapper_wf bd (pb_mapper b)" "\<not> uses_exram (pb_mapper b)"
    using assms by (simp_all add: ppu_bus_wf_def)
  obtain w m where w: "mapper_map_write (pb_mapper b) a v = Some (w, m)" "write_in bd w" "mapper_wf bd m"
    using returnsD [OF mappers.write_ok [OF wf(1), of a v]] by auto
  moreover have "\<forall>i x. w \<noteq> ExRamW i x" using exram_write [of "pb_mapper b" a v] w(1) wf(2) by auto
  moreover have "ppu_bus_wf bd (b\<lparr>pb_mapper := m\<rparr>)"
    using uses_exram_write [OF w(1) wf(2)] w(3) assms by (simp add: ppu_bus_wf_mapper)
  ultimately show thesis using that by blast
qed

lemma pb_nametable_read_ok:
  assumes "ppu_bus_wf bd b" and "\<forall>i. r \<noteq> ExRamR i"
  shows "\<exists>x. pb_nametable_read b a r = Some x"
proof -
  have "n AND 0x7FF < 0x800" for n :: nat using nat_and_le2 [of n "0x7FF"] by simp
  then show ?thesis
    using assms ciram_mirror_less [of "pb_mirror_shift b" a]
    by (cases r) (simp_all add: pb_nametable_read_def pb_ciram_read_def ppu_bus_wf_sizes)
qed

lemma pb_read_ok [wf_intros]:
  assumes wf: "ppu_bus_wf bd b"
  shows "returns (pb_read b a) (\<lambda>(x, b'). ppu_bus_wf bd b')"
proof -
  obtain r m where r: "mapper_map_read (pb_mapper b) a = Some (r, m)" "read_in bd r" "\<forall>i. r \<noteq> ExRamR i"
    "ppu_bus_wf bd (b\<lparr>pb_mapper := m\<rparr>)" by (rule pb_map_read [OF wf, of a])
  obtain x where x: "pb_nametable_read (b\<lparr>pb_mapper := m\<rparr>) a r = Some x"
    using pb_nametable_read_ok [OF r(4,3)] by blast
  have "chr_index a r < length (if pb_chr_rom b = [] then pb_chr_ram b else pb_chr_rom b)" if "a \<le> 0x1FFF"
    using chr_index_in [OF that r(2)] wf by (auto simp: ppu_bus_wf_def)
  then show ?thesis
    using r x wf palette_mirror_less [of a] by (simp add: pb_read_def ppu_bus_wf_sizes)
qed

lemma pb_peek_ok:
  assumes wf: "ppu_bus_wf bd b"
  shows "\<exists>x. pb_peek b a = Some x"
proof -
  obtain r where r: "mapper_map_peek (pb_mapper b) a = Some r" "read_in bd r" "\<forall>i. r \<noteq> ExRamR i"
    by (rule pb_map_read [OF wf, of a])
  obtain x where "pb_nametable_read b a r = Some x" using pb_nametable_read_ok [OF wf r(3)] by blast
  moreover have "chr_index a r < length (if pb_chr_ram b \<noteq> [] then pb_chr_ram b else pb_chr_rom b)"
    if "a \<le> 0x1FFF"
    using chr_index_in [OF that r(2)] wf by (auto simp: ppu_bus_wf_def)
  ultimately show ?thesis
    using r palette_mirror_less [of a] by (simp add: pb_peek_def ppu_bus_wf_sizes [OF wf])
qed

lemma pb_write_ok [wf_intros]:
  assumes wf: "ppu_bus_wf bd b"
  shows "returns (pb_write b a v) (ppu_bus_wf bd)"
proof -
  obtain w m where w: "mapper_map_write (pb_mapper b) a v = Some (w, m)" "write_in bd w"
    "\<forall>i x. w \<noteq> ExRamW i x" and wf': "ppu_bus_wf bd (b\<lparr>pb_mapper := m\<rparr>)" (is "ppu_bus_wf bd ?b")
    by (rule pb_map_write [OF wf, of a v])
  have nt: "returns (pb_nametable_write ?b a v w) (ppu_bus_wf bd)"
    using w wf' ciram_mirror_less [of "pb_mirror_shift b" a] ppu_bus_wf_sizes [OF wf]
    by (cases w) (simp_all add: pb_nametable_write_def)
  have chr: "returns (pb_chr_write ?b w) (ppu_bus_wf bd)" if "pb_chr_ram b \<noteq> []"
    using w wf' wf that by (cases w) (auto simp: pb_chr_write_def ppu_bus_wf_def [of bd b])
  have end_wf: "ppu_bus_wf bd (c\<lparr>pb_mapper := mapper_ppu_bus_write (pb_mapper c) a v\<rparr>)
      = ppu_bus_wf bd c" for c
    by (simp add: ppu_bus_wf_def)
  show ?thesis
    using nt chr wf palette_mirror_less [of a] ppu_bus_wf_sizes [OF wf]
    by (simp add: pb_write_def w(1) end_wf)
qed

lemma pb_reset_ok [wf_intros]: "ppu_bus_wf bd b \<Longrightarrow> returns (pb_reset b k) (ppu_bus_wf bd)"
proof -
  assume wf: "ppu_bus_wf bd b"
  then obtain m where m: "mapper_reset (pb_mapper b) k = Some m" "mapper_wf bd m"
    using returnsD [OF mapper_wf_reset, of bd "pb_mapper b" k] by (auto simp: ppu_bus_wf_def)
  then show ?thesis
    using wf uses_exram_reset [OF m(1)] by (simp add: pb_reset_def ppu_bus_wf_def)
qed

lemma ppu_bus_wf_simple [wf_intros]:
  "ppu_bus_wf bd b \<Longrightarrow> ppu_bus_wf bd (pb_update_mirroring b)"
  "ppu_bus_wf bd b \<Longrightarrow> ppu_bus_wf bd (pb_set_region b r)"
  "ppu_bus_wf bd b \<Longrightarrow> ppu_bus_wf bd (b\<lparr>pb_mapper := mapper_ppu_bus_write (pb_mapper b) a v\<rparr>)"
  by (simp_all add: ppu_bus_wf_def pb_update_mirroring_def pb_set_region_def)

text \<open>A loaded cartridge gives a well-formed bus.\<close>

definition pb_load_cart :: "ppu_bus \<Rightarrow> mapper \<Rightarrow> cart \<Rightarrow> ppu_bus" where
  "pb_load_cart b m c =
     pb_update_mirroring (pb_load_mapper (pb_load_ex_ram (pb_load_chr_ram (pb_load_chr_rom b
       (cart_chr_rom c)) (cart_chr_ram c)) (cart_ex_ram c)) m)"

lemma pb_load_cart_wf:
  assumes "mapper_wf (board_of c) m" and "\<not> uses_exram m"
    and "length (pb_ciram b) = VRAM_SIZE" and "length (pb_palette b) = PALETTE_SIZE"
    and "cart_chr_ram c = []" and "0x2000 \<le> length (cart_chr_rom c)"
  shows "ppu_bus_wf (board_of c) (pb_load_cart b m c)"
  using assms
  by (auto simp: pb_load_cart_def pb_load_mapper_def pb_load_ex_ram_def pb_load_chr_ram_def
      pb_load_chr_rom_def pb_update_mirroring_def ppu_bus_wf_def board_of_def cart_chr_len_def)

section \<open>What a write does to later reads\<close>

lemma pb_palette_write_read:
  assumes "length (pb_palette b) = PALETTE_SIZE" and "0x3F00 \<le> a" "a \<le> 0x3FFF" "0x3F00 \<le> a'" "a' \<le> 0x3FFF"
  shows "returns (pb_write b a v) (\<lambda>b'. returns (pb_read b' a') (\<lambda>(x, _).
      if palette_mirror a' = palette_mirror a then x = v else Some x = pb_peek b a'))"
proof -
  have "\<not> a \<le> 0x3EFF" "\<not> a' \<le> 0x3EFF" "\<not> a \<le> 0x1FFF" "\<not> a' \<le> 0x1FFF"
    using assms by (simp_all add: word_le_nat_alt)
  then show ?thesis
    using assms palette_mirror_less [of a] palette_mirror_less [of a']
    by (auto simp: pb_write_def pb_read_def pb_peek_def PALETTE_SIZE_def nth_list_update word_unat_eq_iff)
qed

text \<open>The boards that leave the nametables to the console: all but the four-screen \<open>Txrom\<close>, \<open>Exrom\<close>
  and \<open>Vrc6\<close>.\<close>

fun console_nametables :: "mapper \<Rightarrow> bool" where
  "console_nametables (MTxrom t) \<longleftrightarrow> tx_mirroring t \<noteq> FourScreen"
| "console_nametables (MExrom m) \<longleftrightarrow> False"
| "console_nametables (MVrc6 m) \<longleftrightarrow> False"
| "console_nametables _ \<longleftrightarrow> True"

lemma console_nametables_bus_write [simp]:
  "console_nametables (mapper_ppu_bus_write m a v) = console_nametables m"
  by (cases m) (simp_all add: txrom_ppu_bus_write_def)

definition in_nametables :: "u16 \<Rightarrow> bool" where
  "in_nametables a \<longleftrightarrow> 0x2000 \<le> a \<and> a \<le> 0x3EFF"

lemma nametable_windows:
  assumes "in_nametables a"
  shows "\<not> window_in 0x0000 0x1FFF a" "0x4000 \<le> lo \<Longrightarrow> \<not> window_in lo hi a" "\<not> a < 0x2000"
    "\<not> a \<le> 0x1FFF" "a \<noteq> 0x9000" "a \<noteq> 0x0FD8" "a \<noteq> 0x0FE8"
  using assms by (auto simp: in_nametables_def window_in_def word_le_nat_alt word_less_nat_alt)

lemma nametable_peek:
  "in_nametables a \<Longrightarrow> console_nametables m \<Longrightarrow> mapper_map_peek m a = Some NoRead"
  by (cases m) (simp_all add: nametable_windows nrom_map_peek_def sxrom_map_peek_def uxrom_map_peek_def
      cnrom_map_peek_def txrom_map_peek_def axrom_map_peek_def pxrom_map_peek_def gxrom_map_peek_def
      bf909x_map_peek_def)

lemma nametable_write:
  "in_nametables a \<Longrightarrow> console_nametables m \<Longrightarrow> mapper_map_write m a v = Some (NoWrite, m)"
  by (cases m) (simp_all add: nametable_windows lift_map_def nrom_map_write_def sxrom_map_write_def
      uxrom_map_write_def cnrom_map_write_def txrom_map_write_def axrom_map_write_def
      pxrom_map_write_def gxrom_map_write_def bf909x_map_write_def)

lemma pb_nametable_peek:
  assumes "in_nametables a" and "console_nametables (pb_mapper b)"
  shows "pb_peek b a = pb_ciram_read b a"
  using assms nametable_windows [OF assms(1)]
  by (simp add: pb_peek_def nametable_peek pb_nametable_read_def in_nametables_def)

lemma nametable_read:
  "in_nametables a \<Longrightarrow> console_nametables m \<Longrightarrow> mapper_map_read m a = Some (NoRead, m)"
proof -
  assume nt: "in_nametables a" and ex: "console_nametables m"
  have w: "\<not> window_in lo 0x1FDF a" "\<not> window_in lo 0x1FEF a" for lo
    using nametable_windows(3) [OF nt] by (auto simp: window_in_def word_less_nat_alt)
  note p = nametable_peek [OF nt, of m]
  show ?thesis
    using ex p
    by (cases m) (simp_all add: nametable_windows [OF nt] lift_map_def map_read_default_def
        txrom_map_read_def tx_clock_irq_def pxrom_map_read_def px_latch_addr_def w)
qed

lemma pb_nametable_read:
  assumes nt: "in_nametables a" and wf: "ppu_bus_wf bd b" and ex: "console_nametables (pb_mapper b)"
  shows "\<exists>x. pb_peek b a = Some x \<and> pb_read b a = Some (x, b\<lparr>pb_open_bus := x\<rparr>)"
proof -
  show ?thesis
    using nt nametable_windows [OF nt] pb_peek_ok [OF wf, of a]
    by (auto simp: pb_read_def pb_peek_def in_nametables_def nametable_read [OF nt ex]
        nametable_peek [OF nt ex])
qed

lemma pb_nametable_write_eq:
  assumes nt: "in_nametables a" and wf: "ppu_bus_wf bd b"
    and ex: "console_nametables (pb_mapper b)" and mi: "pb_mirroring b \<noteq> FourScreen"
  shows "pb_write b a v = Some (b\<lparr>pb_ciram := (pb_ciram b)[unat (ciram_mirror (pb_mirror_shift b) a) := v],
    pb_mapper := mapper_ppu_bus_write (pb_mapper b) a v, pb_open_bus := v\<rparr>)"
proof -
  have "mapper_map_write (pb_mapper b) a v = Some (NoWrite, pb_mapper b)"
    using nametable_write [OF nt ex] by simp
  then show ?thesis
    using nt mi nametable_windows [OF nt] ciram_mirror_less [of "pb_mirror_shift b" a]
      ppu_bus_wf_sizes [OF wf]
    by (simp add: pb_write_def in_nametables_def pb_nametable_write_def)
qed

lemma mapper_mirroring_bus_write [simp]:
  "mapper_mirroring (mapper_ppu_bus_write m a v) = mapper_mirroring m"
  by (cases m) (simp_all add: txrom_ppu_bus_write_def)

lemma pb_nametable_write_read:
  assumes nt: "in_nametables a" "in_nametables a'" and wf: "ppu_bus_wf bd b"
    and ex: "console_nametables (pb_mapper b)" and mi: "pb_mirroring b \<noteq> FourScreen"
  shows "returns (pb_write b a v) (\<lambda>b'. pb_peek b' a' =
      (if ciram_mirror (pb_mirror_shift b) a' = ciram_mirror (pb_mirror_shift b) a
       then Some v else pb_peek b a'))"
proof -
  show ?thesis
    using mi ciram_mirror_less [of "pb_mirror_shift b" a] ciram_mirror_less [of "pb_mirror_shift b" a']
      ppu_bus_wf_sizes [OF wf]
    by (auto simp: pb_nametable_write_eq [OF nt(1) wf ex mi] pb_nametable_peek [OF nt(2)] ex
        pb_ciram_read_def pb_mirroring_def nth_list_update word_unat_eq_iff)
qed

end
