(* ===== verification/CartMapperProps.thy ===== *)
theory CartMapperProps
  imports PpuBus
begin

text \<open>Properties of the cartridge header, of loading a cartridge and of the boards.\<close>

section \<open>Headers\<close>

text \<open>The NES 2.0 bytes of a header; the version is fixed, the flags' third and fourth bits and
  the trainer bit are those of an accepted header.\<close>

definition nes20_bytes :: "nes_header \<Rightarrow> u8 list" where
  "nes20_bytes h =
     NES_SIGNATURE @
     [ucast (hd_prg_rom_banks h), ucast (hd_chr_rom_banks h),
      push_bit 4 (ucast (hd_mapper_num h)) OR (hd_flags h AND 0x0F),
      (ucast (hd_mapper_num h) AND 0xF0) OR drop_bit 4 (hd_flags h),
      (ucast (drop_bit 8 (hd_mapper_num h)) AND 0x0F) OR push_bit 4 (hd_submapper_num h),
      (ucast (drop_bit 8 (hd_prg_rom_banks h)) AND 0x0F)
        OR push_bit 4 (ucast (drop_bit 8 (hd_chr_rom_banks h))),
      hd_prg_ram_shift h, hd_chr_ram_shift h, hd_tv_mode h, hd_vs_data h, 0, 0]"

text \<open>The headers that fit the format and that the loader supports.\<close>

definition nes20_header :: "nes_header \<Rightarrow> bool" where
  "nes20_header h \<longleftrightarrow> hd_version h = 2 \<and> unat (hd_mapper_num h) < 2 ^ 12
     \<and> unat (hd_submapper_num h) < 16 \<and> unat (hd_prg_rom_banks h) < 2 ^ 12
     \<and> unat (hd_chr_rom_banks h) < 2 ^ 12
     \<and> \<not> bit (hd_flags h) 6 \<and> bit (hd_flags h) 7 \<and> \<not> bit (hd_flags h) 2
     \<and> hd_prg_ram_shift h AND 0x0F \<noteq> 0x0F \<and> hd_prg_ram_shift h AND 0xF0 \<noteq> 0xF0
     \<and> hd_chr_ram_shift h AND 0x0F \<noteq> 0x0F \<and> hd_chr_ram_shift h AND 0xF0 \<noteq> 0xF0"

lemma u8_mask_test: "bit m k \<Longrightarrow> \<not> bit x k \<Longrightarrow> x AND m \<noteq> m" for x m :: "'a::len word"
  by (metis bit_and_iff)

lemma nes20_format:
  assumes "bit (hd_flags h) 7" and "\<not> bit (hd_flags h) 6"
  shows "((ucast (hd_mapper_num h) AND 0xF0) OR drop_bit 4 (hd_flags h)) AND 0x0C = (0x08 :: u8)"
  by (rule u8_eqI; simp add: bit_simps assms)

lemma nes20_flags:
  "(push_bit 4 (ucast mn) OR (f AND 0x0F)) AND 0x0F OR
     push_bit 4 (((ucast mn AND 0xF0) OR drop_bit 4 f) AND 0x0F) = (f :: u8)" for mn :: u16
  by (rule u8_eqI; simp add: bit_simps)

lemma nes20_load_bytes:
  assumes "nes20_header h"
  shows "nes_header_load (nes20_bytes h @ rest) = Inr (h, rest)"
proof -
  let ?b = "nes20_bytes h"
  note h = assms [unfolded nes20_header_def]
  have hi: "\<not> bit (hd_mapper_num h) k" "\<not> bit (hd_prg_rom_banks h) k" "\<not> bit (hd_chr_rom_banks h) k"
    if "12 \<le> k" for k
    using h that word_high_bits [of "hd_mapper_num h" 12 k] word_high_bits [of "hd_prg_rom_banks h" 12 k]
      word_high_bits [of "hd_chr_rom_banks h" 12 k] by simp_all
  have sub: "\<not> bit (hd_submapper_num h) k" if "4 \<le> k" for k
    using h that word_high_bits [of "hd_submapper_num h" 4 k] by simp
  have rd: "read_exact 16 (?b @ rest) = Inr (?b, rest)"
    by (simp add: read_exact_def nes20_bytes_def NES_SIGNATURE_def)
  have sig: "take 4 ?b = NES_SIGNATURE"
    by (simp add: nes20_bytes_def NES_SIGNATURE_def)
  have b: "?b ! 4 = ucast (hd_prg_rom_banks h)" "?b ! 5 = ucast (hd_chr_rom_banks h)"
    "?b ! 6 = push_bit 4 (ucast (hd_mapper_num h)) OR (hd_flags h AND 0x0F)"
    "?b ! 7 = (ucast (hd_mapper_num h) AND 0xF0) OR drop_bit 4 (hd_flags h)"
    "?b ! 8 = (ucast (drop_bit 8 (hd_mapper_num h)) AND 0x0F) OR push_bit 4 (hd_submapper_num h)"
    "?b ! 9 = (ucast (drop_bit 8 (hd_prg_rom_banks h)) AND 0x0F)
        OR push_bit 4 (ucast (drop_bit 8 (hd_chr_rom_banks h)))"
    "?b ! 10 = hd_prg_ram_shift h" "?b ! 11 = hd_chr_ram_shift h" "?b ! 12 = hd_tv_mode h"
    "?b ! 13 = hd_vs_data h" "?b ! 14 = 0" "?b ! 15 = 0"
    by (simp_all add: nes20_bytes_def NES_SIGNATURE_def)
  have mapper: "header_mapper_num ?b OR push_bit 8 (ucast (?b ! 8 AND 0x0F)) = hd_mapper_num h"
    unfolding header_mapper_num_def b by (rule u16_eqI; simp add: bit_simps hi)
  have subm: "drop_bit 4 (?b ! 8 AND 0xF0) = hd_submapper_num h"
    unfolding b by (rule u8_eqI; simp add: bit_simps sub)
  have prg: "ucast (?b ! 4) OR push_bit 8 (ucast (?b ! 9 AND 0x0F)) = hd_prg_rom_banks h"
    unfolding b by (rule u16_eqI; simp add: bit_simps hi)
  have chr: "ucast (?b ! 5) OR push_bit 4 (ucast (?b ! 9 AND 0xF0)) = hd_chr_rom_banks h"
    unfolding b by (rule u16_eqI; simp add: bit_simps hi)
  have flags: "header_flags ?b = hd_flags h"
    unfolding header_flags_def b by (rule nes20_flags)
  have fmt: "?b ! 7 AND 0x0C = 0x08" unfolding b by (rule nes20_format) (use h in auto)
  have tr: "hd_flags h AND 0x04 \<noteq> 0x04" by (rule u8_mask_test [of _ 2]) (use h in auto)
  have "header_nes20 ?b = Inr h"
    using h tr unfolding header_nes20_def Let_def mapper subm prg chr flags b(7-12)
    by (simp add: header_trainer_def)
  then show ?thesis
    by (simp add: nes_header_load_def rd sig fmt)
qed

text \<open>C39: Loading a NES 2.0 header inverts writing it: for every header that fits the format and
  that the loader supports (no trainer, no reserved shift counts), its 16 bytes followed by
  any data load as that header and leave the data.\<close>

theorem nes20_roundtrip:
  assumes "nes20_header h"
  shows "nes_header_load (nes20_bytes h @ rest) = Inr (h, rest)"
  by (rule nes20_load_bytes [OF assms])

definition sample_header :: nes_header where
  "sample_header = \<lparr>hd_version = 2, hd_mapper_num = 0x104, hd_submapper_num = 3, hd_flags = 0x81,
     hd_prg_rom_banks = 0x120, hd_chr_rom_banks = 0x203, hd_prg_ram_shift = 7, hd_chr_ram_shift = 0,
     hd_tv_mode = 1, hd_vs_data = 0\<rparr>"

theorem nes20_roundtrip_witness:
  "nes_header_load (nes20_bytes sample_header @ [1, 2]) = Inr (sample_header, [1, 2])"
  by (rule nes20_roundtrip) (simp add: nes20_header_def sample_header_def)

lemma first_data_None: "first_data hs = None \<longleftrightarrow> (\<forall>i. 8 \<le> i \<and> i < 16 \<longrightarrow> hs ! i = 0)"
  unfolding first_data_def find_None_iff set_upt atLeastLessThan_iff by (metis word_not_gt0)

text \<open>An iNES header (format bits of byte 7 zero) is accepted exactly if the signature is
  there, bytes 8 to 15 are zero and there is no trainer; the loader then reports version 1 and
  the mapper number of the two nibbles, and the file must hold at least 16 bytes.\<close>

theorem ines_accepts:
  assumes "16 \<le> length rom" and "rom ! 7 AND 0x0C = 0"
  shows "(\<exists>h rest. nes_header_load rom = Inr (h, rest)) \<longleftrightarrow>
      take 4 rom = NES_SIGNATURE \<and> (\<forall>i. 8 \<le> i \<and> i < 16 \<longrightarrow> rom ! i = 0) \<and> \<not> bit (rom ! 6) 2"
    (is "?lhs \<longleftrightarrow> ?rhs")
proof -
  have rd: "read_exact 16 rom = Inr (take 16 rom, drop 16 rom)"
    using assms(1) by (simp add: read_exact_def)
  have n: "take 16 rom ! i = rom ! i" if "i < 16" for i using that by simp
  have "header_flags (take 16 rom) AND 0x04 = 0x04 \<longleftrightarrow> bit (rom ! 6) 2"
  proof
    assume "header_flags (take 16 rom) AND 0x04 = 0x04"
    then have "bit (header_flags (take 16 rom) AND 0x04) 2 = bit (0x04 :: u8) 2" by simp
    then show "bit (rom ! 6) 2" by (simp add: header_flags_def bit_simps n)
  next
    assume "bit (rom ! 6) 2"
    then show "header_flags (take 16 rom) AND 0x04 = 0x04"
      by (intro u8_eqI; simp add: header_flags_def bit_simps n)
  qed
  then have trainer: "(header_trainer h = Inr h') \<longleftrightarrow> h = h' \<and> \<not> bit (rom ! 6) 2"
    if "hd_flags h = header_flags (take 16 rom)" for h h'
    using that by (simp add: header_trainer_def)
  have fd: "first_data (take 16 rom) = first_data rom"
    by (simp add: first_data_def n)
  have ines: "(\<exists>h. header_ines (take 16 rom) = Inr h) \<longleftrightarrow> first_data rom = None \<and> \<not> bit (rom ! 6) 2"
    unfolding header_ines_def fd by (cases "first_data rom") (simp_all add: trainer)
  have load: "nes_header_load rom =
      (if take 4 rom \<noteq> NES_SIGNATURE then Inl SignatureNotFound
       else case header_ines (take 16 rom) of Inl e \<Rightarrow> Inl e | Inr h \<Rightarrow> Inr (h, drop 16 rom))"
    using assms(2) by (simp add: nes_header_load_def rd n)
  have "(\<exists>h rest. nes_header_load rom = Inr (h, rest)) \<longleftrightarrow>
      take 4 rom = NES_SIGNATURE \<and> (\<exists>h. header_ines (take 16 rom) = Inr h)"
    unfolding load by (cases "header_ines (take 16 rom)") simp_all
  then show ?thesis unfolding ines first_data_None .
qed

theorem ines_accepts_witness:
  "\<exists>h rest. nes_header_load (NES_SIGNATURE @ [2, 1, 1, 0, 0, 0, 0, 0, 0, 0, 0, 0]) = Inr (h, rest)"
proof -
  have "\<forall>i. 8 \<le> i \<and> i < 16 \<longrightarrow> (NES_SIGNATURE @ [2, 1, 1, 0, 0, 0, 0, 0, 0, 0, 0, 0]) ! i = 0"
    by (auto simp: NES_SIGNATURE_def less_Suc_eq numeral_eq_Suc nth_Cons split: nat.splits)
  then show ?thesis
    by (subst ines_accepts) (simp_all add: NES_SIGNATURE_def)
qed

text \<open>The PRG-RAM byte of a NES 2.0 header is two nibbles (volatile and battery-backed), but
  the loader takes the whole byte as one shift count. A well-formed header whose
  battery-backed size is \<open>64 << 4\<close> bytes or more is rejected by \<open>from_rom\<close> as an invalid RAM
  size, whatever ROM follows.\<close>

theorem battery_ram_rejected:
  assumes "nes20_header h" and "0x40 \<le> unat (hd_prg_ram_shift h)"
    and "unat (hd_prg_rom_banks h) * 0x4000 \<le> length rest"
  shows "cart_from_rom rng region_of name (nes20_bytes h @ rest) st
    = Some (Inl (InvalidRamSize (hd_prg_ram_shift h)))"
proof -
  have "hd_prg_ram_shift h > 0" "\<not> unat (hd_prg_ram_shift h) < 64"
    using assms(2) by (simp_all add: word_gt0_iff)
  then show ?thesis
    using assms(3) by (simp add: cart_from_rom_def cart_memories_def nes20_load_bytes [OF assms(1)]
        read_exact_def calculate_ram_size_def PRG_ROM_BANK_SIZE_def)
qed

theorem battery_ram_rejected_witness:
  "cart_from_rom (\<lambda>_ _. 0) (\<lambda>_. Ntsc) ''battery''
     (nes20_bytes (sample_header\<lparr>hd_prg_ram_shift := 0x70, hd_prg_rom_banks := 0\<rparr>)) AllZeros
   = Some (Inl (InvalidRamSize 0x70))"
  using battery_ram_rejected [of "sample_header\<lparr>hd_prg_ram_shift := 0x70, hd_prg_rom_banks := 0\<rparr>" "[]"
      "\<lambda>_ _. 0" "\<lambda>_. Ntsc" "''battery''" AllZeros]
  by (simp add: nes20_header_def sample_header_def)

section \<open>Every board stays inside its cartridge\<close>

text \<open>Only a four-screen Txrom ever answers with the extended RAM: a cartridge whose header asks for
  another mirroring loads without it, and accesses never turn it on.\<close>

fun is_exram_read :: "mapped_read \<Rightarrow> bool" where
  "is_exram_read (ExRamR i) \<longleftrightarrow> True"
| "is_exram_read _ \<longleftrightarrow> False"

fun is_exram_write :: "mapped_write \<Rightarrow> bool" where
  "is_exram_write (ExRamW i v) \<longleftrightarrow> True"
| "is_exram_write _ \<longleftrightarrow> False"

lemma mapper_load_no_exram:
  assumes l: "mapper_load rng c = Some (Inr (m, c'))" and "cart_mirroring c \<noteq> FourScreen"
  shows "\<not> uses_exram m"
proof -
  have mir: "cart_mirroring (cart_add_prg_ram rng n c) = cart_mirroring c" for n c
    by (simp add: cart_mirroring_def cart_add_prg_ram_def)
  have mir2: "cart_mirroring (chr_or_ram rng n c) = cart_mirroring c" for n c
    by (simp add: cart_mirroring_def chr_or_ram_def cart_add_chr_ram_def)
  note defs = mapper_load_def pack_load_def Let_def nrom_load_def sxrom_load_def uxrom_load_def cnrom_load_def
    txrom_load_def axrom_load_def pxrom_load_def gxrom_load_def bf909x_load_def vrc6_load_def exrom_load_def
  show ?thesis using l assms(2) unfolding defs
    by (auto simp: bind_Some_iff mir mir2 split: if_splits)
qed

lemma accesses_no_exram:
  assumes "mappers.accesses m xs = Some m'" and "\<not> uses_exram m"
  shows "\<not> uses_exram m'"
  using assms
proof (induction xs arbitrary: m)
  case (Cons x xs)
  obtain m1 where m1: "mappers.access1 m x = Some m1" "mappers.accesses m1 xs = Some m'"
    using Cons.prems(1) by (auto simp: bind_Some_iff)
  have "\<not> uses_exram m1"
    using m1(1) Cons.prems(2) by (cases x; cases "snd x") (auto simp: uses_exram_read dest: uses_exram_write)
  then show ?case using Cons.IH m1(2) by blast
qed simp

lemma no_exram_answers:
  "\<not> uses_exram m \<Longrightarrow> mapper_map_peek m a = Some r \<Longrightarrow> \<not> is_exram_read r"
  "\<not> uses_exram m \<Longrightarrow> mapper_map_write m a v = Some (w, m') \<Longrightarrow> \<not> is_exram_write w"
  by (cases r; auto dest: exram_read) (cases w; auto dest: exram_write)

text \<open>C7: A cartridge of a regular size (a power-of-two multiple of 32K PRG-ROM and of 8K CHR-ROM)
  with a modelled mapper number loads, and after any sequence of bus reads and writes no
  further peek, read or write of any address panics in the mapper or maps to an index outside the
  cartridge's PRG-ROM, pattern memory or PRG-RAM, nor a write to one outside the 2K of the console's
  nametable memory (whose index a read masks). The extended RAM is never addressed, unless the header
  asks for four screens: then Txrom does address it, and its index is not bounded here, because
  the bus of the PPU really writes past its 4K.\<close>

theorem loaded_mapper_in_range:
  assumes "board_ok c" and "cart_prg_ram c = [] \<or> 0x2000 \<le> length (cart_prg_ram c)"
    and "modelled_mapper (hd_mapper_num (cart_header c))"
  shows "\<exists>m c'. mapper_load rng c = Some (Inr (m, c'))
    \<and> returns (mappers.accesses m xs) (\<lambda>m'.
        returns (mapper_map_peek m' a) (\<lambda>r. read_in (board_of c') r
          \<and> (cart_mirroring c \<noteq> FourScreen \<longrightarrow> \<not> is_exram_read r))
      \<and> returns (mapper_map_read m' a) (\<lambda>(r, m''). read_in (board_of c') r
          \<and> (cart_mirroring c \<noteq> FourScreen \<longrightarrow> \<not> is_exram_read r))
      \<and> returns (mapper_map_write m' a v) (\<lambda>(w, m''). write_in (board_of c') w
          \<and> (cart_mirroring c \<noteq> FourScreen \<longrightarrow> \<not> is_exram_write w)))"
proof -
  obtain m c' where l: "mapper_load rng c = Some (Inr (m, c'))" and wf: "mapper_wf (board_of c') m"
    using returnsD [OF mapper_load_board [OF assms, of rng]] by auto
  obtain m' where acc: "mappers.accesses m xs = Some m'"
    and p: "returns (mapper_map_peek m' a) (read_in (board_of c'))"
    and r: "returns (mapper_map_read m' a) (\<lambda>(r, m''). read_in (board_of c') r)"
    and w: "returns (mapper_map_write m' a v) (\<lambda>(w, m''). write_in (board_of c') w)"
    using returnsD [OF mappers.accesses_then_in [OF wf, of xs a v]] by blast
  have wf': "mapper_wf (board_of c') m'" using mappers.accesses_wf [OF wf, of xs] acc by simp
  have no: "\<not> uses_exram m'" if "cart_mirroring c \<noteq> FourScreen"
    using accesses_no_exram [OF acc] mapper_load_no_exram [OF l that] .
  have "returns (mapper_map_peek m' a) (\<lambda>r. read_in (board_of c') r \<and> (cart_mirroring c \<noteq> FourScreen \<longrightarrow> \<not> is_exram_read r))"
    using p no no_exram_answers(1) by (auto simp: returns_def)
  moreover have "returns (mapper_map_read m' a)
      (\<lambda>(r, m''). read_in (board_of c') r \<and> (cart_mirroring c \<noteq> FourScreen \<longrightarrow> \<not> is_exram_read r))"
    using mappers.read_peek [OF wf', of a] r no no_exram_answers(1) by (auto simp: returns_def)
  moreover have "returns (mapper_map_write m' a v)
      (\<lambda>(w, m''). write_in (board_of c') w \<and> (cart_mirroring c \<noteq> FourScreen \<longrightarrow> \<not> is_exram_write w))"
    using w no no_exram_answers(2) by (fastforce simp: returns_def)
  ultimately show ?thesis using l acc by auto
qed

definition sample_cart :: "u16 \<Rightarrow> cart" where
  "sample_cart n = \<lparr>cart_name = ''sample'', cart_header = sample_header\<lparr>hd_mapper_num := n\<rparr>,
     cart_region = Ntsc, cart_ram_state = AllZeros, cart_chr_rom = replicate 0x2000 0, cart_chr_ram = [],
     cart_ex_ram = [], cart_prg_rom = replicate 0x8000 0, cart_prg_ram = []\<rparr>"

lemma sample_cart_ok: "board_ok (sample_cart n)" "cart_prg_ram (sample_cart n) = []"
  "hd_mapper_num (cart_header (sample_cart n)) = n"
  by (auto simp: board_ok_def sample_cart_def intro!: exI [of _ 0])

theorem loaded_mapper_in_range_witness:
  "\<exists>m c'. mapper_load (\<lambda>_ _. 0) (sample_cart 1) = Some (Inr (m, c'))
    \<and> returns (mappers.accesses m [(0x8000, Some 0x80)]) (\<lambda>m'.
        returns (mapper_map_peek m' 0xFFFC) (read_in (board_of c')))"
proof -
  have "modelled_mapper (hd_mapper_num (cart_header (sample_cart 1)))"
    by (simp add: modelled_mapper_def sample_cart_ok)
  from loaded_mapper_in_range [OF sample_cart_ok(1) disjI1 [OF sample_cart_ok(2)] this,
      of "\<lambda>_ _. 0" "[(0x8000, Some 0x80)]" "0xFFFC" 0]
  show ?thesis by (elim exE conjE) (intro exI conjI, assumption, erule returns_mono, auto elim: returns_mono)
qed

section \<open>MMC1: the serial port and the PRG modes\<close>

text \<open>A write followed by two CPU cycles without one.\<close>

fun sx_serial :: "sxrom \<Rightarrow> (u16 \<times> u8) list \<Rightarrow> sxrom option" where
  "sx_serial m [] = Some m"
| "sx_serial m ((a, v) # ws) =
     do { m' \<leftarrow> sx_write_serial m a v; sx_serial (sxrom_clock (sxrom_clock m')) ws }"

definition sx_ready :: "sx_regs \<Rightarrow> bool" where
  "sx_ready r \<longleftrightarrow> sxr_write_just_occurred r = 0 \<and> sxr_shift_register r = DEFAULT_SHIFT_REGISTER"

lemma sx_serial_shift:
  assumes "sxr_write_just_occurred (sx_regs m) = 0" and "\<not> bit v 7"
    and "\<not> bit (sxr_shift_register (sx_regs m)) 0"
  shows "sx_serial m ((a, v) # ws) = sx_serial (m\<lparr>sx_regs := (sx_regs m)
    \<lparr>sxr_shift_register := sx_shift_in (sxr_shift_register (sx_regs m)) v\<rparr>\<rparr>) ws"
  using sx_write_shift [OF assms] assms(1)
  by (cases m; cases "sx_regs m") (simp add: sxrom_clock2)

text \<open>The five bits as written, least significant first.\<close>

definition sx_value :: "u8 \<Rightarrow> u8 \<Rightarrow> u8 \<Rightarrow> u8 \<Rightarrow> u8 \<Rightarrow> u8" where
  "sx_value v1 v2 v3 v4 v5 = (v1 AND 1) OR push_bit 1 (v2 AND 1) OR push_bit 2 (v3 AND 1)
     OR push_bit 3 (v4 AND 1) OR push_bit 4 (v5 AND 1)"

lemma bit_low_pushed: "k < 8 \<Longrightarrow> bit (push_bit k (v AND 1) :: u8) n \<longleftrightarrow> n = k \<and> bit v 0"
  unfolding bit_push_bit_iff bit_and_iff bit_1_iff by auto

lemma sx_shift_bits: "bit (sx_shift_in s v) n \<longleftrightarrow> (n = 4 \<and> bit v 0) \<or> bit s (Suc n)"
proof -
  have p: "bit (push_bit 4 (v AND 1)) n \<longleftrightarrow> n = 4 \<and> bit v 0" by (rule bit_low_pushed) simp
  show ?thesis by (simp only: sx_shift_in_def bit_or_iff bit_drop_bit_eq comp_apply p) auto
qed

lemma sx_value_bits:
  "bit (sx_value v1 v2 v3 v4 v5) n \<longleftrightarrow> (n = 0 \<and> bit v1 0) \<or> (n = 1 \<and> bit v2 0) \<or> (n = 2 \<and> bit v3 0)
     \<or> (n = 3 \<and> bit v4 0) \<or> (n = 4 \<and> bit v5 0)"
proof -
  have p: "bit (push_bit 1 (v2 AND 1)) n \<longleftrightarrow> n = 1 \<and> bit v2 0"
    "bit (push_bit 2 (v3 AND 1)) n \<longleftrightarrow> n = 2 \<and> bit v3 0"
    "bit (push_bit 3 (v4 AND 1)) n \<longleftrightarrow> n = 3 \<and> bit v4 0"
    "bit (push_bit 4 (v5 AND 1)) n \<longleftrightarrow> n = 4 \<and> bit v5 0"
    by (rule bit_low_pushed; simp)+
  have "bit (v1 AND 1) n \<longleftrightarrow> n = 0 \<and> bit v1 0" using bit_low_pushed [of 0 v1 n] by simp
  then show ?thesis by (simp only: sx_value_def bit_or_iff p)
qed

lemma sx_default_bits: "bit DEFAULT_SHIFT_REGISTER n \<longleftrightarrow> n = 4"
  unfolding DEFAULT_SHIFT_REGISTER_def by (rule bit_u8_masks)

lemma sx_shift_five:
  "sx_shift_in (sx_shift_in (sx_shift_in (sx_shift_in (sx_shift_in DEFAULT_SHIFT_REGISTER v1) v2) v3) v4) v5
    = sx_value v1 v2 v3 v4 v5"
  by (rule u8_eqI; simp add: sx_shift_bits sx_default_bits sx_value_bits)

lemma sx_load_register_frame:
  "sx_load_register a (r\<lparr>sxr_write_just_occurred := w\<rparr>) = (sx_load_register a r)\<lparr>sxr_write_just_occurred := w\<rparr>"
  "sx_load_register a (r\<lparr>sxr_write_just_occurred := w, sxr_shift_register := x\<rparr>)
    = (sx_load_register a (r\<lparr>sxr_shift_register := x\<rparr>))\<lparr>sxr_write_just_occurred := w\<rparr>"
  "sxr_write_just_occurred (sx_load_register a r) = sxr_write_just_occurred r"
  by (simp_all add: sx_load_register_def Let_def)

lemma sx_regs_comm:
  "r\<lparr>sxr_write_just_occurred := w, sxr_shift_register := x\<rparr>
    = r\<lparr>sxr_shift_register := x, sxr_write_just_occurred := w\<rparr>"
  by simp

lemma sx_update_banks_regs: "sx_update_banks m a = Some m' \<Longrightarrow> sx_regs m' = sx_regs m"
  by (auto simp: sx_update_banks_def Let_def bind_Some_iff)

text \<open>C24: Five data writes to the MMC1 (bit 7 clear, not in consecutive cycles) load one register
  with the five low bits written, least significant first: which register is decided by the
  address of the fifth write alone. The port is then ready for the next five, and nothing
  panics.\<close>

theorem sxrom_serial_load:
  assumes "sxrom_wf bd m" and "sx_ready (sx_regs m)"
    and "\<not> bit v1 7" "\<not> bit v2 7" "\<not> bit v3 7" "\<not> bit v4 7" "\<not> bit v5 7"
  shows "returns (sx_serial m [(a1, v1), (a2, v2), (a3, v3), (a4, v4), (a5, v5)])
    (\<lambda>m'. sxrom_wf bd m' \<and> sx_ready (sx_regs m')
      \<and> sx_regs m' = (sx_load_register a5 ((sx_regs m)\<lparr>sxr_shift_register := sx_value v1 v2 v3 v4 v5\<rparr>))
          \<lparr>sxr_shift_register := DEFAULT_SHIFT_REGISTER\<rparr>)"
proof -
  let ?s4 = "sx_shift_in (sx_shift_in (sx_shift_in (sx_shift_in DEFAULT_SHIFT_REGISTER v1) v2) v3) v4"
  let ?m4 = "m\<lparr>sx_regs := (sx_regs m)\<lparr>sxr_shift_register := ?s4\<rparr>\<rparr>"
  have r: "sxr_write_just_occurred (sx_regs m) = 0" "sxr_shift_register (sx_regs m) = DEFAULT_SHIFT_REGISTER"
    using assms(2) by (simp_all add: sx_ready_def)
  have four: "sx_serial m [(a1, v1), (a2, v2), (a3, v3), (a4, v4), (a5, v5)] = sx_serial ?m4 [(a5, v5)]"
    using assms(3-6) r by (simp add: sx_serial_shift sx_shift_bits sx_default_bits del: sx_serial.simps)
  define r' where "r' = (sx_load_register a5 ((sx_regs m)\<lparr>sxr_shift_register := sx_value v1 v2 v3 v4 v5\<rparr>))
          \<lparr>sxr_shift_register := DEFAULT_SHIFT_REGISTER\<rparr>"
  have w: "sx_write_serial ?m4 a5 v5 = sx_update_banks (m\<lparr>sx_regs := r'\<lparr>sxr_write_just_occurred := 2\<rparr>\<rparr>) a5"
    using assms(7) r unfolding r'_def
    by (subst sx_write_complete)
      (simp_all add: sx_shift_bits sx_default_bits sx_shift_five sx_load_register_frame(2)
        sx_regs_comm [where r = "sx_load_register a5 r" for r])
  have ready: "sxr_write_just_occurred r' = 0" "sxr_shift_register r' = DEFAULT_SHIFT_REGISTER"
    using r by (simp_all add: r'_def sx_load_register_frame)
  obtain m' where m': "sx_update_banks (m\<lparr>sx_regs := r'\<lparr>sxr_write_just_occurred := 2\<rparr>\<rparr>) a5 = Some m'"
    "sxrom_wf bd m'"
    using returnsD [OF sx_update_banks_ok, of bd "m\<lparr>sx_regs := r'\<lparr>sxr_write_just_occurred := 2\<rparr>\<rparr>" a5]
      assms(1) by auto
  have regs: "sx_regs m' = r'\<lparr>sxr_write_just_occurred := 2\<rparr>"
    using sx_update_banks_regs [OF m'(1)] by simp
  have "r'\<lparr>sxr_write_just_occurred := 0\<rparr> = r'"
    using ready(1) by (cases r') simp
  with regs ready m' show ?thesis
    unfolding four r'_def [symmetric]
    by (simp add: w sxrom_clock2 sx_ready_def)
qed

text \<open>The banks a PRG mode selects for the two halves of the PRG window, as page numbers.\<close>

definition sx_pages :: "sxrom \<Rightarrow> u16 \<Rightarrow> nat \<Rightarrow> nat \<times> nat" where
  "sx_pages m addr P =
     (let n = unat (sxr_prg (sx_regs m) AND 0x0F); bs = sx_bank_select m addr;
          mode = drop_bit 2 (sxr_control (sx_regs m) AND PRG_MODE_MASK)
      in if mode = 0 \<or> mode = 1 then ((bs OR (n AND 0x1E)) mod P, (bs OR (n AND 0x1E)) mod P + 1)
         else if mode = 2 then (bs mod P, (bs OR n) mod P)
         else ((bs OR n) mod P, (bs OR (P - 1)) mod P))"

lemma sx_slots:
  assumes "mb_wf b" and "mb_window b = 0x4000" and "length (mb_banks b) = 2"
  shows "mb_get_bank b a = (unat a div 0x4000) mod 2"
proof -
  have k: "(2::nat) ^ mb_shift b = 2 ^ 14" and sz: "mb_size b = 2 ^ 15 - 1"
    using assms by (simp_all add: mb_wf_def)
  then have "mb_shift b = 14" by (simp only: power_inject_exp)
  then show ?thesis
    unfolding mb_get_bank_def sz nat_and_mask
    using mod_mult2_eq [of "unat a" "0x4000" 2] by (simp add: drop_bit_eq_div)
qed

definition sample_sxrom :: sxrom where
  "sample_sxrom =
     \<lparr>sx_regs = \<lparr>sxr_write_just_occurred = 0, sxr_shift_register = 0x10, sxr_control = 0x0C,
        sxr_chr0 = 0, sxr_chr1 = 0, sxr_prg = 3\<rparr>,
      sx_submapper_num = 0, sx_mirroring = SingleScreenA, sx_board = Mmc1BC, sx_chr_select = False,
      sx_chr_banks = mb_new 0x0000 0x1FFF 0x2000 0x1000,
      sx_prg_ram_banks = mb_new 0x6000 0x7FFF 0x2000 0x2000,
      sx_prg_rom_banks = mb_new 0x8000 0xFFFF 0x20000 0x4000\<rparr>"

definition sample_sx_board :: board where
  "sample_sx_board = \<lparr>bd_prg = 0x20000, bd_chr = 0x2000, bd_prg_ram = 0x2000\<rparr>"

lemma sample_sxrom_wf: "sxrom_wf sample_sx_board sample_sxrom"
  using mb_fits_new [of "0x1000" 12 "0x1FFF" 0 "0x2000"] mb_fits_new [of "0x2000" 13 "0x7FFF" "0x6000" "0x2000"]
    mb_fits_new [of "0x4000" 14 "0xFFFF" "0x8000" "0x20000"]
  by (simp add: sxrom_wf_def sx_pair_ok_def sample_sxrom_def sample_sx_board_def)

theorem sxrom_serial_load_witness:
  "returns (sx_serial sample_sxrom [(0x8000, 1), (0x8000, 0), (0x8000, 1), (0x8000, 0), (0xE000, 0)])
    (\<lambda>m'. sxr_prg (sx_regs m') = 5)"
  by (rule returns_mono [OF sxrom_serial_load [OF sample_sxrom_wf]])
    (simp_all add: sx_ready_def sample_sxrom_def DEFAULT_SHIFT_REGISTER_def sx_load_register_def
      window_in_def sx_value_def)

lemma sx_update_prg_banks:
  assumes wf: "mb_wf b" and w: "mb_window b = 0x4000" and l: "length (mb_banks b) = 2"
    and P: "mb_page_count b = 2 ^ k" and sub: "sx_submapper_num m \<noteq> 5"
  shows "\<exists>b'. sx_update_prg m addr b = Some b' \<and> mb_wf b' \<and> mb_window b' = 0x4000
    \<and> length (mb_banks b') = 2
    \<and> mb_banks b' ! 0 = fst (sx_pages m addr (2 ^ k)) * 0x4000
    \<and> mb_banks b' ! 1 = snd (sx_pages m addr (2 ^ k)) * 0x4000"
proof -
  have sh: "(2::nat) ^ mb_shift b = 0x4000" and mask: "mb_mask b = 2 ^ k - 1"
    using wf w P by (simp_all add: mb_wf_def)
  have a: "n AND mb_mask b = n mod 2 ^ k" for n unfolding mask by (rule nat_and_mask)
  have put: "mb_banks (mb_put c s n) = (mb_banks c)[s := n mod 2 ^ k * 0x4000]"
    if "mb_mask c = mb_mask b" "mb_shift c = mb_shift b" for c s n
    using that by (simp add: mb_put_def a sh)
  have range: "mb_banks (mb_put_range b 0 1 n)
      = (mb_banks b)[0 := n mod 2 ^ k * 0x4000, 1 := (n mod 2 ^ k + 1) * 0x4000]" for n
    by (simp add: mb_put_range_def a sh w add.commute)
  have last: "mb_last b = 2 ^ k - 1" by (simp add: mb_last_def P)
  show ?thesis
    using wf w l sub
    by (simp add: sx_update_prg_def sx_pages_def Let_def mb_set_put mb_set_range_put put range last
        del: One_nat_def)
qed



section \<open>MMC3: the scanline interrupt\<close>

text \<open>C26: With the interrupt enabled and a reload requested, the MMC3 counter with latch value \<open>L\<close>
  raises its interrupt at exactly the \<open>L + 1\<close>-th rising edge of A12 and not at an earlier
  one: after \<open>n + 1 \<le> L + 1\<close> edges it is pending exactly when \<open>n = L\<close>.\<close>

theorem txrom_irq_edges:
  assumes "tx_armed m" and "txr_irq_reload (tx_regs m)" and "n \<le> unat (txr_irq_latch (tx_regs m))"
  shows "tx_irq_pending ((tx_edge ^^ Suc n) m) \<longleftrightarrow> n = unat (txr_irq_latch (tx_regs m))"
  unfolding tx_edges_count [OF assms] by simp

definition sample_txrom :: txrom where
  "sample_txrom =
     \<lparr>tx_regs = tx_regs_new\<lparr>txr_irq_latch := 9, txr_irq_enabled := True, txr_irq_reload := True\<rparr>,
      tx_mirroring = Vertical, tx_irq_pending = False, tx_revision = Mmc3BC,
      tx_chr_banks = mb_new 0x0000 0x1FFF 0x2000 0x0400,
      tx_prg_ram_banks = mb_new 0x6000 0x7FFF 0x2000 0x2000,
      tx_prg_rom_banks = mb_new 0x8000 0xFFFF 0x8000 0x2000\<rparr>"

theorem txrom_irq_edges_witness:
  "tx_irq_pending ((tx_edge ^^ Suc 9) sample_txrom) \<and> \<not> tx_irq_pending ((tx_edge ^^ Suc 8) sample_txrom)"
proof -
  have "tx_armed sample_txrom" "txr_irq_reload (tx_regs sample_txrom)"
    "unat (txr_irq_latch (tx_regs sample_txrom)) = 9"
    by (simp_all add: sample_txrom_def tx_armed_def tx_regs_new_def)
  then show ?thesis using txrom_irq_edges [of sample_txrom 9] txrom_irq_edges [of sample_txrom 8] by simp
qed

section \<open>MMC2: the tile latches\<close>

text \<open>Reading the special tile rows switches the MMC2 pattern banks after the read: the byte
  returned is mapped with the old bank, and from then on the half of the pattern table the
  tile is in uses the \<open>$FD\<close> or the \<open>$FE\<close> bank register, as the tile was \<open>$FD\<close> or \<open>$FE\<close>.\<close>

theorem pxrom_latch_switch:
  assumes "pxrom_wf bd m" and "px_latch_addr addr"
  shows "\<exists>r m'. pxrom_map_read m addr = Some (r, m') \<and> pxrom_map_peek m addr = Some r \<and> pxrom_wf bd m'
    \<and> px_latch m' = (px_latch m)[unat addr div 0x1000 := (if unat addr div 16 mod 256 = 0xFD then 0 else 1)]
    \<and> px_latch_banks m' = px_latch_banks m
    \<and> mb_banks (px_chr_banks m') =
        [(unat (px_latch_banks m ! (px_latch m' ! 0)) AND mb_mask (px_chr_banks m)) * 2 ^ mb_shift (px_chr_banks m),
         (unat (px_latch_banks m ! (px_latch m' ! 1 + 2)) AND mb_mask (px_chr_banks m)) * 2 ^ mb_shift (px_chr_banks m)]"
proof -
  have and_ff: "(n AND 0xFF :: nat) = n mod 256" for n
    using nat_and_mask [of n 8] by simp
  obtain r m' where r: "pxrom_map_read m addr = Some (r, m')" "pxrom_map_peek m addr = Some r" "pxrom_wf bd m'"
    using returnsD [OF pxrom.read_peek [OF assms(1), of addr]] by auto
  define x where "x = usize_sub (drop_bit 4 (unat addr) AND 0xFF) 0xFD"
  have x: "x = (if unat addr div 16 mod 256 = 0xFD then 0 else 1)" "x < 2"
    "drop_bit 12 (unat addr) = unat addr div 0x1000"
    using px_latch_addr_vals [OF assms(2)]
    by (auto simp: x_def and_ff drop_bit_eq_div usize_sub_def split: if_splits) linarith
  let ?m1 = "m\<lparr>px_latch := (px_latch m)[unat addr div 0x1000 := x]\<rparr>"
  have up: "px_update_banks ?m1 = Some m'"
    using r(1,2) assms(2) px_latch_addr_vals [OF assms(2)]
    by (auto simp: pxrom_map_read_def bind_Some_iff vec_set_Some_iff x_def drop_bit_eq_div)
  have l2: "length (mb_banks (px_chr_banks m)) = 2" using assms(1) by (simp add: pxrom_wf_def)
  then obtain b0 b1 where bs: "mb_banks (px_chr_banks m) = [b0, b1]"
    by (auto simp: length_Suc_conv numeral_2_eq_2)
  have "px_latch m' = px_latch ?m1" "px_latch_banks m' = px_latch_banks m"
    "mb_banks (px_chr_banks m') =
        [(unat (px_latch_banks m ! (px_latch m' ! 0)) AND mb_mask (px_chr_banks m)) * 2 ^ mb_shift (px_chr_banks m),
         (unat (px_latch_banks m ! (px_latch m' ! 1 + 2)) AND mb_mask (px_chr_banks m)) * 2 ^ mb_shift (px_chr_banks m)]"
    using up l2 bs
    by (auto simp: px_update_banks_def bind_Some_iff vec_get_Some_iff mb_set_put mb_put_def)
  with r x(1) show ?thesis by auto
qed

definition sample_pxrom :: pxrom where
  "sample_pxrom = \<lparr>px_mirroring = Vertical, px_latch = [0, 0], px_latch_banks = [1, 2, 3, 0],
     px_chr_banks = mb_new 0x0000 0x1FFF 0x4000 0x1000,
     px_prg_rom_banks = mb_new 0x8000 0xFFFF 0x8000 0x2000\<rparr>"

theorem pxrom_latch_switch_witness:
  "\<exists>r m'. pxrom_map_read sample_pxrom 0x0FE8 = Some (r, m') \<and> px_latch m' = [1, 0]"
proof -
  have "pxrom_wf \<lparr>bd_prg = 0x8000, bd_chr = 0x4000, bd_prg_ram = 0x2000\<rparr> sample_pxrom"
    using mb_fits_new [of "0x1000" 12 "0x1FFF" 0 "0x4000"] mb_fits_new [of "0x2000" 13 "0xFFFF" "0x8000" "0x8000"]
    by (simp add: pxrom_wf_def sample_pxrom_def)
  from pxrom_latch_switch [OF this, of "0x0FE8"] show ?thesis
    by (auto simp: px_latch_addr_def sample_pxrom_def)
qed

end
