(* ===== verification/PpuFrame.thy ===== *)
theory PpuFrame
  imports Common
begin

text \<open>
  \<open>src/ppu/sprite.rs\<close> and \<open>src/ppu/frame.rs\<close>: the sprite unit of a scanline, the two frame
  buffers of 256 by 240 pixels, and the system palette of \<open>src/ppu.rs\<close>.
\<close>

section \<open>Sprites\<close>

record sprite =
  sprite_x :: u32
  sprite_y :: u32
  sprite_tile_lo :: u8
  sprite_tile_hi :: u8
  sprite_attr :: u8
  sprite_palette :: u8
  sprite_bg_priority :: bool
  sprite_flip_horizontal :: bool
  sprite_flip_vertical :: bool

definition sprite_new :: sprite where
  "sprite_new = \<lparr>sprite_x = 0xFF, sprite_y = 0xFF, sprite_tile_lo = 0x00, sprite_tile_hi = 0x00,
     sprite_attr = 0xFF, sprite_palette = 0x07, sprite_bg_priority = True,
     sprite_flip_horizontal = True, sprite_flip_vertical = True\<rparr>"

section \<open>The system palette\<close>

definition SYSTEM_PALETTE :: "(u8 \<times> u8 \<times> u8) list" where
  "SYSTEM_PALETTE =
    [(0x54, 0x54, 0x54), (0x00, 0x1E, 0x74), (0x08, 0x10, 0x90), (0x30, 0x00, 0x88),
     (0x44, 0x00, 0x64), (0x5C, 0x00, 0x30), (0x54, 0x04, 0x00), (0x3C, 0x18, 0x00),
     (0x20, 0x2A, 0x00), (0x08, 0x3A, 0x00), (0x00, 0x40, 0x00), (0x00, 0x3C, 0x00),
     (0x00, 0x32, 0x3C), (0x00, 0x00, 0x00), (0x00, 0x00, 0x00), (0x00, 0x00, 0x00),
     (0x98, 0x96, 0x98), (0x08, 0x4C, 0xC4), (0x30, 0x32, 0xEC), (0x5C, 0x1E, 0xE4),
     (0x88, 0x14, 0xB0), (0xA0, 0x14, 0x64), (0x98, 0x22, 0x20), (0x78, 0x3C, 0x00),
     (0x54, 0x5A, 0x00), (0x28, 0x72, 0x00), (0x08, 0x7C, 0x00), (0x00, 0x76, 0x28),
     (0x00, 0x66, 0x78), (0x00, 0x00, 0x00), (0x00, 0x00, 0x00), (0x00, 0x00, 0x00),
     (0xEC, 0xEE, 0xEC), (0x4C, 0x9A, 0xEC), (0x78, 0x7C, 0xEC), (0xB0, 0x62, 0xEC),
     (0xE4, 0x54, 0xEC), (0xEC, 0x58, 0xB4), (0xEC, 0x6A, 0x64), (0xD4, 0x88, 0x20),
     (0xA0, 0xAA, 0x00), (0x74, 0xC4, 0x00), (0x4C, 0xD0, 0x20), (0x38, 0xCC, 0x6C),
     (0x38, 0xB4, 0xCC), (0x3C, 0x3C, 0x3C), (0x00, 0x00, 0x00), (0x00, 0x00, 0x00),
     (0xEC, 0xEE, 0xEC), (0xA8, 0xCC, 0xEC), (0xBC, 0xBC, 0xEC), (0xD4, 0xB2, 0xEC),
     (0xEC, 0xAE, 0xEC), (0xEC, 0xAE, 0xD4), (0xEC, 0xB4, 0xB0), (0xE4, 0xC4, 0x90),
     (0xCC, 0xD2, 0x78), (0xB4, 0xDE, 0x78), (0xA8, 0xE2, 0x90), (0x98, 0xE2, 0xB4),
     (0xA0, 0xD6, 0xE4), (0xA0, 0xA2, 0xA0), (0x00, 0x00, 0x00), (0x00, 0x00, 0x00)]"

lemma length_SYSTEM_PALETTE [simp]: "length SYSTEM_PALETTE = 64"
  by (simp add: SYSTEM_PALETTE_def)

definition system_palette :: "u16 \<Rightarrow> u8 \<times> u8 \<times> u8" where
  "system_palette pixel = SYSTEM_PALETTE ! (unat pixel AND (length SYSTEM_PALETTE - 1))"

section \<open>Frame\<close>

record frame =
  fr_count :: u32
  fr_front :: "u16 list"
  fr_back :: "u16 list"

definition PPU_WIDTH :: nat where "PPU_WIDTH = 256"
definition PPU_HEIGHT :: nat where "PPU_HEIGHT = 240"
definition PPU_SIZE :: nat where "PPU_SIZE = PPU_WIDTH * PPU_HEIGHT"

definition frame_new :: frame where
  "frame_new = \<lparr>fr_count = 0, fr_front = replicate PPU_SIZE 0x00, fr_back = replicate PPU_SIZE 0x00\<rparr>"

definition frame_increment :: "frame \<Rightarrow> frame" where
  "frame_increment f = f\<lparr>fr_count := fr_count f + 1, fr_front := fr_back f, fr_back := fr_front f\<rparr>"

definition frame_pixel :: "frame \<Rightarrow> u32 \<Rightarrow> u32 \<Rightarrow> u16 option" where
  "frame_pixel f x y = vec_get (fr_back f) (unat (x + push_bit 8 y))"

definition frame_set_pixel :: "frame \<Rightarrow> u32 \<Rightarrow> u32 \<Rightarrow> u16 \<Rightarrow> frame option" where
  "frame_set_pixel f x y color =
     do { back \<leftarrow> vec_set (fr_back f) (unat (x + push_bit 8 y)) color; Some (f\<lparr>fr_back := back\<rparr>) }"

definition frame_pixel_brightness :: "frame \<Rightarrow> u32 \<Rightarrow> u32 \<Rightarrow> u32 option" where
  "frame_pixel_brightness f x y =
     do { pixel \<leftarrow> frame_pixel f x y;
          let (red, green, blue) = system_palette pixel
          in Some (ucast red + ucast green + ucast blue) }"

definition frame_number :: "frame \<Rightarrow> u32" where
  "frame_number f = fr_count f"

definition frame_reset :: "frame \<Rightarrow> kind \<Rightarrow> frame" where
  "frame_reset f k =
     f\<lparr>fr_count := 0, fr_front := replicate (length (fr_front f)) 0,
       fr_back := replicate (length (fr_back f)) 0\<rparr>"

text \<open>A pixel is six bits of colour under three bits of emphasis.\<close>

definition pixels_wf :: "u16 list \<Rightarrow> bool" where
  "pixels_wf xs \<longleftrightarrow> length xs = PPU_SIZE \<and> (\<forall>c\<in>set xs. unat c < 512)"

definition frame_wf :: "frame \<Rightarrow> bool" where
  "frame_wf f \<longleftrightarrow> pixels_wf (fr_front f) \<and> pixels_wf (fr_back f)"

lemma pixels_wf_length [simp]: "pixels_wf xs \<Longrightarrow> length xs = PPU_SIZE"
  by (simp add: pixels_wf_def)

lemma pixels_wf_zero [simp]: "n = PPU_SIZE \<Longrightarrow> pixels_wf (replicate n 0)"
  by (simp add: pixels_wf_def)

lemma pixels_wf_update [simp]: "pixels_wf xs \<Longrightarrow> unat c < 512 \<Longrightarrow> pixels_wf (xs[i := c])"
  using set_update_all [of xs "\<lambda>c. unat c < 512" c i] by (simp add: pixels_wf_def)

lemma PPU_SIZE_eq: "PPU_SIZE = 61440"
  by (simp add: PPU_SIZE_def PPU_WIDTH_def PPU_HEIGHT_def)

lemma frame_wf_ops [wf_intros]:
  "frame_wf frame_new" "frame_wf f \<Longrightarrow> frame_wf (frame_increment f)" "frame_wf f \<Longrightarrow> frame_wf (frame_reset f k)"
  by (simp_all add: frame_wf_def frame_new_def frame_increment_def frame_reset_def)

text \<open>The index of a pixel of the screen.\<close>

lemma pixel_index:
  fixes x y :: u32
  assumes "unat x < 256" and "unat y < 240"
  shows "unat (x + push_bit 8 y) = unat x + 256 * unat y" and "unat (x + push_bit 8 y) < PPU_SIZE"
proof -
  have "push_bit 8 y = y * 256" by (simp add: push_bit_eq_mult)
  then have "unat (push_bit 8 y) = 256 * unat y" using assms(2) by (simp add: unat_word_ariths)
  then show i: "unat (x + push_bit 8 y) = unat x + 256 * unat y"
    using assms by (simp add: unat_word_ariths)
  show "unat (x + push_bit 8 y) < PPU_SIZE" unfolding i PPU_SIZE_eq using assms by simp
qed

lemma frame_set_pixel_ok:
  "frame_wf f \<Longrightarrow> unat x < 256 \<Longrightarrow> unat y < 240 \<Longrightarrow> unat c < 512 \<Longrightarrow> returns (frame_set_pixel f x y c) frame_wf"
  using pixel_index [of x y] by (simp add: frame_set_pixel_def frame_wf_def)

lemma frame_set_pixel_get:
  assumes "frame_wf f" and "unat x < 256" "unat y < 240" and "unat x' < 256" "unat y' < 240"
  shows "returns (frame_set_pixel f x y c) (\<lambda>f'. frame_pixel f' x' y' =
    (if x' = x \<and> y' = y then Some c else frame_pixel f x' y'))"
proof -
  have "a = a' \<and> b = b'" if "a + 256 * b = a' + 256 * b'" "a < 256" "a' < 256" for a a' b b' :: nat
  proof -
    have "a = a'" using arg_cong [OF that(1), of "\<lambda>n. n mod 256"] that(2,3) by simp
    then show ?thesis using that(1) by simp
  qed
  from this [of "unat x" "unat y" "unat x'" "unat y'"]
  have "unat x + 256 * unat y = unat x' + 256 * unat y' \<longleftrightarrow> x = x' \<and> y = y'"
    using assms by (auto simp: word_unat_eq_iff)
  then show ?thesis
    using assms pixel_index [of x y] pixel_index [of x' y']
    by (auto simp: frame_set_pixel_def frame_pixel_def frame_wf_def nth_list_update)
qed

end
