(* ===== verification/Ppu.thy ===== *)
theory Ppu
  imports PpuBus PpuFrame
begin

text \<open>
  \<open>src/ppu.rs\<close>: the state of the picture processing unit, its registers as the CPU sees them
  ($2000 to $2007), region and reset. The record has the fields of \<open>struct Ppu\<close> in their order.
  The rendering pipeline is in \<open>PpuRender\<close>. Logging has no effect on the state.
\<close>

section \<open>State\<close>

record ppu =
  pp_region :: nes_region
  pp_cycle_count :: usize
  pp_reset_signal :: bool
  pp_bus :: ppu_bus
  pp_ctrl :: ppu_ctrl
  pp_mask :: ppu_mask
  pp_status :: ppu_status
  pp_oamaddr :: u8
  pp_oamaddr_lo :: u8
  pp_oamaddr_hi :: u8
  pp_oamdata :: "u8 list"
  pp_secondary_oamaddr :: u8
  pp_secondary_oamdata :: "u8 list"
  pp_scroll :: ppu_scroll
  pp_vram_buffer :: u8
  pp_cycle :: u32
  pp_scanline :: u32
  pp_master_clock :: u64
  pp_clock_divider :: u64
  pp_vblank_scanline :: u32
  pp_prerender_scanline :: u32
  pp_pal_spr_eval_scanline :: u32
  pp_nmi_pending :: bool
  pp_prevent_vbl :: bool
  pp_frame :: frame
  pp_tile_shift_lo :: u16
  pp_tile_shift_hi :: u16
  pp_tile_lo :: u8
  pp_tile_hi :: u8
  pp_tile_addr :: u16
  pp_prev_palette :: u8
  pp_curr_palette :: u8
  pp_next_palette :: u8
  pp_oam_fetch :: u8
  pp_oam_eval_done :: bool
  pp_overflow_count :: u8
  pp_spr_in_range :: bool
  pp_spr_zero_in_range :: bool
  pp_spr_zero_visible :: bool
  pp_spr_count :: nat
  pp_sprites :: "sprite list"
  pp_spr_present :: "bool list"
  pp_open_bus :: u8

definition OAM_SIZE :: nat where "OAM_SIZE = 256"
definition SECONDARY_OAM_SIZE :: nat where "SECONDARY_OAM_SIZE = 32"
definition PALETTE_START :: u16 where "PALETTE_START = 0x3F00"
definition VISIBLE_END :: u32 where "VISIBLE_END = 256"
definition SPR_FETCH_START :: u32 where "SPR_FETCH_START = 257"
definition SPR_FETCH_END :: u32 where "SPR_FETCH_END = 320"
definition CYCLE_END :: u32 where "CYCLE_END = 340"
definition VISIBLE_SCANLINE_END :: u32 where "VISIBLE_SCANLINE_END = 239"
definition VBLANK :: u32 where "VBLANK = 1"

lemmas ppu_consts = PALETTE_START_def VISIBLE_END_def SPR_FETCH_START_def SPR_FETCH_END_def
  CYCLE_END_def VISIBLE_SCANLINE_END_def VBLANK_def

section \<open>Region\<close>

text \<open>Clock divider, first scanline of vertical blank, pre-render scanline.\<close>

fun ppu_region_timing :: "nes_region \<Rightarrow> u64 \<times> u32 \<times> u32" where
  "ppu_region_timing Ntsc = (4, 241, 261)"
| "ppu_region_timing Pal = (5, 241, 311)"
| "ppu_region_timing Dendy = (5, 291, 311)"

definition ppu_set_region :: "ppu \<Rightarrow> nes_region \<Rightarrow> ppu" where
  "ppu_set_region p region =
     (let (clock_divider, vblank_scanline, prerender_scanline) = ppu_region_timing region
      in p\<lparr>pp_region := region, pp_clock_divider := clock_divider,
           pp_vblank_scanline := vblank_scanline, pp_prerender_scanline := prerender_scanline,
           pp_pal_spr_eval_scanline := vblank_scanline + 24,
           pp_bus := pb_set_region (pp_bus p) region\<rparr>)"

definition ppu_new :: ppu where
  "ppu_new = ppu_set_region
    \<lparr>pp_region = Ntsc, pp_cycle_count = 0, pp_reset_signal = False, pp_bus = ppu_bus_new,
     pp_ctrl = ctrl_new, pp_mask = mask_new, pp_status = status_new, pp_oamaddr = 0x00,
     pp_oamaddr_lo = 0x00, pp_oamaddr_hi = 0x00, pp_oamdata = replicate OAM_SIZE 0xFF,
     pp_secondary_oamaddr = 0x00, pp_secondary_oamdata = replicate SECONDARY_OAM_SIZE 0xFF,
     pp_scroll = scroll_new, pp_vram_buffer = 0x00, pp_cycle = 0, pp_scanline = 0,
     pp_master_clock = 0, pp_clock_divider = 0, pp_vblank_scanline = 0, pp_prerender_scanline = 0,
     pp_pal_spr_eval_scanline = 0, pp_nmi_pending = False, pp_prevent_vbl = False,
     pp_frame = frame_new, pp_tile_shift_lo = 0x0000, pp_tile_shift_hi = 0x0000, pp_tile_lo = 0x00,
     pp_tile_hi = 0x00, pp_tile_addr = 0x0000, pp_prev_palette = 0x00, pp_curr_palette = 0x00,
     pp_next_palette = 0x00, pp_oam_fetch = 0x00, pp_oam_eval_done = False, pp_overflow_count = 0,
     pp_spr_in_range = False, pp_spr_zero_in_range = False, pp_spr_zero_visible = False,
     pp_spr_count = 0, pp_sprites = replicate 8 sprite_new,
     pp_spr_present = replicate (unat VISIBLE_END) False, pp_open_bus = 0x00\<rparr> Ntsc"

definition ppu_mirroring :: "ppu \<Rightarrow> mirroring" where
  "ppu_mirroring p = pb_mirroring (pp_bus p)"

definition ppu_update_mirroring :: "ppu \<Rightarrow> ppu" where
  "ppu_update_mirroring p = p\<lparr>pp_bus := pb_update_mirroring (pp_bus p)\<rparr>"

definition ppu_load_mapper :: "ppu \<Rightarrow> mapper \<Rightarrow> ppu" where
  "ppu_load_mapper p m = ppu_update_mirroring (p\<lparr>pp_bus := pb_load_mapper (pp_bus p) m\<rparr>)"

definition ppu_addr :: "ppu \<Rightarrow> u16" where
  "ppu_addr p = read_addr (pp_scroll p)"

section \<open>Helpers of the registers\<close>

definition rendering_enabled :: "ppu \<Rightarrow> bool" where
  "rendering_enabled p \<longleftrightarrow> show_bg (pp_mask p) \<or> show_spr (pp_mask p)"

definition increment_vram_addr :: "ppu \<Rightarrow> ppu" where
  "increment_vram_addr p =
     (if rendering_enabled p
         \<and> (pp_scanline p = pp_prerender_scanline p \<or> pp_scanline p \<le> VISIBLE_SCANLINE_END)
      then p\<lparr>pp_scroll := increment_y (increment_x (pp_scroll p))\<rparr>
      else p\<lparr>pp_scroll := scroll_increment (pp_scroll p) (vram_increment (pp_ctrl p))\<rparr>)"

text \<open>\<open>self.mapper_mut().ppu_bus_write(addr, val)\<close>, and a read of the PPU's bus.\<close>

definition ppu_notify_mapper :: "ppu \<Rightarrow> u16 \<Rightarrow> u8 \<Rightarrow> ppu" where
  "ppu_notify_mapper p addr val =
     p\<lparr>pp_bus := (pp_bus p)\<lparr>pb_mapper := mapper_ppu_bus_write (pb_mapper (pp_bus p)) addr val\<rparr>\<rparr>"

definition ppu_bus_read :: "ppu \<Rightarrow> u16 \<Rightarrow> (u8 \<times> ppu) option" where
  "ppu_bus_read p addr = do { (val, b) \<leftarrow> pb_read (pp_bus p) addr; Some (val, p\<lparr>pp_bus := b\<rparr>) }"

section \<open>Registers\<close>

definition write_ctrl :: "ppu \<Rightarrow> u8 \<Rightarrow> ppu" where
  "write_ctrl p val =
     (let p = p\<lparr>pp_open_bus := val\<rparr>
      in if pp_reset_signal p then p
         else
           let p = p\<lparr>pp_ctrl := ctrl_write (pp_ctrl p) val,
                     pp_scroll := write_nametable_select (pp_scroll p) val\<rparr>
           in if \<not> nmi_enabled (pp_ctrl p) then p\<lparr>pp_nmi_pending := False\<rparr>
              else if in_vblank (pp_status p) then p\<lparr>pp_nmi_pending := True\<rparr>
              else p)"

definition write_mask :: "ppu \<Rightarrow> u8 \<Rightarrow> ppu" where
  "write_mask p val =
     (let p = p\<lparr>pp_open_bus := val\<rparr>
      in if pp_reset_signal p then p else p\<lparr>pp_mask := mask_write (pp_mask p) val\<rparr>)"

definition peek_status :: "ppu \<Rightarrow> u8" where
  "peek_status p = (status_read (pp_status p) AND 0xE0) OR (pp_open_bus p AND 0x1F)"

definition read_status :: "ppu \<Rightarrow> u8 \<times> ppu" where
  "read_status p =
     (let status = peek_status p;
          p = p\<lparr>pp_nmi_pending := False, pp_status := reset_in_vblank (pp_status p),
                pp_scroll := reset_latch (pp_scroll p)\<rparr>;
          p = (if pp_scanline p = pp_vblank_scanline p \<and> pp_cycle p = VBLANK - 1
               then p\<lparr>pp_prevent_vbl := True\<rparr> else p);
          p = p\<lparr>pp_open_bus := pp_open_bus p OR (status AND 0xE0)\<rparr>
      in (status, ppu_notify_mapper p 0x2002 status))"

definition write_oamaddr :: "ppu \<Rightarrow> u8 \<Rightarrow> ppu" where
  "write_oamaddr p val = p\<lparr>pp_open_bus := val, pp_oamaddr := val\<rparr>"

definition peek_oamdata :: "ppu \<Rightarrow> u8 option" where
  "peek_oamdata p =
     (if pp_scanline p \<le> VISIBLE_SCANLINE_END \<and> rendering_enabled p
         \<and> SPR_FETCH_START \<le> pp_cycle p \<and> pp_cycle p \<le> SPR_FETCH_END
      then vec_get (pp_secondary_oamdata p) (unat (pp_secondary_oamaddr p))
      else vec_get (pp_oamdata p) (unat (pp_oamaddr p)))"

definition read_oamdata :: "ppu \<Rightarrow> (u8 \<times> ppu) option" where
  "read_oamdata p = do { val \<leftarrow> peek_oamdata p; Some (val, p\<lparr>pp_open_bus := val\<rparr>) }"

definition write_oamdata :: "ppu \<Rightarrow> u8 \<Rightarrow> ppu option" where
  "write_oamdata p val =
     (let p = p\<lparr>pp_open_bus := val\<rparr>
      in if rendering_enabled p
            \<and> (pp_scanline p \<le> VISIBLE_SCANLINE_END
               \<or> pp_scanline p = pp_prerender_scanline p
               \<or> pp_region p = Pal \<and> pp_scanline p \<ge> pp_pal_spr_eval_scanline p)
         then Some (p\<lparr>pp_oamaddr := pp_oamaddr p + 4\<rparr>)
         else
           let val = (if pp_oamaddr p AND 0x03 = 0x02 then val AND 0xE3 else val)
           in do { oamdata \<leftarrow> vec_set (pp_oamdata p) (unat (pp_oamaddr p)) val;
                   Some (p\<lparr>pp_oamdata := oamdata, pp_oamaddr := pp_oamaddr p + 1\<rparr>) })"

definition write_scroll :: "ppu \<Rightarrow> u8 \<Rightarrow> ppu" where
  "write_scroll p val =
     (let p = p\<lparr>pp_open_bus := val\<rparr>
      in if pp_reset_signal p then p else p\<lparr>pp_scroll := scroll_write (pp_scroll p) val\<rparr>)"

definition write_addr :: "ppu \<Rightarrow> u8 \<Rightarrow> ppu" where
  "write_addr p val =
     (let p = p\<lparr>pp_open_bus := val\<rparr>
      in if pp_reset_signal p then p
         else
           let p = p\<lparr>pp_scroll := scroll_write_addr (pp_scroll p) val\<rparr>
           in ppu_notify_mapper p (read_addr (pp_scroll p)) val)"

definition read_data :: "ppu \<Rightarrow> (u8 \<times> ppu) option" where
  "read_data p =
     (let addr = read_addr (pp_scroll p);
          p = increment_vram_addr p
      in do { (val, p) \<leftarrow> ppu_bus_read p addr;
              (val, p) \<leftarrow>
                (if addr < PALETTE_START
                 then Some (pp_vram_buffer p, p\<lparr>pp_vram_buffer := val\<rparr>)
                 else do { (buffer, p) \<leftarrow> ppu_bus_read p (addr - 0x1000);
                           let p = p\<lparr>pp_vram_buffer := buffer\<rparr>
                           in Some (val OR (pp_open_bus p AND 0xC0), p) });
              let p = p\<lparr>pp_open_bus := val\<rparr>
              in Some (val, ppu_notify_mapper p (read_addr (pp_scroll p)) val) })"

definition peek_data :: "ppu \<Rightarrow> u8 option" where
  "peek_data p =
     (let addr = read_addr (pp_scroll p)
      in if addr < PALETTE_START then Some (pp_vram_buffer p)
         else do { val \<leftarrow> pb_peek (pp_bus p) addr; Some (val OR (pp_open_bus p AND 0xC0)) })"

definition write_data :: "ppu \<Rightarrow> u8 \<Rightarrow> ppu option" where
  "write_data p val =
     (let p = p\<lparr>pp_open_bus := val\<rparr>;
          addr = read_addr (pp_scroll p);
          p = increment_vram_addr p
      in do { b \<leftarrow> pb_write (pp_bus p) addr val;
              let p = p\<lparr>pp_bus := b\<rparr>
              in Some (ppu_notify_mapper p (read_addr (pp_scroll p)) val) })"

section \<open>Reset\<close>

definition ppu_reset :: "ppu \<Rightarrow> kind \<Rightarrow> ppu option" where
  "ppu_reset p k =
     (let p = p\<lparr>pp_reset_signal := True, pp_ctrl := ctrl_reset (pp_ctrl p) k,
                pp_mask := mask_reset (pp_mask p) k, pp_status := status_reset (pp_status p) k\<rparr>;
          p = (if k = Hard then p\<lparr>pp_oamaddr := 0x00\<rparr> else p);
          p = p\<lparr>pp_secondary_oamaddr := 0x00, pp_scroll := scroll_reset (pp_scroll p) k,
                pp_vram_buffer := 0x00, pp_cycle := 0, pp_scanline := 0, pp_master_clock := 0,
                pp_nmi_pending := False, pp_prevent_vbl := False,
                pp_frame := frame_reset (pp_frame p) k, pp_oam_fetch := 0x00,
                pp_oam_eval_done := False, pp_overflow_count := 0, pp_spr_in_range := False,
                pp_spr_zero_in_range := False, pp_spr_zero_visible := False, pp_spr_count := 0,
                pp_sprites := replicate 8 sprite_new,
                pp_spr_present := replicate (length (pp_spr_present p)) False,
                pp_open_bus := 0x00\<rparr>
      in do { b \<leftarrow> pb_reset (pp_bus p) k; Some (p\<lparr>pp_bus := b\<rparr>) })"

end
