(* ===== verification/PpuRender.thy ===== *)
theory PpuRender
  imports Ppu
begin

text \<open>
  \<open>src/ppu.rs\<close>, the rendering pipeline: background fetches, sprite evaluation and sprite
  fetches, the colour of a pixel, \<open>tick\<close> (one dot) and \<open>clock\<close>, which walks the dots of a frame.
  The long functions of the source are split at their branches, in the order of the source.
\<close>

section \<open>Vertical blank\<close>

definition start_vblank :: "ppu \<Rightarrow> ppu" where
  "start_vblank p =
     (let p = (if \<not> pp_prevent_vbl p
               then p\<lparr>pp_status := set_in_vblank (pp_status p) True,
                      pp_nmi_pending := nmi_enabled (pp_ctrl p)\<rparr>
               else p);
          p = p\<lparr>pp_prevent_vbl := False\<rparr>
      in ppu_notify_mapper p 0x2002 (peek_status p))"

definition stop_vblank :: "ppu \<Rightarrow> ppu" where
  "stop_vblank p =
     (let s = set_spr_zero_hit (pp_status p) False;
          s = set_spr_overflow s False;
          p = p\<lparr>pp_status := reset_in_vblank s, pp_nmi_pending := False, pp_reset_signal := False\<rparr>
      in ppu_notify_mapper p 0x2002 (peek_status p))"

section \<open>Background fetches\<close>

definition fetch_bg_nt_byte :: "ppu \<Rightarrow> ppu option" where
  "fetch_bg_nt_byte p =
     (let p = p\<lparr>pp_prev_palette := pp_curr_palette p\<rparr>;
          p = p\<lparr>pp_curr_palette := pp_next_palette p\<rparr>;
          p = p\<lparr>pp_tile_shift_lo := pp_tile_shift_lo p OR ucast (pp_tile_lo p),
                pp_tile_shift_hi := pp_tile_shift_hi p OR ucast (pp_tile_hi p)\<rparr>;
          addr = 0x2000 OR (ppu_addr p AND 0x0FFF)
      in do { (tile_index, p) \<leftarrow> ppu_bus_read p addr;
              Some (p\<lparr>pp_tile_addr :=
                bg_select (pp_ctrl p) OR push_bit 4 (ucast tile_index) OR fine_y (pp_scroll p)\<rparr>) })"

definition fetch_bg_attr_byte :: "ppu \<Rightarrow> ppu option" where
  "fetch_bg_attr_byte p =
     (let addr = attr_addr (pp_scroll p); shift = attr_shift (pp_scroll p)
      in do { (val, p) \<leftarrow> ppu_bus_read p addr;
              Some (p\<lparr>pp_next_palette := push_bit 2 (drop_bit (unat shift) val AND 0x03)\<rparr>) })"

definition fetch_background :: "ppu \<Rightarrow> ppu option" where
  "fetch_background p =
     (let c = pp_cycle p AND 0x07
      in if c = 1 then fetch_bg_nt_byte p
         else if c = 3 then fetch_bg_attr_byte p
         else if c = 5 then
           do { (val, p) \<leftarrow> ppu_bus_read p (pp_tile_addr p); Some (p\<lparr>pp_tile_lo := val\<rparr>) }
         else if c = 7 then
           do { (val, p) \<leftarrow> ppu_bus_read p (pp_tile_addr p + 8); Some (p\<lparr>pp_tile_hi := val\<rparr>) }
         else Some p)"

section \<open>Sprite evaluation\<close>

text \<open>\<open>(y..y + height).contains(&scanline)\<close>\<close>

definition sprite_on_line :: "u32 \<Rightarrow> u32 \<Rightarrow> u32 \<Rightarrow> bool" where
  "sprite_on_line y height scanline \<longleftrightarrow> y \<le> scanline \<and> scanline < y + height"

text \<open>\<open>self.oamaddr_hi = (self.oamaddr_hi + 1) & 0x3F\<close>, and the end of the evaluation when it
  wraps around.\<close>

definition oamaddr_hi_inc :: "ppu \<Rightarrow> ppu" where
  "oamaddr_hi_inc p = p\<lparr>pp_oamaddr_hi := (pp_oamaddr_hi p + 1) AND 0x3F\<rparr>"

definition oam_eval_end :: "ppu \<Rightarrow> ppu" where
  "oam_eval_end p = (if pp_oamaddr_hi p = 0x00 then p\<lparr>pp_oam_eval_done := True\<rparr> else p)"

text \<open>Cycle 65 and cycle 256.\<close>

definition spr_eval_start :: "ppu \<Rightarrow> ppu" where
  "spr_eval_start p =
     p\<lparr>pp_spr_in_range := False, pp_spr_zero_in_range := False, pp_secondary_oamaddr := 0x00,
       pp_oam_eval_done := False, pp_oamaddr_hi := drop_bit 2 (pp_oamaddr p) AND 0x3F,
       pp_oamaddr_lo := pp_oamaddr p AND 0x03\<rparr>"

definition spr_eval_finish :: "ppu \<Rightarrow> ppu" where
  "spr_eval_finish p =
     p\<lparr>pp_spr_zero_visible := pp_spr_zero_in_range p,
       pp_spr_count := unat (drop_bit 2 (pp_secondary_oamaddr p))\<rparr>"

text \<open>An even cycle with room in the secondary OAM: copy a byte.\<close>

definition spr_eval_copy :: "ppu \<Rightarrow> ppu option" where
  "spr_eval_copy p =
     do { oam \<leftarrow> vec_set (pp_secondary_oamdata p) (unat (pp_secondary_oamaddr p)) (pp_oam_fetch p);
          let p = p\<lparr>pp_secondary_oamdata := oam\<rparr>
          in if pp_spr_in_range p then
               let p = p\<lparr>pp_oamaddr_lo := pp_oamaddr_lo p + 1,
                         pp_secondary_oamaddr := pp_secondary_oamaddr p + 1\<rparr>;
                   p = (if pp_oamaddr_hi p = 0x00 then p\<lparr>pp_spr_zero_in_range := True\<rparr> else p)
               in Some (if pp_oamaddr_lo p = 0x04
                        then oam_eval_end (oamaddr_hi_inc (p\<lparr>pp_spr_in_range := False, pp_oamaddr_lo := 0x00\<rparr>))
                        else p)
             else Some (oam_eval_end (oamaddr_hi_inc p)) }"

text \<open>An even cycle with eight sprites found: the faulty overflow check.\<close>

definition spr_eval_overflow :: "ppu \<Rightarrow> ppu option" where
  "spr_eval_overflow p =
     do { fetch \<leftarrow> vec_get (pp_secondary_oamdata p) (unat (pp_secondary_oamaddr p AND 0x1F));
          let p = p\<lparr>pp_oam_fetch := fetch\<rparr>
          in if pp_spr_in_range p then
               let p = p\<lparr>pp_status := set_spr_overflow (pp_status p) True,
                         pp_oamaddr_lo := pp_oamaddr_lo p + 1\<rparr>;
                   p = (if pp_oamaddr_lo p = 0x04
                        then oamaddr_hi_inc (p\<lparr>pp_oamaddr_lo := 0x00\<rparr>) else p)
               in Some (if pp_overflow_count p = 0 then p\<lparr>pp_overflow_count := 3\<rparr>
                        else let p = p\<lparr>pp_overflow_count := pp_overflow_count p - 1\<rparr>
                             in if pp_overflow_count p = 0
                                then p\<lparr>pp_oam_eval_done := True, pp_oamaddr_lo := 0x00\<rparr> else p)
             else
               let p = oamaddr_hi_inc p;
                   p = p\<lparr>pp_oamaddr_lo := (pp_oamaddr_lo p + 1) AND 0x03\<rparr>
               in Some (oam_eval_end p) }"

definition spr_eval_write :: "ppu \<Rightarrow> ppu option" where
  "spr_eval_write p =
     do { p \<leftarrow>
            (if pp_oam_eval_done p then
               let p = oamaddr_hi_inc p
               in if pp_secondary_oamaddr p \<ge> 0x20 then
                    do { fetch \<leftarrow> vec_get (pp_secondary_oamdata p) (unat (pp_secondary_oamaddr p) AND 0x1F);
                         Some (p\<lparr>pp_oam_fetch := fetch\<rparr>) }
                  else Some p
             else
               let y = ucast (pp_oam_fetch p); height = spr_height (pp_ctrl p);
                   p = (if \<not> pp_spr_in_range p \<and> sprite_on_line y height (pp_scanline p)
                        then p\<lparr>pp_spr_in_range := True\<rparr> else p)
               in if pp_secondary_oamaddr p < 0x20 then spr_eval_copy p else spr_eval_overflow p);
          Some (p\<lparr>pp_oamaddr := push_bit 2 (pp_oamaddr_hi p) OR (pp_oamaddr_lo p AND 0x03)\<rparr>) }"

definition spr_eval_read :: "ppu \<Rightarrow> ppu option" where
  "spr_eval_read p =
     do { fetch \<leftarrow> vec_get (pp_oamdata p) (unat (pp_oamaddr p)); Some (p\<lparr>pp_oam_fetch := fetch\<rparr>) }"

definition evaluate_sprites :: "ppu \<Rightarrow> ppu option" where
  "evaluate_sprites p =
     (if 1 \<le> pp_cycle p \<and> pp_cycle p \<le> 64 then
        Some (p\<lparr>pp_oam_fetch := 0xFF,
               pp_secondary_oamdata := replicate (length (pp_secondary_oamdata p)) 0xFF\<rparr>)
      else if 65 \<le> pp_cycle p \<and> pp_cycle p \<le> 256 then
        let p = (if pp_cycle p = 65 then spr_eval_start p
                 else if pp_cycle p = 256 then spr_eval_finish p else p)
        in if pp_cycle p AND 0x01 = 0x01 then spr_eval_read p else spr_eval_write p
      else Some p)"

section \<open>Sprite fetches\<close>

text \<open>The row of the pattern of a sprite that is on the scanline.\<close>

definition sprite_line_offset :: "u32 \<Rightarrow> u32 \<Rightarrow> u32 \<Rightarrow> bool \<Rightarrow> u32" where
  "sprite_line_offset y height scanline flip_vertical =
     (let line_offset = (if sprite_on_line y height scanline then scanline - y else 0)
      in if flip_vertical then height - 1 - line_offset else line_offset)"

definition sprite_tile_addr :: "ppu_ctrl \<Rightarrow> u16 \<Rightarrow> u32 \<Rightarrow> u16" where
  "sprite_tile_addr ctrl tile_number line_offset =
     (if spr_height ctrl = 16 then
        let sprite_select = (if tile_number AND 0x01 = 0x01 then 0x1000 else 0x0000);
            line_offset = (if line_offset \<ge> 8 then line_offset + 8 else line_offset)
        in sprite_select OR push_bit 4 (tile_number AND 0xFE) OR ucast line_offset
      else spr_select ctrl OR push_bit 4 tile_number OR ucast line_offset)"

text \<open>\<open>for spr in self.spr_present.iter_mut().skip(x).take(8) { *spr = true }\<close>\<close>

definition mark_present :: "bool list \<Rightarrow> nat \<Rightarrow> bool list" where
  "mark_present xs x = take x xs @ map (\<lambda>_. True) (take 8 (drop x xs)) @ drop (x + 8) xs"

text \<open>The two outcomes of \<open>load_sprites\<close>: a sprite of the line, or the dummy fetch of tile $FF.\<close>

definition fetch_sprite_slot :: "ppu \<Rightarrow> nat \<Rightarrow> u16 \<Rightarrow> u8 \<Rightarrow> u8 \<Rightarrow> u8 \<Rightarrow> ppu option" where
  "fetch_sprite_slot p idx tile_addr y attr x =
     do { sprite \<leftarrow> vec_get (pp_sprites p) idx;
          (lo, p) \<leftarrow> ppu_bus_read p tile_addr;
          (hi, p) \<leftarrow> ppu_bus_read p (tile_addr + 8);
          sprites \<leftarrow> vec_set (pp_sprites p) idx
            (sprite\<lparr>sprite_x := ucast x, sprite_y := ucast y, sprite_tile_lo := lo,
               sprite_tile_hi := hi, sprite_palette := push_bit 2 (attr AND 0x03) OR 0x10,
               sprite_bg_priority := (attr AND 0x20 = 0x20),
               sprite_flip_horizontal := (attr AND 0x40 = 0x40),
               sprite_flip_vertical := (attr AND 0x80 = 0x80)\<rparr>);
          Some (p\<lparr>pp_sprites := sprites,
                 pp_spr_present := mark_present (pp_spr_present p) (unat x)\<rparr>) }"

definition fetch_hidden_sprite :: "ppu \<Rightarrow> u16 \<Rightarrow> ppu option" where
  "fetch_hidden_sprite p tile_addr =
     do { (_, p) \<leftarrow> ppu_bus_read p tile_addr;
          (_, p) \<leftarrow> ppu_bus_read p (tile_addr + 8);
          Some p }"

definition load_sprites :: "ppu \<Rightarrow> ppu option" where
  "load_sprites p =
     (let idx = unat (pp_cycle p - SPR_FETCH_START) div 8; oam_idx = idx * 4
      in do {
        y \<leftarrow> vec_get (pp_secondary_oamdata p) oam_idx;
        tile_number \<leftarrow> vec_get (pp_secondary_oamdata p) (oam_idx + 1);
        attr \<leftarrow> vec_get (pp_secondary_oamdata p) (oam_idx + 2);
        x \<leftarrow> vec_get (pp_secondary_oamdata p) (oam_idx + 3);
        let flip_vertical = (attr AND 0x80 = 0x80);
            line_offset = sprite_line_offset (ucast y) (spr_height (pp_ctrl p)) (pp_scanline p) flip_vertical;
            (line_offset, tile_number) =
              (if idx \<ge> pp_spr_count p then (0, 0xFF) else (line_offset, ucast tile_number));
            tile_addr = sprite_tile_addr (pp_ctrl p) tile_number line_offset
        in if idx < pp_spr_count p then fetch_sprite_slot p idx tile_addr y attr x
           else fetch_hidden_sprite p tile_addr })"

definition fetch_sprites :: "ppu \<Rightarrow> ppu option" where
  "fetch_sprites p =
     (let p = write_oamaddr p 0x00; c = pp_cycle p AND 0x07
      in if c = 1 then fetch_bg_nt_byte p
         else if c = 3 then fetch_bg_attr_byte p
         else if c = 4 then load_sprites p
         else Some p)"

section \<open>Pixels\<close>

definition bg_pixel :: "ppu \<Rightarrow> u32 \<Rightarrow> u8" where
  "bg_pixel p x =
     (let left_clip_bg = x < 8 \<and> \<not> show_left_bg (pp_mask p)
      in if show_bg (pp_mask p) \<and> \<not> left_clip_bg then
           let offset = unat (fine_x (pp_scroll p))
           in ucast (drop_bit 14 (push_bit offset (pp_tile_shift_hi p) AND 0x8000)
                OR drop_bit 15 (push_bit offset (pp_tile_shift_lo p) AND 0x8000))
         else 0)"

text \<open>\<open>x as i16 - sprite.x as i16\<close>\<close>

definition sprite_shift :: "u32 \<Rightarrow> sprite \<Rightarrow> int" where
  "sprite_shift x s = sint (ucast x - ucast (sprite_x s) :: u16)"

definition sprite_color :: "sprite \<Rightarrow> nat \<Rightarrow> u8" where
  "sprite_color s shift =
     (if sprite_flip_horizontal s
      then push_bit 1 (drop_bit shift (sprite_tile_hi s) AND 0x01) OR (drop_bit shift (sprite_tile_lo s) AND 0x01)
      else drop_bit 6 (push_bit shift (sprite_tile_hi s) AND 0x80)
        OR drop_bit 7 (push_bit shift (sprite_tile_lo s) AND 0x80))"

text \<open>The loop over the sprites of the line: the first one with an opaque pixel at \<open>x\<close>, with its
  number and its colour.\<close>

fun first_opaque :: "u32 \<Rightarrow> nat \<Rightarrow> sprite list \<Rightarrow> (nat \<times> sprite \<times> u8) option" where
  "first_opaque x i [] = None"
| "first_opaque x i (s # ss) =
     (let shift = sprite_shift x s
      in if 0 \<le> shift \<and> shift \<le> 7 \<and> sprite_color s (nat shift) \<noteq> 0
         then Some (i, s, sprite_color s (nat shift))
         else first_opaque x (Suc i) ss)"

definition bg_palette :: "ppu \<Rightarrow> u32 \<Rightarrow> u8" where
  "bg_palette p x =
     (if fine_x (pp_scroll p) + ucast (x AND 0x07) < 8 then pp_prev_palette p else pp_curr_palette p)"

definition pixel_color :: "ppu \<Rightarrow> (u8 \<times> ppu) option" where
  "pixel_color p =
     (let x = pp_cycle p - 1;
          bg_color = bg_pixel p x;
          left_clip_spr = x < 8 \<and> \<not> show_left_spr (pp_mask p)
      in do {
        present \<leftarrow> (if show_spr (pp_mask p) \<and> \<not> left_clip_spr
                   then vec_get (pp_spr_present p) (unat x) else Some False);
        case (if present then first_opaque x 0 (take (pp_spr_count p) (pp_sprites p)) else None) of
          None \<Rightarrow> Some (bg_palette p x + bg_color, p)
        | Some (i, s, spr_color) \<Rightarrow>
            let p = (if i = 0 \<and> bg_color \<noteq> 0 \<and> pp_spr_zero_visible p \<and> x \<noteq> 255
                        \<and> rendering_enabled p \<and> \<not> spr_zero_hit (pp_status p)
                     then p\<lparr>pp_status := set_spr_zero_hit (pp_status p) True\<rparr> else p)
            in if bg_color = 0 \<or> \<not> sprite_bg_priority s
               then Some (sprite_palette s + spr_color, p)
               else Some (bg_palette p x + bg_color, p) })"

definition render_pixel :: "ppu \<Rightarrow> ppu option" where
  "render_pixel p =
     (let x = pp_cycle p - 1; y = pp_scanline p
      in do {
        (palette_addr, p) \<leftarrow>
          (if rendering_enabled p \<or> ppu_addr p AND PALETTE_START \<noteq> PALETTE_START then
             do { (color, p) \<leftarrow> pixel_color p;
                  Some (if color AND 0x03 > 0 then ucast color else 0, p) }
           else Some (ppu_addr p AND 0x1F, p));
        (val, p) \<leftarrow> ppu_bus_read p (PALETTE_START + palette_addr);
        let color = ucast val AND (if grayscale (pp_mask p) then 0x30 else 0x3F);
            color = color OR push_bit 1 (ucast (emphasis (pp_mask p) (pp_region p)))
        in do { f \<leftarrow> frame_set_pixel (pp_frame p) x y color; Some (p\<lparr>pp_frame := f\<rparr>) } })"

section \<open>One dot\<close>

definition visible_scanline :: "ppu \<Rightarrow> bool" where
  "visible_scanline p \<longleftrightarrow> pp_scanline p \<le> VISIBLE_SCANLINE_END"

definition prerender_scanline :: "ppu \<Rightarrow> bool" where
  "prerender_scanline p \<longleftrightarrow> pp_scanline p = pp_prerender_scanline p"

definition cycle_in :: "u32 \<Rightarrow> u32 \<Rightarrow> ppu \<Rightarrow> bool" where
  "cycle_in a b p \<longleftrightarrow> a \<le> pp_cycle p \<and> pp_cycle p \<le> b"

definition bg_fetch_cycle :: "ppu \<Rightarrow> bool" where
  "bg_fetch_cycle p \<longleftrightarrow> cycle_in 321 336 p \<or> cycle_in 1 256 p"

definition tick_sprite_eval :: "ppu \<Rightarrow> ppu option" where
  "tick_sprite_eval p =
     (if visible_scanline p \<or> pp_region p = Pal \<and> pp_scanline p \<ge> pp_pal_spr_eval_scanline p then
        if cycle_in 1 256 p then evaluate_sprites p
        else if cycle_in SPR_FETCH_START SPR_FETCH_END p then Some (write_oamaddr p 0x00)
        else Some p
      else Some p)"

definition tick_background :: "ppu \<Rightarrow> ppu option" where
  "tick_background p =
     (if bg_fetch_cycle p then
        do { p \<leftarrow> fetch_background p;
             Some (if pp_cycle p AND 0x07 = 0x00
                   then p\<lparr>pp_scroll := increment_x (pp_scroll p)\<rparr> else p) }
      else if cycle_in 337 CYCLE_END p then fetch_bg_nt_byte p
      else Some p)"

text \<open>The match on the cycle: the OAM copy of the pre-render line, and the scroll updates.\<close>

definition tick_scroll :: "ppu \<Rightarrow> ppu option" where
  "tick_scroll p =
     (if cycle_in 1 8 p \<and> prerender_scanline p \<and> pp_oamaddr p \<ge> 0x08 then
        let addr = unat (pp_cycle p - 1)
        in do { v \<leftarrow> vec_get (pp_oamdata p) (unat (pp_oamaddr p AND 0xF8) + addr);
                oam \<leftarrow> vec_set (pp_oamdata p) addr v;
                Some (p\<lparr>pp_oamdata := oam\<rparr>) }
      else if pp_cycle p = 256 then Some (p\<lparr>pp_scroll := increment_y (pp_scroll p)\<rparr>)
      else if pp_cycle p = 257 then Some (p\<lparr>pp_scroll := copy_x (pp_scroll p)\<rparr>)
      else if cycle_in 280 304 p \<and> prerender_scanline p
      then Some (p\<lparr>pp_scroll := copy_y (pp_scroll p)\<rparr>)
      else Some p)"

definition tick_sprites :: "ppu \<Rightarrow> ppu option" where
  "tick_sprites p =
     (let p = (if prerender_scanline p then p\<lparr>pp_spr_count := 0\<rparr> else p)
      in do { p \<leftarrow>
                (if cycle_in SPR_FETCH_START SPR_FETCH_END p
                 then fetch_sprites
                   (if pp_cycle p = SPR_FETCH_START
                    then p\<lparr>pp_spr_present := replicate (length (pp_spr_present p)) False\<rparr> else p)
                 else Some p);
              if cycle_in 321 CYCLE_END p
              then do { v \<leftarrow> vec_get (pp_secondary_oamdata p) 0; Some (p\<lparr>pp_oam_fetch := v\<rparr>) }
              else Some p })"

definition ODD_SKIP :: u32 where "ODD_SKIP = 339"

definition tick_odd_skip :: "ppu \<Rightarrow> ppu" where
  "tick_odd_skip p =
     (if pp_cycle p = ODD_SKIP \<and> prerender_scanline p
         \<and> frame_number (pp_frame p) AND 0x01 = 0x01 \<and> pp_region p = Ntsc
      then p\<lparr>pp_cycle := CYCLE_END\<rparr> else p)"

text \<open>The tests on the cycle are made before the odd-frame skip changes it.\<close>

definition tick :: "ppu \<Rightarrow> ppu option" where
  "tick p =
     (let bg_fetch = bg_fetch_cycle p; pixel = cycle_in 1 256 p \<and> visible_scanline p
      in do {
        p \<leftarrow> (if rendering_enabled p then
                do { p \<leftarrow> tick_sprite_eval p;
                     if prerender_scanline p \<or> visible_scanline p then
                       do { p \<leftarrow> tick_background p;
                            p \<leftarrow> tick_scroll p;
                            p \<leftarrow> tick_sprites p;
                            Some (tick_odd_skip p) }
                     else Some p }
              else Some p);
        p \<leftarrow> (if pixel then render_pixel p else Some p);
        Some (if bg_fetch
              then p\<lparr>pp_tile_shift_lo := push_bit 1 (pp_tile_shift_lo p),
                     pp_tile_shift_hi := push_bit 1 (pp_tile_shift_hi p)\<rparr>
              else p) })"

section \<open>Clock\<close>

definition ppu_clock :: "ppu \<Rightarrow> ppu option" where
  "ppu_clock p =
     (let p = (if pp_scanline p = 0 then p\<lparr>pp_open_bus := 0x00\<rparr> else p)
      in do {
        p \<leftarrow> (if pp_cycle p \<ge> CYCLE_END then
                let p = p\<lparr>pp_cycle := 0, pp_scanline := pp_scanline p + 1\<rparr>
                in Some (if pp_scanline p = pp_vblank_scanline p - 1
                         then p\<lparr>pp_frame := frame_increment (pp_frame p)\<rparr>
                         else if pp_scanline p > pp_prerender_scanline p
                         then p\<lparr>pp_scanline := 0\<rparr> else p)
              else
                do { p \<leftarrow> tick (p\<lparr>pp_cycle := pp_cycle p + 1\<rparr>);
                     Some (if pp_cycle p = VBLANK then
                             let p = (if pp_scanline p = pp_vblank_scanline p then start_vblank p else p)
                             in if pp_scanline p = pp_prerender_scanline p then stop_vblank p else p
                           else p) });
        Some (p\<lparr>pp_cycle_count := pp_cycle_count p + 1\<rparr>) })"

text \<open>\<open>clock_to\<close>: \<open>None\<close> when a clock panics or the loop does not end.\<close>

partial_function (option) ppu_clock_to :: "ppu \<Rightarrow> u64 \<Rightarrow> ppu option" where
  "ppu_clock_to p clock =
     (if pp_master_clock p + pp_clock_divider p \<le> clock
      then Option.bind (ppu_clock p)
        (\<lambda>p. ppu_clock_to (p\<lparr>pp_master_clock := pp_master_clock p + pp_clock_divider p\<rparr>) clock)
      else Some p)"

fun ppu_clocks :: "nat \<Rightarrow> ppu \<Rightarrow> ppu option" where
  "ppu_clocks 0 p = Some p"
| "ppu_clocks (Suc n) p = do { p \<leftarrow> ppu_clock p; ppu_clocks n p }"

end
