(* ===== verification/PpuInv.thy ===== *)
theory PpuInv
  imports PpuRender
begin

text \<open>
  The invariant of the picture processing unit and its preservation by every operation:
  \<open>ppu_core\<close> is about the memories and indices, \<open>ppu_timing\<close> about the position in the frame.
  Every stage of \<open>tick\<close> returns (no index of the source is out of range) and keeps the core and
  the clock registers (\<open>clock_of\<close>); \<open>stage_bind\<close> composes them. \<open>ppu_clock_ok\<close> is the result:
  a dot of the PPU does not panic and keeps the invariant.
\<close>

section \<open>Invariant\<close>

definition ppu_core :: "board \<Rightarrow> ppu \<Rightarrow> bool" where
  "ppu_core bd p \<longleftrightarrow>
     ppu_bus_wf bd (pp_bus p) \<and> scroll_ok (pp_scroll p) \<and> frame_wf (pp_frame p)
     \<and> length (pp_oamdata p) = OAM_SIZE \<and> length (pp_secondary_oamdata p) = SECONDARY_OAM_SIZE
     \<and> unat (pp_secondary_oamaddr p) \<le> 0x20 \<and> length (pp_sprites p) = 8 \<and> pp_spr_count p \<le> 8
     \<and> length (pp_spr_present p) = 256"

definition ppu_timing :: "ppu \<Rightarrow> bool" where
  "ppu_timing p \<longleftrightarrow>
     ppu_region_timing (pp_region p) = (pp_clock_divider p, pp_vblank_scanline p, pp_prerender_scanline p)
     \<and> pp_pal_spr_eval_scanline p = pp_vblank_scanline p + 24
     \<and> pp_cycle p \<le> CYCLE_END \<and> pp_scanline p \<le> pp_prerender_scanline p"

definition ppu_wf :: "board \<Rightarrow> ppu \<Rightarrow> bool" where
  "ppu_wf bd p \<longleftrightarrow> ppu_core bd p \<and> ppu_timing p"

text \<open>The registers that no stage of a dot changes.\<close>

definition clock_of :: "ppu \<Rightarrow> nes_region \<times> u32 \<times> u32 \<times> u64 \<times> u64 \<times> u32 \<times> u32 \<times> u32 \<times> ppu_mask \<times> ppu_ctrl" where
  "clock_of p = (pp_region p, pp_cycle p, pp_scanline p, pp_master_clock p, pp_clock_divider p,
     pp_vblank_scanline p, pp_prerender_scanline p, pp_pal_spr_eval_scanline p, pp_mask p, pp_ctrl p)"

definition keeps :: "board \<Rightarrow> ppu \<Rightarrow> ppu \<Rightarrow> bool" where
  "keeps bd p p' \<longleftrightarrow> ppu_core bd p' \<and> clock_of p' = clock_of p"

lemma clock_ofD:
  assumes "clock_of p' = clock_of p"
  shows "pp_region p' = pp_region p" "pp_cycle p' = pp_cycle p" "pp_scanline p' = pp_scanline p"
    "pp_master_clock p' = pp_master_clock p" "pp_clock_divider p' = pp_clock_divider p"
    "pp_vblank_scanline p' = pp_vblank_scanline p" "pp_prerender_scanline p' = pp_prerender_scanline p"
    "pp_pal_spr_eval_scanline p' = pp_pal_spr_eval_scanline p" "pp_mask p' = pp_mask p" "pp_ctrl p' = pp_ctrl p"
  using assms by (simp_all add: clock_of_def)

lemma keeps_refl [simp]: "ppu_core bd p \<Longrightarrow> keeps bd p p"
  by (simp add: keeps_def)

lemma keeps_core: "keeps bd p p' \<Longrightarrow> ppu_core bd p'"
  by (simp add: keeps_def)

lemma keepsD: "keeps bd p p' \<Longrightarrow> pp_cycle p' = pp_cycle p" "keeps bd p p' \<Longrightarrow> pp_scanline p' = pp_scanline p"
  "keeps bd p p' \<Longrightarrow> pp_mask p' = pp_mask p"
  "keeps bd p p' \<Longrightarrow> pp_prerender_scanline p' = pp_prerender_scanline p"
  by (auto simp: keeps_def dest: clock_ofD)

lemma keeps_trans: "keeps bd p q \<Longrightarrow> keeps bd q r \<Longrightarrow> keeps bd p r"
  by (simp add: keeps_def)

lemma stage_bind:
  assumes "returns m (keeps bd p)" and "\<And>q. keeps bd p q \<Longrightarrow> returns (f q) (keeps bd q)"
  shows "returns (Option.bind m f) (keeps bd p)"
  using assms keeps_trans by (fastforce simp: returns_def)

lemma stage_after: "keeps bd p q \<Longrightarrow> returns m (keeps bd q) \<Longrightarrow> returns m (keeps bd p)"
  using keeps_trans by (fastforce simp: returns_def)

lemma ppu_bus_read_keeps:
  "ppu_core bd p \<Longrightarrow> returns (ppu_bus_read p a) (\<lambda>(x, q). keeps bd p q)"
  using pb_read_ok [of bd "pp_bus p" a]
  by (auto simp: ppu_bus_read_def keeps_def ppu_core_def clock_of_def split_beta intro: returns_mono)

lemma ppu_notify_mapper_keeps: "ppu_core bd p \<Longrightarrow> keeps bd p (ppu_notify_mapper p a v)"
  by (simp add: ppu_notify_mapper_def keeps_def ppu_core_def clock_of_def ppu_bus_wf_simple)

text \<open>A read of the bus and then an update of fields outside the core.\<close>

lemma bus_read_then:
  assumes "ppu_core bd p" and "\<And>x q. keeps bd p q \<Longrightarrow> returns (f (x, q)) (keeps bd q)"
  shows "returns (Option.bind (ppu_bus_read p a) f) (keeps bd p)"
proof -
  obtain x q where r: "ppu_bus_read p a = Some (x, q)" "keeps bd p q"
    using returnsD [OF ppu_bus_read_keeps [OF assms(1), of a]] by auto
  then show ?thesis using assms(2) [OF r(2)] stage_after [OF r(2)] by simp
qed

section \<open>Background\<close>

lemma keeps_simps [simp]:
  "ppu_core bd (p\<lparr>pp_next_palette := y\<rparr>) = ppu_core bd p" "clock_of (p\<lparr>pp_next_palette := y\<rparr>) = clock_of p"
  "ppu_core bd (p\<lparr>pp_curr_palette := y\<rparr>) = ppu_core bd p" "clock_of (p\<lparr>pp_curr_palette := y\<rparr>) = clock_of p"
  "ppu_core bd (p\<lparr>pp_prev_palette := y\<rparr>) = ppu_core bd p" "clock_of (p\<lparr>pp_prev_palette := y\<rparr>) = clock_of p"
  "ppu_core bd (p\<lparr>pp_tile_lo := y\<rparr>) = ppu_core bd p" "clock_of (p\<lparr>pp_tile_lo := y\<rparr>) = clock_of p"
  "ppu_core bd (p\<lparr>pp_tile_hi := y\<rparr>) = ppu_core bd p" "clock_of (p\<lparr>pp_tile_hi := y\<rparr>) = clock_of p"
  "ppu_core bd (p\<lparr>pp_tile_addr := z\<rparr>) = ppu_core bd p" "clock_of (p\<lparr>pp_tile_addr := z\<rparr>) = clock_of p"
  "ppu_core bd (p\<lparr>pp_tile_shift_lo := z\<rparr>) = ppu_core bd p" "clock_of (p\<lparr>pp_tile_shift_lo := z\<rparr>) = clock_of p"
  "ppu_core bd (p\<lparr>pp_tile_shift_hi := z\<rparr>) = ppu_core bd p" "clock_of (p\<lparr>pp_tile_shift_hi := z\<rparr>) = clock_of p"
  "ppu_core bd (p\<lparr>pp_open_bus := y\<rparr>) = ppu_core bd p" "clock_of (p\<lparr>pp_open_bus := y\<rparr>) = clock_of p"
  "ppu_core bd (p\<lparr>pp_oamaddr := y\<rparr>) = ppu_core bd p" "clock_of (p\<lparr>pp_oamaddr := y\<rparr>) = clock_of p"
  "ppu_core bd (p\<lparr>pp_oamaddr_lo := y\<rparr>) = ppu_core bd p" "clock_of (p\<lparr>pp_oamaddr_lo := y\<rparr>) = clock_of p"
  "ppu_core bd (p\<lparr>pp_oamaddr_hi := y\<rparr>) = ppu_core bd p" "clock_of (p\<lparr>pp_oamaddr_hi := y\<rparr>) = clock_of p"
  "ppu_core bd (p\<lparr>pp_oam_fetch := y\<rparr>) = ppu_core bd p" "clock_of (p\<lparr>pp_oam_fetch := y\<rparr>) = clock_of p"
  "ppu_core bd (p\<lparr>pp_status := y\<rparr>) = ppu_core bd p" "clock_of (p\<lparr>pp_status := y\<rparr>) = clock_of p"
  "ppu_core bd (p\<lparr>pp_oam_eval_done := b\<rparr>) = ppu_core bd p" "clock_of (p\<lparr>pp_oam_eval_done := b\<rparr>) = clock_of p"
  "ppu_core bd (p\<lparr>pp_spr_in_range := b\<rparr>) = ppu_core bd p" "clock_of (p\<lparr>pp_spr_in_range := b\<rparr>) = clock_of p"
  "ppu_core bd (p\<lparr>pp_spr_zero_in_range := b\<rparr>) = ppu_core bd p" "clock_of (p\<lparr>pp_spr_zero_in_range := b\<rparr>) = clock_of p"
  "ppu_core bd (p\<lparr>pp_spr_zero_visible := b\<rparr>) = ppu_core bd p" "clock_of (p\<lparr>pp_spr_zero_visible := b\<rparr>) = clock_of p"
  "ppu_core bd (p\<lparr>pp_nmi_pending := b\<rparr>) = ppu_core bd p" "clock_of (p\<lparr>pp_nmi_pending := b\<rparr>) = clock_of p"
  "ppu_core bd (p\<lparr>pp_prevent_vbl := b\<rparr>) = ppu_core bd p" "clock_of (p\<lparr>pp_prevent_vbl := b\<rparr>) = clock_of p"
  "ppu_core bd (p\<lparr>pp_reset_signal := b\<rparr>) = ppu_core bd p" "clock_of (p\<lparr>pp_reset_signal := b\<rparr>) = clock_of p"
  "ppu_core bd (p\<lparr>pp_overflow_count := y\<rparr>) = ppu_core bd p" "clock_of (p\<lparr>pp_overflow_count := y\<rparr>) = clock_of p"
  "ppu_core bd (p\<lparr>pp_vram_buffer := y\<rparr>) = ppu_core bd p" "clock_of (p\<lparr>pp_vram_buffer := y\<rparr>) = clock_of p"
  "ppu_core bd (p\<lparr>pp_cycle_count := w\<rparr>) = ppu_core bd p" "clock_of (p\<lparr>pp_cycle_count := w\<rparr>) = clock_of p"
  by (simp_all add: ppu_core_def clock_of_def)

lemma fetch_bg_nt_byte_ok: "ppu_core bd p \<Longrightarrow> returns (fetch_bg_nt_byte p) (keeps bd p)"
  unfolding fetch_bg_nt_byte_def Let_def
  by (rule stage_after [rotated], rule bus_read_then) (simp_all add: keeps_def)

lemma fetch_bg_attr_byte_ok: "ppu_core bd p \<Longrightarrow> returns (fetch_bg_attr_byte p) (keeps bd p)"
  unfolding fetch_bg_attr_byte_def Let_def
  by (rule bus_read_then) (simp_all add: keeps_def)

lemma fetch_background_ok: "ppu_core bd p \<Longrightarrow> returns (fetch_background p) (keeps bd p)"
  by (simp add: fetch_background_def Let_def fetch_bg_nt_byte_ok fetch_bg_attr_byte_ok del: returns_bind)
    (auto intro!: bus_read_then simp: keeps_def simp del: returns_bind)

section \<open>Sprite evaluation\<close>

lemma keeps_steps [simp]:
  "ppu_core bd (oamaddr_hi_inc p) = ppu_core bd p" "clock_of (oamaddr_hi_inc p) = clock_of p"
  "ppu_core bd (oam_eval_end p) = ppu_core bd p" "clock_of (oam_eval_end p) = clock_of p"
  by (simp_all add: oamaddr_hi_inc_def oam_eval_end_def)

lemma core_secondary_oam:
  "ppu_core bd p \<Longrightarrow> length oam = 32 \<Longrightarrow> ppu_core bd (p\<lparr>pp_secondary_oamdata := oam\<rparr>)"
  "ppu_core bd p \<Longrightarrow> unat a \<le> 0x20 \<Longrightarrow> ppu_core bd (p\<lparr>pp_secondary_oamaddr := a\<rparr>)"
  "ppu_core bd p \<Longrightarrow> n \<le> 8 \<Longrightarrow> ppu_core bd (p\<lparr>pp_spr_count := n\<rparr>)"
  "clock_of (p\<lparr>pp_secondary_oamdata := oam\<rparr>) = clock_of p"
  "clock_of (p\<lparr>pp_secondary_oamaddr := a\<rparr>) = clock_of p"
  "clock_of (p\<lparr>pp_spr_count := n\<rparr>) = clock_of p"
  by (simp_all add: ppu_core_def SECONDARY_OAM_SIZE_def clock_of_def)

lemma core_sizes:
  "ppu_core bd p \<Longrightarrow> length (pp_secondary_oamdata p) = 32" "ppu_core bd p \<Longrightarrow> length (pp_oamdata p) = 256"
  "ppu_core bd p \<Longrightarrow> unat (pp_secondary_oamaddr p) \<le> 32" "ppu_core bd p \<Longrightarrow> length (pp_sprites p) = 8"
  "ppu_core bd p \<Longrightarrow> pp_spr_count p \<le> 8" "ppu_core bd p \<Longrightarrow> length (pp_spr_present p) = 256"
  by (simp_all add: ppu_core_def SECONDARY_OAM_SIZE_def OAM_SIZE_def)

lemma spr_eval_copy_ok:
  assumes core: "ppu_core bd p" and lt: "pp_secondary_oamaddr p < 0x20"
  shows "returns (spr_eval_copy p) (keeps bd p)"
proof -
  have "unat (pp_secondary_oamaddr p) < 32" using lt by (simp add: word_less_nat_alt)
  moreover from this have "unat (pp_secondary_oamaddr p + 1) \<le> 32" by (simp add: unat_word_ariths)
  ultimately show ?thesis
    using core core_sizes(1) [OF core]
    by (simp add: spr_eval_copy_def Let_def keeps_def core_secondary_oam)
qed

lemma unat_and_1F_less: "unat (v AND 0x1F :: u8) < 32"
  by (rule unat_and_less) simp

lemma spr_eval_overflow_ok:
  assumes core: "ppu_core bd p"
  shows "returns (spr_eval_overflow p) (keeps bd p)"
  using core core_sizes(1) [OF core] unat_and_1F_less [of "pp_secondary_oamaddr p"]
  by (simp add: spr_eval_overflow_def Let_def keeps_def)

lemma spr_eval_write_ok:
  assumes core: "ppu_core bd p"
  shows "returns (spr_eval_write p) (keeps bd p)"
proof -
  have i: "unat a AND 0x1F < 32" for a :: u8 using nat_and_le2 [of "unat a" "0x1F"] by simp
  have 1: "returns (if pp_oam_eval_done p then
               let p = oamaddr_hi_inc p
               in if pp_secondary_oamaddr p \<ge> 0x20 then
                    do { fetch \<leftarrow> vec_get (pp_secondary_oamdata p) (unat (pp_secondary_oamaddr p) AND 0x1F);
                         Some (p\<lparr>pp_oam_fetch := fetch\<rparr>) }
                  else Some p
             else
               let y = ucast (pp_oam_fetch p); height = spr_height (pp_ctrl p);
                   p = (if \<not> pp_spr_in_range p \<and> sprite_on_line y height (pp_scanline p)
                        then p\<lparr>pp_spr_in_range := True\<rparr> else p)
               in if pp_secondary_oamaddr p < 0x20 then spr_eval_copy p else spr_eval_overflow p) (keeps bd p)"
  proof (cases "pp_oam_eval_done p")
    case True
    have "ppu_core bd (oamaddr_hi_inc p)" using core by simp
    from core_sizes(1) [OF this] show ?thesis using True core i by (simp add: Let_def keeps_def)
  next
    case False
    define q where "q = (if \<not> pp_spr_in_range p \<and> sprite_on_line (ucast (pp_oam_fetch p))
        (spr_height (pp_ctrl p)) (pp_scanline p) then p\<lparr>pp_spr_in_range := True\<rparr> else p)"
    have q: "keeps bd p q" using core by (simp add: q_def keeps_def)
    have "returns (if pp_secondary_oamaddr q < 0x20 then spr_eval_copy q else spr_eval_overflow q) (keeps bd q)"
      using spr_eval_copy_ok spr_eval_overflow_ok keeps_core [OF q] by simp
    from stage_after [OF q this] show ?thesis unfolding if_not_P [OF False] Let_def q_def [symmetric] .
  qed
  show ?thesis
    unfolding spr_eval_write_def by (rule stage_bind [OF 1]) (simp add: keeps_def)
qed

lemma evaluate_sprites_ok:
  assumes core: "ppu_core bd p"
  shows "returns (evaluate_sprites p) (keeps bd p)"
proof -
  have "unat (drop_bit 2 (pp_secondary_oamaddr p)) \<le> 8"
    using core_sizes(3) [OF core] unat_drop_bit_less [of "pp_secondary_oamaddr p" 9 2] by simp
  then have fin: "keeps bd p (spr_eval_finish p)"
    using core by (simp add: spr_eval_finish_def keeps_def core_secondary_oam)
  have start: "keeps bd p (spr_eval_start p)"
    using core by (simp add: spr_eval_start_def keeps_def core_secondary_oam)
  define q where "q = (if pp_cycle p = 65 then spr_eval_start p
                 else if pp_cycle p = 256 then spr_eval_finish p else p)"
  have q: "keeps bd p q" using fin start core by (simp add: q_def)
  have "returns (spr_eval_read q) (keeps bd q)"
    using keeps_core [OF q] core_sizes(2) [OF keeps_core [OF q]] by (simp add: spr_eval_read_def keeps_def)
  then have "returns (if pp_cycle q AND 0x01 = 0x01 then spr_eval_read q else spr_eval_write q) (keeps bd q)"
    using spr_eval_write_ok [OF keeps_core [OF q]] by simp
  from stage_after [OF q this] show ?thesis
    using core core_sizes(1) [OF core]
    by (simp add: evaluate_sprites_def Let_def q_def [symmetric] keeps_def core_secondary_oam)
qed

section \<open>Sprite fetches\<close>

lemma length_mark_present [simp]: "length (mark_present xs x) = length xs"
  by (auto simp: mark_present_def min_def)

lemma write_oamaddr_keeps: "ppu_core bd p \<Longrightarrow> keeps bd p (write_oamaddr p v)"
  by (simp add: write_oamaddr_def keeps_def)

lemma sprite_slot_ok:
  assumes "ppu_core bd p" and "length sprites = 8" and "length present = 256"
  shows "keeps bd p (p\<lparr>pp_sprites := sprites, pp_spr_present := present\<rparr>)"
  using assms by (simp add: keeps_def ppu_core_def clock_of_def)

lemma fetch_sprite_slot_ok:
  assumes core: "ppu_core bd p" and idx: "idx < 8"
  shows "returns (fetch_sprite_slot p idx a y attr x) (keeps bd p)"
proof -
  define f where "f s lo hi = s\<lparr>sprite_x := ucast x, sprite_y := ucast y, sprite_tile_lo := lo,
     sprite_tile_hi := hi, sprite_palette := push_bit 2 (attr AND 0x03) OR 0x10,
     sprite_bg_priority := (attr AND 0x20 = 0x20), sprite_flip_horizontal := (attr AND 0x40 = 0x40),
     sprite_flip_vertical := (attr AND 0x80 = 0x80)\<rparr>" for s :: sprite and lo hi
  have "returns (do { (lo, p) \<leftarrow> ppu_bus_read p a;
                (hi, p) \<leftarrow> ppu_bus_read p (a + 8);
                sprites \<leftarrow> vec_set (pp_sprites p) idx (f s lo hi);
                Some (p\<lparr>pp_sprites := sprites, pp_spr_present := mark_present (pp_spr_present p) (unat x)\<rparr>) })
    (keeps bd p)" for s
  proof (rule bus_read_then [OF core], simp only: prod.case, rule bus_read_then [OF keeps_core], assumption,
      simp only: prod.case)
    fix lo hi q r assume "keeps bd q r"
    then have r: "ppu_core bd r" by (rule keeps_core)
    then show "returns (do { sprites \<leftarrow> vec_set (pp_sprites r) idx (f s lo hi);
        Some (r\<lparr>pp_sprites := sprites, pp_spr_present := mark_present (pp_spr_present r) (unat x)\<rparr>) }) (keeps bd r)"
      using idx core_sizes(4,6) [OF r] by (simp add: sprite_slot_ok [OF r])
  qed
  then show ?thesis using idx core_sizes(4) [OF core] by (simp add: fetch_sprite_slot_def f_def)
qed

lemma fetch_hidden_sprite_ok:
  assumes core: "ppu_core bd p"
  shows "returns (fetch_hidden_sprite p a) (keeps bd p)"
  unfolding fetch_hidden_sprite_def
  by (rule bus_read_then [OF core], simp only: prod.case, rule bus_read_then [OF keeps_core], assumption)
    (simp add: keeps_core)

lemma load_sprites_ok:
  assumes core: "ppu_core bd p" and c: "257 \<le> unat (pp_cycle p)" "unat (pp_cycle p) \<le> 320"
  shows "returns (load_sprites p) (keeps bd p)"
proof -
  have "unat (pp_cycle p - SPR_FETCH_START) = unat (pp_cycle p) - 257"
    using c by (simp add: ppu_consts unat_sub_if')
  then have "unat (pp_cycle p - SPR_FETCH_START) div 8 < 8" using c by simp
  then show ?thesis
    using core_sizes(1) [OF core] fetch_sprite_slot_ok [OF core] fetch_hidden_sprite_ok [OF core]
    by (simp add: load_sprites_def Let_def split_beta)
qed

lemma fetch_sprites_ok:
  assumes core: "ppu_core bd p" and c: "257 \<le> unat (pp_cycle p)" "unat (pp_cycle p) \<le> 320"
  shows "returns (fetch_sprites p) (keeps bd p)"
proof -
  define q where "q = write_oamaddr p 0x00"
  have q: "keeps bd p q" by (simp add: q_def write_oamaddr_keeps [OF core])
  have "returns (fetch_sprites p) (keeps bd q)"
    unfolding fetch_sprites_def Let_def q_def [symmetric]
    using keeps_core [OF q] keepsD [OF q] c
    by (simp add: fetch_bg_nt_byte_ok fetch_bg_attr_byte_ok load_sprites_ok)
  with q show ?thesis by (rule stage_after)
qed

section \<open>Pixels\<close>

lemma pixel_color_ok:
  assumes core: "ppu_core bd p" and c: "1 \<le> unat (pp_cycle p)" "unat (pp_cycle p) \<le> 256"
  shows "returns (pixel_color p) (\<lambda>(x, q). keeps bd p q)"
proof -
  have "unat (pp_cycle p - 1) < 256" using c by (simp add: unat_sub_if')
  then show ?thesis
    using core core_sizes(6) [OF core]
    by (auto simp: pixel_color_def Let_def keeps_def split: option.splits)
qed

lemma pixel_colour_less:
  "unat ((ucast (v :: u8) AND (if g then 0x30 else 0x3F)) OR push_bit 1 (ucast (e :: u8)) :: u16) < 512"
proof -
  have or: "unat (ucast v AND m OR push_bit j (ucast e) :: u16) < 2 ^ 9" if "j \<le> 1" for m j
    using that bit_imp_le_length [of v] bit_imp_le_length [of e "_ - j"]
    by (intro word_less_by_bits) (auto simp: bit_or_iff bit_and_iff bit_push_bit_iff bit_ucast_iff)
  show ?thesis using or [of 1 "if g then 0x30 else 0x3F"] by simp
qed

lemma render_pixel_ok:
  assumes core: "ppu_core bd p" and c: "1 \<le> unat (pp_cycle p)" "unat (pp_cycle p) \<le> 256"
    and y: "unat (pp_scanline p) \<le> 239"
  shows "returns (render_pixel p) (keeps bd p)"
proof -
  have x: "unat (pp_cycle p - 1) < 256" using c by (simp add: unat_sub_if')
  have set_ok: "returns (do { f \<leftarrow> frame_set_pixel (pp_frame q) (pp_cycle p - 1) (pp_scanline p) col;
      Some (q\<lparr>pp_frame := f\<rparr>) }) (keeps bd q)" if "ppu_core bd q" "unat col < 512" for q col
    using frame_set_pixel_ok [of "pp_frame q" "pp_cycle p - 1" "pp_scanline p" col] that x y
    by (auto simp: keeps_def ppu_core_def clock_of_def intro: returns_mono)
  obtain a q where q: "(if rendering_enabled p \<or> ppu_addr p AND PALETTE_START \<noteq> PALETTE_START then
             do { (color, p) \<leftarrow> pixel_color p; Some (if color AND 0x03 > 0 then ucast color else 0, p) }
           else Some (ppu_addr p AND 0x1F, p)) = Some (a, q)" and k: "keeps bd p q"
    using returnsD [OF pixel_color_ok [OF core c]] core
    by (cases "rendering_enabled p \<or> ppu_addr p AND PALETTE_START \<noteq> PALETTE_START") auto
  have "returns (render_pixel p) (keeps bd q)"
    unfolding render_pixel_def Let_def q using keeps_core [OF k]
    by (simp del: returns_bind, intro bus_read_then) (simp_all add: set_ok keeps_core pixel_colour_less [simplified] del: returns_bind)
  with k show ?thesis by (rule stage_after)
qed

section \<open>One dot\<close>

lemma core_scroll:
  "ppu_core bd p \<Longrightarrow> scroll_ok s \<Longrightarrow> ppu_core bd (p\<lparr>pp_scroll := s\<rparr>)"
  "clock_of (p\<lparr>pp_scroll := s\<rparr>) = clock_of p" "ppu_core bd p \<Longrightarrow> scroll_ok (pp_scroll p)"
  by (simp_all add: ppu_core_def clock_of_def)

lemma core_oamdata:
  "ppu_core bd p \<Longrightarrow> length oam = 256 \<Longrightarrow> ppu_core bd (p\<lparr>pp_oamdata := oam\<rparr>)"
  "clock_of (p\<lparr>pp_oamdata := oam\<rparr>) = clock_of p"
  by (simp_all add: ppu_core_def OAM_SIZE_def clock_of_def)

lemma tick_sprite_eval_ok: "ppu_core bd p \<Longrightarrow> returns (tick_sprite_eval p) (keeps bd p)"
  by (simp add: tick_sprite_eval_def evaluate_sprites_ok write_oamaddr_keeps)

lemma tick_background_ok: "ppu_core bd p \<Longrightarrow> returns (tick_background p) (keeps bd p)"
proof -
  assume core: "ppu_core bd p"
  have "returns (do { p \<leftarrow> fetch_background p;
             Some (if pp_cycle p AND 0x07 = 0x00
                   then p\<lparr>pp_scroll := increment_x (pp_scroll p)\<rparr> else p) }) (keeps bd p)"
    by (rule stage_bind [OF fetch_background_ok [OF core]])
      (auto simp: keeps_def core_scroll intro!: core_scroll(1) scroll_ok_increment_x)
  then show ?thesis by (simp add: tick_background_def fetch_bg_nt_byte_ok core del: returns_bind)
qed

lemma tick_scroll_ok:
  assumes core: "ppu_core bd p"
  shows "returns (tick_scroll p) (keeps bd p)"
proof -
  have low: "unat (pp_cycle p - 1) < 8" if "cycle_in 1 8 p"
    using that by (auto simp: cycle_in_def word_le_nat_alt unat_sub_if')
  have i: "unat (v AND 0xF8 :: u8) + n < 256" if "n < 8" for v n
    using unat_and_le [of v "0xF8"] that by simp
  show ?thesis
  proof (cases "cycle_in 1 8 p \<and> prerender_scanline p \<and> pp_oamaddr p \<ge> 0x08")
    case True
    then have "unat (pp_cycle p - 1) < 8" using low by blast
    then show ?thesis
      unfolding tick_scroll_def if_P [OF True]
      using core core_sizes(2) [OF core] i by (simp add: Let_def keeps_def core_oamdata)
  next
    case False
    show ?thesis
      unfolding tick_scroll_def if_not_P [OF False]
      using core core_scroll(3) [OF core]
      by (simp add: keeps_def core_scroll scroll_ok_increment_y scroll_ok_ops)
  qed
qed

lemma tick_sprites_ok:
  assumes core: "ppu_core bd p"
  shows "returns (tick_sprites p) (keeps bd p)"
proof -
  define q where "q = (if prerender_scanline p then p\<lparr>pp_spr_count := 0\<rparr> else p)"
  define r where "r = (if pp_cycle q = SPR_FETCH_START
      then q\<lparr>pp_spr_present := replicate (length (pp_spr_present q)) False\<rparr> else q)"
  have q: "keeps bd p q" using core by (simp add: q_def keeps_def core_secondary_oam)
  have r: "keeps bd q r"
    using keeps_core [OF q] by (simp add: r_def keeps_def ppu_core_def clock_of_def)
  have "returns (fetch_sprites r) (keeps bd q)" if "cycle_in SPR_FETCH_START SPR_FETCH_END q"
    using that keepsD [OF r] fetch_sprites_ok [OF keeps_core [OF r]] stage_after [OF r]
    by (simp add: cycle_in_def ppu_consts word_le_nat_alt)
  then have fetch: "returns (if cycle_in SPR_FETCH_START SPR_FETCH_END q then fetch_sprites r else Some q) (keeps bd q)"
    using keeps_core [OF q] by simp
  have "returns (tick_sprites p) (keeps bd q)"
    unfolding tick_sprites_def Let_def q_def [symmetric] r_def [symmetric]
    by (rule stage_bind [OF fetch]) (simp add: keeps_def core_sizes(1) [of bd])
  with q show ?thesis by (rule stage_after)
qed

text \<open>Up to the odd-frame skip a dot keeps the position.\<close>

definition tick_line :: "ppu \<Rightarrow> ppu option" where
  "tick_line p = do { p \<leftarrow> tick_background p; p \<leftarrow> tick_scroll p; tick_sprites p }"

lemma tick_line_ok: "ppu_core bd p \<Longrightarrow> returns (tick_line p) (keeps bd p)"
  unfolding tick_line_def
  by (rule stage_bind [OF tick_background_ok], assumption, rule stage_bind [OF tick_scroll_ok],
      erule keeps_core, rule tick_sprites_ok, erule keeps_core)

text \<open>A dot changes the position only by the odd-frame skip.\<close>

definition skips_dot :: "ppu \<Rightarrow> bool" where
  "skips_dot p \<longleftrightarrow> rendering_enabled p \<and> pp_cycle p = 339 \<and> pp_scanline p = pp_prerender_scanline p
     \<and> pp_region p = Ntsc"

definition after_dot :: "board \<Rightarrow> ppu \<Rightarrow> ppu \<Rightarrow> bool" where
  "after_dot bd p p' \<longleftrightarrow> keeps bd p p' \<or> skips_dot p \<and> keeps bd (p\<lparr>pp_cycle := CYCLE_END\<rparr>) p'"

lemma core_cycle [simp]:
  "ppu_core bd (p\<lparr>pp_cycle := c\<rparr>) = ppu_core bd p" "ppu_core bd (p\<lparr>pp_scanline := c\<rparr>) = ppu_core bd p"
  by (simp_all add: ppu_core_def)

lemma rendering_enabled_keeps: "keeps bd p q \<Longrightarrow> rendering_enabled q = rendering_enabled p"
  by (simp add: rendering_enabled_def keepsD)

lemma tick_odd_skip_after:
  assumes k: "keeps bd p q" and "rendering_enabled p"
  shows "after_dot bd p (tick_odd_skip q)"
proof (cases "pp_cycle q = ODD_SKIP \<and> prerender_scanline q
    \<and> frame_number (pp_frame q) AND 0x01 = 0x01 \<and> pp_region q = Ntsc")
  case True
  have eq: "clock_of q = clock_of p" using k by (simp add: keeps_def)
  have "skips_dot p"
    using True assms(2) clock_ofD [OF eq] by (simp add: skips_dot_def ODD_SKIP_def prerender_scanline_def)
  moreover have "keeps bd (p\<lparr>pp_cycle := CYCLE_END\<rparr>) (q\<lparr>pp_cycle := CYCLE_END\<rparr>)"
    using k eq by (simp add: keeps_def clock_of_def)
  ultimately show ?thesis unfolding tick_odd_skip_def if_P [OF True] after_dot_def by blast
next
  case False
  then show ?thesis using k unfolding tick_odd_skip_def if_not_P [OF False] after_dot_def by simp
qed

lemma after_dot_core: "after_dot bd p q \<Longrightarrow> ppu_core bd q"
  by (auto simp: after_dot_def keeps_core)

lemma after_dot_trans: "after_dot bd p q \<Longrightarrow> keeps bd q r \<Longrightarrow> after_dot bd p r"
  unfolding after_dot_def using keeps_trans by blast

lemma tick_render_ok:
  assumes core: "ppu_core bd p"
  shows "returns (if rendering_enabled p then
                do { p \<leftarrow> tick_sprite_eval p;
                     if prerender_scanline p \<or> visible_scanline p then
                       do { p \<leftarrow> tick_background p;
                            p \<leftarrow> tick_scroll p;
                            p \<leftarrow> tick_sprites p;
                            Some (tick_odd_skip p) }
                     else Some p }
              else Some p) (after_dot bd p)"
proof (cases "rendering_enabled p")
  case True
  obtain q where q: "tick_sprite_eval p = Some q" "keeps bd p q"
    using returnsD [OF tick_sprite_eval_ok [OF core]] by blast
  obtain r where r: "tick_line q = Some r" "keeps bd q r"
    using returnsD [OF tick_line_ok [OF keeps_core [OF q(2)]]] by blast
  have "after_dot bd p (tick_odd_skip r)"
    using tick_odd_skip_after [OF keeps_trans [OF q(2) r(2)] True] .
  moreover have "after_dot bd p q" using q(2) by (simp add: after_dot_def)
  moreover have "do { p \<leftarrow> tick_background q; p \<leftarrow> tick_scroll p; p \<leftarrow> tick_sprites p; Some (tick_odd_skip p) }
      = Some (tick_odd_skip r)"
    using r(1) by (auto simp: tick_line_def bind_Some_iff)
  ultimately show ?thesis using True q(1) by (simp del: returns_bind)
qed (use core in \<open>simp add: after_dot_def\<close>)

lemma tick_ok:
  assumes core: "ppu_core bd p"
  shows "returns (tick p) (after_dot bd p)"
proof -
  obtain q where q: "(if rendering_enabled p then
                do { p \<leftarrow> tick_sprite_eval p;
                     if prerender_scanline p \<or> visible_scanline p then
                       do { p \<leftarrow> tick_background p;
                            p \<leftarrow> tick_scroll p;
                            p \<leftarrow> tick_sprites p;
                            Some (tick_odd_skip p) }
                     else Some p }
              else Some p) = Some q" "after_dot bd p q"
    using returnsD [OF tick_render_ok [OF core]] by blast
  have pix: "returns (render_pixel q) (keeps bd q)" if "cycle_in 1 256 p" "visible_scanline p"
  proof -
    have "\<not> skips_dot p" using that(1) by (auto simp: skips_dot_def cycle_in_def)
    then have k: "keeps bd p q" using q(2) by (simp add: after_dot_def)
    show ?thesis
      using that render_pixel_ok [OF keeps_core [OF k]] keepsD [OF k]
      by (simp add: cycle_in_def visible_scanline_def ppu_consts word_le_nat_alt)
  qed
  then obtain r where r: "(if cycle_in 1 256 p \<and> visible_scanline p then render_pixel q else Some q) = Some r"
      "keeps bd q r"
    using returnsD [OF pix] after_dot_core [OF q(2)]
    by (cases "cycle_in 1 256 p \<and> visible_scanline p") auto
  have "after_dot bd p r" using q(2) r(2) by (rule after_dot_trans)
  moreover have "keeps bd r (if bg_fetch_cycle p
              then r\<lparr>pp_tile_shift_lo := push_bit 1 (pp_tile_shift_lo r),
                     pp_tile_shift_hi := push_bit 1 (pp_tile_shift_hi r)\<rparr>
              else r)"
    using keeps_core [OF r(2)] by (simp add: keeps_def)
  ultimately show ?thesis
    unfolding tick_def Let_def q(1) bind.bind_lunit r(1) returns_Some by (rule after_dot_trans)
qed

section \<open>The clock\<close>

lemma ppu_timing_bounds:
  assumes "ppu_timing p"
  shows "pp_prerender_scanline p = 261 \<or> pp_prerender_scanline p = 311"
    and "pp_vblank_scanline p = 241 \<or> pp_vblank_scanline p = 291"
    and "pp_vblank_scanline p < pp_prerender_scanline p"
    and "0 < pp_clock_divider p"
  using assms by (cases "pp_region p"; simp add: ppu_timing_def)+

lemma core_frame:
  "ppu_core bd p \<Longrightarrow> frame_wf f \<Longrightarrow> ppu_core bd (p\<lparr>pp_frame := f\<rparr>)"
  "ppu_core bd p \<Longrightarrow> frame_wf (pp_frame p)" "clock_of (p\<lparr>pp_frame := f\<rparr>) = clock_of p"
  by (simp_all add: ppu_core_def clock_of_def)

lemma start_vblank_keeps: "ppu_core bd p \<Longrightarrow> keeps bd p (start_vblank p)"
  unfolding start_vblank_def Let_def
  by (rule keeps_trans [OF _ ppu_notify_mapper_keeps]) (simp_all add: keeps_def)

lemma stop_vblank_keeps: "ppu_core bd p \<Longrightarrow> keeps bd p (stop_vblank p)"
  unfolding stop_vblank_def Let_def
  by (rule keeps_trans [OF _ ppu_notify_mapper_keeps]) (simp_all add: keeps_def)

text \<open>The position after a dot: the next cycle, the next scanline after cycle 340, scanline 0 after
  the pre-render line.\<close>

definition next_dot :: "ppu \<Rightarrow> u32 \<times> u32" where
  "next_dot p =
     (if pp_cycle p < CYCLE_END then (pp_scanline p, pp_cycle p + 1)
      else if pp_scanline p = pp_prerender_scanline p then (0, 0)
      else (pp_scanline p + 1, 0))"

definition ppu_position :: "ppu \<Rightarrow> u32 \<times> u32" where
  "ppu_position p = (pp_scanline p, pp_cycle p)"

text \<open>What a clock keeps besides the core: the registers and the clock of the PPU.\<close>

definition fixed_of :: "ppu \<Rightarrow> nes_region \<times> u64 \<times> u64 \<times> u32 \<times> u32 \<times> u32 \<times> ppu_mask \<times> ppu_ctrl" where
  "fixed_of p = (pp_region p, pp_master_clock p, pp_clock_divider p,
     pp_vblank_scanline p, pp_prerender_scanline p, pp_pal_spr_eval_scanline p, pp_mask p, pp_ctrl p)"

lemma clock_of_fixed: "clock_of p = clock_of q \<longleftrightarrow> fixed_of p = fixed_of q \<and> ppu_position p = ppu_position q"
  by (auto simp: clock_of_def fixed_of_def ppu_position_def)

lemma fixed_of_upd [simp]:
  "fixed_of (p\<lparr>pp_cycle := c\<rparr>) = fixed_of p" "fixed_of (p\<lparr>pp_scanline := c\<rparr>) = fixed_of p"
  "fixed_of (p\<lparr>pp_open_bus := y\<rparr>) = fixed_of p" "fixed_of (p\<lparr>pp_frame := f\<rparr>) = fixed_of p"
  "fixed_of (p\<lparr>pp_cycle_count := w\<rparr>) = fixed_of p"
  by (simp_all add: fixed_of_def)

definition clocked :: "board \<Rightarrow> ppu \<Rightarrow> ppu \<Rightarrow> bool" where
  "clocked bd p p' \<longleftrightarrow> ppu_core bd p' \<and> fixed_of p' = fixed_of p
     \<and> (ppu_position p' = next_dot p
        \<or> rendering_enabled p \<and> pp_region p = Ntsc \<and> ppu_position p = (pp_prerender_scanline p, 338)
          \<and> ppu_position p' = (pp_prerender_scanline p, CYCLE_END))"

lemma clock_end_of_line:
  assumes core: "ppu_core bd p" and t: "ppu_timing p" and c: "pp_cycle p \<ge> CYCLE_END"
  defines "q \<equiv> p\<lparr>pp_cycle := 0, pp_scanline := pp_scanline p + 1\<rparr>"
  shows "clocked bd p (if pp_scanline q = pp_vblank_scanline q - 1
                         then q\<lparr>pp_frame := frame_increment (pp_frame q)\<rparr>
                         else if pp_scanline q > pp_prerender_scanline q
                         then q\<lparr>pp_scanline := 0\<rparr> else q)"
proof -
  have u: "unat (pp_scanline p + 1) = unat (pp_scanline p) + 1" "unat (pp_scanline p) \<le> unat (pp_prerender_scanline p)"
    using t ppu_timing_bounds(1) [OF t] by (auto simp: ppu_timing_def word_le_nat_alt unat_word_ariths)
  have over: "pp_scanline p + 1 > pp_prerender_scanline p \<longleftrightarrow> pp_scanline p = pp_prerender_scanline p"
    using u by (auto simp: word_less_nat_alt word_unat_eq_iff)
  have vb: "pp_scanline p + 1 \<noteq> pp_vblank_scanline p - 1" if "pp_scanline p = pp_prerender_scanline p"
    using t that by (cases "pp_region p") (auto simp: ppu_timing_def)
  have "\<not> pp_cycle p < CYCLE_END" using c by simp
  then show ?thesis
    using core over vb frame_wf_ops(2) [OF core_frame(2) [OF core]]
    by (auto simp: q_def clocked_def next_dot_def ppu_position_def core_frame)
qed

lemma clock_dot:
  assumes core: "ppu_core bd p" and t: "ppu_timing p" and c: "\<not> pp_cycle p \<ge> CYCLE_END"
  shows "returns (do { p \<leftarrow> tick (p\<lparr>pp_cycle := pp_cycle p + 1\<rparr>);
                     Some (if pp_cycle p = VBLANK then
                             let p = (if pp_scanline p = pp_vblank_scanline p then start_vblank p else p)
                             in if pp_scanline p = pp_prerender_scanline p then stop_vblank p else p
                           else p) }) (clocked bd p)"
proof -
  define q where "q = p\<lparr>pp_cycle := pp_cycle p + 1\<rparr>"
  have fq: "fixed_of q = fixed_of p" "ppu_position q = next_dot p" "rendering_enabled q = rendering_enabled p"
    "pp_region q = pp_region p" "pp_prerender_scanline q = pp_prerender_scanline p"
    using c [unfolded not_le] by (simp_all add: q_def next_dot_def ppu_position_def rendering_enabled_def)
  obtain r where r: "tick q = Some r" "after_dot bd q r"
    using returnsD [OF tick_ok, of bd q] core by (auto simp: q_def)
  define s where "s = (if pp_cycle r = VBLANK then
                             let p = (if pp_scanline r = pp_vblank_scanline r then start_vblank r else r)
                             in if pp_scanline p = pp_prerender_scanline p then stop_vblank p else p
                           else r)"
  define r' where "r' = (if pp_scanline r = pp_vblank_scanline r then start_vblank r else r)"
  have r': "keeps bd r r'" using after_dot_core [OF r(2)] by (simp add: r'_def start_vblank_keeps)
  have "keeps bd r (if pp_scanline r' = pp_prerender_scanline r' then stop_vblank r' else r')"
    using keeps_trans [OF r' stop_vblank_keeps] keeps_core [OF r'] r' by simp
  then have s: "keeps bd r s"
    unfolding s_def Let_def r'_def [symmetric] using after_dot_core [OF r(2)] by simp
  have "after_dot bd q s" by (rule after_dot_trans [OF r(2) s])
  moreover have "clocked bd p s" if "keeps bd q s"
    using that fq by (simp add: keeps_def clocked_def clock_of_fixed)
  moreover have "clocked bd p s" if sk: "skips_dot q" "keeps bd (q\<lparr>pp_cycle := CYCLE_END\<rparr>) s"
  proof -
    have "pp_cycle p + 1 = 339" using sk(1) by (simp add: skips_dot_def q_def)
    then have "pp_cycle p + 1 - 1 = 339 - 1" by (rule arg_cong)
    then have "pp_cycle p = 338" by simp
    moreover have "fixed_of s = fixed_of q" "ppu_position s = ppu_position (q\<lparr>pp_cycle := CYCLE_END\<rparr>)" "ppu_core bd s"
      using sk(2) by (simp_all add: keeps_def clock_of_fixed)
    ultimately show ?thesis
      using sk(1) fq by (simp add: clocked_def skips_dot_def ppu_position_def q_def)
  qed
  ultimately have "clocked bd p s" unfolding after_dot_def by blast
  then show ?thesis unfolding q_def [symmetric] r(1) by (simp add: s_def)
qed

lemma ppu_clock_clocked:
  assumes "ppu_wf bd p"
  shows "returns (ppu_clock p) (clocked bd p)"
proof -
  define q where "q = (if pp_scanline p = 0 then p\<lparr>pp_open_bus := 0x00\<rparr> else p)"
  have q: "ppu_core bd q" "ppu_timing q" "pp_cycle q = pp_cycle p" "clocked bd q = clocked bd p"
    using assms by (auto simp: q_def ppu_wf_def ppu_timing_def clocked_def next_dot_def ppu_position_def
        rendering_enabled_def fun_eq_iff)
  have after: "clocked bd p (s\<lparr>pp_cycle_count := w\<rparr>)" if "clocked bd p s" for s w
    using that by (simp add: clocked_def ppu_position_def)
  show ?thesis
  proof (cases "pp_cycle q \<ge> CYCLE_END")
    case True
    from clock_end_of_line [OF q(1,2) this] show ?thesis
      unfolding ppu_clock_def Let_def q_def [symmetric] q(4) if_P [OF True] by (simp add: after)
  next
    case False
    obtain s where s: "do { p \<leftarrow> tick (q\<lparr>pp_cycle := pp_cycle q + 1\<rparr>);
                     Some (if pp_cycle p = VBLANK then
                             let p = (if pp_scanline p = pp_vblank_scanline p then start_vblank p else p)
                             in if pp_scanline p = pp_prerender_scanline p then stop_vblank p else p
                           else p) } = Some s" "clocked bd p s"
      using returnsD [OF clock_dot [OF q(1,2) False]] unfolding q(4) by blast
    show ?thesis
      unfolding ppu_clock_def Let_def q_def [symmetric] if_not_P [OF False] s(1) [unfolded Let_def]
      by (simp add: after s(2))
  qed
qed

lemma clocked_wf:
  assumes wf: "ppu_wf bd p" and c: "clocked bd p p'"
  shows "ppu_wf bd p'"
proof -
  have f: "fixed_of p' = fixed_of p" using c by (simp add: clocked_def)
  have t: "ppu_timing p" using wf by (simp add: ppu_wf_def)
  have pos: "fst (ppu_position p') \<le> pp_prerender_scanline p \<and> snd (ppu_position p') \<le> CYCLE_END"
  proof -
    have b: "pp_scanline p \<le> pp_prerender_scanline p" "pp_cycle p \<le> CYCLE_END"
      using t by (simp_all add: ppu_timing_def)
    have "pp_cycle p + 1 \<le> CYCLE_END" if "pp_cycle p < CYCLE_END"
      using that by (simp add: inc_le)
    moreover have "pp_scanline p + 1 \<le> pp_prerender_scanline p" if "pp_scanline p \<noteq> pp_prerender_scanline p"
      using that b(1) by (simp add: inc_le)
    ultimately have "fst (next_dot p) \<le> pp_prerender_scanline p \<and> snd (next_dot p) \<le> CYCLE_END"
      using b by (simp add: next_dot_def ppu_consts)
    then show ?thesis using c by (auto simp: clocked_def)
  qed
  show ?thesis
    using c f t pos by (simp add: ppu_wf_def clocked_def ppu_timing_def fixed_of_def ppu_position_def)
qed

section \<open>Walking a frame\<close>

text \<open>The number of a dot in its frame, and the dots of a frame.\<close>

definition dot_index :: "ppu \<Rightarrow> nat" where
  "dot_index p = 341 * unat (pp_scanline p) + unat (pp_cycle p)"

definition frame_dots :: "ppu \<Rightarrow> nat" where
  "frame_dots p = 341 * (unat (pp_prerender_scanline p) + 1)"

lemma timing_unat:
  assumes "ppu_timing p"
  shows "unat (pp_cycle p) \<le> 340" "unat (pp_scanline p) \<le> unat (pp_prerender_scanline p)"
    "unat (pp_prerender_scanline p) \<le> 311"
  using assms ppu_timing_bounds(1) [OF assms] by (auto simp: ppu_timing_def word_le_nat_alt ppu_consts)

lemma next_dot_index:
  assumes t: "ppu_timing p" and pos: "ppu_position p' = next_dot p"
  shows "dot_index p' = (dot_index p + 1) mod frame_dots p"
proof -
  note u = timing_unat [OF t]
  have c: "pp_cycle p < CYCLE_END \<longleftrightarrow> unat (pp_cycle p) < 340" by (simp add: word_less_nat_alt ppu_consts)
  have e: "pp_scanline p = pp_prerender_scanline p \<longleftrightarrow> unat (pp_scanline p) = unat (pp_prerender_scanline p)"
    by (simp add: word_unat_eq_iff)
  have inc: "unat (pp_cycle p + 1) = unat (pp_cycle p) + 1" "unat (pp_scanline p + 1) = unat (pp_scanline p) + 1"
    using u by (simp_all add: unat_word_ariths)
  consider (dot) "unat (pp_cycle p) < 340" | (last) "unat (pp_cycle p) = 340" "unat (pp_scanline p) = unat (pp_prerender_scanline p)"
    | (line) "unat (pp_cycle p) = 340" "unat (pp_scanline p) < unat (pp_prerender_scanline p)"
    using u by linarith
  then show ?thesis
  proof cases
    case dot
    then have "pp_scanline p' = pp_scanline p" "pp_cycle p' = pp_cycle p + 1"
      using pos c by (simp_all add: next_dot_def ppu_position_def)
    moreover have "341 * unat (pp_scanline p) + (unat (pp_cycle p) + 1) < frame_dots p"
      using dot u by (simp add: frame_dots_def)
    ultimately show ?thesis by (simp add: dot_index_def inc)
  next
    case last
    then have "pp_scanline p' = 0" "pp_cycle p' = 0" using pos c e by (simp_all add: next_dot_def ppu_position_def)
    moreover have "dot_index p + 1 = frame_dots p" using last by (simp add: dot_index_def frame_dots_def)
    ultimately show ?thesis by (simp add: dot_index_def)
  next
    case line
    then have "pp_scanline p' = pp_scanline p + 1" "pp_cycle p' = 0"
      using pos c e by (simp_all add: next_dot_def ppu_position_def)
    moreover have "341 * (unat (pp_scanline p) + 1) < frame_dots p" using line by (simp add: frame_dots_def)
    ultimately show ?thesis using line by (simp add: dot_index_def inc)
  qed
qed

text \<open>With rendering off there is no odd-frame skip: a clock is one dot.\<close>

definition idle_step :: "board \<Rightarrow> ppu \<Rightarrow> ppu \<Rightarrow> bool" where
  "idle_step bd p p' \<longleftrightarrow> ppu_wf bd p' \<and> fixed_of p' = fixed_of p
     \<and> dot_index p' = (dot_index p + 1) mod frame_dots p"

lemma fixed_ofD:
  "fixed_of p' = fixed_of p \<Longrightarrow> rendering_enabled p' = rendering_enabled p"
  "fixed_of p' = fixed_of p \<Longrightarrow> frame_dots p' = frame_dots p"
  "fixed_of p' = fixed_of p \<Longrightarrow> pp_region p' = pp_region p"
  "fixed_of p' = fixed_of p \<Longrightarrow> pp_prerender_scanline p' = pp_prerender_scanline p"
  "fixed_of p' = fixed_of p \<Longrightarrow> pp_master_clock p' = pp_master_clock p"
  "fixed_of p' = fixed_of p \<Longrightarrow> pp_clock_divider p' = pp_clock_divider p"
  "fixed_of p' = fixed_of p \<Longrightarrow> pp_mask p' = pp_mask p"
  by (simp_all add: fixed_of_def rendering_enabled_def frame_dots_def)

lemma ppu_clock_idle:
  assumes wf: "ppu_wf bd p" and off: "\<not> rendering_enabled p"
  shows "returns (ppu_clock p) (idle_step bd p)"
proof (rule returns_mono [OF ppu_clock_clocked [OF wf]])
  fix q assume q: "clocked bd p q"
  then have "ppu_position q = next_dot p" using off by (simp add: clocked_def)
  then show "idle_step bd p q"
    using clocked_wf [OF wf q] next_dot_index [of p q] wf q by (simp add: idle_step_def ppu_wf_def clocked_def)
qed

lemma ppu_clocks_idle:
  assumes "ppu_wf bd p" and "\<not> rendering_enabled p"
  shows "returns (ppu_clocks n p) (\<lambda>p'. ppu_wf bd p' \<and> fixed_of p' = fixed_of p
    \<and> (0 < n \<longrightarrow> dot_index p' = (dot_index p + n) mod frame_dots p))"
  using assms
proof (induction n arbitrary: p)
  case (Suc n)
  obtain q where q: "ppu_clock p = Some q" "idle_step bd p q"
    using returnsD [OF ppu_clock_idle [OF Suc.prems]] by blast
  then have f: "fixed_of q = fixed_of p" "ppu_wf bd q" by (simp_all add: idle_step_def)
  obtain r where r: "ppu_clocks n q = Some r" "ppu_wf bd r" "fixed_of r = fixed_of q"
      "0 < n \<longrightarrow> dot_index r = (dot_index q + n) mod frame_dots q"
    using returnsD [OF Suc.IH [OF f(2)]] fixed_ofD(1) [OF f(1)] Suc.prems(2) by blast
  have "dot_index r = (dot_index p + Suc n) mod frame_dots p"
  proof (cases "n = 0")
    case True
    then show ?thesis using r(1) q by (simp add: idle_step_def)
  next
    case False
    then show ?thesis using r(4) q(2) fixed_ofD(2) [OF f(1)]
      by (simp add: idle_step_def mod_simps)
  qed
  then show ?case using q(1) r f by simp
qed simp

section \<open>Without rendering a dot leaves OAM and the mask alone\<close>

definition oam_of :: "ppu \<Rightarrow> u8 list \<times> u8 \<times> ppu_mask" where
  "oam_of p = (pp_oamdata p, pp_oamaddr p, pp_mask p)"

lemma oam_of_upd [simp]:
  "oam_of (p\<lparr>pp_open_bus := y\<rparr>) = oam_of p" "oam_of (p\<lparr>pp_cycle := c\<rparr>) = oam_of p"
  "oam_of (p\<lparr>pp_scanline := c\<rparr>) = oam_of p" "oam_of (p\<lparr>pp_frame := f\<rparr>) = oam_of p"
  "oam_of (p\<lparr>pp_cycle_count := n\<rparr>) = oam_of p" "oam_of (p\<lparr>pp_bus := b\<rparr>) = oam_of p"
  "oam_of (p\<lparr>pp_status := s\<rparr>) = oam_of p" "oam_of (p\<lparr>pp_tile_shift_lo := v\<rparr>) = oam_of p"
  "oam_of (p\<lparr>pp_tile_shift_hi := v\<rparr>) = oam_of p" "oam_of (p\<lparr>pp_master_clock := m\<rparr>) = oam_of p"
  "oam_of (p\<lparr>pp_scroll := sc\<rparr>) = oam_of p" "oam_of (p\<lparr>pp_vram_buffer := y\<rparr>) = oam_of p"
  "oam_of (start_vblank p) = oam_of p" "oam_of (stop_vblank p) = oam_of p"
  by (simp_all add: oam_of_def start_vblank_def stop_vblank_def ppu_notify_mapper_def Let_def)

text \<open>Every result of an operation satisfies \<open>Q\<close>, whether it returns or not.\<close>

definition ensures :: "'a option \<Rightarrow> ('a \<Rightarrow> bool) \<Rightarrow> bool" where
  "ensures m Q \<longleftrightarrow> (\<forall>x. m = Some x \<longrightarrow> Q x)"

lemma ensures_simps [simp]:
  "ensures (Some x) Q = Q x" "ensures None Q" "ensures (Option.bind m f) Q = ensures m (\<lambda>x. ensures (f x) Q)"
  "ensures m (\<lambda>_. True)"
  by (auto simp: ensures_def bind_Some_iff)

lemma ensures_if: "(b \<Longrightarrow> ensures m Q) \<Longrightarrow> (\<not> b \<Longrightarrow> ensures m' Q) \<Longrightarrow> ensures (if b then m else m') Q"
  by simp

lemma ensures_mono: "ensures m P \<Longrightarrow> (\<And>x. P x \<Longrightarrow> Q x) \<Longrightarrow> ensures m Q"
  by (auto simp: ensures_def)

lemma ensuresI: "(\<And>x. Q x) \<Longrightarrow> ensures m Q"
  by (simp add: ensures_def)

lemma pixel_color_oam: "ensures (pixel_color p) (\<lambda>(v, q). oam_of q = oam_of p)"
  unfolding pixel_color_def Let_def ensures_simps
  by (rule ensuresI) (simp split: option.split)

lemma ppu_bus_read_oam: "ensures (ppu_bus_read p a) (\<lambda>(v, q). oam_of q = oam_of p)"
  unfolding ppu_bus_read_def ensures_simps by (rule ensuresI) (simp add: split_beta)

lemma render_pixel_oam: "ensures (render_pixel p) (\<lambda>q. oam_of q = oam_of p)"
proof -
  have draw: "ensures (do { (val, r) \<leftarrow> ppu_bus_read q a; f \<leftarrow> frame_set_pixel (pp_frame r) x y (c val r);
      Some (r\<lparr>pp_frame := f\<rparr>) }) (\<lambda>q. oam_of q = oam_of p)" if "oam_of q = oam_of p" for q a x y c
    unfolding ensures_simps by (rule ensures_mono [OF ppu_bus_read_oam], clarsimp, rule ensuresI, simp add: that)
  have pick: "ensures (if b then do { (color, p) \<leftarrow> pixel_color p; Some (g color, p) } else Some (w, p))
      (\<lambda>(_, q). oam_of q = oam_of p)" for b g w
    by (rule ensures_if) (auto intro!: ensures_mono [OF pixel_color_oam])
  show ?thesis
    unfolding render_pixel_def Let_def
    by (simp only: ensures_simps(3)) (rule ensures_mono [OF pick], auto intro: draw simp del: ensures_simps(3))
qed

lemma tick_oam: "\<not> rendering_enabled p \<Longrightarrow> ensures (tick p) (\<lambda>q. oam_of q = oam_of p)"
  unfolding tick_def Let_def
  by (simp, intro conjI impI ensures_mono [OF render_pixel_oam]) simp_all

lemma ppu_clock_oam:
  assumes "\<not> rendering_enabled p"
  shows "ensures (ppu_clock p) (\<lambda>q. oam_of q = oam_of p)"
proof -
  define r where "r = (if pp_scanline p = 0 then p\<lparr>pp_open_bus := 0x00\<rparr> else p)"
  have r: "oam_of r = oam_of p" "\<not> rendering_enabled (r\<lparr>pp_cycle := c\<rparr>)" for c
    using assms by (simp_all add: r_def rendering_enabled_def)
  show ?thesis
    unfolding ppu_clock_def r_def [symmetric] Let_def ensures_simps
    by (rule ensures_if) (auto simp: r intro!: ensures_mono [OF tick_oam [OF r(2)]])
qed

section \<open>Running to a time\<close>

text \<open>\<open>clock_to\<close> ends when the target can be reached without the counter wrapping around.\<close>

lemma ppu_wf_master_clock [simp]: "ppu_wf bd (p\<lparr>pp_master_clock := c\<rparr>) = ppu_wf bd p"
  by (simp add: ppu_wf_def ppu_core_def ppu_timing_def)

lemma ppu_clock_to_ends:
  assumes "ppu_wf bd p" and "pp_master_clock p \<le> clock"
    and "unat clock + unat (pp_clock_divider p) < 2 ^ 64"
  shows "returns (ppu_clock_to p clock) (\<lambda>p'. ppu_wf bd p' \<and> pp_master_clock p' \<le> clock
    \<and> clock < pp_master_clock p' + pp_clock_divider p' \<and> pp_mask p' = pp_mask p
    \<and> pp_clock_divider p' = pp_clock_divider p \<and> (\<not> rendering_enabled p \<longrightarrow> oam_of p' = oam_of p))"
  using assms
proof (induction "unat clock - unat (pp_master_clock p)" arbitrary: p rule: less_induct)
  case less
  show ?case
  proof (cases "pp_master_clock p + pp_clock_divider p \<le> clock")
    case False
    then show ?thesis using less.prems by (subst ppu_clock_to.simps) simp
  next
    case True
    obtain q where q: "ppu_clock p = Some q" "clocked bd p q"
      using returnsD [OF ppu_clock_clocked [OF less.prems(1)]] by blast
    define r where "r = q\<lparr>pp_master_clock := pp_master_clock q + pp_clock_divider q\<rparr>"
    have eq: "pp_master_clock q = pp_master_clock p" "pp_clock_divider q = pp_clock_divider p" "pp_mask q = pp_mask p"
      using q(2) fixed_ofD(5,6,7) [of q p] by (simp_all add: clocked_def)
    have oam: "oam_of r = oam_of p \<and> \<not> rendering_enabled r" if "\<not> rendering_enabled p"
      using ppu_clock_oam [OF that] q(1) that eq(3) by (simp add: r_def ensures_def rendering_enabled_def)
    have "0 < unat (pp_clock_divider p)"
      using ppu_timing_bounds(4) less.prems(1) by (simp add: ppu_wf_def word_less_nat_alt)
    moreover have "unat (pp_master_clock p) + unat (pp_clock_divider p) < 2 ^ 64"
      using less.prems(2,3) by (simp add: word_le_nat_alt)
    then have "unat (pp_master_clock r) = unat (pp_master_clock p) + unat (pp_clock_divider p)"
      by (simp add: r_def eq unat_word_ariths)
    moreover have "unat (pp_master_clock r) \<le> unat clock" using True by (simp add: r_def eq word_le_nat_alt)
    ultimately have "unat clock - unat (pp_master_clock r) < unat clock - unat (pp_master_clock p)" by linarith
    moreover have "ppu_wf bd r" using clocked_wf [OF less.prems(1) q(2)] by (simp add: r_def)
    moreover have "pp_master_clock r \<le> clock" "pp_clock_divider r = pp_clock_divider p" "pp_mask r = pp_mask p"
      using True by (simp_all add: r_def eq)
    ultimately have "returns (ppu_clock_to r clock) (\<lambda>p'. ppu_wf bd p' \<and> pp_master_clock p' \<le> clock
        \<and> clock < pp_master_clock p' + pp_clock_divider p' \<and> pp_mask p' = pp_mask p
        \<and> pp_clock_divider p' = pp_clock_divider p \<and> (\<not> rendering_enabled p \<longrightarrow> oam_of p' = oam_of p))"
      using less.hyps [of r] less.prems(3) oam by (auto intro: returns_mono)
    moreover have "ppu_clock_to p clock = ppu_clock_to r clock"
      using True q(1) by (subst ppu_clock_to.simps) (simp add: r_def)
    ultimately show ?thesis by simp
  qed
qed

section \<open>Registers, region and reset\<close>

lemma scroll_ok_vram: "ppu_core bd p \<Longrightarrow> ppu_core bd (increment_vram_addr p)"
  by (simp add: increment_vram_addr_def core_scroll scroll_ok_increment_x scroll_ok_increment_y scroll_ok_ops)

lemma ppu_wf_core: "ppu_wf bd p \<Longrightarrow> ppu_core bd q \<Longrightarrow> ppu_timing q = ppu_timing p \<Longrightarrow> ppu_wf bd q"
  by (simp add: ppu_wf_def)

lemma timing_upd [simp]:
  "ppu_timing (p\<lparr>pp_open_bus := y\<rparr>) = ppu_timing p" "ppu_timing (p\<lparr>pp_scroll := sc\<rparr>) = ppu_timing p"
  "ppu_timing (p\<lparr>pp_bus := bb\<rparr>) = ppu_timing p" "ppu_timing (p\<lparr>pp_ctrl := y\<rparr>) = ppu_timing p"
  "ppu_timing (p\<lparr>pp_mask := y\<rparr>) = ppu_timing p" "ppu_timing (p\<lparr>pp_status := y\<rparr>) = ppu_timing p"
  "ppu_timing (p\<lparr>pp_nmi_pending := b\<rparr>) = ppu_timing p" "ppu_timing (p\<lparr>pp_prevent_vbl := b\<rparr>) = ppu_timing p"
  "ppu_timing (p\<lparr>pp_oamaddr := y\<rparr>) = ppu_timing p" "ppu_timing (p\<lparr>pp_oamdata := ys\<rparr>) = ppu_timing p"
  "ppu_timing (p\<lparr>pp_vram_buffer := y\<rparr>) = ppu_timing p"
  "ppu_timing (increment_vram_addr p) = ppu_timing p" "ppu_timing (ppu_notify_mapper p a v) = ppu_timing p"
  by (simp_all add: ppu_timing_def increment_vram_addr_def ppu_notify_mapper_def)

lemma core_registers [simp]:
  "ppu_core bd (p\<lparr>pp_ctrl := y\<rparr>) = ppu_core bd p" "ppu_core bd (p\<lparr>pp_mask := y\<rparr>) = ppu_core bd p"
  by (simp_all add: ppu_core_def)

lemma core_notify: "ppu_core bd p \<Longrightarrow> ppu_core bd (ppu_notify_mapper p a v)"
  using ppu_notify_mapper_keeps keeps_core by blast

lemma pure_registers_wf:
  assumes "ppu_wf bd p"
  shows "ppu_wf bd (write_ctrl p v)" "ppu_wf bd (write_mask p v)" "ppu_wf bd (snd (read_status p))"
    "ppu_wf bd (write_oamaddr p v)" "ppu_wf bd (write_scroll p v)" "ppu_wf bd (write_addr p v)"
  using assms core_scroll(3) [of bd p]
  by (auto simp: ppu_wf_def write_ctrl_def write_mask_def read_status_def write_oamaddr_def
      write_scroll_def write_addr_def Let_def intro!: core_scroll core_notify scroll_ok_ops)

lemma ppu_bus_read_wf:
  "ppu_wf bd p \<Longrightarrow> returns (ppu_bus_read p a) (\<lambda>(x, q). ppu_wf bd q)"
  using pb_read_ok [of bd "pp_bus p" a]
  by (auto simp: ppu_bus_read_def ppu_wf_def ppu_core_def split_beta intro: returns_mono)

lemma read_data_wf:
  assumes wf: "ppu_wf bd p"
  shows "returns (read_data p) (\<lambda>(x, q). ppu_wf bd q)"
proof -
  have inc: "ppu_wf bd (increment_vram_addr p)" using wf by (simp add: ppu_wf_def scroll_ok_vram)
  obtain x q where q: "ppu_bus_read (increment_vram_addr p) (read_addr (pp_scroll p)) = Some (x, q)" "ppu_wf bd q"
    using returnsD [OF ppu_bus_read_wf [OF inc, of "read_addr (pp_scroll p)"]] by auto
  obtain y r where r: "ppu_bus_read q (read_addr (pp_scroll p) - 0x1000) = Some (y, r)" "ppu_wf bd r"
    using returnsD [OF ppu_bus_read_wf [OF q(2), of "read_addr (pp_scroll p) - 0x1000"]] by auto
  have "ppu_wf bd (ppu_notify_mapper s a v)" if "ppu_wf bd s" for s a v
    using that by (simp add: ppu_wf_def core_notify)
  then show ?thesis using q r by (simp add: read_data_def Let_def ppu_wf_def)
qed

lemma write_data_wf:
  assumes wf: "ppu_wf bd p"
  shows "returns (write_data p v) (ppu_wf bd)"
proof -
  define q where "q = increment_vram_addr (p\<lparr>pp_open_bus := v\<rparr>)"
  have q: "ppu_wf bd q" using wf by (simp add: q_def ppu_wf_def scroll_ok_vram)
  then obtain b where b: "pb_write (pp_bus q) (read_addr (pp_scroll (p\<lparr>pp_open_bus := v\<rparr>))) v = Some b" "ppu_bus_wf bd b"
    using returnsD [OF pb_write_ok, of bd "pp_bus q"] by (auto simp: ppu_wf_def ppu_core_def)
  have "ppu_core bd (q\<lparr>pp_bus := b\<rparr>)" using q b(2) by (simp add: ppu_wf_def ppu_core_def)
  then show ?thesis
    using q by (simp add: write_data_def Let_def q_def [symmetric] b(1) [simplified] ppu_wf_def core_notify)
qed

lemma write_oamdata_wf: "ppu_wf bd p \<Longrightarrow> returns (write_oamdata p v) (ppu_wf bd)"
  using core_sizes(2) [of bd p] less_le_trans [OF unat_u8_less [of "pp_oamaddr p"]]
  by (simp add: write_oamdata_def Let_def ppu_wf_def core_oamdata)

lemma ppu_set_region_wf: "ppu_wf bd p \<Longrightarrow> pp_scanline p \<le> 261 \<Longrightarrow> ppu_wf bd (ppu_set_region p r)"
  by (cases r) (auto simp: ppu_wf_def ppu_set_region_def ppu_core_def ppu_timing_def ppu_bus_wf_simple
      elim: order_trans)

lemma ppu_reset_wf:
  assumes wf: "ppu_wf bd p"
  shows "returns (ppu_reset p k) (\<lambda>q. ppu_wf bd q \<and> ppu_position q = (0, 0) \<and> \<not> rendering_enabled q)"
proof -
  obtain b where b: "pb_reset (pp_bus p) k = Some b" "ppu_bus_wf bd b"
    using returnsD [OF pb_reset_ok, of bd "pp_bus p" k] wf by (auto simp: ppu_wf_def ppu_core_def)
  have s: "scroll_ok (scroll_reset (pp_scroll p) k)" "frame_wf (frame_reset (pp_frame p) k)"
    using wf by (simp_all add: ppu_wf_def ppu_core_def scroll_ok_ops frame_wf_ops)
  show ?thesis
    using wf b s
    by (cases k) (simp_all add: ppu_reset_def Let_def ppu_wf_def ppu_core_def ppu_timing_def ppu_position_def
        rendering_enabled_def mask_reset_def show_bg_def show_spr_def mask_flags)
qed

text \<open>A new PPU with the memories of a loaded cartridge satisfies the invariant.\<close>

lemma ppu_new_wf: "ppu_bus_wf bd b \<Longrightarrow> ppu_wf bd (ppu_new\<lparr>pp_bus := b\<rparr>)"
  by (simp add: ppu_wf_def ppu_core_def ppu_timing_def ppu_new_def ppu_set_region_def scroll_ok_ops
      frame_wf_ops OAM_SIZE_def SECONDARY_OAM_SIZE_def VISIBLE_END_def)

lemma ppu_new_sizes: "length (pb_ciram (pp_bus ppu_new)) = VRAM_SIZE" "length (pb_palette (pp_bus ppu_new)) = PALETTE_SIZE"
  by (simp_all add: ppu_new_def ppu_set_region_def pb_set_region_def ppu_bus_new_def)

end
