(* ===== verification/PpuProps.thy ===== *)
theory PpuProps
  imports PpuInv CartMapperProps
begin

text \<open>
  The properties of the picture processing unit: safety of a dot, the walk of the frame, vertical
  blank and its race with a status read, the loopy scroll register against the position it stands
  for, the VRAM port, nametable and palette mirroring, OAM, and the two accesses that panic.
\<close>

section \<open>A sample PPU\<close>

text \<open>A PPU with an NROM cartridge, for the witnesses.\<close>

definition sample_nrom :: "nrom \<times> cart" where
  "sample_nrom = nrom_load (\<lambda>_ _. 0) (sample_cart 0)"

definition sample_ppu :: ppu where
  "sample_ppu = ppu_new\<lparr>pp_bus := pb_load_cart (pp_bus ppu_new) (MNrom (fst sample_nrom)) (snd sample_nrom)\<rparr>"

definition sample_bd :: board where
  "sample_bd = board_of (snd sample_nrom)"

lemma sample_nrom_cart: "cart_chr_ram (snd sample_nrom) = []" "length (cart_chr_rom (snd sample_nrom)) = 0x2000"
  "nrom_mirroring (fst sample_nrom) = Vertical"
  by (simp_all add: sample_nrom_def nrom_load_def Let_def sample_cart_def chr_or_ram_def cart_has_chr_def
      cart_mirroring_def sample_header_def)

lemma sample_ppu_wf: "ppu_wf sample_bd sample_ppu"
proof -
  have "mapper_wf (board_of (snd sample_nrom)) (MNrom (fst sample_nrom))"
    using nrom_load_board [OF sample_cart_ok(1) [of 0]] by (simp add: sample_nrom_def)
  then show ?thesis
    unfolding sample_ppu_def sample_bd_def
    by (intro ppu_new_wf pb_load_cart_wf) (simp_all add: ppu_new_sizes sample_nrom_cart)
qed

lemma sample_ppu_state:
  "\<not> rendering_enabled sample_ppu" "dot_index sample_ppu = 0" "frame_dots sample_ppu = 89342"
  "pp_master_clock sample_ppu = 0" "pp_clock_divider sample_ppu = 4" "pp_region sample_ppu = Ntsc"
  "pp_vblank_scanline sample_ppu = 241" "pp_prerender_scanline sample_ppu = 261"
  "\<not> pp_reset_signal sample_ppu" "\<not> sc_latch (pp_scroll sample_ppu)" "pp_oamaddr sample_ppu = 0"
  "ppu_position sample_ppu = (0, 0)" "pp_ctrl sample_ppu = 0" "\<not> pp_prevent_vbl sample_ppu"
  by (simp_all add: sample_ppu_def ppu_new_def ppu_set_region_def rendering_enabled_def mask_new_def
      show_bg_def show_spr_def mask_flags dot_index_def frame_dots_def scroll_new_def ppu_position_def
      ctrl_new_def)

section \<open>Dots and frames\<close>

text \<open>C4: On a PPU that satisfies the invariant (a modelled board, memories of the right sizes, a
  region's timing) one dot never panics, whatever the registers and the memories hold: the next
  state satisfies the invariant again and is at the next dot of the frame, except that with
  rendering on an NTSC frame may skip from dot 338 to dot 340 of the pre-render line.\<close>

theorem ppu_clock_safe:
  assumes "ppu_wf bd p"
  shows "returns (ppu_clock p) (\<lambda>p'. ppu_wf bd p' \<and> fixed_of p' = fixed_of p
    \<and> (ppu_position p' = next_dot p
      \<or> rendering_enabled p \<and> pp_region p = Ntsc \<and> ppu_position p = (pp_prerender_scanline p, 338)
         \<and> ppu_position p' = (pp_prerender_scanline p, 340)))"
proof (rule returns_mono [OF ppu_clock_clocked [OF assms]])
  fix p' assume c: "clocked bd p p'"
  then show "ppu_wf bd p' \<and> fixed_of p' = fixed_of p \<and> (ppu_position p' = next_dot p
      \<or> rendering_enabled p \<and> pp_region p = Ntsc \<and> ppu_position p = (pp_prerender_scanline p, 338)
         \<and> ppu_position p' = (pp_prerender_scanline p, 340))"
    using clocked_wf [OF assms c] by (simp add: clocked_def CYCLE_END_def)
qed

theorem ppu_clock_safe_witness:
  "returns (ppu_clock sample_ppu) (\<lambda>p'. ppu_wf sample_bd p' \<and> ppu_position p' = (0, 1))"
  by (rule returns_mono [OF ppu_clock_safe [OF sample_ppu_wf]])
    (use sample_ppu_state in \<open>auto simp: next_dot_def ppu_position_def ppu_consts\<close>)

text \<open>C22: With rendering off the PPU walks its frame with a fixed period: \<open>n\<close> clocks from a dot
  lead to the dot \<open>n\<close> further, modulo the dots of a frame, which are 341 by 262 for NTSC and 341
  by 312 for PAL and Dendy.\<close>

theorem ppu_frame_period:
  assumes "ppu_wf bd p" and "\<not> rendering_enabled p" and "0 < n"
  shows "returns (ppu_clocks n p) (\<lambda>p'. dot_index p' =
    (dot_index p + n) mod (if pp_region p = Ntsc then 341 * 262 else 341 * 312))"
proof -
  have "frame_dots p = (if pp_region p = Ntsc then 341 * 262 else 341 * 312)"
    using assms(1) by (cases "pp_region p") (auto simp: ppu_wf_def ppu_timing_def frame_dots_def)
  then show ?thesis
    using assms(3) by (intro returns_mono [OF ppu_clocks_idle [OF assms(1,2), of n]]) simp
qed

theorem ppu_frame_period_witness:
  "returns (ppu_clocks 100000 sample_ppu) (\<lambda>p'. dot_index p' = 10658)"
  using ppu_frame_period [OF sample_ppu_wf sample_ppu_state(1), of 100000] sample_ppu_state(2,6) by simp

text \<open>C21: \<open>clock_to\<close> ends and stops at the last multiple of the divider that is not after the target,
  for every target the counter can reach without wrapping around.\<close>

theorem ppu_clock_to_stops:
  assumes "ppu_wf bd p" and "pp_master_clock p \<le> clock"
    and "unat clock + unat (pp_clock_divider p) < 2 ^ 64"
  shows "returns (ppu_clock_to p clock) (\<lambda>p'. ppu_wf bd p' \<and> pp_master_clock p' \<le> clock
    \<and> clock < pp_master_clock p' + pp_clock_divider p')"
  by (rule returns_mono [OF ppu_clock_to_ends [OF assms]]) auto

theorem ppu_clock_to_stops_witness:
  "returns (ppu_clock_to sample_ppu 1000) (\<lambda>p'. pp_master_clock p' \<le> 1000)"
  by (rule returns_mono [OF ppu_clock_to_stops [OF sample_ppu_wf]]) (simp_all add: sample_ppu_state)

section \<open>Vertical blank\<close>

text \<open>The dot that starts vertical blank: nothing but the shift registers moves before the flag is set.\<close>

lemma ppu_clock_vblank:
  assumes wf: "ppu_wf bd p" and pos: "ppu_position p = (pp_vblank_scanline p, 0)"
  shows "\<exists>lo hi c. ppu_clock p = Some ((start_vblank (p\<lparr>pp_cycle := 1, pp_tile_shift_lo := lo,
    pp_tile_shift_hi := hi\<rparr>))\<lparr>pp_cycle_count := c\<rparr>)"
proof -
  have t: "ppu_timing p" using wf by (simp add: ppu_wf_def)
  have p: "pp_cycle p = 0" "pp_scanline p = pp_vblank_scanline p" using pos by (simp_all add: ppu_position_def)
  define q where "q = p\<lparr>pp_cycle := 1\<rparr>"
  have vis: "\<not> visible_scanline q" "\<not> prerender_scanline q" "pp_scanline p \<noteq> 0"
    "\<not> (pp_region q = Pal \<and> pp_scanline q \<ge> pp_pal_spr_eval_scanline q)"
    using t p by (cases "pp_region p"; simp add: q_def ppu_timing_def visible_scanline_def
        prerender_scanline_def ppu_consts)+
  have fetch: "bg_fetch_cycle q" by (simp add: q_def bg_fetch_cycle_def cycle_in_def)
  have tick: "tick q = Some (q\<lparr>pp_tile_shift_lo := push_bit 1 (pp_tile_shift_lo q),
      pp_tile_shift_hi := push_bit 1 (pp_tile_shift_hi q)\<rparr>)"
    using vis fetch by (auto simp: tick_def Let_def tick_sprite_eval_def)
  have end': "pp_scanline (start_vblank r) = pp_scanline r" "pp_prerender_scanline (start_vblank r) = pp_prerender_scanline r" for r
    by (simp_all add: start_vblank_def Let_def ppu_notify_mapper_def)
  have ne: "pp_vblank_scanline p \<noteq> pp_prerender_scanline p" using ppu_timing_bounds(3) [OF t] by auto
  show ?thesis
    using p vis(3) ne tick
    by (simp add: ppu_clock_def Let_def ppu_consts q_def [symmetric])
      (auto simp: q_def end' intro!: exI)
qed

text \<open>C20: At dot 1 of the first scanline of vertical blank the status flag goes up, and the NMI line
  with it if PPUCTRL enables it. A read of PPUSTATUS one dot earlier sees the flag clear, and then
  neither the flag nor the NMI comes in that frame.\<close>

theorem ppu_vblank_race:
  assumes wf: "ppu_wf bd p" and pos: "ppu_position p = (pp_vblank_scanline p, 0)" and "\<not> pp_prevent_vbl p"
  shows "returns (ppu_clock p) (\<lambda>q. in_vblank (pp_status q) \<and> pp_nmi_pending q = nmi_enabled (pp_ctrl p))
    \<and> (let (status, p') = read_status p
       in bit status 7 = in_vblank (pp_status p)
         \<and> returns (ppu_clock p') (\<lambda>q. \<not> in_vblank (pp_status q) \<and> \<not> pp_nmi_pending q \<and> \<not> pp_prevent_vbl q))"
proof -
  obtain lo hi c where 1: "ppu_clock p = Some ((start_vblank (p\<lparr>pp_cycle := 1, pp_tile_shift_lo := lo,
      pp_tile_shift_hi := hi\<rparr>))\<lparr>pp_cycle_count := c\<rparr>)"
    using ppu_clock_vblank [OF wf pos] by blast
  define p' where "p' = snd (read_status p)"
  have p': "pp_prevent_vbl p'" "\<not> in_vblank (pp_status p')" "\<not> pp_nmi_pending p'"
    "ppu_position p' = (pp_vblank_scanline p', 0)"
    using pos by (simp_all add: p'_def read_status_def Let_def ppu_notify_mapper_def ppu_position_def VBLANK_def)
  obtain lo hi c where 2: "ppu_clock p' = Some ((start_vblank (p'\<lparr>pp_cycle := 1, pp_tile_shift_lo := lo,
      pp_tile_shift_hi := hi\<rparr>))\<lparr>pp_cycle_count := c\<rparr>)"
    using ppu_clock_vblank [OF pure_registers_wf(3) [OF wf] p'(4) [unfolded p'_def]] p'_def by blast
  have "bit (fst (read_status p)) 7 = in_vblank (pp_status p)"
    by (simp add: read_status_def Let_def peek_status_def status_read_def in_vblank_def status_flags bit_simps)
  then show ?thesis
    using assms(3) p' 1 2
    by (simp add: start_vblank_def Let_def ppu_notify_mapper_def split_beta p'_def [symmetric])
qed

theorem ppu_vblank_race_witness:
  "returns (ppu_clock (sample_ppu\<lparr>pp_scanline := 241\<rparr>)) (\<lambda>q. in_vblank (pp_status q))"
proof -
  have 1: "ppu_wf sample_bd (sample_ppu\<lparr>pp_scanline := 241\<rparr>)"
    using sample_ppu_wf sample_ppu_state(8) by (simp add: ppu_wf_def ppu_timing_def)
  have 2: "ppu_position (sample_ppu\<lparr>pp_scanline := 241\<rparr>) = (pp_vblank_scanline (sample_ppu\<lparr>pp_scanline := 241\<rparr>), 0)"
    using sample_ppu_state by (simp add: ppu_position_def)
  show ?thesis
    using ppu_vblank_race [OF 1 2] sample_ppu_state by (auto simp: returns_def)
qed

section \<open>The scroll register\<close>

text \<open>C19: The bit operations of the scroll register are the movements on the two-by-two nametables
  they stand for: \<open>increment_x\<close> moves one tile column right among the 64, \<open>increment_y\<close> one pixel
  row down among the 480 as long as coarse Y is a row of tiles, and each leaves the other
  coordinate alone.\<close>

theorem scroll_increments:
  assumes "scroll_ok s" and "unat (coarse_y s) \<le> 29"
  shows "tile_column (increment_x s) = (tile_column s + 1) mod 64 \<and> pixel_row (increment_x s) = pixel_row s
    \<and> pixel_row (increment_y s) = (pixel_row s + 1) mod 480 \<and> tile_column (increment_y s) = tile_column s"
  using pixel_row_increment_y [OF assms] tile_column_increment_y [OF assms(1)]
  by (simp add: tile_column_increment_x pixel_row_def increment_x_rest increment_x_bits)

theorem scroll_increments_witness:
  "tile_column (increment_x (scroll_new\<lparr>sc_v := 0x7BBF\<rparr>)) = 32
    \<and> pixel_row (increment_y (scroll_new\<lparr>sc_v := 0x7BBF\<rparr>)) = 0"
proof -
  have f: "coarse_y (scroll_new\<lparr>sc_v := 0x7BBF\<rparr>) = 29" "fine_y (scroll_new\<lparr>sc_v := 0x7BBF\<rparr>) = 7"
    "coarse_x (scroll_new\<lparr>sc_v := 0x7BBF\<rparr>) = 31" "\<not> bit (0x7BBF::u16) 10" "bit (0x7BBF::u16) 11"
    by (simp_all add: coarse_y_def fine_y_def coarse_x_def scroll_consts)
  have "scroll_ok (scroll_new\<lparr>sc_v := 0x7BBF\<rparr>)" by (simp add: scroll_ok_def scroll_new_def)
  from scroll_increments [OF this] f show ?thesis by (simp add: tile_column_def pixel_row_def)
qed

lemma copy_y_keeps_column: "tile_column (copy_y s) = tile_column s"
proof -
  have "coarse_x (copy_y s) = coarse_x s"
    by (rule u16_eqI; simp add: coarse_x_def copy_y_def scroll_consts bit_simps)
  then show ?thesis by (simp add: tile_column_def copy_y_def scroll_consts bit_simps)
qed

lemma scroll_ports_fields:
  assumes "scroll_ok s" and "\<not> sc_latch s"
  defines "w \<equiv> \<lambda>n x y. scroll_write (scroll_write (write_nametable_select s n) x) y"
  shows "coarse_x (w n x y\<lparr>sc_v := sc_t (w n x y)\<rparr>) = drop_bit 3 (ucast x)"
    and "coarse_y (w n x y\<lparr>sc_v := sc_t (w n x y)\<rparr>) = drop_bit 3 (ucast y)"
    and "fine_y (w n x y\<lparr>sc_v := sc_t (w n x y)\<rparr>) = ucast y AND 7"
    and "bit (sc_t (w n x y)) 10 = bit n 0" and "bit (sc_t (w n x y)) 11 = bit n 1"
    and "sc_x (w n x y) = ucast x AND 7" and "scroll_ok (w n x y)"
proof -
  let ?s = "write_nametable_select s n"
  have s0: "\<not> sc_latch ?s" "scroll_ok ?s"
    using scroll_ok_ops(8) [OF assms(1)] assms(2) by (simp_all add: write_nametable_select_def Let_def)
  have sel: "bit (sc_t ?s) 10 = bit n 0" "bit (sc_t ?s) 11 = bit n 1"
    by (simp_all add: write_nametable_select_def Let_def scroll_consts bit_simps)
  note t = scroll_write_pair(1) [OF s0, of x y, folded w_def]
  show "coarse_x (w n x y\<lparr>sc_v := sc_t (w n x y)\<rparr>) = drop_bit 3 (ucast x)"
    unfolding coarse_x_def scroll_consts by (rule u16_eqI; simp add: w_def t [unfolded w_def] bit_simps)
  show "coarse_y (w n x y\<lparr>sc_v := sc_t (w n x y)\<rparr>) = drop_bit 3 (ucast y)"
    unfolding coarse_y_bits by (rule u16_eqI; simp add: w_def t [unfolded w_def] bit_simps)
  show "fine_y (w n x y\<lparr>sc_v := sc_t (w n x y)\<rparr>) = ucast y AND 7"
    unfolding fine_y_def by (rule u16_eqI; simp add: w_def t [unfolded w_def] bit_simps)
  show "bit (sc_t (w n x y)) 10 = bit n 0" "bit (sc_t (w n x y)) 11 = bit n 1"
    by (simp_all add: w_def t [unfolded w_def] bit_simps sel)
  show "sc_x (w n x y) = ucast x AND 7" using scroll_write_pair(2) [OF s0] by (simp add: w_def)
  show "scroll_ok (w n x y)" using s0(2) by (simp add: w_def scroll_ok_ops)
qed

text \<open>C18: What the CPU writes is where the picture starts. After the nametable bits of PPUCTRL and
  the pair of PPUSCROLL writes \<open>x\<close>, \<open>y\<close>, copying both parts of \<open>t\<close> to \<open>v\<close> puts the PPU on tile
  column \<open>x div 8\<close> and pixel row \<open>y\<close> of the chosen nametable, with the fine X position
  \<open>x mod 8\<close>, whatever the registers held before. The first write is the horizontal one and the second
  the vertical one, and no value is ignored: a \<open>y\<close> above 239 is a row past the 240 of the
  nametable, where its attributes are. The comment above \<open>write_scroll\<close> says that the first write is
  vertical and ignored above 239, and that the second is horizontal.\<close>

theorem scroll_ports_position:
  fixes s :: ppu_scroll and n x y :: u8
  assumes "scroll_ok s" and "\<not> sc_latch s"
  defines "s' \<equiv> copy_y (copy_x (scroll_write (scroll_write (write_nametable_select s n) x) y))"
  shows "tile_column s' = (if bit n 0 then 32 else 0) + unat x div 8
    \<and> pixel_row s' = (if bit n 1 then 240 else 0) + unat y \<and> unat (fine_x s') = unat x mod 8"
proof -
  define w where "w = scroll_write (scroll_write (write_nametable_select s n) x) y"
  note f = scroll_ports_fields [OF assms(1,2), of n x y, folded w_def]
  have t: "sc_t (copy_x w) = sc_t w" "sc_x s' = sc_x w" "\<not> bit (sc_v (copy_x w)) 15" "\<not> bit (sc_t (copy_x w)) 15"
    using scroll_ok_ops(5) [OF f(7)] by (simp_all add: s'_def w_def copy_x_def copy_y_def Let_def scroll_ok_def)
  have d: "unat (drop_bit 3 (ucast v :: u16)) = unat v div 8" for v :: u8 by (simp only: unat_drop unat_ucast_u8_u16) simp
  have m: "unat (ucast v AND 7 :: u16) = unat v mod 8" for v :: u8
    unfolding masks_eq(3) unat_and_low by simp
  have "tile_column s' = tile_column (w\<lparr>sc_v := sc_t w\<rparr>)"
    unfolding s'_def w_def [symmetric] copy_y_keeps_column by (rule tile_column_copy_x) simp
  then have 1: "tile_column s' = (if bit n 0 then 32 else 0) + unat x div 8"
    using f(1,4) d [of x] by (simp add: tile_column_def)
  have "pixel_row s' = pixel_row (w\<lparr>sc_v := sc_t w\<rparr>)"
    unfolding s'_def w_def [symmetric] by (rule pixel_row_copy_y) (use t in simp_all)
  also have "\<dots> = (if bit n 1 then 240 else 0) + 8 * (unat y div 8) + unat y mod 8"
    using f(2,3,5) d [of y] m [of y] by (simp add: pixel_row_def)
  finally have 2: "pixel_row s' = (if bit n 1 then 240 else 0) + unat y" by simp
  show ?thesis using 1 2 t(2) f(6) m [of x] by (simp add: fine_x_def)
qed

theorem scroll_ports_position_witness:
  "pixel_row (copy_y (copy_x (scroll_write (scroll_write (write_nametable_select scroll_new 2) 77) 100))) = 340"
  by (subst scroll_ports_position) (simp_all add: scroll_ok_ops, simp add: scroll_new_def)

section \<open>Nametables and the palette\<close>

lemma ciram_mirror_split:
  "ciram_mirror sh addr = (addr AND mask 10) + (if bit addr (sh + 10) then 0x400 else 0)"
proof -
  have or: "ciram_mirror sh addr = (addr AND mask 10) OR (if bit addr (sh + 10) then 0x400 else 0)"
    by (rule u16_eqI; simp add: ciram_mirror_bits bit_simps)
  have "(addr AND mask 10) AND (if bit addr (sh + 10) then 0x400 else 0) = 0"
    by (rule u16_eqI; simp add: bit_simps)
  then show ?thesis unfolding or by (rule disjunctive_add_eq_or [symmetric])
qed

lemma ciram_mirror_unat:
  "unat (ciram_mirror sh addr) = (if bit addr (sh + 10) then 0x400 else 0) + unat addr mod 0x400"
proof -
  have "unat (addr AND mask 10) = unat addr mod 0x400" by (simp add: unat_and_low)
  moreover from this have "unat (addr AND mask 10) < 0x400" by simp
  ultimately show ?thesis by (simp add: ciram_mirror_split unat_word_ariths)
qed

text \<open>In the nametables $2000-$2FFF the console's memory is addressed by the mirroring mode:
  the low ten bits of the address select the byte and the mode, from the two nametable bits, the
  page of the 2 KB.\<close>

theorem nametable_mirroring:
  assumes "0x2000 \<le> addr" and "addr < 0x3000" and "mi \<noteq> FourScreen"
  shows "unat (ciram_mirror (mirroring_index mi) addr)
    = (if physical_nametable mi (bit addr 10) (bit addr 11) then 0x400 else 0) + unat addr mod 0x400"
  using nametable_addr_bits [OF assms(1,2)] assms(3) by (cases mi) (simp_all add: ciram_mirror_unat)

theorem nametable_mirroring_witness: "unat (ciram_mirror (mirroring_index Horizontal) 0x2C05) = 0x405"
  by (subst nametable_mirroring) simp_all

lemma upper_copy_bits:
  fixes addr :: u16
  assumes "0x3000 \<le> addr" and "addr < 0x3F00"
  shows "bit addr 12" "bit addr 13" "bit (addr - 0x1000) 13" "\<not> bit (addr - 0x1000) 12"
    "(addr - 0x1000) AND mask 12 = addr AND mask 12"
proof -
  have u: "0x3000 \<le> unat addr" "unat addr < 0x3F00" "unat (addr - 0x1000) = unat addr - 0x1000"
    using assms by (simp_all add: word_le_nat_alt word_less_nat_alt unat_sub_if')
  have low: "unat addr = 0x3000 + (unat addr - 0x3000)" "unat addr - 0x3000 < 0x1000" using u by simp_all
  then obtain n where n: "unat addr = 0x3000 + n" "n < 0x1000" by blast
  have "drop_bit 12 addr = 3"
    by (rule word_unat_eq_iff [THEN iffD2]) (simp only: unat_drop n(1), use n(2) in simp)
  moreover have "drop_bit 12 (addr - 0x1000) = 2"
    by (rule word_unat_eq_iff [THEN iffD2]) (simp only: unat_drop u(3) n(1), use n(2) in simp)
  moreover have "(addr - 0x1000) AND mask 12 = addr AND mask 12"
    by (rule word_unat_eq_iff [THEN iffD2]) (simp only: unat_and_low u(3) n(1), use mod_mult_self1 [of n 2 4096] mod_mult_self1 [of n 3 4096] in \<open>simp add: add.commute\<close>)
  moreover have "bit w 12 = bit (drop_bit 12 w) 0" "bit w 13 = bit (drop_bit 12 w) 1" for w :: u16
    by (simp_all only: bit_drop_bit_eq) simp_all
  ultimately show "bit addr 12" "bit addr 13" "bit (addr - 0x1000) 13" "\<not> bit (addr - 0x1000) 12"
    "(addr - 0x1000) AND mask 12 = addr AND mask 12" by simp_all
qed

text \<open>The upper copy of the nametables, $3000-$3EFF, is the lower one ($1000 less) for
  vertical, horizontal and the second single-screen mode. For single-screen mirroring on the first
  page it is not: the address bit that the shift brings to the page selector is set there, and the
  access goes to the second page.\<close>

theorem nametable_upper_copy:
  assumes "0x3000 \<le> addr" and "addr < 0x3F00" and "mi \<noteq> FourScreen"
  shows "ciram_mirror (mirroring_index mi) addr =
    (if mi = SingleScreenA then ciram_mirror (mirroring_index mi) (addr - 0x1000) + 0x400
     else ciram_mirror (mirroring_index mi) (addr - 0x1000))"
proof -
  note up = upper_copy_bits [OF assms(1,2)]
  have b: "bit (addr - 0x1000) k = bit addr k" if "k < 12" for k
  proof -
    have "bit ((addr - 0x1000) AND mask 12) k = bit (addr AND mask 12) k" using up(5) by simp
    then show ?thesis using that by (auto simp only: bit_and_iff bit_mask_iff) simp_all
  qed
  have "(addr - 0x1000) AND mask 10 = addr AND mask 10" by (rule u16_eqI; simp add: b bit_simps)
  then show ?thesis using assms(3) up b by (cases mi) (simp_all add: ciram_mirror_split)
qed

theorem nametable_upper_copy_witness: "ciram_mirror (mirroring_index SingleScreenA) 0x3005 = 0x405"
  by (subst nametable_upper_copy) (simp_all add: ciram_mirror_split mask_eq_exp_minus_1)

definition palette_entry :: "u16 \<Rightarrow> nat" where
  "palette_entry addr = (let n = unat addr mod 32 in if n \<in> {16, 20, 24, 28} then n - 16 else n)"

lemma palette_mirror_entry: "unat (palette_mirror addr) = palette_entry addr"
proof -
  have m: "unat (addr AND 0x1F) = unat addr mod 32"
    using unat_and_low [of addr 5] by (simp add: masks_eq(1) [symmetric])
  have f: "unat ((addr AND 0x1F) AND 0x03) = unat addr mod 4"
  proof -
    have "(addr AND 0x1F) AND 0x03 = addr AND mask 2" by (rule u16_eqI; simp add: bit_simps)
    then show ?thesis by (simp add: unat_and_low)
  qed
  have z: "(addr AND 0x1F) AND 0x03 = 0 \<longleftrightarrow> unat addr mod 4 = 0"
    using f by (simp add: word_unat_eq_iff)
  have g: "16 \<le> addr AND 0x1F \<longleftrightarrow> 16 \<le> unat addr mod 32" by (simp add: word_le_nat_alt m)
  have "unat addr mod 4 = unat addr mod 32 mod 4" by (simp add: mod_mod_cancel)
  moreover have "unat addr mod 32 < 32" by simp
  ultimately have e: "16 \<le> unat addr mod 32 \<and> unat addr mod 4 = 0 \<longleftrightarrow> unat addr mod 32 \<in> {16, 20, 24, 28}"
    by auto
  show ?thesis
  proof (cases "16 \<le> unat addr mod 32 \<and> unat addr mod 4 = 0")
    case True
    then have "unat ((addr AND 0x1F) - 16) = unat addr mod 32 - 16" using m by (simp add: unat_sub_if')
    then show ?thesis
      unfolding palette_mirror_def palette_entry_def Let_def z g if_P [OF True] e [symmetric] .
  next
    case False
    then show ?thesis
      unfolding palette_mirror_def palette_entry_def Let_def z g if_not_P [OF False] e [symmetric] by (simp only: m)
  qed
qed

text \<open>The palette: a write to $3F00-$3FFF is read back at every address that mirrors to the same
  of the 32 entries (each 32 bytes, and the backdrop entries $10, $14, $18, $1C to $00, $04, $08,
  $0C), and no other palette address changes.\<close>

theorem palette_write_read:
  assumes "length (pb_palette b) = 32" and "0x3F00 \<le> a \<and> a \<le> 0x3FFF" and "0x3F00 \<le> a' \<and> a' \<le> 0x3FFF"
  shows "returns (pb_write b a v) (\<lambda>b'. returns (pb_read b' a') (\<lambda>(x, _).
      if palette_entry a' = palette_entry a then x = v else pb_peek b a' = Some x))"
proof -
  have "palette_mirror a' = palette_mirror a \<longleftrightarrow> palette_entry a' = palette_entry a"
    by (simp add: word_unat_eq_iff palette_mirror_entry)
  then show ?thesis
    using pb_palette_write_read [of b a a' v] assms by (auto simp: PALETTE_SIZE_def returns_def eq_commute)
qed

theorem palette_write_read_witness:
  "returns (pb_write ppu_bus_new 0x3F10 0x2A) (\<lambda>b'. returns (pb_read b' 0x3F20) (\<lambda>(x, _). x = 0x2A))"
  by (rule returns_mono [OF palette_write_read [of ppu_bus_new "0x3F10" "0x3F20" "0x2A"]])
    (simp_all add: ppu_bus_new_def PALETTE_SIZE_def palette_entry_def word_le_nat_alt)

section \<open>Four-screen boards\<close>

text \<open>With a four-screen \<open>Txrom\<close> header and the 4 KB that its loader adds, a write to the upper
  copy $3000-$3EFF panics, because the write is not masked to the memory. A write to $2000-$2FFF
  goes to its byte of the 4 KB, but a read only sees the first 1 KB: what is written to the second,
  third or fourth nametable is not read back.\<close>

theorem four_screen_exram:
  assumes "uses_exram (pb_mapper b)" and "length (pb_exram b) = 4 * 1024" and "in_nametables a"
  shows "if 0x3000 \<le> a then pb_write b a v = None
    else returns (pb_write b a v) (\<lambda>b'. pb_exram b' = (pb_exram b)[unat a - 0x2000 := v]
      \<and> pb_peek b' a = Some (if a < 0x2400 then v else pb_exram b ! (unat a mod 0x400)))"
proof -
  obtain t where t: "pb_mapper b = MTxrom t" "tx_mirroring t = FourScreen"
    using assms(1) by (cases "pb_mapper b") auto
  have u: "0x2000 \<le> unat a" "unat a \<le> 0x3EFF"
    using assms(3) by (simp_all add: in_nametables_def word_le_nat_alt)
  have win: "window_in 0x2000 0x3EFF a" using u by (simp add: window_in_def)
  obtain n where n: "unat a = 0x2000 + n" "n \<le> 0x1EFF" using u le_Suc_ex by auto
  have "unat (a AND 0x1FFF) = unat a mod 0x2000"
    using unat_and_low [of a 13] by (simp add: mask_eq_exp_minus_1)
  also have "\<dots> = n" using n by simp
  finally have i: "unat (a AND 0x1FFF) = n" .
  have "0x3000 \<le> a \<longleftrightarrow> 0x1000 \<le> n" "a < 0x2400 \<longleftrightarrow> n < 0x400"
    using n(1) by (auto simp: word_le_nat_alt word_less_nat_alt)
  note cmp = this
  have low: "n AND 0x3FF = unat a mod 0x400"
    using nat_and_mask [of n 10] mod_mult_self1 [of n 8 1024] by (simp add: n(1) add.commute)
  have lt: "n AND 0x3FF < 0x400" using nat_and_le2 [of n "0x3FF"] by simp
  note nt = nametable_windows [OF assms(3)] assms(3) [unfolded in_nametables_def]
  have w: "mapper_map_write (pb_mapper b) a v = Some (ExRamW n v, pb_mapper b)"
    using t win nt i by (simp add: lift_map_def txrom_map_write_def)
  have clk: "tx_clock_irq t a = t" using nt(3) by (simp add: tx_clock_irq_def)
  have r: "mapper_map_peek (pb_mapper b) a = Some (ExRamR n)"
    using t win nt i by (simp add: txrom_map_peek_def)
  have bw: "mapper_ppu_bus_write (pb_mapper b) a v = pb_mapper b"
    using t clk by (simp add: txrom_ppu_bus_write_def)
  have id: "n AND 0x3FF = n" if "n < 0x400" using nat_and_mask [of n 10] that by simp
  show ?thesis
    using assms(2) w r bw lt cmp low nt id n
    by (auto simp: pb_write_def pb_nametable_write_def pb_peek_def pb_nametable_read_def nth_list_update vec_set_def)
qed

definition sample_four_screen :: ppu_bus where
  "sample_four_screen = ppu_bus_new\<lparr>pb_exram := replicate (4 * 1024) 0,
     pb_mapper := MTxrom \<lparr>tx_regs = tx_regs_new, tx_mirroring = FourScreen, tx_irq_pending = False,
       tx_revision = Mmc3BC, tx_chr_banks = mb_new 0 0x1FFF 0x2000 1024,
       tx_prg_ram_banks = mb_new 0x6000 0x7FFF 0x2000 0x2000,
       tx_prg_rom_banks = mb_new 0x8000 0xFFFF 0x8000 0x2000\<rparr>\<rparr>"

theorem four_screen_exram_witness:
  "pb_write sample_four_screen 0x3000 7 = None
    \<and> returns (pb_write sample_four_screen 0x2400 7) (\<lambda>b'. pb_peek b' 0x2400 = Some 0)"
proof -
  have ok: "uses_exram (pb_mapper sample_four_screen)" "length (pb_exram sample_four_screen) = 4 * 1024"
    "in_nametables 0x3000" "in_nametables 0x2400"
    by (simp_all add: sample_four_screen_def in_nametables_def)
  have "pb_exram sample_four_screen ! 0 = 0" by (simp add: sample_four_screen_def)
  then show ?thesis
    using four_screen_exram [OF ok(1,2,3), of 7] four_screen_exram [OF ok(1,2,4), of 7]
    by (auto simp: returns_def)
qed

section \<open>The VRAM port\<close>

text \<open>What the port relies on: a board that leaves the nametables to the console, outside of rendering, no reset signal, both halves of PPUADDR to come.\<close>

definition port_ready :: "board \<Rightarrow> ppu \<Rightarrow> bool" where
  "port_ready bd p \<longleftrightarrow> ppu_bus_wf bd (pp_bus p) \<and> console_nametables (pb_mapper (pp_bus p))
     \<and> pb_mirroring (pp_bus p) \<noteq> FourScreen
     \<and> \<not> rendering_enabled p \<and> \<not> pp_reset_signal p \<and> \<not> sc_latch (pp_scroll p)"

text \<open>The nametable memory as the PPU sees it.\<close>

definition nt_view :: "ppu \<Rightarrow> u8 list \<times> nat" where
  "nt_view p = (pb_ciram (pp_bus p), pb_mirror_shift (pp_bus p))"

definition set_vram_addr :: "ppu \<Rightarrow> u16 \<Rightarrow> ppu" where
  "set_vram_addr p a = write_addr (write_addr p (u16_hi a)) (u16_lo a)"

lemma set_vram_addr_ready:
  assumes "port_ready bd p" and "a < 0x4000"
  shows "port_ready bd (set_vram_addr p a)" "sc_v (pp_scroll (set_vram_addr p a)) = a"
    "nt_view (set_vram_addr p a) = nt_view p"
proof -
  have a: "a AND 0x3FFF = a"
    using word_and_mask_self [of a 14] assms(2) by (simp add: word_less_nat_alt mask_eq_exp_minus_1)
  have l: "\<not> sc_latch (pp_scroll p)" using assms(1) by (simp add: port_ready_def)
  note pair = scroll_write_addr_pair [OF l, of "u16_hi a" "u16_lo a"]
  have sc: "pp_scroll (set_vram_addr p a) = scroll_write_addr (scroll_write_addr (pp_scroll p) (u16_hi a)) (u16_lo a)"
    using assms(1) by (simp add: set_vram_addr_def write_addr_def Let_def port_ready_def ppu_notify_mapper_def)
  show "port_ready bd (set_vram_addr p a)"
    unfolding port_ready_def sc using assms(1) pair(4)
    by (simp add: port_ready_def set_vram_addr_def write_addr_def Let_def ppu_notify_mapper_def
        rendering_enabled_def pb_mirroring_def ppu_bus_wf_def)
  show "sc_v (pp_scroll (set_vram_addr p a)) = a" unfolding sc using pair(1) a by simp
  show "nt_view (set_vram_addr p a) = nt_view p"
    using assms(1) by (simp add: nt_view_def set_vram_addr_def write_addr_def Let_def port_ready_def ppu_notify_mapper_def)
qed

lemma port_inc:
  assumes "port_ready bd p"
  shows "increment_vram_addr p = p\<lparr>pp_scroll := scroll_increment (pp_scroll p) (vram_increment (pp_ctrl p))\<rparr>"
  using assms by (simp add: increment_vram_addr_def port_ready_def)

lemma port_write:
  assumes rdy: "port_ready bd p" and nt: "in_nametables (sc_v (pp_scroll p))"
  shows "returns (write_data p v) (\<lambda>q. port_ready bd q \<and> nt_view q =
    ((pb_ciram (pp_bus p))[unat (ciram_mirror (pb_mirror_shift (pp_bus p)) (sc_v (pp_scroll p))) := v],
      pb_mirror_shift (pp_bus p)))"
proof -
  have wf: "ppu_bus_wf bd (pp_bus p)" and mi: "pb_mirroring (pp_bus p) \<noteq> FourScreen"
    and ex: "console_nametables (pb_mapper (pp_bus p))"
    using rdy by (simp_all add: port_ready_def)
  have inc: "increment_vram_addr (p\<lparr>pp_open_bus := v\<rparr>) = p\<lparr>pp_open_bus := v,
      pp_scroll := scroll_increment (pp_scroll p) (vram_increment (pp_ctrl p))\<rparr>"
    using rdy by (simp add: increment_vram_addr_def port_ready_def rendering_enabled_def)
  show ?thesis
    using rdy wf
    by (simp add: write_data_def Let_def read_addr_def inc pb_nametable_write_eq [OF nt wf ex mi] nt_view_def
        ppu_notify_mapper_def port_ready_def rendering_enabled_def pb_mirroring_def scroll_increment_def
        ppu_bus_wf_def)
qed

lemma port_read:
  assumes rdy: "port_ready bd p" and nt: "in_nametables (sc_v (pp_scroll p))"
  shows "\<exists>x. pb_ciram_read (pp_bus p) (sc_v (pp_scroll p)) = Some x
    \<and> returns (read_data p) (\<lambda>(y, q). port_ready bd q \<and> nt_view q = nt_view p \<and> y = pp_vram_buffer p
        \<and> pp_vram_buffer q = x \<and> sc_v (pp_scroll q) = (sc_v (pp_scroll p) + vram_increment (pp_ctrl p)) AND 0x3FFF)"
proof -
  have wf: "ppu_bus_wf bd (pp_bus p)" and ex: "console_nametables (pb_mapper (pp_bus p))"
    using rdy by (simp_all add: port_ready_def)
  obtain x where x: "pb_peek (pp_bus p) (sc_v (pp_scroll p)) = Some x"
      "pb_read (pp_bus p) (sc_v (pp_scroll p)) = Some (x, (pp_bus p)\<lparr>pb_open_bus := x\<rparr>)"
    using pb_nametable_read [OF nt wf ex] by blast
  have "sc_v (pp_scroll p) < PALETTE_START"
    using nt by (simp add: in_nametables_def PALETTE_START_def word_le_nat_alt word_less_nat_alt)
  then have "returns (read_data p) (\<lambda>(y, q). port_ready bd q \<and> nt_view q = nt_view p \<and> y = pp_vram_buffer p
        \<and> pp_vram_buffer q = x \<and> sc_v (pp_scroll q) = (sc_v (pp_scroll p) + vram_increment (pp_ctrl p)) AND 0x3FFF)"
    using rdy wf x(2)
    by (simp add: read_data_def Let_def read_addr_def port_inc [OF rdy] ppu_bus_read_def nt_view_def
        ppu_notify_mapper_def port_ready_def rendering_enabled_def pb_mirroring_def scroll_increment_def
        ppu_bus_wf_def ADDR_MIRROR_def)
  then show ?thesis using x(1) pb_nametable_peek [OF nt ex] by auto
qed

lemma ciram_read_view:
  assumes "port_ready bd p"
  shows "pb_ciram_read (pp_bus p) a = vec_get (fst (nt_view p)) (unat (ciram_mirror (snd (nt_view p)) a))"
  using assms by (simp add: port_ready_def pb_ciram_read_def nt_view_def)

text \<open>C23: The VRAM port is a memory behind PPUADDR and PPUDATA. Outside of rendering, a byte written
  at one nametable address and then looked up at another is, after the one dummy read that fills
  the buffer, the byte written if the two addresses mirror to the same cell, and what was there
  before otherwise.\<close>

theorem vram_port_write_read:
  assumes "port_ready bd p" and "in_nametables a" and "in_nametables a'" and "a' < 0x3E00"
  shows "returns (do { p \<leftarrow> write_data (set_vram_addr p a) v;
                       (_, p) \<leftarrow> read_data (set_vram_addr p a');
                       read_data p })
    (\<lambda>(x, _). Some x = (if ciram_mirror (pb_mirror_shift (pp_bus p)) a' = ciram_mirror (pb_mirror_shift (pp_bus p)) a
       then Some v else pb_ciram_read (pp_bus p) a'))"
proof -
  have lt: "a < 0x4000" "a' < 0x4000"
    using assms(2,3) by (simp_all add: in_nametables_def word_le_nat_alt word_less_nat_alt)
  let ?m = "ciram_mirror (pb_mirror_shift (pp_bus p))"
  have len: "length (pb_ciram (pp_bus p)) = 0x800"
    using assms(1) ppu_bus_wf_sizes(1) by (auto simp: port_ready_def)
  note s1 = set_vram_addr_ready [OF assms(1) lt(1)]
  obtain q where q: "write_data (set_vram_addr p a) v = Some q" "port_ready bd q"
      "nt_view q = ((pb_ciram (pp_bus p))[unat (?m a) := v], pb_mirror_shift (pp_bus p))"
    using returnsD [OF port_write [OF s1(1), of v]] assms(2) s1 by (auto simp: nt_view_def)
  note s2 = set_vram_addr_ready [OF q(2) lt(2)]
  have nt2: "in_nametables (sc_v (pp_scroll (set_vram_addr q a')))" using assms(3) s2(2) by simp
  obtain x where x: "pb_ciram_read (pp_bus (set_vram_addr q a')) a' = Some x" and
    r: "returns (read_data (set_vram_addr q a')) (\<lambda>(y, r). port_ready bd r \<and> nt_view r = nt_view q
        \<and> pp_vram_buffer r = x \<and> sc_v (pp_scroll r) = (a' + vram_increment (pp_ctrl (set_vram_addr q a'))) AND 0x3FFF)"
    using port_read [OF s2(1) nt2] s2 by (auto simp: returns_def)
  obtain y r where r': "read_data (set_vram_addr q a') = Some (y, r)" "port_ready bd r" "pp_vram_buffer r = x"
      "sc_v (pp_scroll r) = (a' + vram_increment (pp_ctrl (set_vram_addr q a'))) AND 0x3FFF"
    using returnsD [OF r] by auto
  have "in_nametables (sc_v (pp_scroll r))"
  proof -
    define c where "c = pp_ctrl (set_vram_addr q a')"
    have i: "unat (vram_increment c) \<le> 32" by (simp add: vram_increment_def)
    have u: "0x2000 \<le> unat a'" "unat a' < 0x3E00"
      using assms(3,4) by (simp_all add: in_nametables_def word_le_nat_alt word_less_nat_alt)
    then have s: "unat (a' + vram_increment c) = unat a' + unat (vram_increment c)"
      using i by (simp add: unat_word_ariths)
    have "(a' + vram_increment c) AND mask 14 = a' + vram_increment c"
      by (rule word_and_mask_self) (use i u s in simp)
    then have "sc_v (pp_scroll r) = a' + vram_increment c"
      using r'(4) by (simp add: c_def mask_eq_exp_minus_1)
    then show ?thesis using u i s by (simp add: in_nametables_def word_le_nat_alt)
  qed
  then obtain z t where t: "read_data r = Some (z, t)" "z = x"
    using port_read [OF r'(2)] r'(3) by (auto simp: returns_def)
  have "Some x = (if ?m a' = ?m a then Some v else pb_ciram_read (pp_bus p) a')"
    using x ciram_mirror_less [of "pb_mirror_shift (pp_bus p)"] len
    by (auto simp: ciram_read_view [OF s2(1)] ciram_read_view [OF assms(1)] s2(3) q(3) nth_list_update
        word_unat_eq_iff [symmetric]) (simp_all add: nt_view_def)
  then show ?thesis using q(1) r'(1) t by simp
qed

lemma sample_ppu_port: "port_ready sample_bd sample_ppu" "pb_mirror_shift (pp_bus sample_ppu) = 0"
proof -
  have "ppu_bus_wf sample_bd (pp_bus sample_ppu)" using sample_ppu_wf by (simp add: ppu_wf_def ppu_core_def)
  moreover have "pb_mirroring (pp_bus sample_ppu) = Vertical"
    by (simp add: sample_ppu_def pb_load_cart_def pb_update_mirroring_def pb_load_mapper_def
        pb_mirroring_def sample_nrom_cart)
  moreover have "console_nametables (pb_mapper (pp_bus sample_ppu))"
    by (simp add: sample_ppu_def pb_load_cart_def pb_update_mirroring_def pb_load_mapper_def sample_nrom_cart)
  ultimately show "port_ready sample_bd sample_ppu"
    by (simp add: port_ready_def sample_ppu_state)
  show "pb_mirror_shift (pp_bus sample_ppu) = 0"
    by (simp add: sample_ppu_def pb_load_cart_def pb_update_mirroring_def pb_load_mapper_def
        pb_mirroring_def sample_nrom_cart)
qed

theorem vram_port_write_read_witness:
  "returns (do { p \<leftarrow> write_data (set_vram_addr sample_ppu 0x2305) 0x66;
                 (_, p) \<leftarrow> read_data (set_vram_addr p 0x2B05); read_data p }) (\<lambda>(x, _). x = 0x66)"
proof -
  have "ciram_mirror 0 0x2B05 = ciram_mirror 0 0x2305" by (simp add: ciram_mirror_split mask_eq_exp_minus_1)
  then show ?thesis
    using vram_port_write_read [OF sample_ppu_port(1), of "0x2305" "0x2B05" "0x66"] sample_ppu_port(2)
    by (auto simp: in_nametables_def word_le_nat_alt word_less_nat_alt returns_def)
qed

section \<open>Sprite memory\<close>

text \<open>Outside of rendering the 256 bytes of OAM behind OAMADDR and OAMDATA are a memory: a byte
  written is read back, without the three unimplemented bits of an attribute byte, every other
  byte is unchanged, and OAMADDR has moved to the next byte.\<close>

theorem oam_write_read:
  assumes "ppu_wf bd p" and "\<not> rendering_enabled p"
  shows "returns (write_oamdata (write_oamaddr p a) v) (\<lambda>q. pp_oamaddr q = a + 1
    \<and> peek_oamdata (write_oamaddr q a') =
      (if a' = a then Some (if unat a mod 4 = 2 then v AND 0xE3 else v) else peek_oamdata (write_oamaddr p a')))"
proof -
  have len: "length (pp_oamdata p) = 256" using assms(1) core_sizes(2) by (auto simp: ppu_wf_def)
  have "unat (a AND 0x03) = unat a mod 4"
  proof -
    have "unat (a AND mask 2) = unat a mod 2 ^ 2"
      by (metis take_bit_eq_mask unsigned_take_bit_eq take_bit_eq_mod)
    then show ?thesis by (simp add: mask_eq_exp_minus_1)
  qed
  then have m: "a AND 0x03 = 0x02 \<longleftrightarrow> unat a mod 4 = 2" by (simp add: word_unat_eq_iff)
  show ?thesis
    using assms(2) len unat_u8_less [of a] unat_u8_less [of a']
    by (auto simp: write_oamdata_def write_oamaddr_def Let_def peek_oamdata_def rendering_enabled_def m
        nth_list_update word_unat_eq_iff [symmetric])
qed

theorem oam_write_read_witness:
  "returns (write_oamdata (write_oamaddr sample_ppu 0x12) 0xFF) (\<lambda>q. peek_oamdata (write_oamaddr q 0x12) = Some 0xE3)"
  by (rule returns_mono [OF oam_write_read [OF sample_ppu_wf sample_ppu_state(1), of "0x12" "0xFF" "0x12"]]) simp

text \<open>A read of OAMDATA panics in exactly one situation: during the sprite fetches (dots 257 to
  320) of a visible line with rendering on, when eight sprites were found on the line, so that the
  secondary OAM address is 32, one past its memory.\<close>

theorem oamdata_read_panics_iff:
  assumes "ppu_wf bd p"
  shows "read_oamdata p = None \<longleftrightarrow>
    rendering_enabled p \<and> pp_scanline p \<le> 239 \<and> 257 \<le> pp_cycle p \<and> pp_cycle p \<le> 320
    \<and> pp_secondary_oamaddr p = 32"
proof -
  have core: "ppu_core bd p" using assms by (simp add: ppu_wf_def)
  have "pp_secondary_oamaddr p = 32 \<longleftrightarrow> 32 \<le> unat (pp_secondary_oamaddr p)"
    using core_sizes(3) [OF core] by (auto simp: word_unat_eq_iff)
  then show ?thesis
    using core_sizes(1,2) [OF core] less_le_trans [OF unat_u8_less [of "pp_oamaddr p"]]
    by (auto simp: read_oamdata_def peek_oamdata_def ppu_consts vec_get_def split: if_splits)
qed

theorem oamdata_read_panics_iff_witness:
  "read_oamdata (sample_ppu\<lparr>pp_mask := 0x10, pp_cycle := 257, pp_secondary_oamaddr := 32\<rparr>) = None"
proof -
  have "ppu_wf sample_bd (sample_ppu\<lparr>pp_mask := 0x10, pp_cycle := 257, pp_secondary_oamaddr := 32\<rparr>)"
    using sample_ppu_wf by (simp add: ppu_wf_def ppu_core_def ppu_timing_def ppu_consts)
  moreover have "pp_scanline sample_ppu = 0" using sample_ppu_state(12) by (simp add: ppu_position_def)
  ultimately show ?thesis
    by (subst oamdata_read_panics_iff) (simp_all add: rendering_enabled_def show_spr_def mask_flags)
qed

end
