(* ===== verification/Input.thy ===== *)
theory Input
  imports Ppu CpuRates
begin

text \<open>
  \<open>src/input.rs\<close>: the controller ports \<open>$4016\<close> and \<open>$4017\<close>: four joypads that are shift
  registers, the signatures of the four-player adapters, and the light gun. The light gun's
  \<open>triggered\<close> is an \<open>f32\<close> that only takes values the type represents exactly (its start value
  rounded, then decremented by one), so it is a rational here. The \<open>i32\<close> coordinates are words
  of 32 bits read with \<open>sint\<close>.
\<close>

section \<open>Ports and adapters\<close>

datatype slot = One | Two | Three | Four

fun slot_index :: "slot \<Rightarrow> nat" where
  "slot_index One = 0"
| "slot_index Two = 1"
| "slot_index Three = 2"
| "slot_index Four = 3"

datatype four_player = Disabled | FourScore | Satellite

definition four_player_as_slice :: "four_player list" where
  "four_player_as_slice = [Disabled, FourScore, Satellite]"

definition four_player_from :: "nat \<Rightarrow> four_player" where
  "four_player_from value = (if value = 1 then FourScore else if value = 2 then Satellite else Disabled)"

fun four_player_as_ref :: "four_player \<Rightarrow> string" where
  "four_player_as_ref Disabled = ''Disabled''"
| "four_player_as_ref FourScore = ''FourScore''"
| "four_player_as_ref Satellite = ''Satellite''"

definition four_player_from_str :: "string \<Rightarrow> string + four_player" where
  "four_player_from_str s =
     (if s = ''disabled'' then Inr Disabled
      else if s = ''fourscore'' then Inr FourScore
      else if s = ''satellite'' then Inr Satellite
      else Inl ''invalid FourScore value. valid options: `disabled`, `fourscore`, or `satellite`'')"

section \<open>Joypads\<close>

datatype joypad_btn = BtnLeft | BtnRight | BtnUp | BtnDown | BtnA | BtnB | BtnTurboA | BtnTurboB
  | BtnSelect | BtnStart

fun joypad_btn_as_ref :: "joypad_btn \<Rightarrow> string" where
  "joypad_btn_as_ref BtnA = ''A''"
| "joypad_btn_as_ref BtnB = ''B''"
| "joypad_btn_as_ref BtnSelect = ''Select''"
| "joypad_btn_as_ref BtnStart = ''Start''"
| "joypad_btn_as_ref BtnUp = ''Up''"
| "joypad_btn_as_ref BtnDown = ''Down''"
| "joypad_btn_as_ref BtnLeft = ''Left''"
| "joypad_btn_as_ref BtnRight = ''Right''"
| "joypad_btn_as_ref BtnTurboA = ''A (Turbo)''"
| "joypad_btn_as_ref BtnTurboB = ''B (Turbo)''"

definition BTN_A :: u16 where "BTN_A = 0x01"
definition BTN_B :: u16 where "BTN_B = 0x02"
definition BTN_SELECT :: u16 where "BTN_SELECT = 0x04"
definition BTN_START :: u16 where "BTN_START = 0x08"
definition BTN_UP :: u16 where "BTN_UP = 0x10"
definition BTN_DOWN :: u16 where "BTN_DOWN = 0x20"
definition BTN_LEFT :: u16 where "BTN_LEFT = 0x40"
definition BTN_RIGHT :: u16 where "BTN_RIGHT = 0x80"
definition BTN_TURBO_A :: u16 where "BTN_TURBO_A = 0x100"
definition BTN_TURBO_B :: u16 where "BTN_TURBO_B = 0x200"
definition BTN_DPAD :: u16 where "BTN_DPAD = BTN_UP OR BTN_DOWN OR BTN_LEFT OR BTN_RIGHT"

definition btn_from_bits_truncate :: "u16 \<Rightarrow> u16" where
  "btn_from_bits_truncate bits = bits AND 0x3FF"

fun btn_state_from :: "joypad_btn \<Rightarrow> u16" where
  "btn_state_from BtnA = BTN_A"
| "btn_state_from BtnB = BTN_B"
| "btn_state_from BtnSelect = BTN_SELECT"
| "btn_state_from BtnStart = BTN_START"
| "btn_state_from BtnUp = BTN_UP"
| "btn_state_from BtnDown = BTN_DOWN"
| "btn_state_from BtnLeft = BTN_LEFT"
| "btn_state_from BtnRight = BTN_RIGHT"
| "btn_state_from BtnTurboA = BTN_TURBO_A"
| "btn_state_from BtnTurboB = BTN_TURBO_B"

record joypad =
  jp_buttons :: u16
  jp_index :: u8
  jp_strobe :: bool

definition joypad_new :: joypad where
  "joypad_new = \<lparr>jp_buttons = btn_from_bits_truncate 0, jp_index = 0, jp_strobe = False\<rparr>"

definition joypad_signature :: "u16 \<Rightarrow> joypad" where
  "joypad_signature val = \<lparr>jp_buttons = btn_from_bits_truncate val, jp_index = 0, jp_strobe = False\<rparr>"

definition joypad_button :: "joypad \<Rightarrow> u16 \<Rightarrow> bool" where
  "joypad_button j button = flag_contains (jp_buttons j) button"

definition joypad_set_button :: "joypad \<Rightarrow> u16 \<Rightarrow> bool \<Rightarrow> joypad" where
  "joypad_set_button j button pressed = j\<lparr>jp_buttons := flag_set (jp_buttons j) button pressed\<rparr>"

definition joypad_peek :: "joypad \<Rightarrow> u8" where
  "joypad_peek j =
     (if jp_index j < 8
      then drop_bit (unat (jp_index j)) (ucast (jp_buttons j) AND push_bit (unat (jp_index j)) 1)
      else 0x01)"

definition joypad_read :: "joypad \<Rightarrow> u8 \<times> joypad" where
  "joypad_read j =
     (let val = joypad_peek j
      in (val, if \<not> jp_strobe j \<and> jp_index j < 8 then j\<lparr>jp_index := jp_index j + 1\<rparr> else j))"

definition joypad_write :: "joypad \<Rightarrow> u8 \<Rightarrow> joypad" where
  "joypad_write j val =
     (let prev_strobe = jp_strobe j;
          j = j\<lparr>jp_strobe := (val AND 0x01 = 0x01)\<rparr>
      in if prev_strobe \<and> \<not> jp_strobe j then j\<lparr>jp_index := 0\<rparr> else j)"

definition joypad_reset :: "joypad \<Rightarrow> kind \<Rightarrow> joypad" where
  "joypad_reset j k = j\<lparr>jp_buttons := 0, jp_index := 0, jp_strobe := False\<rparr>"

section \<open>Zapper\<close>

record zapper =
  zp_triggered :: rat
  zp_x :: u32
  zp_y :: u32
  zp_radius :: u32
  zp_connected :: bool

definition zapper_new :: zapper where
  "zapper_new = \<lparr>zp_triggered = 0, zp_x = 0, zp_y = 0, zp_radius = 3, zp_connected = False\<rparr>"

definition zapper_trigger :: "zapper \<Rightarrow> zapper" where
  "zapper_trigger z =
     (if zp_triggered z \<le> 0
      then z\<lparr>zp_triggered := f32_nearest 6 (region_clock_rate Ntsc / 10)\<rparr> else z)"

definition zapper_aim :: "zapper \<Rightarrow> u32 \<Rightarrow> u32 \<Rightarrow> zapper" where
  "zapper_aim z x y = z\<lparr>zp_x := x, zp_y := y\<rparr>"

definition zapper_triggered :: "zapper \<Rightarrow> u8" where
  "zapper_triggered z = (if zp_triggered z > 0 then 0x10 else 0x00)"

text \<open>The inclusive range \<open>(c - r)..=(c + r)\<close> on \<open>i32\<close>.\<close>

definition around :: "u32 \<Rightarrow> u32 \<Rightarrow> int list" where
  "around c r = [sint (c - r) .. sint (c + r)]"

text \<open>The test of one pixel: visible, passed by the beam at most 20 lines ago, and bright.\<close>

definition pixel_lit :: "ppu \<Rightarrow> int \<Rightarrow> int \<Rightarrow> bool option" where
  "pixel_lit p y x =
     (let scanline = sint (pp_scanline p);
          cycle = sint (pp_cycle p);
          in_bounds = (0 \<le> x \<and> x < int PPU_WIDTH);
          behind_ppu = (scanline \<ge> y \<and> scanline - y \<le> 20 \<and> (scanline \<noteq> y \<or> cycle > x))
      in if in_bounds \<and> behind_ppu
         then do { b \<leftarrow> frame_pixel_brightness (pp_frame p) (word_of_int x) (word_of_int y);
                   Some (b \<ge> 85) }
         else Some False)"

fun any_lit :: "ppu \<Rightarrow> (int \<times> int) list \<Rightarrow> bool option" where
  "any_lit p [] = Some False"
| "any_lit p ((y, x) # ps) = do { lit \<leftarrow> pixel_lit p y x; if lit then Some True else any_lit p ps }"

definition light_sense :: "zapper \<Rightarrow> ppu \<Rightarrow> u8 option" where
  "light_sense z p =
     (if 0 \<le> sint (zp_x z) \<and> 0 \<le> sint (zp_y z)
      then do { lit \<leftarrow> any_lit p
                  [(y, x). y \<leftarrow> around (zp_y z) (zp_radius z), 0 \<le> y \<and> y < int PPU_HEIGHT,
                           x \<leftarrow> around (zp_x z) (zp_radius z)];
                Some (if lit then 0x00 else 0x08) }
      else Some 0x08)"

definition zapper_read :: "zapper \<Rightarrow> ppu \<Rightarrow> u8 option" where
  "zapper_read z p =
     (if zp_connected z
      then do { light \<leftarrow> light_sense z p; Some (zapper_triggered z OR light) }
      else Some 0x00)"

definition zapper_clock :: "zapper \<Rightarrow> zapper" where
  "zapper_clock z = (if zp_triggered z > 0 then z\<lparr>zp_triggered := zp_triggered z - 1\<rparr> else z)"

definition zapper_reset :: "zapper \<Rightarrow> kind \<Rightarrow> zapper" where
  "zapper_reset z k = z\<lparr>zp_triggered := 0\<rparr>"

section \<open>Input\<close>

record input =
  in_joypads :: "joypad list"
  in_signatures :: "joypad list"
  in_zapper :: zapper
  in_turbo_timer :: u32
  in_four_player :: four_player

definition input_new :: input where
  "input_new =
     \<lparr>in_joypads = replicate 4 joypad_new,
      in_signatures = [joypad_signature 0x08, joypad_signature 0x04],
      in_zapper = zapper_new, in_turbo_timer = 30, in_four_player = Disabled\<rparr>"

definition input_joypad :: "input \<Rightarrow> slot \<Rightarrow> joypad option" where
  "input_joypad i s = vec_get (in_joypads i) (slot_index s)"

definition input_connect_zapper :: "input \<Rightarrow> bool \<Rightarrow> input" where
  "input_connect_zapper i conn = i\<lparr>in_zapper := (in_zapper i)\<lparr>zp_connected := conn\<rparr>\<rparr>"

definition input_reset :: "input \<Rightarrow> kind \<Rightarrow> input" where
  "input_reset i k =
     i\<lparr>in_joypads := map (\<lambda>j. joypad_reset j k) (in_joypads i),
       in_signatures := map (\<lambda>j. joypad_reset j k) (in_signatures i),
       in_zapper := zapper_reset (in_zapper i) k\<rparr>"

definition set_four_player :: "input \<Rightarrow> four_player \<Rightarrow> input" where
  "set_four_player i fp = input_reset (i\<lparr>in_four_player := fp\<rparr>) Hard"

text \<open>\<open>self.joypads[k].read()\<close> and \<open>self.signatures[k].read()\<close>.\<close>

definition read_pad :: "input \<Rightarrow> nat \<Rightarrow> (u8 \<times> input) option" where
  "read_pad i k =
     do { j \<leftarrow> vec_get (in_joypads i) k;
          let (val, j) = joypad_read j
          in Some (val, i\<lparr>in_joypads := (in_joypads i)[k := j]\<rparr>) }"

definition read_signature :: "input \<Rightarrow> nat \<Rightarrow> (u8 \<times> input) option" where
  "read_signature i k =
     do { j \<leftarrow> vec_get (in_signatures i) k;
          let (val, j) = joypad_read j
          in Some (val, i\<lparr>in_signatures := (in_signatures i)[k := j]\<rparr>) }"

definition read_four_score :: "input \<Rightarrow> nat \<Rightarrow> (u8 \<times> input) option" where
  "read_four_score i slot =
     do { j \<leftarrow> vec_get (in_joypads i) slot;
          if jp_index j < 8 then read_pad i slot
          else do { j \<leftarrow> vec_get (in_joypads i) (slot + 2);
                    if jp_index j < 8 then read_pad i (slot + 2)
                    else do { j \<leftarrow> vec_get (in_signatures i) slot;
                              if jp_index j < 8 then read_signature i slot
                              else Some (0x01, i) } } }"

definition zapper_port :: "input \<Rightarrow> slot \<Rightarrow> ppu \<Rightarrow> u8 option" where
  "zapper_port i s p = (if s = Two then zapper_read (in_zapper i) p else Some 0x00)"

definition input_read :: "input \<Rightarrow> slot \<Rightarrow> ppu \<Rightarrow> (u8 \<times> input) option" where
  "input_read i s p =
     do { zapper \<leftarrow> zapper_port i s p;
          let slot = slot_index s;
          (val, i) \<leftarrow>
            (case in_four_player i of
               Disabled \<Rightarrow> read_pad i slot
             | FourScore \<Rightarrow> read_four_score i slot
             | Satellite \<Rightarrow>
                 do { (a, i) \<leftarrow> read_pad i slot;
                      (b, i) \<leftarrow> read_pad i (slot + 2);
                      Some (a OR push_bit 1 b, i) });
          Some (zapper OR val OR 0x40, i) }"

definition peek_four_score :: "input \<Rightarrow> nat \<Rightarrow> u8 option" where
  "peek_four_score i slot =
     do { j \<leftarrow> vec_get (in_joypads i) slot;
          if jp_index j < 8 then Some (joypad_peek j)
          else do { j \<leftarrow> vec_get (in_joypads i) (slot + 2);
                    if jp_index j < 8 then Some (joypad_peek j)
                    else do { j \<leftarrow> vec_get (in_signatures i) slot;
                              if jp_index j < 8 then Some (joypad_peek j) else Some 0x01 } } }"

definition input_peek :: "input \<Rightarrow> slot \<Rightarrow> ppu \<Rightarrow> u8 option" where
  "input_peek i s p =
     do { zapper \<leftarrow> zapper_port i s p;
          let slot = slot_index s;
          val \<leftarrow>
            (case in_four_player i of
               Disabled \<Rightarrow> map_option joypad_peek (vec_get (in_joypads i) slot)
             | FourScore \<Rightarrow> peek_four_score i slot
             | Satellite \<Rightarrow>
                 do { a \<leftarrow> vec_get (in_joypads i) slot;
                      b \<leftarrow> vec_get (in_joypads i) (slot + 2);
                      Some (joypad_peek a OR push_bit 1 (joypad_peek b)) });
          Some (zapper OR val OR 0x40) }"

definition input_write :: "input \<Rightarrow> u8 \<Rightarrow> input" where
  "input_write i val =
     i\<lparr>in_joypads := map (\<lambda>j. joypad_write j val) (in_joypads i),
       in_signatures := map (\<lambda>j. joypad_write j val) (in_signatures i)\<rparr>"

definition joypad_turbo :: "joypad \<Rightarrow> joypad" where
  "joypad_turbo pad =
     (let pad = (if joypad_button pad BTN_TURBO_A
                 then joypad_set_button pad BTN_A (\<not> joypad_button pad BTN_A) else pad)
      in if joypad_button pad BTN_TURBO_B
         then joypad_set_button pad BTN_B (\<not> joypad_button pad BTN_B) else pad)"

definition input_clock :: "input \<Rightarrow> input" where
  "input_clock i =
     (let i = i\<lparr>in_zapper := zapper_clock (in_zapper i), in_turbo_timer := in_turbo_timer i - 1\<rparr>
      in if in_turbo_timer i = 0
         then i\<lparr>in_turbo_timer := in_turbo_timer i + 89500,
                in_joypads := map joypad_turbo (in_joypads i)\<rparr>
         else i)"

section \<open>Invariant\<close>

definition input_wf :: "input \<Rightarrow> bool" where
  "input_wf i \<longleftrightarrow> length (in_joypads i) = 4 \<and> length (in_signatures i) = 2"

lemma input_wf_ops [simp, wf_intros]:
  "input_wf input_new"
  "input_wf (input_connect_zapper i b) = input_wf i"
  "input_wf (input_reset i k) = input_wf i"
  "input_wf (set_four_player i fp) = input_wf i"
  "input_wf (input_write i v) = input_wf i"
  "input_wf (input_clock i) = input_wf i"
  by (simp_all add: input_wf_def input_new_def input_connect_zapper_def input_reset_def
      set_four_player_def input_write_def input_clock_def Let_def)

lemma input_wf_upd [simp]:
  "input_wf (i\<lparr>in_joypads := (in_joypads i)[k := j]\<rparr>) = input_wf i"
  "input_wf (i\<lparr>in_signatures := (in_signatures i)[k := j]\<rparr>) = input_wf i"
  by (simp_all add: input_wf_def)

lemma read_pad_ok: "input_wf i \<Longrightarrow> k < 4 \<Longrightarrow> returns (read_pad i k) (\<lambda>(v, i'). input_wf i')"
  by (simp add: read_pad_def split_beta) (simp add: input_wf_def)

lemma read_four_score_ok:
  "input_wf i \<Longrightarrow> k < 2 \<Longrightarrow> returns (read_four_score i k) (\<lambda>(v, i'). input_wf i')"
  using read_pad_ok [of i k] read_pad_ok [of i "k + 2"]
  by (auto simp: read_four_score_def read_signature_def split_beta input_wf_def)

text \<open>The frame buffer is only read inside the picture.\<close>

lemma frame_pixel_ok: "frame_wf f \<Longrightarrow> unat x < 256 \<Longrightarrow> unat y < 240 \<Longrightarrow> returns (frame_pixel_brightness f x y) (\<lambda>_. True)"
  using pixel_index [of x y]
  by (simp add: frame_pixel_brightness_def frame_pixel_def frame_wf_def split_beta)

lemma pixel_lit_ok:
  assumes "frame_wf (pp_frame p)" and "0 \<le> y" "y < 240"
  shows "returns (pixel_lit p y x) (\<lambda>_. True)"
proof -
  have "unat (word_of_int z :: u32) = nat z" if "0 \<le> z" "z < 256" for z
    using that by (simp add: unat_eq_nat_uint uint_word_of_int)
  then have "returns (frame_pixel_brightness (pp_frame p) (word_of_int x) (word_of_int y)) (\<lambda>_. True)"
    if "0 \<le> x" "x < 256"
    using that assms frame_pixel_ok [of "pp_frame p" "word_of_int x" "word_of_int y"] by simp
  then show ?thesis by (auto simp: pixel_lit_def Let_def PPU_WIDTH_def)
qed

lemma any_lit_ok:
  "frame_wf (pp_frame p) \<Longrightarrow> (\<And>y x. (y, x) \<in> set ps \<Longrightarrow> 0 \<le> y \<and> y < 240) \<Longrightarrow> returns (any_lit p ps) (\<lambda>_. True)"
proof (induction ps)
  case (Cons yx ps)
  obtain y x where yx: "yx = (y, x)" by force
  obtain l where "pixel_lit p y x = Some l"
    using returnsD [OF pixel_lit_ok [of p y x]] Cons.prems yx by auto
  moreover have "returns (any_lit p ps) (\<lambda>_. True)"
    using Cons.IH Cons.prems by (meson list.set_intros(2))
  ultimately show ?case by (simp add: yx)
qed simp

lemma zapper_port_ok: "frame_wf (pp_frame p) \<Longrightarrow> returns (zapper_port i s p) (\<lambda>_. True)"
  by (auto simp: zapper_port_def zapper_read_def light_sense_def PPU_HEIGHT_def intro!: any_lit_ok)

lemma slot_index_two: "s = One \<or> s = Two \<Longrightarrow> slot_index s < 2"
  by auto

lemma input_read_ok:
  assumes "input_wf i" and "frame_wf (pp_frame p)" and "s = One \<or> s = Two"
  shows "returns (input_read i s p) (\<lambda>(v, i'). input_wf i')"
proof -
  obtain z where z: "zapper_port i s p = Some z"
    using returnsD [OF zapper_port_ok [OF assms(2)]] by blast
  have k: "slot_index s < 2" by (rule slot_index_two [OF assms(3)])
  obtain v j where r: "read_pad i (slot_index s) = Some (v, j)" "input_wf j"
    using returnsD [OF read_pad_ok [OF assms(1), of "slot_index s"]] k by auto
  have "returns (read_pad j (slot_index s + 2)) (\<lambda>x. input_wf (snd x))"
    using read_pad_ok [OF r(2), unfolded split_beta] k by simp
  then show ?thesis
    using z r read_four_score_ok [OF assms(1) k, unfolded split_beta]
    by (cases "in_four_player i") (simp_all add: input_read_def Let_def split_beta)
qed

text \<open>A peek shows what the read would give.\<close>

lemma read_pad_val: "read_pad i k = Some (v, i') \<Longrightarrow> map_option joypad_peek (vec_get (in_joypads i) k) = Some v"
  by (auto simp: read_pad_def bind_Some_iff joypad_read_def split_beta)

lemma read_pad_other: "read_pad i k = Some (v, i') \<Longrightarrow> k \<noteq> m \<Longrightarrow> vec_get (in_joypads i') m = vec_get (in_joypads i) m"
  by (auto simp: read_pad_def bind_Some_iff joypad_read_def split_beta vec_get_def)

lemma peek_four_score_read:
  "peek_four_score i k = map_option fst (read_four_score i k)"
  by (cases "vec_get (in_joypads i) k"; cases "vec_get (in_joypads i) (k + 2)";
      cases "vec_get (in_signatures i) k")
    (simp_all add: peek_four_score_def read_four_score_def read_pad_def read_signature_def
      joypad_read_def Let_def vec_get_out)

lemma input_peek_read: "input_peek i s p = map_option fst (input_read i s p)"
proof -
  have 1: "map_option joypad_peek (vec_get (in_joypads i) k) = map_option fst (read_pad i k)" for k
    by (cases "vec_get (in_joypads i) k") (simp_all add: read_pad_def joypad_read_def Let_def vec_get_out)
  show ?thesis
  proof (cases "zapper_port i s p")
    case (Some z)
    let ?k = "slot_index s"
    have o: "vec_get ((in_joypads i)[?k := j]) (Suc (Suc ?k)) = vec_get (in_joypads i) (Suc (Suc ?k))" for j
      by (simp add: vec_get_def)
    show ?thesis
      using Some
      by (cases "in_four_player i"; cases "vec_get (in_joypads i) ?k";
          cases "vec_get (in_joypads i) (Suc (Suc ?k))")
        (simp_all add: input_peek_def input_read_def Let_def 1 [of ?k] peek_four_score_read read_pad_def
          joypad_read_def split_beta vec_get_out o option.map_comp comp_def bind_map_option map_option_case
          split: option.splits)
  qed (simp add: input_peek_def input_read_def)
qed

end
