(* ===== verification/InputProps.thy ===== *)
theory InputProps
  imports Input
begin

text \<open>
  What a program reads from a controller port after it has strobed it: the buttons as a queue of
  bits, refined by the shift registers of the joypads.
\<close>

section \<open>A port as a queue of bits\<close>

text \<open>The bits a joypad has still to shift out.\<close>

definition pad_bits :: "joypad \<Rightarrow> bool list" where
  "pad_bits j = map (bit (jp_buttons j)) [unat (jp_index j) ..< 8]"

definition pad_ready :: "joypad \<Rightarrow> bool" where
  "pad_ready j \<longleftrightarrow> \<not> jp_strobe j \<and> unat (jp_index j) \<le> 8"

text \<open>The bits of a port: its joypad, and with the Four Score the second joypad and the signature.\<close>

definition port_bits :: "input \<Rightarrow> nat \<Rightarrow> bool list" where
  "port_bits i k =
     pad_bits (in_joypads i ! k)
     @ (if in_four_player i = FourScore
        then pad_bits (in_joypads i ! (k + 2)) @ pad_bits (in_signatures i ! k) else [])"

definition serial_ready :: "input \<Rightarrow> nat \<Rightarrow> bool" where
  "serial_ready i k \<longleftrightarrow> input_wf i \<and> k < 2 \<and> pad_ready (in_joypads i ! k)
     \<and> pad_ready (in_joypads i ! (k + 2)) \<and> pad_ready (in_signatures i ! k)"

definition next_bit :: "bool list \<Rightarrow> u8" where
  "next_bit bs = (case bs of [] \<Rightarrow> 1 | b # _ \<Rightarrow> of_bool b)"

lemma joypad_peek_bit: "jp_index j < 8 \<Longrightarrow> joypad_peek j = of_bool (bit (jp_buttons j) (unat (jp_index j)))"
proof -
  assume "jp_index j < 8"
  then have k: "unat (jp_index j) < 8" by (simp add: word_less_nat_alt)
  then show ?thesis
    using \<open>jp_index j < 8\<close>
    by (intro bit_word_eqI) (auto simp: joypad_peek_def bit_simps)
qed

lemma joypad_peek_next: "pad_ready j \<Longrightarrow> joypad_peek j = next_bit (pad_bits j)"
  by (cases "unat (jp_index j) < 8")
    (simp_all add: joypad_peek_bit pad_bits_def next_bit_def word_less_nat_alt upt_conv_Cons, simp add: joypad_peek_def word_less_nat_alt)

lemma joypad_read_bits:
  assumes "pad_ready j"
  shows "fst (joypad_read j) = next_bit (pad_bits j)" "pad_bits (snd (joypad_read j)) = tl (pad_bits j)"
    "pad_ready (snd (joypad_read j))"
proof -
  show "fst (joypad_read j) = next_bit (pad_bits j)"
    using assms by (simp add: joypad_read_def Let_def joypad_peek_next)
  have "unat (jp_index j + 1) = unat (jp_index j) + 1" if "unat (jp_index j) < 8"
    using that by (simp add: unat_word_ariths)
  then show "pad_bits (snd (joypad_read j)) = tl (pad_bits j)" "pad_ready (snd (joypad_read j))"
    using assms by (auto simp: joypad_read_def Let_def pad_bits_def pad_ready_def word_less_nat_alt upt_conv_Cons)
qed

lemma pad_bits_Nil: "pad_ready j \<Longrightarrow> pad_bits j = [] \<longleftrightarrow> \<not> jp_index j < 8"
  by (auto simp: pad_bits_def word_less_nat_alt)

lemma next_bit_append: "next_bit (xs @ ys) = (if xs = [] then next_bit ys else next_bit xs)"
  by (simp add: next_bit_def split: list.split)

text \<open>One read of the port takes the first bit off the queue.\<close>

definition takes_bit :: "nat \<Rightarrow> input \<Rightarrow> (u8 \<times> input) option \<Rightarrow> bool" where
  "takes_bit k i m \<longleftrightarrow> returns m (\<lambda>(v, i'). v = next_bit (port_bits i k)
     \<and> port_bits i' k = tl (port_bits i k) \<and> serial_ready i' k
     \<and> in_four_player i' = in_four_player i \<and> in_zapper i' = in_zapper i)"

lemma read_pad_takes:
  assumes "serial_ready i k" and "in_four_player i = FourScore \<Longrightarrow> pad_bits (in_joypads i ! k) \<noteq> []"
  shows "takes_bit k i (read_pad i k)"
proof -
  let ?j = "in_joypads i ! k"
  have j: "pad_ready ?j" and k: "k < length (in_joypads i)"
    using assms(1) by (auto simp: serial_ready_def input_wf_def)
  show ?thesis
    using assms k joypad_read_bits [OF j]
    by (cases "in_four_player i = FourScore")
      (simp_all add: takes_bit_def read_pad_def split_beta port_bits_def serial_ready_def next_bit_append)
qed

lemma read_four_score_takes:
  assumes r: "serial_ready i k" and fs: "in_four_player i = FourScore"
  shows "takes_bit k i (read_four_score i k)"
proof -
  let ?j = "in_joypads i ! k" and ?l = "in_joypads i ! (k + 2)" and ?s = "in_signatures i ! k"
  have jl: "pad_ready ?j" "pad_ready ?l" "pad_ready ?s"
    and k: "k < length (in_joypads i)" "k + 2 < length (in_joypads i)" "k < length (in_signatures i)"
    using r by (auto simp: serial_ready_def input_wf_def)
  note nil = pad_bits_Nil [OF jl(1)] pad_bits_Nil [OF jl(2)] pad_bits_Nil [OF jl(3)]
  consider "jp_index ?j < 8" | "\<not> jp_index ?j < 8" "jp_index ?l < 8"
    | "\<not> jp_index ?j < 8" "\<not> jp_index ?l < 8" "jp_index ?s < 8"
    | "\<not> jp_index ?j < 8" "\<not> jp_index ?l < 8" "\<not> jp_index ?s < 8" by blast
  then show ?thesis
  proof cases
    case 1
    then have "pad_bits ?j \<noteq> []" using nil(1) by blast
    from read_pad_takes [OF r this] show ?thesis using 1 k by (simp add: read_four_score_def)
  next
    case 2
    then have "pad_bits ?j = []" "pad_bits ?l \<noteq> []" using nil(1,2) by blast+
    then show ?thesis
      using 2 k r fs joypad_read_bits [OF jl(2)]
      by (simp add: takes_bit_def read_four_score_def read_pad_def split_beta port_bits_def serial_ready_def next_bit_append)
  next
    case 3
    then have "pad_bits ?j = []" "pad_bits ?l = []" "pad_bits ?s \<noteq> []" using nil by blast+
    then show ?thesis
      using 3 k r fs joypad_read_bits [OF jl(3)]
      by (simp add: takes_bit_def read_four_score_def read_signature_def split_beta port_bits_def serial_ready_def
          input_wf_def)
  next
    case 4
    then have "pad_bits ?j = []" "pad_bits ?l = []" "pad_bits ?s = []" using nil by blast+
    then show ?thesis
      using 4 k r fs by (simp add: takes_bit_def read_four_score_def port_bits_def next_bit_def)
  qed
qed

text \<open>A sequence of reads of one port.\<close>

fun input_reads :: "nat \<Rightarrow> input \<Rightarrow> slot \<Rightarrow> ppu \<Rightarrow> (u8 list \<times> input) option" where
  "input_reads 0 i s p = Some ([], i)"
| "input_reads (Suc n) i s p =
     do { (v, i) \<leftarrow> input_read i s p; (vs, i) \<leftarrow> input_reads n i s p; Some (v # vs, i) }"

definition port_value :: "bool list \<Rightarrow> nat \<Rightarrow> u8" where
  "port_value bs k = 0x40 OR (if k < length bs then of_bool (bs ! k) else 1)"

lemma input_read_takes:
  assumes "serial_ready i (slot_index s)" and "in_four_player i \<noteq> Satellite" and "\<not> zp_connected (in_zapper i)"
  shows "returns (input_read i s p) (\<lambda>(v, i'). v = 0x40 OR next_bit (port_bits i (slot_index s))
     \<and> port_bits i' (slot_index s) = tl (port_bits i (slot_index s)) \<and> serial_ready i' (slot_index s)
     \<and> in_four_player i' = in_four_player i \<and> in_zapper i' = in_zapper i)"
proof -
  have z: "zapper_port i s p = Some 0" using assms(3) by (simp add: zapper_port_def zapper_read_def)
  show ?thesis
  proof (cases "in_four_player i")
    case Disabled
    then show ?thesis
      using read_pad_takes [OF assms(1), unfolded takes_bit_def split_beta] z
      by (auto simp: input_read_def Let_def split_beta or.commute elim: returns_mono)
  next
    case FourScore
    then show ?thesis
      using read_four_score_takes [OF assms(1), unfolded takes_bit_def split_beta] z
      by (auto simp: input_read_def Let_def split_beta or.commute elim: returns_mono)
  qed (use assms(2) in simp)
qed

lemma input_reads_bits:
  assumes "serial_ready i (slot_index s)" and "in_four_player i \<noteq> Satellite" and "\<not> zp_connected (in_zapper i)"
  shows "returns (input_reads n i s p) (\<lambda>(vs, i'). vs = map (port_value (port_bits i (slot_index s))) [0 ..< n])"
  using assms
proof (induction n arbitrary: i)
  case (Suc n)
  let ?b = "port_bits i (slot_index s)"
  obtain v j where r: "input_read i s p = Some (v, j)" and v: "v = 0x40 OR next_bit ?b"
    and b: "port_bits j (slot_index s) = tl ?b" and j: "serial_ready j (slot_index s)"
    "in_four_player j = in_four_player i" "in_zapper j = in_zapper i"
    using returnsD [OF input_read_takes [OF Suc.prems, of p]] by auto
  have "port_value ?b 0 = v" by (cases ?b) (simp_all add: v port_value_def next_bit_def)
  moreover have "port_value (tl ?b) = (\<lambda>k. port_value ?b (Suc k))"
    by (cases ?b) (simp_all add: port_value_def fun_eq_iff)
  moreover have "[0 ..< Suc n] = 0 # map Suc [0 ..< n]" by (simp add: map_Suc_upt upt_conv_Cons)
  ultimately have "map (port_value ?b) [0 ..< Suc n] = v # map (port_value (tl ?b)) [0 ..< n]"
    by (simp only: list.map map_map comp_def)
  then show ?case
    using Suc.IH [OF j(1)] Suc.prems(2,3) j r b by (simp add: split_beta)
qed simp

text \<open>Strobing: the falling edge of bit 0 loads the shift registers.\<close>

lemma joypad_strobe:
  assumes "bit v 0" and "\<not> bit w 0"
  shows "joypad_write (joypad_write j v) w = j\<lparr>jp_index := 0, jp_strobe := False\<rparr>"
proof -
  have "v AND 1 = 1" "w AND 1 = 0" using assms by (simp_all add: and_one_eq odd_iff_mod_2_eq_one bit_0 even_iff_mod_2_eq_zero)
  then show ?thesis by (simp add: joypad_write_def Let_def)
qed

definition pad_buttons :: "joypad \<Rightarrow> bool list" where
  "pad_buttons j = map (bit (jp_buttons j)) [0 ..< 8]"

definition port_buttons :: "input \<Rightarrow> nat \<Rightarrow> bool list" where
  "port_buttons i k =
     pad_buttons (in_joypads i ! k)
     @ (if in_four_player i = FourScore
        then pad_buttons (in_joypads i ! (k + 2)) @ pad_buttons (in_signatures i ! k) else [])"

lemma strobed_port:
  assumes "input_wf i" and "bit v 0" and "\<not> bit w 0" and "k < 2"
  shows "serial_ready (input_write (input_write i v) w) k"
    "port_bits (input_write (input_write i v) w) k = port_buttons i k"
  using assms joypad_strobe [OF assms(2,3)]
  by (simp_all add: serial_ready_def port_bits_def port_buttons_def input_write_def pad_ready_def pad_bits_def
      pad_buttons_def input_wf_def)

section \<open>Properties\<close>



text \<open>choosing the Four Score resets the input devices, and with them its signatures: the
  last eight of the 24 bits of a port are zero, where a Four Score shows a one in bit 3 on the
  first port and in bit 2 on the second.\<close>

theorem four_score_signature_lost:
  assumes "input_wf i" and "s = One \<or> s = Two" and "\<not> zp_connected (in_zapper i)"
  shows "returns (input_reads 24 (input_write (input_write (set_four_player i FourScore) 1) 0) s p)
    (\<lambda>(vs, i'). vs = replicate 24 0x40)
    \<and> port_buttons (input_new\<lparr>in_four_player := FourScore\<rparr>) (slot_index s)
        = replicate 16 False @ (if s = One then [False, False, False, True, False, False, False, False]
                                else [False, False, True, False, False, False, False, False])"
proof
  have "port_buttons (set_four_player i FourScore) (slot_index s) = replicate 24 False"
    using assms(1) slot_index_two [OF assms(2)]
    by (simp add: port_buttons_def pad_buttons_def set_four_player_def input_reset_def joypad_reset_def
        input_wf_def upt_conv_Cons numeral_eq_Suc)
  moreover have "map (port_value (replicate 24 False)) [0 ..< 24] = replicate 24 0x40"
    by (rule nth_equalityI) (simp_all add: port_value_def)
  moreover have "input_wf (set_four_player i FourScore)" "in_four_player (set_four_player i FourScore) \<noteq> Satellite"
    "\<not> zp_connected (in_zapper (set_four_player i FourScore))"
    using assms(1,3) by (simp_all add: set_four_player_def input_reset_def zapper_reset_def input_wf_def)
  moreover note strobed_port [of "set_four_player i FourScore" 1 0 "slot_index s"]
  ultimately show "returns (input_reads 24 (input_write (input_write (set_four_player i FourScore) 1) 0) s p)
    (\<lambda>(vs, i'). vs = replicate 24 0x40)"
    using input_reads_bits [of "input_write (input_write (set_four_player i FourScore) 1) 0" s 24 p]
      slot_index_two [OF assms(2)]
    by (simp add: input_write_def bit_1_iff)
  show "port_buttons (input_new\<lparr>in_four_player := FourScore\<rparr>) (slot_index s)
        = replicate 16 False @ (if s = One then [False, False, False, True, False, False, False, False]
                                else [False, False, True, False, False, False, False, False])"
    using assms(2)
    by (auto simp: port_buttons_def pad_buttons_def input_new_def joypad_new_def joypad_signature_def
        btn_from_bits_truncate_def upt_conv_Cons numeral_eq_Suc)
qed

lemma four_score_signature_lost_witness:
  "returns (input_reads 24 (input_write (input_write (set_four_player input_new FourScore) 1) 0) One ppu_new)
    (\<lambda>(vs, i'). vs = replicate 24 0x40)"
  using four_score_signature_lost [of input_new One ppu_new] by (simp add: input_new_def zapper_new_def input_wf_def)

end
