(* ===== verification/CpuBus.thy ===== *)
theory CpuBus
  imports Input PpuRender Apu Genie
begin

text \<open>
  \<open>src/bus.rs\<close>: the CPU's view of the machine. An access is decoded to work RAM, a register of
  the PPU, the APU or the controller ports, or the cartridge, through the mapper and the Game
  Genie. The functions are undefined (\<open>None\<close>) where the source panics.

  An audio sample is kept as the \<open>f32\<close> expression the source evaluates, over silence (\<open>0.0\<close>) and
  the entries of the two tables of the mixer by index, and for the boards with sound the products.
  Random RAM contents are the parameter \<open>rng\<close>.
\<close>

section \<open>State\<close>

datatype sample = Silence | PulseEntry nat | TndEntry nat | Plus sample sample | Over sample rat | Times sample rat

definition PULSE_TABLE :: "sample list" where "PULSE_TABLE = map PulseEntry [0 ..< 31]"
definition TND_TABLE :: "sample list" where "TND_TABLE = map TndEntry [0 ..< 203]"

record cpu_bus =
  cb_wram :: "u8 list"
  cb_region :: nes_region
  cb_ram_state :: ram_state
  cb_battery_backed :: bool
  cb_prg_ram :: "u8 list"
  cb_prg_ram_protect :: bool
  cb_prg_rom :: "u8 list"
  cb_ppu :: ppu
  cb_apu :: apu
  cb_input :: input
  cb_oam_dma :: bool
  cb_oam_dma_addr :: u16
  cb_audio_samples :: "sample list"
  cb_genie_codes :: "u16 \<rightharpoonup> genie_code"
  cb_cycle :: usize
  cb_open_bus :: u8

definition WRAM_SIZE :: nat where "WRAM_SIZE = 0x0800"

definition cpu_bus_new :: "(nat \<Rightarrow> u8) \<Rightarrow> ram_state \<Rightarrow> cpu_bus" where
  "cpu_bus_new rng ram_state =
     \<lparr>cb_wram = ram_fill rng (replicate WRAM_SIZE 0x00) ram_state, cb_region = Ntsc,
      cb_ram_state = ram_state, cb_battery_backed = False, cb_prg_ram = [],
      cb_prg_ram_protect = False, cb_prg_rom = [], cb_ppu = ppu_new, cb_apu = apu_new,
      cb_input = input_new, cb_oam_dma = False, cb_oam_dma_addr = 0x0000, cb_audio_samples = [],
      cb_genie_codes = Map.empty, cb_cycle = 0, cb_open_bus = 0x00\<rparr>"

definition cb_mapper :: "cpu_bus \<Rightarrow> mapper" where
  "cb_mapper b = pb_mapper (pp_bus (cb_ppu b))"

definition cb_set_mapper :: "cpu_bus \<Rightarrow> mapper \<Rightarrow> cpu_bus" where
  "cb_set_mapper b m = b\<lparr>cb_ppu := (cb_ppu b)\<lparr>pp_bus := (pp_bus (cb_ppu b))\<lparr>pb_mapper := m\<rparr>\<rparr>\<rparr>"

section \<open>Cartridge, saves and codes\<close>

definition cb_set_region :: "cpu_bus \<Rightarrow> nes_region \<Rightarrow> cpu_bus" where
  "cb_set_region b region =
     b\<lparr>cb_region := region, cb_ppu := ppu_set_region (cb_ppu b) region,
       cb_apu := apu_set_region (cb_apu b) region\<rparr>"

text \<open>Twenty milliseconds of samples; \<open>5368709 / 2 ^ 28\<close> is the \<open>f32\<close> nearest to 0.02. The
  products lie between 2 to the 15 and 2 to the 16: eight fractional bits.\<close>

definition audio_capacity :: "nes_region \<Rightarrow> nat" where
  "audio_capacity region = f32_as_usize (f32_nearest 8 (region_clock_rate region * (5368709 / 2 ^ 28)))"

definition samples_resize :: "sample list \<Rightarrow> nat \<Rightarrow> sample list" where
  "samples_resize xs n = take n xs @ replicate (n - length xs) Silence"

text \<open>A loaded cartridge is the pair of its board and its memories.\<close>

definition cb_load_cart :: "cpu_bus \<Rightarrow> mapper \<Rightarrow> cart \<Rightarrow> cpu_bus" where
  "cb_load_cart b m c =
     (let b = b\<lparr>cb_audio_samples := samples_resize (cb_audio_samples b) (audio_capacity (cart_region c)),
                cb_battery_backed := cart_battery_backed c\<rparr>;
          b = cb_set_region b (cart_region c);
          b = b\<lparr>cb_prg_rom := cart_prg_rom c, cb_prg_ram := cart_prg_ram c\<rparr>;
          p = cb_ppu b;
          p = p\<lparr>pp_bus := pb_load_chr_rom (pp_bus p) (cart_chr_rom c)\<rparr>;
          p = p\<lparr>pp_bus := pb_load_chr_ram (pp_bus p) (cart_chr_ram c)\<rparr>;
          p = p\<lparr>pp_bus := pb_load_ex_ram (pp_bus p) (cart_ex_ram c)\<rparr>
      in b\<lparr>cb_ppu := ppu_load_mapper p m\<rparr>)"

definition cb_load_sram :: "cpu_bus \<Rightarrow> u8 list \<Rightarrow> cpu_bus" where
  "cb_load_sram b sram = (if cb_battery_backed b then b\<lparr>cb_prg_ram := sram\<rparr> else b)"

definition cb_add_genie_code :: "cpu_bus \<Rightarrow> string \<Rightarrow> genie_error + cpu_bus" where
  "cb_add_genie_code b code =
     (case genie_new code of
        Inl e \<Rightarrow> Inl e
      | Inr g \<Rightarrow> Inr (b\<lparr>cb_genie_codes := (cb_genie_codes b)(gc_addr g \<mapsto> g)\<rparr>))"

definition cb_remove_genie_code :: "cpu_bus \<Rightarrow> string \<Rightarrow> cpu_bus" where
  "cb_remove_genie_code b code =
     b\<lparr>cb_genie_codes := (\<lambda>a. case cb_genie_codes b a of
          None \<Rightarrow> None
        | Some gc \<Rightarrow> if gc_code gc \<noteq> code then Some gc else None)\<rparr>"

definition cb_genie_read :: "cpu_bus \<Rightarrow> u16 \<Rightarrow> u8 \<Rightarrow> u8" where
  "cb_genie_read b addr val =
     (case cb_genie_codes b addr of None \<Rightarrow> val | Some gc \<Rightarrow> genie_read gc val)"

section \<open>Lines between the chips\<close>

definition cb_nmi_pending :: "cpu_bus \<Rightarrow> bool" where
  "cb_nmi_pending b = pp_nmi_pending (cb_ppu b)"

definition cb_irqs_pending :: "cpu_bus \<Rightarrow> u8" where
  "cb_irqs_pending b =
     (let irq = flag_set 0 IRQ_MAPPER (mapper_irq_pending (cb_mapper b))
      in irq OR apu_irqs_pending (cb_apu b))"

definition cb_dmc_dma :: "cpu_bus \<Rightarrow> bool \<times> cpu_bus" where
  "cb_dmc_dma b = (let (dma, a) = apu_dmc_dma (cb_apu b) in (dma, b\<lparr>cb_apu := a\<rparr>))"

definition cb_dmc_dma_addr :: "cpu_bus \<Rightarrow> u16" where
  "cb_dmc_dma_addr b = apu_dmc_dma_addr (cb_apu b)"

definition cb_load_dmc_buffer :: "cpu_bus \<Rightarrow> u8 \<Rightarrow> cpu_bus" where
  "cb_load_dmc_buffer b val = b\<lparr>cb_apu := apu_load_dmc_buffer (cb_apu b) val\<rparr>"

definition cb_oam_dma_finish :: "cpu_bus \<Rightarrow> cpu_bus" where
  "cb_oam_dma_finish b = b\<lparr>cb_oam_dma := False\<rparr>"

definition cb_set_four_player :: "cpu_bus \<Rightarrow> four_player \<Rightarrow> cpu_bus" where
  "cb_set_four_player b fp = b\<lparr>cb_input := set_four_player (cb_input b) fp\<rparr>"

section \<open>Clock\<close>

text \<open>The sum of the channels of a board is a small integer, exact as an \<open>f32\<close>; the scale is
  \<open>PULSE_TABLE[PULSE_TABLE.len() - 1] / 15.0\<close>.\<close>

definition pulse_scale :: sample where
  "pulse_scale = Over (PULSE_TABLE ! (length PULSE_TABLE - 1)) 15"

definition vrc6_output :: "vrc6 \<Rightarrow> sample" where
  "vrc6_output m = Times pulse_scale (va_out (v6_audio m))"

definition exrom_output :: "exrom \<Rightarrow> sample" where
  "exrom_output m =
     Times pulse_scale (- (pl_output (ex_pulse1 m) + pl_output (ex_pulse2 m) + dmc_output_sample (ex_dmc m)))"

fun mapper_output :: "mapper \<Rightarrow> sample" where
  "mapper_output (MExrom m) = exrom_output m"
| "mapper_output (MVrc6 m) = vrc6_output m"
| "mapper_output m = Silence"

definition cb_mix_audio :: "cpu_bus \<Rightarrow> sample \<Rightarrow> sample \<Rightarrow> cpu_bus" where
  "cb_mix_audio b sample1 sample2 =
     b\<lparr>cb_audio_samples := cb_audio_samples b @ [Plus sample1 sample2]\<rparr>"

definition cb_clock :: "cpu_bus \<Rightarrow> cpu_bus option" where
  "cb_clock b =
     (let b = b\<lparr>cb_cycle := cb_cycle b + 1\<rparr>;
          b = b\<lparr>cb_apu := apu_clock (cb_apu b)\<rparr>;
          b = cb_set_mapper b (mapper_clock (cb_mapper b));
          b = b\<lparr>cb_input := input_clock (cb_input b)\<rparr>
      in do { apu_output \<leftarrow> apu_output Plus PULSE_TABLE TND_TABLE (cb_apu b);
              Some (cb_mix_audio b apu_output (mapper_output (cb_mapper b))) })"

definition cb_clock_to :: "cpu_bus \<Rightarrow> u64 \<Rightarrow> cpu_bus option" where
  "cb_clock_to b clock = do { p \<leftarrow> ppu_clock_to (cb_ppu b) clock; Some (b\<lparr>cb_ppu := p\<rparr>) }"

section \<open>Reading\<close>

definition cb_mapped_read :: "cpu_bus \<Rightarrow> mapped_read \<Rightarrow> u8 option" where
  "cb_mapped_read b r =
     (case r of
        DataR val \<Rightarrow> Some val
      | PrgRamR addr \<Rightarrow> vec_get (cb_prg_ram b) addr
      | PrgRomR addr \<Rightarrow> vec_get (cb_prg_rom b) addr
      | _ \<Rightarrow> Some (cb_open_bus b))"

definition write_only_reg :: "u16 \<Rightarrow> bool" where
  "write_only_reg addr \<longleftrightarrow> addr = 0x2000 \<or> addr = 0x2001 \<or> addr = 0x2003 \<or> addr = 0x2005 \<or> addr = 0x2006"

text \<open>The end of \<open>read\<close> and of \<open>write\<close>: the data bus keeps the value and the mapper sees it.\<close>

definition cb_read_done :: "u16 \<Rightarrow> u8 \<times> cpu_bus \<Rightarrow> u8 \<times> cpu_bus" where
  "cb_read_done addr vb =
     (let (val, b) = vb; b = b\<lparr>cb_open_bus := val\<rparr>
      in (val, cb_set_mapper b (mapper_cpu_bus_read (cb_mapper b) addr)))"

definition cb_read_mapped :: "cpu_bus \<Rightarrow> u16 \<Rightarrow> (u8 \<times> cpu_bus) option" where
  "cb_read_mapped b addr =
     do { (r, m) \<leftarrow> mapper_map_read (cb_mapper b) addr;
          let b = cb_set_mapper b m;
          val \<leftarrow> cb_mapped_read b r;
          Some (cb_genie_read b addr val, b) }"

definition cb_read_ppu :: "cpu_bus \<Rightarrow> (u8 \<times> ppu) option \<Rightarrow> (u8 \<times> cpu_bus) option" where
  "cb_read_ppu b r = map_option (\<lambda>(val, p). (val, b\<lparr>cb_ppu := p\<rparr>)) r"

definition cb_read_input :: "cpu_bus \<Rightarrow> slot \<Rightarrow> (u8 \<times> cpu_bus) option" where
  "cb_read_input b s =
     map_option (\<lambda>(val, i). (val, b\<lparr>cb_input := i\<rparr>)) (input_read (cb_input b) s (cb_ppu b))"

definition cb_read_apu :: "cpu_bus \<Rightarrow> u8 \<times> cpu_bus" where
  "cb_read_apu b = (let (val, a) = apu_read_status (cb_apu b) in (val, b\<lparr>cb_apu := a\<rparr>))"

lemma wram_mirror_less: "0x07FF < addr \<Longrightarrow> unat (addr AND 0x07FF :: u16) < unat addr"
  using unat_and_le [of addr "0x07FF"] by (simp add: word_less_nat_alt)

lemma ppu_mirror_less: "0x2007 < addr \<Longrightarrow> unat (addr AND 0x2007 :: u16) < unat addr"
  using unat_and_le [of addr "0x2007"] by (simp add: word_less_nat_alt)

function cb_read :: "cpu_bus \<Rightarrow> u16 \<Rightarrow> access \<Rightarrow> (u8 \<times> cpu_bus) option" where
  "cb_read b addr access =
     map_option (cb_read_done addr)
       (if addr \<le> 0x07FF then map_option (\<lambda>val. (val, b)) (vec_get (cb_wram b) (unat addr))
        else if 0x4020 \<le> addr then cb_read_mapped b addr
        else if addr = 0x2002 then cb_read_ppu b (Some (read_status (cb_ppu b)))
        else if addr = 0x2004 then cb_read_ppu b (read_oamdata (cb_ppu b))
        else if addr = 0x2007 then cb_read_ppu b (read_data (cb_ppu b))
        else if addr = 0x4015 then Some (cb_read_apu b)
        else if addr = 0x4016 then cb_read_input b One
        else if addr = 0x4017 then cb_read_input b Two
        else if write_only_reg addr then Some (pp_open_bus (cb_ppu b), b)
        else if 0x0800 \<le> addr \<and> addr \<le> 0x1FFF then cb_read b (addr AND 0x07FF) access
        else if 0x2008 \<le> addr \<and> addr \<le> 0x3FFF then cb_read b (addr AND 0x2007) access
        else Some (cb_open_bus b, b))"
  by auto
termination
  by (relation "measure (\<lambda>(b, addr, access). unat addr)")
    (auto simp: not_le intro!: wram_mirror_less ppu_mirror_less elim: less_le_trans [rotated])

function cb_peek :: "cpu_bus \<Rightarrow> u16 \<Rightarrow> access \<Rightarrow> u8 option" where
  "cb_peek b addr access =
     (if addr \<le> 0x07FF then vec_get (cb_wram b) (unat addr)
      else if 0x4020 \<le> addr then
        do { r \<leftarrow> mapper_map_peek (cb_mapper b) addr;
             val \<leftarrow> cb_mapped_read b r;
             Some (cb_genie_read b addr val) }
      else if addr = 0x2002 then Some (peek_status (cb_ppu b))
      else if addr = 0x2004 then peek_oamdata (cb_ppu b)
      else if addr = 0x2007 then peek_data (cb_ppu b)
      else if addr = 0x4015 then Some (apu_peek_status (cb_apu b))
      else if addr = 0x4016 then input_peek (cb_input b) One (cb_ppu b)
      else if addr = 0x4017 then input_peek (cb_input b) Two (cb_ppu b)
      else if write_only_reg addr then Some (pp_open_bus (cb_ppu b))
      else if 0x0800 \<le> addr \<and> addr \<le> 0x1FFF then cb_peek b (addr AND 0x07FF) access
      else if 0x2008 \<le> addr \<and> addr \<le> 0x3FFF then cb_peek b (addr AND 0x2007) access
      else Some (cb_open_bus b))"
  by auto
termination
  by (relation "measure (\<lambda>(b, addr, access). unat addr)")
    (auto simp: not_le intro!: wram_mirror_less ppu_mirror_less elim: less_le_trans [rotated])

declare cb_read.simps [simp del] cb_peek.simps [simp del]

section \<open>Writing\<close>

definition cb_write_done :: "u16 \<Rightarrow> u8 \<Rightarrow> cpu_bus \<Rightarrow> cpu_bus" where
  "cb_write_done addr val b =
     (let b = b\<lparr>cb_open_bus := val\<rparr>
      in cb_set_mapper b (mapper_cpu_bus_write (cb_mapper b) addr val))"

definition cb_write_mapped :: "cpu_bus \<Rightarrow> u16 \<Rightarrow> u8 \<Rightarrow> cpu_bus option" where
  "cb_write_mapped b addr val =
     (let prg_ram_enabled = (cb_prg_ram b \<noteq> [] \<and> \<not> cb_prg_ram_protect b)
      in do { (w, m) \<leftarrow> mapper_map_write (cb_mapper b) addr val;
              let b = cb_set_mapper b m;
              b \<leftarrow> (case w of
                      PrgRamW addr val \<Rightarrow>
                        if prg_ram_enabled
                        then do { ram \<leftarrow> vec_set (cb_prg_ram b) addr val; Some (b\<lparr>cb_prg_ram := ram\<rparr>) }
                        else Some b
                    | PrgRamProtect protect \<Rightarrow> Some (b\<lparr>cb_prg_ram_protect := protect\<rparr>)
                    | _ \<Rightarrow> Some b);
              Some (b\<lparr>cb_ppu := ppu_update_mirroring (cb_ppu b)\<rparr>) })"

definition cb_with_ppu :: "cpu_bus \<Rightarrow> ppu option \<Rightarrow> cpu_bus option" where
  "cb_with_ppu b p = map_option (\<lambda>p. b\<lparr>cb_ppu := p\<rparr>) p"

definition cb_with_apu :: "cpu_bus \<Rightarrow> apu option \<Rightarrow> cpu_bus option" where
  "cb_with_apu b a = map_option (\<lambda>a. b\<lparr>cb_apu := a\<rparr>) a"

text \<open>The arms of the registers: those of the PPU, those of the APU channels, the others.\<close>

definition cb_write_ppu :: "cpu_bus \<Rightarrow> u16 \<Rightarrow> u8 \<Rightarrow> cpu_bus option option" where
  "cb_write_ppu b addr val =
     (let p = cb_ppu b in
      if addr = 0x2000 then Some (cb_with_ppu b (Some (write_ctrl p val)))
      else if addr = 0x2001 then Some (cb_with_ppu b (Some (write_mask p val)))
      else if addr = 0x2003 then Some (cb_with_ppu b (Some (write_oamaddr p val)))
      else if addr = 0x2004 then Some (cb_with_ppu b (write_oamdata p val))
      else if addr = 0x2005 then Some (cb_with_ppu b (Some (write_scroll p val)))
      else if addr = 0x2006 then Some (cb_with_ppu b (Some (write_addr p val)))
      else if addr = 0x2007 then Some (cb_with_ppu b (write_data p val))
      else if addr = 0x2002 then Some (cb_with_ppu b (Some (p\<lparr>pp_open_bus := val\<rparr>)))
      else None)"

definition cb_write_channel :: "cpu_bus \<Rightarrow> u16 \<Rightarrow> u8 \<Rightarrow> cpu_bus option option" where
  "cb_write_channel b addr val =
     (let a = cb_apu b in
      if addr = 0x4000 then Some (cb_with_apu b (apu_write_ctrl a Pulse1 val))
      else if addr = 0x4001 then Some (cb_with_apu b (apu_write_sweep a Pulse1 val))
      else if addr = 0x4002 then Some (cb_with_apu b (apu_write_timer_lo a Pulse1 val))
      else if addr = 0x4003 then Some (cb_with_apu b (apu_write_timer_hi a Pulse1 val))
      else if addr = 0x4004 then Some (cb_with_apu b (apu_write_ctrl a Pulse2 val))
      else if addr = 0x4005 then Some (cb_with_apu b (apu_write_sweep a Pulse2 val))
      else if addr = 0x4006 then Some (cb_with_apu b (apu_write_timer_lo a Pulse2 val))
      else if addr = 0x4007 then Some (cb_with_apu b (apu_write_timer_hi a Pulse2 val))
      else if addr = 0x4008 then Some (cb_with_apu b (apu_write_linear_counter a Triangle val))
      else if addr = 0x400A then Some (cb_with_apu b (apu_write_timer_lo a Triangle val))
      else if addr = 0x400B then Some (cb_with_apu b (apu_write_timer_hi a Triangle val))
      else if addr = 0x400C then Some (cb_with_apu b (apu_write_ctrl a Noise val))
      else if addr = 0x400E then Some (cb_with_apu b (apu_write_timer_lo a Noise val))
      else if addr = 0x400F then Some (cb_with_apu b (apu_write_length a Noise val))
      else if addr = 0x4010 then Some (cb_with_apu b (apu_write_timer_lo a Dmc val))
      else if addr = 0x4011 then Some (cb_with_apu b (apu_write_output a Dmc val))
      else if addr = 0x4012 then Some (cb_with_apu b (apu_write_addr_load a Dmc val))
      else if addr = 0x4013 then Some (cb_with_apu b (apu_write_length a Dmc val))
      else None)"

definition cb_write_io :: "cpu_bus \<Rightarrow> u16 \<Rightarrow> u8 \<Rightarrow> cpu_bus option option" where
  "cb_write_io b addr val =
     (if addr = 0x4014
      then Some (Some (b\<lparr>cb_oam_dma := True, cb_oam_dma_addr := push_bit 8 (ucast val)\<rparr>))
      else if addr = 0x4015 then Some (Some (b\<lparr>cb_apu := apu_write_status (cb_apu b) val\<rparr>))
      else if addr = 0x4016 then Some (Some (b\<lparr>cb_input := input_write (cb_input b) val\<rparr>))
      else if addr = 0x4017 then Some (Some (b\<lparr>cb_apu := apu_write_frame_counter (cb_apu b) val\<rparr>))
      else None)"

text \<open>The first group of arms that knows the address; \<open>None\<close> when there is none.\<close>

definition cb_write_reg :: "cpu_bus \<Rightarrow> u16 \<Rightarrow> u8 \<Rightarrow> cpu_bus option option" where
  "cb_write_reg b addr val =
     (case cb_write_ppu b addr val of
        Some r \<Rightarrow> Some r
      | None \<Rightarrow> (case cb_write_channel b addr val of
                   Some r \<Rightarrow> Some r
                 | None \<Rightarrow> cb_write_io b addr val))"

function cb_write :: "cpu_bus \<Rightarrow> u16 \<Rightarrow> u8 \<Rightarrow> access \<Rightarrow> cpu_bus option" where
  "cb_write b addr val access =
     (if addr \<le> 0x07FF then
        do { wram \<leftarrow> vec_set (cb_wram b) (unat addr) val;
             Some (cb_write_done addr val (b\<lparr>cb_wram := wram\<rparr>)) }
      else if 0x4020 \<le> addr then map_option (cb_write_done addr val) (cb_write_mapped b addr val)
      else case cb_write_reg b addr val of
             Some r \<Rightarrow> map_option (cb_write_done addr val) r
           | None \<Rightarrow>
               if 0x0800 \<le> addr \<and> addr \<le> 0x1FFF then cb_write b (addr AND 0x07FF) val access
               else if 0x2008 \<le> addr \<and> addr \<le> 0x3FFF then cb_write b (addr AND 0x2007) val access
               else Some (cb_write_done addr val b))"
  by auto
termination
  by (relation "measure (\<lambda>(b, addr, val, access). unat addr)")
    (auto simp: not_le intro!: wram_mirror_less ppu_mirror_less elim: less_le_trans [rotated])

declare cb_write.simps [simp del]

section \<open>Reset\<close>

definition cb_reset :: "(nat \<Rightarrow> u8) \<Rightarrow> cpu_bus \<Rightarrow> kind \<Rightarrow> cpu_bus option" where
  "cb_reset rng b k =
     (let b = (if k = Hard then b\<lparr>cb_wram := ram_fill rng (cb_wram b) (cb_ram_state b)\<rparr> else b)
      in do { p \<leftarrow> ppu_reset (cb_ppu b) k;
              Some (b\<lparr>cb_ppu := p, cb_apu := apu_reset (cb_apu b) k\<rparr>) })"

end
