(* ===== verification/Cpu.thy ===== *)
theory Cpu
  imports CpuBus CpuInstr
begin

text \<open>
  \<open>src/cpu.rs\<close>: the state of the 6502, its cycles, direct memory access, interrupts, and its
  accesses to the bus. Every access is one cycle: the other chips are clocked before and after it,
  and the interrupt lines are sampled at its end. An operation is a function from the state to an
  option: \<open>None\<close> when the source panics, or when the loop of a DMA does not end. Logging has no
  effect on the state.
\<close>

section \<open>State\<close>

definition FLAG_C :: u8 where "FLAG_C = 0x01"
definition FLAG_Z :: u8 where "FLAG_Z = 0x02"
definition FLAG_I :: u8 where "FLAG_I = 0x04"
definition FLAG_D :: u8 where "FLAG_D = 0x08"
definition FLAG_B :: u8 where "FLAG_B = 0x10"
definition FLAG_U :: u8 where "FLAG_U = 0x20"
definition FLAG_V :: u8 where "FLAG_V = 0x40"
definition FLAG_N :: u8 where "FLAG_N = 0x80"

lemmas cpu_flags = FLAG_C_def FLAG_Z_def FLAG_I_def FLAG_D_def FLAG_B_def FLAG_U_def FLAG_V_def FLAG_N_def

datatype cycle = ReadCycle | WriteCycle

record cpu =
  c_cycle :: usize
  c_region :: nes_region
  c_master_clock :: u64
  c_clock_divider :: u64
  c_start_clocks :: u64
  c_end_clocks :: u64
  c_pc :: u16
  c_sp :: u8
  c_acc :: u8
  c_x :: u8
  c_y :: u8
  c_status :: u8
  c_bus :: cpu_bus
  c_instr :: instr
  c_abs_addr :: u16
  c_rel_addr :: u16
  c_fetched_data :: u8
  c_irq :: u8
  c_run_irq :: bool
  c_prev_run_irq :: bool
  c_nmi :: bool
  c_prev_nmi :: bool
  c_prev_nmi_pending :: bool
  c_corrupted :: bool
  c_dmc_dma :: bool
  c_halt :: bool
  c_dummy_read :: bool
  c_cycle_accurate :: bool
  c_disasm :: string

definition PPU_OFFSET :: u64 where "PPU_OFFSET = 1"
definition NMI_VECTOR :: u16 where "NMI_VECTOR = 0xFFFA"
definition IRQ_VECTOR :: u16 where "IRQ_VECTOR = 0xFFFE"
definition RESET_VECTOR :: u16 where "RESET_VECTOR = 0xFFFC"
definition POWER_ON_STATUS :: u8 where "POWER_ON_STATUS = FLAG_U OR FLAG_I"
definition POWER_ON_SP :: u8 where "POWER_ON_SP = 0xFD"
definition SP_BASE :: u16 where "SP_BASE = 0x0100"

text \<open>Clock divider, start and end clocks.\<close>

fun cpu_region_clocks :: "nes_region \<Rightarrow> u64 \<times> u64 \<times> u64" where
  "cpu_region_clocks Ntsc = (12, 6, 6)"
| "cpu_region_clocks Pal = (16, 8, 8)"
| "cpu_region_clocks Dendy = (15, 7, 8)"

definition cpu_set_region :: "cpu \<Rightarrow> nes_region \<Rightarrow> cpu" where
  "cpu_set_region c region =
     (let (clock_divider, start_clocks, end_clocks) = cpu_region_clocks region
      in c\<lparr>c_region := region, c_clock_divider := clock_divider, c_start_clocks := start_clocks,
           c_end_clocks := end_clocks, c_bus := cb_set_region (c_bus c) region\<rparr>)"

definition cpu_new :: "cpu_bus \<Rightarrow> cpu" where
  "cpu_new bus = cpu_set_region
     \<lparr>c_cycle = 0, c_region = Ntsc, c_master_clock = 0, c_clock_divider = 0, c_start_clocks = 0,
      c_end_clocks = 0, c_pc = 0x0000, c_sp = 0x00, c_acc = 0x00, c_x = 0x00, c_y = 0x00,
      c_status = POWER_ON_STATUS, c_bus = bus, c_instr = instruction 0x00, c_abs_addr = 0x0000,
      c_rel_addr = 0x0000, c_fetched_data = 0x00, c_irq = 0, c_run_irq = False,
      c_prev_run_irq = False, c_nmi = False, c_prev_nmi = False, c_prev_nmi_pending = False,
      c_corrupted = False, c_dmc_dma = False, c_halt = False, c_dummy_read = False,
      c_cycle_accurate = True, c_disasm = ''''\<rparr> Ntsc"

definition cpu_load_cart :: "cpu \<Rightarrow> mapper \<Rightarrow> cart \<Rightarrow> cpu" where
  "cpu_load_cart c m cart = c\<lparr>c_bus := cb_load_cart (c_bus c) m cart\<rparr>"

section \<open>Cycles\<close>

text \<open>The three parts of \<open>handle_interrupts\<close>: the edge of the NMI line, the level of the interrupt
  requests, the request of the DMC.\<close>

definition poll_nmi :: "cpu \<Rightarrow> cpu" where
  "poll_nmi c =
     (let c = c\<lparr>c_prev_nmi := c_nmi c\<rparr>;
          nmi_pending = cb_nmi_pending (c_bus c);
          c = (if \<not> c_prev_nmi_pending c \<and> nmi_pending then c\<lparr>c_nmi := True\<rparr> else c)
      in c\<lparr>c_prev_nmi_pending := nmi_pending\<rparr>)"

definition poll_irq :: "cpu \<Rightarrow> cpu" where
  "poll_irq c =
     (let c = c\<lparr>c_irq := cb_irqs_pending (c_bus c)\<rparr>;
          c = c\<lparr>c_prev_run_irq := c_run_irq c\<rparr>
      in c\<lparr>c_run_irq := (c_irq c \<noteq> 0 \<and> \<not> flag_intersects (c_status c) FLAG_I)\<rparr>)"

definition poll_dmc :: "cpu \<Rightarrow> cpu" where
  "poll_dmc c =
     (let (dma, b) = cb_dmc_dma (c_bus c);
          c = c\<lparr>c_bus := b\<rparr>
      in if dma then c\<lparr>c_dmc_dma := True, c_halt := True, c_dummy_read := True\<rparr> else c)"

definition cpu_handle_interrupts :: "cpu \<Rightarrow> cpu" where
  "cpu_handle_interrupts c = poll_dmc (poll_irq (poll_nmi c))"

definition cpu_bus_clock_to :: "cpu \<Rightarrow> cpu option" where
  "cpu_bus_clock_to c =
     do { b \<leftarrow> cb_clock_to (c_bus c) (c_master_clock c - PPU_OFFSET); Some (c\<lparr>c_bus := b\<rparr>) }"

definition cpu_start_cycle :: "cpu \<Rightarrow> cycle \<Rightarrow> cpu option" where
  "cpu_start_cycle c cyc =
     (let c = c\<lparr>c_master_clock := c_master_clock c
                  + (if cyc = ReadCycle then c_start_clocks c - 1 else c_start_clocks c + 1)\<rparr>;
          c = c\<lparr>c_cycle := c_cycle c + 1\<rparr>
      in if c_cycle_accurate c
         then do { c \<leftarrow> cpu_bus_clock_to c; b \<leftarrow> cb_clock (c_bus c); Some (c\<lparr>c_bus := b\<rparr>) }
         else Some c)"

definition cpu_end_cycle :: "cpu \<Rightarrow> cycle \<Rightarrow> cpu option" where
  "cpu_end_cycle c cyc =
     (let c = c\<lparr>c_master_clock := c_master_clock c
                  + (if cyc = ReadCycle then c_end_clocks c + 1 else c_end_clocks c - 1)\<rparr>
      in do { c \<leftarrow> (if c_cycle_accurate c then cpu_bus_clock_to c else Some c);
              Some (cpu_handle_interrupts c) })"

text \<open>\<open>self.bus.read\<close> and \<open>self.bus.write\<close>.\<close>

definition cpu_bus_read :: "cpu \<Rightarrow> u16 \<Rightarrow> access \<Rightarrow> (u8 \<times> cpu) option" where
  "cpu_bus_read c addr access =
     do { (val, b) \<leftarrow> cb_read (c_bus c) addr access; Some (val, c\<lparr>c_bus := b\<rparr>) }"

definition cpu_bus_write :: "cpu \<Rightarrow> u16 \<Rightarrow> u8 \<Rightarrow> access \<Rightarrow> cpu option" where
  "cpu_bus_write c addr val access =
     do { b \<leftarrow> cb_write (c_bus c) addr val access; Some (c\<lparr>c_bus := b\<rparr>) }"

section \<open>Direct memory access\<close>

definition process_dma_cycle :: "cpu \<Rightarrow> cpu option" where
  "process_dma_cycle c =
     (let c = (if c_halt c then c\<lparr>c_halt := False\<rparr>
               else if c_dummy_read c then c\<lparr>c_dummy_read := False\<rparr> else c)
      in cpu_start_cycle c ReadCycle)"

text \<open>The cycle that waits, and throws a read of the interrupted address away.\<close>

definition dma_idle :: "u16 \<Rightarrow> cpu \<Rightarrow> cpu option" where
  "dma_idle addr c =
     (let skip_dummy_reads = (addr = 0x4016 \<or> addr = 0x4017)
      in do { c \<leftarrow> process_dma_cycle c;
              c \<leftarrow> (if \<not> skip_dummy_reads then map_option snd (cpu_bus_read c addr AccDummy) else Some c);
              cpu_end_cycle c ReadCycle })"

text \<open>One round of the loop: the state, the offset and the count of the OAM transfer, the byte read.\<close>

definition dma_step ::
    "u16 \<Rightarrow> u16 \<Rightarrow> cpu \<times> u16 \<times> nat \<times> u8 \<Rightarrow> (cpu \<times> u16 \<times> nat \<times> u8) option" where
  "dma_step addr oam_base_addr s =
     (let (c, oam_offset, oam_dma_count, read_val) = s in
      if c_cycle c AND 0x01 = 0x00 then
        if c_dmc_dma c \<and> \<not> c_halt c \<and> \<not> c_dummy_read c then
          do { c \<leftarrow> process_dma_cycle c;
               (read_val, c) \<leftarrow> cpu_bus_read c (cb_dmc_dma_addr (c_bus c)) AccDummy;
               c \<leftarrow> cpu_end_cycle c ReadCycle;
               Some (c\<lparr>c_bus := cb_load_dmc_buffer (c_bus c) read_val, c_dmc_dma := False\<rparr>,
                     oam_offset, oam_dma_count, read_val) }
        else if cb_oam_dma (c_bus c) then
          do { c \<leftarrow> process_dma_cycle c;
               (read_val, c) \<leftarrow> cpu_bus_read c (oam_base_addr + oam_offset) AccDummy;
               c \<leftarrow> cpu_end_cycle c ReadCycle;
               Some (c, oam_offset + 1, oam_dma_count + 1, read_val) }
        else do { c \<leftarrow> dma_idle addr c; Some (c, oam_offset, oam_dma_count, read_val) }
      else if cb_oam_dma (c_bus c) \<and> odd oam_dma_count then
        do { c \<leftarrow> process_dma_cycle c;
             c \<leftarrow> cpu_bus_write c 0x2004 read_val AccDummy;
             c \<leftarrow> cpu_end_cycle c ReadCycle;
             Some (if oam_dma_count + 1 = 0x200 then c\<lparr>c_bus := cb_oam_dma_finish (c_bus c)\<rparr> else c,
                   oam_offset, oam_dma_count + 1, read_val) }
      else do { c \<leftarrow> dma_idle addr c; Some (c, oam_offset, oam_dma_count, read_val) })"

partial_function (option) dma_loop ::
    "u16 \<Rightarrow> u16 \<Rightarrow> cpu \<times> u16 \<times> nat \<times> u8 \<Rightarrow> cpu option" where
  "dma_loop addr oam_base_addr s =
     (if cb_oam_dma (c_bus (fst s)) \<or> c_dmc_dma (fst s)
      then Option.bind (dma_step addr oam_base_addr s) (dma_loop addr oam_base_addr)
      else Some (fst s))"

definition cpu_handle_dma :: "cpu \<Rightarrow> u16 \<Rightarrow> cpu option" where
  "cpu_handle_dma c addr =
     do { c \<leftarrow> cpu_start_cycle c ReadCycle;
          (_, c) \<leftarrow> cpu_bus_read c addr AccDummy;
          c \<leftarrow> cpu_end_cycle c ReadCycle;
          let c = c\<lparr>c_halt := False\<rparr>
          in dma_loop addr (cb_oam_dma_addr (c_bus c)) (c, 0, 0, 0) }"

section \<open>Memory\<close>

definition cpu_read :: "cpu \<Rightarrow> u16 \<Rightarrow> access \<Rightarrow> (u8 \<times> cpu) option" where
  "cpu_read c addr access =
     do { c \<leftarrow> (if c_halt c \<or> cb_oam_dma (c_bus c) then cpu_handle_dma c addr else Some c);
          c \<leftarrow> cpu_start_cycle c ReadCycle;
          (val, c) \<leftarrow> cpu_bus_read c addr access;
          c \<leftarrow> cpu_end_cycle c ReadCycle;
          Some (val, c) }"

definition cpu_peek :: "cpu \<Rightarrow> u16 \<Rightarrow> access \<Rightarrow> u8 option" where
  "cpu_peek c addr access = cb_peek (c_bus c) addr access"

definition cpu_write :: "cpu \<Rightarrow> u16 \<Rightarrow> u8 \<Rightarrow> access \<Rightarrow> cpu option" where
  "cpu_write c addr val access =
     do { c \<leftarrow> cpu_start_cycle c WriteCycle;
          c \<leftarrow> cpu_bus_write c addr val access;
          cpu_end_cycle c WriteCycle }"

section \<open>Status and stack\<close>

definition set_zn_status :: "cpu \<Rightarrow> u8 \<Rightarrow> cpu" where
  "set_zn_status c val =
     (let c = c\<lparr>c_status := flag_set (c_status c) FLAG_Z (val = 0x00)\<rparr>
      in c\<lparr>c_status := flag_set (c_status c) FLAG_N (val AND 0x80 = 0x80)\<rparr>)"

definition status_bit :: "cpu \<Rightarrow> u8 \<Rightarrow> u8" where
  "status_bit c reg = c_status c AND reg"

definition set_status :: "cpu \<Rightarrow> u8 \<Rightarrow> bool \<Rightarrow> cpu" where
  "set_status c flag b = c\<lparr>c_status := flag_set (c_status c) flag b\<rparr>"

definition cpu_push :: "cpu \<Rightarrow> u8 \<Rightarrow> cpu option" where
  "cpu_push c val =
     do { c \<leftarrow> cpu_write c (SP_BASE OR ucast (c_sp c)) val AccWrite; Some (c\<lparr>c_sp := c_sp c - 1\<rparr>) }"

definition cpu_pop :: "cpu \<Rightarrow> (u8 \<times> cpu) option" where
  "cpu_pop c =
     (let c = c\<lparr>c_sp := c_sp c + 1\<rparr> in cpu_read c (SP_BASE OR ucast (c_sp c)) AccRead)"

definition peek_stack :: "cpu \<Rightarrow> u8 option" where
  "peek_stack c = cpu_peek c (SP_BASE OR ucast (c_sp c + 1)) AccDummy"

definition peek_stack_u16 :: "cpu \<Rightarrow> u16 option" where
  "peek_stack_u16 c =
     do { lo \<leftarrow> cpu_peek c (SP_BASE OR ucast (c_sp c)) AccDummy;
          hi \<leftarrow> cpu_peek c (SP_BASE OR ucast (c_sp c + 1)) AccDummy;
          Some (u16_from_le_bytes lo hi) }"

definition push_u16 :: "cpu \<Rightarrow> u16 \<Rightarrow> cpu option" where
  "push_u16 c val = do { c \<leftarrow> cpu_push c (u16_hi val); cpu_push c (u16_lo val) }"

definition pop_u16 :: "cpu \<Rightarrow> (u16 \<times> cpu) option" where
  "pop_u16 c = do { (lo, c) \<leftarrow> cpu_pop c; (hi, c) \<leftarrow> cpu_pop c; Some (u16_from_le_bytes lo hi, c) }"

section \<open>Reading instructions and words\<close>

definition read_instr :: "cpu \<Rightarrow> (u8 \<times> cpu) option" where
  "read_instr c = do { (val, c) \<leftarrow> cpu_read c (c_pc c) AccRead; Some (val, c\<lparr>c_pc := c_pc c + 1\<rparr>) }"

definition read_instr_u16 :: "cpu \<Rightarrow> (u16 \<times> cpu) option" where
  "read_instr_u16 c = do { (lo, c) \<leftarrow> read_instr c; (hi, c) \<leftarrow> read_instr c; Some (u16_from_le_bytes lo hi, c) }"

definition read_u16 :: "cpu \<Rightarrow> u16 \<Rightarrow> (u16 \<times> cpu) option" where
  "read_u16 c addr =
     do { (lo, c) \<leftarrow> cpu_read c addr AccRead;
          (hi, c) \<leftarrow> cpu_read c (addr + 1) AccRead;
          Some (u16_from_le_bytes lo hi, c) }"

definition peek_u16 :: "cpu \<Rightarrow> u16 \<Rightarrow> u16 option" where
  "peek_u16 c addr =
     do { lo \<leftarrow> cpu_peek c addr AccDummy;
          hi \<leftarrow> cpu_peek c (addr + 1) AccDummy;
          Some (u16_from_le_bytes lo hi) }"

definition read_zp_u16 :: "cpu \<Rightarrow> u8 \<Rightarrow> (u16 \<times> cpu) option" where
  "read_zp_u16 c addr =
     do { (lo, c) \<leftarrow> cpu_read c (ucast addr) AccRead;
          (hi, c) \<leftarrow> cpu_read c (ucast (addr + 1)) AccRead;
          Some (u16_from_le_bytes lo hi, c) }"

definition peek_zp_u16 :: "cpu \<Rightarrow> u8 \<Rightarrow> u16 option" where
  "peek_zp_u16 c addr =
     do { lo \<leftarrow> cpu_peek c (ucast addr) AccDummy;
          hi \<leftarrow> cpu_peek c (ucast (addr + 1)) AccDummy;
          Some (u16_from_le_bytes lo hi) }"

definition pages_differ :: "u16 \<Rightarrow> u16 \<Rightarrow> bool" where
  "pages_differ addr1 addr2 \<longleftrightarrow> addr1 AND 0xFF00 \<noteq> addr2 AND 0xFF00"

section \<open>Operands\<close>

text \<open>\<open>self.fetched_data = self.read(self.abs_addr, Access::Read)\<close>.\<close>

definition fetch_abs :: "cpu \<Rightarrow> cpu option" where
  "fetch_abs c = do { (val, c) \<leftarrow> cpu_read c (c_abs_addr c) AccRead; Some (c\<lparr>c_fetched_data := val\<rparr>) }"

definition READ_OPS :: "operation list" where
  "READ_OPS = [LDA, LDX, LDY, EOR, AND', ORA, ADC, SBC, CMP, BIT, LAX, NOP, IGN, LAS]"

definition fetch_data :: "cpu \<Rightarrow> cpu option" where
  "fetch_data c =
     (let mode = instr_addr_mode (c_instr c) in
      if mode = IMP \<or> mode = ACC then Some (c\<lparr>c_fetched_data := c_acc c\<rparr>)
      else if mode = ABX \<or> mode = ABY \<or> mode = IDY then
        if instr_op (c_instr c) \<in> set READ_OPS then
          let reg = (if mode = ABX then c_x c else c_y c)
          in if c_abs_addr c AND 0x00FF < ucast reg then fetch_abs c
             else Some (c\<lparr>c_fetched_data := c_fetched_data c\<rparr>)
        else fetch_abs c
      else fetch_abs c)"

definition write_fetched :: "cpu \<Rightarrow> u8 \<Rightarrow> cpu option" where
  "write_fetched c val =
     (let mode = instr_addr_mode (c_instr c) in
      if mode = IMP \<or> mode = ACC then Some (c\<lparr>c_acc := val\<rparr>)
      else if mode = IMM then Some c
      else cpu_write c (c_abs_addr c) val AccWrite)"

section \<open>Interrupts\<close>

text \<open>The end of \<open>irq\<close> and of \<open>brk\<close>: a pending NMI takes the sequence over.\<close>

definition cpu_vector :: "cpu \<Rightarrow> u8 \<Rightarrow> cpu option" where
  "cpu_vector c status =
     (if c_nmi c then
        do { let c = c\<lparr>c_nmi := False\<rparr>;
             c \<leftarrow> cpu_push c status;
             let c = set_status c FLAG_I True;
             (pc, c) \<leftarrow> read_u16 c NMI_VECTOR;
             Some (c\<lparr>c_pc := pc\<rparr>) }
      else
        do { c \<leftarrow> cpu_push c status;
             let c = set_status c FLAG_I True;
             (pc, c) \<leftarrow> read_u16 c IRQ_VECTOR;
             Some (c\<lparr>c_pc := pc\<rparr>) })"

definition cpu_irq :: "cpu \<Rightarrow> cpu option" where
  "cpu_irq c =
     do { (_, c) \<leftarrow> cpu_read c (c_pc c) AccDummy;
          (_, c) \<leftarrow> cpu_read c (c_pc c) AccDummy;
          c \<leftarrow> push_u16 c (c_pc c);
          cpu_vector c ((c_status c OR FLAG_U) AND NOT FLAG_B) }"

end
