(* ===== verification/CpuOps.thy ===== *)
theory CpuOps
  imports Cpu
begin

text \<open>
  \<open>src/cpu/instr.rs\<close>: the addressing modes and the operations of the 6502, the documented ones
  and the others. A mode leaves the address of the operand in \<open>c_abs_addr\<close> (or the offset of a
  branch in \<open>c_rel_addr\<close>); an operation fetches its operand, and writes its result, through
  \<open>fetch_data\<close> and \<open>write_fetched\<close>.
\<close>

section \<open>Addressing modes\<close>

definition am_acc :: "cpu \<Rightarrow> cpu option" where
  "am_acc c = map_option snd (cpu_read c (c_pc c) AccRead)"

definition am_imp :: "cpu \<Rightarrow> cpu option" where
  "am_imp c = map_option snd (cpu_read c (c_pc c) AccRead)"

definition am_imm :: "cpu \<Rightarrow> cpu option" where
  "am_imm c = Some (c\<lparr>c_abs_addr := c_pc c, c_pc := c_pc c + 1\<rparr>)"

definition am_zp0 :: "cpu \<Rightarrow> cpu option" where
  "am_zp0 c = do { (addr, c) \<leftarrow> read_instr c; Some (c\<lparr>c_abs_addr := ucast addr\<rparr>) }"

definition am_zpx :: "cpu \<Rightarrow> cpu option" where
  "am_zpx c =
     do { (addr, c) \<leftarrow> read_instr c;
          (_, c) \<leftarrow> cpu_read c (ucast addr) AccRead;
          Some (c\<lparr>c_abs_addr := (ucast addr + ucast (c_x c)) AND 0x00FF\<rparr>) }"

definition am_zpy :: "cpu \<Rightarrow> cpu option" where
  "am_zpy c =
     do { (addr, c) \<leftarrow> read_instr c;
          (_, c) \<leftarrow> cpu_read c (ucast addr) AccRead;
          Some (c\<lparr>c_abs_addr := (ucast addr + ucast (c_y c)) AND 0x00FF\<rparr>) }"

definition am_rel :: "cpu \<Rightarrow> cpu option" where
  "am_rel c = do { (addr, c) \<leftarrow> read_instr c; Some (c\<lparr>c_rel_addr := ucast addr\<rparr>) }"

definition am_abs :: "cpu \<Rightarrow> cpu option" where
  "am_abs c = do { (addr, c) \<leftarrow> read_instr_u16 c; Some (c\<lparr>c_abs_addr := addr\<rparr>) }"

text \<open>The read at the address whose high byte has not been corrected yet.\<close>

definition read_uncorrected :: "cpu \<Rightarrow> u16 \<Rightarrow> cpu option" where
  "read_uncorrected c addr =
     do { (val, c) \<leftarrow> cpu_read c ((addr AND 0xFF00) OR (c_abs_addr c AND 0x00FF)) AccRead;
          Some (c\<lparr>c_fetched_data := val\<rparr>) }"

definition am_abx :: "cpu \<Rightarrow> cpu option" where
  "am_abx c =
     do { (addr, c) \<leftarrow> read_instr_u16 c;
          let c = c\<lparr>c_abs_addr := addr + ucast (c_x c)\<rparr>
          in read_uncorrected c addr }"

definition am_aby :: "cpu \<Rightarrow> cpu option" where
  "am_aby c =
     do { (addr, c) \<leftarrow> read_instr_u16 c;
          let c = c\<lparr>c_abs_addr := addr + ucast (c_y c)\<rparr>
          in read_uncorrected c addr }"

definition am_ind :: "cpu \<Rightarrow> cpu option" where
  "am_ind c =
     do { (addr, c) \<leftarrow> read_instr_u16 c;
          if addr AND 0xFF = 0xFF then
            do { (lo, c) \<leftarrow> cpu_read c addr AccRead;
                 (hi, c) \<leftarrow> cpu_read c (addr AND 0xFF00) AccRead;
                 Some (c\<lparr>c_abs_addr := u16_from_le_bytes lo hi\<rparr>) }
          else do { (target, c) \<leftarrow> read_u16 c addr; Some (c\<lparr>c_abs_addr := target\<rparr>) } }"

definition am_idx :: "cpu \<Rightarrow> cpu option" where
  "am_idx c =
     do { (addr, c) \<leftarrow> read_instr c;
          (_, c) \<leftarrow> cpu_read c (ucast addr) AccRead;
          (target, c) \<leftarrow> read_zp_u16 c (addr + c_x c);
          Some (c\<lparr>c_abs_addr := target\<rparr>) }"

definition am_idy :: "cpu \<Rightarrow> cpu option" where
  "am_idy c =
     do { (addr, c) \<leftarrow> read_instr c;
          (addr, c) \<leftarrow> read_zp_u16 c addr;
          let c = c\<lparr>c_abs_addr := addr + ucast (c_y c)\<rparr>
          in read_uncorrected c addr }"

section \<open>Storage operations\<close>

definition op_lda :: "cpu \<Rightarrow> cpu option" where
  "op_lda c = do { c \<leftarrow> fetch_data c; let c = c\<lparr>c_acc := c_fetched_data c\<rparr> in Some (set_zn_status c (c_acc c)) }"

definition op_ldx :: "cpu \<Rightarrow> cpu option" where
  "op_ldx c = do { c \<leftarrow> fetch_data c; let c = c\<lparr>c_x := c_fetched_data c\<rparr> in Some (set_zn_status c (c_x c)) }"

definition op_ldy :: "cpu \<Rightarrow> cpu option" where
  "op_ldy c = do { c \<leftarrow> fetch_data c; let c = c\<lparr>c_y := c_fetched_data c\<rparr> in Some (set_zn_status c (c_y c)) }"

definition op_sta :: "cpu \<Rightarrow> cpu option" where "op_sta c = cpu_write c (c_abs_addr c) (c_acc c) AccWrite"
definition op_stx :: "cpu \<Rightarrow> cpu option" where "op_stx c = cpu_write c (c_abs_addr c) (c_x c) AccWrite"
definition op_sty :: "cpu \<Rightarrow> cpu option" where "op_sty c = cpu_write c (c_abs_addr c) (c_y c) AccWrite"

definition op_tax :: "cpu \<Rightarrow> cpu option" where
  "op_tax c = (let c = c\<lparr>c_x := c_acc c\<rparr> in Some (set_zn_status c (c_x c)))"

definition op_tay :: "cpu \<Rightarrow> cpu option" where
  "op_tay c = (let c = c\<lparr>c_y := c_acc c\<rparr> in Some (set_zn_status c (c_y c)))"

definition op_tsx :: "cpu \<Rightarrow> cpu option" where
  "op_tsx c = (let c = c\<lparr>c_x := c_sp c\<rparr> in Some (set_zn_status c (c_x c)))"

definition op_txa :: "cpu \<Rightarrow> cpu option" where
  "op_txa c = (let c = c\<lparr>c_acc := c_x c\<rparr> in Some (set_zn_status c (c_acc c)))"

definition op_txs :: "cpu \<Rightarrow> cpu option" where "op_txs c = Some (c\<lparr>c_sp := c_x c\<rparr>)"

definition op_tya :: "cpu \<Rightarrow> cpu option" where
  "op_tya c = (let c = c\<lparr>c_acc := c_y c\<rparr> in Some (set_zn_status c (c_acc c)))"

section \<open>Arithmetic operations\<close>

definition overflowing_add :: "u8 \<Rightarrow> u8 \<Rightarrow> u8 \<times> bool" where
  "overflowing_add a b = (a + b, unat a + unat b \<ge> 2 ^ 8)"

definition overflowing_sub :: "u8 \<Rightarrow> u8 \<Rightarrow> u8 \<times> bool" where
  "overflowing_sub a b = (a - b, a < b)"

text \<open>The body of \<open>adc\<close> after the fetch, repeated in \<open>rra\<close>, and of \<open>sbc\<close>, repeated in \<open>isb\<close>.\<close>

definition add_with_carry :: "cpu \<Rightarrow> u8 \<Rightarrow> cpu" where
  "add_with_carry c m =
     (let a = c_acc c;
          (x1, o1) = overflowing_add m a;
          (x2, o2) = overflowing_add x1 (status_bit c FLAG_C);
          c = c\<lparr>c_acc := x2\<rparr>;
          c = set_status c FLAG_C (o1 \<or> o2);
          c = set_status c FLAG_V ((a XOR m) AND 0x80 = 0 \<and> (a XOR c_acc c) AND 0x80 \<noteq> 0)
      in set_zn_status c (c_acc c))"

definition sub_with_carry :: "cpu \<Rightarrow> u8 \<Rightarrow> cpu" where
  "sub_with_carry c m =
     (let a = c_acc c;
          (x1, o1) = overflowing_sub a m;
          (x2, o2) = overflowing_sub x1 (1 - status_bit c FLAG_C);
          c = c\<lparr>c_acc := x2\<rparr>;
          c = set_status c FLAG_C (\<not> (o1 \<or> o2));
          c = set_status c FLAG_V ((a XOR m) AND 0x80 \<noteq> 0 \<and> (a XOR c_acc c) AND 0x80 \<noteq> 0)
      in set_zn_status c (c_acc c))"

definition op_adc :: "cpu \<Rightarrow> cpu option" where
  "op_adc c = do { c \<leftarrow> fetch_data c; Some (add_with_carry c (c_fetched_data c)) }"

definition op_sbc :: "cpu \<Rightarrow> cpu option" where
  "op_sbc c = do { c \<leftarrow> fetch_data c; Some (sub_with_carry c (c_fetched_data c)) }"

definition op_dec :: "cpu \<Rightarrow> cpu option" where
  "op_dec c =
     do { c \<leftarrow> fetch_data c;
          c \<leftarrow> write_fetched c (c_fetched_data c);
          let val = c_fetched_data c - 1;
          c \<leftarrow> write_fetched c val;
          Some (set_zn_status c val) }"

definition op_dex :: "cpu \<Rightarrow> cpu option" where
  "op_dex c = (let c = c\<lparr>c_x := c_x c - 1\<rparr> in Some (set_zn_status c (c_x c)))"

definition op_dey :: "cpu \<Rightarrow> cpu option" where
  "op_dey c = (let c = c\<lparr>c_y := c_y c - 1\<rparr> in Some (set_zn_status c (c_y c)))"

definition op_inc :: "cpu \<Rightarrow> cpu option" where
  "op_inc c =
     do { c \<leftarrow> fetch_data c;
          c \<leftarrow> write_fetched c (c_fetched_data c);
          let val = c_fetched_data c + 1;
          let c = set_zn_status c val;
          write_fetched c val }"

definition op_inx :: "cpu \<Rightarrow> cpu option" where
  "op_inx c = (let c = c\<lparr>c_x := c_x c + 1\<rparr> in Some (set_zn_status c (c_x c)))"

definition op_iny :: "cpu \<Rightarrow> cpu option" where
  "op_iny c = (let c = c\<lparr>c_y := c_y c + 1\<rparr> in Some (set_zn_status c (c_y c)))"

section \<open>Bitwise operations\<close>

definition op_and :: "cpu \<Rightarrow> cpu option" where
  "op_and c =
     do { c \<leftarrow> fetch_data c;
          let c = c\<lparr>c_acc := c_acc c AND c_fetched_data c\<rparr> in Some (set_zn_status c (c_acc c)) }"

definition op_asl :: "cpu \<Rightarrow> cpu option" where
  "op_asl c =
     do { c \<leftarrow> fetch_data c;
          c \<leftarrow> write_fetched c (c_fetched_data c);
          let c = set_status c FLAG_C (drop_bit 7 (c_fetched_data c) AND 1 > 0);
          let val = push_bit 1 (c_fetched_data c);
          let c = set_zn_status c val;
          write_fetched c val }"

definition op_bit :: "cpu \<Rightarrow> cpu option" where
  "op_bit c =
     do { c \<leftarrow> fetch_data c;
          let val = c_acc c AND c_fetched_data c;
          let c = set_status c FLAG_Z (val = 0);
          let c = set_status c FLAG_N (c_fetched_data c AND push_bit 7 1 > 0);
          Some (set_status c FLAG_V (c_fetched_data c AND push_bit 6 1 > 0)) }"

definition op_eor :: "cpu \<Rightarrow> cpu option" where
  "op_eor c =
     do { c \<leftarrow> fetch_data c;
          let c = c\<lparr>c_acc := c_acc c XOR c_fetched_data c\<rparr> in Some (set_zn_status c (c_acc c)) }"

definition op_lsr :: "cpu \<Rightarrow> cpu option" where
  "op_lsr c =
     do { c \<leftarrow> fetch_data c;
          c \<leftarrow> write_fetched c (c_fetched_data c);
          let c = set_status c FLAG_C (c_fetched_data c AND 1 > 0);
          let val = drop_bit 1 (c_fetched_data c);
          let c = set_zn_status c val;
          write_fetched c val }"

definition op_ora :: "cpu \<Rightarrow> cpu option" where
  "op_ora c =
     do { c \<leftarrow> fetch_data c;
          let c = c\<lparr>c_acc := c_acc c OR c_fetched_data c\<rparr> in Some (set_zn_status c (c_acc c)) }"

definition op_rol :: "cpu \<Rightarrow> cpu option" where
  "op_rol c =
     do { c \<leftarrow> fetch_data c;
          c \<leftarrow> write_fetched c (c_fetched_data c);
          let old_c = status_bit c FLAG_C;
          let c = set_status c FLAG_C (drop_bit 7 (c_fetched_data c) AND 1 > 0);
          let val = push_bit 1 (c_fetched_data c) OR old_c;
          let c = set_zn_status c val;
          write_fetched c val }"

text \<open>\<open>u8::rotate_right(1)\<close>, and the replacement of bit 7 by the carry, repeated in \<open>rra\<close>.\<close>

definition rotate_right1 :: "u8 \<Rightarrow> u8" where
  "rotate_right1 v = drop_bit 1 v OR push_bit 7 v"

definition rotate_through_carry :: "cpu \<Rightarrow> u8" where
  "rotate_through_carry c =
     (let ret = rotate_right1 (c_fetched_data c)
      in if flag_intersects (c_status c) FLAG_C then ret OR push_bit 7 1 else ret AND NOT (push_bit 7 1))"

definition op_ror :: "cpu \<Rightarrow> cpu option" where
  "op_ror c =
     do { c \<leftarrow> fetch_data c;
          c \<leftarrow> write_fetched c (c_fetched_data c);
          let ret = rotate_through_carry c;
          let c = set_status c FLAG_C (c_fetched_data c AND 1 > 0);
          let c = set_zn_status c ret;
          write_fetched c ret }"

section \<open>Branches\<close>

definition branch_target :: "cpu \<Rightarrow> u16" where
  "branch_target c =
     (if c_rel_addr c AND 0x80 = 0x80 then c_pc c + (c_rel_addr c OR 0xFF00) else c_pc c + c_rel_addr c)"

definition branch :: "cpu \<Rightarrow> cpu option" where
  "branch c =
     (let c = (if c_run_irq c \<and> \<not> c_prev_run_irq c then c\<lparr>c_run_irq := False\<rparr> else c)
      in do { (_, c) \<leftarrow> cpu_read c (c_pc c) AccRead;
              let c = c\<lparr>c_abs_addr := branch_target c\<rparr>;
              c \<leftarrow> (if pages_differ (c_abs_addr c) (c_pc c)
                    then map_option snd (cpu_read c (c_pc c) AccRead) else Some c);
              Some (c\<lparr>c_pc := c_abs_addr c\<rparr>) })"

definition op_bcc :: "cpu \<Rightarrow> cpu option" where
  "op_bcc c = (if \<not> flag_intersects (c_status c) FLAG_C then branch c else Some c)"
definition op_bcs :: "cpu \<Rightarrow> cpu option" where
  "op_bcs c = (if flag_intersects (c_status c) FLAG_C then branch c else Some c)"
definition op_beq :: "cpu \<Rightarrow> cpu option" where
  "op_beq c = (if flag_intersects (c_status c) FLAG_Z then branch c else Some c)"
definition op_bmi :: "cpu \<Rightarrow> cpu option" where
  "op_bmi c = (if flag_intersects (c_status c) FLAG_N then branch c else Some c)"
definition op_bne :: "cpu \<Rightarrow> cpu option" where
  "op_bne c = (if \<not> flag_intersects (c_status c) FLAG_Z then branch c else Some c)"
definition op_bpl :: "cpu \<Rightarrow> cpu option" where
  "op_bpl c = (if \<not> flag_intersects (c_status c) FLAG_N then branch c else Some c)"
definition op_bvc :: "cpu \<Rightarrow> cpu option" where
  "op_bvc c = (if \<not> flag_intersects (c_status c) FLAG_V then branch c else Some c)"
definition op_bvs :: "cpu \<Rightarrow> cpu option" where
  "op_bvs c = (if flag_intersects (c_status c) FLAG_V then branch c else Some c)"

section \<open>Jumps\<close>

definition op_jmp :: "cpu \<Rightarrow> cpu option" where "op_jmp c = Some (c\<lparr>c_pc := c_abs_addr c\<rparr>)"

definition read_stack :: "cpu \<Rightarrow> (u8 \<times> cpu) option" where
  "read_stack c = cpu_read c (SP_BASE OR ucast (c_sp c)) AccRead"

definition op_jsr :: "cpu \<Rightarrow> cpu option" where
  "op_jsr c =
     do { (_, c) \<leftarrow> read_stack c;
          c \<leftarrow> push_u16 c (c_pc c - 1);
          Some (c\<lparr>c_pc := c_abs_addr c\<rparr>) }"

definition op_rti :: "cpu \<Rightarrow> cpu option" where
  "op_rti c =
     do { (_, c) \<leftarrow> read_stack c;
          (status, c) \<leftarrow> cpu_pop c;
          let c = c\<lparr>c_status := status\<rparr>;
          let c = c\<lparr>c_status := c_status c AND NOT FLAG_U\<rparr>;
          let c = c\<lparr>c_status := c_status c AND NOT FLAG_B\<rparr>;
          (pc, c) \<leftarrow> pop_u16 c;
          Some (c\<lparr>c_pc := pc\<rparr>) }"

definition op_rts :: "cpu \<Rightarrow> cpu option" where
  "op_rts c =
     do { (_, c) \<leftarrow> read_stack c;
          (pc, c) \<leftarrow> pop_u16 c;
          let c = c\<lparr>c_pc := pc + 1\<rparr>;
          (_, c) \<leftarrow> cpu_read c (c_pc c) AccRead;
          Some c }"

section \<open>Status register\<close>

definition op_clc :: "cpu \<Rightarrow> cpu option" where "op_clc c = Some (set_status c FLAG_C False)"
definition op_sec :: "cpu \<Rightarrow> cpu option" where "op_sec c = Some (set_status c FLAG_C True)"
definition op_cld :: "cpu \<Rightarrow> cpu option" where "op_cld c = Some (set_status c FLAG_D False)"
definition op_sed :: "cpu \<Rightarrow> cpu option" where "op_sed c = Some (set_status c FLAG_D True)"
definition op_cli :: "cpu \<Rightarrow> cpu option" where "op_cli c = Some (set_status c FLAG_I False)"
definition op_sei :: "cpu \<Rightarrow> cpu option" where "op_sei c = Some (set_status c FLAG_I True)"
definition op_clv :: "cpu \<Rightarrow> cpu option" where "op_clv c = Some (set_status c FLAG_V False)"

section \<open>Comparisons\<close>

definition compare :: "cpu \<Rightarrow> u8 \<Rightarrow> u8 \<Rightarrow> cpu" where
  "compare c a b =
     (let result = a - b;
          c = set_zn_status c result
      in set_status c FLAG_C (a \<ge> b))"

definition op_cmp :: "cpu \<Rightarrow> cpu option" where
  "op_cmp c = do { c \<leftarrow> fetch_data c; Some (compare c (c_acc c) (c_fetched_data c)) }"
definition op_cpx :: "cpu \<Rightarrow> cpu option" where
  "op_cpx c = do { c \<leftarrow> fetch_data c; Some (compare c (c_x c) (c_fetched_data c)) }"
definition op_cpy :: "cpu \<Rightarrow> cpu option" where
  "op_cpy c = do { c \<leftarrow> fetch_data c; Some (compare c (c_y c) (c_fetched_data c)) }"

section \<open>Stack operations\<close>

definition op_php :: "cpu \<Rightarrow> cpu option" where
  "op_php c = cpu_push c (c_status c OR FLAG_U OR FLAG_B)"

definition op_plp :: "cpu \<Rightarrow> cpu option" where
  "op_plp c = do { (_, c) \<leftarrow> read_stack c; (status, c) \<leftarrow> cpu_pop c; Some (c\<lparr>c_status := status\<rparr>) }"

definition op_pha :: "cpu \<Rightarrow> cpu option" where "op_pha c = cpu_push c (c_acc c)"

definition op_pla :: "cpu \<Rightarrow> cpu option" where
  "op_pla c =
     do { (_, c) \<leftarrow> read_stack c;
          (a, c) \<leftarrow> cpu_pop c;
          let c = c\<lparr>c_acc := a\<rparr> in Some (set_zn_status c (c_acc c)) }"

section \<open>System operations\<close>

definition op_brk :: "cpu \<Rightarrow> cpu option" where
  "op_brk c =
     do { c \<leftarrow> fetch_data c;
          c \<leftarrow> push_u16 c (c_pc c);
          c \<leftarrow> cpu_vector c (c_status c OR FLAG_U OR FLAG_B);
          Some (c\<lparr>c_prev_nmi := False\<rparr>) }"

definition op_nop :: "cpu \<Rightarrow> cpu option" where "op_nop c = fetch_data c"

section \<open>Unofficial operations\<close>

definition op_skb :: "cpu \<Rightarrow> cpu option" where "op_skb c = fetch_data c"
definition op_ign :: "cpu \<Rightarrow> cpu option" where "op_ign c = fetch_data c"
definition op_xxx :: "cpu \<Rightarrow> cpu option" where "op_xxx c = Some (c\<lparr>c_corrupted := True\<rparr>)"

definition op_isb :: "cpu \<Rightarrow> cpu option" where
  "op_isb c =
     do { c \<leftarrow> fetch_data c;
          c \<leftarrow> write_fetched c (c_fetched_data c);
          let val = c_fetched_data c + 1;
          let c = sub_with_carry c val;
          write_fetched c val }"

definition op_dcp :: "cpu \<Rightarrow> cpu option" where
  "op_dcp c =
     do { c \<leftarrow> fetch_data c;
          c \<leftarrow> write_fetched c (c_fetched_data c);
          let val = c_fetched_data c - 1;
          let c = compare c (c_acc c) val;
          write_fetched c val }"

definition op_axs :: "cpu \<Rightarrow> cpu option" where
  "op_axs c =
     do { c \<leftarrow> fetch_data c;
          let t = (ucast (c_acc c AND c_x c) - ucast (c_fetched_data c) :: u32);
          let c = set_zn_status c (ucast (t AND 0xFF));
          let c = set_status c FLAG_C ((drop_bit 8 t AND 0x01) XOR 0x01 = 0x01);
          Some (c\<lparr>c_x := ucast (t AND 0xFF)\<rparr>) }"

definition op_las :: "cpu \<Rightarrow> cpu option" where "op_las c = do { c \<leftarrow> op_lda c; op_tsx c }"
definition op_lax :: "cpu \<Rightarrow> cpu option" where "op_lax c = do { c \<leftarrow> op_lda c; op_tax c }"

text \<open>\<open>wrapping_shr(8)\<close> on a byte: the shift count is taken modulo 8.\<close>

definition wrapping_shr :: "u8 \<Rightarrow> nat \<Rightarrow> u8" where
  "wrapping_shr v n = drop_bit (n mod 8) v"

definition op_ahx :: "cpu \<Rightarrow> cpu option" where
  "op_ahx c =
     write_fetched c (c_acc c AND c_x c AND (wrapping_shr (c_fetched_data c - c_y c) 8 + 1))"

definition op_sax :: "cpu \<Rightarrow> cpu option" where
  "op_sax c =
     do { c \<leftarrow> (if instr_addr_mode (c_instr c) = IDY then fetch_data c else Some c);
          write_fetched c (c_acc c AND c_x c) }"

definition op_xaa :: "cpu \<Rightarrow> cpu option" where
  "op_xaa c =
     do { c \<leftarrow> fetch_data c;
          let c = c\<lparr>c_acc := c_acc c OR 0xEE\<rparr>;
          let c = c\<lparr>c_acc := c_acc c AND c_x c\<rparr>;
          let c = c\<lparr>c_acc := c_acc c AND c_fetched_data c\<rparr>;
          Some (set_zn_status c (c_acc c)) }"

text \<open>\<open>sxa\<close> and \<open>sya\<close> differ in the register.\<close>

definition store_and_high :: "cpu \<Rightarrow> u8 \<Rightarrow> cpu option" where
  "store_and_high c reg =
     (let hi = (ucast (drop_bit 8 (c_abs_addr c)) :: u8);
          lo = (ucast (c_abs_addr c AND 0xFF) :: u8);
          val = reg AND (hi + 1);
          c = c\<lparr>c_abs_addr := u16_from_le_bytes lo (reg AND (hi + 1))\<rparr>
      in write_fetched c val)"

definition op_sxa :: "cpu \<Rightarrow> cpu option" where "op_sxa c = store_and_high c (c_x c)"
definition op_sya :: "cpu \<Rightarrow> cpu option" where "op_sya c = store_and_high c (c_y c)"

definition op_rra :: "cpu \<Rightarrow> cpu option" where
  "op_rra c =
     do { c \<leftarrow> fetch_data c;
          c \<leftarrow> write_fetched c (c_fetched_data c);
          let ret = rotate_through_carry c;
          let c = set_status c FLAG_C (c_fetched_data c AND 1 > 0);
          let c = add_with_carry c ret;
          write_fetched c ret }"

definition op_tas :: "cpu \<Rightarrow> cpu option" where
  "op_tas c = do { c \<leftarrow> cpu_write c (c_abs_addr c) (c_acc c) AccWrite; Some (c\<lparr>c_sp := c_x c\<rparr>) }"

definition op_arr :: "cpu \<Rightarrow> cpu option" where
  "op_arr c =
     do { c \<leftarrow> fetch_data c;
          let c = c\<lparr>c_acc := c_acc c AND c_fetched_data c\<rparr>;
          let c = set_status c FLAG_V ((c_acc c XOR drop_bit 1 (c_acc c)) AND 0x40 = 0x40);
          let t = drop_bit 7 (c_acc c);
          let c = c\<lparr>c_acc := drop_bit 1 (c_acc c)\<rparr>;
          let c = c\<lparr>c_acc := c_acc c OR push_bit 7 (status_bit c FLAG_C)\<rparr>;
          let c = set_status c FLAG_C (t AND 0x01 = 0x01);
          Some (set_zn_status c (c_acc c)) }"

definition op_sre :: "cpu \<Rightarrow> cpu option" where
  "op_sre c =
     do { c \<leftarrow> fetch_data c;
          c \<leftarrow> write_fetched c (c_fetched_data c);
          let c = set_status c FLAG_C (c_fetched_data c AND 1 > 0);
          let val = drop_bit 1 (c_fetched_data c);
          let c = c\<lparr>c_acc := c_acc c XOR val\<rparr>;
          let c = set_zn_status c (c_acc c);
          write_fetched c val }"

definition op_alr :: "cpu \<Rightarrow> cpu option" where
  "op_alr c =
     do { c \<leftarrow> fetch_data c;
          let c = c\<lparr>c_acc := c_acc c AND c_fetched_data c\<rparr>;
          let c = set_status c FLAG_C (c_acc c AND 0x01 = 0x01);
          let c = c\<lparr>c_acc := drop_bit 1 (c_acc c)\<rparr>;
          Some (set_zn_status c (c_acc c)) }"

definition op_rla :: "cpu \<Rightarrow> cpu option" where
  "op_rla c =
     do { c \<leftarrow> fetch_data c;
          c \<leftarrow> write_fetched c (c_fetched_data c);
          let old_c = status_bit c FLAG_C;
          let c = set_status c FLAG_C (drop_bit 7 (c_fetched_data c) AND 1 > 0);
          let val = push_bit 1 (c_fetched_data c) OR old_c;
          let c = c\<lparr>c_acc := c_acc c AND val\<rparr>;
          let c = set_zn_status c (c_acc c);
          write_fetched c val }"

definition op_anc :: "cpu \<Rightarrow> cpu option" where
  "op_anc c =
     do { c \<leftarrow> fetch_data c;
          let c = c\<lparr>c_acc := c_acc c AND c_fetched_data c\<rparr>;
          let c = set_zn_status c (c_acc c);
          Some (set_status c FLAG_C (drop_bit 7 (c_acc c) AND 1 > 0)) }"

definition op_slo :: "cpu \<Rightarrow> cpu option" where
  "op_slo c =
     do { c \<leftarrow> fetch_data c;
          c \<leftarrow> write_fetched c (c_fetched_data c);
          let c = set_status c FLAG_C (drop_bit 7 (c_fetched_data c) AND 1 > 0);
          let val = push_bit 1 (c_fetched_data c);
          c \<leftarrow> write_fetched c val;
          let c = c\<lparr>c_acc := c_acc c OR val\<rparr>;
          Some (set_zn_status c (c_acc c)) }"

end
