(* ===== verification/CpuClock.thy ===== *)
theory CpuClock
  imports CpuOps
begin

text \<open>
  \<open>src/cpu.rs\<close>: one instruction of the 6502 (\<open>clock_inspect\<close>, \<open>clock\<close>) and reset. The closure of
  \<open>clock_inspect\<close> is the parameter \<open>inspect\<close>; the trace that a log level can switch on is left
  out of the step: it is in \<open>CpuDisasm\<close>, and only rewrites the \<open>disasm\<close> string.
\<close>

fun cpu_address :: "addr_mode \<Rightarrow> cpu \<Rightarrow> cpu option" where
  "cpu_address IMM c = am_imm c"
| "cpu_address ZP0 c = am_zp0 c"
| "cpu_address ZPX c = am_zpx c"
| "cpu_address ZPY c = am_zpy c"
| "cpu_address ABS c = am_abs c"
| "cpu_address ABX c = am_abx c"
| "cpu_address ABY c = am_aby c"
| "cpu_address IND c = am_ind c"
| "cpu_address IDX c = am_idx c"
| "cpu_address IDY c = am_idy c"
| "cpu_address REL c = am_rel c"
| "cpu_address ACC c = am_acc c"
| "cpu_address IMP c = am_imp c"

fun cpu_execute :: "operation \<Rightarrow> cpu \<Rightarrow> cpu option" where
  "cpu_execute ADC c = op_adc c"
| "cpu_execute AND' c = op_and c"
| "cpu_execute ASL c = op_asl c"
| "cpu_execute BCC c = op_bcc c"
| "cpu_execute BCS c = op_bcs c"
| "cpu_execute BEQ c = op_beq c"
| "cpu_execute BIT c = op_bit c"
| "cpu_execute BMI c = op_bmi c"
| "cpu_execute BNE c = op_bne c"
| "cpu_execute BPL c = op_bpl c"
| "cpu_execute BRK c = op_brk c"
| "cpu_execute BVC c = op_bvc c"
| "cpu_execute BVS c = op_bvs c"
| "cpu_execute CLC c = op_clc c"
| "cpu_execute CLD c = op_cld c"
| "cpu_execute CLI c = op_cli c"
| "cpu_execute CLV c = op_clv c"
| "cpu_execute CMP c = op_cmp c"
| "cpu_execute CPX c = op_cpx c"
| "cpu_execute CPY c = op_cpy c"
| "cpu_execute DEC c = op_dec c"
| "cpu_execute DEX c = op_dex c"
| "cpu_execute DEY c = op_dey c"
| "cpu_execute EOR c = op_eor c"
| "cpu_execute INC c = op_inc c"
| "cpu_execute INX c = op_inx c"
| "cpu_execute INY c = op_iny c"
| "cpu_execute JMP c = op_jmp c"
| "cpu_execute JSR c = op_jsr c"
| "cpu_execute LDA c = op_lda c"
| "cpu_execute LDX c = op_ldx c"
| "cpu_execute LDY c = op_ldy c"
| "cpu_execute LSR c = op_lsr c"
| "cpu_execute NOP c = op_nop c"
| "cpu_execute ORA c = op_ora c"
| "cpu_execute PHA c = op_pha c"
| "cpu_execute PHP c = op_php c"
| "cpu_execute PLA c = op_pla c"
| "cpu_execute PLP c = op_plp c"
| "cpu_execute ROL c = op_rol c"
| "cpu_execute ROR c = op_ror c"
| "cpu_execute RTI c = op_rti c"
| "cpu_execute RTS c = op_rts c"
| "cpu_execute SBC c = op_sbc c"
| "cpu_execute SEC c = op_sec c"
| "cpu_execute SED c = op_sed c"
| "cpu_execute SEI c = op_sei c"
| "cpu_execute STA c = op_sta c"
| "cpu_execute STX c = op_stx c"
| "cpu_execute STY c = op_sty c"
| "cpu_execute TAX c = op_tax c"
| "cpu_execute TAY c = op_tay c"
| "cpu_execute TSX c = op_tsx c"
| "cpu_execute TXA c = op_txa c"
| "cpu_execute TXS c = op_txs c"
| "cpu_execute TYA c = op_tya c"
| "cpu_execute SKB c = op_skb c"
| "cpu_execute IGN c = op_ign c"
| "cpu_execute ISB c = op_isb c"
| "cpu_execute DCP c = op_dcp c"
| "cpu_execute AXS c = op_axs c"
| "cpu_execute LAS c = op_las c"
| "cpu_execute LAX c = op_lax c"
| "cpu_execute AHX c = op_ahx c"
| "cpu_execute SAX c = op_sax c"
| "cpu_execute XAA c = op_xaa c"
| "cpu_execute SXA c = op_sxa c"
| "cpu_execute RRA c = op_rra c"
| "cpu_execute TAS c = op_tas c"
| "cpu_execute SYA c = op_sya c"
| "cpu_execute ARR c = op_arr c"
| "cpu_execute SRE c = op_sre c"
| "cpu_execute ALR c = op_alr c"
| "cpu_execute RLA c = op_rla c"
| "cpu_execute ANC c = op_anc c"
| "cpu_execute SLO c = op_slo c"
| "cpu_execute XXX c = op_xxx c"

text \<open>The first part of an instruction: its opcode and its operand's address.\<close>

definition cpu_decode :: "cpu \<Rightarrow> cpu option" where
  "cpu_decode c =
     do { (opcode, c) \<leftarrow> read_instr c;
          let c = c\<lparr>c_instr := instruction opcode\<rparr>;
          cpu_address (instr_addr_mode (c_instr c)) c }"

text \<open>The second half of the cycles when the emulation is not cycle accurate.\<close>

fun cb_clocks :: "nat \<Rightarrow> cpu_bus \<Rightarrow> cpu_bus option" where
  "cb_clocks 0 b = Some b"
| "cb_clocks (Suc n) b = do { b \<leftarrow> cb_clock b; cb_clocks n b }"

definition cpu_catch_up :: "cpu \<Rightarrow> usize \<Rightarrow> cpu option" where
  "cpu_catch_up c start_cycle =
     do { c \<leftarrow> cpu_bus_clock_to c;
          b \<leftarrow> cb_clocks (unat (c_cycle c - start_cycle)) (c_bus c);
          Some (cpu_handle_interrupts (c\<lparr>c_bus := b\<rparr>)) }"

definition cpu_clock_inspect :: "(cpu \<Rightarrow> cpu) \<Rightarrow> cpu \<Rightarrow> (usize \<times> cpu) option" where
  "cpu_clock_inspect inspect c =
     (let start_cycle = c_cycle c;
          c = inspect c
      in do { c \<leftarrow> cpu_decode c;
              c \<leftarrow> cpu_execute (instr_op (c_instr c)) c;
              c \<leftarrow> (if c_prev_run_irq c \<or> c_prev_nmi c then cpu_irq c else Some c);
              c \<leftarrow> (if \<not> c_cycle_accurate c then cpu_catch_up c start_cycle else Some c);
              Some (c_cycle c - start_cycle, c) })"

definition cpu_clock :: "cpu \<Rightarrow> (usize \<times> cpu) option" where
  "cpu_clock c = cpu_clock_inspect (\<lambda>c. c) c"

section \<open>Reset\<close>

fun reset_cycles :: "nat \<Rightarrow> cpu \<Rightarrow> cpu option" where
  "reset_cycles 0 c = Some c"
| "reset_cycles (Suc n) c =
     do { c \<leftarrow> cpu_start_cycle c ReadCycle; c \<leftarrow> cpu_end_cycle c ReadCycle; reset_cycles n c }"

definition cpu_reset :: "(nat \<Rightarrow> u8) \<Rightarrow> cpu \<Rightarrow> kind \<Rightarrow> cpu option" where
  "cpu_reset rng c k =
     (let c = (case k of
                 Soft \<Rightarrow> (let c = set_status c FLAG_I True in c\<lparr>c_sp := c_sp c - 0x03\<rparr>)
               | Hard \<Rightarrow> c\<lparr>c_acc := 0x00, c_x := 0x00, c_y := 0x00, c_status := POWER_ON_STATUS,
                           c_sp := POWER_ON_SP\<rparr>)
      in do { b \<leftarrow> cb_reset rng (c_bus c) k;
              let c = c\<lparr>c_bus := b, c_cycle := 0, c_master_clock := 0, c_irq := 0, c_run_irq := False,
                        c_prev_run_irq := False, c_nmi := False, c_prev_nmi := False,
                        c_prev_nmi_pending := False, c_corrupted := False, c_halt := False,
                        c_dummy_read := False\<rparr>;
              (lo, c) \<leftarrow> cpu_bus_read c RESET_VECTOR AccRead;
              (hi, c) \<leftarrow> cpu_bus_read c (RESET_VECTOR + 1) AccRead;
              let c = c\<lparr>c_pc := u16_from_le_bytes lo hi\<rparr>;
              reset_cycles 7 c })"

end
