(* ===== verification/Video.thy ===== *)
theory Video
  imports PpuFrame
begin

text \<open>
  \<open>src/video.rs\<close>: from the frame buffer of the PPU to the picture shown, four bytes for each pixel.
  One filter looks a colour up in the system palette, the other decodes the signal of a pixel and
  its left neighbour with a table. The integer part of that table is in the model: the samples of
  the modulator and their sums. Its end, gamma correction and the conversion to a byte in \<open>f64\<close>,
  is the parameter \<open>level\<close>, of which the source's \<open>clamp\<close> says that it is at most 255.
\<close>

section \<open>State\<close>

datatype video_filter = Pixellate | NtscFilter

record video =
  vd_filter :: video_filter
  vd_output :: "u8 list"

definition video_filter_as_slice :: "video_filter list" where
  "video_filter_as_slice = [Pixellate, NtscFilter]"

definition video_filter_from :: "nat \<Rightarrow> video_filter" where
  "video_filter_from value = (if value = 1 then NtscFilter else Pixellate)"

definition video_filter_name :: "video_filter \<Rightarrow> string" where
  "video_filter_name f = (case f of Pixellate \<Rightarrow> ''Pixellate'' | NtscFilter \<Rightarrow> ''NTSC'')"

definition video_new :: video where
  "video_new = \<lparr>vd_filter = NtscFilter, vd_output = concat (replicate PPU_SIZE [0, 0, 0, 255])\<rparr>"

definition video_set_filter :: "video \<Rightarrow> video_filter \<Rightarrow> video" where
  "video_set_filter v f = v\<lparr>vd_filter := f\<rparr>"

section \<open>The table of the decoder\<close>

definition VOLTAGES :: "int list" where
  "VOLTAGES = [-6, -69, 26, -59, 29, -55, 73, -40, 68, -17, 125, 11, 68, 33, 125, 78]"

text \<open>\<open>(cos * 5909.0) as i32\<close> and \<open>(sin * 5909.0) as i32\<close> for the angles of the twelve samples.\<close>

definition COS_5909 :: "int list" where
  "COS_5909 = [5909, 5117, 2954, 0, -2954, -5117, -5909, -5117, -2954, 0, 2954, 5117]"

definition SIN_5909 :: "int list" where
  "SIN_5909 = [0, 2954, 5117, 5909, 5117, 2954, 0, -2954, -5117, -5909, -5117, -2954]"

definition ntsc_sample_level :: "nat \<Rightarrow> nat \<Rightarrow> nat \<Rightarrow> nat \<Rightarrow> nat \<Rightarrow> int" where
  "ntsc_sample_level palette_offset channel color0 color1 sample =
     (let emphasis = color0 div 64;
          noise = (sample + palette_offset * 4) mod 12;
          pixel = (if noise < 6 - channel * 2 then color0 else color1);
          chroma = pixel AND 0x0F;
          luma = (if chroma < 0x0E then (pixel div 4) AND 12 else 4);
          limit = (if (chroma + 8 + sample) mod 12 < 6 then 12 else 0);
          high = (if chroma > limit then 1 else 0);
          emp_effect = (if drop_bit (sample div 2 * 3) 152278 AND emphasis > 0 then 0 else 2)
      in 40 + VOLTAGES ! (high + emp_effect + luma))"

definition ntsc_yiq :: "nat \<Rightarrow> nat \<Rightarrow> nat \<Rightarrow> nat \<Rightarrow> int \<times> int \<times> int" where
  "ntsc_yiq palette_offset channel color0 color1 =
     foldl (\<lambda>(y, i, q) sample.
         let level = ntsc_sample_level palette_offset channel color0 color1 sample
         in (y + level, i + level * COS_5909 ! sample, q + level * SIN_5909 ! sample))
       (0, 0, 0) [0..<12]"

definition NTSC_SIZE :: nat where "NTSC_SIZE = 512 * 64 * 3"

text \<open>The three channels of an entry, added to a word; each pass of the loops writes one index.\<close>

definition ntsc_entry :: "(nat \<Rightarrow> int \<times> int \<times> int \<Rightarrow> u32) \<Rightarrow> nat \<Rightarrow> nat \<Rightarrow> nat \<Rightarrow> u32" where
  "ntsc_entry level palette_offset color0 color1 =
     (let c = (\<lambda>channel. level channel (ntsc_yiq palette_offset channel color0 color1))
      in c 0 + 0x00100 * c 1 + 0x10000 * c 2)"

definition ntsc_palette :: "(nat \<Rightarrow> int \<times> int \<times> int \<Rightarrow> u32) \<Rightarrow> u32 list" where
  "ntsc_palette level =
     map (\<lambda>idx. ntsc_entry level (idx mod 3) (idx div (3 * 64)) (idx div 3 mod 64)) [0..<NTSC_SIZE]"

section \<open>The filters\<close>

text \<open>The loop over the pixels and the chunks of four bytes; the fourth byte stays.\<close>

fun video_store :: "(u8 \<times> u8 \<times> u8) list \<Rightarrow> u8 list \<Rightarrow> u8 list" where
  "video_store ((red, green, blue) # colors) (c0 # c1 # c2 # c3 # output) =
     red # green # blue # c3 # video_store colors output"
| "video_store colors output = output"

definition video_decode_buffer :: "video \<Rightarrow> u16 list \<Rightarrow> video option" where
  "video_decode_buffer v buffer =
     (if length buffer * 4 = length (vd_output v)
      then Some (v\<lparr>vd_output := video_store (map system_palette buffer) (vd_output v)\<rparr>) else None)"

text \<open>The colour of the pixel at \<open>idx\<close>; \<open>None\<close> for an index outside of the table.\<close>

definition ntsc_color :: "u32 list \<Rightarrow> u32 \<Rightarrow> nat \<Rightarrow> u32 \<Rightarrow> u16 \<Rightarrow> u32 option" where
  "ntsc_color palette frame_no idx prev_pixel pixel =
     (let x = idx mod 256
      in if x = 0 then Some 0
         else let y = idx div 256;
                  even_phase = (if frame_no AND 0x01 = 0x01 then 0 else 1);
                  phase = (2 + y * 341 + x + even_phase) mod 3
              in vec_get palette (phase + unat (prev_pixel AND 0x3F) * 3 + unat pixel * 3 * 64))"

fun ntsc_colors :: "u32 list \<Rightarrow> u32 \<Rightarrow> nat \<Rightarrow> u32 \<Rightarrow> u16 list \<Rightarrow> u32 list option" where
  "ntsc_colors palette frame_no idx prev_pixel [] = Some []"
| "ntsc_colors palette frame_no idx prev_pixel (pixel # buffer) =
     do { color \<leftarrow> ntsc_color palette frame_no idx prev_pixel pixel;
          colors \<leftarrow> ntsc_colors palette frame_no (idx + 1) (ucast pixel) buffer;
          Some (color # colors) }"

definition rgb_bytes :: "u32 \<Rightarrow> u8 \<times> u8 \<times> u8" where
  "rgb_bytes color = (ucast (drop_bit 16 color AND 0xFF), ucast (drop_bit 8 color AND 0xFF), ucast (color AND 0xFF))"

definition video_apply_ntsc_filter :: "u32 list \<Rightarrow> video \<Rightarrow> u16 list \<Rightarrow> u32 \<Rightarrow> video option" where
  "video_apply_ntsc_filter palette v buffer frame_no =
     (if length buffer * 4 = length (vd_output v)
      then do { colors \<leftarrow> ntsc_colors palette frame_no 0 0 buffer;
                Some (v\<lparr>vd_output := video_store (map rgb_bytes colors) (vd_output v)\<rparr>) }
      else None)"

definition video_apply_filter :: "u32 list \<Rightarrow> video \<Rightarrow> u16 list \<Rightarrow> u32 \<Rightarrow> video option" where
  "video_apply_filter palette v buffer frame_no =
     (case vd_filter v of
        Pixellate \<Rightarrow> video_decode_buffer v buffer
      | NtscFilter \<Rightarrow> video_apply_ntsc_filter palette v buffer frame_no)"

section \<open>The picture\<close>

text \<open>The picture has all pixels, opaque.\<close>

definition video_wf :: "video \<Rightarrow> bool" where
  "video_wf v \<longleftrightarrow> length (vd_output v) = 4 * PPU_SIZE \<and> (\<forall>i<PPU_SIZE. vd_output v ! (4 * i + 3) = 255)"

lemma opaque_nth:
  "i < n \<Longrightarrow> concat (replicate n [0, 0, 0, 255 :: u8]) ! (4 * i + 3) = 255"
  "length (concat (replicate n [0, 0, 0, 255 :: u8])) = 4 * n"
proof -
  show "length (concat (replicate n [0, 0, 0, 255 :: u8])) = 4 * n" by (induction n) simp_all
  show "i < n \<Longrightarrow> concat (replicate n [0, 0, 0, 255 :: u8]) ! (4 * i + 3) = 255"
  proof (induction n arbitrary: i)
    case (Suc n)
    then show ?case by (cases i) (simp_all add: numeral_3_eq_3)
  qed simp
qed

lemma video_new_wf: "video_wf video_new"
  by (simp add: video_wf_def video_new_def opaque_nth)

text \<open>What the stores leave in the output.\<close>

lemma video_store_nth:
  assumes "length out = 4 * length cs" and "i < length cs"
  shows "video_store cs out ! (4 * i) = fst (cs ! i)" "video_store cs out ! (4 * i + 1) = fst (snd (cs ! i))"
    "video_store cs out ! (4 * i + 2) = snd (snd (cs ! i))" "video_store cs out ! (4 * i + 3) = out ! (4 * i + 3)"
proof -
  have "video_store cs out ! (4 * i) = fst (cs ! i) \<and> video_store cs out ! (4 * i + 1) = fst (snd (cs ! i))
    \<and> video_store cs out ! (4 * i + 2) = snd (snd (cs ! i)) \<and> video_store cs out ! (4 * i + 3) = out ! (4 * i + 3)"
    using assms
  proof (induction cs out arbitrary: i rule: video_store.induct)
    case (1 red green blue colors c0 c1 c2 c3 rest)
    then show ?case by (cases i) (simp_all add: numeral_3_eq_3 numeral_2_eq_2)
  qed auto
  then show "video_store cs out ! (4 * i) = fst (cs ! i)" "video_store cs out ! (4 * i + 1) = fst (snd (cs ! i))"
    "video_store cs out ! (4 * i + 2) = snd (snd (cs ! i))" "video_store cs out ! (4 * i + 3) = out ! (4 * i + 3)"
    by blast+
qed

lemma length_video_store [simp]: "length (video_store cs out) = length out"
  by (induction cs out rule: video_store.induct) simp_all

end
