(* ===== verification/VideoProps.thy ===== *)
theory VideoProps
  imports Video
begin

text \<open>
  Properties of the picture filters: every pixel of a frame reaches its four bytes, the table is
  indexed in range, and what its entries are.
\<close>

section \<open>The constants of the demodulator\<close>

text \<open>The source multiplies sine and cosine by 5909 and cuts the fraction off.\<close>

definition to_i32 :: "real \<Rightarrow> int" where
  "to_i32 x = (if 0 \<le> x then \<lfloor>x\<rfloor> else - \<lfloor>- x\<rfloor>)"

lemma root3_5909: "\<lfloor>5909 * sqrt 3 / 2\<rfloor> = 5117"
proof (rule floor_unique)
  have "5117 * 2 / 5909 \<le> sqrt 3" by (rule real_le_rsqrt) (simp add: power2_eq_square)
  then show "of_int 5117 \<le> 5909 * sqrt 3 / 2" by simp
  have "sqrt 3 < 5118 * 2 / 5909" by (rule real_less_lsqrt) (simp_all add: power2_eq_square)
  then show "5909 * sqrt 3 / 2 < of_int 5117 + 1" by simp
qed

lemma quarter_turns:
  "cos (pi * real (n + 3) / 6) = - sin (pi * real n / 6)" "sin (pi * real (n + 3) / 6) = cos (pi * real n / 6)"
proof -
  have "pi * real (n + 3) / 6 = pi * real n / 6 + pi / 2" by (simp add: field_simps)
  then show "cos (pi * real (n + 3) / 6) = - sin (pi * real n / 6)" "sin (pi * real (n + 3) / 6) = cos (pi * real n / 6)"
    by (simp_all only: cos_add sin_add cos_pi_half sin_pi_half mult_zero_right mult_1_right diff_0 add_0 add_0_right)
qed

lemma to_i32_minus: "to_i32 (- x) = - to_i32 x"
  by (auto simp: to_i32_def)

lemma demodulator_constants:
  assumes "n < 12"
  shows "COS_5909 ! n = to_i32 (5909 * cos (pi * real n / 6))" and "SIN_5909 ! n = to_i32 (5909 * sin (pi * real n / 6))"
proof -
  have base: "to_i32 0 = 0" "to_i32 5909 = 5909" "to_i32 (5909 / 2) = 2954" "to_i32 (5909 * sqrt 3 / 2) = 5117"
    using root3_5909 by (simp_all add: to_i32_def)
  have b: "to_i32 (5909 * cos (pi * real n / 6)) = [5909, 5117, 2954] ! n \<and> to_i32 (5909 * sin (pi * real n / 6)) = [0, 2954, 5117] ! n"
    if "n < 3" for n
  proof -
    have "n = 0 \<or> n = 1 \<or> n = 2" using that by auto
    then show ?thesis using base by (auto simp: cos_60 sin_60 cos_30 sin_30)
  qed
  have step: "to_i32 (5909 * cos (pi * real (n + 3) / 6)) = - to_i32 (5909 * sin (pi * real n / 6))"
    "to_i32 (5909 * sin (pi * real (n + 3) / 6)) = to_i32 (5909 * cos (pi * real n / 6))" for n
    unfolding quarter_turns by (simp_all add: to_i32_minus)
  have "n = 0 \<or> n = 1 \<or> n = 2 \<or> n = 0 + 3 \<or> n = 1 + 3 \<or> n = 2 + 3 \<or> n = 0 + 3 + 3 \<or> n = 1 + 3 + 3 \<or> n = 2 + 3 + 3
      \<or> n = 0 + 3 + 3 + 3 \<or> n = 1 + 3 + 3 + 3 \<or> n = 2 + 3 + 3 + 3"
    using assms by presburger
  then have "COS_5909 ! n = to_i32 (5909 * cos (pi * real n / 6)) \<and> SIN_5909 ! n = to_i32 (5909 * sin (pi * real n / 6))"
    by (elim disjE; hypsubst; simp only: step b; simp add: COS_5909_def SIN_5909_def)
  then show "COS_5909 ! n = to_i32 (5909 * cos (pi * real n / 6))" "SIN_5909 ! n = to_i32 (5909 * sin (pi * real n / 6))"
    by blast+
qed

section \<open>Pixels\<close>

lemma ntsc_palette_nth:
  assumes "a < 3" and "c0 < 512" and "c1 < 64"
  shows "vec_get (ntsc_palette level) (a + c1 * 3 + c0 * 3 * 64) = Some (ntsc_entry level a c0 c1)"
proof -
  let ?i = "a + c1 * 3 + c0 * 3 * 64"
  have r: "a + c1 * 3 < 192" using assms(1,3) by linarith
  then have b: "?i < NTSC_SIZE" using assms(2) unfolding NTSC_SIZE_def by linarith
  have i: "?i = (a + c1 * 3) + 192 * c0" by simp
  have "?i div 192 = c0" unfolding i using r by simp
  moreover have "?i mod 3 = a" using assms(1) by (simp add: mod_add_eq [symmetric] mod_mult_right_eq)
  moreover have "?i div 3 mod 64 = c1"
  proof -
    have "?i = a + 3 * (c1 + 64 * c0)" by simp
    then have "?i div 3 = c1 + 64 * c0" using assms(1) by (simp only: div_mult_self2 div_less add_0)
    then show ?thesis using assms(3) by simp
  qed
  ultimately show ?thesis using b by (simp add: ntsc_palette_def del: mult_Suc_right)
qed

lemma ntsc_color_pixel:
  assumes "unat pixel < 512" and "i mod 256 = 0 \<or> prev = ucast p"
  shows "ntsc_color (ntsc_palette level) n i prev pixel = Some (if i mod 256 = 0 then 0
      else ntsc_entry level ((2 + i div 256 * 341 + i mod 256 + (if odd n then 0 else 1)) mod 3) (unat pixel)
             (unat (p :: u16) mod 64))"
proof -
  have "n AND 1 = (if odd n then 1 else 0)" by (simp add: and_one_eq mod2_eq_if)
  moreover have "unat (ucast p AND 0x3F :: u32) = unat p mod 64"
  proof -
    have "(2 :: nat) ^ 6 - 1 = 0x3F" "(2 :: nat) ^ 6 = 64" "unat (0x3F :: u32) = 0x3F" by simp_all
    moreover have "unat (ucast p :: u32) = unat p" by (simp add: unsigned_ucast_eq take_bit_nat_eq_self_iff less_trans [OF unat_u16_less])
    ultimately show ?thesis
      using unsigned_and_eq [of "ucast p :: u32" "0x3F", where 'a = nat] nat_and_mask [of "unat p" 6] by (simp only:)
  qed
  ultimately show ?thesis
    using assms ntsc_palette_nth [of "(2 + i div 256 * 341 + i mod 256 + (if odd n then 0 else 1)) mod 3" "unat pixel"
        "unat p mod 64" level]
    by (auto simp: ntsc_color_def Let_def)
qed

lemma ntsc_colors_spec:
  assumes "\<forall>c\<in>set buffer. unat c < 512" and "i mod 256 = 0 \<or> prev = ucast p"
  shows "returns (ntsc_colors (ntsc_palette level) n i prev buffer) (\<lambda>cs. length cs = length buffer
    \<and> (\<forall>k<length buffer. cs ! k = (if (i + k) mod 256 = 0 then 0
        else ntsc_entry level ((2 + (i + k) div 256 * 341 + (i + k) mod 256 + (if odd n then 0 else 1)) mod 3)
               (unat (buffer ! k)) (unat ((p # buffer) ! k) mod 64))))"
  using assms
proof (induction buffer arbitrary: i prev p)
  case (Cons c buffer)
  have "returns (ntsc_colors (ntsc_palette level) n (i + 1) (ucast c) buffer) (\<lambda>cs. length cs = length buffer
    \<and> (\<forall>k<length buffer. cs ! k = (if (i + 1 + k) mod 256 = 0 then 0
        else ntsc_entry level ((2 + (i + 1 + k) div 256 * 341 + (i + 1 + k) mod 256 + (if odd n then 0 else 1)) mod 3)
               (unat (buffer ! k)) (unat ((c # buffer) ! k) mod 64))))"
    using Cons.prems(1) by (intro Cons.IH) auto
  moreover have "ntsc_color (ntsc_palette level) n i prev c = Some (if i mod 256 = 0 then 0
      else ntsc_entry level ((2 + i div 256 * 341 + i mod 256 + (if odd n then 0 else 1)) mod 3) (unat c)
             (unat p mod 64))"
    using Cons.prems by (intro ntsc_color_pixel) auto
  ultimately show ?case
    by (auto simp: less_Suc_eq_0_disj elim!: returns_mono)
qed simp

text \<open>The three channels of a table entry do not run into each other.\<close>

lemma rgb_bytes_sum:
  fixes r g b :: u32
  assumes "unat r \<le> 255" and "unat g \<le> 255" and "unat b \<le> 255"
  shows "rgb_bytes (b + 0x100 * g + 0x10000 * r) = (ucast r, ucast g, ucast b)"
proof -
  let ?x = "b + 0x100 * g + 0x10000 * r"
  have u: "unat ?x = unat b + 256 * unat g + 65536 * unat r"
    using assms by (simp add: unat_word_ariths)
  have m: "unat (w AND 0xFF) = unat w mod 256" for w :: u32
  proof -
    have "(2 :: nat) ^ 8 - 1 = 0xFF" "(2 :: nat) ^ 8 = 256" "unat (0xFF :: u32) = 0xFF" by simp_all
    then show ?thesis using unsigned_and_eq [of w "0xFF", where 'a = nat] nat_and_mask [of "unat w" 8] by (simp only:)
  qed
  have d: "unat (drop_bit n ?x) = unat ?x div 2 ^ n" for n
    by (simp only: unat_drop_bit_eq) (simp only: drop_bit_eq_div)
  have "unat ?x mod 256 = unat b" "unat ?x div 2 ^ 8 mod 256 = unat g" "unat ?x div 2 ^ 16 mod 256 = unat r"
  proof -
    define d where "d = unat g + 256 * unat r"
    have e: "unat b + 256 * unat g + 65536 * unat r = unat b + 256 * d" by (simp add: d_def)
    have lt: "unat b < 256" "unat g < 256" "unat r < 256" using assms by simp_all
    have low: "unat ?x mod 256 = unat b" "unat ?x div 256 = d" unfolding u e using lt by simp_all
    have "unat ?x div 65536 = d div 256" using div_mult2_eq [of "unat ?x" 256 256] low(2) by simp
    moreover have "d mod 256 = unat g" "d div 256 = unat r" unfolding d_def using lt by simp_all
    ultimately show "unat ?x mod 256 = unat b" "unat ?x div 2 ^ 8 mod 256 = unat g" "unat ?x div 2 ^ 16 mod 256 = unat r"
      using low lt by simp_all
  qed
  then have "?x AND 0xFF = b" "drop_bit 8 ?x AND 0xFF = g" "drop_bit 16 ?x AND 0xFF = r"
    by (simp_all only: word_unat_eq_iff m d)
  then show ?thesis by (simp add: rgb_bytes_def)
qed

lemma video_store_chunk:
  assumes "length out = 4 * length cs" and "i < length cs"
  shows "take 4 (drop (4 * i) (video_store cs out)) = [fst (cs ! i), fst (snd (cs ! i)), snd (snd (cs ! i)), out ! (4 * i + 3)]"
proof -
  have "length (take 4 (drop (4 * i) (video_store cs out))) = 4" using assms by simp
  moreover have "take 4 (drop (4 * i) (video_store cs out)) ! k = video_store cs out ! (4 * i + k)" if "k < 4" for k
    using that assms by simp
  ultimately show ?thesis
    using video_store_nth [OF assms] by (intro nth_equalityI) (auto simp: less_Suc_eq numeral_eq_Suc)
qed

text \<open>The four bytes that stand for pixel \<open>i\<close> of a frame.\<close>

definition picture_bytes :: "(nat \<Rightarrow> int \<times> int \<times> int \<Rightarrow> u32) \<Rightarrow> video_filter \<Rightarrow> u32 \<Rightarrow> u16 list \<Rightarrow> nat \<Rightarrow> u8 list" where
  "picture_bytes level f n buffer i =
     (case f of
        Pixellate \<Rightarrow> (case system_palette (buffer ! i) of (red, green, blue) \<Rightarrow> [red, green, blue, 255])
      | NtscFilter \<Rightarrow>
          if i mod 256 = 0 then [0, 0, 0, 255]
          else let phase = (2 + i div 256 * 341 + i mod 256 + (if odd n then 0 else 1)) mod 3;
                   c = (\<lambda>ch. ucast (level ch (ntsc_yiq phase ch (unat (buffer ! i)) (unat (buffer ! (i - 1)) mod 64))))
               in [c 2, c 1, c 0, 255])"

text \<open>Either filter turns a frame of the PPU into a picture without a panic: every pixel keeps its
  place, is opaque, and has the colour of the system palette or, with the other filter, the levels
  that the demodulator gives for the pixel and its left neighbour at the phase of its place.\<close>

lemma video_picture:
  assumes "video_wf v" and "frame_wf fr" and "\<forall>ch x. unat (level ch x) \<le> 255"
  shows "returns (video_apply_filter (ntsc_palette level) v (fr_front fr) n) (\<lambda>v'. video_wf v' \<and> vd_filter v' = vd_filter v
    \<and> (\<forall>i<PPU_SIZE. take 4 (drop (4 * i) (vd_output v')) = picture_bytes level (vd_filter v) n (fr_front fr) i))"
proof -
  let ?b = "fr_front fr"
  have b: "length ?b = PPU_SIZE" "\<forall>c\<in>set ?b. unat c < 512" using assms(2) by (simp_all add: frame_wf_def pixels_wf_def)
  have out: "length (vd_output v) = 4 * PPU_SIZE" "\<And>i. i < PPU_SIZE \<Longrightarrow> vd_output v ! (4 * i + 3) = 255"
    using assms(1) by (simp_all add: video_wf_def)
  have wf: "video_wf (v\<lparr>vd_output := video_store cs (vd_output v)\<rparr>)" if "length cs = PPU_SIZE" for cs
    using out that video_store_nth(4) [of "vd_output v" cs] by (simp add: video_wf_def)
  have chunk: "take 4 (drop (4 * i) (video_store cs (vd_output v))) = [fst (cs ! i), fst (snd (cs ! i)), snd (snd (cs ! i)), 255]"
    if "length cs = PPU_SIZE" "i < PPU_SIZE" for cs i
    using video_store_chunk [of "vd_output v" cs i] that out by simp
  show ?thesis
  proof (cases "vd_filter v")
    case Pixellate
    then show ?thesis
      using b out wf [of "map system_palette ?b"] chunk [of "map system_palette ?b"]
      by (simp add: video_apply_filter_def video_decode_buffer_def picture_bytes_def split_beta)
  next
    case NtscFilter
    obtain cs where cs: "ntsc_colors (ntsc_palette level) n 0 0 ?b = Some cs" "length cs = PPU_SIZE"
      "\<And>k. k < PPU_SIZE \<Longrightarrow> cs ! k = (if k mod 256 = 0 then 0
        else ntsc_entry level ((2 + k div 256 * 341 + k mod 256 + (if odd n then 0 else 1)) mod 3)
               (unat (?b ! k)) (unat ((0 # ?b) ! k) mod 64))"
      using returnsD [OF ntsc_colors_spec [OF b(2), of 0 0 0 level n]] b(1) by auto
    have rgb: "rgb_bytes (ntsc_entry level a c0 c1) = (ucast (level 2 (ntsc_yiq a 2 c0 c1)),
        ucast (level 1 (ntsc_yiq a 1 c0 c1)), ucast (level 0 (ntsc_yiq a 0 c0 c1)))" for a c0 c1
      unfolding ntsc_entry_def Let_def by (rule rgb_bytes_sum) (simp_all add: assms(3))
    have zero: "rgb_bytes 0 = (0, 0, 0)" by (simp add: rgb_bytes_def)
    have prev: "(0 # ?b) ! k = ?b ! (k - 1)" if "k mod 256 \<noteq> 0" for k using that by (cases k) auto
    have "take 4 (drop (4 * i) (video_store (map rgb_bytes cs) (vd_output v))) = picture_bytes level NtscFilter n ?b i"
      if "i < PPU_SIZE" for i
      using chunk [of "map rgb_bytes cs" i] cs(2,3) that
      by (auto simp: picture_bytes_def rgb zero prev Let_def)
    then show ?thesis
      using NtscFilter b out cs(1,2) wf [of "map rgb_bytes cs"]
      by (simp add: video_apply_filter_def video_apply_ntsc_filter_def)
  qed
qed

lemma video_picture_sample:
  "returns (video_apply_filter (ntsc_palette (\<lambda>_ _. 7)) video_new (fr_front frame_new) 1)
    (\<lambda>v'. take 4 (drop (4 * 300) (vd_output v')) = [7, 7, 7, 255])"
proof -
  have "300 < PPU_SIZE" by (simp add: PPU_SIZE_eq)
  then show ?thesis
    using video_picture [OF video_new_wf frame_wf_ops(1), of "\<lambda>_ _. 7" 1]
    by (auto simp: picture_bytes_def video_new_def Let_def elim!: returns_mono)
qed

end
