(* ===== verification/ControlDeck.thy ===== *)
theory ControlDeck
  imports CpuClock VideoProps
begin

text \<open>
  \<open>src/control_deck.rs\<close>: the console as the application drives it: loading a ROM, reset, and
  running for one instruction, a frame, a scanline or a number of seconds, and the picture of the
  last frame. The table of the picture filter is the argument \<open>palette\<close>. The \<open>f32\<close> arithmetic on
  \<open>cycles_remaining\<close> is exact arithmetic followed by \<open>rnd\<close>, the rounding of the hardware, which is
  a parameter. A loop that does not end, or a panic, is \<open>None\<close>.
\<close>

section \<open>State\<close>

record control_deck =
  cd_running :: bool
  cd_ram_state :: ram_state
  cd_region :: nes_region
  cd_video :: video
  cd_loaded_rom :: "string option"
  cd_cycles_remaining :: rat
  cd_cpu :: cpu

datatype deck_error = CpuCorrupted | LoadError cart_error

text \<open>\<open>ControlFlow\<close>.\<close>

datatype control_flow = Break usize | Continue usize

definition deck_new :: "(nat \<Rightarrow> u8) \<Rightarrow> ram_state \<Rightarrow> control_deck" where
  "deck_new rng ram_state =
     \<lparr>cd_running = False, cd_ram_state = ram_state, cd_region = Ntsc, cd_video = video_new,
      cd_loaded_rom = None, cd_cycles_remaining = 0, cd_cpu = cpu_new (cpu_bus_new rng ram_state)\<rparr>"

definition deck_set_region :: "control_deck \<Rightarrow> nes_region \<Rightarrow> control_deck" where
  "deck_set_region d region = d\<lparr>cd_region := region, cd_cpu := cpu_set_region (cd_cpu d) region\<rparr>"

definition deck_reset :: "(nat \<Rightarrow> u8) \<Rightarrow> control_deck \<Rightarrow> kind \<Rightarrow> control_deck option" where
  "deck_reset rng d k =
     do { c \<leftarrow> cpu_reset rng (cd_cpu d) k; Some (d\<lparr>cd_cpu := c, cd_running := True\<rparr>) }"

text \<open>\<open>rng\<close> and \<open>rngs\<close> are the random bytes of the work RAM and of the memories of the cartridge;
  \<open>region_of\<close> is the region database. An error leaves the changed state.\<close>

definition deck_load_rom ::
    "(nat \<Rightarrow> u8) \<Rightarrow> (nat \<Rightarrow> nat \<Rightarrow> u8) \<Rightarrow> (u8 list \<Rightarrow> nes_region) \<Rightarrow> control_deck \<Rightarrow> string
       \<Rightarrow> u8 list \<Rightarrow> ((deck_error + unit) \<times> control_deck) option" where
  "deck_load_rom rng rngs region_of d name rom =
     (let d = d\<lparr>cd_loaded_rom := Some name\<rparr>
      in do { r \<leftarrow> cart_from_rom rngs region_of name rom (cd_ram_state d);
              case r of
                Inl e \<Rightarrow> Some (Inl (LoadError e), d)
              | Inr (m, cart) \<Rightarrow>
                  do { let d = deck_set_region d (cart_region cart);
                       let d = d\<lparr>cd_cpu := cpu_load_cart (cd_cpu d) m cart\<rparr>;
                       d \<leftarrow> deck_reset rng d Hard;
                       Some (Inr (), d) } })"

definition deck_load_cpu :: "control_deck \<Rightarrow> cpu \<Rightarrow> control_deck" where
  "deck_load_cpu d c = d\<lparr>cd_cpu := c\<rparr>"

text \<open>\<open>frame_buffer\<close> filters the last complete frame and returns the picture.\<close>

definition deck_frame_buffer :: "u32 list \<Rightarrow> control_deck \<Rightarrow> (u8 list \<times> control_deck) option" where
  "deck_frame_buffer palette d =
     (let fr = pp_frame (cb_ppu (c_bus (cd_cpu d)))
      in do { v \<leftarrow> video_apply_filter palette (cd_video d) (fr_front fr) (frame_number fr);
              Some (vd_output v, d\<lparr>cd_video := v\<rparr>) })"

definition deck_set_filter :: "control_deck \<Rightarrow> video_filter \<Rightarrow> control_deck" where
  "deck_set_filter d f = d\<lparr>cd_video := video_set_filter (cd_video d) f\<rparr>"

text \<open>Operations handed down to the bus.\<close>

definition deck_on_bus :: "(cpu_bus \<Rightarrow> cpu_bus) \<Rightarrow> control_deck \<Rightarrow> control_deck" where
  "deck_on_bus f d = d\<lparr>cd_cpu := (cd_cpu d)\<lparr>c_bus := f (c_bus (cd_cpu d))\<rparr>\<rparr>"

definition deck_load_sram :: "control_deck \<Rightarrow> u8 list \<Rightarrow> control_deck" where
  "deck_load_sram d sram = deck_on_bus (\<lambda>b. cb_load_sram b sram) d"

definition deck_clear_audio_samples :: "control_deck \<Rightarrow> control_deck" where
  "deck_clear_audio_samples d = deck_on_bus (\<lambda>b. b\<lparr>cb_audio_samples := []\<rparr>) d"

definition deck_set_four_player :: "control_deck \<Rightarrow> four_player \<Rightarrow> control_deck" where
  "deck_set_four_player d fp = deck_on_bus (\<lambda>b. cb_set_four_player b fp) d"

definition deck_trigger_zapper :: "control_deck \<Rightarrow> control_deck" where
  "deck_trigger_zapper d =
     deck_on_bus (\<lambda>b. b\<lparr>cb_input := (cb_input b)\<lparr>in_zapper := zapper_trigger (in_zapper (cb_input b))\<rparr>\<rparr>) d"

definition deck_aim_zapper :: "control_deck \<Rightarrow> u32 \<Rightarrow> u32 \<Rightarrow> control_deck" where
  "deck_aim_zapper d x y =
     deck_on_bus (\<lambda>b. b\<lparr>cb_input := (cb_input b)\<lparr>in_zapper := zapper_aim (in_zapper (cb_input b)) x y\<rparr>\<rparr>) d"

definition deck_connect_zapper :: "control_deck \<Rightarrow> bool \<Rightarrow> control_deck" where
  "deck_connect_zapper d enabled =
     deck_on_bus (\<lambda>b. b\<lparr>cb_input := input_connect_zapper (cb_input b) enabled\<rparr>) d"

definition deck_add_genie_code :: "control_deck \<Rightarrow> string \<Rightarrow> genie_error + control_deck" where
  "deck_add_genie_code d code =
     (case cb_add_genie_code (c_bus (cd_cpu d)) code of
        Inl e \<Rightarrow> Inl e
      | Inr b \<Rightarrow> Inr (deck_on_bus (\<lambda>_. b) d))"

definition deck_remove_genie_code :: "control_deck \<Rightarrow> string \<Rightarrow> control_deck" where
  "deck_remove_genie_code d code = deck_on_bus (\<lambda>b. cb_remove_genie_code b code) d"

definition deck_toggle_channel :: "control_deck \<Rightarrow> channel \<Rightarrow> control_deck" where
  "deck_toggle_channel d ch = deck_on_bus (\<lambda>b. b\<lparr>cb_apu := apu_toggle_channel (cb_apu b) ch\<rparr>) d"

definition deck_set_cycle_accurate :: "control_deck \<Rightarrow> bool \<Rightarrow> control_deck" where
  "deck_set_cycle_accurate d enabled = d\<lparr>cd_cpu := (cd_cpu d)\<lparr>c_cycle_accurate := enabled\<rparr>\<rparr>"

definition deck_frame_number :: "control_deck \<Rightarrow> u32" where
  "deck_frame_number d = frame_number (pp_frame (cb_ppu (c_bus (cd_cpu d))))"

definition deck_clock_rate :: "control_deck \<Rightarrow> rat" where
  "deck_clock_rate d = region_clock_rate (c_region (cd_cpu d))"

definition deck_cpu_corrupted :: "control_deck \<Rightarrow> bool" where
  "deck_cpu_corrupted d = c_corrupted (cd_cpu d)"

section \<open>Running\<close>

definition deck_clock :: "control_deck \<Rightarrow> (usize \<times> control_deck) option" where
  "deck_clock d = do { (cycles, c) \<leftarrow> cpu_clock (cd_cpu d); Some (cycles, d\<lparr>cd_cpu := c\<rparr>) }"

definition deck_clock_instr :: "control_deck \<Rightarrow> ((deck_error + control_flow) \<times> control_deck) option" where
  "deck_clock_instr d =
     do { (cycles, d) \<leftarrow> deck_clock d;
          Some (if deck_cpu_corrupted d then Inl CpuCorrupted else Inr (Continue cycles), d) }"

partial_function (option) seconds_loop ::
    "(rat \<Rightarrow> rat) \<Rightarrow> usize \<Rightarrow> control_deck \<Rightarrow> ((deck_error + control_flow) \<times> control_deck) option" where
  "seconds_loop rnd total_cycles d =
     (if cd_cycles_remaining d > 0 then
        Option.bind (deck_clock_instr d) (\<lambda>(r, d).
          case r of
            Inl e \<Rightarrow> Some (Inl e, d)
          | Inr (Break cycles) \<Rightarrow>
              Some (Inr (Break (total_cycles + cycles)),
                d\<lparr>cd_cycles_remaining := rnd (cd_cycles_remaining d - rnd (of_nat (unat cycles)))\<rparr>)
          | Inr (Continue cycles) \<Rightarrow>
              seconds_loop rnd (total_cycles + cycles)
                (d\<lparr>cd_cycles_remaining := rnd (cd_cycles_remaining d - rnd (of_nat (unat cycles)))\<rparr>))
      else Some (Inr (Continue total_cycles), d))"

definition deck_clock_seconds ::
    "(rat \<Rightarrow> rat) \<Rightarrow> control_deck \<Rightarrow> rat \<Rightarrow> ((deck_error + control_flow) \<times> control_deck) option" where
  "deck_clock_seconds rnd d seconds =
     seconds_loop rnd 0
       (d\<lparr>cd_cycles_remaining := rnd (cd_cycles_remaining d + rnd (deck_clock_rate d * seconds))\<rparr>)"

partial_function (option) inspect_loop ::
    "(rat \<Rightarrow> rat) \<Rightarrow> (cpu \<Rightarrow> cpu) \<Rightarrow> usize \<Rightarrow> control_deck \<Rightarrow> (usize \<times> control_deck) option" where
  "inspect_loop rnd inspect total_cycles d =
     (if cd_cycles_remaining d > 0 then
        Option.bind (cpu_clock_inspect inspect (cd_cpu d)) (\<lambda>(cycles, c).
          inspect_loop rnd inspect (total_cycles + cycles)
            (d\<lparr>cd_cpu := c,
               cd_cycles_remaining := rnd (cd_cycles_remaining d - rnd (of_nat (unat cycles)))\<rparr>))
      else Some (total_cycles, d))"

definition deck_clock_seconds_inspect ::
    "(rat \<Rightarrow> rat) \<Rightarrow> (cpu \<Rightarrow> cpu) \<Rightarrow> control_deck \<Rightarrow> rat
       \<Rightarrow> ((deck_error + control_flow) \<times> control_deck) option" where
  "deck_clock_seconds_inspect rnd inspect d seconds =
     do { (total_cycles, d) \<leftarrow> inspect_loop rnd inspect 0
            (d\<lparr>cd_cycles_remaining := rnd (cd_cycles_remaining d + rnd (deck_clock_rate d * seconds))\<rparr>);
          Some (Inr (Continue total_cycles), d) }"

partial_function (option) frame_loop ::
    "u32 \<Rightarrow> usize \<Rightarrow> control_deck \<Rightarrow> ((deck_error + control_flow) \<times> control_deck) option" where
  "frame_loop frame total_cycles d =
     (if frame = deck_frame_number d then
        Option.bind (deck_clock_instr d) (\<lambda>(r, d).
          case r of
            Inl e \<Rightarrow> Some (Inl e, d)
          | Inr (Break cycles) \<Rightarrow> Some (Inr (Break (total_cycles + cycles)), d)
          | Inr (Continue cycles) \<Rightarrow> frame_loop frame (total_cycles + cycles) d)
      else Some (Inr (Continue total_cycles), d))"

definition deck_clock_frame :: "control_deck \<Rightarrow> ((deck_error + control_flow) \<times> control_deck) option" where
  "deck_clock_frame d = frame_loop (deck_frame_number d) 0 d"

definition deck_scanline :: "control_deck \<Rightarrow> u32" where
  "deck_scanline d = pp_scanline (cb_ppu (c_bus (cd_cpu d)))"

partial_function (option) scanline_loop ::
    "u32 \<Rightarrow> usize \<Rightarrow> control_deck \<Rightarrow> ((deck_error + control_flow) \<times> control_deck) option" where
  "scanline_loop current_scanline total_cycles d =
     (if current_scanline = deck_scanline d then
        Option.bind (deck_clock_instr d) (\<lambda>(r, d).
          case r of
            Inl e \<Rightarrow> Some (Inl e, d)
          | Inr (Break cycles) \<Rightarrow> Some (Inr (Break (total_cycles + cycles)), d)
          | Inr (Continue cycles) \<Rightarrow> scanline_loop current_scanline (total_cycles + cycles) d)
      else Some (Inr (Continue total_cycles), d))"

definition deck_clock_scanline :: "control_deck \<Rightarrow> ((deck_error + control_flow) \<times> control_deck) option" where
  "deck_clock_scanline d = scanline_loop (deck_scanline d) 0 d"

end
