(* ===== verification/CpuBusInv.thy ===== *)
theory CpuBusInv
  imports CpuBus PpuInv
begin

text \<open>
  The contract of the CPU's bus, against the sizes of a cartridge's memories: no access panics
  but the read of OAMDATA that \<open>PpuProps\<close> describes, every operation keeps the invariant, and
  \<open>peek\<close> shows what the next \<open>read\<close> gives.
\<close>

section \<open>Invariant\<close>

definition cb_wf :: "board \<Rightarrow> cpu_bus \<Rightarrow> bool" where
  "cb_wf bd b \<longleftrightarrow> length (cb_wram b) = WRAM_SIZE \<and> length (cb_prg_ram b) = bd_prg_ram bd
     \<and> length (cb_prg_rom b) = bd_prg bd \<and> ppu_wf bd (cb_ppu b) \<and> apu_wf (cb_apu b) \<and> input_wf (cb_input b)"

lemma cb_wfD:
  assumes "cb_wf bd b"
  shows "length (cb_wram b) = 0x800" "length (cb_prg_ram b) = bd_prg_ram bd" "length (cb_prg_rom b) = bd_prg bd"
    "ppu_wf bd (cb_ppu b)" "apu_wf (cb_apu b)" "input_wf (cb_input b)" "ppu_bus_wf bd (pp_bus (cb_ppu b))"
    "mapper_wf bd (cb_mapper b)" "\<not> uses_exram (cb_mapper b)" "frame_wf (pp_frame (cb_ppu b))"
  using assms by (simp_all add: cb_wf_def WRAM_SIZE_def ppu_wf_def ppu_core_def ppu_bus_wf_def cb_mapper_def)

lemma cb_wf_upd [simp]:
  "cb_wf bd (b\<lparr>cb_open_bus := v\<rparr>) = cb_wf bd b" "cb_wf bd (b\<lparr>cb_cycle := n\<rparr>) = cb_wf bd b"
  "cb_wf bd (b\<lparr>cb_oam_dma := f\<rparr>) = cb_wf bd b" "cb_wf bd (b\<lparr>cb_oam_dma_addr := a\<rparr>) = cb_wf bd b"
  "cb_wf bd (b\<lparr>cb_prg_ram_protect := f\<rparr>) = cb_wf bd b" "cb_wf bd (b\<lparr>cb_audio_samples := xs\<rparr>) = cb_wf bd b"
  "cb_wf bd (b\<lparr>cb_genie_codes := g\<rparr>) = cb_wf bd b" "cb_wf bd (b\<lparr>cb_region := r\<rparr>) = cb_wf bd b"
  "cb_wf bd b \<Longrightarrow> length w = length (cb_wram b) \<Longrightarrow> cb_wf bd (b\<lparr>cb_wram := w\<rparr>)"
  "cb_wf bd b \<Longrightarrow> length w = length (cb_prg_ram b) \<Longrightarrow> cb_wf bd (b\<lparr>cb_prg_ram := w\<rparr>)"
  "cb_wf bd b \<Longrightarrow> ppu_wf bd p \<Longrightarrow> cb_wf bd (b\<lparr>cb_ppu := p\<rparr>)"
  "cb_wf bd b \<Longrightarrow> apu_wf ap \<Longrightarrow> cb_wf bd (b\<lparr>cb_apu := ap\<rparr>)"
  "cb_wf bd b \<Longrightarrow> input_wf i \<Longrightarrow> cb_wf bd (b\<lparr>cb_input := i\<rparr>)"
  by (simp_all add: cb_wf_def)

lemma ppu_wf_bus: "ppu_wf bd p \<Longrightarrow> ppu_bus_wf bd pb \<Longrightarrow> ppu_wf bd (p\<lparr>pp_bus := pb\<rparr>)"
  by (simp add: ppu_wf_def ppu_core_def)

lemma cb_wf_set_mapper:
  "cb_wf bd b \<Longrightarrow> mapper_wf bd m \<Longrightarrow> \<not> uses_exram m \<Longrightarrow> cb_wf bd (cb_set_mapper b m)"
  using cb_wfD(4,7) [of bd b] by (simp add: cb_set_mapper_def ppu_wf_bus ppu_bus_wf_mapper)

lemma cb_set_mapper_fields [simp]:
  "cb_wram (cb_set_mapper b m) = cb_wram b" "cb_prg_ram (cb_set_mapper b m) = cb_prg_ram b"
  "cb_prg_rom (cb_set_mapper b m) = cb_prg_rom b" "cb_open_bus (cb_set_mapper b m) = cb_open_bus b"
  "cb_apu (cb_set_mapper b m) = cb_apu b" "cb_input (cb_set_mapper b m) = cb_input b"
  "cb_oam_dma (cb_set_mapper b m) = cb_oam_dma b" "cb_oam_dma_addr (cb_set_mapper b m) = cb_oam_dma_addr b"
  "cb_genie_codes (cb_set_mapper b m) = cb_genie_codes b" "cb_mapper (cb_set_mapper b m) = m"
  "cb_prg_ram_protect (cb_set_mapper b m) = cb_prg_ram_protect b"
  by (simp_all add: cb_set_mapper_def cb_mapper_def)

lemma cb_set_mapper_same [simp]: "cb_set_mapper b (cb_mapper b) = b"
  by (simp add: cb_set_mapper_def cb_mapper_def)

section \<open>Reading\<close>

lemma cb_mapped_read_ok:
  "cb_wf bd b \<Longrightarrow> read_in bd r \<Longrightarrow> returns (cb_mapped_read b r) (\<lambda>_. True)"
  by (cases r) (simp_all add: cb_mapped_read_def cb_wfD)

text \<open>The read a peek predicts: the same value, and a well-formed bus after it.\<close>

definition read_matches :: "board \<Rightarrow> u8 option \<Rightarrow> (u8 \<times> cpu_bus) option \<Rightarrow> bool" where
  "read_matches bd p r \<longleftrightarrow> returns r (\<lambda>(v, b). p = Some v \<and> cb_wf bd b)"

lemma cb_read_done_simp [simp]: "cb_read_done addr (v, b) = (v, b\<lparr>cb_open_bus := v\<rparr>)"
  by (simp add: cb_read_done_def mapper_cpu_bus_read_def)

lemma read_matches_done: "read_matches bd p r \<Longrightarrow> read_matches bd p (map_option (cb_read_done addr) r)"
  by (cases r) (auto simp: read_matches_def)

lemma read_mapped_matches:
  assumes wf: "cb_wf bd b"
  shows "read_matches bd (do { r \<leftarrow> mapper_map_peek (cb_mapper b) addr; val \<leftarrow> cb_mapped_read b r;
      Some (cb_genie_read b addr val) }) (cb_read_mapped b addr)"
proof -
  obtain r m where r: "mapper_map_read (cb_mapper b) addr = Some (r, m)"
    "mapper_map_peek (cb_mapper b) addr = Some r" "mapper_wf bd m"
    using returnsD [OF mappers.read_peek [OF cb_wfD(8) [OF wf], of addr]] by auto
  have wf': "cb_wf bd (cb_set_mapper b m)"
    using uses_exram_read [OF r(1)] cb_wfD(9) [OF wf] r(3) wf by (simp add: cb_wf_set_mapper)
  have "read_in bd r" using mapper_peek_in [OF cb_wfD(8) [OF wf], of addr] r(2) by simp
  then obtain x where x: "cb_mapped_read b r = Some x" using returnsD [OF cb_mapped_read_ok [OF wf]] by blast
  moreover have "cb_mapped_read (cb_set_mapper b m) r = cb_mapped_read b r"
    by (simp add: cb_mapped_read_def split: mapped_read.split)
  ultimately show ?thesis using r wf' by (simp add: cb_read_mapped_def read_matches_def cb_genie_read_def)
qed

lemma read_ppu_matches:
  "cb_wf bd b \<Longrightarrow> returns r (\<lambda>(v, p). x = Some v \<and> ppu_wf bd p) \<Longrightarrow> read_matches bd x (cb_read_ppu b r)"
  by (cases r) (auto simp: read_matches_def cb_read_ppu_def)

lemma read_status_matches:
  "ppu_wf bd p \<Longrightarrow> returns (Some (read_status p)) (\<lambda>(v, q). Some (peek_status p) = Some v \<and> ppu_wf bd q)"
  using pure_registers_wf(3) [of bd p] by (simp add: read_status_def Let_def)

lemma read_oamdata_matches:
  "ppu_wf bd p \<Longrightarrow> peek_oamdata p \<noteq> None \<Longrightarrow> returns (read_oamdata p) (\<lambda>(v, q). peek_oamdata p = Some v \<and> ppu_wf bd q)"
  by (auto simp: read_oamdata_def ppu_wf_def)

lemma read_data_matches:
  assumes wf: "ppu_wf bd p"
  shows "returns (read_data p) (\<lambda>(v, q). peek_data p = Some v \<and> ppu_wf bd q)"
proof -
  obtain v q where q: "read_data p = Some (v, q)" "ppu_wf bd q"
    using returnsD [OF read_data_wf [OF wf]] by auto
  have inc: "pp_vram_buffer (increment_vram_addr p) = pp_vram_buffer p" "pp_bus (increment_vram_addr p) = pp_bus p"
    "pp_open_bus (increment_vram_addr p) = pp_open_bus p"
    by (simp_all add: increment_vram_addr_def)
  have "peek_data p = Some v"
  proof (cases "read_addr (pp_scroll p) < PALETTE_START")
    case True
    then show ?thesis
      using q(1) by (auto simp: read_data_def peek_data_def Let_def bind_Some_iff ppu_bus_read_def inc split_beta)
  next
    case False
    then have "\<not> read_addr (pp_scroll p) \<le> 0x1FFF" "\<not> read_addr (pp_scroll p) \<le> 0x3EFF"
      by (simp_all add: PALETTE_START_def word_le_nat_alt word_less_nat_alt)
    then show ?thesis
      using q(1) False
      by (auto simp: read_data_def peek_data_def Let_def bind_Some_iff ppu_bus_read_def inc split_beta
          pb_read_def pb_peek_def split: if_splits)
  qed
  then show ?thesis using q by simp
qed

lemma read_apu_matches:
  "cb_wf bd b \<Longrightarrow> read_matches bd (Some (apu_peek_status (cb_apu b))) (Some (cb_read_apu b))"
  using apu_wf_ops(4) [of "cb_apu b"] cb_wfD(5) [of bd b]
  by (simp add: read_matches_def cb_read_apu_def apu_read_status_def Let_def)

lemma read_input_matches:
  assumes wf: "cb_wf bd b" and s: "s = One \<or> s = Two"
  shows "read_matches bd (input_peek (cb_input b) s (cb_ppu b)) (cb_read_input b s)"
proof -
  obtain v i where "input_read (cb_input b) s (cb_ppu b) = Some (v, i)" "input_wf i"
    using returnsD [OF input_read_ok [OF cb_wfD(6,10) [OF wf] s]] by auto
  then show ?thesis using wf by (simp add: read_matches_def cb_read_input_def input_peek_read)
qed

text \<open>The addresses of OAMDATA, and the situation of the PPU in which they can be read.\<close>

definition is_oamdata :: "u16 \<Rightarrow> bool" where
  "is_oamdata addr \<longleftrightarrow> 0x2000 \<le> addr \<and> addr \<le> 0x3FFF \<and> addr AND 0x2007 = 0x2004"

definition readable :: "cpu_bus \<Rightarrow> u16 \<Rightarrow> bool" where
  "readable b addr \<longleftrightarrow> is_oamdata addr \<longrightarrow> peek_oamdata (cb_ppu b) \<noteq> None"

lemma wram_mirror: "addr AND 0x07FF \<le> (0x07FF::u16)"
  by (rule word_and_le1)

lemma ppu_mirror: "0x2008 \<le> (addr::u16) \<Longrightarrow> addr \<le> 0x3FFF \<Longrightarrow> 0x2000 \<le> addr AND 0x2007 \<and> addr AND 0x2007 \<le> 0x2007"
proof -
  assume a: "0x2008 \<le> addr" "addr \<le> 0x3FFF"
  have n: "0x2000 \<le> unat addr" "unat addr < 0x4000" using a by (simp_all add: word_le_nat_alt)
  have b: "bit addr 13"
  proof -
    have "unat addr div 2 ^ 13 = 1" using n by simp
    then have "bit (unat addr) 13" by (simp add: bit_iff_odd)
    then show ?thesis by (simp add: bit_unsigned_iff)
  qed
  have "0x2000 OR addr AND 0x2007 = addr AND 0x2007"
    by (rule u16_eqI; simp add: bit_simps b)
  then have "0x2000 \<le> addr AND 0x2007" using le_word_or2 by metis
  then show ?thesis using word_and_le1 by blast
qed

lemma oam_mirror_arith: "addr \<le> (0x2007::u16) \<Longrightarrow> 0x2000 \<le> addr \<Longrightarrow> is_oamdata addr \<longleftrightarrow> addr = 0x2004"
proof -
  assume a: "addr \<le> 0x2007" "0x2000 \<le> addr"
  then have "unat addr \<in> {0x2000, 0x2001, 0x2002, 0x2003, 0x2004, 0x2005, 0x2006, 0x2007}"
    by (simp add: word_le_nat_alt) linarith
  then have "addr \<in> {0x2000, 0x2001, 0x2002, 0x2003, 0x2004, 0x2005, 0x2006, 0x2007}"
    by (auto simp: word_unat_eq_iff)
  then show ?thesis by (auto simp: is_oamdata_def)
qed

lemma cb_read_matches:
  assumes "cb_wf bd b" and "readable b addr"
  shows "read_matches bd (cb_peek b addr access) (cb_read b addr access)"
  using assms
proof (induction b addr access rule: cb_read.induct)
  case (1 b addr access)
  note wf = 1(3)
  note ppu = cb_wfD(4) [OF wf]
  consider (wram) "addr \<le> 0x07FF" | (cart) "0x4020 \<le> addr"
    | (mirror) "0x0800 \<le> addr" "addr \<le> 0x1FFF" | (regs) "0x2000 \<le> addr" "addr \<le> 0x2007"
    | (regs_mirror) "0x2008 \<le> addr" "addr \<le> 0x3FFF" | (io) "0x4000 \<le> addr" "addr \<le> 0x401F"
    by (simp add: word_le_nat_alt) linarith
  then show ?case
  proof cases
    case wram
    then show ?thesis
      using cb_wfD(1) [OF wf] wf
      by (subst cb_read.simps, subst cb_peek.simps)
        (auto simp: word_le_nat_alt read_matches_def)
  next
    case cart
    then have "\<not> addr \<le> 0x07FF" by (simp add: word_le_nat_alt)
    then show ?thesis
      using cart read_mapped_matches [OF wf, of addr]
      by (subst cb_read.simps, subst cb_peek.simps) (auto intro!: read_matches_done)
  next
    case mirror
    then have n: "\<not> addr \<le> 0x07FF" "\<not> 0x4020 \<le> addr" "addr \<noteq> 0x2002" "addr \<noteq> 0x2004" "addr \<noteq> 0x2007"
      "addr \<noteq> 0x4015" "addr \<noteq> 0x4016" "addr \<noteq> 0x4017" "\<not> write_only_reg addr"
      by (auto simp: word_le_nat_alt write_only_reg_def)
    have "read_matches bd (cb_peek b (addr AND 0x07FF) access) (cb_read b (addr AND 0x07FF) access)"
      using 1(1) n mirror wf wram_mirror [of addr] by (auto simp: readable_def is_oamdata_def word_le_nat_alt)
    then show ?thesis
      using n mirror by (subst cb_read.simps, subst cb_peek.simps) (auto intro!: read_matches_done)
  next
    case regs
    then have n: "\<not> addr \<le> 0x07FF" "\<not> 0x4020 \<le> addr" "addr \<noteq> 0x4015" "addr \<noteq> 0x4016" "addr \<noteq> 0x4017"
      "\<not> addr \<le> 0x1FFF" "\<not> 0x2008 \<le> addr"
      by (auto simp: word_le_nat_alt)
    have "addr = 0x2004 \<Longrightarrow> peek_oamdata (cb_ppu b) \<noteq> None"
      using 1(4) oam_mirror_arith [OF regs(2,1)] by (simp add: readable_def)
    then show ?thesis
      using n wf ppu
      by (subst cb_read.simps, subst cb_peek.simps)
        (auto intro!: read_matches_done read_ppu_matches read_status_matches read_oamdata_matches read_data_matches
          simp: read_matches_def [of bd "Some _" "Some _"])
  next
    case regs_mirror
    then have n: "\<not> addr \<le> 0x07FF" "\<not> 0x4020 \<le> addr" "addr \<noteq> 0x2002" "addr \<noteq> 0x2004" "addr \<noteq> 0x2007"
      "addr \<noteq> 0x4015" "addr \<noteq> 0x4016" "addr \<noteq> 0x4017" "\<not> write_only_reg addr" "\<not> (0x0800 \<le> addr \<and> addr \<le> 0x1FFF)"
      by (auto simp: word_le_nat_alt write_only_reg_def)
    have "readable b (addr AND 0x2007)"
      using 1(4) regs_mirror by (auto simp: readable_def is_oamdata_def and.assoc elim: order_trans [rotated])
    then have "read_matches bd (cb_peek b (addr AND 0x2007) access) (cb_read b (addr AND 0x2007) access)"
      using 1(2) n regs_mirror wf by auto
    then show ?thesis
      using n regs_mirror by (subst cb_read.simps, subst cb_peek.simps) (auto intro!: read_matches_done)
  next
    case io
    then have n: "\<not> addr \<le> 0x07FF" "\<not> 0x4020 \<le> addr" "addr \<noteq> 0x2002" "addr \<noteq> 0x2004" "addr \<noteq> 0x2007"
      "\<not> write_only_reg addr" "\<not> addr \<le> 0x1FFF" "\<not> addr \<le> 0x3FFF"
      by (auto simp: word_le_nat_alt write_only_reg_def)
    show ?thesis
      using n wf read_input_matches [OF wf, of One] read_input_matches [OF wf, of Two]
        read_matches_done [OF read_apu_matches [OF wf], of "0x4015"]
      by (subst cb_read.simps, subst cb_peek.simps)
        (auto intro!: read_matches_done simp: read_matches_def [of bd "Some _" "Some (cb_read_done _ (_, _))"]
          read_matches_def [of bd "Some _" "Some (_, _)"])
  qed
qed

section \<open>Writing\<close>

text \<open>No board inside the contract watches the writes of the CPU.\<close>

lemma cb_write_done_quiet: "mapper_wf bd (cb_mapper b) \<Longrightarrow> cb_write_done addr v b = b\<lparr>cb_open_bus := v\<rparr>"
proof -
  assume "mapper_wf bd (cb_mapper b)"
  then have "mapper_cpu_bus_write (cb_mapper b) addr v = cb_mapper b" by (cases "cb_mapper b") simp_all
  then show ?thesis by (simp add: cb_write_done_def Let_def cb_mapper_def cb_set_mapper_def)
qed

lemma cb_write_done_clock [simp]:
  "pp_master_clock (cb_ppu (cb_write_done addr v b)) = pp_master_clock (cb_ppu b)"
  by (simp add: cb_write_done_def Let_def cb_set_mapper_def)

lemma update_mirroring_wf: "ppu_wf bd p \<Longrightarrow> ppu_wf bd (ppu_update_mirroring p)"
  using ppu_bus_wf_simple(1) [of bd "pp_bus p"]
  by (simp add: ppu_update_mirroring_def ppu_wf_def ppu_core_def)

lemma cb_write_mapped_ok:
  assumes wf: "cb_wf bd b"
  shows "returns (cb_write_mapped b addr v) (cb_wf bd)"
proof -
  obtain w m where w: "mapper_map_write (cb_mapper b) addr v = Some (w, m)" "write_in bd w" "mapper_wf bd m"
    using returnsD [OF mappers.write_ok [OF cb_wfD(8) [OF wf], of addr v]] by auto
  have wf': "cb_wf bd (cb_set_mapper b m)"
    using uses_exram_write [OF w(1) cb_wfD(9) [OF wf]] w(3) wf by (simp add: cb_wf_set_mapper)
  have mirror: "ppu_wf bd (ppu_update_mirroring (cb_ppu (cb_set_mapper b m)))"
    using update_mirroring_wf cb_wfD(4) [OF wf'] by blast
  have len: "length (cb_prg_ram b) = bd_prg_ram bd" by (rule cb_wfD(2) [OF wf])
  show ?thesis
    using w wf' len mirror by (cases w) (auto simp: cb_write_mapped_def Let_def)
qed

text \<open>A register write: when an arm knows the address, it returns.\<close>

definition reg_ok :: "board \<Rightarrow> cpu_bus option option \<Rightarrow> bool" where
  "reg_ok bd r \<longleftrightarrow> (\<forall>x. r = Some x \<longrightarrow> returns x (cb_wf bd))"

lemma reg_ok_simps [simp]:
  "reg_ok bd None" "reg_ok bd (Some x) = returns x (cb_wf bd)"
  "reg_ok bd (if c then r else r') = (if c then reg_ok bd r else reg_ok bd r')"
  by (simp_all add: reg_ok_def)

lemma returns_cb_with:
  "cb_wf bd b \<Longrightarrow> returns p (ppu_wf bd) \<Longrightarrow> returns (cb_with_ppu b p) (cb_wf bd)"
  "cb_wf bd b \<Longrightarrow> returns a' apu_wf \<Longrightarrow> returns (cb_with_apu b a') (cb_wf bd)"
  by (auto simp: cb_with_ppu_def cb_with_apu_def returns_def)

lemma ppu_wf_open_bus [simp]: "ppu_wf bd (p\<lparr>pp_open_bus := v\<rparr>) = ppu_wf bd p"
  by (simp add: ppu_wf_def)

lemma cb_write_ppu_ok: "cb_wf bd b \<Longrightarrow> reg_ok bd (cb_write_ppu b addr v)"
  using cb_wfD(4) [of bd b]
  by (auto simp: cb_write_ppu_def Let_def intro!: returns_cb_with pure_registers_wf write_oamdata_wf write_data_wf)

lemma apu_writes_ok:
  assumes "apu_wf ap"
  shows "ch \<in> {Pulse1, Pulse2, Noise} \<Longrightarrow> returns (apu_write_ctrl ap ch v) apu_wf"
    "ch \<in> {Pulse1, Pulse2} \<Longrightarrow> returns (apu_write_sweep ap ch v) apu_wf"
    "returns (apu_write_timer_lo ap ch v) apu_wf"
    "ch \<in> {Pulse1, Pulse2, Triangle} \<Longrightarrow> returns (apu_write_timer_hi ap ch v) apu_wf"
    "returns (apu_write_linear_counter ap Triangle v) apu_wf"
    "ch \<in> {Noise, Dmc} \<Longrightarrow> returns (apu_write_length ap ch v) apu_wf"
    "returns (apu_write_output ap Dmc v) apu_wf" "returns (apu_write_addr_load ap Dmc v) apu_wf"
  using assms
  by (auto simp: apu_write_ctrl_def apu_write_sweep_def apu_write_timer_lo_def apu_write_timer_hi_def
      apu_write_linear_counter_def apu_write_length_def apu_write_output_def apu_write_addr_load_def apu_wfD
      split: channel.splits)

lemma cb_write_channel_ok: "cb_wf bd b \<Longrightarrow> reg_ok bd (cb_write_channel b addr v)"
  using cb_wfD(5) [of bd b]
  by (auto simp: cb_write_channel_def Let_def intro!: returns_cb_with apu_writes_ok)

lemma cb_write_io_ok: "cb_wf bd b \<Longrightarrow> reg_ok bd (cb_write_io b addr v)"
  using cb_wfD(5,6) [of bd b] by (simp add: cb_write_io_def)

lemma cb_write_reg_ok: "cb_wf bd b \<Longrightarrow> reg_ok bd (cb_write_reg b addr v)"
  using cb_write_ppu_ok [of bd b addr v] cb_write_channel_ok [of bd b addr v] cb_write_io_ok [of bd b addr v]
  by (auto simp: cb_write_reg_def split: option.split)

lemma cb_write_ok: "cb_wf bd b \<Longrightarrow> returns (cb_write b addr v access) (cb_wf bd)"
proof (induction b addr v access rule: cb_write.induct)
  case (1 b addr v access)
  note wf = 1(3)
  have fin1: "cb_wf bd (cb_write_done addr v c)" if "cb_wf bd c" for c
    using that cb_write_done_quiet [OF cb_wfD(8) [OF that]] by simp
  have fin: "returns x (cb_wf bd) \<Longrightarrow> returns (map_option (cb_write_done addr v) x) (cb_wf bd)" for x
    by (auto simp: returns_def fin1)
  have fin2: "returns x (cb_wf bd) \<Longrightarrow> returns x (\<lambda>c. cb_wf bd (cb_write_done addr v c))" for x
    by (auto simp: returns_def fin1)
  show ?case
    using cb_wfD(1) [OF wf] wf cb_write_reg_ok [OF wf, of addr v] 1(1,2) cb_write_mapped_ok [OF wf, of addr v]
    by (subst cb_write.simps) (auto simp: word_le_nat_alt not_le fin1 split: option.split intro!: fin fin2)
qed

section \<open>Clock and reset\<close>

lemma mapper_tables: "length PULSE_TABLE = 31" "length TND_TABLE = 203"
  by (simp_all add: PULSE_TABLE_def TND_TABLE_def)

lemma cb_clock_ok:
  assumes wf: "cb_wf bd b"
  shows "returns (cb_clock b) (cb_wf bd)"
proof -
  have a: "apu_wf (apu_clock (cb_apu b))" using cb_wfD(5) [OF wf] by simp
  have "cb_wf bd (cb_set_mapper (b\<lparr>cb_cycle := cb_cycle b + 1, cb_apu := apu_clock (cb_apu b)\<rparr>)
      (mapper_clock (cb_mapper b)))"
    using wf a cb_wfD(8,9) [OF wf] by (intro cb_wf_set_mapper) (cases "cb_mapper b"; simp)+
  moreover have "cb_mapper (b\<lparr>cb_cycle := x, cb_apu := y\<rparr>) = cb_mapper b" for x y by (simp add: cb_mapper_def)
  ultimately show ?thesis
    using a apu_pulse_idx_less [OF a] apu_tnd_idx_less [OF a] cb_wfD(6) [OF wf]
    by (simp add: cb_clock_def Let_def apu_output_def mapper_tables cb_mix_audio_def)
qed

lemma cb_reset_ok:
  assumes wf: "cb_wf bd b"
  shows "returns (cb_reset rng b k) (cb_wf bd)"
proof -
  obtain p where "ppu_reset (cb_ppu b) k = Some p" "ppu_wf bd p"
    using returnsD [OF ppu_reset_wf [OF cb_wfD(4) [OF wf], of k]] by blast
  moreover have "apu_wf (apu_reset (cb_apu b) k)" using cb_wfD(5) [OF wf] by simp
  moreover have "length (ram_fill rng (cb_wram b) (cb_ram_state b)) = length (cb_wram b)"
    by (simp add: ram_fill_def split: ram_state.split)
  ultimately show ?thesis using wf by (cases k) (simp_all add: cb_reset_def Let_def)
qed

section \<open>What an access leaves alone\<close>

text \<open>The memories and the DMA request: only a write to them changes them.\<close>

definition cb_env ::
    "cpu_bus \<Rightarrow> u8 list \<times> u8 list \<times> u8 list \<times> (u16 \<rightharpoonup> genie_code) \<times> bool \<times> u16" where
  "cb_env b = (cb_wram b, cb_prg_ram b, cb_prg_rom b, cb_genie_codes b, cb_oam_dma b, cb_oam_dma_addr b)"

text \<open>A DMC that has no sample to play and has not asked for one.\<close>

definition dmc_idle :: "cpu_bus \<Rightarrow> bool" where
  "dmc_idle b \<longleftrightarrow> dmc_length (apu_dmc (cb_apu b)) = 0 \<and> \<not> dmc_dma_pending (apu_dmc (cb_apu b))"

text \<open>What a read leaves of the PPU.\<close>

definition steady ::
    "ppu \<Rightarrow> (nes_region \<times> u64 \<times> u64 \<times> u32 \<times> u32 \<times> u32 \<times> ppu_mask \<times> ppu_ctrl) \<times> u8 list \<times> u8 \<times> ppu_mask" where
  "steady p = (fixed_of p, oam_of p)"

lemma steadyD: "steady q = steady p \<Longrightarrow> fixed_of q = fixed_of p" "steady q = steady p \<Longrightarrow> oam_of q = oam_of p"
  by (simp_all add: steady_def)

lemma steady_open_bus [simp]: "steady (p\<lparr>pp_open_bus := y\<rparr>) = steady p"
  by (simp add: steady_def)

definition keeps_env :: "cpu_bus \<Rightarrow> cpu_bus \<Rightarrow> bool" where
  "keeps_env b b' \<longleftrightarrow> cb_env b' = cb_env b \<and> apu_dmc (cb_apu b') = apu_dmc (cb_apu b)
     \<and> steady (cb_ppu b') = steady (cb_ppu b)"

lemma keeps_env_refl [simp]: "keeps_env b b"
  by (simp add: keeps_env_def)

lemma keeps_env_open_bus [simp]: "keeps_env b (c\<lparr>cb_open_bus := v\<rparr>) = keeps_env b c"
  by (simp add: keeps_env_def cb_env_def)

lemma keeps_env_set_mapper [simp]: "keeps_env b (cb_set_mapper b m)"
  by (simp add: keeps_env_def cb_env_def) (simp add: cb_set_mapper_def steady_def fixed_of_def oam_of_def)

lemma steady_registers [simp]:
  "steady (snd (read_status p)) = steady p"
  "steady (increment_vram_addr p) = steady p" "steady (ppu_notify_mapper p a v) = steady p"
  "steady (p\<lparr>pp_vram_buffer := w\<rparr>) = steady p" "steady (p\<lparr>pp_bus := pb\<rparr>) = steady p"
  by (simp_all add: steady_def fixed_of_def oam_of_def read_status_def Let_def increment_vram_addr_def ppu_notify_mapper_def)

lemma read_oamdata_steady: "read_oamdata p = Some (v, q) \<Longrightarrow> steady q = steady p"
  by (auto simp: read_oamdata_def bind_Some_iff)

lemma ppu_bus_read_steady: "ppu_bus_read p a = Some (v, q) \<Longrightarrow> steady q = steady p"
  by (auto simp: ppu_bus_read_def bind_Some_iff)

lemma read_data_steady: "read_data p = Some (v, q) \<Longrightarrow> steady q = steady p"
  by (auto simp: read_data_def Let_def bind_Some_iff split: if_splits dest!: ppu_bus_read_steady)

lemma read_ppu_env:
  "cb_read_ppu b r = Some (v, b') \<Longrightarrow> (\<And>v p. r = Some (v, p) \<Longrightarrow> steady p = steady (cb_ppu b)) \<Longrightarrow> keeps_env b b'"
  by (auto simp: cb_read_ppu_def keeps_env_def cb_env_def)

lemma read_misc_env:
  "cb_read_input b s = Some (v, b') \<Longrightarrow> keeps_env b b'"
  "cb_read_apu b = (v, b') \<Longrightarrow> keeps_env b b'"
  "cb_read_mapped b a = Some (v, b') \<Longrightarrow> keeps_env b b'"
  by (auto simp: cb_read_input_def cb_read_apu_def apu_read_status_def Let_def cb_read_mapped_def bind_Some_iff
      keeps_env_def [of b "b\<lparr>cb_input := _\<rparr>"] keeps_env_def [of b "b\<lparr>cb_apu := _\<rparr>"] cb_env_def)

lemma cb_read_env: "cb_read b addr access = Some (v, b') \<Longrightarrow> keeps_env b b'"
proof (induction b addr access arbitrary: v b' rule: cb_read.induct)
  case (1 b addr access)
  have st: "steady p = steady (cb_ppu b)" if "Some (read_status (cb_ppu b)) = Some (v, p)" for v p
    using steady_registers(1) [of "cb_ppu b"] that by (metis option.inject snd_conv)
  obtain c where c: "b' = c\<lparr>cb_open_bus := v\<rparr>" and r:
    "(if addr \<le> 0x07FF then map_option (\<lambda>val. (val, b)) (vec_get (cb_wram b) (unat addr))
        else if 0x4020 \<le> addr then cb_read_mapped b addr
        else if addr = 0x2002 then cb_read_ppu b (Some (read_status (cb_ppu b)))
        else if addr = 0x2004 then cb_read_ppu b (read_oamdata (cb_ppu b))
        else if addr = 0x2007 then cb_read_ppu b (read_data (cb_ppu b))
        else if addr = 0x4015 then Some (cb_read_apu b)
        else if addr = 0x4016 then cb_read_input b One
        else if addr = 0x4017 then cb_read_input b Two
        else if write_only_reg addr then Some (pp_open_bus (cb_ppu b), b)
        else if 0x0800 \<le> addr \<and> addr \<le> 0x1FFF then cb_read b (addr AND 0x07FF) access
        else if 0x2008 \<le> addr \<and> addr \<le> 0x3FFF then cb_read b (addr AND 0x2007) access
        else Some (cb_open_bus b, b)) = Some (v, c)"
    using 1(3) by (subst (asm) cb_read.simps) auto
  note ih = 1(1,2)
  have "keeps_env b c"
    using r
    apply (simp only: split: if_split_asm)
    apply (auto simp: st intro: read_ppu_env read_misc_env read_oamdata_steady read_data_steady ih)
    done
  then show ?case by (simp add: c)
qed

text \<open>Clocking: the memories, the DMA request and the rendering switches stay, an idle DMC stays
  idle, and OAM stays while rendering is off.\<close>

definition not_rendering :: "cpu_bus \<Rightarrow> bool" where
  "not_rendering b \<longleftrightarrow> \<not> rendering_enabled (cb_ppu b)"

lemma not_rendering_upd [simp]:
  "not_rendering (b\<lparr>cb_open_bus := v\<rparr>) = not_rendering b" "not_rendering (b\<lparr>cb_wram := w\<rparr>) = not_rendering b"
  by (simp_all add: not_rendering_def)

definition clocks_env :: "cpu_bus \<Rightarrow> cpu_bus \<Rightarrow> bool" where
  "clocks_env b b' \<longleftrightarrow> cb_env b' = cb_env b \<and> (dmc_idle b \<longrightarrow> dmc_idle b')
     \<and> pp_mask (cb_ppu b') = pp_mask (cb_ppu b)
     \<and> pp_clock_divider (cb_ppu b') = pp_clock_divider (cb_ppu b)
     \<and> (not_rendering b \<longrightarrow> oam_of (cb_ppu b') = oam_of (cb_ppu b))"

lemma clocks_env_refl [simp]: "clocks_env b b"
  by (simp add: clocks_env_def)

lemma clocks_env_trans: "clocks_env b c \<Longrightarrow> clocks_env c d \<Longrightarrow> clocks_env b d"
  by (auto simp: clocks_env_def not_rendering_def rendering_enabled_def)

lemma keeps_clocks_env: "keeps_env b b' \<Longrightarrow> clocks_env b b'"
  using fixed_ofD(6,7) [OF steadyD(1), of "cb_ppu b'" "cb_ppu b"] steadyD(2) [of "cb_ppu b'" "cb_ppu b"]
  by (simp add: keeps_env_def clocks_env_def dmc_idle_def)

lemma dmc_idle_clock:
  assumes "dmc_length d = 0" and "\<not> dmc_dma_pending d"
  shows "dmc_length (dmc_clock d) = 0 \<and> \<not> dmc_dma_pending (dmc_clock d)"
    "dmc_length (dmc_check_pending_dma d) = 0 \<and> \<not> dmc_dma_pending (dmc_check_pending_dma d)"
  using assms by (simp_all add: dmc_clock_def dmc_shift_output_def dmc_check_pending_dma_def Let_def)

lemma apu_clock_frame_counter_dmc [simp]: "apu_dmc (apu_clock_frame_counter a) = apu_dmc a"
  by (simp add: apu_clock_frame_counter_def apu_clock_quarter_frame_def apu_clock_half_frame_def Let_def split_beta)

lemma apu_clock_dmc:
  "apu_dmc (apu_clock a) = (if apu_cycle a AND 0x01 = 0x00
     then dmc_clock (dmc_check_pending_dma (apu_dmc a)) else dmc_check_pending_dma (apu_dmc a))"
  by (simp add: apu_clock_def Let_def)

lemma cb_clock_env:
  assumes "cb_clock b = Some b'"
  shows "clocks_env b b' \<and> steady (cb_ppu b') = steady (cb_ppu b)"
proof -
  have f: "cb_env b' = cb_env b" "cb_apu b' = apu_clock (cb_apu b)"
    using assms by (auto simp: cb_clock_def Let_def bind_Some_iff cb_mix_audio_def cb_env_def)
  have p: "steady (cb_ppu b') = steady (cb_ppu b)"
    using assms by (auto simp: cb_clock_def Let_def bind_Some_iff cb_mix_audio_def cb_set_mapper_def)
  show ?thesis
    using f p dmc_idle_clock [of "apu_dmc (cb_apu b)"]
      dmc_idle_clock(1) [of "dmc_check_pending_dma (apu_dmc (cb_apu b))"]
    by (simp add: clocks_env_def dmc_idle_def apu_clock_dmc fixed_ofD(6,7) [OF steadyD(1) [OF p]] steadyD(2) [OF p])
qed

text \<open>\<open>clock_to\<close>, for a target that is not behind and does not wrap around.\<close>

lemma cb_clock_to_ok:
  assumes wf: "cb_wf bd b" and "pp_master_clock (cb_ppu b) \<le> clock"
    and "unat clock + unat (pp_clock_divider (cb_ppu b)) < 2 ^ 64"
  shows "returns (cb_clock_to b clock) (\<lambda>b'. cb_wf bd b' \<and> clocks_env b b' \<and> pp_master_clock (cb_ppu b') \<le> clock
    \<and> clock < pp_master_clock (cb_ppu b') + pp_clock_divider (cb_ppu b'))"
proof -
  obtain p where p: "ppu_clock_to (cb_ppu b) clock = Some p" "ppu_wf bd p" "pp_master_clock p \<le> clock"
    "clock < pp_master_clock p + pp_clock_divider p" "pp_mask p = pp_mask (cb_ppu b)"
    "pp_clock_divider p = pp_clock_divider (cb_ppu b)" "not_rendering b \<Longrightarrow> oam_of p = oam_of (cb_ppu b)"
    using returnsD [OF ppu_clock_to_ends [OF cb_wfD(4) [OF wf] assms(2,3)]] unfolding not_rendering_def by blast
  then show ?thesis
    using wf by (simp add: cb_clock_to_def clocks_env_def cb_env_def dmc_idle_def)
qed

text \<open>Without rendering every address is readable.\<close>

lemma readable_not_rendering: "cb_wf bd b \<Longrightarrow> not_rendering b \<Longrightarrow> readable b addr"
  using core_sizes(2) [of bd "cb_ppu b"] cb_wfD(4) [of bd b] less_le_trans [OF unat_u8_less [of "pp_oamaddr (cb_ppu b)"]]
  by (auto simp: readable_def peek_oamdata_def not_rendering_def ppu_wf_def)

lemma not_rendering_clocks: "clocks_env b b' \<Longrightarrow> not_rendering b' = not_rendering b"
  by (simp add: clocks_env_def not_rendering_def rendering_enabled_def)

section \<open>Work RAM\<close>

definition wram_at :: "cpu_bus \<Rightarrow> u16 \<Rightarrow> u8" where
  "wram_at b addr = cb_wram b ! (unat addr mod 0x800)"

definition wram_put :: "cpu_bus \<Rightarrow> u16 \<Rightarrow> u8 \<Rightarrow> cpu_bus" where
  "wram_put b addr v = b\<lparr>cb_wram := (cb_wram b)[unat addr mod 0x800 := v]\<rparr>"

lemma unat_and_7FF: "unat (addr AND 0x07FF :: u16) = unat addr mod 0x800"
  using unat_and_low [of addr 11] by (simp add: mask_eq_exp_minus_1)

lemma cb_peek_wram:
  assumes wf: "cb_wf bd b" and a: "addr \<le> 0x1FFF"
  shows "cb_peek b addr access = Some (wram_at b addr)"
proof -
  have base: "cb_peek b a access = Some (wram_at b a)" if "a \<le> 0x07FF" for a
    using that cb_wfD(1) [OF wf] by (subst cb_peek.simps) (simp add: wram_at_def word_le_nat_alt)
  show ?thesis
  proof (cases "addr \<le> 0x07FF")
    case False
    then have "cb_peek b addr access = cb_peek b (addr AND 0x07FF) access"
      using a by (subst cb_peek.simps) (auto simp: word_le_nat_alt write_only_reg_def)
    moreover have "wram_at b (addr AND 0x07FF) = wram_at b addr" by (simp add: wram_at_def unat_and_7FF)
    ultimately show ?thesis using base [OF wram_mirror [of addr]] by simp
  qed (rule base)
qed

lemma cb_write_wram:
  assumes wf: "cb_wf bd b" and a: "addr \<le> 0x1FFF"
  shows "cb_write b addr v access = Some ((wram_put b addr v)\<lparr>cb_open_bus := v\<rparr>)"
proof -
  have base: "cb_write b a v access = Some ((wram_put b a v)\<lparr>cb_open_bus := v\<rparr>)" if "a \<le> 0x07FF" for a
    using that cb_wfD(1) [OF wf] cb_write_done_quiet [of bd "wram_put b a v" a v] cb_wfD(8) [OF wf]
    by (subst cb_write.simps) (simp add: wram_put_def word_le_nat_alt cb_mapper_def)
  show ?thesis
  proof (cases "addr \<le> 0x07FF")
    case False
    then have "cb_write_reg b addr v = None"
      using a by (auto simp: cb_write_reg_def cb_write_ppu_def cb_write_channel_def cb_write_io_def Let_def word_le_nat_alt)
    then have "cb_write b addr v access = cb_write b (addr AND 0x07FF) v access"
      using a False by (subst cb_write.simps) (auto simp: word_le_nat_alt)
    moreover have "wram_put b (addr AND 0x07FF) v = wram_put b addr v" by (simp add: wram_put_def unat_and_7FF)
    ultimately show ?thesis using base [OF wram_mirror [of addr]] by simp
  qed (rule base)
qed

lemma wram_put_wf [simp]: "cb_wf bd b \<Longrightarrow> cb_wf bd (wram_put b addr v)"
  by (simp add: wram_put_def)

lemma wram_at_put:
  "cb_wf bd b \<Longrightarrow> wram_at (wram_put b a v) a' = (if unat a' mod 0x800 = unat a mod 0x800 then v else wram_at b a')"
  using cb_wfD(1) [of bd b] by (auto simp: wram_at_def wram_put_def nth_list_update)

lemma wram_at_env: "cb_env b' = cb_env b \<Longrightarrow> wram_at b' a = wram_at b a"
  by (simp add: wram_at_def cb_env_def)

section \<open>A write does not move the clock of the PPU\<close>

lemma pp_master_clock_writes [simp]:
  "pp_master_clock (write_ctrl p v) = pp_master_clock p" "pp_master_clock (write_mask p v) = pp_master_clock p"
  "pp_master_clock (write_oamaddr p v) = pp_master_clock p" "pp_master_clock (write_scroll p v) = pp_master_clock p"
  "pp_master_clock (write_addr p v) = pp_master_clock p" "pp_master_clock (increment_vram_addr p) = pp_master_clock p"
  "pp_master_clock (ppu_notify_mapper p a v) = pp_master_clock p"
  "pp_master_clock (ppu_update_mirroring p) = pp_master_clock p"
  by (simp_all add: write_ctrl_def write_mask_def write_oamaddr_def write_scroll_def write_addr_def Let_def
      increment_vram_addr_def ppu_notify_mapper_def ppu_update_mirroring_def)

lemma pp_master_clock_data_writes:
  "write_data p v = Some q \<Longrightarrow> pp_master_clock q = pp_master_clock p"
  "write_oamdata p v = Some q \<Longrightarrow> pp_master_clock q = pp_master_clock p"
  by (auto simp: write_data_def write_oamdata_def Let_def bind_Some_iff split: if_splits)

lemma cb_write_reg_clock:
  "cb_write_reg b addr v = Some (Some b') \<Longrightarrow> pp_master_clock (cb_ppu b') = pp_master_clock (cb_ppu b)"
  by (auto simp: cb_write_reg_def cb_write_ppu_def cb_write_channel_def cb_write_io_def Let_def cb_with_ppu_def
      cb_with_apu_def pp_master_clock_data_writes split: if_splits option.splits)

lemma cb_write_mapped_clock:
  assumes "cb_write_mapped b addr v = Some b'"
  shows "pp_master_clock (cb_ppu b') = pp_master_clock (cb_ppu b)"
proof -
  obtain w m where "mapper_map_write (cb_mapper b) addr v = Some (w, m)"
    using assms by (auto simp: cb_write_mapped_def Let_def bind_Some_iff)
  then show ?thesis
    using assms
    by (cases w) (auto simp: cb_write_mapped_def Let_def bind_Some_iff cb_set_mapper_def split: if_split_asm)
qed

lemma cb_write_clock:
  "cb_write b addr v access = Some b' \<Longrightarrow> pp_master_clock (cb_ppu b') = pp_master_clock (cb_ppu b)"
proof (induction b addr v access rule: cb_write.induct)
  case (1 b addr v access)
  note ih = 1(1,2)
  from 1(3) show ?case
    by (subst (asm) cb_write.simps)
      (auto simp: bind_Some_iff cb_write_reg_clock cb_write_mapped_clock split: if_splits option.splits dest: ih)
qed

end
