(* ===== verification/CpuInv.thy ===== *)
theory CpuInv
  imports CpuClock CpuBusInv
begin

text \<open>
  The cycles of the CPU: each one clocks the other chips, cannot panic, and leaves the registers
  and the memories alone but for the access itself. A cycle moves the master clock by at most 20;
  the lemmas need that it does not wrap around (\<open>room\<close>).
\<close>

section \<open>Invariant\<close>

definition cpu_wf :: "board \<Rightarrow> cpu \<Rightarrow> bool" where
  "cpu_wf bd c \<longleftrightarrow> cb_wf bd (c_bus c)
     \<and> cpu_region_clocks (c_region c) = (c_clock_divider c, c_start_clocks c, c_end_clocks c)
     \<and> pp_master_clock (cb_ppu (c_bus c)) \<le> c_master_clock c"

definition room :: "nat \<Rightarrow> cpu \<Rightarrow> bool" where
  "room n c \<longleftrightarrow> unat (c_master_clock c) + 20 * n + 40 < 2 ^ 64"

text \<open>The registers, and the state of the instruction.\<close>

definition c_regs ::
    "cpu \<Rightarrow> nes_region \<times> u64 \<times> u64 \<times> u64 \<times> u16 \<times> u8 \<times> u8 \<times> u8 \<times> u8 \<times> u8 \<times> instr \<times> u16 \<times> u16 \<times> u8 \<times> bool \<times> bool \<times> string" where
  "c_regs c = (c_region c, c_clock_divider c, c_start_clocks c, c_end_clocks c, c_pc c, c_sp c, c_acc c,
     c_x c, c_y c, c_status c, c_instr c, c_abs_addr c, c_rel_addr c, c_fetched_data c, c_corrupted c,
     c_cycle_accurate c, c_disasm c)"

lemma c_regsD:
  assumes "c_regs c' = c_regs c"
  shows "c_pc c' = c_pc c" "c_sp c' = c_sp c" "c_acc c' = c_acc c" "c_x c' = c_x c" "c_y c' = c_y c"
    "c_status c' = c_status c" "c_instr c' = c_instr c" "c_abs_addr c' = c_abs_addr c"
    "c_rel_addr c' = c_rel_addr c" "c_fetched_data c' = c_fetched_data c" "c_corrupted c' = c_corrupted c"
    "c_cycle_accurate c' = c_cycle_accurate c" "c_region c' = c_region c" "c_clock_divider c' = c_clock_divider c"
    "c_start_clocks c' = c_start_clocks c" "c_end_clocks c' = c_end_clocks c"
  using assms by (simp_all add: c_regs_def)

lemma c_regs_upd [simp]:
  "c_regs (c\<lparr>c_bus := b\<rparr>) = c_regs c" "c_regs (c\<lparr>c_cycle := n\<rparr>) = c_regs c"
  "c_regs (c\<lparr>c_master_clock := m\<rparr>) = c_regs c" "c_regs (c\<lparr>c_halt := f\<rparr>) = c_regs c"
  "c_regs (c\<lparr>c_dummy_read := f\<rparr>) = c_regs c" "c_regs (c\<lparr>c_dmc_dma := f\<rparr>) = c_regs c"
  by (simp_all add: c_regs_def)

lemma cpu_wf_upd [simp]:
  "cpu_wf bd (c\<lparr>c_cycle := n\<rparr>) = cpu_wf bd c" "cpu_wf bd (c\<lparr>c_halt := f\<rparr>) = cpu_wf bd c"
  "cpu_wf bd (c\<lparr>c_dummy_read := f\<rparr>) = cpu_wf bd c" "cpu_wf bd (c\<lparr>c_dmc_dma := f\<rparr>) = cpu_wf bd c"
  "cpu_wf bd (c\<lparr>c_pc := a\<rparr>) = cpu_wf bd c" "cpu_wf bd (c\<lparr>c_sp := x\<rparr>) = cpu_wf bd c"
  "cpu_wf bd (c\<lparr>c_acc := x\<rparr>) = cpu_wf bd c" "cpu_wf bd (c\<lparr>c_x := x\<rparr>) = cpu_wf bd c"
  "cpu_wf bd (c\<lparr>c_y := x\<rparr>) = cpu_wf bd c" "cpu_wf bd (c\<lparr>c_status := x\<rparr>) = cpu_wf bd c"
  "cpu_wf bd (c\<lparr>c_abs_addr := a\<rparr>) = cpu_wf bd c" "cpu_wf bd (c\<lparr>c_rel_addr := a\<rparr>) = cpu_wf bd c"
  "cpu_wf bd (c\<lparr>c_fetched_data := x\<rparr>) = cpu_wf bd c" "cpu_wf bd (c\<lparr>c_instr := i\<rparr>) = cpu_wf bd c"
  "cpu_wf bd (c\<lparr>c_run_irq := f\<rparr>) = cpu_wf bd c" "cpu_wf bd (c\<lparr>c_nmi := f\<rparr>) = cpu_wf bd c"
  "cpu_wf bd (c\<lparr>c_prev_nmi := f\<rparr>) = cpu_wf bd c" "cpu_wf bd (c\<lparr>c_corrupted := f\<rparr>) = cpu_wf bd c"
  by (simp_all add: cpu_wf_def)

lemma cpu_wf_bus:
  assumes "cpu_wf bd c" and "cb_wf bd b" and "fixed_of (cb_ppu b) = fixed_of (cb_ppu (c_bus c))"
  shows "cpu_wf bd (c\<lparr>c_bus := b\<rparr>)"
  using assms(1,2) fixed_ofD(5) [OF assms(3)] by (simp add: cpu_wf_def)

text \<open>\<open>n\<close> cycles that only read.\<close>

definition runs :: "board \<Rightarrow> nat \<Rightarrow> cpu \<Rightarrow> cpu \<Rightarrow> bool" where
  "runs bd n c c' \<longleftrightarrow> cpu_wf bd c' \<and> c_regs c' = c_regs c \<and> c_cycle c' = c_cycle c + of_nat n
     \<and> unat (c_master_clock c') \<le> unat (c_master_clock c) + 20 * n \<and> clocks_env (c_bus c) (c_bus c')"

lemma runs_0 [simp]: "cpu_wf bd c \<Longrightarrow> runs bd 0 c c"
  by (simp add: runs_def)

lemma runs_trans: "runs bd m c c' \<Longrightarrow> runs bd n c' c'' \<Longrightarrow> runs bd (m + n) c c''"
  using clocks_env_trans by (auto simp: runs_def)

lemma runs_wf: "runs bd n c c' \<Longrightarrow> cpu_wf bd c'"
  by (simp add: runs_def)

lemma runs_room: "runs bd n c c' \<Longrightarrow> room (n + m) c \<Longrightarrow> room m c'"
  by (auto simp: runs_def room_def)

section \<open>The two halves of a cycle\<close>

text \<open>The clocks of a half cycle, and the PPU's clock at its end.\<close>

lemma region_clock_bounds:
  assumes "cpu_region_clocks r = (d, s, e)"
  shows "5 \<le> s - 1" "s - 1 \<le> 9" "5 \<le> s + 1" "s + 1 \<le> 9" "5 \<le> e + 1" "e + 1 \<le> 9" "5 \<le> e - 1" "e - 1 \<le> 9"
  using assms by (cases r; auto)+

lemma unat_clock_move:
  fixes m d :: u64
  assumes "unat m + 40 < 2 ^ 64" and "5 \<le> d" and "d \<le> 9"
  shows "unat (m + d) = unat m + unat d" "unat (m + d - 1) = unat m + unat d - 1" "m \<le> m + d - 1"
proof -
  have d: "5 \<le> unat d" "unat d \<le> 9" using assms(2,3) by (simp_all add: word_le_nat_alt)
  then show 1: "unat (m + d) = unat m + unat d"
    using assms(1) by (simp add: unat_word_ariths)
  then have "1 \<le> m + d" using d by (simp add: word_le_nat_alt)
  then show 2: "unat (m + d - 1) = unat m + unat d - 1" using 1 by (simp add: unat_sub)
  then show "m \<le> m + d - 1" using d by (simp add: word_le_nat_alt)
qed

text \<open>In the cycle-accurate mode the PPU is less than one dot behind.\<close>

definition caught_up :: "cpu \<Rightarrow> bool" where
  "caught_up c \<longleftrightarrow> (c_cycle_accurate c \<longrightarrow> c_master_clock c - 1
     < pp_master_clock (cb_ppu (c_bus c)) + pp_clock_divider (cb_ppu (c_bus c)))"

lemma caught_up_upd [simp]:
  "caught_up (c\<lparr>c_cycle := n\<rparr>) = caught_up c"
  "fixed_of (cb_ppu b) = fixed_of (cb_ppu (c_bus c)) \<Longrightarrow> caught_up (c\<lparr>c_bus := b\<rparr>) = caught_up c"
  using fixed_ofD(5,6) [of "cb_ppu b" "cb_ppu (c_bus c)"] by (auto simp: caught_up_def)

definition half_cycle :: "board \<Rightarrow> cpu \<Rightarrow> u64 \<Rightarrow> cpu \<Rightarrow> bool" where
  "half_cycle bd c d c' \<longleftrightarrow> cpu_wf bd c' \<and> c_regs c' = c_regs c \<and> c_master_clock c' = c_master_clock c + d
     \<and> clocks_env (c_bus c) (c_bus c') \<and> c_halt c' = c_halt c \<and> c_dmc_dma c' = c_dmc_dma c
     \<and> caught_up c'"

lemma cpu_bus_clock_to_ok:
  assumes wf: "cpu_wf bd c" and r: "unat (c_master_clock c) + 40 < 2 ^ 64" and d: "5 \<le> d" "d \<le> 9"
  shows "returns (cpu_bus_clock_to (c\<lparr>c_master_clock := c_master_clock c + d\<rparr>))
    (\<lambda>c'. half_cycle bd c d c' \<and> c_cycle c' = c_cycle c)"
proof -
  note m = unat_clock_move [OF r d]
  have bus: "cb_wf bd (c_bus c)" and le: "pp_master_clock (cb_ppu (c_bus c)) \<le> c_master_clock c"
    using wf by (simp_all add: cpu_wf_def)
  have "ppu_timing (cb_ppu (c_bus c))" using cb_wfD(4) [OF bus] by (simp add: ppu_wf_def)
  then have div: "unat (pp_clock_divider (cb_ppu (c_bus c))) \<le> 5"
    by (cases "pp_region (cb_ppu (c_bus c))") (auto simp: ppu_timing_def)
  have "unat d \<le> 9" using d(2) by (simp add: word_le_nat_alt)
  then have t: "unat (c_master_clock c + d - 1) + unat (pp_clock_divider (cb_ppu (c_bus c))) < 2 ^ 64"
    using m(2) r div by simp
  have g: "pp_master_clock (cb_ppu (c_bus c)) \<le> c_master_clock c + d - 1" using le m(3) by (rule order_trans)
  obtain b where b: "cb_clock_to (c_bus c) (c_master_clock c + d - 1) = Some b" "cb_wf bd b"
    "clocks_env (c_bus c) b" "pp_master_clock (cb_ppu b) \<le> c_master_clock c + d - 1"
    "c_master_clock c + d - 1 < pp_master_clock (cb_ppu b) + pp_clock_divider (cb_ppu b)"
    using returnsD [OF cb_clock_to_ok [OF bus g t]] by blast
  have "c_master_clock c + d - 1 \<le> c_master_clock c + d"
    using m(1,2) by (simp add: word_le_nat_alt)
  then have "pp_master_clock (cb_ppu b) \<le> c_master_clock c + d" using b(4) by (rule order_trans [rotated])
  then have "cpu_wf bd (c\<lparr>c_master_clock := c_master_clock c + d, c_bus := b\<rparr>)"
    using wf b(2) by (simp add: cpu_wf_def)
  then show ?thesis
    using b by (simp add: cpu_bus_clock_to_def PPU_OFFSET_def half_cycle_def caught_up_def)
qed

lemma half_cycle_slow:
  assumes wf: "cpu_wf bd c" and r: "unat (c_master_clock c) + 40 < 2 ^ 64" and d: "5 \<le> d" "d \<le> 9"
    and "\<not> c_cycle_accurate c"
  shows "half_cycle bd c d (c\<lparr>c_master_clock := c_master_clock c + d\<rparr>)"
proof -
  have "c_master_clock c \<le> c_master_clock c + d"
    using unat_clock_move(1) [OF r d] by (simp add: word_le_nat_alt)
  then have "cpu_wf bd (c\<lparr>c_master_clock := c_master_clock c + d\<rparr>)"
    using wf by (auto simp: cpu_wf_def)
  then show ?thesis using assms(5) by (simp add: half_cycle_def caught_up_def)
qed

lemma half_cycle_upd:
  "half_cycle bd c d c' \<Longrightarrow> half_cycle bd c d (c'\<lparr>c_cycle := n\<rparr>)"
  "half_cycle bd (c\<lparr>c_cycle := n\<rparr>) d c' = half_cycle bd c d c'"
  by (simp_all add: half_cycle_def)

lemma cpu_start_cycle_ok:
  assumes wf: "cpu_wf bd c" and r: "room 1 c"
  shows "returns (cpu_start_cycle c k) (\<lambda>c'. c_cycle c' = c_cycle c + 1
    \<and> (\<exists>d. 5 \<le> d \<and> d \<le> 9 \<and> half_cycle bd c d c'))"
proof -
  let ?d = "if k = ReadCycle then c_start_clocks c - 1 else c_start_clocks c + 1"
  have d: "5 \<le> ?d" "?d \<le> 9" using region_clock_bounds wf unfolding cpu_wf_def by auto
  have r': "unat (c_master_clock c) + 40 < 2 ^ 64" using r by (simp add: room_def)
  show ?thesis
  proof (cases "c_cycle_accurate c")
    case False
    then show ?thesis
      using half_cycle_upd(1) [OF half_cycle_slow [OF wf r' d False], of "c_cycle c + 1"] d
      by (simp add: cpu_start_cycle_def Let_def exI [of _ ?d])
  next
    case True
    let ?c = "c\<lparr>c_cycle := c_cycle c + 1\<rparr>"
    have wf': "cpu_wf bd ?c" using wf by simp
    have sw: "?c\<lparr>c_master_clock := c_master_clock ?c + ?d\<rparr>
        = c\<lparr>c_master_clock := c_master_clock c + ?d, c_cycle := c_cycle c + 1\<rparr>" by simp
    have "unat (c_master_clock ?c) + 40 < 2 ^ 64" using r' by simp
    from returnsD [OF cpu_bus_clock_to_ok [OF wf' this d, unfolded sw]]
    obtain e where e: "cpu_bus_clock_to (c\<lparr>c_master_clock := c_master_clock c + ?d, c_cycle := c_cycle c + 1\<rparr>) = Some e"
      "half_cycle bd ?c ?d e" "c_cycle e = c_cycle c + 1" by auto
    have "cb_wf bd (c_bus e)" using e(2) by (simp add: half_cycle_def cpu_wf_def)
    then obtain b where b: "cb_clock (c_bus e) = Some b" "cb_wf bd b" using returnsD [OF cb_clock_ok] by blast
    have fx: "clocks_env (c_bus e) b" "fixed_of (cb_ppu b) = fixed_of (cb_ppu (c_bus e))"
      using cb_clock_env [OF b(1)] by (simp_all add: steady_def)
    have "clocks_env (c_bus c) b" using e(2) fx(1) clocks_env_trans by (auto simp: half_cycle_def)
    then have "half_cycle bd c ?d (e\<lparr>c_bus := b\<rparr>)"
      using e(2) cpu_wf_bus [OF _ b(2) fx(2)] fx(2) by (simp add: half_cycle_def)
    then show ?thesis
      using True e b d by (auto simp: cpu_start_cycle_def Let_def)
  qed
qed

section \<open>Interrupt polling\<close>

lemma poll_bus [simp]: "c_bus (poll_nmi c) = c_bus c" "c_bus (poll_irq c) = c_bus c"
  by (simp_all add: poll_nmi_def poll_irq_def Let_def)

lemma poll_fields [simp]:
  "c_regs (poll_nmi c) = c_regs c" "c_regs (poll_irq c) = c_regs c" "c_regs (poll_dmc c) = c_regs c"
  "c_cycle (poll_nmi c) = c_cycle c" "c_cycle (poll_irq c) = c_cycle c" "c_cycle (poll_dmc c) = c_cycle c"
  "c_master_clock (poll_nmi c) = c_master_clock c" "c_master_clock (poll_irq c) = c_master_clock c"
  "c_master_clock (poll_dmc c) = c_master_clock c"
  by (simp_all add: poll_nmi_def poll_irq_def poll_dmc_def Let_def split_beta c_regs_def)

lemma poll_dma [simp]:
  "c_halt (poll_nmi c) = c_halt c" "c_halt (poll_irq c) = c_halt c"
  "c_dmc_dma (poll_nmi c) = c_dmc_dma c" "c_dmc_dma (poll_irq c) = c_dmc_dma c"
  by (simp_all add: poll_nmi_def poll_irq_def Let_def)

lemma handle_interrupts_fields [simp]:
  "c_regs (cpu_handle_interrupts c) = c_regs c" "c_cycle (cpu_handle_interrupts c) = c_cycle c"
  "c_master_clock (cpu_handle_interrupts c) = c_master_clock c"
  by (simp_all add: cpu_handle_interrupts_def)

lemma handle_interrupts_bus: "c_bus (cpu_handle_interrupts c) = snd (cb_dmc_dma (c_bus c))"
  by (simp add: cpu_handle_interrupts_def poll_dmc_def [of "poll_irq _"] Let_def split_beta)

lemma cb_dmc_dma_ok: "cb_wf bd b \<Longrightarrow> cb_wf bd (snd (cb_dmc_dma b))"
  using cb_wfD(5) [of bd b] by (simp add: cb_dmc_dma_def split_beta)

lemma cb_dmc_dma_env: "clocks_env b (snd (cb_dmc_dma b))" "cb_ppu (snd (cb_dmc_dma b)) = cb_ppu b"
  by (auto simp: cb_dmc_dma_def apu_dmc_dma_def dmc_dma_def split_beta clocks_env_def cb_env_def dmc_idle_def)

lemma handle_interrupts_wf: "cpu_wf bd c \<Longrightarrow> cpu_wf bd (cpu_handle_interrupts c)"
  using c_regsD [OF handle_interrupts_fields(1) [of c]] cb_dmc_dma_ok cb_dmc_dma_env(2) [of "c_bus c"]
  by (simp add: cpu_wf_def handle_interrupts_bus)

lemma handle_interrupts_idle:
  "dmc_idle (c_bus c) \<Longrightarrow> c_halt (cpu_handle_interrupts c) = c_halt c"
  "dmc_idle (c_bus c) \<Longrightarrow> c_dmc_dma (cpu_handle_interrupts c) = c_dmc_dma c"
  by (simp_all add: cpu_handle_interrupts_def poll_dmc_def [of "poll_irq _"] Let_def split_beta dmc_idle_def
      cb_dmc_dma_def apu_dmc_dma_def dmc_dma_def)

definition end_of_cycle :: "board \<Rightarrow> cpu \<Rightarrow> cpu \<Rightarrow> bool" where
  "end_of_cycle bd c c' \<longleftrightarrow> cpu_wf bd c' \<and> c_regs c' = c_regs c \<and> c_cycle c' = c_cycle c
     \<and> unat (c_master_clock c') \<le> unat (c_master_clock c) + 9 \<and> clocks_env (c_bus c) (c_bus c')
     \<and> (dmc_idle (c_bus c) \<longrightarrow> c_halt c' = c_halt c \<and> c_dmc_dma c' = c_dmc_dma c)
     \<and> caught_up c'"

lemma cpu_end_cycle_ok:
  assumes wf: "cpu_wf bd c" and r: "unat (c_master_clock c) + 40 < 2 ^ 64"
  shows "returns (cpu_end_cycle c k) (end_of_cycle bd c)"
proof -
  let ?d = "if k = ReadCycle then c_end_clocks c + 1 else c_end_clocks c - 1"
  have d: "5 \<le> ?d" "?d \<le> 9" using region_clock_bounds wf unfolding cpu_wf_def by auto
  have n: "unat (c_master_clock c + ?d) \<le> unat (c_master_clock c) + 9"
    using unat_clock_move(1) [OF r d] d(2) by (simp add: word_le_nat_alt)
  have fin: "end_of_cycle bd c (cpu_handle_interrupts e)" if e: "half_cycle bd c ?d e" "c_cycle e = c_cycle c" for e
  proof -
    have "clocks_env (c_bus c) (c_bus (cpu_handle_interrupts e))"
      using e(1) cb_dmc_dma_env(1) [of "c_bus e"] clocks_env_trans
      by (auto simp: half_cycle_def handle_interrupts_bus)
    moreover have "dmc_idle (c_bus e)" if "dmc_idle (c_bus c)"
      using e(1) that by (simp add: half_cycle_def clocks_env_def)
    moreover have "caught_up (cpu_handle_interrupts e) = caught_up e"
      using c_regsD(12) [OF handle_interrupts_fields(1) [of e]] cb_dmc_dma_env(2) [of "c_bus e"]
      by (simp add: caught_up_def handle_interrupts_bus)
    ultimately show ?thesis
      using e n handle_interrupts_idle [of e]
      by (auto simp: end_of_cycle_def half_cycle_def handle_interrupts_wf)
  qed
  show ?thesis
  proof (cases "c_cycle_accurate c")
    case True
    obtain e where "cpu_bus_clock_to (c\<lparr>c_master_clock := c_master_clock c + ?d\<rparr>) = Some e"
      "half_cycle bd c ?d e" "c_cycle e = c_cycle c"
      using returnsD [OF cpu_bus_clock_to_ok [OF wf r d]] by blast
    then show ?thesis using True fin by (simp add: cpu_end_cycle_def Let_def)
  next
    case False
    then show ?thesis using half_cycle_slow [OF wf r d] fin by (simp add: cpu_end_cycle_def Let_def)
  qed
qed

section \<open>Accesses outside of DMA\<close>

text \<open>No DMA is running or asked for, and the DMC has nothing to play.\<close>

definition quiet :: "cpu \<Rightarrow> bool" where
  "quiet c \<longleftrightarrow> \<not> c_halt c \<and> \<not> c_dmc_dma c \<and> \<not> cb_oam_dma (c_bus c) \<and> dmc_idle (c_bus c)"

definition can_read :: "cpu \<Rightarrow> u16 \<Rightarrow> bool" where
  "can_read c addr \<longleftrightarrow> not_rendering (c_bus c) \<or> \<not> is_oamdata addr"

lemma can_read_wram [simp]: "addr \<le> 0x1FFF \<Longrightarrow> can_read c addr"
  by (auto simp: can_read_def is_oamdata_def word_le_nat_alt)

lemma can_read_runs: "runs bd n c c' \<Longrightarrow> can_read c' addr = can_read c addr"
  using not_rendering_clocks by (auto simp: runs_def can_read_def)

lemma clocks_env_D:
  "clocks_env b b' \<Longrightarrow> cb_env b' = cb_env b" "clocks_env b b' \<Longrightarrow> cb_oam_dma b' = cb_oam_dma b"
  "clocks_env b b' \<Longrightarrow> dmc_idle b \<Longrightarrow> dmc_idle b'"
  by (simp_all add: clocks_env_def cb_env_def)

lemma can_read_readable: "cb_wf bd (c_bus c) \<Longrightarrow> can_read c addr \<Longrightarrow> readable (c_bus c) addr"
  using readable_not_rendering by (auto simp: can_read_def) (simp add: readable_def)

definition reads :: "board \<Rightarrow> cpu \<Rightarrow> u16 \<Rightarrow> (u8 \<times> cpu) option \<Rightarrow> bool" where
  "reads bd c addr r \<longleftrightarrow> returns r (\<lambda>(v, c'). runs bd 1 c c' \<and> quiet c'
     \<and> (addr \<le> 0x1FFF \<longrightarrow> v = wram_at (c_bus c) addr))"

text \<open>The cycle of a read.\<close>

definition read_cycle :: "cpu \<Rightarrow> u16 \<Rightarrow> access \<Rightarrow> (u8 \<times> cpu) option" where
  "read_cycle c addr access =
     do { c \<leftarrow> cpu_start_cycle c ReadCycle;
          (val, c) \<leftarrow> cpu_bus_read c addr access;
          c \<leftarrow> cpu_end_cycle c ReadCycle;
          Some (val, c) }"

definition same_dma :: "cpu \<Rightarrow> cpu \<Rightarrow> bool" where
  "same_dma c c' \<longleftrightarrow> c_halt c' = c_halt c \<and> c_dmc_dma c' = c_dmc_dma c"

lemma read_cycle_ok:
  assumes wf: "cpu_wf bd c" and q: "dmc_idle (c_bus c)" and r: "room 1 c" and a: "can_read c addr"
  shows "returns (read_cycle c addr access) (\<lambda>(v, c'). runs bd 1 c c' \<and> same_dma c c' \<and> caught_up c'
    \<and> (addr \<le> 0x1FFF \<longrightarrow> v = wram_at (c_bus c) addr))"
proof -
  obtain e d where e: "cpu_start_cycle c ReadCycle = Some e" "c_cycle e = c_cycle c + 1"
    and d: "5 \<le> d" "d \<le> (9::u64)" and h: "half_cycle bd c d e"
    using returnsD [OF cpu_start_cycle_ok [OF wf r, of ReadCycle]] by blast
  have env: "clocks_env (c_bus c) (c_bus e)" and ewf: "cpu_wf bd e" using h by (simp_all add: half_cycle_def)
  have bwf: "cb_wf bd (c_bus e)" using ewf by (simp add: cpu_wf_def)
  have "can_read e addr" using a not_rendering_clocks [OF env] by (simp add: can_read_def)
  then have "read_matches bd (cb_peek (c_bus e) addr access) (cb_read (c_bus e) addr access)"
    using cb_read_matches bwf can_read_readable by blast
  then obtain v b where b: "cb_read (c_bus e) addr access = Some (v, b)"
    "cb_peek (c_bus e) addr access = Some v" "cb_wf bd b" by (auto simp: read_matches_def returns_def)
  have k: "keeps_env (c_bus e) b" by (rule cb_read_env [OF b(1)])
  let ?f = "e\<lparr>c_bus := b\<rparr>"
  have fwf: "cpu_wf bd ?f" using k by (intro cpu_wf_bus [OF ewf b(3)]) (simp add: keeps_env_def steady_def)
  have m: "unat (c_master_clock e) \<le> unat (c_master_clock c) + 9"
    using unat_clock_move(1) [OF _ d] r h d(2) by (simp add: half_cycle_def room_def word_le_nat_alt)
  then have "unat (c_master_clock ?f) + 40 < 2 ^ 64" using r by (simp add: room_def)
  then obtain g where g: "cpu_end_cycle ?f ReadCycle = Some g" "end_of_cycle bd ?f g"
    using returnsD [OF cpu_end_cycle_ok [OF fwf]] by blast
  have env2: "clocks_env (c_bus c) (c_bus g)"
    using clocks_env_trans [OF clocks_env_trans [OF env keeps_clocks_env [OF k]]] g(2) by (auto simp: end_of_cycle_def)
  have idle: "dmc_idle b" using q env k by (auto simp: clocks_env_def keeps_env_def dmc_idle_def)
  have "runs bd 1 c g" using e(2) h g(2) env2 m by (auto simp: runs_def half_cycle_def end_of_cycle_def)
  moreover have "same_dma c g" "caught_up g"
    using h g(2) idle by (simp_all add: same_dma_def half_cycle_def end_of_cycle_def)
  moreover have "v = wram_at (c_bus c) addr" if "addr \<le> 0x1FFF"
    using b(2) cb_peek_wram [OF bwf that] wram_at_env [OF clocks_env_D(1) [OF env]] by simp
  ultimately show ?thesis
    using e b g by (simp add: read_cycle_def cpu_bus_read_def)
qed

lemma cpu_read_quiet:
  assumes wf: "cpu_wf bd c" and q: "quiet c" and r: "room 1 c" and a: "can_read c addr"
  shows "reads bd c addr (cpu_read c addr access)"
proof -
  have "cpu_read c addr access = read_cycle c addr access" using q by (simp add: quiet_def cpu_read_def read_cycle_def)
  moreover have "dmc_idle (c_bus c)" using q by (simp add: quiet_def)
  moreover have "quiet c'" if "runs bd 1 c c'" "same_dma c c'" for c'
    using q that clocks_env_D [of "c_bus c" "c_bus c'"] by (auto simp: quiet_def runs_def same_dma_def)
  ultimately show ?thesis
    unfolding reads_def using read_cycle_ok [OF wf _ r a, of access] by (auto simp: returns_def)
qed

text \<open>A write: it always returns; the machine stays quiet after a write to work RAM.\<close>

definition writes :: "board \<Rightarrow> cpu \<Rightarrow> u16 \<Rightarrow> u8 \<Rightarrow> cpu \<Rightarrow> bool" where
  "writes bd c addr v c' \<longleftrightarrow> cpu_wf bd c' \<and> c_regs c' = c_regs c \<and> c_cycle c' = c_cycle c + 1
     \<and> unat (c_master_clock c') \<le> unat (c_master_clock c) + 20
     \<and> (addr \<le> 0x1FFF \<longrightarrow> clocks_env (wram_put (c_bus c) addr v) (c_bus c') \<and> (quiet c \<longrightarrow> quiet c'))"

lemma writes_room: "writes bd c addr v c' \<Longrightarrow> room (Suc n) c \<Longrightarrow> room n c'"
  by (auto simp: writes_def room_def)

lemma clocks_env_put: "clocks_env b c \<Longrightarrow> clocks_env (wram_put b a v) (wram_put c a v)"
  by (auto simp: clocks_env_def wram_put_def cb_env_def dmc_idle_def)

lemma clocks_env_open_bus [simp]: "clocks_env (b\<lparr>cb_open_bus := v\<rparr>) c = clocks_env b c"
  by (simp add: clocks_env_def cb_env_def dmc_idle_def)

lemma cpu_write_ok:
  assumes wf: "cpu_wf bd c" and r: "room 1 c"
  shows "returns (cpu_write c addr v access) (writes bd c addr v)"
proof -
  obtain e d where e: "cpu_start_cycle c WriteCycle = Some e" "c_cycle e = c_cycle c + 1"
    and d: "5 \<le> d" "d \<le> (9::u64)" and h: "half_cycle bd c d e"
    using returnsD [OF cpu_start_cycle_ok [OF wf r, of WriteCycle]] by blast
  have env: "clocks_env (c_bus c) (c_bus e)" and ewf: "cpu_wf bd e" using h by (simp_all add: half_cycle_def)
  have bwf: "cb_wf bd (c_bus e)" using ewf by (simp add: cpu_wf_def)
  obtain b where b: "cb_write (c_bus e) addr v access = Some b" "cb_wf bd b"
    using returnsD [OF cb_write_ok [OF bwf]] by blast
  let ?f = "e\<lparr>c_bus := b\<rparr>"
  have fwf: "cpu_wf bd ?f" using ewf b(2) cb_write_clock [OF b(1)] by (simp add: cpu_wf_def)
  have m: "unat (c_master_clock e) \<le> unat (c_master_clock c) + 9"
    using unat_clock_move(1) [OF _ d] r h d(2) by (simp add: half_cycle_def room_def word_le_nat_alt)
  then have "unat (c_master_clock ?f) + 40 < 2 ^ 64" using r by (simp add: room_def)
  then obtain g where g: "cpu_end_cycle ?f WriteCycle = Some g" "end_of_cycle bd ?f g"
    using returnsD [OF cpu_end_cycle_ok [OF fwf]] by blast
  have wr: "clocks_env (wram_put (c_bus c) addr v) (c_bus g) \<and> (quiet c \<longrightarrow> quiet g)" if a: "addr \<le> 0x1FFF"
  proof
    have b': "b = (wram_put (c_bus e) addr v)\<lparr>cb_open_bus := v\<rparr>"
      using b(1) cb_write_wram [OF bwf a] by simp
    have 1: "clocks_env (wram_put (c_bus e) addr v) (c_bus g)" using g(2) by (simp add: end_of_cycle_def b')
    show "clocks_env (wram_put (c_bus c) addr v) (c_bus g)"
      using clocks_env_put [OF env, of addr v] 1 by (rule clocks_env_trans)
    then have 2: "clocks_env (wram_put (c_bus c) addr v) (c_bus g)" .
    show "quiet c \<longrightarrow> quiet g"
    proof
      assume q: "quiet c"
      then have "dmc_idle b" using clocks_env_D(3) [OF env] by (simp add: b' quiet_def wram_put_def dmc_idle_def)
      then show "quiet g"
        using q h g(2) clocks_env_D(2,3) [OF 2]
        by (simp add: quiet_def half_cycle_def end_of_cycle_def wram_put_def dmc_idle_def)
    qed
  qed
  have "writes bd c addr v g" using e(2) h g(2) m wr by (auto simp: writes_def half_cycle_def end_of_cycle_def)
  then show ?thesis using e b g by (simp add: cpu_write_def cpu_bus_write_def)
qed

end
