(* ===== verification/CpuTiming.thy ===== *)
theory CpuTiming
  imports CpuInv
begin

text \<open>
  How many cycles an instruction takes. The rules of the first section run an instruction forward
  through its accesses (\<open>calm\<close> and \<open>ready\<close> carry the invariant, the time and what the next access
  needs); the costs of modes and operations are then compared with the table of the source.
\<close>

section \<open>Running forward through the accesses\<close>

definition idle :: "cpu \<Rightarrow> bool" where
  "idle c \<longleftrightarrow> quiet c \<and> not_rendering (c_bus c)"

text \<open>The cycles of writing a result back, and of fetching an operand.\<close>

definition write_cost :: "instr \<Rightarrow> nat" where
  "write_cost i = (if instr_addr_mode i \<in> {IMP, ACC, IMM} then 0 else 1)"

definition crosses :: "cpu \<Rightarrow> bool" where
  "crosses c \<longleftrightarrow> c_abs_addr c AND 0x00FF < ucast (if instr_addr_mode (c_instr c) = ABX then c_x c else c_y c)"

definition fetch_cost :: "cpu \<Rightarrow> nat" where
  "fetch_cost c =
     (if instr_addr_mode (c_instr c) \<in> {IMP, ACC} then 0
      else if instr_addr_mode (c_instr c) \<in> {ABX, ABY, IDY} \<and> instr_op (c_instr c) \<in> set READ_OPS
      then (if crosses c then 1 else 0) else 1)"

text \<open>Room for \<open>r\<close> more cycles, the instruction \<open>i\<close>, and the time \<open>t\<close>.\<close>

definition ready :: "board \<Rightarrow> nat \<Rightarrow> instr \<Rightarrow> usize \<Rightarrow> cpu \<Rightarrow> bool" where
  "ready bd r i t c \<longleftrightarrow> cpu_wf bd c \<and> room r c \<and> c_instr c = i \<and> c_cycle c = t"

definition calm :: "board \<Rightarrow> nat \<Rightarrow> instr \<Rightarrow> usize \<Rightarrow> cpu \<Rightarrow> bool" where
  "calm bd r i t c \<longleftrightarrow> ready bd r i t c \<and> idle c"

lemma calm_ready: "calm bd r i t c \<Longrightarrow> ready bd r i t c"
  by (simp add: calm_def)

text \<open>Neither depends on the registers.\<close>

lemma ready_upd [simp]:
  "ready bd r i t (c\<lparr>c_acc := v\<rparr>) = ready bd r i t c" "ready bd r i t (c\<lparr>c_x := v\<rparr>) = ready bd r i t c"
  "ready bd r i t (c\<lparr>c_y := v\<rparr>) = ready bd r i t c" "ready bd r i t (c\<lparr>c_status := v\<rparr>) = ready bd r i t c"
  "ready bd r i t (c\<lparr>c_sp := v\<rparr>) = ready bd r i t c" "ready bd r i t (c\<lparr>c_pc := a\<rparr>) = ready bd r i t c"
  "ready bd r i t (c\<lparr>c_abs_addr := a\<rparr>) = ready bd r i t c" "ready bd r i t (c\<lparr>c_rel_addr := a\<rparr>) = ready bd r i t c"
  "ready bd r i t (c\<lparr>c_fetched_data := v\<rparr>) = ready bd r i t c" "ready bd r i t (c\<lparr>c_nmi := f\<rparr>) = ready bd r i t c"
  "ready bd r i t (c\<lparr>c_prev_nmi := f\<rparr>) = ready bd r i t c" "ready bd r i t (c\<lparr>c_run_irq := f\<rparr>) = ready bd r i t c"
  "ready bd r i t (c\<lparr>c_corrupted := f\<rparr>) = ready bd r i t c"
  by (simp_all add: ready_def room_def)

lemma calm_upd [simp]:
  "calm bd r i t (c\<lparr>c_acc := v\<rparr>) = calm bd r i t c" "calm bd r i t (c\<lparr>c_x := v\<rparr>) = calm bd r i t c"
  "calm bd r i t (c\<lparr>c_y := v\<rparr>) = calm bd r i t c" "calm bd r i t (c\<lparr>c_status := v\<rparr>) = calm bd r i t c"
  "calm bd r i t (c\<lparr>c_sp := v\<rparr>) = calm bd r i t c" "calm bd r i t (c\<lparr>c_pc := a\<rparr>) = calm bd r i t c"
  "calm bd r i t (c\<lparr>c_abs_addr := a\<rparr>) = calm bd r i t c" "calm bd r i t (c\<lparr>c_rel_addr := a\<rparr>) = calm bd r i t c"
  "calm bd r i t (c\<lparr>c_fetched_data := v\<rparr>) = calm bd r i t c" "calm bd r i t (c\<lparr>c_nmi := f\<rparr>) = calm bd r i t c"
  "calm bd r i t (c\<lparr>c_prev_nmi := f\<rparr>) = calm bd r i t c" "calm bd r i t (c\<lparr>c_run_irq := f\<rparr>) = calm bd r i t c"
  "calm bd r i t (c\<lparr>c_corrupted := f\<rparr>) = calm bd r i t c"
  by (simp_all add: calm_def idle_def quiet_def)

text \<open>The arithmetic only sets the accumulator and the status.\<close>

definition without_acc :: "cpu \<Rightarrow> cpu" where
  "without_acc c = c\<lparr>c_acc := 0, c_status := 0\<rparr>"

lemma without_acc_upd:
  "without_acc (c\<lparr>c_acc := v\<rparr>) = without_acc c" "without_acc (c\<lparr>c_status := v\<rparr>) = without_acc c"
  by (simp_all add: without_acc_def)

lemma without_acc_let:
  "without_acc e = k \<Longrightarrow> (\<And>x. without_acc x = k \<Longrightarrow> without_acc (f x) = k) \<Longrightarrow> without_acc (Let e f) = k"
  "(\<And>y. without_acc (g y) = k) \<Longrightarrow> without_acc (Let v g) = k"
  "(\<And>y z. without_acc (h y z) = k) \<Longrightarrow> without_acc (case p of (y, z) \<Rightarrow> h y z) = k"
  by (simp_all add: Let_def split_beta)

lemma without_acc_status:
  "without_acc (set_status c f b) = without_acc c" "without_acc (set_zn_status c v) = without_acc c"
  by (simp_all add: set_status_def set_zn_status_def Let_def without_acc_def)

lemma without_acc_compare: "without_acc (compare c a b) = without_acc c"
  by (simp only: compare_def Let_def without_acc_status)

lemma without_acc_add: "without_acc (add_with_carry c v) = without_acc c"
  unfolding add_with_carry_def
  by (rule without_acc_let(2), rule without_acc_let(2), rule without_acc_let(3), rule without_acc_let(2),
    rule without_acc_let(3),
    (rule without_acc_let(1), simp only: without_acc_upd without_acc_status)+, simp only: without_acc_status)

lemma without_acc_sub: "without_acc (sub_with_carry c v) = without_acc c"
  unfolding sub_with_carry_def
  by (rule without_acc_let(2), rule without_acc_let(2), rule without_acc_let(3), rule without_acc_let(2),
    rule without_acc_let(3),
    (rule without_acc_let(1), simp only: without_acc_upd without_acc_status)+, simp only: without_acc_status)

lemmas without_acc_arith = without_acc_compare without_acc_add without_acc_sub

lemma ready_without: "without_acc c' = without_acc c \<Longrightarrow> ready bd r i t c' = ready bd r i t c"
  unfolding without_acc_def by (drule arg_cong [of _ _ "ready bd r i t"]) (simp only: ready_upd)

lemma calm_without: "without_acc c' = without_acc c \<Longrightarrow> calm bd r i t c' = calm bd r i t c"
  unfolding without_acc_def by (drule arg_cong [of _ _ "calm bd r i t"]) (simp only: calm_upd)

lemma ready_status [simp]:
  "ready bd r i t (set_status c f b) = ready bd r i t c" "ready bd r i t (set_zn_status c v) = ready bd r i t c"
  "ready bd r i t (compare c a b') = ready bd r i t c" "ready bd r i t (add_with_carry c v) = ready bd r i t c"
  "ready bd r i t (sub_with_carry c v) = ready bd r i t c"
  by (intro ready_without without_acc_status without_acc_arith)+

lemma calm_status [simp]:
  "calm bd r i t (set_status c f b) = calm bd r i t c" "calm bd r i t (set_zn_status c v) = calm bd r i t c"
  "calm bd r i t (compare c a b') = calm bd r i t c" "calm bd r i t (add_with_carry c v) = calm bd r i t c"
  "calm bd r i t (sub_with_carry c v) = calm bd r i t c"
  by (intro calm_without without_acc_status without_acc_arith)+

text \<open>The rules: one per kind of access.\<close>

lemma read_then:
  assumes c: "calm bd (Suc r) i t c"
    and f: "\<And>v c'. calm bd r i (t + 1) c' \<Longrightarrow> c_regs c' = c_regs c \<Longrightarrow> returns (f (v, c')) Q"
  shows "returns (Option.bind (cpu_read c a k) f) Q"
proof -
  have wf: "cpu_wf bd c" "quiet c" "room 1 c" "can_read c a"
    using c by (auto simp: calm_def ready_def idle_def can_read_def room_def)
  obtain v d where d: "cpu_read c a k = Some (v, d)" "runs bd 1 c d" "quiet d"
    using cpu_read_quiet [OF wf, of k] by (auto simp: reads_def returns_def)
  have "calm bd r i (t + 1) d"
    using c d(3) runs_wf [OF d(2)] runs_room [OF d(2), of r] not_rendering_clocks [of "c_bus c" "c_bus d"] d(2)
      c_regsD(7) [of d c]
    by (simp add: calm_def ready_def idle_def runs_def)
  then show ?thesis using f d by (simp add: runs_def)
qed

lemma write_then:
  assumes c: "ready bd (Suc r) i t c"
    and f: "\<And>c'. ready bd r i (t + 1) c' \<Longrightarrow> c_regs c' = c_regs c \<Longrightarrow> returns (f c') Q"
  shows "returns (Option.bind (cpu_write c a v k) f) Q"
proof -
  have "cpu_wf bd c" "room 1 c" using c by (auto simp: ready_def room_def)
  then obtain d where d: "cpu_write c a v k = Some d" "writes bd c a v d"
    using returnsD [OF cpu_write_ok] by blast
  have "ready bd r i (t + 1) d"
    using c writes_room [OF d(2)] d(2) c_regsD(7) [of d c] by (auto simp: ready_def writes_def)
  then show ?thesis using f d by (simp add: writes_def)
qed

text \<open>A write to work RAM keeps the machine calm.\<close>

lemma write_wram_then:
  assumes c: "calm bd (Suc r) i t c" and a: "a \<le> 0x1FFF"
    and f: "\<And>c'. calm bd r i (t + 1) c' \<Longrightarrow> c_regs c' = c_regs c \<Longrightarrow> returns (f c') Q"
  shows "returns (Option.bind (cpu_write c a v k) f) Q"
proof -
  have "cpu_wf bd c" "room 1 c" and q: "quiet c" using c by (auto simp: calm_def ready_def room_def idle_def)
  then obtain d where d: "cpu_write c a v k = Some d" "writes bd c a v d"
    using returnsD [OF cpu_write_ok] by blast
  have "not_rendering (c_bus d)"
    using c d(2) a not_rendering_clocks [of "wram_put (c_bus c) a v" "c_bus d"]
    by (simp add: writes_def calm_def idle_def not_rendering_def wram_put_def rendering_enabled_def)
  then have "calm bd r i (t + 1) d"
    using c q a writes_room [OF d(2)] d(2) c_regsD(7) [of d c] by (auto simp: calm_def ready_def writes_def idle_def)
  then show ?thesis using f d by (simp add: writes_def)
qed

lemma stack_addr: "SP_BASE OR ucast (s :: u8) \<le> 0x1FFF"
proof -
  have "SP_BASE OR ucast s = (SP_BASE OR ucast s) AND 0x1FF"
    unfolding SP_BASE_def by (rule u16_eqI; simp add: bit_simps)
  moreover have "(SP_BASE OR ucast s) AND 0x1FF \<le> 0x1FF" by (rule word_and_le1)
  ultimately have "SP_BASE OR ucast s \<le> 0x1FF" by simp
  then show ?thesis by (rule order_trans) simp
qed

lemma push_then:
  assumes "calm bd (Suc r) i t c"
    and "\<And>c'. calm bd r i (t + 1) c' \<Longrightarrow> returns (f c') Q"
  shows "returns (Option.bind (cpu_push c v) f) Q"
  unfolding cpu_push_def Option.bind_assoc
  by (rule write_wram_then [OF assms(1) stack_addr]) (simp add: assms(2))

lemma pop_then:
  assumes "calm bd (Suc r) i t c"
    and "\<And>v c'. calm bd r i (t + 1) c' \<Longrightarrow> returns (f (v, c')) Q"
  shows "returns (Option.bind (cpu_pop c) f) Q"
  unfolding cpu_pop_def Let_def
  by (rule read_then [where r = r and i = i and t = t and bd = bd]) (use assms in simp_all)

lemma read_stack_then:
  assumes "calm bd (Suc r) i t c"
    and "\<And>v c'. calm bd r i (t + 1) c' \<Longrightarrow> returns (f (v, c')) Q"
  shows "returns (Option.bind (read_stack c) f) Q"
  unfolding read_stack_def by (rule read_then [OF assms(1)]) (simp add: assms(2))

lemma push_u16_then:
  assumes "calm bd (Suc (Suc r)) i t c"
    and "\<And>c'. calm bd r i (t + 1 + 1) c' \<Longrightarrow> returns (f c') Q"
  shows "returns (Option.bind (push_u16 c v) f) Q"
  unfolding push_u16_def Option.bind_assoc
  by (rule push_then [OF assms(1)], erule push_then, erule assms(2))

lemma pop_u16_then:
  assumes "calm bd (Suc (Suc r)) i t c"
    and "\<And>v c'. calm bd r i (t + 1 + 1) c' \<Longrightarrow> returns (f (v, c')) Q"
  shows "returns (Option.bind (pop_u16 c) f) Q"
  unfolding pop_u16_def Option.bind_assoc split_beta
  by (rule pop_then [OF assms(1)], unfold fst_conv snd_conv Option.bind_assoc bind.bind_lunit, erule pop_then,
      unfold fst_conv snd_conv bind.bind_lunit, erule assms(2))

lemma read_u16_then:
  assumes "calm bd (Suc (Suc r)) i t c"
    and "\<And>v c'. calm bd r i (t + 1 + 1) c' \<Longrightarrow> c_regs c' = c_regs c \<Longrightarrow> returns (f (v, c')) Q"
  shows "returns (Option.bind (read_u16 c a) f) Q"
  unfolding read_u16_def Option.bind_assoc split_beta
  by (rule read_then [OF assms(1)], unfold fst_conv snd_conv Option.bind_assoc bind.bind_lunit, erule read_then,
      unfold fst_conv snd_conv bind.bind_lunit, erule assms(2), erule trans, assumption)

lemma read_zp_u16_then:
  assumes "calm bd (Suc (Suc r)) i t c"
    and "\<And>v c'. calm bd r i (t + 1 + 1) c' \<Longrightarrow> c_regs c' = c_regs c \<Longrightarrow> returns (f (v, c')) Q"
  shows "returns (Option.bind (read_zp_u16 c a) f) Q"
  unfolding read_zp_u16_def Option.bind_assoc split_beta
  by (rule read_then [OF assms(1)], unfold fst_conv snd_conv Option.bind_assoc bind.bind_lunit, erule read_then,
      unfold fst_conv snd_conv bind.bind_lunit, erule assms(2), erule trans, assumption)

lemma read_instr_then:
  assumes "calm bd (Suc r) i t c"
    and f: "\<And>v c'. calm bd r i (t + 1) c' \<Longrightarrow> returns (f (v, c')) Q"
  shows "returns (Option.bind (read_instr c) f) Q"
  unfolding read_instr_def Option.bind_assoc split_beta
proof (rule read_then [OF assms(1)])
  fix v c' assume c': "calm bd r i (t + 1) c'" "c_regs c' = c_regs c"
  have "returns (f (v, c'\<lparr>c_pc := c_pc c' + 1\<rparr>)) Q"
    by (rule f) (simp_all add: c'(1) c_regsD(7) [OF c'(2)] del: c_regs_upd)
  then show "returns (Option.bind (Some (fst (v, c'), snd (v, c')\<lparr>c_pc := c_pc (snd (v, c')) + 1\<rparr>)) f) Q"
    by (simp only: bind.bind_lunit fst_conv snd_conv)
qed

lemma read_instr_u16_then:
  assumes "calm bd (Suc (Suc r)) i t c"
    and "\<And>v c'. calm bd r i (t + 1 + 1) c' \<Longrightarrow> returns (f (v, c')) Q"
  shows "returns (Option.bind (read_instr_u16 c) f) Q"
  unfolding read_instr_u16_def Option.bind_assoc split_beta
  by (rule read_instr_then [OF assms(1)], unfold fst_conv snd_conv Option.bind_assoc bind.bind_lunit,
      erule read_instr_then, unfold fst_conv snd_conv bind.bind_lunit, erule assms(2))

lemma calm_less: "calm bd (Suc r) i t c \<Longrightarrow> calm bd r i t c"
  by (simp add: calm_def ready_def room_def)

lemma ready_less: "ready bd (Suc r) i t c \<Longrightarrow> ready bd r i t c"
  by (simp add: ready_def room_def)

lemma fetch_data_eq:
  "fetch_data c = (if fetch_cost c = 1 then fetch_abs c
     else Some (c\<lparr>c_fetched_data := if instr_addr_mode (c_instr c) \<in> {IMP, ACC} then c_acc c else c_fetched_data c\<rparr>))"
proof -
  let ?m = "instr_addr_mode (c_instr c)"
  consider "?m \<in> {IMP, ACC}" | "?m = ABX" | "?m = ABY" | "?m = IDY" | "?m \<notin> {IMP, ACC, ABX, ABY, IDY}" by blast
  then show ?thesis
  proof cases
    case 1 then show ?thesis by (auto simp: fetch_data_def fetch_cost_def)
  next
    case 2 then show ?thesis by (simp add: fetch_data_def fetch_cost_def crosses_def)
  next
    case 3 then show ?thesis by (simp add: fetch_data_def fetch_cost_def crosses_def)
  next
    case 4 then show ?thesis by (simp add: fetch_data_def fetch_cost_def crosses_def)
  next
    case 5 then show ?thesis by (auto simp: fetch_data_def fetch_cost_def)
  qed
qed

lemma fetch_data_cases:
  obtains "fetch_cost c = 1" "fetch_data c = fetch_abs c"
  | v where "fetch_cost c = 0" "fetch_data c = Some (c\<lparr>c_fetched_data := v\<rparr>)"
proof (cases "fetch_cost c = 1")
  case True
  then show thesis using that(1) by (simp only: fetch_data_eq if_True)
next
  case False
  moreover from this have "fetch_cost c = 0" by (simp add: fetch_cost_def split: if_splits)
  ultimately show thesis using that(2) by (simp only: fetch_data_eq if_False)
qed

lemma fetch_then:
  assumes c: "calm bd (Suc r) i t c"
    and f: "\<And>c'. calm bd r i (t + of_nat (fetch_cost c)) c' \<Longrightarrow> returns (f c') Q"
  shows "returns (Option.bind (fetch_data c) f) Q"
proof (cases rule: fetch_data_cases [of c])
  assume 1: "fetch_cost c = 1" "fetch_data c = fetch_abs c"
  show ?thesis
    unfolding 1(2) fetch_abs_def Option.bind_assoc split_beta
  proof (rule read_then [OF c])
    fix v c' assume c': "calm bd r i (t + 1) c'" "c_regs c' = c_regs c"
    have "returns (f (c'\<lparr>c_fetched_data := v\<rparr>)) Q"
      by (rule f) (simp_all add: c'(1) c_regsD(7) [OF c'(2)] 1(1))
    then show "returns (Option.bind (Some (snd (v, c')\<lparr>c_fetched_data := fst (v, c')\<rparr>)) f) Q"
      by (simp only: bind.bind_lunit fst_conv snd_conv)
  qed
next
  fix v assume 0: "fetch_cost c = 0" "fetch_data c = Some (c\<lparr>c_fetched_data := v\<rparr>)"
  have "returns (f (c\<lparr>c_fetched_data := v\<rparr>)) Q"
    by (rule f) (simp_all add: calm_less [OF c] 0(1))
  then show ?thesis by (simp only: 0(2) bind.bind_lunit)
qed

lemma fetch_end:
  assumes "calm bd (Suc r) i t c"
    and "\<And>c'. calm bd r i (t + of_nat (fetch_cost c)) c' \<Longrightarrow> Q c'"
  shows "returns (fetch_data c) Q"
  using fetch_then [OF assms(1), of Some Q] assms(2) by simp

lemma write_fetched_then:
  assumes c: "ready bd (Suc r) i t c"
    and f: "\<And>c'. ready bd r i (t + of_nat (write_cost i)) c' \<Longrightarrow> returns (f c') Q"
  shows "returns (Option.bind (write_fetched c v) f) Q"
proof -
  have w: "c_instr c = i" using c by (simp add: ready_def)
  consider "write_cost i = 1" "instr_addr_mode (c_instr c) \<notin> {IMP, ACC, IMM}" | "write_cost i = 0" "instr_addr_mode (c_instr c) \<in> {IMP, ACC, IMM}"
    using w by (auto simp: write_cost_def split: if_splits)
  then show ?thesis
  proof cases
    case 1
    then have "write_fetched c v = cpu_write c (c_abs_addr c) v AccWrite" by (simp add: write_fetched_def Let_def)
    moreover have "returns (Option.bind (cpu_write c (c_abs_addr c) v AccWrite) f) Q"
      by (rule write_then [OF c]) (use f 1(1) in simp)
    ultimately show ?thesis by (simp only:)
  next
    case 2
    then show ?thesis using f ready_less [OF c] by (auto simp: write_fetched_def Let_def)
  qed
qed

lemma write_fetched_end:
  assumes "ready bd (Suc r) i t c" and "\<And>c'. ready bd r i (t + of_nat (write_cost i)) c' \<Longrightarrow> Q c'"
  shows "returns (write_fetched c v) Q"
  using write_fetched_then [OF assms(1), of Some Q] assms(2) by simp

lemma write_end:
  assumes "ready bd (Suc r) i t c" and "\<And>c'. ready bd r i (t + 1) c' \<Longrightarrow> Q c'"
  shows "returns (cpu_write c a v k) Q"
  using write_then [OF assms(1), of Some Q] assms(2) by simp

lemma push_end:
  assumes "calm bd (Suc r) i t c" and "\<And>c'. calm bd r i (t + 1) c' \<Longrightarrow> Q c'"
  shows "returns (cpu_push c v) Q"
  using push_then [OF assms(1), of Some Q] assms(2) by simp


text \<open>The same for the last access of an operation.\<close>

lemma read_snd_then:
  assumes "calm bd (Suc r) i t c"
    and "\<And>c'. calm bd r i (t + 1) c' \<Longrightarrow> c_regs c' = c_regs c \<Longrightarrow> returns (f c') Q"
  shows "returns (Option.bind (map_option snd (cpu_read c a k)) f) Q"
  using read_then [OF assms(1), of "\<lambda>r. f (snd r)" Q a k] assms(2)
  by (simp only: bind_map_option snd_conv comp_def)

lemma read_snd_end:
  assumes "calm bd (Suc r) i t c" and "\<And>c'. calm bd r i (t + 1) c' \<Longrightarrow> Q c'"
  shows "returns (map_option snd (cpu_read c a k)) Q"
  using read_snd_then [OF assms(1), of Some Q] assms(2) by simp

lemma calm_weaken: "calm bd m i t c \<Longrightarrow> r \<le> m \<Longrightarrow> calm bd r i t c"
  by (simp add: calm_def ready_def room_def)

lemma ready_weaken: "ready bd m i t c \<Longrightarrow> r \<le> m \<Longrightarrow> ready bd r i t c"
  by (simp add: ready_def room_def)

section \<open>Addressing modes\<close>

fun mode_cost :: "addr_mode \<Rightarrow> nat" where
  "mode_cost IMM = 0"
| "mode_cost ZP0 = 1"
| "mode_cost ZPX = 2"
| "mode_cost ZPY = 2"
| "mode_cost ABS = 2"
| "mode_cost ABX = 3"
| "mode_cost ABY = 3"
| "mode_cost IND = 4"
| "mode_cost IDX = 4"
| "mode_cost IDY = 4"
| "mode_cost REL = 1"
| "mode_cost ACC = 1"
| "mode_cost IMP = 1"

lemma mode_read:
  assumes "calm bd (Suc r) i t c"
  shows "returns (am_acc c) (calm bd r i (t + 1))" "returns (am_imp c) (calm bd r i (t + 1))"
    "returns (am_zp0 c) (calm bd r i (t + 1))" "returns (am_rel c) (calm bd r i (t + 1))"
  unfolding am_acc_def am_imp_def am_zp0_def am_rel_def split_beta
  by (rule read_snd_end [OF assms] read_instr_then [OF assms],
      (assumption | simp only: bind.bind_lunit returns_Some calm_upd fst_conv snd_conv))+

lemma mode_indexed:
  assumes "calm bd (Suc (Suc r)) i t c"
  shows "returns (am_zpx c) (calm bd r i (t + 1 + 1))" "returns (am_zpy c) (calm bd r i (t + 1 + 1))"
  unfolding am_zpx_def am_zpy_def split_beta
  by (rule read_instr_then [OF assms], unfold fst_conv snd_conv, erule read_then,
      simp only: returns_Some calm_upd snd_conv)+

lemma mode_abs:
  assumes "calm bd (Suc (Suc r)) i t c"
  shows "returns (am_abs c) (calm bd r i (t + 1 + 1))"
  unfolding am_abs_def split_beta
  by (rule read_instr_u16_then [OF assms]) (simp only: returns_Some calm_upd fst_conv snd_conv)

lemma read_uncorrected_end:
  assumes "calm bd (Suc r) i t c" and "\<And>c'. calm bd r i (t + 1) c' \<Longrightarrow> Q c'"
  shows "returns (read_uncorrected c a) Q"
  unfolding read_uncorrected_def split_beta
  by (rule read_then [OF assms(1)], unfold returns_Some, rule assms(2), simp only: calm_upd snd_conv)

lemma mode_abs_indexed:
  assumes "calm bd (Suc (Suc (Suc r))) i t c"
  shows "returns (am_abx c) (calm bd r i (t + 1 + 1 + 1))" "returns (am_aby c) (calm bd r i (t + 1 + 1 + 1))"
  unfolding am_abx_def am_aby_def split_beta Let_def
  by (rule read_instr_u16_then [OF assms], unfold fst_conv snd_conv, rule read_uncorrected_end,
      unfold calm_upd, assumption, assumption)+

lemma returns_ifI: "returns m Q \<Longrightarrow> returns m' Q \<Longrightarrow> returns (if b then m else m') Q"
  by simp

lemma mode_indirect:
  assumes "calm bd (Suc (Suc (Suc (Suc r)))) i t c"
  shows "returns (am_ind c) (calm bd r i (t + 1 + 1 + 1 + 1))"
  unfolding am_ind_def split_beta
proof (rule read_instr_u16_then [OF assms], unfold fst_conv snd_conv)
  fix v c' assume c': "calm bd (Suc (Suc r)) i (t + 1 + 1) c'"
  have "returns (do { x \<leftarrow> cpu_read c' v AccRead;
      y \<leftarrow> cpu_read (snd x) (v AND 0xFF00) AccRead;
      Some (snd y\<lparr>c_abs_addr := u16_from_le_bytes (fst x) (fst y)\<rparr>) }) (calm bd r i (t + 1 + 1 + 1 + 1))"
    by (rule read_then [OF c'], unfold snd_conv, erule read_then, unfold snd_conv returns_Some calm_upd)
  moreover have "returns (do { x \<leftarrow> read_u16 c' v; Some (snd x\<lparr>c_abs_addr := fst x\<rparr>) }) (calm bd r i (t + 1 + 1 + 1 + 1))"
    by (rule read_u16_then [OF c'], unfold snd_conv returns_Some calm_upd)
  ultimately show "returns (if v AND 0xFF = 0xFF then do { x \<leftarrow> cpu_read c' v AccRead;
      y \<leftarrow> cpu_read (snd x) (v AND 0xFF00) AccRead;
      Some (snd y\<lparr>c_abs_addr := u16_from_le_bytes (fst x) (fst y)\<rparr>) }
      else do { x \<leftarrow> read_u16 c' v; Some (snd x\<lparr>c_abs_addr := fst x\<rparr>) }) (calm bd r i (t + 1 + 1 + 1 + 1))"
    by (rule returns_ifI)
qed

lemma mode_indexed_indirect:
  assumes "calm bd (Suc (Suc (Suc (Suc r)))) i t c"
  shows "returns (am_idx c) (calm bd r i (t + 1 + 1 + 1 + 1))" "returns (am_idy c) (calm bd r i (t + 1 + 1 + 1 + 1))"
  unfolding am_idx_def am_idy_def split_beta Let_def
   apply (rule read_instr_then [OF assms], unfold fst_conv snd_conv, erule read_then, unfold snd_conv,
      erule read_zp_u16_then, unfold snd_conv returns_Some calm_upd, assumption)
  apply (rule read_instr_then [OF assms], unfold fst_conv snd_conv, erule read_zp_u16_then, unfold snd_conv,
      rule read_uncorrected_end, unfold calm_upd, assumption, assumption)
  done

lemmas mode_costs = mode_read mode_indexed mode_abs mode_abs_indexed mode_indirect mode_indexed_indirect

lemma cpu_address_cost:
  assumes "calm bd (r + mode_cost m) i t c"
  shows "returns (cpu_address m c) (calm bd r i (t + of_nat (mode_cost m)))"
proof (cases "m = IMM")
  case True
  then show ?thesis using assms by (simp add: am_imm_def)
next
  case False
  have t: "t + 2 = t + 1 + 1" "t + 3 = t + 1 + 1 + 1" "t + 4 = t + 1 + 1 + 1 + 1" by simp_all
  have r: "r + 1 = Suc r" "r + 2 = Suc (Suc r)" "r + 3 = Suc (Suc (Suc r))" "r + 4 = Suc (Suc (Suc (Suc r)))" by simp_all
  show ?thesis using assms False
    by (cases m; simp only: mode_cost.simps cpu_address.simps of_nat_1 of_nat_numeral t r) ((rule mode_costs, assumption)+)
qed

section \<open>Operations\<close>

lemmas loads = op_lda_def op_ldx_def op_ldy_def op_adc_def op_sbc_def op_and_def op_ora_def op_eor_def
  op_bit_def op_cmp_def op_cpx_def op_cpy_def op_nop_def op_skb_def op_ign_def op_axs_def op_xaa_def
  op_arr_def op_alr_def op_anc_def

lemma load_op:
  assumes "calm bd (Suc r) i t c"
  shows "returns (op_lda c) (calm bd r i (t + of_nat (fetch_cost c)))" "returns (op_ldx c) (calm bd r i (t + of_nat (fetch_cost c)))"
    "returns (op_ldy c) (calm bd r i (t + of_nat (fetch_cost c)))" "returns (op_adc c) (calm bd r i (t + of_nat (fetch_cost c)))"
    "returns (op_sbc c) (calm bd r i (t + of_nat (fetch_cost c)))" "returns (op_and c) (calm bd r i (t + of_nat (fetch_cost c)))"
    "returns (op_ora c) (calm bd r i (t + of_nat (fetch_cost c)))" "returns (op_eor c) (calm bd r i (t + of_nat (fetch_cost c)))"
    "returns (op_bit c) (calm bd r i (t + of_nat (fetch_cost c)))" "returns (op_cmp c) (calm bd r i (t + of_nat (fetch_cost c)))"
    "returns (op_cpx c) (calm bd r i (t + of_nat (fetch_cost c)))" "returns (op_cpy c) (calm bd r i (t + of_nat (fetch_cost c)))"
    "returns (op_nop c) (calm bd r i (t + of_nat (fetch_cost c)))" "returns (op_skb c) (calm bd r i (t + of_nat (fetch_cost c)))"
    "returns (op_ign c) (calm bd r i (t + of_nat (fetch_cost c)))" "returns (op_axs c) (calm bd r i (t + of_nat (fetch_cost c)))"
    "returns (op_xaa c) (calm bd r i (t + of_nat (fetch_cost c)))" "returns (op_arr c) (calm bd r i (t + of_nat (fetch_cost c)))"
    "returns (op_alr c) (calm bd r i (t + of_nat (fetch_cost c)))" "returns (op_anc c) (calm bd r i (t + of_nat (fetch_cost c)))"
  unfolding loads Let_def
  by (rule fetch_then [OF assms] fetch_end [OF assms];
      (assumption | simp only: returns_Some calm_upd calm_status))+

lemma transfer_op:
  assumes "calm bd r i t c"
  shows "returns (op_tax c) (calm bd r i t)" "returns (op_tay c) (calm bd r i t)" "returns (op_tsx c) (calm bd r i t)"
    "returns (op_txa c) (calm bd r i t)" "returns (op_txs c) (calm bd r i t)" "returns (op_tya c) (calm bd r i t)"
    "returns (op_dex c) (calm bd r i t)" "returns (op_dey c) (calm bd r i t)" "returns (op_inx c) (calm bd r i t)"
    "returns (op_iny c) (calm bd r i t)" "returns (op_clc c) (calm bd r i t)" "returns (op_sec c) (calm bd r i t)"
    "returns (op_cld c) (calm bd r i t)" "returns (op_sed c) (calm bd r i t)" "returns (op_cli c) (calm bd r i t)"
    "returns (op_sei c) (calm bd r i t)" "returns (op_clv c) (calm bd r i t)" "returns (op_jmp c) (calm bd r i t)"
    "returns (op_xxx c) (calm bd r i t)"
  unfolding op_tax_def op_tay_def op_tsx_def op_txa_def op_txs_def op_tya_def op_dex_def op_dey_def op_inx_def
    op_iny_def op_clc_def op_sec_def op_cld_def op_sed_def op_cli_def op_sei_def op_clv_def op_jmp_def op_xxx_def Let_def
  by (simp_all only: returns_Some calm_upd calm_status assms)

lemma las_lax_op:
  assumes "calm bd (Suc r) i t c"
  shows "returns (op_las c) (calm bd r i (t + of_nat (fetch_cost c)))" "returns (op_lax c) (calm bd r i (t + of_nat (fetch_cost c)))"
  unfolding op_las_def op_lax_def returns_bind
  by (rule returns_mono [OF load_op(1) [OF assms]], erule transfer_op)+

lemmas modifies = op_asl_def op_dec_def op_inc_def op_lsr_def op_rol_def op_ror_def op_isb_def op_dcp_def
  op_rra_def op_sre_def op_rla_def op_slo_def

lemma modify_op:
  fixes t defines "t' i c \<equiv> t + of_nat (fetch_cost c) + of_nat (write_cost i) + of_nat (write_cost i)"
  assumes "calm bd (Suc (Suc (Suc r))) i t c"
  shows "returns (op_asl c) (ready bd r i (t' i c))" "returns (op_dec c) (ready bd r i (t' i c))"
    "returns (op_inc c) (ready bd r i (t' i c))" "returns (op_lsr c) (ready bd r i (t' i c))"
    "returns (op_rol c) (ready bd r i (t' i c))" "returns (op_ror c) (ready bd r i (t' i c))"
    "returns (op_isb c) (ready bd r i (t' i c))" "returns (op_dcp c) (ready bd r i (t' i c))"
    "returns (op_rra c) (ready bd r i (t' i c))" "returns (op_sre c) (ready bd r i (t' i c))"
    "returns (op_rla c) (ready bd r i (t' i c))" "returns (op_slo c) (ready bd r i (t' i c))"
  unfolding modifies Let_def t'_def
  by (rule fetch_then [OF assms(2)], drule calm_ready, erule write_fetched_then,
      (rule write_fetched_then write_fetched_end, simp only: ready_upd ready_status, simp only: ready_upd ready_status returns_Some))+

lemma store_op:
  assumes "ready bd (Suc r) i t c"
  shows "returns (op_sta c) (ready bd r i (t + 1))" "returns (op_stx c) (ready bd r i (t + 1))"
    "returns (op_sty c) (ready bd r i (t + 1))"
  unfolding op_sta_def op_stx_def op_sty_def by (rule write_end [OF assms], assumption)+

lemma store_tas_op:
  assumes "ready bd (Suc r) i t c"
  shows "returns (op_tas c) (ready bd r i (t + 1))"
  unfolding op_tas_def by (rule write_then [OF assms], simp only: returns_Some ready_upd)

lemma store_fetched_op:
  assumes "ready bd (Suc r) i t c"
  shows "returns (op_ahx c) (ready bd r i (t + of_nat (write_cost i)))"
    "returns (op_sxa c) (ready bd r i (t + of_nat (write_cost i)))"
    "returns (op_sya c) (ready bd r i (t + of_nat (write_cost i)))"
  unfolding op_ahx_def op_sxa_def op_sya_def store_and_high_def Let_def
  by (rule write_fetched_end, (unfold ready_upd)?, rule assms, assumption)+

lemma store_sax_op:
  assumes "calm bd (Suc r) i t c" and "instr_addr_mode i \<noteq> IDY"
  shows "returns (op_sax c) (ready bd r i (t + of_nat (write_cost i)))"
proof -
  have "c_instr c = i" using assms(1) by (simp add: calm_def ready_def)
  then have "op_sax c = write_fetched c (c_acc c AND c_x c)" using assms(2) by (simp add: op_sax_def)
  then show ?thesis using write_fetched_end [OF calm_ready [OF assms(1)]] by simp
qed

lemma push_op:
  assumes "calm bd (Suc r) i t c"
  shows "returns (op_pha c) (calm bd r i (t + 1))" "returns (op_php c) (calm bd r i (t + 1))"
  unfolding op_pha_def op_php_def by (rule push_end [OF assms], assumption)+

lemma pull_op:
  assumes "calm bd (Suc (Suc r)) i t c"
  shows "returns (op_pla c) (calm bd r i (t + 1 + 1))" "returns (op_plp c) (calm bd r i (t + 1 + 1))"
  unfolding op_pla_def op_plp_def split_beta Let_def
  by (rule read_stack_then [OF assms], unfold fst_conv snd_conv, erule pop_then,
      simp only: returns_Some calm_upd calm_status fst_conv snd_conv)+

lemma jsr_op:
  assumes "calm bd (Suc (Suc (Suc r))) i t c"
  shows "returns (op_jsr c) (calm bd r i (t + 1 + 1 + 1))"
  unfolding op_jsr_def split_beta Let_def
  by (rule read_stack_then [OF assms], unfold fst_conv snd_conv, erule push_u16_then, simp only: returns_Some calm_upd)

lemma rts_op:
  assumes "calm bd (Suc (Suc (Suc (Suc r)))) i t c"
  shows "returns (op_rts c) (calm bd r i (t + 1 + 1 + 1 + 1))"
  unfolding op_rts_def split_beta Let_def
  by (rule read_stack_then [OF assms], unfold fst_conv snd_conv, erule pop_u16_then, unfold fst_conv snd_conv,
      rule read_then, simp only: calm_upd, simp only: returns_Some snd_conv)

lemma rti_op:
  assumes "calm bd (Suc (Suc (Suc (Suc r)))) i t c"
  shows "returns (op_rti c) (calm bd r i (t + 1 + 1 + 1 + 1))"
  unfolding op_rti_def split_beta Let_def
  by (rule read_stack_then [OF assms], unfold fst_conv snd_conv, erule pop_then, unfold fst_conv snd_conv,
      rule pop_u16_then, simp only: calm_upd, simp only: returns_Some fst_conv snd_conv calm_upd)

text \<open>The interrupt sequences.\<close>

lemma cpu_vector_then:
  assumes "calm bd (Suc (Suc (Suc r))) i t c"
    and f: "\<And>c'. calm bd r i (t + 1 + 1 + 1) c' \<Longrightarrow> returns (f c') Q"
  shows "returns (Option.bind (cpu_vector c s) f) Q"
proof -
  have seq: "returns (Option.bind (do { c \<leftarrow> cpu_push d s; let c = set_status c FLAG_I True;
      (pc, c) \<leftarrow> read_u16 c v; Some (c\<lparr>c_pc := pc\<rparr>) }) f) Q" if "calm bd (Suc (Suc (Suc r))) i t d" for d v
    unfolding Option.bind_assoc Let_def split_beta
    by (rule push_then [OF that], rule read_u16_then, unfold calm_status, assumption,
        unfold bind.bind_lunit fst_conv snd_conv, rule f, unfold calm_upd)
  have "calm bd (Suc (Suc (Suc r))) i t (c\<lparr>c_nmi := False\<rparr>)" using assms(1) by simp
  from seq [OF this] seq [OF assms(1)] show ?thesis unfolding cpu_vector_def Let_def
    by (cases "c_nmi c") (simp_all only: if_True if_False not_False_eq_True)
qed

lemma brk_op:
  assumes "calm bd (Suc (Suc (Suc (Suc (Suc (Suc r)))))) i t c"
  shows "returns (op_brk c) (calm bd r i (t + of_nat (fetch_cost c) + 1 + 1 + 1 + 1 + 1))"
  unfolding op_brk_def split_beta Let_def
  by (rule fetch_then [OF assms], erule push_u16_then, erule cpu_vector_then, simp only: returns_Some calm_upd)

lemma irq_cost:
  assumes "calm bd (Suc (Suc (Suc (Suc (Suc (Suc (Suc r))))))) i t c"
  shows "returns (cpu_irq c) (calm bd r i (t + 1 + 1 + 1 + 1 + 1 + 1 + 1))"
proof -
  have "returns (Option.bind (cpu_irq c) Some) (calm bd r i (t + 1 + 1 + 1 + 1 + 1 + 1 + 1))"
    unfolding cpu_irq_def split_beta Let_def Option.bind_assoc
    by (rule read_then [OF assms], unfold fst_conv snd_conv, erule read_then, unfold fst_conv snd_conv,
      erule push_u16_then, erule cpu_vector_then, simp only: returns_Some)
  then show ?thesis by simp
qed

section \<open>Branches\<close>

fun taken :: "operation \<Rightarrow> cpu \<Rightarrow> bool" where
  "taken BCC c \<longleftrightarrow> \<not> flag_intersects (c_status c) FLAG_C"
| "taken BCS c \<longleftrightarrow> flag_intersects (c_status c) FLAG_C"
| "taken BNE c \<longleftrightarrow> \<not> flag_intersects (c_status c) FLAG_Z"
| "taken BEQ c \<longleftrightarrow> flag_intersects (c_status c) FLAG_Z"
| "taken BPL c \<longleftrightarrow> \<not> flag_intersects (c_status c) FLAG_N"
| "taken BMI c \<longleftrightarrow> flag_intersects (c_status c) FLAG_N"
| "taken BVC c \<longleftrightarrow> \<not> flag_intersects (c_status c) FLAG_V"
| "taken BVS c \<longleftrightarrow> flag_intersects (c_status c) FLAG_V"
| "taken _ c \<longleftrightarrow> False"

text \<open>One more cycle for a branch taken, two for one to another page.\<close>

definition branch_cost :: "operation \<Rightarrow> cpu \<Rightarrow> nat" where
  "branch_cost k c = (if taken k c then (if pages_differ (branch_target c) (c_pc c) then 2 else 1) else 0)"

lemma branch_op:
  assumes "calm bd (Suc (Suc r)) i t c"
  shows "returns (branch c) (calm bd r i (if pages_differ (branch_target c) (c_pc c) then t + 1 + 1 else t + 1))"
proof -
  define d where "d = (if c_run_irq c \<and> \<not> c_prev_run_irq c then c\<lparr>c_run_irq := False\<rparr> else c)"
  have d: "calm bd (Suc (Suc r)) i t d" "c_regs d = c_regs c"
    using assms by (simp_all add: d_def c_regs_def)
  have same: "c_pc e = c_pc c" "branch_target e = branch_target c" if "c_regs e = c_regs d" for e
    using c_regsD(1,9) [OF that] c_regsD(1,9) [OF d(2)] by (simp_all add: branch_target_def)
  show ?thesis
    unfolding branch_def Let_def split_beta d_def [symmetric]
  proof (rule read_then [OF d(1)], unfold snd_conv)
    fix v e assume e: "calm bd (Suc r) i (t + 1) e" "c_regs e = c_regs d"
    let ?e = "e\<lparr>c_abs_addr := branch_target e\<rparr>"
    have "calm bd (Suc r) i (t + 1) ?e" using e(1) by simp
    then show "returns (do { c \<leftarrow> if pages_differ (c_abs_addr ?e) (c_pc ?e) then map_option snd (cpu_read ?e (c_pc ?e) AccRead) else Some ?e;
        Some (c\<lparr>c_pc := c_abs_addr c\<rparr>) }) (calm bd r i (if pages_differ (branch_target c) (c_pc c) then t + 1 + 1 else t + 1))"
      using same [OF e(2)] read_snd_then [of bd r i "t + 1" ?e "\<lambda>c. Some (c\<lparr>c_pc := c_abs_addr c\<rparr>)"
          "calm bd r i (t + 1 + 1)" "c_pc ?e" AccRead] calm_less
      by (cases "pages_differ (branch_target c) (c_pc c)") simp_all
  qed
qed

lemma branch_ops:
  assumes "calm bd (Suc (Suc r)) i t c" and "k \<in> {BCC, BCS, BNE, BEQ, BPL, BMI, BVC, BVS}"
  shows "returns (cpu_execute k c) (calm bd r i (t + of_nat (branch_cost k c)))"
proof -
  have "cpu_execute k c = (if taken k c then branch c else Some c)"
    using assms(2) by (elim insertE emptyE) (simp_all only: cpu_execute.simps taken.simps op_bcc_def op_bcs_def
        op_bne_def op_beq_def op_bpl_def op_bmi_def op_bvc_def op_bvs_def)
  then show ?thesis
    using branch_op [OF assms(1)] calm_weaken [OF assms(1), of r]
    by (cases "pages_differ (branch_target c) (c_pc c)") (simp_all add: branch_cost_def add.commute)
qed

section \<open>The table of instructions\<close>

text \<open>The cycles of an operation after its addressing mode, from those of a fetch and of a write.\<close>

primrec op_base :: "operation \<Rightarrow> nat \<Rightarrow> nat \<Rightarrow> nat" where
  "op_base ADC f w = f"
| "op_base AND' f w = f"
| "op_base ASL f w = f + w + w"
| "op_base BCC f w = 0"
| "op_base BCS f w = 0"
| "op_base BEQ f w = 0"
| "op_base BIT f w = f"
| "op_base BMI f w = 0"
| "op_base BNE f w = 0"
| "op_base BPL f w = 0"
| "op_base BRK f w = f + 5"
| "op_base BVC f w = 0"
| "op_base BVS f w = 0"
| "op_base CLC f w = 0"
| "op_base CLD f w = 0"
| "op_base CLI f w = 0"
| "op_base CLV f w = 0"
| "op_base CMP f w = f"
| "op_base CPX f w = f"
| "op_base CPY f w = f"
| "op_base DEC f w = f + w + w"
| "op_base DEX f w = 0"
| "op_base DEY f w = 0"
| "op_base EOR f w = f"
| "op_base INC f w = f + w + w"
| "op_base INX f w = 0"
| "op_base INY f w = 0"
| "op_base JMP f w = 0"
| "op_base JSR f w = 3"
| "op_base LDA f w = f"
| "op_base LDX f w = f"
| "op_base LDY f w = f"
| "op_base LSR f w = f + w + w"
| "op_base NOP f w = f"
| "op_base ORA f w = f"
| "op_base PHA f w = 1"
| "op_base PHP f w = 1"
| "op_base PLA f w = 2"
| "op_base PLP f w = 2"
| "op_base ROL f w = f + w + w"
| "op_base ROR f w = f + w + w"
| "op_base RTI f w = 4"
| "op_base RTS f w = 4"
| "op_base SBC f w = f"
| "op_base SEC f w = 0"
| "op_base SED f w = 0"
| "op_base SEI f w = 0"
| "op_base STA f w = 1"
| "op_base STX f w = 1"
| "op_base STY f w = 1"
| "op_base TAX f w = 0"
| "op_base TAY f w = 0"
| "op_base TSX f w = 0"
| "op_base TXA f w = 0"
| "op_base TXS f w = 0"
| "op_base TYA f w = 0"
| "op_base SKB f w = f"
| "op_base IGN f w = f"
| "op_base ISB f w = f + w + w"
| "op_base DCP f w = f + w + w"
| "op_base AXS f w = f"
| "op_base LAS f w = f"
| "op_base LAX f w = f"
| "op_base AHX f w = w"
| "op_base SAX f w = w"
| "op_base XAA f w = f"
| "op_base SXA f w = w"
| "op_base RRA f w = f + w + w"
| "op_base TAS f w = 1"
| "op_base SYA f w = w"
| "op_base ARR f w = f"
| "op_base SRE f w = f + w + w"
| "op_base ALR f w = f"
| "op_base RLA f w = f + w + w"
| "op_base ANC f w = f"
| "op_base SLO f w = f + w + w"
| "op_base XXX f w = 0"

text \<open>The cycles of a fetch without that of a page crossing, which comes to \<open>extra_cost\<close> with that of
  a branch.\<close>

definition fetch_base :: "instr \<Rightarrow> nat" where
  "fetch_base i =
     (case instr_addr_mode i of IMP \<Rightarrow> 0 | ACC \<Rightarrow> 0
      | ABX \<Rightarrow> (if instr_op i \<in> set READ_OPS then 0 else 1)
      | ABY \<Rightarrow> (if instr_op i \<in> set READ_OPS then 0 else 1)
      | IDY \<Rightarrow> (if instr_op i \<in> set READ_OPS then 0 else 1)
      | _ \<Rightarrow> 1)"

definition crossing_cost :: "cpu \<Rightarrow> nat" where
  "crossing_cost c = (if instr_addr_mode (c_instr c) \<in> {ABX, ABY, IDY} \<and> instr_op (c_instr c) \<in> set READ_OPS \<and> crosses c
     then 1 else 0)"

definition extra_cost :: "cpu \<Rightarrow> nat" where
  "extra_cost c = crossing_cost c + branch_cost (instr_op (c_instr c)) c"

definition base_cost :: "instr \<Rightarrow> nat" where
  "base_cost i = 1 + mode_cost (instr_addr_mode i) + op_base (instr_op i) (fetch_base i) (write_cost i)"

lemma fetch_cost_split: "fetch_cost c = fetch_base (c_instr c) + crossing_cost c"
  by (cases "instr_addr_mode (c_instr c)") (simp_all add: fetch_cost_def fetch_base_def crossing_cost_def)

lemma instructions_table:
  "\<forall>i\<in>set INSTRUCTIONS. base_cost i = instr_cycles i \<and> (instr_op i = SAX \<longrightarrow> instr_addr_mode i \<noteq> IDY)"
  by (simp add: INSTRUCTIONS_def base_cost_def fetch_base_def write_cost_def READ_OPS_def)

section \<open>The cycles of an instruction\<close>

lemma crossing_none: "instr_op (c_instr c) \<notin> set READ_OPS \<Longrightarrow> crossing_cost c = 0"
  by (simp add: crossing_cost_def)

lemma branch_none: "k \<notin> {BCC, BCS, BNE, BEQ, BPL, BMI, BVC, BVS} \<Longrightarrow> branch_cost k c = 0"
  by (cases k) (simp_all add: branch_cost_def)

text \<open>All operations, with the time as \<open>op_base\<close> has it.\<close>

lemma calm_returns_ready:
  "returns m (calm bd n i t) \<Longrightarrow> r \<le> n \<Longrightarrow> t = t' \<Longrightarrow> returns m (ready bd r i t')"
  by (erule returns_mono) (simp add: calm_def ready_def room_def)

lemma ready_returns_ready:
  "returns m (ready bd n i t) \<Longrightarrow> r \<le> n \<Longrightarrow> t = t' \<Longrightarrow> returns m (ready bd r i t')"
  by (erule returns_mono) (simp add: ready_def room_def)

lemma cpu_execute_cost:
  assumes c: "calm bd (Suc (Suc (Suc (Suc (Suc (Suc r)))))) i t c" and sax: "k = SAX \<Longrightarrow> instr_addr_mode i \<noteq> IDY"
  shows "returns (cpu_execute k c) (ready bd r i (t + of_nat (op_base k (fetch_cost c) (write_cost i) + branch_cost k c)))"
proof -
  note rd = calm_ready [OF c]
  show ?thesis
  proof (cases "k \<in> {BCC, BCS, BNE, BEQ, BPL, BMI, BVC, BVS}")
    case True
    then have "op_base k (fetch_cost c) (write_cost i) = 0"
      by (elim insertE emptyE) (simp_all only: op_base.simps)
    then show ?thesis using calm_returns_ready [OF branch_ops [OF _ True], of bd _ i t c] c by simp
  next
    case False
    have "returns (cpu_execute k c) (ready bd r i (t + of_nat (op_base k (fetch_cost c) (write_cost i))))"
      using False
      by (cases k; simp only: cpu_execute.simps op_base.simps)
        (rule load_op [OF c, THEN calm_returns_ready] transfer_op [OF c, THEN calm_returns_ready]
          las_lax_op [OF c, THEN calm_returns_ready] modify_op [OF c, THEN ready_returns_ready]
          store_op [OF rd, THEN ready_returns_ready] store_tas_op [OF rd, THEN ready_returns_ready]
          store_fetched_op [OF rd, THEN ready_returns_ready] store_sax_op [OF c sax, THEN ready_returns_ready]
          push_op [OF c, THEN calm_returns_ready] pull_op [OF c, THEN calm_returns_ready]
          jsr_op [OF c, THEN calm_returns_ready] rts_op [OF c, THEN calm_returns_ready]
          rti_op [OF c, THEN calm_returns_ready] brk_op [OF c, THEN calm_returns_ready] FalseE; simp)+
    then show ?thesis by (simp only: branch_none [OF False] add_0_right)
  qed
qed

end
