(* ===== verification/CpuDma.thy ===== *)
theory CpuDma
  imports CpuInv
begin

text \<open>
  The transfer of a page to OAM: the loop of \<open>handle_dma\<close> without a DMC request, round by round.
  Each byte is a read in a get cycle and a write to $2004 in a put cycle; the loop ends after 256
  of them.
\<close>

section \<open>What a transfer writes\<close>

definition oam_byte :: "u8 \<Rightarrow> u8 \<Rightarrow> u8" where
  "oam_byte a v = (if a AND 0x03 = 0x02 then v AND 0xE3 else v)"

fun oam_put :: "u8 list \<times> u8 \<times> ppu_mask \<Rightarrow> u8 \<Rightarrow> u8 list \<times> u8 \<times> ppu_mask" where
  "oam_put (oam, a, m) v = (oam[unat a := oam_byte a v], a + 1, m)"

lemma oam_put_addr: "fst (snd (foldl oam_put s vs)) = fst (snd s) + of_nat (length vs)"
  by (induction vs arbitrary: s) (auto simp: algebra_simps)

lemma oam_put_length: "length (fst (foldl oam_put s vs)) = length (fst s)"
  by (induction vs arbitrary: s) auto

lemma oam_addr_inj: "i < 256 \<Longrightarrow> j < 256 \<Longrightarrow> a + of_nat i = a + of_nat j \<longleftrightarrow> i = j" for a :: u8
proof -
  assume "i < 256" "j < 256"
  then have "unat (of_nat i :: u8) = i" "unat (of_nat j :: u8) = j"
    by (simp_all add: unat_of_nat)
  then show ?thesis by (metis add_left_cancel)
qed

lemma oam_put_nth:
  assumes "length vs \<le> 256" and "length (fst s) = 256" and "i < length vs"
  shows "fst (foldl oam_put s vs) ! unat (fst (snd s) + of_nat i) = oam_byte (fst (snd s) + of_nat i) (vs ! i)"
  using assms
proof (induction vs rule: rev_induct)
  case (snoc v vs)
  obtain oam a m where f: "foldl oam_put s vs = (oam, a, m)" by (metis prod_cases3)
  have a: "a = fst (snd s) + of_nat (length vs)" using oam_put_addr [of s vs] f by simp
  have len: "length oam = 256" using oam_put_length [of s vs] f snoc.prems(2) by simp
  show ?case
  proof (cases "i = length vs")
    case True
    then show ?thesis using f a len by simp
  next
    case False
    then have i: "i < length vs" using snoc.prems(3) by simp
    then have "a \<noteq> fst (snd s) + of_nat i" using oam_addr_inj [of "length vs" i] a snoc.prems(1) by simp
    then have "unat a \<noteq> unat (fst (snd s) + of_nat i)" by (simp add: word_unat_eq_iff)
    then show ?thesis using snoc.IH i snoc.prems f by (simp add: nth_append)
  qed
qed simp

section \<open>The cycles\<close>

definition dma_ready :: "board \<Rightarrow> cpu \<Rightarrow> bool" where
  "dma_ready bd c \<longleftrightarrow> cpu_wf bd c \<and> dmc_idle (c_bus c) \<and> not_rendering (c_bus c) \<and> \<not> c_halt c \<and> \<not> c_dmc_dma c"

definition moves :: "board \<Rightarrow> nat \<Rightarrow> cpu \<Rightarrow> cpu \<Rightarrow> bool" where
  "moves bd n c d \<longleftrightarrow> dma_ready bd d \<and> c_regs d = c_regs c \<and> c_cycle d = c_cycle c + of_nat n
     \<and> unat (c_master_clock d) \<le> unat (c_master_clock c) + 20 * n \<and> cb_env (c_bus d) = cb_env (c_bus c)"

lemma moves_room: "moves bd n c d \<Longrightarrow> room (n + m) c \<Longrightarrow> room m d"
  by (auto simp: moves_def room_def)

lemma moves_trans: "moves bd m c d \<Longrightarrow> moves bd n d e \<Longrightarrow> moves bd (m + n) c e"
  by (auto simp: moves_def)

text \<open>A cycle without an access.\<close>

lemma empty_cycle_ok:
  assumes wf: "cpu_wf bd c" and r: "room 1 c"
  shows "returns (do { c \<leftarrow> cpu_start_cycle c k; cpu_end_cycle c k }) (\<lambda>c'. runs bd 1 c c' \<and> caught_up c'
    \<and> (dmc_idle (c_bus c) \<longrightarrow> same_dma c c'))"
proof -
  obtain e d where e: "cpu_start_cycle c k = Some e" "c_cycle e = c_cycle c + 1"
    and d: "5 \<le> d" "d \<le> (9::u64)" and h: "half_cycle bd c d e"
    using returnsD [OF cpu_start_cycle_ok [OF wf r, of k]] by blast
  have env: "clocks_env (c_bus c) (c_bus e)" and ewf: "cpu_wf bd e" using h by (simp_all add: half_cycle_def)
  have m: "unat (c_master_clock e) \<le> unat (c_master_clock c) + 9"
    using unat_clock_move(1) [OF _ d] r h d(2) by (simp add: half_cycle_def room_def word_le_nat_alt)
  then have "unat (c_master_clock e) + 40 < 2 ^ 64" using r by (simp add: room_def)
  then obtain g where g: "cpu_end_cycle e k = Some g" "end_of_cycle bd e g"
    using returnsD [OF cpu_end_cycle_ok [OF ewf]] by blast
  have "clocks_env (c_bus c) (c_bus g)" using clocks_env_trans [OF env] g(2) by (auto simp: end_of_cycle_def)
  then have "runs bd 1 c g \<and> caught_up g"
    using e(2) h g(2) m by (auto simp: runs_def half_cycle_def end_of_cycle_def)
  moreover have "dmc_idle (c_bus c) \<longrightarrow> same_dma c g"
    using h g(2) clocks_env_D(3) [OF env] by (simp add: same_dma_def half_cycle_def end_of_cycle_def)
  ultimately show ?thesis using e(1) g(1) by simp
qed

lemma runs_moves:
  assumes c: "dma_ready bd c" and d: "runs bd 1 c d" "same_dma c d"
  shows "moves bd 1 c d \<and> oam_of (cb_ppu (c_bus d)) = oam_of (cb_ppu (c_bus c))"
proof -
  have env: "clocks_env (c_bus c) (c_bus d)" using d(1) by (simp add: runs_def)
  have "dma_ready bd d"
    using c d clocks_env_D(3) [OF env] not_rendering_clocks [OF env] by (simp add: dma_ready_def runs_def same_dma_def)
  then show ?thesis
    using d c env clocks_env_D(1) [OF env] by (simp add: moves_def runs_def dma_ready_def) (simp add: clocks_env_def)
qed

lemma dma_read_ok:
  assumes c: "dma_ready bd c" and r: "room 1 c"
  shows "returns (read_cycle c addr access) (\<lambda>(v, d). moves bd 1 c d \<and> oam_of (cb_ppu (c_bus d)) = oam_of (cb_ppu (c_bus c))
    \<and> (addr \<le> 0x1FFF \<longrightarrow> v = wram_at (c_bus c) addr))"
proof -
  have wf: "cpu_wf bd c" and idle: "dmc_idle (c_bus c)" and off: "not_rendering (c_bus c)"
    and a: "can_read c addr" using c by (simp_all add: can_read_def dma_ready_def)
  obtain v d where d: "read_cycle c addr access = Some (v, d)" "runs bd 1 c d" "same_dma c d"
    "addr \<le> 0x1FFF \<longrightarrow> v = wram_at (c_bus c) addr"
    using returnsD [OF read_cycle_ok [OF wf idle r a, of access]] by auto
  then show ?thesis using runs_moves [OF c d(2,3)] by simp
qed

lemma write_oamdata_off:
  "\<not> rendering_enabled p \<Longrightarrow> length (pp_oamdata p) = 256 \<Longrightarrow> write_oamdata p v =
     Some (p\<lparr>pp_open_bus := v, pp_oamdata := (pp_oamdata p)[unat (pp_oamaddr p) := oam_byte (pp_oamaddr p) v],
             pp_oamaddr := pp_oamaddr p + 1\<rparr>)"
  using unat_u8_less [of "pp_oamaddr p"]
  by (simp add: write_oamdata_def Let_def rendering_enabled_def oam_byte_def del: unat_u8_less)

lemma cb_write_oamdata:
  assumes wf: "cb_wf bd b" and off: "not_rendering b"
  shows "returns (cb_write b 0x2004 v access) (\<lambda>d. cb_wf bd d \<and> cb_env d = cb_env b \<and> not_rendering d
    \<and> cb_apu d = cb_apu b \<and> fixed_of (cb_ppu d) = fixed_of (cb_ppu b)
    \<and> oam_of (cb_ppu d) = oam_put (oam_of (cb_ppu b)) v)"
proof -
  have len: "length (pp_oamdata (cb_ppu b)) = 256"
    using core_sizes(2) [of bd "cb_ppu b"] cb_wfD(4) [OF wf] by (simp add: ppu_wf_def)
  have off': "\<not> rendering_enabled (cb_ppu b)" using off by (simp add: not_rendering_def)
  have "cb_write b 0x2004 v access = map_option (cb_write_done 0x2004 v) (cb_with_ppu b (write_oamdata (cb_ppu b) v))"
    by (subst cb_write.simps) (simp add: cb_write_reg_def cb_write_ppu_def Let_def)
  moreover have "cb_write_done 0x2004 v (b\<lparr>cb_ppu := q\<rparr>) = b\<lparr>cb_ppu := q, cb_open_bus := v\<rparr>"
    if "pp_bus q = pp_bus (cb_ppu b)" for q
    using cb_write_done_quiet [of bd "b\<lparr>cb_ppu := q\<rparr>"] cb_wfD(8) [OF wf] that by (simp add: cb_mapper_def)
  ultimately show ?thesis
    using cb_write_ok [OF wf, of "0x2004" v access]
    by (simp add: write_oamdata_off [OF off' len] cb_with_ppu_def cb_env_def not_rendering_def fixed_of_def oam_of_def)
      (use off' in \<open>simp add: rendering_enabled_def\<close>)
qed

lemma dma_write_ok:
  assumes c: "dma_ready bd c" and r: "room 1 c"
  shows "returns (do { c \<leftarrow> cpu_start_cycle c ReadCycle; c \<leftarrow> cpu_bus_write c 0x2004 v access; cpu_end_cycle c ReadCycle })
    (\<lambda>d. moves bd 1 c d \<and> oam_of (cb_ppu (c_bus d)) = oam_put (oam_of (cb_ppu (c_bus c))) v)"
proof -
  have wf: "cpu_wf bd c" using c by (simp add: dma_ready_def)
  obtain e d where e: "cpu_start_cycle c ReadCycle = Some e" "c_cycle e = c_cycle c + 1"
    and d: "5 \<le> d" "d \<le> (9::u64)" and h: "half_cycle bd c d e"
    using returnsD [OF cpu_start_cycle_ok [OF wf r, of ReadCycle]] by blast
  have env: "clocks_env (c_bus c) (c_bus e)" and ewf: "cpu_wf bd e" using h by (simp_all add: half_cycle_def)
  have bwf: "cb_wf bd (c_bus e)" using ewf by (simp add: cpu_wf_def)
  have off: "not_rendering (c_bus e)" using c not_rendering_clocks [OF env] by (simp add: dma_ready_def)
  obtain b where b: "cb_write (c_bus e) 0x2004 v access = Some b" "cb_wf bd b" "cb_env b = cb_env (c_bus e)"
    "not_rendering b" "cb_apu b = cb_apu (c_bus e)" "fixed_of (cb_ppu b) = fixed_of (cb_ppu (c_bus e))"
    "oam_of (cb_ppu b) = oam_put (oam_of (cb_ppu (c_bus e))) v"
    using returnsD [OF cb_write_oamdata [OF bwf off]] by blast
  let ?f = "e\<lparr>c_bus := b\<rparr>"
  have fwf: "cpu_wf bd ?f" by (rule cpu_wf_bus [OF ewf b(2,6)])
  have m: "unat (c_master_clock e) \<le> unat (c_master_clock c) + 9"
    using unat_clock_move(1) [OF _ d] r h d(2) by (simp add: half_cycle_def room_def word_le_nat_alt)
  then have "unat (c_master_clock ?f) + 40 < 2 ^ 64" using r by (simp add: room_def)
  then obtain g where g: "cpu_end_cycle ?f ReadCycle = Some g" "end_of_cycle bd ?f g"
    using returnsD [OF cpu_end_cycle_ok [OF fwf]] by blast
  have env2: "clocks_env b (c_bus g)" using g(2) by (simp add: end_of_cycle_def)
  have idle: "dmc_idle (c_bus e)" "dmc_idle b"
    using c env b(5) by (simp_all add: dma_ready_def clocks_env_def dmc_idle_def)
  have "moves bd 1 c g"
    using c e(2) h g(2) m idle b(3,4) not_rendering_clocks [OF env2] clocks_env_D(1,3) [OF env2] clocks_env_D(1) [OF env]
    by (simp add: moves_def dma_ready_def half_cycle_def end_of_cycle_def)
  moreover have "oam_of (cb_ppu (c_bus g)) = oam_put (oam_of (cb_ppu (c_bus c))) v"
    using env env2 b(4,7) c by (simp add: clocks_env_def dma_ready_def)
  ultimately show ?thesis using e b(1) g by (simp add: cpu_bus_write_def)
qed

section \<open>The rounds of the loop\<close>

text \<open>\<open>process_dma_cycle\<close> outside of a halt.\<close>

definition undummy :: "cpu \<Rightarrow> cpu" where
  "undummy c = (if c_dummy_read c then c\<lparr>c_dummy_read := False\<rparr> else c)"

lemma undummy_fields [simp]:
  "dma_ready bd (undummy c) = dma_ready bd c" "c_bus (undummy c) = c_bus c" "c_cycle (undummy c) = c_cycle c"
  "moves bd n (undummy c) d = moves bd n c d" "room n (undummy c) = room n c"
  by (simp_all add: undummy_def dma_ready_def moves_def room_def)

lemma process_dma_cycle_ready: "dma_ready bd c \<Longrightarrow> process_dma_cycle c = cpu_start_cycle (undummy c) ReadCycle"
  by (simp add: process_dma_cycle_def dma_ready_def undummy_def)

definition get_cycle :: "cpu \<Rightarrow> bool" where
  "get_cycle c \<longleftrightarrow> c_cycle c AND 1 = 0"

lemma even_cycle: "w AND 1 = 0 \<longleftrightarrow> even (unat w)" for w :: u64
proof -
  have "w AND 1 = 0 \<longleftrightarrow> \<not> bit w 0" by (simp add: and_one_eq bit_0 even_iff_mod_2_eq_zero)
  also have "bit w 0 \<longleftrightarrow> bit (unat w) 0" by (simp add: bit_unsigned_iff del: bit_0)
  finally show ?thesis by (simp add: bit_0)
qed

lemma get_cycle_move: "moves bd n c d \<Longrightarrow> get_cycle d = (if even n then get_cycle c else \<not> get_cycle c)"
proof -
  assume m: "moves bd n c d"
  then have "even (unat (c_cycle d)) \<longleftrightarrow> even (unat (c_cycle c) + n)"
    by (simp add: moves_def unat_word_ariths unat_of_nat dvd_mod_iff)
  then show ?thesis by (auto simp: get_cycle_def even_cycle)
qed

text \<open>The three steps of the loop: an alignment cycle, a get and a put.\<close>

lemma dma_idle_ok:
  assumes c: "dma_ready bd c" and r: "room 1 c"
  shows "returns (dma_idle addr c) (\<lambda>d. moves bd 1 c d \<and> oam_of (cb_ppu (c_bus d)) = oam_of (cb_ppu (c_bus c)))"
proof (cases "addr = 0x4016 \<or> addr = 0x4017")
  case True
  have "cpu_wf bd (undummy c)" "room 1 (undummy c)" "dmc_idle (c_bus (undummy c))"
    using c r undummy_fields(1) [of bd c] by (simp_all add: dma_ready_def)
  then obtain d where d: "do { c \<leftarrow> cpu_start_cycle (undummy c) ReadCycle; cpu_end_cycle c ReadCycle } = Some d"
    "runs bd 1 (undummy c) d" "same_dma (undummy c) d"
    using returnsD [OF empty_cycle_ok [of bd "undummy c" ReadCycle]] by blast
  have "moves bd 1 c d \<and> oam_of (cb_ppu (c_bus d)) = oam_of (cb_ppu (c_bus c))"
    using runs_moves [OF _ d(2,3)] c by simp
  then show ?thesis using True d(1) c by (simp add: dma_idle_def process_dma_cycle_ready)
next
  case False
  have "dma_idle addr c = map_option snd (read_cycle (undummy c) addr AccDummy)"
    using False c by (simp add: dma_idle_def process_dma_cycle_ready read_cycle_def map_option_bind bind_map_option comp_def split_beta)
  moreover obtain v d where "read_cycle (undummy c) addr AccDummy = Some (v, d)" "moves bd 1 (undummy c) d"
    "oam_of (cb_ppu (c_bus d)) = oam_of (cb_ppu (c_bus (undummy c)))"
    using returnsD [OF dma_read_ok [of bd "undummy c" addr AccDummy]] c r by auto
  ultimately show ?thesis by simp
qed

text \<open>The three steps of the loop: an alignment cycle, a get and a put.\<close>

lemma dma_step_align:
  assumes c: "dma_ready bd c" and r: "room 1 c" and "\<not> get_cycle c" and n: "even n"
  shows "returns (dma_step addr base (c, off, n, v)) (\<lambda>(d, s). moves bd 1 c d
    \<and> oam_of (cb_ppu (c_bus d)) = oam_of (cb_ppu (c_bus c)) \<and> s = (off, n, v))"
  using dma_idle_ok [OF c r, of addr] assms(3) n by (simp add: dma_step_def get_cycle_def)

lemma dma_step_get:
  assumes c: "dma_ready bd c" and r: "room 1 c" and "get_cycle c" and "cb_oam_dma (c_bus c)"
  shows "returns (dma_step addr base (c, off, n, v)) (\<lambda>(d, off', n', v'). moves bd 1 c d
    \<and> oam_of (cb_ppu (c_bus d)) = oam_of (cb_ppu (c_bus c)) \<and> off' = off + 1 \<and> n' = n + 1
    \<and> (base + off \<le> 0x1FFF \<longrightarrow> v' = wram_at (c_bus c) (base + off)))"
proof -
  have "dma_step addr base (c, off, n, v) =
      do { (x, d) \<leftarrow> read_cycle (undummy c) (base + off) AccDummy; Some (d, off + 1, n + 1, x) }"
    using assms(3,4) c
    by (simp add: dma_step_def get_cycle_def dma_ready_def [of bd c] process_dma_cycle_ready [OF c] read_cycle_def split_def)
  then show ?thesis
    using dma_read_ok [of bd "undummy c" "base + off" AccDummy] c r by (auto simp: returns_def)
qed

lemma dma_step_put:
  assumes c: "dma_ready bd c" and r: "room 1 c" and "\<not> get_cycle c" and "cb_oam_dma (c_bus c)" and "odd n"
  shows "returns (dma_step addr base (c, off, n, v)) (\<lambda>(d, s). \<exists>e. moves bd 1 c e
    \<and> oam_of (cb_ppu (c_bus e)) = oam_put (oam_of (cb_ppu (c_bus c))) v
    \<and> d = (if n + 1 = 0x200 then e\<lparr>c_bus := cb_oam_dma_finish (c_bus e)\<rparr> else e) \<and> s = (off, n + 1, v))"
proof -
  have eq: "dma_step addr base (c, off, n, v) =
      do { e \<leftarrow> do { c \<leftarrow> cpu_start_cycle (undummy c) ReadCycle; c \<leftarrow> cpu_bus_write c 0x2004 v AccDummy; cpu_end_cycle c ReadCycle };
           Some (if n + 1 = 0x200 then e\<lparr>c_bus := cb_oam_dma_finish (c_bus e)\<rparr> else e, off, n + 1, v) }"
    using assms(3-5) c by (simp add: dma_step_def get_cycle_def process_dma_cycle_ready [OF c])
  obtain e where e: "do { c \<leftarrow> cpu_start_cycle (undummy c) ReadCycle; c \<leftarrow> cpu_bus_write c 0x2004 v AccDummy; cpu_end_cycle c ReadCycle } = Some e"
    "moves bd 1 (undummy c) e" "oam_of (cb_ppu (c_bus e)) = oam_put (oam_of (cb_ppu (c_bus (undummy c)))) v"
    using returnsD [OF dma_write_ok [of bd "undummy c" v AccDummy]] c r by auto
  show ?thesis
    unfolding eq e(1) bind.bind_lunit returns_Some prod.case
    using e(2,3) by (intro exI [of _ e]) simp
qed

section \<open>The loop\<close>

definition finish_dma :: "cpu \<Rightarrow> cpu" where
  "finish_dma c = c\<lparr>c_bus := cb_oam_dma_finish (c_bus c)\<rparr>"

lemma oam_dma_env: "cb_env b' = cb_env b \<Longrightarrow> cb_oam_dma b' = cb_oam_dma b"
  by (simp add: cb_env_def)

lemma dma_round:
  assumes c: "dma_ready bd c" and r: "room 2 c" and g: "get_cycle c" and o: "cb_oam_dma (c_bus c)" and i: "i < 256"
  obtains e b w where "moves bd 2 c e" and "oam_of (cb_ppu (c_bus e)) = oam_put (oam_of (cb_ppu (c_bus c))) b"
    and "base + of_nat i \<le> 0x1FFF \<longrightarrow> b = wram_at (c_bus c) (base + of_nat i)"
    and "dma_loop addr base (c, of_nat i, 2 * i, v) =
      dma_loop addr base (if i = 255 then finish_dma e else e, of_nat (Suc i), 2 * Suc i, w)"
proof -
  have r1: "room 1 c" using r by (simp add: room_def)
  from dma_step_get [OF c r1 g o, of addr base "of_nat i" "2 * i" v]
  obtain d b where d: "dma_step addr base (c, of_nat i, 2 * i, v) = Some (d, of_nat i + 1, 2 * i + 1, b)" "moves bd 1 c d"
    "oam_of (cb_ppu (c_bus d)) = oam_of (cb_ppu (c_bus c))" "base + of_nat i \<le> 0x1FFF \<longrightarrow> b = wram_at (c_bus c) (base + of_nat i)"
    by (auto simp: returns_def)
  have d': "dma_ready bd d" "room 1 d" "\<not> get_cycle d" "cb_oam_dma (c_bus d)"
    using d(2) moves_room [OF d(2), of 1] r g get_cycle_move [OF d(2)] o oam_dma_env [of "c_bus d" "c_bus c"]
    by (auto simp: moves_def numeral_2_eq_2)
  have "odd (2 * i + 1)" by simp
  from returnsD [OF dma_step_put [OF d' this, of addr base "of_nat i + 1" b]]
  obtain e where e: "moves bd 1 d e" "oam_of (cb_ppu (c_bus e)) = oam_put (oam_of (cb_ppu (c_bus d))) b"
    "dma_step addr base (d, of_nat i + 1, 2 * i + 1, b) =
      Some (if i = 255 then finish_dma e else e, of_nat i + 1, 2 * i + 1 + 1, b)"
    by (auto simp: finish_dma_def)
  have "moves bd 2 c e" using moves_trans [OF d(2) e(1)] by (simp add: numeral_2_eq_2)
  moreover have "dma_loop addr base (c, of_nat i, 2 * i, v) = dma_loop addr base (d, of_nat i + 1, 2 * i + 1, b)"
    using o d(1) by (subst dma_loop.simps) simp
  moreover have "dma_loop addr base (d, of_nat i + 1, 2 * i + 1, b) =
      dma_loop addr base (if i = 255 then finish_dma e else e, of_nat (Suc i), 2 * Suc i, b)"
    using d'(4) e(3) by (subst dma_loop.simps) (simp add: add.commute)
  ultimately show thesis using that [of e b b] e(2) d(3,4) by simp
qed

definition copied :: "board \<Rightarrow> u16 \<Rightarrow> nat \<Rightarrow> nat \<Rightarrow> cpu \<Rightarrow> cpu \<Rightarrow> bool" where
  "copied bd base i k c d \<longleftrightarrow> (\<exists>e bs. moves bd (2 * k) c e \<and> d = finish_dma e \<and> length bs = k
     \<and> oam_of (cb_ppu (c_bus e)) = foldl oam_put (oam_of (cb_ppu (c_bus c))) bs
     \<and> (base \<le> 0x1F00 \<longrightarrow> bs = map (\<lambda>j. wram_at (c_bus c) (base + of_nat j)) [i..<256]))"

lemma page_offset: "base \<le> (0x1F00 :: u16) \<Longrightarrow> i < 256 \<Longrightarrow> base + of_nat i \<le> 0x1FFF"
proof -
  assume "base \<le> (0x1F00 :: u16)" "i < 256"
  then have "unat base + i \<le> 0x1FFF" by (simp add: word_le_nat_alt)
  moreover have "unat (base + of_nat i) \<le> unat base + i"
    by (simp add: unat_word_ariths unat_of_nat mod_add_right_eq)
  ultimately have "unat (base + of_nat i) \<le> unat (0x1FFF :: u16)" by simp
  then show ?thesis by (simp only: word_le_nat_alt)
qed

lemma dma_copy:
  assumes "i + Suc k = 256" and "dma_ready bd c" and "get_cycle c" and "cb_oam_dma (c_bus c)" and "room (2 * Suc k) c"
  shows "returns (dma_loop addr base (c, of_nat i, 2 * i, v)) (copied bd base i (Suc k) c)"
  using assms
proof (induction k arbitrary: c i v)
  case 0
  then have i: "i = 255" "i < 256" by simp_all
  have "room 2 c" using 0(5) by (simp add: numeral_2_eq_2)
  from dma_round [OF 0(2) this 0(3,4) i(2)] obtain e b w where
    e: "moves bd 2 c e" "oam_of (cb_ppu (c_bus e)) = oam_put (oam_of (cb_ppu (c_bus c))) b"
    "base + of_nat i \<le> 0x1FFF \<longrightarrow> b = wram_at (c_bus c) (base + of_nat i)"
    "dma_loop addr base (c, of_nat i, 2 * i, v) =
      dma_loop addr base (if i = 255 then finish_dma e else e, of_nat (Suc i), 2 * Suc i, w)" by blast
  have "dma_loop addr base (c, of_nat i, 2 * i, v) = Some (finish_dma e)"
    unfolding e(4) using e(1) i(1)
    by (subst dma_loop.simps) (simp add: finish_dma_def cb_oam_dma_finish_def moves_def dma_ready_def)
  moreover have "copied bd base i 1 c (finish_dma e)"
    unfolding copied_def using e(1-3) page_offset [of base i] i
    by (intro exI [of _ e] exI [of _ "[b]"]) (simp add: numeral_2_eq_2)
  ultimately show ?case by simp
next
  case (Suc k)
  have i: "i \<noteq> 255" "i < 256" using Suc.prems(1) by simp_all
  have "room 2 c" using Suc.prems(5) by (simp add: room_def)
  from dma_round [OF Suc.prems(2) this Suc.prems(3,4) i(2)] obtain e b w where
    e: "moves bd 2 c e" "oam_of (cb_ppu (c_bus e)) = oam_put (oam_of (cb_ppu (c_bus c))) b"
    "base + of_nat i \<le> 0x1FFF \<longrightarrow> b = wram_at (c_bus c) (base + of_nat i)"
    "dma_loop addr base (c, of_nat i, 2 * i, v) =
      dma_loop addr base (if i = 255 then finish_dma e else e, of_nat (Suc i), 2 * Suc i, w)" by blast
  have env: "cb_env (c_bus e) = cb_env (c_bus c)" and "dma_ready bd e" using e(1) by (simp_all add: moves_def)
  moreover have "get_cycle e" using get_cycle_move [OF e(1)] Suc.prems(3) by simp
  moreover have "cb_oam_dma (c_bus e)" using oam_dma_env [OF env] Suc.prems(4) by simp
  moreover have "room (2 * Suc k) e" using moves_room [OF e(1), of "2 * Suc k"] Suc.prems(5) by simp
  moreover have "Suc i + Suc k = 256" using Suc.prems(1) by simp
  ultimately obtain d f bs where d: "dma_loop addr base (e, of_nat (Suc i), 2 * Suc i, w) = Some d"
    "moves bd (2 * Suc k) e f" "d = finish_dma f" "length bs = Suc k"
    "oam_of (cb_ppu (c_bus f)) = foldl oam_put (oam_of (cb_ppu (c_bus e))) bs"
    "base \<le> 0x1F00 \<longrightarrow> bs = map (\<lambda>j. wram_at (c_bus e) (base + of_nat j)) [Suc i..<256]"
    using returnsD [OF Suc.IH [of "Suc i" e w]] unfolding copied_def by blast
  have "moves bd (2 * Suc (Suc k)) c f" using moves_trans [OF e(1) d(2)] by simp
  moreover have "b # bs = map (\<lambda>j. wram_at (c_bus c) (base + of_nat j)) [i..<256]" if "base \<le> 0x1F00"
    using e(3) d(6) that page_offset [OF that i(2)] upt_conv_Cons [OF i(2)] wram_at_env [OF env] by simp
  ultimately have "copied bd base i (Suc (Suc k)) c d"
    unfolding copied_def using d(3-5) e(2) by (intro exI [of _ f] exI [of _ "b # bs"]) simp
  then show ?case using e(4) d(1) i(1) by simp
qed

section \<open>The whole transfer\<close>

lemma copied_oam:
  assumes "copied bd base 0 256 c d" and "dma_ready bd c"
  shows "cpu_wf bd d \<and> \<not> cb_oam_dma (c_bus d) \<and> c_cycle d = c_cycle c + 512
    \<and> pp_oamaddr (cb_ppu (c_bus d)) = pp_oamaddr (cb_ppu (c_bus c))
    \<and> (base \<le> 0x1F00 \<longrightarrow> (\<forall>i<256. let a = pp_oamaddr (cb_ppu (c_bus c)) + of_nat i
        in pp_oamdata (cb_ppu (c_bus d)) ! unat a = oam_byte a (wram_at (c_bus c) (base + of_nat i))))"
proof -
  obtain e bs where e: "moves bd 512 c e" "d = finish_dma e" "length bs = 256"
    "oam_of (cb_ppu (c_bus e)) = foldl oam_put (oam_of (cb_ppu (c_bus c))) bs"
    "base \<le> 0x1F00 \<longrightarrow> bs = map (\<lambda>j. wram_at (c_bus c) (base + of_nat j)) [0..<256]"
    using assms(1) by (auto simp: copied_def)
  have wf: "cpu_wf bd e" using e(1) by (simp add: moves_def dma_ready_def)
  have len: "length (fst (oam_of (cb_ppu (c_bus c)))) = 256"
    using assms(2) core_sizes(2) [of bd "cb_ppu (c_bus c)"] cb_wfD(4) [of bd "c_bus c"]
    by (simp add: oam_of_def dma_ready_def cpu_wf_def ppu_wf_def)
  have bus: "cb_ppu (c_bus d) = cb_ppu (c_bus e)" "c_cycle d = c_cycle c + 512"
    using e(1,2) by (simp_all add: finish_dma_def cb_oam_dma_finish_def moves_def)
  have "cpu_wf bd d" using wf by (simp add: e(2) finish_dma_def cb_oam_dma_finish_def cpu_wf_def)
  moreover have "pp_oamaddr (cb_ppu (c_bus d)) = pp_oamaddr (cb_ppu (c_bus c))"
  proof -
    have "(256 :: u8) = 0" by simp
    then show ?thesis
      using oam_put_addr [of "oam_of (cb_ppu (c_bus c))" bs] e(3,4) bus(1)
      unfolding oam_of_def by (metis add.right_neutral fst_conv snd_conv of_nat_numeral)
  qed
  moreover have "pp_oamdata (cb_ppu (c_bus d)) ! unat (pp_oamaddr (cb_ppu (c_bus c)) + of_nat i)
      = oam_byte (pp_oamaddr (cb_ppu (c_bus c)) + of_nat i) (bs ! i)" if "i < 256" for i
    using oam_put_nth [of bs "oam_of (cb_ppu (c_bus c))" i] e(3) len that bus(1) e(4) [symmetric]
    by (simp add: oam_of_def)
  ultimately show ?thesis
    using e(2,5) bus(2) by (simp add: Let_def finish_dma_def cb_oam_dma_finish_def)
qed

lemma handle_dma_ok:
  assumes wf: "cpu_wf bd c" and off: "not_rendering (c_bus c)" and idle: "dmc_idle (c_bus c)"
    and dmc: "\<not> c_dmc_dma c" and o: "cb_oam_dma (c_bus c)" and r: "room 514 c"
  shows "returns (cpu_handle_dma c addr) (\<lambda>d. \<exists>s. dma_ready bd s \<and> copied bd (cb_oam_dma_addr (c_bus c)) 0 256 s d
    \<and> c_cycle s = c_cycle c + (if get_cycle c then 2 else 1) \<and> cb_env (c_bus s) = cb_env (c_bus c)
    \<and> oam_of (cb_ppu (c_bus s)) = oam_of (cb_ppu (c_bus c)))"
proof -
  let ?base = "cb_oam_dma_addr (c_bus c)"
  have "room 1 c" "can_read c addr" using r off by (simp_all add: room_def can_read_def)
  then obtain v e where e: "read_cycle c addr AccDummy = Some (v, e)" "runs bd 1 c e" "same_dma c e"
    using returnsD [OF read_cycle_ok [OF wf idle]] by blast
  let ?e = "e\<lparr>c_halt := False\<rparr>"
  have env: "clocks_env (c_bus c) (c_bus e)" using e(2) by (simp add: runs_def)
  have rd: "dma_ready bd ?e"
    using e(2,3) dmc idle clocks_env_D(3) [OF env] off not_rendering_clocks [OF env]
    by (simp add: dma_ready_def runs_def same_dma_def)
  have cyc: "c_cycle ?e = c_cycle c + 1" "cb_env (c_bus ?e) = cb_env (c_bus c)"
    "oam_of (cb_ppu (c_bus ?e)) = oam_of (cb_ppu (c_bus c))"
    using e(2) env off by (simp_all add: runs_def clocks_env_def)
  have base: "cb_oam_dma_addr (c_bus ?e) = ?base" "cb_oam_dma (c_bus ?e)"
    using cyc(2) o by (simp_all add: cb_env_def)
  have room: "room 513 ?e" using runs_room [OF e(2), of 513] r by (simp add: room_def)
  have eq: "cpu_handle_dma c addr = dma_loop addr ?base (?e, 0, 0, 0)"
    using e(1) base(1) by (auto simp: cpu_handle_dma_def read_cycle_def bind_Some_iff split_beta)
  have go: "returns (dma_loop addr ?base (s, 0, 0, w)) (copied bd ?base 0 256 s)"
    if "dma_ready bd s" "get_cycle s" "cb_oam_dma (c_bus s)" "room 512 s" for s w
    using dma_copy [of 0 255 bd s addr ?base w] that by simp
  have parity: "get_cycle ?e \<longleftrightarrow> \<not> get_cycle c"
  proof -
    have "even (unat (c_cycle c + 1)) \<longleftrightarrow> odd (unat (c_cycle c))"
      by (simp add: unat_word_ariths dvd_mod_iff)
    then show ?thesis unfolding get_cycle_def cyc(1) even_cycle by simp
  qed
  show ?thesis
  proof (cases "get_cycle c")
    case False
    then show ?thesis
      using go [OF rd _ base(2), of 0] parity room cyc rd unfolding eq
      by (auto simp: room_def intro!: exI [of _ ?e] elim!: returns_mono)
  next
    case True
    then have "\<not> get_cycle ?e" using parity by simp
    have "room 1 ?e" using room by (simp add: room_def)
    from dma_step_align [OF rd this \<open>\<not> get_cycle ?e\<close>, of 0 addr ?base 0 0]
    obtain s where s: "dma_step addr ?base (?e, 0, 0, 0) = Some (s, 0, 0, 0)" "moves bd 1 ?e s"
      "oam_of (cb_ppu (c_bus s)) = oam_of (cb_ppu (c_bus ?e))" by (auto simp: returns_def)
    have "dma_ready bd s" "get_cycle s" "cb_oam_dma (c_bus s)" "room 512 s"
      using s(2) get_cycle_move [OF s(2)] parity True oam_dma_env [of "c_bus s" "c_bus ?e"] base(2)
        moves_room [OF s(2), of 512] room
      by (simp_all add: moves_def)
    moreover have "dma_loop addr ?base (?e, 0, 0, 0) = dma_loop addr ?base (s, 0, 0, 0)"
      using base(2) s(1) by (subst dma_loop.simps) simp
    moreover have "c_cycle s = c_cycle c + 2" "cb_env (c_bus s) = cb_env (c_bus c)"
      using s(2) cyc by (simp_all add: moves_def)
    ultimately show ?thesis
      unfolding eq using go [of s 0] s(3) cyc(3) True by (auto intro!: exI [of _ s] elim!: returns_mono)
  qed
qed

end
