(* ===== verification/PowerOn.thy ===== *)
theory PowerOn
  imports ControlDeck CpuTiming CpuDma PpuProps
begin

text \<open>
  From a ROM image to a running machine: a cartridge that loads, and the reset that follows, leave
  the CPU, the bus, the PPU, the APU and the mapper in states that satisfy the invariants of their
  theories, so the lemmas on accesses and instructions apply to the machine the application starts.
  The machine with an NROM cartridge serves the witnesses.
\<close>

section \<open>The loaded cartridge\<close>

lemma load_chr [simp]:
  "cart_chr_rom (chr_or_ram rng n c) = cart_chr_rom c"
  "cart_chr_rom c \<noteq> [] \<Longrightarrow> chr_or_ram rng n c = c"
  "cart_chr_rom (cart_add_prg_ram rng n c) = cart_chr_rom c" "cart_chr_ram (cart_add_prg_ram rng n c) = cart_chr_ram c"
  "cart_chr_rom (cart_add_ex_ram rng n c) = cart_chr_rom c" "cart_chr_ram (cart_add_ex_ram rng n c) = cart_chr_ram c"
  "cart_header (cart_add_prg_ram rng n c) = cart_header c" "cart_header (cart_add_ex_ram rng n c) = cart_header c"
  by (simp_all add: chr_or_ram_def cart_has_chr_def cart_add_chr_ram_def cart_add_prg_ram_def cart_add_ex_ram_def)

lemma mapper_load_chr:
  assumes l: "mapper_load rng c = Some (Inr (m, c'))" and "cart_chr_rom c \<noteq> []" and "cart_mirroring c \<noteq> FourScreen"
  shows "cart_chr_rom c' = cart_chr_rom c \<and> cart_chr_ram c' = cart_chr_ram c \<and> \<not> uses_exram m"
proof -
  have mir: "cart_mirroring (cart_add_prg_ram rng n c) = cart_mirroring c" for n
    by (simp add: cart_mirroring_def)
  note defs = mapper_load_def pack_load_def Let_def nrom_load_def sxrom_load_def uxrom_load_def cnrom_load_def
    txrom_load_def axrom_load_def pxrom_load_def gxrom_load_def bf909x_load_def vrc6_load_def exrom_load_def
  show ?thesis using l assms(2,3) unfolding defs
    by (auto simp: bind_Some_iff mir split: if_splits)
qed

lemma cart_memories_chr:
  assumes "cart_memories rng region_of name rom rs = Inr c" and "cart_chr_rom c \<noteq> []"
  shows "cart_chr_ram c = []"
  using assms by (auto simp: cart_memories_def Let_def split: sum.splits if_splits)

section \<open>The chips with the cartridge in\<close>

text \<open>All of the invariant of the PPU but the part of its bus.\<close>

definition ppu_rest :: "ppu \<Rightarrow> bool" where
  "ppu_rest p \<longleftrightarrow> (\<forall>bd b. ppu_bus_wf bd b \<longrightarrow> ppu_wf bd (p\<lparr>pp_bus := b\<rparr>)) \<and> pp_scanline p \<le> 261
     \<and> length (pb_ciram (pp_bus p)) = VRAM_SIZE \<and> length (pb_palette (pp_bus p)) = PALETTE_SIZE"

lemma ppu_rest_new: "ppu_rest ppu_new"
  using ppu_new_wf ppu_new_sizes by (simp add: ppu_rest_def ppu_new_def ppu_set_region_def)

lemma ppu_rest_region: "ppu_rest p \<Longrightarrow> ppu_rest (ppu_set_region p r)"
proof -
  assume p: "ppu_rest p"
  have "ppu_wf bd ((ppu_set_region p r)\<lparr>pp_bus := b\<rparr>)" if "ppu_bus_wf bd b" for bd b
  proof -
    have "ppu_wf bd (ppu_set_region (p\<lparr>pp_bus := b\<rparr>) r)"
      using p that by (intro ppu_set_region_wf) (simp_all add: ppu_rest_def)
    then show ?thesis
      using that by (cases r) (simp_all add: ppu_set_region_def ppu_wf_def ppu_core_def ppu_timing_def)
  qed
  then show ?thesis using p by (cases r) (simp_all add: ppu_rest_def ppu_set_region_def pb_set_region_def)
qed

lemma cb_load_cart_wf:
  assumes b: "ppu_rest (cb_ppu b)" "length (cb_wram b) = WRAM_SIZE" "apu_wf (cb_apu b)" "input_wf (cb_input b)"
    and c: "mapper_wf (board_of c) m" "\<not> uses_exram m" "cart_chr_ram c = []" "0x2000 \<le> length (cart_chr_rom c)"
  shows "cb_wf (board_of c) (cb_load_cart b m c)"
proof -
  let ?p = "ppu_set_region (cb_ppu b) (cart_region c)"
  have p: "ppu_rest ?p" by (rule ppu_rest_region [OF b(1)])
  have "cb_ppu (cb_load_cart b m c) = ?p\<lparr>pp_bus := pb_load_cart (pp_bus ?p) m c\<rparr>"
    by (simp add: cb_load_cart_def Let_def cb_set_region_def ppu_load_mapper_def ppu_update_mirroring_def pb_load_cart_def)
  moreover have "ppu_bus_wf (board_of c) (pb_load_cart (pp_bus ?p) m c)"
    using c p by (intro pb_load_cart_wf) (simp_all add: ppu_rest_def)
  ultimately have "ppu_wf (board_of c) (cb_ppu (cb_load_cart b m c))" using p by (simp add: ppu_rest_def)
  then show ?thesis
    using b by (simp add: cb_wf_def) (simp add: cb_load_cart_def Let_def cb_set_region_def board_of_def)
qed

section \<open>Reset\<close>

lemma reset_cycles_ok:
  "cpu_wf bd c \<Longrightarrow> room n c \<Longrightarrow> returns (reset_cycles n c) (\<lambda>c'. runs bd n c c' \<and> (0 < n \<longrightarrow> caught_up c'))"
proof (induction n arbitrary: c)
  case (Suc n)
  have "room 1 c" using Suc.prems(2) by (simp add: room_def)
  then obtain e d where e: "cpu_start_cycle c ReadCycle = Some e" "cpu_end_cycle e ReadCycle = Some d" "runs bd 1 c d" "caught_up d"
    using returnsD [OF empty_cycle_ok [OF Suc.prems(1), of ReadCycle]] by (auto simp: bind_Some_iff)
  have "room n d" using runs_room [OF e(3), of n] Suc.prems(2) by simp
  then have "returns (reset_cycles n d) (\<lambda>c'. runs bd n d c' \<and> (0 < n \<longrightarrow> caught_up c'))"
    using Suc.IH [OF runs_wf [OF e(3)]] by simp
  then show ?case
    using e runs_trans [OF e(3), of n] by (cases n) (auto simp: returns_def)
qed simp

lemma ppu_reset_master_clock: "ppu_reset p k = Some q \<Longrightarrow> pp_master_clock q = 0"
  by (cases k) (auto simp: ppu_reset_def Let_def bind_Some_iff)

lemma cpu_bus_read_ok:
  assumes wf: "cpu_wf bd c" and a: "can_read c addr"
  shows "returns (cpu_bus_read c addr access) (\<lambda>(v, d). cpu_wf bd d \<and> (\<exists>b. d = c\<lparr>c_bus := b\<rparr> \<and> keeps_env (c_bus c) b)
    \<and> cpu_peek c addr access = Some v)"
proof -
  have bwf: "cb_wf bd (c_bus c)" using wf by (simp add: cpu_wf_def)
  obtain v b where b: "cb_read (c_bus c) addr access = Some (v, b)" "cb_peek (c_bus c) addr access = Some v" "cb_wf bd b"
    using cb_read_matches [OF bwf can_read_readable [OF bwf a], of access] by (auto simp: read_matches_def returns_def)
  have k: "keeps_env (c_bus c) b" by (rule cb_read_env [OF b(1)])
  have "cpu_wf bd (c\<lparr>c_bus := b\<rparr>)" using k by (intro cpu_wf_bus [OF wf b(3)]) (simp add: keeps_env_def steady_def)
  then show ?thesis using b k by (auto simp: cpu_bus_read_def cpu_peek_def)
qed

text \<open>The registers that a reset sets at once.\<close>

definition reset_registers :: "cpu \<Rightarrow> kind \<Rightarrow> cpu \<Rightarrow> bool" where
  "reset_registers c k d \<longleftrightarrow>
     (case k of
        Hard \<Rightarrow> c_acc d = 0 \<and> c_x d = 0 \<and> c_y d = 0 \<and> c_sp d = 0xFD \<and> c_status d = 0x24
      | Soft \<Rightarrow> c_acc d = c_acc c \<and> c_x d = c_x c \<and> c_y d = c_y c \<and> c_sp d = c_sp c - 3
          \<and> c_status d = c_status c OR FLAG_I)"

lemma cpu_reset_ok:
  assumes b: "cb_wf bd (c_bus c)"
    and r: "cpu_region_clocks (c_region c) = (c_clock_divider c, c_start_clocks c, c_end_clocks c)"
  shows "returns (cpu_reset rng c k) (\<lambda>d. cpu_wf bd d \<and> caught_up d \<and> c_cycle d = 7 \<and> room (2 ^ 58) d
    \<and> not_rendering (c_bus d) \<and> reset_registers c k d \<and> \<not> c_corrupted d)"
proof -
  define c0 where "c0 = (case k of
      Soft \<Rightarrow> (let c = set_status c FLAG_I True in c\<lparr>c_sp := c_sp c - 0x03\<rparr>)
    | Hard \<Rightarrow> c\<lparr>c_acc := 0x00, c_x := 0x00, c_y := 0x00, c_status := POWER_ON_STATUS, c_sp := POWER_ON_SP\<rparr>)"
  have c0: "c_bus c0 = c_bus c" "c_region c0 = c_region c" "c_clock_divider c0 = c_clock_divider c"
    "c_start_clocks c0 = c_start_clocks c" "c_end_clocks c0 = c_end_clocks c" "reset_registers c k c0"
    by (cases k; simp add: c0_def set_status_def reset_registers_def POWER_ON_STATUS_def POWER_ON_SP_def
        cpu_flags flag_set_def)+
  obtain b' where b': "cb_reset rng (c_bus c) k = Some b'" "cb_wf bd b'"
    using returnsD [OF cb_reset_ok [OF b]] by blast
  have pp: "pp_master_clock (cb_ppu b') = 0" "not_rendering b'"
    using b'(1) ppu_reset_wf [OF cb_wfD(4) [OF b], of k]
    by (auto simp: cb_reset_def Let_def bind_Some_iff returns_def not_rendering_def split: if_splits dest: ppu_reset_master_clock)
  define c1 where "c1 = c0\<lparr>c_bus := b', c_cycle := 0, c_master_clock := 0, c_irq := 0, c_run_irq := False,
      c_prev_run_irq := False, c_nmi := False, c_prev_nmi := False, c_prev_nmi_pending := False,
      c_corrupted := False, c_halt := False, c_dummy_read := False\<rparr>"
  have wf1: "cpu_wf bd c1" using c0 b'(2) r pp(1) by (simp add: c1_def cpu_wf_def)
  have read: "\<exists>v b. cpu_bus_read d a AccRead = Some (v, d\<lparr>c_bus := b\<rparr>) \<and> cpu_wf bd (d\<lparr>c_bus := b\<rparr>) \<and> not_rendering b"
    if "cpu_wf bd d" "not_rendering (c_bus d)" for d a
    using returnsD [OF cpu_bus_read_ok [OF that(1), of a AccRead]] that(2) not_rendering_clocks [OF keeps_clocks_env]
    by (auto simp: can_read_def)
  obtain lo b2 where b2: "cpu_bus_read c1 RESET_VECTOR AccRead = Some (lo, c1\<lparr>c_bus := b2\<rparr>)"
    "cpu_wf bd (c1\<lparr>c_bus := b2\<rparr>)" "not_rendering b2"
    using read [OF wf1, of RESET_VECTOR] pp(2) by (auto simp: c1_def)
  obtain hi b3 where b3: "cpu_bus_read (c1\<lparr>c_bus := b2\<rparr>) (RESET_VECTOR + 1) AccRead = Some (hi, c1\<lparr>c_bus := b3\<rparr>)"
    "cpu_wf bd (c1\<lparr>c_bus := b3\<rparr>)" "not_rendering b3"
    using read [OF b2(2), of "RESET_VECTOR + 1"] b2(3) by auto
  define c2 where "c2 = c1\<lparr>c_bus := b3, c_pc := u16_from_le_bytes lo hi\<rparr>"
  have c2: "cpu_wf bd c2" "room 7 c2" using b3(2) by (simp_all add: c2_def room_def c1_def)
  obtain d where d: "reset_cycles 7 c2 = Some d" "runs bd 7 c2 d" "caught_up d"
    using returnsD [OF reset_cycles_ok [OF c2]] by auto
  have "cpu_reset rng c k = Some d"
    unfolding cpu_reset_def c0_def [symmetric]
    using b'(1) b2(1) b3(1) d(1) by (simp add: c0(1) c1_def [symmetric] c2_def [symmetric])
  moreover have "not_rendering (c_bus d)"
    using d(2) not_rendering_clocks [of "c_bus c2" "c_bus d"] b3(3) by (simp add: runs_def c2_def)
  moreover have "reset_registers c k d" "\<not> c_corrupted d"
    using c_regsD(2-6,11) [of d c2] d(2) c0(6) by (simp_all add: runs_def reset_registers_def c2_def c1_def split: kind.splits)
  moreover have "c_cycle d = 7" "room (2 ^ 58) d" using d(2) by (simp_all add: runs_def c2_def c1_def room_def)
  ultimately show ?thesis using d by (simp add: runs_def)
qed

section \<open>Loading a ROM image\<close>

lemma cpu_region_clocks_set: "cpu_region_clocks (c_region (cpu_set_region c r)) =
    (c_clock_divider (cpu_set_region c r), c_start_clocks (cpu_set_region c r), c_end_clocks (cpu_set_region c r))"
  by (simp add: cpu_set_region_def split_beta)

lemma new_bus:
  "ppu_rest (cb_ppu (cpu_bus_new rng rs))" "length (cb_wram (cpu_bus_new rng rs)) = WRAM_SIZE"
  "apu_wf (cb_apu (cpu_bus_new rng rs))" "input_wf (cb_input (cpu_bus_new rng rs))"
  by (simp_all add: cpu_bus_new_def ppu_rest_new ram_fill_def split: ram_state.split)

text \<open>C1: A ROM image of a regular size for a modelled board without four screens loads into a new console:
  the load succeeds, and the reset after it leaves a machine that satisfies the invariants of all
  its chips, seven cycles in, with the PPU caught up, rendering off and the registers of power-on.\<close>

theorem rom_powers_on:
  assumes "cart_memories rngs region_of name rom rs = Inr c0" and "board_ok c0"
    and "cart_prg_ram c0 = [] \<or> 0x2000 \<le> length (cart_prg_ram c0)"
    and "modelled_mapper (hd_mapper_num (cart_header c0))" and "cart_mirroring c0 \<noteq> FourScreen"
  shows "\<exists>m c. mapper_load rngs c0 = Some (Inr (m, c))
    \<and> returns (deck_load_rom rng rngs region_of (deck_new rng' rs) name rom) (\<lambda>(r, d).
        r = Inr () \<and> cd_running d \<and> cd_loaded_rom d = Some name \<and> cpu_wf (board_of c) (cd_cpu d)
        \<and> caught_up (cd_cpu d) \<and> c_cycle (cd_cpu d) = 7 \<and> not_rendering (c_bus (cd_cpu d))
        \<and> c_acc (cd_cpu d) = 0 \<and> c_x (cd_cpu d) = 0 \<and> c_y (cd_cpu d) = 0 \<and> c_sp (cd_cpu d) = 0xFD
        \<and> c_status (cd_cpu d) = 0x24)"
proof -
  obtain m c where l: "mapper_load rngs c0 = Some (Inr (m, c))" and m: "mapper_wf (board_of c) m"
    using returnsD [OF mapper_load_board [OF assms(2-4), of rngs]] by auto
  have chr: "0x2000 \<le> length (cart_chr_rom c0)" using assms(2) by (auto simp: board_ok_def)
  then have "cart_chr_rom c0 \<noteq> []" by auto
  then have c: "cart_chr_rom c = cart_chr_rom c0" "cart_chr_ram c = []" "\<not> uses_exram m"
    using mapper_load_chr [OF l _ assms(5)] cart_memories_chr [OF assms(1)] by auto
  define u where "u = cpu_load_cart (cpu_set_region (cd_cpu (deck_new rng' rs)) (cart_region c)) m c"
  have bus: "c_bus u = cb_load_cart (cb_set_region (cb_set_region (cpu_bus_new rng' rs) Ntsc) (cart_region c)) m c"
    by (simp add: u_def cpu_load_cart_def deck_new_def cpu_new_def cpu_set_region_def split_beta)
  have "cb_wf (board_of c) (c_bus u)"
    unfolding bus using new_bus [of rng' rs] m c chr
    by (intro cb_load_cart_wf) (simp_all add: cb_set_region_def ppu_rest_region)
  moreover have "cpu_region_clocks (c_region u) = (c_clock_divider u, c_start_clocks u, c_end_clocks u)"
    unfolding u_def cpu_load_cart_def using cpu_region_clocks_set by simp
  ultimately obtain d where "cpu_reset rng u Hard = Some d" "cpu_wf (board_of c) d" "caught_up d"
    "c_cycle d = 7" "not_rendering (c_bus d)" "reset_registers u Hard d"
    using returnsD [OF cpu_reset_ok] by blast
  then show ?thesis
    using l assms(1)
    by (intro exI conjI) (auto simp: deck_load_rom_def cart_from_rom_def deck_set_region_def deck_reset_def
        deck_new_def u_def reset_registers_def)
qed

text \<open>An image of an NROM cartridge, 32K of program and 8K of patterns.\<close>

definition sample_rom_header :: nes_header where
  "sample_rom_header = sample_header\<lparr>hd_mapper_num := 0, hd_prg_rom_banks := 2, hd_chr_rom_banks := 1,
     hd_prg_ram_shift := 0\<rparr>"

definition sample_rom :: "u8 list" where
  "sample_rom = nes20_bytes sample_rom_header @ replicate 0x8000 0 @ replicate 0x2000 0"

lemma sample_rom_memories:
  "cart_memories (\<lambda>_ _. 0) (\<lambda>_. Ntsc) ''sample'' sample_rom AllZeros =
     Inr \<lparr>cart_name = ''sample'', cart_header = sample_rom_header, cart_region = Ntsc, cart_ram_state = AllZeros,
         cart_chr_rom = replicate 0x2000 0, cart_chr_ram = [], cart_ex_ram = [],
         cart_prg_rom = replicate 0x8000 0, cart_prg_ram = []\<rparr>"
proof -
  have "nes_header_load sample_rom = Inr (sample_rom_header, replicate 0x8000 0 @ replicate 0x2000 0)"
    unfolding sample_rom_def by (rule nes20_load_bytes) (simp add: nes20_header_def sample_rom_header_def sample_header_def)
  then show ?thesis
    by (simp add: cart_memories_def read_exact_def sample_rom_header_def sample_header_def
        PRG_ROM_BANK_SIZE_def CHR_ROM_BANK_SIZE_def calculate_ram_size_def ram_with_capacity_def Let_def)
qed

theorem rom_powers_on_witness:
  "returns (deck_load_rom (\<lambda>_. 0) (\<lambda>_ _. 0) (\<lambda>_. Ntsc) (deck_new (\<lambda>_. 0) AllZeros) ''sample'' sample_rom)
     (\<lambda>(r, d). r = Inr () \<and> c_sp (cd_cpu d) = 0xFD \<and> c_cycle (cd_cpu d) = 7)"
proof -
  have "\<exists>j. (0x8000 :: nat) = 0x8000 * 2 ^ j" "\<exists>j. (0x2000 :: nat) = 0x2000 * 2 ^ j"
    by (auto intro!: exI [of _ 0])
  from rom_powers_on [OF sample_rom_memories, of "\<lambda>_. 0" "\<lambda>_. 0"] this show ?thesis
    by (elim meta_impE) (auto simp: board_ok_def modelled_mapper_def cart_mirroring_def sample_rom_header_def
        sample_header_def returns_def)
qed

section \<open>A sample machine\<close>

definition sample_cpu :: cpu where
  "sample_cpu = cpu_load_cart (cpu_new (cpu_bus_new (\<lambda>_. 0) AllZeros)) (MNrom (fst sample_nrom)) (snd sample_nrom)"

lemma sample_cpu_wf: "cpu_wf sample_bd sample_cpu"
proof -
  have "mapper_wf (board_of (snd sample_nrom)) (MNrom (fst sample_nrom))"
    using nrom_load_board [OF sample_cart_ok(1) [of 0]] by (simp add: sample_nrom_def)
  moreover have "cb_ppu (cb_set_region (cpu_bus_new (\<lambda>_. 0) AllZeros) Ntsc) = ppu_set_region ppu_new Ntsc"
    by (simp add: cb_set_region_def cpu_bus_new_def)
  ultimately have "cb_wf sample_bd (cb_load_cart (cb_set_region (cpu_bus_new (\<lambda>_. 0) AllZeros) Ntsc) (MNrom (fst sample_nrom)) (snd sample_nrom))"
    unfolding sample_bd_def using new_bus [of "\<lambda>_. 0" AllZeros]
    by (intro cb_load_cart_wf) (simp_all add: sample_nrom_cart ppu_rest_region ppu_rest_new cb_set_region_def)
  then show ?thesis
    by (simp add: cpu_wf_def sample_cpu_def cpu_load_cart_def cpu_new_def cpu_set_region_def)
      (simp add: cb_load_cart_def Let_def cb_set_region_def cpu_bus_new_def ppu_load_mapper_def
        ppu_update_mirroring_def ppu_new_def ppu_set_region_def split_beta)
qed

lemma sample_cpu_quiet: "quiet sample_cpu" "not_rendering (c_bus sample_cpu)" "c_master_clock sample_cpu = 0"
  "c_cycle sample_cpu = 0" "c_sp sample_cpu = 0"
  by (simp_all add: sample_cpu_def cpu_load_cart_def cpu_new_def cpu_set_region_def quiet_def cpu_bus_new_def
      cb_load_cart_def Let_def cb_set_region_def dmc_idle_def apu_set_region_def apu_new_def dmc_new_def dmc_set_region_def
      not_rendering_def ppu_load_mapper_def ppu_update_mirroring_def rendering_enabled_def ppu_set_region_def
      ppu_new_def mask_new_def show_bg_def show_spr_def mask_flags split_beta)

lemma sample_cpu_room: "n \<le> 2 ^ 58 \<Longrightarrow> room n sample_cpu"
  by (simp add: room_def sample_cpu_quiet)

end
