(* ===== verification/CpuStack.thy ===== *)
theory CpuStack
  imports CpuTiming
begin

text \<open>
  The stack of the 6502 as a map from stack pointers to bytes (\<open>stk\<close>), and the accesses of an
  instruction with what they do to it: rules like those of \<open>CpuTiming\<close> that also carry the registers
  and the stack.
\<close>

section \<open>The stack page\<close>

definition stack_addr_of :: "u8 \<Rightarrow> u16" where
  "stack_addr_of s = SP_BASE OR ucast s"

definition stk :: "cpu \<Rightarrow> u8 \<Rightarrow> u8" where
  "stk c s = wram_at (c_bus c) (stack_addr_of s)"

lemma stack_addr_wram: "stack_addr_of s \<le> 0x1FFF"
  unfolding stack_addr_of_def by (rule stack_addr)

lemma stack_addr_mod: "unat (stack_addr_of s) mod 0x800 = 0x100 + unat s"
proof -
  have "0x100 AND ucast s = (0 :: u16)" by (rule u16_eqI; simp add: bit_simps)
  then have "stack_addr_of s = 0x100 + ucast s"
    using word_plus_and_or [of "0x100" "ucast s :: u16"] by (simp add: stack_addr_of_def SP_BASE_def)
  then have "unat (stack_addr_of s) = 0x100 + unat s"
    using unat_u8_less [of s] by (simp add: unat_word_ariths del: unat_u8_less)
  then show ?thesis using unat_u8_less [of s] by (simp del: unat_u8_less)
qed

lemma stk_env: "cb_env (c_bus d) = cb_env (c_bus c) \<Longrightarrow> stk d = stk c"
  by (rule ext, simp only: stk_def, rule wram_at_env)

lemma stk_put:
  assumes "cb_wf bd (c_bus c)" and "cb_env (c_bus d) = cb_env (wram_put (c_bus c) (stack_addr_of s) v)"
  shows "stk d = (stk c)(s := v)"
proof
  fix x
  have "stk d x = wram_at (wram_put (c_bus c) (stack_addr_of s) v) (stack_addr_of x)"
    unfolding stk_def by (rule wram_at_env [OF assms(2)])
  then show "stk d x = ((stk c)(s := v)) x"
    by (simp add: wram_at_put [OF assms(1)] stack_addr_mod stk_def word_unat_eq_iff [symmetric])
qed

lemma stk_upd [simp]:
  "stk (c\<lparr>c_pc := a\<rparr>) = stk c" "stk (c\<lparr>c_sp := y\<rparr>) = stk c" "stk (c\<lparr>c_status := y\<rparr>) = stk c"
  "stk (c\<lparr>c_nmi := b\<rparr>) = stk c" "stk (set_status c f b) = stk c"
  by (simp_all add: stk_def set_status_def fun_eq_iff)

section \<open>The accesses\<close>

lemma read_keep:
  assumes c: "calm bd (Suc r) i t c"
    and f: "\<And>v d. calm bd r i (t + 1) d \<Longrightarrow> c_regs d = c_regs c \<Longrightarrow> stk d = stk c
      \<Longrightarrow> (a \<le> 0x1FFF \<Longrightarrow> v = wram_at (c_bus c) a) \<Longrightarrow> returns (f (v, d)) Q"
  shows "returns (Option.bind (cpu_read c a k) f) Q"
proof -
  have wf: "cpu_wf bd c" "quiet c" "room 1 c" "can_read c a"
    using c by (auto simp: calm_def ready_def idle_def can_read_def room_def)
  obtain v d where d: "cpu_read c a k = Some (v, d)" "runs bd 1 c d" "quiet d" "a \<le> 0x1FFF \<longrightarrow> v = wram_at (c_bus c) a"
    using cpu_read_quiet [OF wf, of k] by (auto simp: reads_def returns_def)
  have "calm bd r i (t + 1) d"
    using c d(3) runs_wf [OF d(2)] runs_room [OF d(2), of r] not_rendering_clocks [of "c_bus c" "c_bus d"] d(2)
      c_regsD(7) [of d c]
    by (simp add: calm_def ready_def idle_def runs_def)
  moreover have "stk d = stk c" using d(2) by (intro stk_env) (simp add: runs_def clocks_env_def)
  ultimately show ?thesis using f d by (simp add: runs_def)
qed

lemma push_keep:
  assumes c: "calm bd (Suc r) i t c"
    and f: "\<And>d. calm bd r i (t + 1) d \<Longrightarrow> c_regs d = c_regs (c\<lparr>c_sp := c_sp c - 1\<rparr>) \<Longrightarrow> stk d = (stk c)(c_sp c := v)
      \<Longrightarrow> returns (f d) Q"
  shows "returns (Option.bind (cpu_push c v) f) Q"
proof -
  let ?a = "SP_BASE OR ucast (c_sp c)"
  have wf: "cpu_wf bd c" "room 1 c" and q: "quiet c" using c by (auto simp: calm_def ready_def room_def idle_def)
  then obtain d where d: "cpu_write c ?a v AccWrite = Some d" "writes bd c ?a v d"
    using returnsD [OF cpu_write_ok] by blast
  have env: "clocks_env (wram_put (c_bus c) ?a v) (c_bus d)" "quiet d"
    using d(2) stack_addr [of "c_sp c"] q by (simp_all add: writes_def)
  have "not_rendering (c_bus d)"
    using c not_rendering_clocks [OF env(1)] by (simp add: calm_def idle_def wram_put_def)
  then have "calm bd r i (t + 1) d"
    using c env(2) writes_room [OF d(2)] d(2) c_regsD(7) [of d c] by (auto simp: calm_def ready_def writes_def idle_def)
  then have "calm bd r i (t + 1) (d\<lparr>c_sp := c_sp d - 1\<rparr>)" by simp
  moreover have "c_regs (d\<lparr>c_sp := c_sp d - 1\<rparr>) = c_regs (c\<lparr>c_sp := c_sp c - 1\<rparr>)"
    using d(2) by (simp add: writes_def c_regs_def)
  moreover have "stk d = (stk c)(c_sp c := v)"
    using wf(1) env(1) by (intro stk_put [of bd]) (simp_all add: cpu_wf_def clocks_env_def stack_addr_of_def)
  ultimately show ?thesis using f [of "d\<lparr>c_sp := c_sp d - 1\<rparr>"] d(1) by (simp add: cpu_push_def)
qed

lemma pop_keep:
  assumes c: "calm bd (Suc r) i t c"
    and f: "\<And>d. calm bd r i (t + 1) d \<Longrightarrow> c_regs d = c_regs (c\<lparr>c_sp := c_sp c + 1\<rparr>) \<Longrightarrow> stk d = stk c
      \<Longrightarrow> returns (f (stk c (c_sp c + 1), d)) Q"
  shows "returns (Option.bind (cpu_pop c) f) Q"
  unfolding cpu_pop_def Let_def
proof (rule read_keep)
  show "calm bd (Suc r) i t (c\<lparr>c_sp := c_sp c + 1\<rparr>)" using c by simp
next
  fix v d
  assume d: "calm bd r i (t + 1) d" "c_regs d = c_regs (c\<lparr>c_sp := c_sp c + 1\<rparr>)" "stk d = stk (c\<lparr>c_sp := c_sp c + 1\<rparr>)"
    "SP_BASE OR ucast (c_sp (c\<lparr>c_sp := c_sp c + 1\<rparr>)) \<le> 0x1FFF \<Longrightarrow>
      v = wram_at (c_bus (c\<lparr>c_sp := c_sp c + 1\<rparr>)) (SP_BASE OR ucast (c_sp (c\<lparr>c_sp := c_sp c + 1\<rparr>)))"
  have "v = stk c (c_sp c + 1)" using d(4) stack_addr [of "c_sp c + 1"] by (simp add: stk_def stack_addr_of_def)
  then show "returns (f (v, d)) Q" using f [OF d(1,2)] d(3) by simp
qed

lemma push_u16_keep:
  assumes c: "calm bd (Suc (Suc r)) i t c"
    and f: "\<And>d. calm bd r i (t + 1 + 1) d \<Longrightarrow> c_regs d = c_regs (c\<lparr>c_sp := c_sp c - 2\<rparr>)
      \<Longrightarrow> stk d = (stk c)(c_sp c := u16_hi w, c_sp c - 1 := u16_lo w) \<Longrightarrow> returns (f d) Q"
  shows "returns (Option.bind (push_u16 c w) f) Q"
  unfolding push_u16_def Option.bind_assoc
proof (rule push_keep [OF c])
  fix d assume d: "calm bd (Suc r) i (t + 1) d" "c_regs d = c_regs (c\<lparr>c_sp := c_sp c - 1\<rparr>)" "stk d = (stk c)(c_sp c := u16_hi w)"
  have sp: "c_sp d = c_sp c - 1" using d(2) by (simp add: c_regs_def)
  show "returns (Option.bind (cpu_push d (u16_lo w)) f) Q"
  proof (rule push_keep [OF d(1)])
    fix e assume e: "calm bd r i (t + 1 + 1) e" "c_regs e = c_regs (d\<lparr>c_sp := c_sp d - 1\<rparr>)" "stk e = (stk d)(c_sp d := u16_lo w)"
    have "c_regs e = c_regs (c\<lparr>c_sp := c_sp c - 2\<rparr>)" using e(2) d(2) by (simp add: c_regs_def)
    then show "returns (f e) Q" using f [OF e(1)] e(3) d(3) sp by simp
  qed
qed

lemma pop_u16_keep:
  assumes c: "calm bd (Suc (Suc r)) i t c"
    and f: "\<And>d. calm bd r i (t + 1 + 1) d \<Longrightarrow> c_regs d = c_regs (c\<lparr>c_sp := c_sp c + 2\<rparr>) \<Longrightarrow> stk d = stk c
      \<Longrightarrow> returns (f (u16_from_le_bytes (stk c (c_sp c + 1)) (stk c (c_sp c + 2)), d)) Q"
  shows "returns (Option.bind (pop_u16 c) f) Q"
  unfolding pop_u16_def Option.bind_assoc split_beta
proof (rule pop_keep [OF c], unfold fst_conv snd_conv Option.bind_assoc)
  fix d assume d: "calm bd (Suc r) i (t + 1) d" "c_regs d = c_regs (c\<lparr>c_sp := c_sp c + 1\<rparr>)" "stk d = stk c"
  have sp: "c_sp d = c_sp c + 1" using d(2) by (simp add: c_regs_def)
  show "returns (do { y \<leftarrow> cpu_pop d; Option.bind (Some (u16_from_le_bytes (stk c (c_sp c + 1)) (fst y), snd y)) f }) Q"
  proof (rule pop_keep [OF d(1)], unfold fst_conv snd_conv bind.bind_lunit)
    fix e assume e: "calm bd r i (t + 1 + 1) e" "c_regs e = c_regs (d\<lparr>c_sp := c_sp d + 1\<rparr>)" "stk e = stk d"
    have "c_regs e = c_regs (c\<lparr>c_sp := c_sp c + 2\<rparr>)" using e(2) d(2) by (simp add: c_regs_def)
    then show "returns (f (u16_from_le_bytes (stk c (c_sp c + 1)) (stk d (c_sp d + 1)), e)) Q"
      using f [OF e(1)] e(3) d(3) sp by (simp add: add.assoc)
  qed
qed

section \<open>Calls and interrupts\<close>

lemma read_stack_keep:
  assumes "calm bd (Suc r) i t c"
    and "\<And>v d. calm bd r i (t + 1) d \<Longrightarrow> c_regs d = c_regs c \<Longrightarrow> stk d = stk c \<Longrightarrow> returns (f (v, d)) Q"
  shows "returns (Option.bind (read_stack c) f) Q"
  unfolding read_stack_def by (rule read_keep [OF assms(1)]) (rule assms(2))

lemma jsr_keep:
  assumes c: "calm bd (Suc (Suc (Suc r))) i t c"
  shows "returns (op_jsr c) (\<lambda>d. calm bd r i (t + 1 + 1 + 1) d
    \<and> c_regs d = c_regs (c\<lparr>c_sp := c_sp c - 2, c_pc := c_abs_addr c\<rparr>)
    \<and> stk d = (stk c)(c_sp c := u16_hi (c_pc c - 1), c_sp c - 1 := u16_lo (c_pc c - 1)))"
  unfolding op_jsr_def split_beta Let_def
proof (rule read_stack_keep [OF c], unfold fst_conv snd_conv, erule push_u16_keep)
  fix v d e
  assume d: "c_regs d = c_regs c" "stk d = stk c" and e: "calm bd r i (t + 1 + 1 + 1) e"
    "c_regs e = c_regs (d\<lparr>c_sp := c_sp d - 2\<rparr>)" "stk e = (stk d)(c_sp d := u16_hi (c_pc d - 1), c_sp d - 1 := u16_lo (c_pc d - 1))"
  have f: "c_sp d = c_sp c" "c_pc d = c_pc c" "c_abs_addr e = c_abs_addr c"
    using d(1) e(2) by (simp_all add: c_regs_def)
  have "c_regs (e\<lparr>c_pc := c_abs_addr e\<rparr>) = c_regs (c\<lparr>c_sp := c_sp c - 2, c_pc := c_abs_addr c\<rparr>)"
    using d(1) e(2) by (simp add: c_regs_def)
  then show "returns (Some (e\<lparr>c_pc := c_abs_addr e\<rparr>)) (\<lambda>d. calm bd r i (t + 1 + 1 + 1) d
    \<and> c_regs d = c_regs (c\<lparr>c_sp := c_sp c - 2, c_pc := c_abs_addr c\<rparr>)
    \<and> stk d = (stk c)(c_sp c := u16_hi (c_pc c - 1), c_sp c - 1 := u16_lo (c_pc c - 1)))"
    using e(1,3) d(2) f by simp
qed

lemma rts_keep:
  assumes c: "calm bd (Suc (Suc (Suc (Suc r)))) i t c"
  shows "returns (op_rts c) (\<lambda>d. calm bd r i (t + 1 + 1 + 1 + 1) d
    \<and> c_regs d = c_regs (c\<lparr>c_sp := c_sp c + 2, c_pc := u16_from_le_bytes (stk c (c_sp c + 1)) (stk c (c_sp c + 2)) + 1\<rparr>))"
  unfolding op_rts_def split_beta Let_def
proof (rule read_stack_keep [OF c], unfold fst_conv snd_conv, erule pop_u16_keep, unfold fst_conv snd_conv)
  fix v d e
  let ?pc = "\<lambda>s. u16_from_le_bytes (stk s (c_sp s + 1)) (stk s (c_sp s + 2)) + 1"
  assume d: "c_regs d = c_regs c" "stk d = stk c" and e: "calm bd (Suc r) i (t + 1 + 1 + 1) e"
    "c_regs e = c_regs (d\<lparr>c_sp := c_sp d + 2\<rparr>)" "stk e = stk d"
  have pc: "?pc d = ?pc c" using d by (simp add: c_regs_def)
  have e': "calm bd (Suc r) i (t + 1 + 1 + 1) (e\<lparr>c_pc := ?pc d\<rparr>)" using e(1) by simp
  show "returns (do { x \<leftarrow> cpu_read (e\<lparr>c_pc := ?pc d\<rparr>) (c_pc (e\<lparr>c_pc := ?pc d\<rparr>)) AccRead; Some (snd x) })
    (\<lambda>d. calm bd r i (t + 1 + 1 + 1 + 1) d \<and> c_regs d = c_regs (c\<lparr>c_sp := c_sp c + 2, c_pc := ?pc c\<rparr>))"
  proof (rule read_keep [OF e'], unfold snd_conv returns_Some)
    fix w g assume g: "calm bd r i (t + 1 + 1 + 1 + 1) g" "c_regs g = c_regs (e\<lparr>c_pc := ?pc d\<rparr>)"
    then show "calm bd r i (t + 1 + 1 + 1 + 1) g \<and> c_regs g = c_regs (c\<lparr>c_sp := c_sp c + 2, c_pc := ?pc c\<rparr>)"
      using pc d(1) e(2) by (simp add: c_regs_def)
  qed
qed

lemma subroutine_keep:
  assumes c: "calm bd 7 i t c"
  shows "returns (op_jsr c) (\<lambda>d. c_pc d = c_abs_addr c \<and> c_sp d = c_sp c - 2
    \<and> returns (op_rts d) (\<lambda>e. c_regs e = c_regs c \<and> c_cycle e = t + 7))"
proof -
  have "(7::nat) = Suc (Suc (Suc 4))" "(4::nat) = Suc (Suc (Suc (Suc 0)))" by simp_all
  with c have c': "calm bd (Suc (Suc (Suc 4))) i t c" by (simp only:)
  obtain d where d: "op_jsr c = Some d" "calm bd 4 i (t + 1 + 1 + 1) d"
    "c_regs d = c_regs (c\<lparr>c_sp := c_sp c - 2, c_pc := c_abs_addr c\<rparr>)"
    "stk d = (stk c)(c_sp c := u16_hi (c_pc c - 1), c_sp c - 1 := u16_lo (c_pc c - 1))"
    using returnsD [OF jsr_keep [OF c']] by blast
  have f: "c_pc d = c_abs_addr c" "c_sp d = c_sp c - 2" using d(3) by (simp_all add: c_regs_def)
  have sp: "c_sp c - 2 + 1 = c_sp c - 1" "c_sp c - 2 + 2 = c_sp c" by simp_all
  have "u16_from_le_bytes (stk d (c_sp d + 1)) (stk d (c_sp d + 2)) + 1 = c_pc c"
    unfolding f(2) sp d(4) by (simp add: fun_upd_apply)
  moreover have "calm bd (Suc (Suc (Suc (Suc 0)))) i (t + 1 + 1 + 1) d" using d(2) by (simp add: eval_nat_numeral)
  ultimately obtain e where e: "op_rts d = Some e" "calm bd 0 i (t + 1 + 1 + 1 + 1 + 1 + 1 + 1) e"
    "c_regs e = c_regs (d\<lparr>c_sp := c_sp d + 2, c_pc := c_pc c\<rparr>)"
    using returnsD [OF rts_keep] by metis
  have "c_regs e = c_regs c \<and> c_cycle e = t + 7"
    using e(2,3) d(3) by (simp add: c_regs_def calm_def ready_def)
  then show ?thesis using d(1) e(1) f by simp
qed

text \<open>The registers that a program sees, without the status.\<close>

definition user_regs :: "cpu \<Rightarrow> u16 \<times> u8 \<times> u8 \<times> u8 \<times> u8" where
  "user_regs c = (c_pc c, c_sp c, c_acc c, c_x c, c_y c)"

definition in_handler :: "cpu \<Rightarrow> u8 \<Rightarrow> cpu \<Rightarrow> bool" where
  "in_handler c s d \<longleftrightarrow> c_sp d = c_sp c - 3 \<and> c_acc d = c_acc c \<and> c_x d = c_x c \<and> c_y d = c_y c
     \<and> flag_intersects (c_status d) FLAG_I
     \<and> stk d (c_sp c - 2) = s \<and> stk d (c_sp c - 1) = u16_lo (c_pc c) \<and> stk d (c_sp c) = u16_hi (c_pc c)"

lemma vector_keep:
  assumes c: "calm bd (Suc (Suc (Suc r))) i t c"
  shows "returns (cpu_vector c s) (\<lambda>d. calm bd r i (t + 1 + 1 + 1) d \<and> c_sp d = c_sp c - 1 \<and> c_acc d = c_acc c
    \<and> c_x d = c_x c \<and> c_y d = c_y c \<and> flag_intersects (c_status d) FLAG_I \<and> stk d = (stk c)(c_sp c := s))"
proof -
  let ?Q = "\<lambda>d. calm bd r i (t + 1 + 1 + 1) d \<and> c_sp d = c_sp c - 1 \<and> c_acc d = c_acc c
    \<and> c_x d = c_x c \<and> c_y d = c_y c \<and> flag_intersects (c_status d) FLAG_I \<and> stk d = (stk c)(c_sp c := s)"
  have seq: "returns (do { d \<leftarrow> cpu_push d s; let d = set_status d FLAG_I True;
      (pc, d) \<leftarrow> read_u16 d v; Some (d\<lparr>c_pc := pc\<rparr>) }) ?Q"
    if d: "calm bd (Suc (Suc (Suc r))) i t d" "c_regs d = c_regs c" "stk d = stk c" for d v
    unfolding Let_def split_beta read_u16_def Option.bind_assoc
  proof (rule push_keep [OF d(1)], rule read_keep, unfold calm_status, assumption, unfold fst_conv snd_conv Option.bind_assoc,
      erule read_keep, unfold fst_conv snd_conv bind.bind_lunit returns_Some)
    fix e x f y g
    assume e: "c_regs e = c_regs (d\<lparr>c_sp := c_sp d - 1\<rparr>)" "stk e = (stk d)(c_sp d := s)"
      and f: "c_regs f = c_regs (set_status e FLAG_I True)" "stk f = stk (set_status e FLAG_I True)"
      and g: "calm bd r i (t + 1 + 1 + 1) g" "c_regs g = c_regs f" "stk g = stk f"
    have "flag_intersects (c_status f) FLAG_I" using f(1) by (simp add: c_regs_def set_status_def FLAG_I_def)
    moreover have "c_sp d = c_sp c" using d(2) by (simp add: c_regs_def)
    moreover have "c_sp g = c_sp c - 1 \<and> c_acc g = c_acc c \<and> c_x g = c_x c \<and> c_y g = c_y c \<and> c_status g = c_status f"
      using d(2) e(1) f(1) g(2) by (simp add: c_regs_def set_status_def)
    ultimately show "?Q (g\<lparr>c_pc := u16_from_le_bytes x y\<rparr>)"
      using g(1,3) f(2) e(2) d(3) by simp
  qed
  have "calm bd (Suc (Suc (Suc r))) i t (c\<lparr>c_nmi := False\<rparr>)" "c_regs (c\<lparr>c_nmi := False\<rparr>) = c_regs c"
    "stk (c\<lparr>c_nmi := False\<rparr>) = stk c" using c by (simp_all add: c_regs_def)
  from seq [OF this, of NMI_VECTOR] seq [OF c refl refl, of IRQ_VECTOR] show ?thesis
    unfolding cpu_vector_def Let_def by (cases "c_nmi c") (simp_all only: if_True if_False not_False_eq_True)
qed

lemma irq_keep:
  assumes c: "calm bd (Suc (Suc (Suc (Suc (Suc (Suc (Suc r))))))) i t c"
  shows "returns (cpu_irq c) (\<lambda>d. calm bd r i (t + 1 + 1 + 1 + 1 + 1 + 1 + 1) d
    \<and> in_handler c ((c_status c OR FLAG_U) AND NOT FLAG_B) d)"
  unfolding cpu_irq_def split_beta
proof (rule read_keep [OF c], unfold fst_conv snd_conv, erule read_keep, unfold fst_conv snd_conv, erule push_u16_keep)
  fix v d w e f
  assume d: "c_regs d = c_regs c" "stk d = stk c" and e: "c_regs e = c_regs d" "stk e = stk d"
    and f: "calm bd (Suc (Suc (Suc r))) i (t + 1 + 1 + 1 + 1) f" "c_regs f = c_regs (e\<lparr>c_sp := c_sp e - 2\<rparr>)"
      "stk f = (stk e)(c_sp e := u16_hi (c_pc e), c_sp e - 1 := u16_lo (c_pc e))"
  have r: "c_sp e = c_sp c" "c_pc e = c_pc c" "c_status f = c_status c" "c_sp f = c_sp c - 2" "c_acc f = c_acc c"
    "c_x f = c_x c" "c_y f = c_y c" using d(1) e(1) f(2) by (simp_all add: c_regs_def)
  show "returns (cpu_vector f ((c_status f OR FLAG_U) AND NOT FLAG_B)) (\<lambda>d. calm bd r i (t + 1 + 1 + 1 + 1 + 1 + 1 + 1) d
    \<and> in_handler c ((c_status c OR FLAG_U) AND NOT FLAG_B) d)"
    by (rule returns_mono [OF vector_keep [OF f(1)]]) (use r f(3) e(2) d(2) in \<open>simp add: in_handler_def\<close>)
qed

lemma rti_keep:
  assumes c: "calm bd (Suc (Suc (Suc (Suc r)))) i t c"
  shows "returns (op_rti c) (\<lambda>d. calm bd r i (t + 1 + 1 + 1 + 1) d
    \<and> user_regs d = (u16_from_le_bytes (stk c (c_sp c + 2)) (stk c (c_sp c + 3)), c_sp c + 3, c_acc c, c_x c, c_y c)
    \<and> c_status d = stk c (c_sp c + 1) AND NOT FLAG_U AND NOT FLAG_B)"
  unfolding op_rti_def split_beta Let_def
proof (rule read_stack_keep [OF c], unfold fst_conv snd_conv, erule pop_keep, unfold fst_conv snd_conv)
  fix v :: u8 and d e :: cpu
  let ?e = "e\<lparr>c_status := stk d (c_sp d + 1)\<rparr>\<lparr>c_status := c_status (e\<lparr>c_status := stk d (c_sp d + 1)\<rparr>) AND NOT FLAG_U\<rparr>"
  assume d: "c_regs d = c_regs c" "stk d = stk c" and e: "calm bd (Suc (Suc r)) i (t + 1 + 1) e"
    "c_regs e = c_regs (d\<lparr>c_sp := c_sp d + 1\<rparr>)" "stk e = stk d"
  let ?f = "?e\<lparr>c_status := c_status ?e AND NOT FLAG_B\<rparr>"
  have f: "calm bd (Suc (Suc r)) i (t + 1 + 1) ?f" using e(1) by simp
  have r: "c_sp ?f = c_sp c + 1" "c_acc ?f = c_acc c" "c_x ?f = c_x c" "c_y ?f = c_y c"
    "c_status ?f = stk c (c_sp c + 1) AND NOT FLAG_U AND NOT FLAG_B" "stk ?f = stk c"
    using d e(2,3) by (simp_all add: c_regs_def and.assoc)
  show "returns (do { x \<leftarrow> pop_u16 ?f; Some (snd x\<lparr>c_pc := fst x\<rparr>) }) (\<lambda>d. calm bd r i (t + 1 + 1 + 1 + 1) d
    \<and> user_regs d = (u16_from_le_bytes (stk c (c_sp c + 2)) (stk c (c_sp c + 3)), c_sp c + 3, c_acc c, c_x c, c_y c)
    \<and> c_status d = stk c (c_sp c + 1) AND NOT FLAG_U AND NOT FLAG_B)"
  proof (rule pop_u16_keep [OF f], unfold fst_conv snd_conv returns_Some)
    fix g assume g: "calm bd r i (t + 1 + 1 + 1 + 1) g" "c_regs g = c_regs (?f\<lparr>c_sp := c_sp ?f + 2\<rparr>)"
    have "c_sp g = c_sp c + 3 \<and> c_acc g = c_acc c \<and> c_x g = c_x c \<and> c_y g = c_y c \<and> c_status g = c_status ?f"
      using g(2) r(1-4) by (simp add: c_regs_def add.assoc)
    then show "calm bd r i (t + 1 + 1 + 1 + 1) (g\<lparr>c_pc := u16_from_le_bytes (stk ?f (c_sp ?f + 1)) (stk ?f (c_sp ?f + 2))\<rparr>)
      \<and> user_regs (g\<lparr>c_pc := u16_from_le_bytes (stk ?f (c_sp ?f + 1)) (stk ?f (c_sp ?f + 2))\<rparr>)
        = (u16_from_le_bytes (stk c (c_sp c + 2)) (stk c (c_sp c + 3)), c_sp c + 3, c_acc c, c_x c, c_y c)
      \<and> c_status (g\<lparr>c_pc := u16_from_le_bytes (stk ?f (c_sp ?f + 1)) (stk ?f (c_sp ?f + 2))\<rparr>)
        = stk c (c_sp c + 1) AND NOT FLAG_U AND NOT FLAG_B"
      using g(1) r(1,5,6) unfolding user_regs_def by (simp add: add.assoc)
  qed
qed

lemma interrupt_keep:
  assumes c: "calm bd 11 i t c"
  shows "returns (cpu_irq c) (\<lambda>d. in_handler c ((c_status c OR FLAG_U) AND NOT FLAG_B) d \<and> c_cycle d = t + 7
    \<and> returns (op_rti d) (\<lambda>e. user_regs e = user_regs c \<and> c_status e = c_status c AND NOT (FLAG_U OR FLAG_B)
        \<and> c_cycle e = t + 11))"
proof -
  have "calm bd (Suc (Suc (Suc (Suc (Suc (Suc (Suc 4))))))) i t c" using c by (simp add: eval_nat_numeral)
  then obtain d where d: "cpu_irq c = Some d" "calm bd 4 i (t + 1 + 1 + 1 + 1 + 1 + 1 + 1) d"
    "in_handler c ((c_status c OR FLAG_U) AND NOT FLAG_B) d"
    using returnsD [OF irq_keep] by blast
  have sp: "c_sp d + 1 = c_sp c - 2" "c_sp d + 2 = c_sp c - 1" "c_sp d + 3 = c_sp c"
    using d(3) by (simp_all add: in_handler_def)
  have "calm bd (Suc (Suc (Suc (Suc 0)))) i (t + 1 + 1 + 1 + 1 + 1 + 1 + 1) d" using d(2) by (simp add: eval_nat_numeral)
  from returnsD [OF rti_keep [OF this]]
  obtain e where e: "op_rti d = Some e" "calm bd 0 i (t + 1 + 1 + 1 + 1 + 1 + 1 + 1 + 1 + 1 + 1 + 1) e"
    "user_regs e = (u16_from_le_bytes (stk d (c_sp c - 1)) (stk d (c_sp c)), c_sp c, c_acc d, c_x d, c_y d)"
    "c_status e = stk d (c_sp c - 2) AND NOT FLAG_U AND NOT FLAG_B"
    unfolding sp by blast
  have "((s OR FLAG_U) AND NOT FLAG_B) AND NOT FLAG_U AND NOT FLAG_B = s AND NOT (FLAG_U OR FLAG_B)" for s :: u8
    by (rule u8_eqI; simp add: bit_simps cpu_flags)
  then have "user_regs e = user_regs c \<and> c_status e = c_status c AND NOT (FLAG_U OR FLAG_B)"
    using d(3) e(3,4) by (simp add: in_handler_def user_regs_def)
  then show ?thesis using d e(1,2) by (simp add: calm_def ready_def)
qed

end
