(* ===== verification/CpuArith.thy ===== *)
theory CpuArith
  imports CpuOps
begin

text \<open>
  The arithmetic of the 6502: what ADC computes, as numbers with and without a sign, and SBC and the
  comparisons in terms of it.
\<close>

section \<open>Arithmetic\<close>

definition flag_of :: "cpu \<Rightarrow> u8 \<Rightarrow> bool" where
  "flag_of c f \<longleftrightarrow> flag_intersects (c_status c) f"

lemma flag_of_set_status [simp]:
  "f \<noteq> 0 \<Longrightarrow> flag_of (set_status c f b) f = b"
  "g AND f = 0 \<Longrightarrow> flag_of (set_status c g b) f = flag_of c f"
  by (simp_all add: flag_of_def set_status_def)

lemma flag_of_acc [simp]: "flag_of (c\<lparr>c_acc := v\<rparr>) f = flag_of c f"
  by (simp add: flag_of_def)

lemma set_zn_status_eq: "set_zn_status c v = set_status (set_status c FLAG_Z (v = 0)) FLAG_N (v AND 0x80 = 0x80)"
  by (simp add: set_zn_status_def set_status_def Let_def)

lemma set_status_acc [simp]: "c_acc (set_status c f b) = c_acc c"
  by (simp add: set_status_def)

lemma set_status_commute_acc: "(set_status c f b)\<lparr>c_acc := v\<rparr> = set_status (c\<lparr>c_acc := v\<rparr>) f b"
  by (simp add: set_status_def)

text \<open>The two operations without the \<open>let\<close>s.\<close>

definition with_flags :: "cpu \<Rightarrow> u8 \<Rightarrow> bool \<Rightarrow> bool \<Rightarrow> cpu" where
  "with_flags c r cf vf = set_zn_status (set_status (set_status (c\<lparr>c_acc := r\<rparr>) FLAG_C cf) FLAG_V vf) r"

lemma add_with_carry_eq:
  "add_with_carry c m = with_flags c (m + c_acc c + status_bit c FLAG_C)
     (unat m + unat (c_acc c) \<ge> 2 ^ 8 \<or> unat (m + c_acc c) + unat (status_bit c FLAG_C) \<ge> 2 ^ 8)
     ((c_acc c XOR m) AND 0x80 = 0 \<and> (c_acc c XOR (m + c_acc c + status_bit c FLAG_C)) AND 0x80 \<noteq> 0)"
  unfolding add_with_carry_def overflowing_add_def with_flags_def
  by (simp only: Let_def split_beta fst_conv snd_conv set_status_acc cpu.simps)
    (simp add: set_status_def)

lemma sub_with_carry_eq:
  "sub_with_carry c m = with_flags c (c_acc c - m - (1 - status_bit c FLAG_C))
     (\<not> (c_acc c < m \<or> c_acc c - m < 1 - status_bit c FLAG_C))
     ((c_acc c XOR m) AND 0x80 \<noteq> 0 \<and> (c_acc c XOR (c_acc c - m - (1 - status_bit c FLAG_C))) AND 0x80 \<noteq> 0)"
  unfolding sub_with_carry_def overflowing_sub_def with_flags_def
  by (simp only: Let_def split_beta fst_conv snd_conv set_status_acc cpu.simps)
    (simp add: set_status_def)

lemma with_flags_state:
  "c_acc (with_flags c r cf vf) = r" "flag_of (with_flags c r cf vf) FLAG_C = cf" "flag_of (with_flags c r cf vf) FLAG_V = vf"
  "flag_of (with_flags c r cf vf) FLAG_Z \<longleftrightarrow> r = 0" "flag_of (with_flags c r cf vf) FLAG_N \<longleftrightarrow> r AND 0x80 = 0x80"
  by (simp_all add: with_flags_def set_zn_status_eq cpu_flags)

lemma with_flags_rest:
  "c_status (with_flags c r cf vf) AND 0x3C = c_status c AND 0x3C"
  "with_flags c r cf vf = c\<lparr>c_acc := c_acc (with_flags c r cf vf), c_status := c_status (with_flags c r cf vf)\<rparr>"
proof -
  show "c_status (with_flags c r cf vf) AND 0x3C = c_status c AND 0x3C"
    unfolding with_flags_def set_zn_status_eq set_status_def
    by (rule u8_eqI; simp add: bit_simps bit_flag_set cpu_flags)
  show "with_flags c r cf vf = c\<lparr>c_acc := c_acc (with_flags c r cf vf), c_status := c_status (with_flags c r cf vf)\<rparr>"
    by (simp add: with_flags_def set_zn_status_eq set_status_def)
qed

lemma bit7_iff: "bit w 7 \<longleftrightarrow> 128 \<le> unat w" for w :: u8
proof -
  have "bit w 7 \<longleftrightarrow> odd (unat w div 128)"
    using bit_iff_odd [of "unat w" 7] by (simp add: bit_unsigned_iff)
  moreover have "unat w div 128 = (if 128 \<le> unat w then 1 else 0)"
    using unat_u8_less [of w] by (simp add: div_nat_eqI)
  ultimately show ?thesis by simp
qed

lemma and_80: "w AND 0x80 = 0x80 \<longleftrightarrow> 128 \<le> unat w" "w AND 0x80 = 0 \<longleftrightarrow> unat w < 128" for w :: u8
proof -
  have "w AND 0x80 = (if bit w 7 then 0x80 else 0)"
    by (rule u8_eqI; simp add: bit_simps)
  then show "w AND 0x80 = 0x80 \<longleftrightarrow> 128 \<le> unat w" "w AND 0x80 = 0 \<longleftrightarrow> unat w < 128"
    by (simp_all add: bit7_iff)
qed

lemma xor_80: "(v XOR w) AND 0x80 = 0 \<longleftrightarrow> (128 \<le> unat v \<longleftrightarrow> 128 \<le> unat w)" for v w :: u8
proof -
  have "(v XOR w) AND 0x80 = (if bit v 7 = bit w 7 then 0 else 0x80)"
    by (rule u8_eqI; simp add: bit_simps)
  then show ?thesis by (simp add: bit7_iff)
qed

lemma sint_u8: "sint w = (if 128 \<le> unat w then int (unat w) - 256 else int (unat w))" for w :: u8
proof -
  have "sint w = (int (unat w) + 128) mod 256 - 128"
    using int_word_sint [of "uint w", where 'a = 8] unfolding word_of_int_uint uint_nat by simp
  then have s: "sint w = int ((unat w + 128) mod 256) - 128" by (simp only: zmod_int of_nat_add of_nat_numeral)
  have "(unat w + 128) mod 256 = (if 128 \<le> unat w then unat w - 128 else unat w + 128)"
    using unat_u8_less [of w] by (cases "128 \<le> unat w") (simp_all add: le_mod_geq less_imp_diff_less)
  then show ?thesis using s by (cases "128 \<le> unat w") simp_all
qed

text \<open>The carry and the overflow of a sum of two bytes and a carry, in the naturals.\<close>

lemma carry_arith:
  fixes a m k :: nat
  assumes "a < 256" "m < 256" "k \<le> 1"
  shows "256 \<le> m + a \<or> 256 \<le> (m + a) mod 256 + k \<longleftrightarrow> 256 \<le> a + m + k"
  using assms by (cases "m + a < 256") auto

lemma overflow_arith:
  fixes a m k :: nat
  assumes "a < 256" "m < 256" "k \<le> 1"
  shows "(128 \<le> a \<longleftrightarrow> 128 \<le> m) \<and> \<not> (128 \<le> a \<longleftrightarrow> 128 \<le> (a + m + k) mod 256) \<longleftrightarrow>
      (if 128 \<le> a then int a - 256 else int a) + (if 128 \<le> m then int m - 256 else int m) + int k < -128 \<or>
      127 < (if 128 \<le> a then int a - 256 else int a) + (if 128 \<le> m then int m - 256 else int m) + int k"
proof (cases "a + m + k < 256")
  case True
  then show ?thesis by (cases "128 \<le> a"; cases "128 \<le> m") auto
next
  case False
  then have "(a + m + k) mod 256 = a + m + k - 256" using assms by (simp add: le_mod_geq)
  then show ?thesis using False assms by (cases "128 \<le> a"; cases "128 \<le> m") auto
qed

definition carry_in :: "cpu \<Rightarrow> nat" where
  "carry_in c = (if flag_of c FLAG_C then 1 else 0)"

lemma status_bit_carry: "status_bit c FLAG_C = of_nat (carry_in c)" "unat (status_bit c FLAG_C) = carry_in c"
proof -
  have "c_status c AND 1 = (if bit (c_status c) 0 then 1 else 0)"
    by (rule u8_eqI; simp add: bit_simps)
  then show "status_bit c FLAG_C = of_nat (carry_in c)" "unat (status_bit c FLAG_C) = carry_in c"
    by (simp_all add: status_bit_def carry_in_def flag_of_def flag_intersects_def cpu_flags)
qed

lemma add_with_carry_spec:
  fixes c :: cpu and m :: u8
  defines "d \<equiv> add_with_carry c m" and "r \<equiv> unat (c_acc c) + unat m + carry_in c"
    and "s \<equiv> sint (c_acc c) + sint m + int (carry_in c)"
  shows "unat (c_acc d) = r mod 256" and "flag_of d FLAG_C \<longleftrightarrow> 256 \<le> r"
    and "flag_of d FLAG_V \<longleftrightarrow> s < -128 \<or> 127 < s" and "flag_of d FLAG_Z \<longleftrightarrow> r mod 256 = 0"
    and "flag_of d FLAG_N \<longleftrightarrow> 128 \<le> r mod 256"
    and "c_status d AND 0x3C = c_status c AND 0x3C" and "d = c\<lparr>c_acc := c_acc d, c_status := c_status d\<rparr>"
proof -
  let ?x = "m + c_acc c + status_bit c FLAG_C"
  have k: "carry_in c \<le> 1" by (simp add: carry_in_def)
  have x: "unat ?x = r mod 256"
    by (simp add: unat_word_ariths status_bit_carry(2) r_def mod_simps add.commute add.left_commute)
  note less = unat_u8_less [of "c_acc c"] unat_u8_less [of m]
  have "unat (m + c_acc c) = (unat m + unat (c_acc c)) mod 256" by (simp add: unat_word_ariths)
  then have cf: "2 ^ 8 \<le> unat m + unat (c_acc c) \<or> 2 ^ 8 \<le> unat (m + c_acc c) + unat (status_bit c FLAG_C) \<longleftrightarrow> 256 \<le> r"
    using carry_arith [OF less k] by (simp add: r_def status_bit_carry(2))
  have vf: "(c_acc c XOR m) AND 0x80 = 0 \<and> (c_acc c XOR ?x) AND 0x80 \<noteq> 0 \<longleftrightarrow> s < -128 \<or> 127 < s"
    unfolding xor_80 x s_def r_def sint_u8 by (rule overflow_arith [OF less k])
  show "unat (c_acc d) = r mod 256" by (simp add: d_def add_with_carry_eq with_flags_state x)
  show "flag_of d FLAG_C \<longleftrightarrow> 256 \<le> r" unfolding d_def add_with_carry_eq with_flags_state cf ..
  show "flag_of d FLAG_V \<longleftrightarrow> s < -128 \<or> 127 < s" unfolding d_def add_with_carry_eq with_flags_state vf ..
  show "flag_of d FLAG_Z \<longleftrightarrow> r mod 256 = 0"
    unfolding d_def add_with_carry_eq with_flags_state using x unat_eq_zero [of ?x] by simp
  show "flag_of d FLAG_N \<longleftrightarrow> 128 \<le> r mod 256" unfolding d_def add_with_carry_eq with_flags_state and_80 x ..
  show "c_status d AND 0x3C = c_status c AND 0x3C" "d = c\<lparr>c_acc := c_acc d, c_status := c_status d\<rparr>"
    unfolding d_def add_with_carry_eq by (rule with_flags_rest)+
qed

text \<open>C15: ADC adds the operand, the accumulator and the carry: the accumulator is the sum modulo 256, the carry
  flag its ninth bit, the overflow flag says that the sum of the signed values does not fit into a
  signed byte, zero and negative describe the result, and nothing else of the CPU changes (there is
  no decimal mode).\<close>

theorem adc_spec:
  "let d = add_with_carry c m; r = unat (c_acc c) + unat m + carry_in c;
       s = sint (c_acc c) + sint m + int (carry_in c)
   in unat (c_acc d) = r mod 256 \<and> (flag_of d FLAG_C \<longleftrightarrow> 256 \<le> r)
     \<and> (flag_of d FLAG_V \<longleftrightarrow> s < -128 \<or> 127 < s) \<and> (flag_of d FLAG_Z \<longleftrightarrow> r mod 256 = 0)
     \<and> (flag_of d FLAG_N \<longleftrightarrow> 128 \<le> r mod 256) \<and> c_status d AND 0x3C = c_status c AND 0x3C
     \<and> d = c\<lparr>c_acc := c_acc d, c_status := c_status d\<rparr>"
  unfolding Let_def by (intro conjI add_with_carry_spec)

section \<open>Subtraction and comparison\<close>

lemma not_flag_arith: "NOT m = 255 - m" "unat (NOT m) = 255 - unat m" for m :: u8
proof -
  show 1: "NOT m = 255 - m" by (simp add: not_eq_complement)
  have "m \<le> 255" using unat_u8_less [of m] unfolding word_le_nat_alt by (simp del: unat_u8_less)
  then show "unat (NOT m) = 255 - unat m" unfolding 1 by (simp add: unat_sub)
qed

text \<open>C12: SBC is ADC with the complement of the operand, in the result and in every flag, though the source
  computes it with borrows of its own.\<close>

theorem sbc_is_adc: "sub_with_carry c m = add_with_carry c (NOT m)"
proof -
  have k: "carry_in c = 0 \<or> carry_in c = 1" by (auto simp: carry_in_def)
  have r: "c_acc c - m - (1 - status_bit c FLAG_C) = NOT m + c_acc c + status_bit c FLAG_C"
    by (simp add: not_eq_complement)
  have "(c_acc c < m \<or> c_acc c - m < 1 - status_bit c FLAG_C) \<longleftrightarrow> unat (c_acc c) + carry_in c < unat m + 1"
  proof (cases "c_acc c < m")
    case True
    then show ?thesis using k by (auto simp: word_less_nat_alt)
  next
    case False
    then have "unat (c_acc c - m) = unat (c_acc c) - unat m" by (simp add: unat_sub not_less)
    moreover have "unat (1 - status_bit c FLAG_C) = 1 - carry_in c"
      using k unfolding status_bit_carry(1) by (elim disjE) simp_all
    moreover have "unat m \<le> unat (c_acc c)" using False by (simp add: word_less_nat_alt)
    ultimately show ?thesis using k False unfolding word_less_nat_alt by linarith
  qed
  moreover have "2 ^ 8 \<le> unat (NOT m) + unat (c_acc c) \<or> 2 ^ 8 \<le> unat (NOT m + c_acc c) + unat (status_bit c FLAG_C)
      \<longleftrightarrow> 256 \<le> unat (c_acc c) + unat (NOT m) + carry_in c"
  proof -
    have "unat (NOT m + c_acc c) = (unat (NOT m) + unat (c_acc c)) mod 256" by (simp add: unat_word_ariths)
    then show ?thesis
      using carry_arith [OF unat_u8_less [of "c_acc c"] unat_u8_less [of "NOT m"], of "carry_in c"] k
      by (auto simp: status_bit_carry(2))
  qed
  moreover have "256 \<le> unat (c_acc c) + unat (NOT m) + carry_in c \<longleftrightarrow> \<not> unat (c_acc c) + carry_in c < unat m + 1"
    using unat_u8_less [of m] unfolding not_flag_arith(2) by linarith
  ultimately have cf: "(\<not> (c_acc c < m \<or> c_acc c - m < 1 - status_bit c FLAG_C)) \<longleftrightarrow>
      (2 ^ 8 \<le> unat (NOT m) + unat (c_acc c) \<or> 2 ^ 8 \<le> unat (NOT m + c_acc c) + unat (status_bit c FLAG_C))"
    by simp
  have "128 \<le> unat (NOT m) \<longleftrightarrow> \<not> 128 \<le> unat m" unfolding not_flag_arith(2) using unat_u8_less [of m] by linarith
  then have vf: "(c_acc c XOR m) AND 0x80 \<noteq> 0 \<longleftrightarrow> (c_acc c XOR NOT m) AND 0x80 = 0" unfolding xor_80 by simp
  show ?thesis unfolding sub_with_carry_eq add_with_carry_eq r cf vf ..
qed

lemma compare_eq: "compare c a b = set_status (set_zn_status c (a - b)) FLAG_C (b \<le> a)"
  by (simp add: compare_def Let_def)

lemma compare_flags:
  "flag_set (flag_set (flag_set s FLAG_Z z) FLAG_N n) FLAG_C c =
    (flag_set (flag_set (flag_set (flag_set (flag_set s FLAG_C True) FLAG_C c) FLAG_V v) FLAG_Z z) FLAG_N n AND NOT FLAG_V)
     OR (s AND FLAG_V)"
  by (rule u8_eqI; simp add: bit_simps bit_flag_set cpu_flags)

text \<open>A comparison sets the flags of the subtraction with the carry set, and leaves overflow, the
  registers and everything else alone.\<close>

theorem compare_is_sbc:
  "compare c a b = c\<lparr>c_status :=
     (c_status (sub_with_carry (set_status (c\<lparr>c_acc := a\<rparr>) FLAG_C True) b) AND NOT FLAG_V) OR (c_status c AND FLAG_V)\<rparr>"
proof -
  let ?c = "set_status (c\<lparr>c_acc := a\<rparr>) FLAG_C True"
  have "status_bit ?c FLAG_C = 1"
    unfolding status_bit_carry(1) by (simp add: carry_in_def FLAG_C_def)
  then have d: "sub_with_carry ?c b = with_flags ?c (a - b) (b \<le> a) ((a XOR b) AND 0x80 \<noteq> 0 \<and> (a XOR (a - b)) AND 0x80 \<noteq> 0)"
    by (simp add: sub_with_carry_eq not_less)
  show ?thesis
    unfolding d unfolding compare_eq with_flags_def set_zn_status_eq set_status_def by (simp add: compare_flags)
qed

end
