(* ===== verification/CpuProps.thy ===== *)
theory CpuProps
  imports PowerOn CpuStack CpuArith
begin

text \<open>
  The properties of the CPU and its bus: reads and peeks agree, the accesses are safe, work RAM and
  the stack are memories, the cycles of the instructions, the arithmetic, and the PPU in step with
  the CPU.
\<close>

section \<open>The cycles of an instruction\<close>

lemma calm_instr: "calm bd r i t c \<Longrightarrow> calm bd r j t (c\<lparr>c_instr := j\<rparr>)"
  by (simp add: calm_def ready_def idle_def room_def quiet_def)

lemma cpu_decode_cost:
  assumes c: "calm bd (r + 5) i t c"
  shows "returns (cpu_decode c) (\<lambda>d. \<exists>b. c_instr d = instruction b
    \<and> calm bd r (c_instr d) (t + of_nat (1 + mode_cost (instr_addr_mode (c_instr d)))) d)"
proof -
  have "r + 5 = Suc (r + 4)" by simp
  with c have "calm bd (Suc (r + 4)) i t c" by (simp only:)
  then show ?thesis
    unfolding cpu_decode_def split_beta Let_def
  proof (rule read_instr_then, unfold fst_conv snd_conv)
    fix b d assume d: "calm bd (r + 4) i (t + 1) d"
    let ?i = "instruction b"
    have m: "r + mode_cost (instr_addr_mode ?i) \<le> r + 4" by (cases "instr_addr_mode ?i") simp_all
    have "calm bd (r + mode_cost (instr_addr_mode ?i)) ?i (t + 1) (d\<lparr>c_instr := ?i\<rparr>)"
      using calm_weaken [OF calm_instr [OF d] m] .
    note x = cpu_address_cost [OF this]
    have i: "c_instr (d\<lparr>c_instr := ?i\<rparr>) = ?i" by simp
    show "returns (cpu_address (instr_addr_mode (c_instr (d\<lparr>c_instr := ?i\<rparr>))) (d\<lparr>c_instr := ?i\<rparr>))
      (\<lambda>d. \<exists>b. c_instr d = instruction b
        \<and> calm bd r (c_instr d) (t + of_nat (1 + mode_cost (instr_addr_mode (c_instr d)))) d)"
      unfolding i by (rule returns_mono [OF x]) (auto simp: calm_def ready_def add.assoc)
  qed
qed

lemma instruction_in_table: "instruction b \<in> set INSTRUCTIONS"
proof -
  have "length INSTRUCTIONS = 256" by (simp add: INSTRUCTIONS_def)
  then show ?thesis using nth_mem [of "unat b" INSTRUCTIONS] by (simp add: instruction_def)
qed

lemma op_base_fetch:
  "op_base (instr_op (c_instr c)) (fetch_cost c) w = op_base (instr_op (c_instr c)) (fetch_base (c_instr c)) w + crossing_cost c"
  by (cases "instr_op (c_instr c)") (simp_all add: fetch_cost_split crossing_cost_def READ_OPS_def)

text \<open>C2: From a state with rendering off, no DMA of either kind pending or under way and eleven cycles of room
  on the clock, whatever instruction the program counter is at does not panic, keeps the invariants of
  the machine, and takes the cycles of the table of instructions, one more for a read whose indexing
  crosses a page, one more for a branch that is taken and another one when it leaves the page; \<open>clock\<close>
  returns that number in the cycle-accurate mode when no interrupt is due. With rendering on, an
  instruction that reads OAMDATA can panic, and a DMA takes cycles of its own: both are outside.\<close>

theorem instruction_cycles:
  assumes "cpu_wf bd c" and "quiet c" and "not_rendering (c_bus c)" and "room 11 c"
  shows "returns (cpu_decode c) (\<lambda>d. returns (cpu_execute (instr_op (c_instr d)) d) (\<lambda>e. cpu_wf bd e
    \<and> c_cycle e = c_cycle c + of_nat (instr_cycles (c_instr d) + extra_cost d)
    \<and> (\<not> c_prev_run_irq e \<and> \<not> c_prev_nmi e \<and> c_cycle_accurate e \<longrightarrow>
        cpu_clock c = Some (of_nat (instr_cycles (c_instr d) + extra_cost d), e))))"
proof -
  have "calm bd (6 + 5) (c_instr c) (c_cycle c) c"
    using assms by (simp add: calm_def ready_def idle_def)
  from cpu_decode_cost [OF this] obtain d b where d: "cpu_decode c = Some d" "c_instr d = instruction b"
    "calm bd 6 (c_instr d) (c_cycle c + of_nat (1 + mode_cost (instr_addr_mode (c_instr d)))) d"
    by (auto simp: returns_def)
  let ?i = "c_instr d" and ?k = "instr_op (c_instr d)"
  note tab = bspec [OF instructions_table, OF instruction_in_table [of b], folded d(2)]
  have "6 = Suc (Suc (Suc (Suc (Suc (Suc 0)))))" by simp
  with d(3) have "calm bd (Suc (Suc (Suc (Suc (Suc (Suc 0)))))) ?i (c_cycle c + of_nat (1 + mode_cost (instr_addr_mode ?i))) d"
    by (simp only:)
  from cpu_execute_cost [OF this, of ?k] tab obtain e where e: "cpu_execute ?k d = Some e" "cpu_wf bd e"
    "c_cycle e = c_cycle c + of_nat (1 + mode_cost (instr_addr_mode ?i)) + of_nat (op_base ?k (fetch_cost d) (write_cost ?i) + branch_cost ?k d)"
    by (auto simp: returns_def ready_def)
  have "1 + mode_cost (instr_addr_mode ?i) + (op_base ?k (fetch_cost d) (write_cost ?i) + branch_cost ?k d)
      = base_cost ?i + extra_cost d"
    by (simp add: base_cost_def extra_cost_def op_base_fetch)
  then have "c_cycle e = c_cycle c + of_nat (base_cost ?i + extra_cost d)"
    unfolding e(3) add.assoc of_nat_add [symmetric] by (simp only: add.assoc)
  then have cyc: "c_cycle e = c_cycle c + of_nat (instr_cycles ?i + extra_cost d)" using tab by simp
  then show ?thesis
    using d(1) e(1,2) by (simp add: cpu_clock_def cpu_clock_inspect_def)
qed

theorem instruction_cycles_witness:
  "returns (cpu_decode sample_cpu) (\<lambda>d. returns (cpu_execute (instr_op (c_instr d)) d) (\<lambda>e.
     c_cycle e = of_nat (instr_cycles (c_instr d) + extra_cost d)))"
  by (rule returns_mono [OF instruction_cycles [OF sample_cpu_wf sample_cpu_quiet(1,2) sample_cpu_room]])
    (simp, erule returns_mono, simp add: sample_cpu_quiet)

section \<open>The bus\<close>

text \<open>Where OAMDATA cannot be read, neither can it be peeked; this is the only address where a
  well-formed bus panics.\<close>

lemma unreadable_panics:
  assumes "\<not> readable b addr"
  shows "cb_peek b addr k = None" and "cb_read b addr k = None"
proof -
  have o: "is_oamdata addr" "peek_oamdata (cb_ppu b) = None" using assms by (simp_all add: readable_def)
  have reg: "cb_peek b 0x2004 k = None" "cb_read b 0x2004 k = None"
    by (subst cb_peek.simps, simp add: o(2))
      (subst cb_read.simps, simp add: o(2) cb_read_ppu_def read_oamdata_def)
  have "cb_peek b addr k = None \<and> cb_read b addr k = None"
  proof (cases "addr \<le> 0x2007")
    case True
    then have "addr = 0x2004" using o(1) oam_mirror_arith [OF True] by (simp add: is_oamdata_def)
    then show ?thesis using reg by simp
  next
    case False
    then have n: "\<not> addr \<le> 0x07FF" "\<not> 0x4020 \<le> addr" "addr \<noteq> 0x2002" "addr \<noteq> 0x2004" "addr \<noteq> 0x2007"
      "addr \<noteq> 0x4015" "addr \<noteq> 0x4016" "addr \<noteq> 0x4017" "\<not> write_only_reg addr" "\<not> addr \<le> 0x1FFF"
      "0x2008 \<le> addr" "addr \<le> 0x3FFF" "addr AND 0x2007 = 0x2004"
      using o(1) by (auto simp: is_oamdata_def word_le_nat_alt write_only_reg_def)
    then show ?thesis using reg by (subst cb_peek.simps, subst cb_read.simps) simp
  qed
  then show "cb_peek b addr k = None" "cb_read b addr k = None" by simp_all
qed

lemma cb_read_open_bus: "cb_read b addr k = Some (v, b') \<Longrightarrow> cb_open_bus b' = v"
  by (subst (asm) cb_read.simps) (auto split: if_splits)

text \<open>C17: Peeking an address is reading it without the side effects: on a well-formed bus, at every
  address, either the peek shows a byte, and then the read returns that same byte, keeps the invariant
  and leaves the byte on the data bus; or the peek panics, and then the read panics too, the address
  is one of OAMDATA and the PPU is in the sprite fetches past the end of secondary OAM.\<close>

theorem bus_peek_is_read:
  assumes "cb_wf bd b"
  shows "case cb_peek b addr access of
      Some v \<Rightarrow> \<exists>b'. cb_read b addr access = Some (v, b') \<and> cb_wf bd b' \<and> cb_open_bus b' = v
    | None \<Rightarrow> cb_read b addr access = None \<and> is_oamdata addr \<and> peek_oamdata (cb_ppu b) = None"
proof (cases "readable b addr")
  case True
  from cb_read_matches [OF assms this, of access] obtain v b' where
    "cb_read b addr access = Some (v, b')" "cb_peek b addr access = Some v" "cb_wf bd b'"
    by (auto simp: read_matches_def returns_def)
  then show ?thesis using cb_read_open_bus by simp
next
  case False
  then show ?thesis using unreadable_panics [OF False, of access] by (simp add: readable_def)
qed

theorem bus_peek_is_read_witness:
  "\<exists>v b'. cb_peek (c_bus sample_cpu) 0x4015 AccRead = Some v
    \<and> cb_read (c_bus sample_cpu) 0x4015 AccRead = Some (v, b') \<and> cb_open_bus b' = v"
proof -
  have "cb_wf sample_bd (c_bus sample_cpu)" using sample_cpu_wf by (simp add: cpu_wf_def)
  from bus_peek_is_read [OF this, of "0x4015" AccRead]
  show ?thesis by (auto simp: is_oamdata_def split: option.splits)
qed

text \<open>What can happen to the bus besides the clock of the PPU.\<close>

datatype bus_event = BusRead u16 | BusWrite u16 u8 | BusClock | BusReset kind | BusDmcDma | BusDmcLoad u8

fun bus_step :: "(nat \<Rightarrow> u8) \<Rightarrow> bus_event \<Rightarrow> cpu_bus \<Rightarrow> cpu_bus option" where
  "bus_step rng (BusRead addr) b = map_option snd (cb_read b addr AccRead)"
| "bus_step rng (BusWrite addr val) b = cb_write b addr val AccWrite"
| "bus_step rng BusClock b = cb_clock b"
| "bus_step rng (BusReset k) b = cb_reset rng b k"
| "bus_step rng BusDmcDma b = Some (snd (cb_dmc_dma b))"
| "bus_step rng (BusDmcLoad val) b = Some (cb_load_dmc_buffer b val)"

fun bus_run :: "(nat \<Rightarrow> u8) \<Rightarrow> bus_event list \<Rightarrow> cpu_bus \<Rightarrow> cpu_bus option" where
  "bus_run rng [] b = Some b"
| "bus_run rng (e # es) b = do { b \<leftarrow> bus_step rng e b; bus_run rng es b }"

text \<open>The one event that can panic is a read of OAMDATA.\<close>

fun reads_oamdata :: "bus_event \<Rightarrow> bool" where
  "reads_oamdata (BusRead a) \<longleftrightarrow> is_oamdata a"
| "reads_oamdata _ \<longleftrightarrow> False"

lemma bus_step_ok:
  assumes "cb_wf bd b"
  shows "case bus_step rng e b of Some b' \<Rightarrow> cb_wf bd b' | None \<Rightarrow> reads_oamdata e \<and> peek_oamdata (cb_ppu b) = None"
proof -
  have ok: "returns (bus_step rng e b) (cb_wf bd)" if "\<And>a. e = BusRead a \<Longrightarrow> readable b a"
  proof (cases e)
    case (BusRead a)
    from cb_read_matches [OF assms that [OF this], of AccRead] show ?thesis
      using BusRead by (auto simp: read_matches_def returns_def)
  next
    case (BusDmcLoad v)
    then show ?thesis using assms(1) cb_wfD(5) [OF assms(1)] by (simp add: cb_load_dmc_buffer_def)
  qed (use assms in \<open>simp_all add: cb_write_ok cb_clock_ok cb_reset_ok cb_dmc_dma_ok\<close>)
  show ?thesis
  proof (cases "\<exists>a. e = BusRead a \<and> \<not> readable b a")
    case True
    then show ?thesis using unreadable_panics(2) by (auto simp: readable_def)
  next
    case False
    then show ?thesis using returnsD [OF ok] by auto
  qed
qed

text \<open>C3: The sizes and bounds that the types of the bus, the PPU, the APU, the input devices and the mapper
  stand for are invariants: after any sequence of reads of any address, writes of any byte to any
  address, CPU clocks, resets and DMC transfers they all hold, unless the sequence panicked; and it
  panics only at a read of OAMDATA, in a state that still satisfies them, when the sprite fetches have
  moved the PPU past the end of secondary OAM.\<close>

theorem bus_well_typed:
  assumes "cb_wf bd b"
  shows "case bus_run rng es b of
      Some b' \<Rightarrow> cb_wf bd b'
    | None \<Rightarrow> \<exists>es1 e es2 b1. es = es1 @ e # es2 \<and> bus_run rng es1 b = Some b1 \<and> cb_wf bd b1
        \<and> reads_oamdata e \<and> peek_oamdata (cb_ppu b1) = None"
  using assms
proof (induction es arbitrary: b)
  case (Cons e es)
  show ?case
  proof (cases "bus_step rng e b")
    case None
    then have "e # es = [] @ e # es \<and> bus_run rng [] b = Some b \<and> cb_wf bd b \<and> reads_oamdata e
        \<and> peek_oamdata (cb_ppu b) = None"
      using bus_step_ok [OF Cons.prems, where rng = rng and e = e] Cons.prems by simp
    then have "\<exists>es1 e' es2 b1. e # es = es1 @ e' # es2 \<and> bus_run rng es1 b = Some b1 \<and> cb_wf bd b1
        \<and> reads_oamdata e' \<and> peek_oamdata (cb_ppu b1) = None" by blast
    then show ?thesis using None by simp
  next
    case (Some b1)
    then have "cb_wf bd b1" using bus_step_ok [OF Cons.prems, where rng = rng and e = e] by simp
    note ih = Cons.IH [OF this]
    show ?thesis
    proof (cases "bus_run rng es b1")
      case None
      with ih obtain es1 e' es2 b2 where "es = es1 @ e' # es2" "bus_run rng es1 b1 = Some b2" "cb_wf bd b2"
        "reads_oamdata e'" "peek_oamdata (cb_ppu b2) = None" by auto
      then have "e # es = (e # es1) @ e' # es2 \<and> bus_run rng (e # es1) b = Some b2 \<and> cb_wf bd b2 \<and> reads_oamdata e'
          \<and> peek_oamdata (cb_ppu b2) = None" using Some by simp
      then have "\<exists>es1 e' es2 b1. e # es = es1 @ e' # es2 \<and> bus_run rng es1 b = Some b1 \<and> cb_wf bd b1
          \<and> reads_oamdata e' \<and> peek_oamdata (cb_ppu b1) = None" by blast
      then show ?thesis using Some None by simp
    qed (use ih Some in simp)
  qed
qed simp

theorem bus_well_typed_witness:
  "returns (bus_run (\<lambda>_. 0) [BusWrite 0x4015 0x1F, BusRead 0x2002, BusClock, BusWrite 0x2007 3, BusReset Soft]
     (c_bus sample_cpu)) (cb_wf sample_bd)"
proof -
  let ?es = "[BusWrite 0x4015 0x1F, BusRead 0x2002, BusClock, BusWrite 0x2007 3, BusReset Soft]"
  have "cb_wf sample_bd (c_bus sample_cpu)" using sample_cpu_wf by (simp add: cpu_wf_def)
  note run = bus_well_typed [OF this, where rng = "\<lambda>_. 0" and es = ?es]
  have no: "\<forall>e\<in>set ?es. \<not> reads_oamdata e" by (simp add: is_oamdata_def)
  show ?thesis
  proof (cases "bus_run (\<lambda>_. 0) ?es (c_bus sample_cpu)")
    case None
    with run obtain es1 e es2 where "?es = es1 @ e # es2" "reads_oamdata e" by auto
    then have "e \<in> set ?es" by (metis in_set_conv_decomp)
    with no \<open>reads_oamdata e\<close> show ?thesis by blast
  qed (use run in simp)
qed

section \<open>Work RAM\<close>

text \<open>The 2K of work RAM are one memory behind four copies of the addresses: a write of the CPU and a read
  a cycle later give back the byte at every copy of the address and the old byte elsewhere.\<close>

theorem work_ram_write_read:
  assumes "cpu_wf bd c" and "quiet c" and "room 2 c" and "a \<le> 0x1FFF" and "a' \<le> 0x1FFF"
  shows "returns (do { c \<leftarrow> cpu_write c a v k; cpu_read c a' k' }) (\<lambda>(x, d). cpu_wf bd d \<and> c_cycle d = c_cycle c + 2
    \<and> Some x = (if unat a' mod 0x800 = unat a mod 0x800 then Some v else cpu_peek c a' k'))"
proof -
  have "room 1 c" using assms(3) by (simp add: room_def)
  then obtain d where d: "cpu_write c a v k = Some d" "writes bd c a v d"
    using returnsD [OF cpu_write_ok [OF assms(1)]] by blast
  have dd: "cpu_wf bd d" "quiet d" "room 1 d" "can_read d a'" "cb_env (c_bus d) = cb_env (wram_put (c_bus c) a v)"
    using d(2) writes_room [OF d(2), of 1] assms clocks_env_D(1)
    by (auto simp: writes_def numeral_2_eq_2)
  obtain x e where e: "cpu_read d a' k' = Some (x, e)" "runs bd 1 d e" "x = wram_at (c_bus d) a'"
    using returnsD [OF cpu_read_quiet [OF dd(1-4), of k', unfolded reads_def]] assms(5) by auto
  have bwf: "cb_wf bd (c_bus c)" using assms(1) by (simp add: cpu_wf_def)
  have "x = (if unat a' mod 0x800 = unat a mod 0x800 then v else wram_at (c_bus c) a')"
    using e(3) wram_at_env [OF dd(5)] wram_at_put [OF bwf] by simp
  then show ?thesis
    using d e cb_peek_wram [OF bwf assms(5)] by (simp add: cpu_peek_def writes_def runs_def)
qed

theorem work_ram_write_read_witness:
  "returns (do { c \<leftarrow> cpu_write sample_cpu 0x0012 7 AccWrite; cpu_read c 0x1812 AccRead }) (\<lambda>(x, d). x = 7)"
  by (rule returns_mono [OF work_ram_write_read [OF sample_cpu_wf sample_cpu_quiet(1) sample_cpu_room]]) auto

section \<open>The transfer to OAM\<close>

text \<open>C9: A transfer to OAM that is requested with rendering off, an idle DMC channel, no DMC transfer pending
  and room for its cycles on the clock ends: it takes 513 cycles, or 514 when it has to
  wait for a get cycle, clears the request, keeps the invariants, leaves OAMADDR where it was, and,
  when the source page is in work RAM or one of its copies, that page has been copied to the 256 bytes
  of OAM from OAMADDR on, wrapping around, less the attribute bits that OAM does not have. A DMC
  transfer that overlaps it takes other cycles and is outside.\<close>

theorem oam_dma_copies:
  assumes "cpu_wf bd c" and "not_rendering (c_bus c)" and "dmc_idle (c_bus c)" and "\<not> c_dmc_dma c"
    and "cb_oam_dma (c_bus c)" and "room 514 c"
  shows "returns (cpu_handle_dma c addr) (\<lambda>d. cpu_wf bd d \<and> \<not> cb_oam_dma (c_bus d)
    \<and> c_cycle d = c_cycle c + (if get_cycle c then 514 else 513)
    \<and> pp_oamaddr (cb_ppu (c_bus d)) = pp_oamaddr (cb_ppu (c_bus c))
    \<and> (cb_oam_dma_addr (c_bus c) \<le> 0x1F00 \<longrightarrow> (\<forall>i<256. let a = pp_oamaddr (cb_ppu (c_bus c)) + of_nat i
        in pp_oamdata (cb_ppu (c_bus d)) ! unat a = oam_byte a (wram_at (c_bus c) (cb_oam_dma_addr (c_bus c) + of_nat i)))))"
  using handle_dma_ok [OF assms, of addr]
proof (rule returns_mono)
  fix d
  assume "\<exists>s. dma_ready bd s \<and> copied bd (cb_oam_dma_addr (c_bus c)) 0 256 s d
    \<and> c_cycle s = c_cycle c + (if get_cycle c then 2 else 1) \<and> cb_env (c_bus s) = cb_env (c_bus c)
    \<and> oam_of (cb_ppu (c_bus s)) = oam_of (cb_ppu (c_bus c))"
  then obtain s where s: "dma_ready bd s" "copied bd (cb_oam_dma_addr (c_bus c)) 0 256 s d"
    "c_cycle s = c_cycle c + (if get_cycle c then 2 else 1)" "cb_env (c_bus s) = cb_env (c_bus c)"
    "pp_oamaddr (cb_ppu (c_bus s)) = pp_oamaddr (cb_ppu (c_bus c))" by (auto simp: oam_of_def)
  then show "cpu_wf bd d \<and> \<not> cb_oam_dma (c_bus d)
    \<and> c_cycle d = c_cycle c + (if get_cycle c then 514 else 513)
    \<and> pp_oamaddr (cb_ppu (c_bus d)) = pp_oamaddr (cb_ppu (c_bus c))
    \<and> (cb_oam_dma_addr (c_bus c) \<le> 0x1F00 \<longrightarrow> (\<forall>i<256. let a = pp_oamaddr (cb_ppu (c_bus c)) + of_nat i
        in pp_oamdata (cb_ppu (c_bus d)) ! unat a = oam_byte a (wram_at (c_bus c) (cb_oam_dma_addr (c_bus c) + of_nat i))))"
    using copied_oam [OF s(2,1)] wram_at_env [OF s(4)] by simp
qed

theorem oam_dma_copies_witness:
  "returns (cpu_handle_dma (sample_cpu\<lparr>c_bus := (c_bus sample_cpu)\<lparr>cb_oam_dma := True, cb_oam_dma_addr := 0x0200\<rparr>\<rparr>) 0x8000)
     (\<lambda>d. \<not> cb_oam_dma (c_bus d) \<and> c_cycle d = 514)"
proof -
  let ?c = "sample_cpu\<lparr>c_bus := (c_bus sample_cpu)\<lparr>cb_oam_dma := True, cb_oam_dma_addr := 0x0200\<rparr>\<rparr>"
  have "cpu_wf sample_bd ?c" "room 514 ?c" using sample_cpu_wf sample_cpu_room [of 514] by (simp_all add: cpu_wf_def room_def)
  moreover have "not_rendering (c_bus ?c)" "dmc_idle (c_bus ?c)" "\<not> c_dmc_dma ?c" "cb_oam_dma (c_bus ?c)"
    "get_cycle ?c" "c_cycle ?c = 0"
    using sample_cpu_quiet by (simp_all add: quiet_def not_rendering_def dmc_idle_def get_cycle_def)
  ultimately show ?thesis using returns_mono [OF oam_dma_copies [of sample_bd ?c "0x8000"]] by simp
qed

section \<open>Calls and interrupts\<close>

text \<open>C10: RTS undoes JSR: outside of DMA and rendering a call jumps to its target with two more bytes on the
  stack, and returning at once restores every register, the program counter behind the call
  included, after seven cycles of accesses, wherever the stack pointer is (it wraps around).\<close>

theorem subroutine_returns:
  assumes "cpu_wf bd c" and "quiet c" and "not_rendering (c_bus c)" and "room 7 c"
  shows "returns (op_jsr c) (\<lambda>d. c_pc d = c_abs_addr c \<and> c_sp d = c_sp c - 2
    \<and> returns (op_rts d) (\<lambda>e. c_regs e = c_regs c \<and> c_cycle e = c_cycle c + 7))"
  using assms by (intro subroutine_keep [of bd "c_instr c" "c_cycle c" c]) (simp add: calm_def ready_def idle_def)

theorem subroutine_returns_witness:
  "returns (op_jsr (sample_cpu\<lparr>c_pc := 0x1234\<rparr>)) (\<lambda>d. returns (op_rts d) (\<lambda>e. c_pc e = 0x1234))"
proof -
  have "cpu_wf sample_bd (sample_cpu\<lparr>c_pc := 0x1234\<rparr>)" "quiet (sample_cpu\<lparr>c_pc := 0x1234\<rparr>)"
    "not_rendering (c_bus (sample_cpu\<lparr>c_pc := 0x1234\<rparr>))" "room 7 (sample_cpu\<lparr>c_pc := 0x1234\<rparr>)"
    using sample_cpu_wf sample_cpu_quiet(1,2) sample_cpu_room [of 7] by (simp_all add: quiet_def room_def)
  from subroutine_returns [OF this] show ?thesis
    by (auto simp: c_regs_def returns_def)
qed

text \<open>C11: An interrupt takes seven cycles, saves the program counter and the status with the break bit clear,
  and masks further requests; RTI from the handler restores the program counter, the stack pointer
  and the status but for the two bits that are not flags. The handler is that of the NMI when one is
  pending, even for an IRQ.\<close>

theorem interrupt_returns:
  assumes "cpu_wf bd c" and "quiet c" and "not_rendering (c_bus c)" and "room 11 c"
  shows "returns (cpu_irq c) (\<lambda>d. in_handler c ((c_status c OR FLAG_U) AND NOT FLAG_B) d \<and> c_cycle d = c_cycle c + 7
    \<and> returns (op_rti d) (\<lambda>e. user_regs e = user_regs c \<and> c_status e = c_status c AND NOT (FLAG_U OR FLAG_B)
        \<and> c_cycle e = c_cycle c + 11))"
  using assms by (intro interrupt_keep [of bd "c_instr c" "c_cycle c" c]) (simp add: calm_def ready_def idle_def)

theorem interrupt_returns_witness:
  "returns (cpu_irq sample_cpu) (\<lambda>d. c_sp d = 0xFD \<and> returns (op_rti d) (\<lambda>e. c_sp e = 0))"
  by (rule returns_mono [OF interrupt_returns [OF sample_cpu_wf sample_cpu_quiet(1,2) sample_cpu_room]])
    (auto simp: in_handler_def user_regs_def sample_cpu_quiet elim: returns_mono)

section \<open>The PPU in step\<close>

text \<open>C8: The PPU is in step with the CPU: either half of any cycle, of a read or a write and in any region,
  returns (with a cycle of room on the clock), and after it the clock of the PPU is never ahead of the
  master clock; in the cycle-accurate mode it is also less than one dot behind the target it is
  clocked to, which is \<open>PPU_OFFSET\<close> master clocks before the master clock. Its lag behind the master
  clock itself is therefore less than one dot and that offset.\<close>

theorem ppu_keeps_up:
  assumes "cpu_wf bd c" and "room 1 c" and "half \<in> {cpu_start_cycle, cpu_end_cycle}"
  shows "returns (half c k) (\<lambda>d. cpu_wf bd d \<and> pp_master_clock (cb_ppu (c_bus d)) \<le> c_master_clock d
    \<and> (c_cycle_accurate d \<longrightarrow> c_master_clock d - PPU_OFFSET
        < pp_master_clock (cb_ppu (c_bus d)) + pp_clock_divider (cb_ppu (c_bus d))))"
proof -
  have Q: "cpu_wf bd d \<and> pp_master_clock (cb_ppu (c_bus d)) \<le> c_master_clock d
    \<and> (c_cycle_accurate d \<longrightarrow> c_master_clock d - PPU_OFFSET
        < pp_master_clock (cb_ppu (c_bus d)) + pp_clock_divider (cb_ppu (c_bus d)))" if "cpu_wf bd d" "caught_up d" for d
    using that by (simp add: cpu_wf_def caught_up_def PPU_OFFSET_def)
  have "unat (c_master_clock c) + 40 < 2 ^ 64" using assms(2) by (simp add: room_def)
  from cpu_start_cycle_ok [OF assms(1,2), of k] cpu_end_cycle_ok [OF assms(1) this, of k] assms(3) show ?thesis
    by (auto simp: half_cycle_def end_of_cycle_def intro!: Q elim!: returns_mono simp del: split_paired_All)
qed

theorem ppu_keeps_up_witness:
  "returns (cpu_start_cycle sample_cpu WriteCycle) (\<lambda>d. pp_master_clock (cb_ppu (c_bus d)) \<le> c_master_clock d)"
  by (rule returns_mono [OF ppu_keeps_up [OF sample_cpu_wf sample_cpu_room, of cpu_start_cycle WriteCycle]]) auto

end
