(* ===== verification/MapperProps.thy ===== *)
theory MapperProps
  imports CartMapperProps PpuBus
begin

text \<open>
  Properties of the boards with interrupt counters, sound and nametables of their own: the Konami
  counter, the nametables of the VRC6, and the MMC5.
\<close>

section \<open>The Konami interrupt counter\<close>

text \<open>The counter steps made in \<open>t\<close> clocks: one each in cycle mode, three in 341 in scanline mode.\<close>

definition irq_steps :: "bool \<Rightarrow> nat \<Rightarrow> nat" where
  "irq_steps cycle_mode t = (if cycle_mode then t else 3 * t div 341)"

definition irq_at :: "u8 \<Rightarrow> bool \<Rightarrow> nat \<Rightarrow> vrc_irq \<Rightarrow> bool" where
  "irq_at reload cycle_mode t q \<longleftrightarrow> vq_enabled q \<and> vq_reload q = reload \<and> vq_cycle_mode q = cycle_mode
     \<and> unat (vq_counter q) = unat reload + irq_steps cycle_mode t mod (256 - unat reload)
     \<and> (vq_pending q \<longleftrightarrow> 256 - unat reload \<le> irq_steps cycle_mode t)
     \<and> (\<not> cycle_mode \<longrightarrow> sint (vq_prescalar_counter q) = 341 * (int (irq_steps cycle_mode t) + 1) - 3 * int t)"

lemma sint_add_small:
  fixes x :: i16
  assumes "- 32768 \<le> sint x + k" and "sint x + k < 32768"
  shows "sint (x + word_of_int k) = sint x + k"
proof -
  have "x + word_of_int k = word_of_int (sint x + k)" by simp
  then have "sint (x + word_of_int k) = (sint x + k + 32768) mod 65536 - 32768"
    by (simp only: int_word_sint) simp
  then show ?thesis using assms by simp
qed

text \<open>One step of the counter, which reloads after 255.\<close>

lemma irq_count:
  assumes "unat (c :: u8) = unat r + k mod (256 - unat r)" and "pend \<longleftrightarrow> 256 - unat r \<le> k"
  shows "unat (if c = 0xFF then r else c + 1) = unat r + Suc k mod (256 - unat r)"
    and "(c = 0xFF \<or> pend) \<longleftrightarrow> 256 - unat r \<le> Suc k"
proof -
  let ?p = "256 - unat r"
  have p: "0 < ?p" "unat r < 256" using unat_u8_less [of r] by (simp_all del: unat_u8_less)
  have top: "c = 0xFF \<longleftrightarrow> k mod ?p = ?p - 1"
  proof -
    have "c = 0xFF \<longleftrightarrow> unat c = 255" by (simp add: word_unat_eq_iff)
    then show ?thesis using assms(1) p by linarith
  qed
  have step: "Suc k mod ?p = (if k mod ?p = ?p - 1 then 0 else Suc (k mod ?p))"
  proof -
    have "Suc (k mod ?p) = ?p \<longleftrightarrow> k mod ?p = ?p - 1" using p(1) by linarith
    then show ?thesis by (simp only: mod_Suc)
  qed
  show "unat (if c = 0xFF then r else c + 1) = unat r + Suc k mod ?p"
  proof (cases "c = 0xFF")
    case False
    then have "unat c + 1 < 256" using unat_u8_less [of c] by (auto simp: word_unat_eq_iff simp del: unat_u8_less)
    then show ?thesis using False top step assms(1) by (simp add: unat_plus_if')
  next
    case True
    then have "k mod ?p = ?p - 1" using top by blast
    with step have "Suc k mod ?p = 0" by presburger
    then show ?thesis by (simp only: True if_True add_0_right simp_thms)
  qed
  have "k mod ?p = ?p - 1 \<Longrightarrow> ?p \<le> Suc k" using p(1) mod_less_eq_dividend [of k ?p] by linarith
  moreover have "k mod ?p = ?p - 1" if "Suc k = ?p" using that p(1) by (metis diff_Suc_1 lessI mod_less)
  ultimately show "(c = 0xFF \<or> pend) \<longleftrightarrow> ?p \<le> Suc k"
    using assms(2) top by (auto simp: le_Suc_eq)
qed

lemma irq_at_clock: "irq_at reload cycle_mode t q \<Longrightarrow> irq_at reload cycle_mode (Suc t) (vrc_irq_clock q)"
proof -
  assume q: "irq_at reload cycle_mode t q"
  let ?k = "irq_steps cycle_mode t"
  have cnt: "unat (if vq_counter q = 0xFF then reload else vq_counter q + 1) = unat reload + Suc ?k mod (256 - unat reload)"
    "(vq_counter q = 0xFF \<or> vq_pending q) \<longleftrightarrow> 256 - unat reload \<le> Suc ?k"
    using irq_count [of "vq_counter q" reload ?k "vq_pending q"] q by (simp_all add: irq_at_def)
  show ?thesis
  proof (cases cycle_mode)
    case True
    then have "irq_steps cycle_mode (Suc t) = Suc ?k" by (simp add: irq_steps_def)
    then show ?thesis
      using q cnt True by (auto simp: irq_at_def vrc_irq_clock_def Let_def split: if_splits)
  next
    case False
    have b: "0 < 341 * (int ?k + 1) - 3 * int t" "341 * (int ?k + 1) - 3 * int t \<le> 341"
      using False by (simp_all add: irq_steps_def)
    have s: "sint (vq_prescalar_counter q) = 341 * (int ?k + 1) - 3 * int t"
      using q False by (simp add: irq_at_def)
    have s3: "sint (vq_prescalar_counter q - 3) = sint (vq_prescalar_counter q) - 3"
      using sint_add_small [of "vq_prescalar_counter q" "- 3"] s b by simp
    have s4: "sint (vq_prescalar_counter q - 3 + 341) = sint (vq_prescalar_counter q) + 338"
      using sint_add_small [of "vq_prescalar_counter q" 338] s b by (simp add: algebra_simps)
    show ?thesis
    proof (cases "sint (vq_prescalar_counter q) \<le> 3")
      case True
      have "irq_steps cycle_mode (Suc t) = Suc ?k"
        using True s b False by (simp add: irq_steps_def)
      then show ?thesis
        using q cnt True False s s3 s4 by (auto simp: irq_at_def vrc_irq_clock_def Let_def split: if_splits)
    next
      case lt: False
      have "irq_steps cycle_mode (Suc t) = ?k"
        using lt s b False by (simp add: irq_steps_def)
      then show ?thesis
        using q lt False s s3 by (simp add: irq_at_def vrc_irq_clock_def Let_def)
    qed
  qed
qed

lemma and_mask_bits:
  "val AND 2 = 2 \<longleftrightarrow> bit (val :: u8) 1" "val AND 4 = 4 \<longleftrightarrow> bit val 2"
proof -
  show "val AND 2 = 2 \<longleftrightarrow> bit val 1"
    by (auto simp: bit_and_iff bit_u8_masks intro!: u8_eqI dest: arg_cong [of _ _ "\<lambda>x. bit x 1"])
  show "val AND 4 = 4 \<longleftrightarrow> bit val 2"
    by (auto simp: bit_and_iff bit_u8_masks intro!: u8_eqI dest: arg_cong [of _ _ "\<lambda>x. bit x 2"])
qed

text \<open>The Konami counter, enabled with a reload value \<open>r\<close>, counts up from it and starts again at it
  after 255: it makes one step at every clock in cycle mode and exactly three in 341 clocks in
  scanline mode, and raises its interrupt with the step number \<open>256 - r\<close>.\<close>

theorem vrc_irq_period:
  assumes "bit val 1"
  shows "let q = (vrc_irq_clock ^^ t) (vrc_irq_write_control q0 val); k = irq_steps (bit val 2) t;
      period = 256 - unat (vq_reload q0)
    in unat (vq_counter q) = unat (vq_reload q0) + k mod period \<and> (vq_pending q \<longleftrightarrow> period \<le> k)"
proof -
  note v = and_mask_bits [of val]
  have "irq_at (vq_reload q0) (bit val 2) 0 (vrc_irq_write_control q0 val)"
    using assms v unat_u8_less [of "vq_reload q0"]
    by (auto simp: irq_at_def vrc_irq_write_control_def Let_def irq_steps_def simp del: unat_u8_less)
  then have "irq_at (vq_reload q0) (bit val 2) t ((vrc_irq_clock ^^ t) (vrc_irq_write_control q0 val))"
    by (induction t) (simp_all add: irq_at_clock)
  then show ?thesis by (simp add: irq_at_def Let_def)
qed

theorem vrc_irq_period_witness:
  "vq_pending ((vrc_irq_clock ^^ 29100) (vrc_irq_write_control (vrc_irq_default\<lparr>vq_reload := 0\<rparr>) 2))"
proof -
  have "bit (2 :: u8) 1" "\<not> bit (2 :: u8) 2" by (simp_all add: bit_u8_masks)
  then show ?thesis
    using vrc_irq_period [of 2 29100 "vrc_irq_default\<lparr>vq_reload := 0\<rparr>"] by (simp add: Let_def irq_steps_def)
qed

section \<open>The nametables of the VRC6\<close>

text \<open>The register decoder sees nothing below $8000.\<close>

lemma no_high_bits: "in_nametables a \<Longrightarrow> \<not> bit a 14 \<and> \<not> bit a 15"
proof -
  assume "in_nametables a"
  then have "unat a < 2 ^ 14" by (simp add: in_nametables_def word_le_nat_alt)
  then show ?thesis using word_high_bits [of a 14 14] word_high_bits [of a 14 15] by simp
qed

lemma vrc6_nametable_write:
  assumes "in_nametables a"
  shows "vrc6_map_write m a v = Some (NoWrite, m)"
proof -
  let ?r = "vrc6_swap (v6_revision m) a AND 0xF003"
  have "\<not> bit ?r k" if "14 \<le> k" "k < 16" for k
  proof -
    have "k = 14 \<or> k = 15" using that by auto
    then show ?thesis using no_high_bits [OF assms] by (auto simp: vrc6_swap_def bit_simps)
  qed
  then have lt: "unat ?r < 2 ^ 14" by (intro word_less_by_bits) auto
  then have "\<not> window_in lo hi ?r" if "0x8000 \<le> lo" for lo hi using that by (simp add: window_in_def)
  moreover have "?r \<noteq> 0xB003" "?r \<noteq> 0xF000" "?r \<noteq> 0xF001" "?r \<noteq> 0xF002" using lt by auto
  ultimately have "vrc6_write_register m (vrc6_swap (v6_revision m) a) v = Some m"
    by (simp add: vrc6_write_register_def Let_def)
  then show ?thesis using nametable_windows(2) [OF assms] by (simp add: vrc6_map_write_def)
qed

text \<open>The cell that a nametable read reaches: the page can set bit 10 and cannot clear it.\<close>

definition vrc6_page :: "vrc6 \<Rightarrow> u16 \<Rightarrow> nat" where
  "vrc6_page m a = v6_nt_banks m ! unat (drop_bit 10 (a - 0x2000) AND 0x03)"

definition vrc6_cell :: "vrc6 \<Rightarrow> u16 \<Rightarrow> u16" where
  "vrc6_cell m a = (a AND 0x03FF) OR (if odd (vrc6_page m a) \<or> bit a 10 then 0x0400 else 0)"

lemma nametable_offset: "in_nametables a \<Longrightarrow> a - 0x2000 = a AND 0x1FFF"
proof -
  assume "in_nametables a"
  then have a: "0x2000 \<le> unat a" "unat a < 0x4000" by (simp_all add: in_nametables_def word_le_nat_alt)
  have "unat (a AND 0x1FFF) = unat a mod 0x2000"
    using nat_and_mask [of "unat a" 13] by (simp add: unsigned_and_eq)
  also have "\<dots> = unat a - 0x2000" using a by (simp add: le_mod_geq)
  also have "\<dots> = unat (a - 0x2000)" using a by (simp add: unat_sub_if')
  finally show ?thesis by (simp add: word_unat_eq_iff)
qed

lemma vrc6_addr_cell: "in_nametables a \<Longrightarrow> vrc6_nametable_addr m a AND 0x07FF = vrc6_cell m a"
  unfolding vrc6_nametable_addr_def vrc6_cell_def vrc6_page_def Let_def
  by (rule u16_eqI; simp add: nametable_offset bit_simps; simp add: bit_0)

lemma vrc6_nametable_peek:
  assumes "in_nametables a" and "vr_banking_mode (v6_regs m) AND 0x10 = 0" and "pb_mapper b = MVrc6 m"
  shows "pb_peek b a = vec_get (pb_ciram b) (unat (vrc6_cell m a))"
proof -
  have "unat (vrc6_nametable_addr m a) AND 0x07FF = unat (vrc6_cell m a)"
    using vrc6_addr_cell [OF assms(1), of m] unsigned_and_eq [of "vrc6_nametable_addr m a" "0x07FF", where 'a = nat]
    by simp
  then show ?thesis
    using assms nametable_windows [OF assms(1)]
    by (simp add: pb_peek_def vrc6_map_peek_def Let_def in_nametables_def window_in_def word_le_nat_alt
        pb_nametable_read_def)
qed

text \<open>With nametables in the console's memory the page register of a VRC6 can set the bit that
  selects the second page but not clear the one of the address: the two nametables on the right
  always read the second page. Under single-screen mirroring of the first page, where a write to
  one of them goes to the first page, the byte written is therefore not read back.\<close>

theorem vrc6_nametable_page:
  assumes "in_nametables a" and "vr_banking_mode (v6_regs m) AND 0x10 = 0" and "pb_mapper b = MVrc6 m"
    and "length (pb_ciram b) = 0x800"
  shows "pb_peek b a = Some (pb_ciram b ! unat (vrc6_cell m a))
    \<and> (bit a 10 \<longrightarrow> vrc6_cell m a = (a AND 0x03FF) OR 0x0400)
    \<and> (bit a 10 \<and> a < 0x3000 \<and> v6_mirroring m = SingleScreenA \<and> pb_mirror_shift b = mirroring_index SingleScreenA \<longrightarrow>
        returns (pb_write b a v) (\<lambda>b'. pb_ciram b' ! unat (a AND 0x03FF) = v \<and> pb_peek b' a = pb_peek b a))"
proof -
  have cell: "unat (vrc6_cell m a) < 0x800"
    unfolding vrc6_addr_cell [OF assms(1), symmetric] by (rule unat_and_less) simp
  have low: "unat (a AND 0x03FF) < 0x400" by (rule unat_and_less) simp
  have w: "returns (pb_write b a v) (\<lambda>b'. pb_ciram b' ! unat (a AND 0x03FF) = v \<and> pb_peek b' a = pb_peek b a)"
    if b: "bit a 10" "a < 0x3000" "v6_mirroring m = SingleScreenA" "pb_mirror_shift b = mirroring_index SingleScreenA"
  proof -
    have "\<not> bit a 12"
      using nametable_addr_bits [of a] b(2) assms(1) by (simp add: in_nametables_def)
    then have m: "ciram_mirror (pb_mirror_shift b) a = a AND 0x03FF"
      unfolding b(4) ciram_mirror_def NT_SIZE_def Let_def by (intro u16_eqI) (simp_all add: bit_simps)
    have c: "vrc6_cell m a \<noteq> a AND 0x03FF"
    proof
      assume "vrc6_cell m a = a AND 0x03FF"
      then have "bit (vrc6_cell m a) 10 = bit (a AND 0x03FF) 10" by simp
      then show False using b(1) by (simp add: vrc6_cell_def bit_simps)
    qed
    let ?b = "b\<lparr>pb_ciram := (pb_ciram b)[unat (a AND 0x03FF) := v], pb_open_bus := v\<rparr>"
    have "pb_write b a v = Some ?b"
      using assms(1,3,4) nametable_windows [OF assms(1)] low b(3)
      by (simp add: pb_write_def in_nametables_def vrc6_nametable_write [OF assms(1)] lift_map_def
          pb_nametable_write_def pb_mirroring_def m)
    moreover have "pb_peek ?b a = pb_peek b a"
      using vrc6_nametable_peek [OF assms(1,2), of b] vrc6_nametable_peek [OF assms(1,2), of ?b] assms(3,4) cell c
      by (simp add: word_unat_eq_iff)
    ultimately show ?thesis using low assms(4) by simp
  qed
  have "pb_peek b a = Some (pb_ciram b ! unat (vrc6_cell m a))"
    using vrc6_nametable_peek [OF assms(1-3)] assms(4) cell by simp
  moreover have "bit a 10 \<longrightarrow> vrc6_cell m a = (a AND 0x03FF) OR 0x0400" by (simp add: vrc6_cell_def)
  ultimately show ?thesis using w by blast
qed

definition sample_vrc6 :: vrc6 where
  "sample_vrc6 = \<lparr>v6_regs = vrc6_regs_default\<lparr>vr_banking_mode := 0x28\<rparr>, v6_revision = Vrc6A,
     v6_mirroring = SingleScreenA, v6_irq = vrc_irq_default, v6_audio = vrc6_audio_new,
     v6_nt_banks = replicate 4 0, v6_chr_banks = mb_new 0 0x1FFF 0x2000 1024,
     v6_prg_ram_banks = mb_new 0x6000 0x7FFF 0x2000 0x2000, v6_prg_rom_banks = mb_new 0x8000 0xFFFF 0x8000 0x2000\<rparr>"

theorem vrc6_nametable_page_witness:
  "returns (pb_write (ppu_bus_new\<lparr>pb_mapper := MVrc6 sample_vrc6, pb_mirror_shift := 2\<rparr>) 0x2400 7)
     (\<lambda>b'. pb_ciram b' ! 0 = 7 \<and> pb_peek b' 0x2400 = Some 0)"
proof -
  let ?b = "ppu_bus_new\<lparr>pb_mapper := MVrc6 sample_vrc6, pb_mirror_shift := 2\<rparr>"
  have h: "in_nametables 0x2400" "vr_banking_mode (v6_regs sample_vrc6) AND 0x10 = 0"
    "length (pb_ciram ?b) = 0x800" "bit (0x2400 :: u16) 10"
    by (simp_all add: in_nametables_def sample_vrc6_def vrc6_regs_default_def ppu_bus_new_def VRAM_SIZE_def bit_simps)
  have m: "pb_mapper ?b = MVrc6 sample_vrc6" "v6_mirroring sample_vrc6 = SingleScreenA"
    "pb_mirror_shift ?b = mirroring_index SingleScreenA" "unat (0x2400 AND 0x03FF :: u16) = 0" "(0x2400 :: u16) < 0x3000"
    by (simp_all add: sample_vrc6_def)
  have "unat (vrc6_cell sample_vrc6 0x2400) = 0x400" by (simp add: vrc6_cell_def h(4))
  then have z: "pb_ciram ?b ! unat (vrc6_cell sample_vrc6 0x2400) = 0"
    by (simp add: ppu_bus_new_def VRAM_SIZE_def)
  note p = vrc6_nametable_page [OF h(1,2) m(1) h(3), of 7]
  have "pb_peek ?b 0x2400 = Some 0" using p z by simp
  moreover have "returns (pb_write ?b 0x2400 7) (\<lambda>b'. pb_ciram b' ! 0 = 7 \<and> pb_peek b' 0x2400 = pb_peek ?b 0x2400)"
    using p h(4) m(2,3,5) unfolding m(4) by blast
  ultimately show ?thesis by simp
qed

section \<open>The scanline counter of the MMC5\<close>

definition ex_ok :: "exrom \<Rightarrow> bool" where
  "ex_ok m \<longleftrightarrow> length (ex_exram m) = 0x400 \<and> ex_tile_cache m < 0x400 \<and> \<not> sp_in_region (er_vsplit (ex_regs m))
     \<and> fl_attr (er_fill (ex_regs m)) < 4"

lemma ex_detect_fields [simp]:
  "ex_exram (ex_detect_scanline m a f) = ex_exram m" "ex_tile_cache (ex_detect_scanline m a f) = ex_tile_cache m"
  "ex_regs (ex_detect_scanline m a f) = ex_regs m"
  by (simp_all add: ex_detect_scanline_def Let_def)

lemma ex_detect_tile [simp]:
  "ex_ppu_status (ex_detect_scanline (m\<lparr>ex_tile_cache := x\<rparr>) a f) = ex_ppu_status (ex_detect_scanline m a f)"
  "ex_irq_pending (ex_detect_scanline (m\<lparr>ex_tile_cache := x\<rparr>) a f) = ex_irq_pending (ex_detect_scanline m a f)"
  by (simp_all add: ex_detect_scanline_def Let_def)

lemma ex_peek_nametable_ok:
  assumes "ex_ok m"
  shows "\<exists>r. ex_peek_nametable m a = Some r"
proof -
  have "unat (x AND 3 :: u8) < 4" for x by (rule unat_and_less) simp
  moreover have "unat (a AND 0x3FF) < 0x400" by (rule unat_and_less) simp
  moreover have "length ATTR_MIRROR = 4" by (simp add: ATTR_MIRROR_def)
  ultimately show ?thesis
    using assms unfolding ex_peek_nametable_def ex_ok_def Let_def
    by (auto simp: ex_read_exram_def split: nametable.split)
qed

text \<open>What a fetch of a nametable byte does to the detector.\<close>

definition fetched :: "exrom \<Rightarrow> u16 \<Rightarrow> exrom \<Rightarrow> bool" where
  "fetched m a m' \<longleftrightarrow> ex_ok m' \<and> ex_regs m' = ex_regs m
     \<and> (ex_ppu_status m', ex_irq_pending m') = (let d = ex_detect_scanline m a (addr_is_attr a) in (ex_ppu_status d, ex_irq_pending d))"

lemma exrom_nametable_read:
  assumes "in_nametables a" and "ex_ok m"
  shows "returns (exrom_map_read m a) (\<lambda>(_, m'). fetched m a m')"
proof -
  have w: "\<not> window_in 0 0x1FFF a" "window_in 0x2000 0x3EFF a" "a \<noteq> 0x5204" "a \<noteq> 0x5010"
    using assms(1) by (auto simp: in_nametables_def window_in_def word_le_nat_alt)
  obtain m1 where m1: "ex_before_read m a = Some m1" "ex_ok m1" "fetched m a m1"
  proof
    let ?t = "if em_attr (er_exram_mode (ex_regs m)) \<and> \<not> addr_is_attr a \<and> \<not> ex_spr_fetch m
      then m\<lparr>ex_tile_cache := unat (a AND 0x03FF)\<rparr> else m"
    let ?m = "ex_detect_scanline ?t a (addr_is_attr a)"
    show "ex_before_read m a = Some ?m" using w by (simp add: ex_before_read_def Let_def)
    have "unat (a AND 0x3FF) < 0x400" by (rule unat_and_less) simp
    then show ok: "ex_ok ?m" using assms(2) by (simp add: ex_ok_def)
    show "fetched m a ?m" using ok by (simp add: fetched_def Let_def split: if_split_asm)
  qed
  obtain r where "ex_peek_nametable m1 a = Some r" using ex_peek_nametable_ok [OF m1(2)] by blast
  then show ?thesis using m1 w by (simp add: exrom_map_read_def exrom_map_peek_def)
qed

lemma fetchedD:
  assumes "fetched m a m'"
  shows "ex_ok m'" "ex_regs m' = ex_regs m"
    "ex_ppu_status m' = ex_ppu_status (ex_detect_scanline m a (addr_is_attr a))"
    "ex_irq_pending m' = ex_irq_pending (ex_detect_scanline m a (addr_is_attr a))"
  using assms by (simp_all add: fetched_def Let_def)

lemma ex_detect_miss:
  assumes "a \<noteq> es_prev_addr (ex_ppu_status m)"
  shows "ex_ppu_status (ex_detect_scanline m a f)
      = (ex_ppu_status m)\<lparr>es_prev_match := 0, es_prev_addr := a, es_reading := True\<rparr>"
    "ex_irq_pending (ex_detect_scanline m a f) = ex_irq_pending m"
  using assms by (simp_all add: ex_detect_scanline_def Let_def)

lemma ex_detect_second:
  assumes "a = es_prev_addr (ex_ppu_status m)" and "es_prev_match (ex_ppu_status m) = 0"
  shows "ex_ppu_status (ex_detect_scanline m a False)
      = (ex_ppu_status m)\<lparr>es_prev_match := 1, es_prev_addr := a, es_reading := True\<rparr>"
    "ex_irq_pending (ex_detect_scanline m a False) = ex_irq_pending m"
  using assms by (simp_all add: ex_detect_scanline_def Let_def)

lemma ex_detect_third:
  assumes "a = es_prev_addr (ex_ppu_status m)" and "es_prev_match (ex_ppu_status m) = 1"
  shows "es_in_frame (ex_ppu_status (ex_detect_scanline m a False))"
    "es_prev_addr (ex_ppu_status (ex_detect_scanline m a False)) = a"
    "es_scanline (ex_ppu_status (ex_detect_scanline m a False))
      = (if es_in_frame (ex_ppu_status m) then es_scanline (ex_ppu_status m) + 1 else 0)"
    "ex_irq_pending (ex_detect_scanline m a False) = (ex_irq_pending m \<or> es_in_frame (ex_ppu_status m)
       \<and> es_scanline (ex_ppu_status m) + 1 = er_irq_scanline (ex_regs m))"
  using assms by (simp_all add: ex_detect_scanline_def Let_def)

text \<open>The state of the detector after \<open>n\<close> lines.\<close>

definition line_state :: "exrom \<Rightarrow> u16 \<Rightarrow> nat \<Rightarrow> exrom \<Rightarrow> bool" where
  "line_state m0 a n m \<longleftrightarrow> ex_ok m \<and> ex_regs m = ex_regs m0
     \<and> es_in_frame (ex_ppu_status m) = (0 < n) \<and> (0 < n \<longrightarrow> es_prev_addr (ex_ppu_status m) = a)
     \<and> (0 < n \<longrightarrow> es_scanline (ex_ppu_status m) = of_nat (n - 1))
     \<and> (ex_irq_pending m \<longleftrightarrow> ex_irq_pending m0 \<or> (\<exists>k. 0 < k \<and> k < n \<and> of_nat k = er_irq_scanline (ex_regs m0)))"

lemma concat_replicate_snoc: "xs @ concat (replicate n xs) = concat (replicate n xs) @ xs"
  by (induction n) simp_all

definition ex_fetches :: "exrom \<Rightarrow> u16 list \<Rightarrow> exrom option" where
  "ex_fetches m as = foldl (\<lambda>r a. do { m \<leftarrow> r; (_, m) \<leftarrow> exrom_map_read m a; Some m }) (Some m) as"

lemma ex_line:
  assumes st: "line_state m0 a n m" and "in_nametables a" "in_nametables b" "\<not> addr_is_attr a" "a \<noteq> b"
    and "n = 0 \<longrightarrow> es_prev_addr (ex_ppu_status m) \<noteq> b"
  shows "returns (ex_fetches m [b, a, a, a]) (line_state m0 a (Suc n))"
proof -
  have ok: "ex_ok m" using st by (simp add: line_state_def)
  obtain r1 m1 where m1: "exrom_map_read m b = Some (r1, m1)" "fetched m b m1"
    using returnsD [OF exrom_nametable_read [OF assms(3) ok]] by auto
  have nx: "ex_ok m'" if "fetched m a m'" for m a m' using that by (simp add: fetched_def)
  obtain r2 m2 where m2: "exrom_map_read m1 a = Some (r2, m2)" "fetched m1 a m2"
    using returnsD [OF exrom_nametable_read [OF assms(2) nx [OF m1(2)]]] by auto
  obtain r3 m3 where m3: "exrom_map_read m2 a = Some (r3, m3)" "fetched m2 a m3"
    using returnsD [OF exrom_nametable_read [OF assms(2) nx [OF m2(2)]]] by auto
  obtain r4 m4 where m4: "exrom_map_read m3 a = Some (r4, m4)" "fetched m3 a m4"
    using returnsD [OF exrom_nametable_read [OF assms(2) nx [OF m3(2)]]] by auto
  have pb: "es_prev_addr (ex_ppu_status m) \<noteq> b" using st assms(5,6) by (cases n) (auto simp: line_state_def)
  note f1 = fetchedD [OF m1(2)] and f2 = fetchedD [OF m2(2)] and f3 = fetchedD [OF m3(2)]
    and f4 = fetchedD [OF m4(2)]
  have at: "addr_is_attr a = False" using assms(4) by simp
  have s1: "ex_ppu_status m1 = (ex_ppu_status m)\<lparr>es_prev_match := 0, es_prev_addr := b, es_reading := True\<rparr>"
    "ex_irq_pending m1 = ex_irq_pending m"
    using f1 ex_detect_miss [of b m] pb by simp_all
  have s2: "ex_ppu_status m2 = (ex_ppu_status m)\<lparr>es_prev_match := 0, es_prev_addr := a, es_reading := True\<rparr>"
    "ex_irq_pending m2 = ex_irq_pending m"
    using f2 ex_detect_miss [of a m1] s1 assms(5) by simp_all
  have s3: "ex_ppu_status m3 = (ex_ppu_status m)\<lparr>es_prev_match := 1, es_prev_addr := a, es_reading := True\<rparr>"
    "ex_irq_pending m3 = ex_irq_pending m"
    using f3 ex_detect_second [of a m2] s2 at by simp_all
  have rg: "ex_regs m3 = ex_regs m" "ex_regs m4 = ex_regs m" using f1(2) f2(2) f3(2) f4(2) by simp_all
  have s4: "ex_regs m4 = ex_regs m" "ex_ok m4" "es_in_frame (ex_ppu_status m4)" "es_prev_addr (ex_ppu_status m4) = a"
    "es_scanline (ex_ppu_status m4) = (if es_in_frame (ex_ppu_status m) then es_scanline (ex_ppu_status m) + 1 else 0)"
    "ex_irq_pending m4 = (ex_irq_pending m \<or> es_in_frame (ex_ppu_status m)
       \<and> es_scanline (ex_ppu_status m) + 1 = er_irq_scanline (ex_regs m))"
    using f4(1,3,4) ex_detect_third [of a m3] s3 at rg by simp_all
  have "line_state m0 a (Suc n) m4"
  proof (cases "n = 0")
    case True
    then show ?thesis using s4 st by (simp add: line_state_def)
  next
    case False
    let ?x = "er_irq_scanline (ex_regs m0)"
    have m: "ex_regs m = ex_regs m0" "es_in_frame (ex_ppu_status m)" "es_scanline (ex_ppu_status m) = of_nat (n - 1)"
      "ex_irq_pending m \<longleftrightarrow> ex_irq_pending m0 \<or> (\<exists>k. 0 < k \<and> k < n \<and> of_nat k = ?x)"
      using st False unfolding line_state_def by simp_all
    have n: "of_nat (n - 1) + 1 = (of_nat n :: u16)" using False by (cases n) simp_all
    have "(\<exists>k. 0 < k \<and> k < Suc n \<and> of_nat k = ?x) \<longleftrightarrow> (\<exists>k. 0 < k \<and> k < n \<and> of_nat k = ?x) \<or> of_nat n = ?x"
      using False less_Suc_eq by blast
    then have "ex_irq_pending m4 \<longleftrightarrow> ex_irq_pending m0 \<or> (\<exists>k. 0 < k \<and> k < Suc n \<and> of_nat k = ?x)"
      using s4(6) m n by metis
    then show ?thesis using s4(1-5) m n unfolding line_state_def by simp
  qed
  then show ?thesis using m1(1) m2(1) m3(1) m4(1) by (simp add: ex_fetches_def)
qed


text \<open>A board with line 2 chosen, after four lines.\<close>

definition sample_exrom :: exrom where
  "sample_exrom = \<lparr>ex_regs = ex_regs_new\<lparr>er_irq_scanline := 2\<rparr>, ex_mirroring = Vertical, ex_irq_pending = False,
     ex_ppu_status = \<lparr>es_fetch_count = 0, es_prev_addr = 0xFFFF, es_prev_match = 0, es_reading = False,
       es_idle = 0, es_sprite8x16 = False, es_rendering = False, es_scanline = 0, es_in_frame = False\<rparr>,
     ex_exram = replicate 0x400 0, ex_prg_ram_banks = mb_new 0x6000 0xFFFF 0x10000 0x2000,
     ex_prg_rom_banks = mb_new 0x8000 0xFFFF 0x8000 0x2000, ex_chr_banks = mb_new 0 0x1FFF 0x2000 0x400,
     ex_tile_cache = 0, ex_last_chr_write = SprBank, ex_region = Ntsc, ex_pulse1 = pl_new PulseOne Ultrasonic,
     ex_pulse2 = pl_new PulseTwo Ultrasonic, ex_dmc = dmc_new, ex_dmc_mode = 1, ex_cpu_cycle = 0, ex_pulse_timer = 0\<rparr>"


end
