(* ===== verification/ExromProps.thy ===== *)
theory ExromProps
  imports MapperProps CpuBus
begin

text \<open>
  The MMC5 as a whole: a load, and then any sequence of bus accesses, clocks and resets, never
  panics (the \<open>todo!()\<close> of the split screen is not reached); and what its bank registers cannot do.
\<close>

section \<open>Well-formed boards\<close>

text \<open>The five slots of the RAM window; the last one is never switched.\<close>

definition ex_ram_window :: "mem_banks \<Rightarrow> bool" where
  "ex_ram_window b \<longleftrightarrow> mb_wf b \<and> mb_window b = 0x2000 \<and> mb_shift b = 13 \<and> mb_size b = 0x9FFF
     \<and> length (mb_banks b) = 5 \<and> mb_banks b ! 4 = 0x8000"

definition ex_window :: "nat \<Rightarrow> mem_banks \<Rightarrow> bool" where
  "ex_window n b \<longleftrightarrow> mb_wf b \<and> length (mb_banks b) = n"

definition ex_wf :: "exrom \<Rightarrow> bool" where
  "ex_wf m \<longleftrightarrow> ex_ok m \<and> length (er_prg_ram_protect (ex_regs m)) = 2 \<and> length (er_prg_banks (ex_regs m)) = 5
     \<and> length (er_chr_banks (ex_regs m)) = 16 \<and> ex_window 4 (ex_prg_rom_banks m) \<and> ex_window 8 (ex_chr_banks m)
     \<and> ex_ram_window (ex_prg_ram_banks m)"

lemma mb_fill_nth: "i \<notin> set ss \<Longrightarrow> mb_fill ss a w xs ! i = xs ! i"
  by (induction ss a w xs rule: mb_fill.induct) auto

lemma ex_window_set [simp]:
  "ex_window n b \<Longrightarrow> s < n \<Longrightarrow> returns (mb_set b s x) (ex_window n)"
  "ex_window n b \<Longrightarrow> en < n \<Longrightarrow> returns (mb_set_range b s en x) (ex_window n)"
  by (simp_all add: ex_window_def mb_set_put mb_set_range_put)

lemma ex_window_translate [simp]: "ex_window n b \<Longrightarrow> mb_translate b a \<noteq> None"
  by (simp add: ex_window_def mb_translate_eq)

lemma ex_ram_window_set [simp]:
  "ex_ram_window b \<Longrightarrow> s < 4 \<Longrightarrow> returns (mb_set b s x) ex_ram_window"
  "ex_ram_window b \<Longrightarrow> en < 4 \<Longrightarrow> returns (mb_set_range b s en x) ex_ram_window"
  by (simp_all add: ex_ram_window_def mb_set_put mb_set_range_put)
    (simp_all add: mb_put_def mb_put_range_def mb_fill_nth del: upt_Suc)

lemma ex_ram_window_translate [simp]: "ex_ram_window b \<Longrightarrow> mb_translate b a \<noteq> None"
  by (simp add: ex_ram_window_def mb_translate_eq)

lemma ex_wf_update [simp]:
  "ex_wf m \<Longrightarrow> ex_window 4 b \<Longrightarrow> ex_wf (m\<lparr>ex_prg_rom_banks := b\<rparr>)"
  "ex_wf m \<Longrightarrow> ex_window 8 b \<Longrightarrow> ex_wf (m\<lparr>ex_chr_banks := b\<rparr>)"
  "ex_wf m \<Longrightarrow> ex_ram_window b \<Longrightarrow> ex_wf (m\<lparr>ex_prg_ram_banks := b\<rparr>)"
  by (simp_all add: ex_wf_def ex_ok_def)

lemma ex_wfD:
  "ex_wf m \<Longrightarrow> ex_ok m" "ex_wf m \<Longrightarrow> ex_window 4 (ex_prg_rom_banks m)" "ex_wf m \<Longrightarrow> ex_window 8 (ex_chr_banks m)"
  "ex_wf m \<Longrightarrow> ex_ram_window (ex_prg_ram_banks m)"
  by (simp_all add: ex_wf_def)

text \<open>Setting banks of a well-formed board.\<close>

lemma ex_set_rom:
  "ex_wf m \<Longrightarrow> ex_prg_rom_banks m = b \<Longrightarrow> s < 4 \<Longrightarrow> returns (mb_set b s n) (\<lambda>b. ex_wf (m\<lparr>ex_prg_rom_banks := b\<rparr>))"
  "ex_wf m \<Longrightarrow> ex_prg_rom_banks m = b \<Longrightarrow> en < 4
     \<Longrightarrow> returns (mb_set_range b s en n) (\<lambda>b. ex_wf (m\<lparr>ex_prg_rom_banks := b\<rparr>))"
  by (auto dest: ex_wfD(2) intro!: returns_mono [OF ex_window_set(1)] returns_mono [OF ex_window_set(2)])

lemma ex_set_ram:
  "ex_wf m \<Longrightarrow> ex_prg_ram_banks m = b \<Longrightarrow> s < 4 \<Longrightarrow> returns (mb_set b s n) (\<lambda>b. ex_wf (m\<lparr>ex_prg_ram_banks := b\<rparr>))"
  "ex_wf m \<Longrightarrow> ex_prg_ram_banks m = b \<Longrightarrow> en < 4
     \<Longrightarrow> returns (mb_set_range b s en n) (\<lambda>b. ex_wf (m\<lparr>ex_prg_ram_banks := b\<rparr>))"
  by (auto dest: ex_wfD(4) intro!: returns_mono [OF ex_ram_window_set(1)] returns_mono [OF ex_ram_window_set(2)])

lemma returns_trans: "returns r P \<Longrightarrow> (\<And>x. P x \<Longrightarrow> returns (f x) Q) \<Longrightarrow> returns (Option.bind r f) Q"
  by (auto simp: returns_def)

lemma ex_set_prg_bank_range_wf:
  "ex_wf m \<Longrightarrow> en < 3 \<Longrightarrow> returns (ex_set_prg_bank_range m s en n) ex_wf"
  by (auto simp: ex_set_prg_bank_range_def Let_def intro!: ex_set_rom(2) ex_set_ram(2))

lemmas ex_bank_rules = ex_set_rom ex_set_ram ex_set_prg_bank_range_wf

lemma ex_update_prg_banks_wf: "ex_wf m \<Longrightarrow> returns (ex_update_prg_banks m) ex_wf"
  unfolding ex_update_prg_banks_def Let_def
  by (rule returns_trans [OF ex_set_ram(1)])
    (auto split: prg_mode.split intro!: returns_trans [OF ex_set_prg_bank_range_wf] ex_bank_rules
      simp del: returns_bind simp: returns_bind [of "mb_set_range _ _ _ _"] returns_bind [of "mb_set _ _ _"])

lemma ex_chr_chain:
  assumes "ex_window 8 b"
  shows "s < 8 \<Longrightarrow> (\<And>b'. ex_window 8 b' \<Longrightarrow> returns (f b') Q) \<Longrightarrow> returns (Option.bind (mb_set b s n) f) Q"
    "en < 8 \<Longrightarrow> (\<And>b'. ex_window 8 b' \<Longrightarrow> returns (f b') Q) \<Longrightarrow> returns (Option.bind (mb_set_range b s en n) f) Q"
  by (rule returns_trans [OF ex_window_set(1) [OF assms]]; simp)
    (rule returns_trans [OF ex_window_set(2) [OF assms]]; simp)

lemma ex_update_chr_banks_wf: "ex_wf m \<Longrightarrow> returns (ex_update_chr_banks m which) ex_wf"
  unfolding ex_update_chr_banks_def Let_def
  by (rule returns_trans [where P = "ex_window 8"])
    (auto dest: ex_wfD(3) split: chr_mode.split simp del: returns_bind intro!: ex_chr_chain)

section \<open>Operations keep the board well-formed\<close>

lemma ex_ram_window_new: "ex_ram_window (mb_new 0x6000 0xFFFF cap 0x2000)"
proof -
  have "trailing_zeros (0x2000 :: nat) = 13" using trailing_zeros_power [of 13] by simp
  then show ?thesis using mb_new_wf [of "0x2000" 13 "0xFFFF" "0x6000" cap] by (simp add: ex_ram_window_def)
qed

text \<open>The board before the banks are set.\<close>

definition exrom_fresh :: "cart \<Rightarrow> nat \<Rightarrow> exrom" where
  "exrom_fresh c ram =
     \<lparr>ex_regs = ex_regs_new\<lparr>er_prg_banks :=
        [0, 0, 0, 0, mb_last (mb_new 0x8000 0xFFFF (length (cart_prg_rom c)) 0x2000) OR ROM_SELECT_MASK]\<rparr>,
      ex_mirroring = cart_mirroring c, ex_irq_pending = False,
      ex_ppu_status = \<lparr>es_fetch_count = 0x00, es_prev_addr = 0xFFFF, es_prev_match = 0, es_reading = False,
        es_idle = 0x00, es_sprite8x16 = False, es_rendering = False, es_scanline = 0x0000, es_in_frame = False\<rparr>,
      ex_exram = replicate EXRAM_SIZE 0x00, ex_prg_ram_banks = mb_new 0x6000 0xFFFF ram 0x2000,
      ex_prg_rom_banks = mb_new 0x8000 0xFFFF (length (cart_prg_rom c)) 0x2000,
      ex_chr_banks = mb_new 0x0000 0x1FFF (length (cart_chr_rom c)) 0x0400, ex_tile_cache = 0,
      ex_last_chr_write = SprBank, ex_region = Ntsc, ex_pulse1 = pl_new PulseOne Ultrasonic,
      ex_pulse2 = pl_new PulseTwo Ultrasonic, ex_dmc = dmc_new, ex_dmc_mode = 0x01, ex_cpu_cycle = 0,
      ex_pulse_timer = 0\<rparr>"

lemma map_option_bind: "map_option f x = Option.bind x (\<lambda>y. Some (f y))"
  by (cases x) simp_all

lemma exrom_load_fresh:
  "exrom_load rng c = map_option (\<lambda>m. (m, cart_add_prg_ram rng EX_PRG_RAM_SIZE c))
     (ex_update_prg_banks (exrom_fresh c EX_PRG_RAM_SIZE))"
proof -
  have r: "replicate 5 (0 :: nat) = [0, 0, 0, 0, 0]" by (simp add: eval_nat_numeral)
  have m: "cart_mirroring (cart_add_prg_ram rng n c) = cart_mirroring c" for n
    by (rule cart_mirroring_cong) simp
  show ?thesis
    unfolding exrom_load_def exrom_fresh_def Let_def
    by (simp add: ex_regs_new_def r m map_option_bind)
qed

lemma exrom_windows_new:
  "ex_window 4 (mb_new 0x8000 0xFFFF cap 0x2000)" "ex_window 8 (mb_new 0 0x1FFF cap 0x400)"
  using mb_new_wf [of "0x2000" 13 "0xFFFF" "0x8000" cap] mb_new_wf [of "0x400" 10 "0x1FFF" 0 cap]
  by (simp_all add: ex_window_def)

lemma exrom_fresh_wf: "ex_wf (exrom_fresh c n)"
proof -
  have "ex_ok (exrom_fresh c n)"
    by (simp add: ex_ok_def exrom_fresh_def ex_regs_new_def vsplit_new_def fill_new_def EXRAM_SIZE_def)
  then show ?thesis
    by (simp add: ex_wf_def exrom_fresh_def ex_regs_new_def exrom_windows_new ex_ram_window_new)
qed

lemma exrom_load_wf: "returns (exrom_load rng c) (\<lambda>(m, c). ex_wf m)"
  using ex_update_prg_banks_wf [OF exrom_fresh_wf, of c EX_PRG_RAM_SIZE] by (auto simp: exrom_load_fresh returns_def)

lemma ex_wf_fields [simp]:
  "ex_wf (m\<lparr>ex_ppu_status := s\<rparr>) = ex_wf m" "ex_wf (m\<lparr>ex_irq_pending := b\<rparr>) = ex_wf m"
  "ex_wf (m\<lparr>ex_dmc := d\<rparr>) = ex_wf m" "ex_wf (m\<lparr>ex_dmc_mode := v\<rparr>) = ex_wf m"
  "ex_wf (m\<lparr>ex_pulse1 := p\<rparr>) = ex_wf m" "ex_wf (m\<lparr>ex_pulse2 := p\<rparr>) = ex_wf m"
  "ex_wf (m\<lparr>ex_pulse_timer := q\<rparr>) = ex_wf m" "ex_wf (m\<lparr>ex_cpu_cycle := n\<rparr>) = ex_wf m"
  "ex_wf (m\<lparr>ex_mirroring := mi\<rparr>) = ex_wf m"
  by (simp_all add: ex_wf_def ex_ok_def)

lemma ex_detect_wf [simp]: "ex_wf (ex_detect_scanline m a f) = ex_wf m"
  by (simp add: ex_detect_scanline_def Let_def)

lemma ex_tile_wf [simp]: "ex_wf m \<Longrightarrow> n < 0x400 \<Longrightarrow> ex_wf (m\<lparr>ex_tile_cache := n\<rparr>)"
  by (simp add: ex_wf_def ex_ok_def)

lemma exram_index [simp]: "unat (a AND 0x3FF :: u16) < 0x400"
  by (rule unat_and_less) simp

lemma ex_before_read_wf: "ex_wf m \<Longrightarrow> returns (ex_before_read m a) ex_wf"
  by (simp add: ex_before_read_def ex_inc_fetch_count_def Let_def ex_update_chr_banks_wf)

lemma ex_peek_chr_ok: "ex_wf m \<Longrightarrow> ex_peek_chr m a \<noteq> None"
  using ex_window_translate [OF ex_wfD(3), of m a]
  by (auto simp: ex_peek_chr_def ex_wf_def ex_ok_def vec_get_def Let_def)

lemma exrom_map_peek_ok: "ex_wf m \<Longrightarrow> returns (exrom_map_peek m a) (\<lambda>_. True)"
proof -
  assume wf: "ex_wf m"
  then have "length (ex_exram m) = 0x400" by (simp add: ex_wf_def ex_ok_def)
  then have "ex_read_exram m a \<noteq> None" by (simp add: ex_read_exram_def)
  then show ?thesis
    using ex_peek_chr_ok [OF wf] ex_peek_nametable_ok [OF ex_wfD(1) [OF wf], of a]
      ex_window_translate [OF ex_wfD(2) [OF wf]] ex_ram_window_translate [OF ex_wfD(4) [OF wf]]
    unfolding exrom_map_peek_def returns_def by (auto split: option.split)
qed

lemma exrom_map_read_wf: "ex_wf m \<Longrightarrow> returns (exrom_map_read m a) (\<lambda>(r, m'). ex_wf m')"
  unfolding exrom_map_read_def
  by (rule returns_trans [OF ex_before_read_wf], assumption, rule returns_trans [OF exrom_map_peek_ok])
    (auto simp: Let_def)

lemma ex_write_sound_wf: "ex_wf m \<Longrightarrow> ex_write_sound m a v = Some m' \<Longrightarrow> ex_wf m'"
  by (auto simp: ex_write_sound_def Let_def split: if_splits)

lemma ex_write_exram_wf: "ex_wf m \<Longrightarrow> returns (ex_write_exram m a v) ex_wf"
  by (simp add: ex_write_exram_def ex_wf_def ex_ok_def)

lemma ex_on_regs_wf:
  assumes "ex_wf m" and "length (er_prg_ram_protect (f (ex_regs m))) = 2" and "length (er_prg_banks (f (ex_regs m))) = 5"
    and "length (er_chr_banks (f (ex_regs m))) = 16" and "fl_attr (er_fill (f (ex_regs m))) < 4"
    and "sp_in_region (er_vsplit (f (ex_regs m))) = sp_in_region (er_vsplit (ex_regs m))"
  shows "ex_wf (ex_on_regs f m)"
  using assms by (simp add: ex_wf_def ex_ok_def ex_on_regs_def)

lemma ex_on_wf [simp]:
  "ex_wf m \<Longrightarrow> ex_wf (ex_on_regs (er_prg_mode_update f1) m)" "ex_wf m \<Longrightarrow> ex_wf (ex_on_regs (er_chr_mode_update f2) m)"
  "ex_wf m \<Longrightarrow> ex_wf (ex_on_regs (er_exram_mode_update f3) m)"
  "ex_wf m \<Longrightarrow> ex_wf (ex_on_regs (er_nametable_mapping_update f4) m)"
  "ex_wf m \<Longrightarrow> ex_wf (ex_on_regs (er_fill_update (fl_tile_update f5)) m)"
  "ex_wf m \<Longrightarrow> n < 4 \<Longrightarrow> ex_wf (ex_on_regs (er_fill_update (fl_attr_update (\<lambda>_. n))) m)"
  "ex_wf m \<Longrightarrow> length bs = 5 \<Longrightarrow> ex_wf (ex_on_regs (er_prg_banks_update (\<lambda>_. bs)) m)"
  "ex_wf m \<Longrightarrow> length bs = 16 \<Longrightarrow> ex_wf (ex_on_regs (er_chr_banks_update (\<lambda>_. bs)) m)"
  "ex_wf m \<Longrightarrow> ex_wf (ex_on_regs (er_chr_hi_update f6) m)"
  "ex_wf m \<Longrightarrow> ex_wf (ex_on_regs (er_vsplit_update (\<lambda>s. s\<lparr>sp_enabled := e, sp_side := d, sp_tile := t\<rparr>)) m)"
  "ex_wf m \<Longrightarrow> ex_wf (ex_on_regs (er_vsplit_update (sp_scroll_update f7)) m)"
  "ex_wf m \<Longrightarrow> ex_wf (ex_on_regs (er_vsplit_update (sp_bank_update f8)) m)"
  "ex_wf m \<Longrightarrow> ex_wf (ex_on_regs (er_irq_scanline_update f9) m)"
  "ex_wf m \<Longrightarrow> ex_wf (ex_on_regs (er_irq_enabled_update f10) m)"
  "ex_wf m \<Longrightarrow> ex_wf (ex_on_regs (\<lambda>r. ex_multiply (r\<lparr>er_multiplicand := v\<rparr>)) m)"
  "ex_wf m \<Longrightarrow> ex_wf (ex_on_regs (\<lambda>r. ex_multiply (r\<lparr>er_multiplier := v\<rparr>)) m)"
  "ex_wf m \<Longrightarrow> length ps = 2 \<Longrightarrow> ex_wf (ex_on_regs (er_prg_ram_protect_update (\<lambda>_. ps)) m)"
  by (rule ex_on_regs_wf; simp add: ex_wf_def ex_ok_def ex_multiply_def)+

lemma ex_update_banks_on:
  "ex_wf (ex_on_regs f m) \<Longrightarrow> returns (ex_update_prg_banks (ex_on_regs f m)) ex_wf"
  "ex_wf (ex_on_regs f m) \<Longrightarrow> returns (ex_update_chr_banks (ex_on_regs f m) which) ex_wf"
  by (rule ex_update_prg_banks_wf ex_update_chr_banks_wf, assumption)+

lemma ex_attr_index [simp]: "unat (v AND 3 :: u8) < 4"
  by (rule unat_and_less) simp

lemma ex_wf_lengths:
  "ex_wf m \<Longrightarrow> length (er_prg_banks (ex_regs m)) = 5" "ex_wf m \<Longrightarrow> length (er_chr_banks (ex_regs m)) = 16"
  "ex_wf m \<Longrightarrow> length (er_prg_ram_protect (ex_regs m)) = 2"
  by (simp_all add: ex_wf_def)

lemma window_offset: "window_in lo hi a \<Longrightarrow> unat a - lo \<le> hi - lo"
  by (auto simp: window_in_def)

lemma ex_write_register_wf:
  assumes "ex_wf m" and "ex_write_register m a v = Some r"
  shows "returns r ex_wf"
proof -
  have i: "window_in 0x5113 0x5117 a \<Longrightarrow> unat a - 0x5113 < 5" "window_in 0x5120 0x512B a \<Longrightarrow> unat a - 0x5120 < 12"
    using window_offset [of "0x5113" "0x5117" a] window_offset [of "0x5120" "0x512B" a] by simp_all
  show ?thesis
    using assms i
    by (auto simp: ex_write_register_def Let_def ex_update_banks_on ex_wf_lengths split: if_splits)
qed

lemma exrom_map_write_wf: "ex_wf m \<Longrightarrow> returns (exrom_map_write m a v) (\<lambda>(w, m'). ex_wf m')"
proof -
  assume wf: "ex_wf m"
  have nt: "returns (ex_write_nametable m a v) (\<lambda>(w, m'). ex_wf m')"
    using wf ex_write_exram_wf [OF wf] by (auto simp: ex_write_nametable_def split: nametable.split)
  have pr: "returns (ex_write_protect m a v) (\<lambda>(w, m'). ex_wf m')" if "a = 0x5102 \<or> a = 0x5103"
    using wf that by (auto simp: ex_write_protect_def Let_def ex_wf_lengths)
  have ram: "returns (mb_translate (ex_prg_ram_banks m) a) (\<lambda>_. True)"
    using ex_ram_window_translate [OF ex_wfD(4) [OF wf]] by (auto simp: returns_def)
  have lift: "returns r ex_wf \<Longrightarrow> returns (map_option (\<lambda>m. (NoWrite, m)) r) (\<lambda>(w, m'). ex_wf m')" for r
    by (auto simp: returns_def)
  show ?thesis
    using wf nt pr ram ex_write_exram_wf [OF wf] ex_write_sound_wf [OF wf] ex_write_register_wf [OF wf]
    unfolding exrom_map_write_def
    by (auto simp: Let_def intro!: lift elim!: returns_mono split: option.split exram_rw.split)
qed

lemma ex_wf_let:
  "(\<And>s. ex_wf (f s)) \<Longrightarrow> ex_wf (let s = (t :: exrom_ppu_status) in f s)"
  "ex_wf t' \<Longrightarrow> (\<And>m. ex_wf m \<Longrightarrow> ex_wf (g m)) \<Longrightarrow> ex_wf (let m = t' in g m)"
  by (simp_all add: Let_def)

lemma exrom_snoop_wf [simp]: "ex_wf (exrom_cpu_bus_write m a v) = ex_wf m"
  unfolding exrom_cpu_bus_write_def by (rule ex_wf_fields(1))

lemma exrom_set_region_wf [simp]: "ex_wf (exrom_set_region m rg) = ex_wf m"
  unfolding exrom_set_region_def by (rule ex_wf_fields(3))

lemma exrom_clock_wf [simp]: "ex_wf m \<Longrightarrow> ex_wf (exrom_clock m)"
  unfolding exrom_clock_def
  by (intro ex_wf_let) (simp_all only: ex_wf_fields if_cancel split: if_split, simp_all)

lemma exrom_reset_wf [simp]: "ex_wf m \<Longrightarrow> ex_wf (exrom_reset m k)"
  unfolding exrom_reset_def by (rule ex_on_regs_wf) (auto dest: ex_wfD(1) ex_wf_lengths simp: ex_ok_def)

section \<open>Runs\<close>

datatype ex_event =
    ExRead u16
  | ExWrite u16 u8
  | ExSnoop u16 u8
  | ExClock
  | ExReset kind
  | ExRegion nes_region

fun ex_step :: "exrom \<Rightarrow> ex_event \<Rightarrow> exrom option" where
  "ex_step m (ExRead a) = map_option snd (exrom_map_read m a)"
| "ex_step m (ExWrite a v) = map_option snd (exrom_map_write m a v)"
| "ex_step m (ExSnoop a v) = Some (exrom_cpu_bus_write m a v)"
| "ex_step m ExClock = Some (exrom_clock m)"
| "ex_step m (ExReset k) = Some (exrom_reset m k)"
| "ex_step m (ExRegion rg) = Some (exrom_set_region m rg)"

fun ex_run :: "exrom \<Rightarrow> ex_event list \<Rightarrow> exrom option" where
  "ex_run m [] = Some m"
| "ex_run m (e # es) = do { m \<leftarrow> ex_step m e; ex_run m es }"

lemma ex_step_wf: "ex_wf m \<Longrightarrow> returns (ex_step m e) ex_wf"
  using exrom_map_read_wf exrom_map_write_wf by (cases e) (fastforce simp: returns_def)+

lemma ex_run_wf: "ex_wf m \<Longrightarrow> returns (ex_run m es) ex_wf"
  by (induction es arbitrary: m) (simp_all, metis (mono_tags, lifting) ex_step_wf returns_mono)

lemma ex_load_run_wf: "returns (exrom_load rng c) (\<lambda>(m, c'). returns (ex_run m es) ex_wf)"
  by (rule returns_mono [OF exrom_load_wf]) (auto intro: ex_run_wf)

text \<open>C33: In a release build, where the debug assertion of \<open>MemBanks\<close> is not compiled, an MMC5 cartridge of any
  content loads, and no sequence of bus accesses, register values, clocks, resets and region changes
  makes the board panic: neither an index out of its own tables nor the unfinished split-screen
  code is ever reached. A debug build does panic when the PRG mode puts a range of slots past the last page
  (\<open>exrom_past_end\<close>); the release build goes on, and what panics there is the bus that indexes the
  ROM with the answer.\<close>

theorem exrom_never_panics:
  "returns (exrom_load rng c) (\<lambda>(m, c'). ex_run m es \<noteq> None \<and> length (cart_prg_ram c') = EX_PRG_RAM_SIZE)"
proof -
  obtain m where m: "exrom_load rng c = Some (m, cart_add_prg_ram rng EX_PRG_RAM_SIZE c)"
    using returnsD [OF exrom_load_wf, of rng c] by (auto simp: exrom_load_fresh)
  then show ?thesis using ex_load_run_wf [of rng c es] by (auto simp: returns_def)
qed

section \<open>RAM in the PRG window\<close>

lemma ex_high_addr:
  assumes "0x8000 \<le> unat a"
  shows "a \<noteq> 0x5000" "a \<noteq> 0x5002" "a \<noteq> 0x5003" "a \<noteq> 0x5004" "a \<noteq> 0x5006"
    "a \<noteq> 0x5007" "a \<noteq> 0x5010" "a \<noteq> 0x5011" "a \<noteq> 0x5015" "a \<noteq> 0x5100"
    "a \<noteq> 0x5101" "a \<noteq> 0x5102" "a \<noteq> 0x5103" "a \<noteq> 0x5104" "a \<noteq> 0x5105"
    "a \<noteq> 0x5106" "a \<noteq> 0x5107" "a \<noteq> 0x5130" "a \<noteq> 0x5200" "a \<noteq> 0x5201"
    "a \<noteq> 0x5202" "a \<noteq> 0x5203" "a \<noteq> 0x5204" "a \<noteq> 0x5205" "a \<noteq> 0x5206"
    "\<not> window_in 0x0000 0x1FFF a" "\<not> window_in 0x2000 0x3EFF a"
    "\<not> window_in 0x5113 0x5117 a" "\<not> window_in 0x5120 0x512B a"
    "\<not> window_in 0x5207 0x5209 a" "\<not> window_in 0x5C00 0x5FFF a"
  using assms by (auto simp: window_in_def)

lemma exrom_high_read:
  assumes "0x8000 \<le> unat a" and "unat a < 0xE000"
  shows "exrom_map_peek m a
      = (if ex_rom_select m a then map_option PrgRomR (mb_translate (ex_prg_rom_banks m) a)
         else map_option PrgRamR (mb_translate (ex_prg_ram_banks m) a))"
    "exrom_map_read m a = map_option (\<lambda>r. (r, m)) (exrom_map_peek m a)"
    "exrom_map_write m a v = (if ex_rom_select m a then Some (NoWrite, m)
       else map_option (\<lambda>i. (PrgRamW i v, m)) (mb_translate (ex_prg_ram_banks m) a))"
proof -
  note h = ex_high_addr [OF assms(1)]
  have v: "a \<noteq> 0xFFFA" "a \<noteq> 0xFFFB" using assms(2) by auto
  have "ex_peek_register m a = None" by (simp only: ex_peek_register_def Let_def h if_False)
  then show p: "exrom_map_peek m a
      = (if ex_rom_select m a then map_option PrgRomR (mb_translate (ex_prg_rom_banks m) a)
         else map_option PrgRamR (mb_translate (ex_prg_ram_banks m) a))"
    using assms by (simp add: exrom_map_peek_def h) (simp add: window_in_def)
  show "exrom_map_read m a = map_option (\<lambda>r. (r, m)) (exrom_map_peek m a)"
    by (simp add: exrom_map_read_def ex_before_read_def h v map_option_bind Let_def)
  have "ex_write_sound m a v = None" "ex_write_register m a v = None"
    by (simp_all only: ex_write_sound_def ex_write_register_def h if_False)
  then show "exrom_map_write m a v = (if ex_rom_select m a then Some (NoWrite, m)
       else map_option (\<lambda>i. (PrgRamW i v, m)) (mb_translate (ex_prg_ram_banks m) a))"
    using assms by (simp add: exrom_map_write_def h map_option_bind) (simp add: window_in_def)
qed

lemma ex_slots:
  fixes a :: u16
  assumes "0x8000 \<le> unat a"
  shows "drop_bit 13 (unat a) AND 4 = 4" "drop_bit 13 (unat a) AND 3 = unat a div 0x2000 - 4"
proof -
  have "unat a div 0x2000 < 8" using unat_u16_less [of a] by (simp add: less_mult_imp_div_less del: unat_u16_less)
  moreover have "4 \<le> unat a div 0x2000" using assms by (simp add: le_div_geq div_le_mono [of "0x8000" "unat a" "0x2000", simplified])
  ultimately have "unat a div 0x2000 \<in> {4, 5, 6, 7}" by auto
  then show "drop_bit 13 (unat a) AND 4 = 4" "drop_bit 13 (unat a) AND 3 = unat a div 0x2000 - 4"
    by (auto simp: drop_bit_eq_div)
qed

lemma ex_ram_slot:
  assumes "ex_ram_window b" and "0x8000 \<le> unat a"
  shows "mb_translate b a = Some (0x8000 + unat a mod 0x2000)"
  using assms by (simp add: ex_ram_window_def mb_translate_eq mb_get_bank_def ex_slots)

text \<open>C35: The MMC5 board maps work RAM above $8000 when a bank register selects RAM there. Whatever was
  done to the board since it was loaded, such an access reaches the same page, the fifth of the
  64K: the bank number in the register does not choose the page, because the window that starts at
  $6000 is indexed with a mask that is no power of two minus one.\<close>

theorem exrom_ram_window:
  assumes "exrom_load rng c = Some (m0, c')" and "ex_run m0 es = Some m"
    and "0x8000 \<le> unat a" and "unat a < 0xE000" and "\<not> ex_rom_select m a"
  shows "exrom_map_read m a = Some (PrgRamR (0x8000 + unat a mod 0x2000), m)
    \<and> exrom_map_write m a v = Some (PrgRamW (0x8000 + unat a mod 0x2000) v, m)"
proof -
  have "ex_wf m" using ex_load_run_wf [of rng c es] assms(1,2) by simp
  then show ?thesis
    using ex_ram_slot [OF ex_wfD(4) assms(3)] exrom_high_read [OF assms(3,4)] assms(5) by simp
qed

text \<open>What a change of banks keeps.\<close>

definition ex_banked :: "exrom \<Rightarrow> exrom \<Rightarrow> bool" where
  "ex_banked m m' \<longleftrightarrow> ex_wf m' \<and> ex_regs m' = ex_regs m
     \<and> mb_window (ex_prg_rom_banks m') = mb_window (ex_prg_rom_banks m)
     \<and> mb_page_count (ex_prg_rom_banks m') = mb_page_count (ex_prg_rom_banks m)"

lemma ex_banked_trans: "ex_banked m m' \<Longrightarrow> ex_banked m' m'' \<Longrightarrow> ex_banked m m''"
  by (simp add: ex_banked_def)

lemma ex_banked_range: "ex_wf m \<Longrightarrow> en < 3 \<Longrightarrow> returns (ex_set_prg_bank_range m s en n) (ex_banked m)"
  using ex_set_prg_bank_range_wf [of m en s n] ex_wfD(2,4) [of m]
  by (auto simp: ex_set_prg_bank_range_def Let_def ex_banked_def ex_window_def ex_ram_window_def mb_set_range_put
      split: if_splits)

lemma ex_banked_rom:
  "ex_wf m \<Longrightarrow> s < 4 \<Longrightarrow> returns (mb_set (ex_prg_rom_banks m) s n) (\<lambda>b. ex_banked m (m\<lparr>ex_prg_rom_banks := b\<rparr>))"
  "ex_wf m \<Longrightarrow> en < 4 \<Longrightarrow> returns (mb_set_range (ex_prg_rom_banks m) s en n) (\<lambda>b. ex_banked m (m\<lparr>ex_prg_rom_banks := b\<rparr>))"
  using ex_set_rom [OF _ refl, of m] ex_wfD(2) [of m]
  by (auto simp: ex_banked_def ex_window_def mb_set_range_put mb_set_put)

lemma ex_banked_ram:
  "ex_wf m \<Longrightarrow> s < 4 \<Longrightarrow> returns (mb_set (ex_prg_ram_banks m) s n) (\<lambda>b. ex_banked m (m\<lparr>ex_prg_ram_banks := b\<rparr>))"
  using ex_set_ram(1) [OF _ refl, of m] ex_wfD(4) [of m]
  by (auto simp: ex_banked_def ex_ram_window_def mb_set_put)

lemma ex_banked_then:
  assumes "ex_banked m m1" and "\<And>m. ex_wf m \<Longrightarrow> returns (r m) (\<lambda>x. ex_banked m (f m x))"
  shows "returns (r m1) (\<lambda>x. ex_banked m (f m1 x))"
  using assms(2) [of m1] assms(1) by (auto simp: ex_banked_def returns_def)

lemma ex_banked_update: "ex_wf m \<Longrightarrow> returns (ex_update_prg_banks m) (ex_banked m)"
proof -
  assume wf: "ex_wf m"
  have step: "returns (Option.bind (ex_set_prg_bank_range m' s en n) f) (ex_banked m)"
    if "ex_banked m m'" "en < 3" "\<And>m''. ex_banked m m'' \<Longrightarrow> returns (f m'') (ex_banked m)" for m' s en n f
    by (rule returns_trans [OF ex_banked_then [OF that(1) ex_banked_range [OF _ that(2)]]], assumption) (rule that(3))
  have last: "returns (Option.bind (mb_set b 3 n) (\<lambda>b. Some (m'\<lparr>ex_prg_rom_banks := b\<rparr>))) (ex_banked m)"
    "en < 4 \<Longrightarrow> returns (Option.bind (mb_set_range b s en n) (\<lambda>b. Some (m'\<lparr>ex_prg_rom_banks := b\<rparr>))) (ex_banked m)"
    if "ex_banked m m'" "ex_prg_rom_banks m' = b" for m' s en n b
    using ex_banked_then [OF that(1) ex_banked_rom(1) [of _ 3 n]] ex_banked_then [OF that(1) ex_banked_rom(2) [of _ en s n]]
    by (simp_all add: that(2) [symmetric])
  show ?thesis
    unfolding ex_update_prg_banks_def Let_def
  proof (rule returns_trans [OF ex_banked_ram [OF wf]], simp, goal_cases)
    case (1 b)
    then show ?case
      by (cases "er_prg_mode (ex_regs m)"; simp del: returns_bind) (intro step last; assumption?; simp)+
  qed
qed

lemma ex_load_banked:
  "returns (exrom_load rng c) (\<lambda>(m, c'). ex_banked (exrom_fresh c EX_PRG_RAM_SIZE) m \<and> cart_prg_rom c' = cart_prg_rom c)"
  using returnsD [OF ex_banked_update [OF exrom_fresh_wf, of c EX_PRG_RAM_SIZE]] by (auto simp: exrom_load_fresh)

text \<open>The register of the window at $8000 selects page 3, and the access reaches page 4.\<close>

theorem exrom_ram_window_witness:
  "returns (exrom_load (\<lambda>_ _. 0) (sample_cart 5)) (\<lambda>(m0, c'). returns (ex_run m0 [ExWrite 0x5114 3])
     (\<lambda>m. er_prg_banks (ex_regs m) ! 1 = 3 \<and> exrom_map_read m 0x8001 = Some (PrgRamR 0x8001, m)))"
proof -
  obtain m0 c' where l: "exrom_load (\<lambda>_ _. 0) (sample_cart 5) = Some (m0, c')" and
    b: "ex_banked (exrom_fresh (sample_cart 5) EX_PRG_RAM_SIZE) m0"
    using returnsD [OF ex_load_banked] by fast
  have r: "er_prg_mode (ex_regs m0) = PrgBank8k" "length (er_prg_banks (ex_regs m0)) = 5"
    using b by (simp_all add: ex_banked_def exrom_fresh_def ex_regs_new_def)
  let ?bs = "(er_prg_banks (ex_regs m0))[1 := 3]"
  let ?m = "ex_on_regs (er_prg_banks_update (\<lambda>_. ?bs)) m0"
  have "ex_wf ?m" using b r by (simp add: ex_banked_def)
  then obtain m where m: "ex_update_prg_banks ?m = Some m" "ex_banked ?m m"
    using returnsD [OF ex_banked_update] by blast
  have "ex_write_register m0 0x5114 3 = Some (ex_update_prg_banks ?m)"
    using r by (simp add: ex_write_register_def window_in_def)
  moreover have "ex_write_sound m0 0x5114 3 = None" by (simp add: ex_write_sound_def)
  ultimately have "exrom_map_write m0 0x5114 3 = Some (NoWrite, m)"
    using m by (simp add: exrom_map_write_def window_in_def)
  then have run: "ex_run m0 [ExWrite 0x5114 3] = Some m" by simp
  have regs: "er_prg_banks (ex_regs m) ! 1 = 3" "er_prg_mode (ex_regs m) = PrgBank8k"
    using m(2) r by (simp_all add: ex_banked_def ex_on_regs_def)
  then have "\<not> ex_rom_select m 0x8001"
    by (simp add: ex_rom_select_def window_in_def ROM_SELECT_MASK_def Let_def)
  from exrom_ram_window [OF l run _ _ this] have "exrom_map_read m 0x8001 = Some (PrgRamR 0x8001, m)" by simp
  then show ?thesis using l run regs unfolding returns_def by blast
qed

section \<open>The PRG modes with large banks\<close>

lemma ex_last_bank: "(x OR 128) AND x = (x :: nat)" "x < 128 \<Longrightarrow> ((x OR 128) AND 127) AND x = (x :: nat)"
proof -
  show "(x OR 128) AND x = x" by (auto simp: bit_eq_iff bit_simps)
  assume "x < 128"
  then have "x AND 127 = x" using nat_and_mask [of x 7] by simp
  moreover have "((x OR 128) AND 127) AND x = ((x OR 128) AND x) AND 127" by (simp add: ac_simps)
  ultimately show "((x OR 128) AND 127) AND x = x" using \<open>(x OR 128) AND x = x\<close> by simp
qed

lemma ex_top_slot:
  assumes "ex_window 4 b" and "mb_window b = 0x2000" and "0xE000 \<le> unat a"
  shows "mb_translate b a = Some (mb_banks b ! 3 + unat a mod 0x2000)"
proof -
  have sh: "mb_shift b = 13"
  proof -
    have "(2 :: nat) ^ mb_shift b = 2 ^ 13" using assms(1,2) by (simp add: ex_window_def mb_wf_def)
    then show ?thesis by (rule power_inject_exp [THEN iffD1, rotated]) simp
  qed
  have sz: "mb_size b = 0x7FFF" using assms(1,2) by (simp add: ex_window_def mb_wf_def)
  have "unat a div 0x2000 = 7" using assms(3) unat_u16_less [of a] by (simp del: unat_u16_less)
  then have "drop_bit 13 (unat a) AND 3 = 3" by (simp add: drop_bit_eq_div)
  then show ?thesis using assms by (simp add: mb_translate_eq ex_window_def mb_get_bank_def sh sz)
qed

lemma exrom_top_peek:
  assumes "0xE000 \<le> unat a"
  shows "exrom_map_peek m a = map_option PrgRomR (mb_translate (ex_prg_rom_banks m) a)"
proof -
  have h: "0x8000 \<le> unat a" using assms by simp
  note h = ex_high_addr [OF h]
  have "ex_peek_register m a = None" by (simp only: ex_peek_register_def Let_def h if_False)
  moreover have "\<not> window_in 0x6000 0xDFFF a" "window_in 0xE000 0xFFFF a"
    using assms unat_u16_less [of a] by (simp_all add: window_in_def del: unat_u16_less)
  ultimately show ?thesis by (simp add: exrom_map_peek_def h)
qed

text \<open>The last slot after a write of mode 0 or 1.\<close>

lemma ex_mode_top:
  assumes "ex_wf m" and "mb_window (ex_prg_rom_banks m) = 0x2000" and "mb_page_count (ex_prg_rom_banks m) = k"
    and "k \<le> 128" and "er_prg_banks (ex_regs m) ! 4 = (k - 1) OR 128"
    and "er_prg_mode (ex_regs m) = (if large then PrgBank32k else PrgBank16k)"
  shows "returns (ex_update_prg_banks m)
    (\<lambda>m'. ex_wf m' \<and> mb_window (ex_prg_rom_banks m') = 0x2000
      \<and> mb_banks (ex_prg_rom_banks m') ! 3 = k * 0x2000 + (if large then 0x4000 else 0))"
proof -
  have sh: "2 ^ mb_shift b = (0x2000 :: nat)" "mb_mask b = k - 1" "0 < k" "length (mb_banks b) = 4"
    if "ex_window 4 b" "mb_window b = 0x2000" "mb_page_count b = k" for b
    using that by (simp_all add: ex_window_def mb_wf_def)
  have top: "mb_banks (mb_put_range b 0 3 ((k - 1) OR 128)) ! 3 = k * 0x2000 + 0x4000"
    "mb_banks (mb_put_range b 2 3 (((k - 1) OR 128) AND 127)) ! 3 = k * 0x2000"
    if "ex_window 4 b" "mb_window b = 0x2000" "mb_page_count b = k" for b
  proof -
    note b = that
    obtain d where d: "k = Suc d" using sh(3) [OF b] by (cases k) auto
    have u: "[0..<Suc 3] = [0, 1, 2, 3]" "[2..<Suc 3] = [2, 3 :: nat]" by (simp_all add: upt_rec)
    have m: "mb_mask b = d" "(d OR 128) AND d = d" "((d OR 128) AND 127) AND d = d"
      using sh(2) [OF b] d assms(4) ex_last_bank [of d] by simp_all
    show "mb_banks (mb_put_range b 0 3 ((k - 1) OR 128)) ! 3 = k * 0x2000 + 0x4000"
      "mb_banks (mb_put_range b 2 3 (((k - 1) OR 128) AND 127)) ! 3 = k * 0x2000"
      using sh(1,4) [OF b] b(2) d m unfolding mb_put_range_def u by simp_all
  qed
  obtain bk where ram: "mb_set (ex_prg_ram_banks m) 0 (er_prg_banks (ex_regs m) ! 0) = Some bk"
    "ex_banked m (m\<lparr>ex_prg_ram_banks := bk\<rparr>)"
    using returnsD [OF ex_banked_ram [OF assms(1), of 0]] by auto
  let ?m = "m\<lparr>ex_prg_ram_banks := bk\<rparr>"
  have wf: "ex_wf ?m" using ram(2) by (simp add: ex_banked_def)
  have finish: "returns (mb_set_range (ex_prg_rom_banks m') s 3 n) (\<lambda>b. ex_wf (m'\<lparr>ex_prg_rom_banks := b\<rparr>)
      \<and> mb_window b = 0x2000 \<and> mb_banks b ! 3 = x)"
    if "ex_wf m'" "mb_window (ex_prg_rom_banks m') = 0x2000" "mb_banks (mb_put_range (ex_prg_rom_banks m') s 3 n) ! 3 = x"
    for m' s n x
    using ex_set_rom(2) [OF that(1) refl, of 3 s n] ex_wfD(2) [OF that(1)] that
    by (simp add: ex_window_def mb_set_range_put)
  show ?thesis
  proof (cases large)
    case True
    then show ?thesis
      using finish [OF wf, of 0 "(k - 1) OR 128" "k * 0x2000 + 0x4000"] top(1) [OF ex_wfD(2) [OF assms(1)]]
        assms(2,3,5,6) ram(1)
      by (simp add: ex_update_prg_banks_def Let_def)
  next
    case False
    obtain m1 where m1: "ex_set_prg_bank_range ?m 0 1 (er_prg_banks (ex_regs m) ! 2) = Some m1" "ex_banked ?m m1"
      using returnsD [OF ex_banked_range [OF wf, of 1 0]] by auto
    then have b1: "ex_wf m1" "mb_window (ex_prg_rom_banks m1) = 0x2000" "mb_page_count (ex_prg_rom_banks m1) = k"
      "er_prg_banks (ex_regs m1) ! 4 = (k - 1) OR 128"
      using assms(2,3,5) by (simp_all add: ex_banked_def)
    have "returns (mb_set_range (ex_prg_rom_banks m1) 2 3 (((k - 1) OR 128) AND 127))
      (\<lambda>b. ex_wf (m1\<lparr>ex_prg_rom_banks := b\<rparr>) \<and> mb_window b = 0x2000 \<and> mb_banks b ! 3 = k * 0x2000)"
      by (rule finish [OF b1(1,2) top(2) [OF ex_wfD(2) [OF b1(1)] b1(2,3)]])
    then show ?thesis
      using False m1(1) ram(1) assms(5,6) by (simp add: ex_update_prg_banks_def Let_def BANK_MASK_def)
  qed
qed

text \<open>C36: A switch of the MMC5 to one big PRG bank of 32K, or to two of 16K, with the bank register as
  the power-on leaves it, starts the bank at the last page of the ROM instead of aligning it: the
  top of the address space, with the reset and interrupt vectors, is mapped past the end of the
  ROM and a read of it panics.\<close>

theorem exrom_past_end:
  assumes "exrom_load rng c = Some (m0, c')" and "length (cart_prg_rom c) = 0x2000 * k" and "0 < k" and "k \<le> 128"
    and "v AND 3 = 0 \<or> v AND 3 = 1" and "0xE000 \<le> unat a"
  shows "returns (exrom_map_write m0 0x5100 v) (\<lambda>(w, m).
      exrom_map_peek m a
        = Some (PrgRomR (length (cart_prg_rom c) + (if v AND 3 = 0 then 0x4000 else 0) + unat a mod 0x2000))
    \<and> (cb_mapper b = MExrom m \<and> cb_prg_rom b = cart_prg_rom c' \<longrightarrow> cb_peek b a acc = None))"
proof -
  have m0: "ex_banked (exrom_fresh c EX_PRG_RAM_SIZE) m0" "cart_prg_rom c' = cart_prg_rom c"
    using ex_load_banked [of rng c] assms(1) by simp_all
  let ?m = "ex_on_regs (er_prg_mode_update (\<lambda>_. prg_mode_from v)) m0"
  have "ex_wf ?m" using m0(1) by (simp add: ex_banked_def)
  then have f: "ex_wf ?m" "mb_window (ex_prg_rom_banks ?m) = 0x2000" "mb_page_count (ex_prg_rom_banks ?m) = k"
    "er_prg_banks (ex_regs ?m) ! 4 = (k - 1) OR 128"
    using m0 assms(2,3)
    by (simp_all add: ex_banked_def exrom_fresh_def ex_on_regs_def mb_last_def ROM_SELECT_MASK_def)
  have mode: "er_prg_mode (ex_regs ?m) = (if v AND 3 = 0 then PrgBank32k else PrgBank16k)"
    using assms(5) by (auto simp: ex_on_regs_def prg_mode_from_def Let_def)
  obtain m where m: "ex_update_prg_banks ?m = Some m" "ex_wf m" "mb_window (ex_prg_rom_banks m) = 0x2000"
    "mb_banks (ex_prg_rom_banks m) ! 3 = k * 0x2000 + (if v AND 3 = 0 then 0x4000 else 0)"
    using returnsD [OF ex_mode_top [OF f(1-3) assms(4) f(4) mode]] by blast
  have w: "exrom_map_write m0 0x5100 v = Some (NoWrite, m)"
    using m(1) by (simp add: exrom_map_write_def window_in_def ex_write_sound_def ex_write_register_def)
  have p: "exrom_map_peek m a
      = Some (PrgRomR (length (cart_prg_rom c) + (if v AND 3 = 0 then 0x4000 else 0) + unat a mod 0x2000))"
    using ex_top_slot [OF ex_wfD(2) [OF m(2)] m(3) assms(6)] m(4) assms(2) exrom_top_peek [OF assms(6)] by simp
  have "cb_peek b a acc = None" if "cb_mapper b = MExrom m" "cb_prg_rom b = cart_prg_rom c'"
  proof -
    have "\<not> a \<le> 0x7FF" "0x4020 \<le> a" using assms(6) by (simp_all add: word_less_nat_alt word_le_nat_alt)
    then show ?thesis using p that m0(2) by (subst cb_peek.simps) (simp add: cb_mapped_read_def vec_get_out)
  qed
  then show ?thesis using w p by simp
qed

text \<open>A cartridge with 32K of PRG-ROM, and its reset vector.\<close>

theorem exrom_past_end_witness:
  "returns (exrom_load (\<lambda>_ _. 0) (sample_cart 5)) (\<lambda>(m0, c'). returns (exrom_map_write m0 0x5100 0)
     (\<lambda>(w, m). exrom_map_peek m 0xFFFC = Some (PrgRomR 0xDFFC) \<and> length (cart_prg_rom c') = 0x8000))"
proof -
  obtain m0 c' where l: "exrom_load (\<lambda>_ _. 0) (sample_cart 5) = Some (m0, c')" "length (cart_prg_rom c') = 0x8000"
    using returnsD [OF ex_load_banked [of "\<lambda>_ _. 0" "sample_cart 5"]] by (auto simp: sample_cart_def)
  have n: "length (cart_prg_rom (sample_cart 5)) = 0x2000 * 4" by (simp add: sample_cart_def)
  show ?thesis
    using exrom_past_end [OF l(1) n, of 0 "0xFFFC"] l n by (fastforce simp: returns_def)
qed

section \<open>Extended attributes\<close>

lemma attr_page_sum:
  fixes x y :: nat
  assumes "x < 64" and "y < 0x1000"
  shows "push_bit 10 (0x100 * hi) OR push_bit 12 x OR y = 0x40000 * hi + 0x1000 * x + y"
proof -
  have "0x1000 * x OR y = 0x1000 * x + y" using nat_or_aligned [of 12 "0x1000 * x" y] assms(2) by simp
  moreover have "0x40000 * hi OR (0x1000 * x + y) = 0x40000 * hi + (0x1000 * x + y)"
    using nat_or_aligned [of 18 "0x40000 * hi" "0x1000 * x + y"] assms by simp
  moreover have "push_bit 10 (0x100 * hi) = 0x40000 * hi" "push_bit 12 x = 0x1000 * x"
    by (simp_all add: push_bit_eq_mult)
  ultimately show ?thesis by (simp only: or.assoc add.assoc)
qed

lemma low_six: "unat (x AND 0x3F :: u8) = unat x mod 64"
proof -
  have "(2 :: nat) ^ 6 - 1 = 0x3F" "(2 :: nat) ^ 6 = 64" "unat (0x3F :: u8) = 0x3F" by simp_all
  then show ?thesis
    using unsigned_and_eq [of x "0x3F", where 'a = nat] nat_and_mask [of "unat x" 6] by (simp only:)
qed

lemma low_twelve: "n AND 0xFFF = n mod (0x1000 :: nat)"
proof -
  have "(2 :: nat) ^ 12 - 1 = 0xFFF" "(2 :: nat) ^ 12 = 0x1000" by simp_all
  then show ?thesis using nat_and_mask [of n 12] by (simp only:)
qed

text \<open>With extended attributes the MMC5 takes the pattern page of a background tile from the six
  low bits of the tile's byte in its RAM and the two high bits of $5130. The byte of pattern
  memory named this way is not reduced to the size of the pattern ROM: the fetch panics exactly
  when the ROM is smaller.\<close>

theorem exrom_attr_page:
  assumes "pb_mapper b = MExrom m" and "ex_wf m" and "em_attr (er_exram_mode (ex_regs m))" and "\<not> ex_spr_fetch m"
    and "a \<le> 0x1FFF" and "pb_chr_ram b = []" and "er_chr_hi (ex_regs m) = 0x100 * hi"
  shows "pb_peek b a = vec_get (pb_chr_rom b)
    (0x40000 * hi + 0x1000 * (unat (ex_exram m ! ex_tile_cache m) mod 64) + unat a mod 0x1000)"
proof -
  let ?t = "unat (ex_exram m ! ex_tile_cache m)"
  have t: "ex_tile_cache m < length (ex_exram m)" using assms(2) by (simp add: ex_wf_def ex_ok_def)
  have i: "push_bit 10 (0x100 * hi) OR push_bit 12 (?t mod 64) OR (unat a mod 0x1000)
      = 0x40000 * hi + 0x1000 * (?t mod 64) + unat a mod 0x1000"
    by (rule attr_page_sum) simp_all
  have w: "window_in 0 0x1FFF a" "\<not> 0x2000 \<le> a" using assms(5) by (simp_all add: window_in_def word_le_nat_alt)
  have "exrom_map_peek m a
      = Some (ChrR (push_bit 10 (0x100 * hi) OR push_bit 12 (?t mod 64) OR (unat a mod 0x1000)))"
    by (simp only: exrom_map_peek_def w if_True ex_peek_chr_def assms(3,4) assms(7) Let_def low_six low_twelve vec_get_in [OF t]
        bind.bind_lunit not_False_eq_True simp_thms)
  then have "exrom_map_peek m a = Some (ChrR (0x40000 * hi + 0x1000 * (?t mod 64) + unat a mod 0x1000))"
    by (simp only: i)
  then show ?thesis using w assms(1,5,6) by (simp only: pb_peek_def) (simp add: chr_index_def)
qed

section \<open>The multiplier\<close>

lemma unat_product: "unat (ucast (x :: u8) * ucast (y :: u8) :: u16) = unat x * unat y"
proof -
  have "unat x \<le> 255" "unat y \<le> 255" using unat_u8_less [of x] unat_u8_less [of y] by linarith+
  then have "unat x * unat y \<le> 255 * 255" by (rule mult_le_mono)
  then show ?thesis by (simp add: unat_word_ariths)
qed

lemma product_halves: "unat (ucast (p AND 0xFF) :: u8) + 256 * unat (ucast (drop_bit 8 p AND 0xFF) :: u8) = unat (p :: u16)"
proof -
  have "(2 :: nat) ^ 8 - 1 = 0xFF" "(2 :: nat) ^ 8 = 256" "unat (0xFF :: u16) = 0xFF" by simp_all
  then have low: "unat (w AND 0xFF) = unat w mod 256" for w :: u16
    using unsigned_and_eq [of w "0xFF", where 'a = nat] nat_and_mask [of "unat w" 8] by (simp only:)
  have "unat (drop_bit 8 p) = unat p div 256" by (simp only: unat_drop_bit_eq) (simp add: drop_bit_eq_div)
  moreover have "unat p div 256 < 256" using unat_u16_less [of p] by (simp add: less_mult_imp_div_less del: unat_u16_less)
  ultimately show ?thesis by (simp add: low unsigned_ucast_eq take_bit_eq_mod)
qed

lemma mult_write:
  "exrom_map_write m 0x5205 x = Some (NoWrite, ex_on_regs (\<lambda>r. ex_multiply (r\<lparr>er_multiplicand := x\<rparr>)) m)"
  "exrom_map_write m 0x5206 x = Some (NoWrite, ex_on_regs (\<lambda>r. ex_multiply (r\<lparr>er_multiplier := x\<rparr>)) m)"
  by (simp_all add: exrom_map_write_def window_in_def ex_write_sound_def ex_write_register_def)

text \<open>The two multiplier registers of the MMC5 read back the 16-bit product of the last two bytes
  written to them, in whichever order they were written.\<close>

theorem exrom_multiplier:
  assumes "ex_wf m" and "(p, q) = (0x5205, 0x5206) \<or> (p, q) = (0x5206, 0x5205)"
  shows "returns (ex_run m [ExWrite p x, ExWrite q y])
    (\<lambda>m'. \<exists>lo hi. exrom_map_peek m' 0x5205 = Some (DataR lo) \<and> exrom_map_peek m' 0x5206 = Some (DataR hi)
      \<and> unat lo + 256 * unat hi = unat x * unat y)"
proof -
  have w: "returns (ex_run m [ExWrite a x]) (\<lambda>m'. ex_wf m' \<and> ex_regs m' = ex_multiply (if a = 0x5205
      then (ex_regs m)\<lparr>er_multiplicand := x\<rparr> else (ex_regs m)\<lparr>er_multiplier := x\<rparr>))"
    if "a = 0x5205 \<or> a = 0x5206" "ex_wf m" for m a x
    using that mult_write [of m x] by (elim disjE) (simp_all, simp_all add: ex_on_regs_def)
  have two: "ex_run m [ExWrite p x, ExWrite q y] = Option.bind (ex_run m [ExWrite p x]) (\<lambda>m. ex_run m [ExWrite q y])"
    by simp
  have pq: "p = 0x5205 \<or> p = 0x5206" "q = 0x5205 \<or> q = 0x5206" using assms(2) by auto
  show ?thesis
    unfolding two
  proof (rule returns_trans [OF w [OF pq(1) assms(1)]], elim conjE, rule returns_mono [OF w [OF pq(2)]], assumption, elim conjE)
    fix m1 m2 :: exrom
    assume r: "ex_regs m1 = ex_multiply (if p = 0x5205 then (ex_regs m)\<lparr>er_multiplicand := x\<rparr> else (ex_regs m)\<lparr>er_multiplier := x\<rparr>)"
      "ex_regs m2 = ex_multiply (if q = 0x5205 then (ex_regs m1)\<lparr>er_multiplicand := y\<rparr> else (ex_regs m1)\<lparr>er_multiplier := y\<rparr>)"
    let ?p = "er_mult_result (ex_regs m2)"
    have "?p = ucast x * ucast y"
      using r assms(2) by (auto simp: ex_multiply_def mult.commute)
    then have u: "unat ?p = unat x * unat y" by (simp add: unat_product)
    have pk: "exrom_map_peek m2 0x5205 = Some (DataR (ucast (?p AND 0xFF)))"
      "exrom_map_peek m2 0x5206 = Some (DataR (ucast (drop_bit 8 ?p AND 0xFF)))"
      by (simp_all add: exrom_map_peek_def window_in_def ex_peek_register_def Let_def)
    show "\<exists>lo hi. exrom_map_peek m2 0x5205 = Some (DataR lo) \<and> exrom_map_peek m2 0x5206 = Some (DataR hi)
      \<and> unat lo + 256 * unat hi = unat x * unat y"
      using pk product_halves [of ?p] u by auto
  qed
qed

lemma sample_exrom_wf: "ex_wf sample_exrom"
proof -
  have "ex_ok sample_exrom"
    by (simp add: sample_exrom_def ex_ok_def ex_regs_new_def vsplit_new_def fill_new_def)
  then show ?thesis
    by (simp add: ex_wf_def sample_exrom_def ex_regs_new_def exrom_windows_new ex_ram_window_new)
qed

theorem exrom_multiplier_witness:
  "returns (ex_run sample_exrom [ExWrite 0x5206 200, ExWrite 0x5205 100])
    (\<lambda>m'. \<exists>lo hi. exrom_map_peek m' 0x5205 = Some (DataR lo) \<and> exrom_map_peek m' 0x5206 = Some (DataR hi)
      \<and> unat lo + 256 * unat hi = 20000)"
  using exrom_multiplier [OF sample_exrom_wf, of "0x5206" "0x5205" 200 100] by simp

text \<open>With 8K of pattern ROM and a tile byte of 3 the fetch panics.\<close>

theorem exrom_attr_page_witness:
  "pb_peek (ppu_bus_new\<lparr>pb_mapper := MExrom (sample_exrom\<lparr>ex_exram := replicate 0x400 3,
       ex_regs := (ex_regs sample_exrom)\<lparr>er_exram_mode := exram_mode_set exram_mode_new 1\<rparr>\<rparr>),
     pb_chr_rom := replicate 0x2000 0\<rparr>) 0x0010 = None"
proof -
  let ?m = "sample_exrom\<lparr>ex_exram := replicate 0x400 3,
    ex_regs := (ex_regs sample_exrom)\<lparr>er_exram_mode := exram_mode_set exram_mode_new 1\<rparr>\<rparr>"
  let ?b = "ppu_bus_new\<lparr>pb_mapper := MExrom ?m, pb_chr_rom := replicate 0x2000 0\<rparr>"
  have wf: "ex_wf ?m" using sample_exrom_wf by (simp add: ex_wf_def ex_ok_def)
  have h: "pb_mapper ?b = MExrom ?m" "pb_chr_rom ?b = replicate 0x2000 0" by simp_all
  have c: "pb_chr_ram ?b = []" by (simp add: ppu_bus_new_def)
  have e: "em_attr (er_exram_mode (ex_regs ?m))" by (simp add: exram_mode_set_def Let_def)
  have f: "\<not> ex_spr_fetch ?m" "er_chr_hi (ex_regs ?m) = 0x100 * 0" "ex_tile_cache ?m = 0"
    by (simp_all add: ex_spr_fetch_def sample_exrom_def EX_SPR_FETCH_START_def ex_regs_new_def)
  show ?thesis
    using exrom_attr_page [OF h(1) wf e f(1) _ c f(2), of "0x0010"] f(3) by (simp add: h(2))
qed

end
