(* ===== verification/DeckProps.thy ===== *)
theory DeckProps
  imports PowerOn
begin

text \<open>What the application gets from the deck.\<close>

section \<open>The picture\<close>

text \<open>C13: In a machine that satisfies its invariants the deck always gives a picture of the last complete
  frame: 256 by 240 opaque pixels, each from its pixel of the frame buffer and, with the decoder,
  its left neighbour; the machine is left as it is.\<close>

theorem deck_picture:
  assumes "cpu_wf bd (cd_cpu d)" and "video_wf (cd_video d)" and "\<forall>ch x. unat (level ch x) \<le> 255"
  shows "returns (deck_frame_buffer (ntsc_palette level) d) (\<lambda>(picture, d').
      length picture = 4 * PPU_SIZE \<and> cd_cpu d' = cd_cpu d \<and> video_wf (cd_video d')
    \<and> (\<forall>i<PPU_SIZE. take 4 (drop (4 * i) picture)
        = picture_bytes level (vd_filter (cd_video d)) (deck_frame_number d)
            (fr_front (pp_frame (cb_ppu (c_bus (cd_cpu d))))) i))"
proof -
  have "frame_wf (pp_frame (cb_ppu (c_bus (cd_cpu d))))" using assms(1) by (auto simp: cpu_wf_def intro: cb_wfD(10))
  from video_picture [OF assms(2) this assms(3), of "deck_frame_number d"] show ?thesis
    by (auto simp: deck_frame_buffer_def deck_frame_number_def video_wf_def Let_def elim!: returns_mono)
qed

theorem deck_picture_witness:
  "returns (deck_frame_buffer (ntsc_palette (\<lambda>_ _. 7)) ((deck_new (\<lambda>_. 0) AllZeros)\<lparr>cd_cpu := sample_cpu\<rparr>))
    (\<lambda>(picture, d). length picture = 4 * PPU_SIZE \<and> cd_cpu d = sample_cpu)"
proof -
  have "video_wf (cd_video ((deck_new (\<lambda>_. 0) AllZeros)\<lparr>cd_cpu := sample_cpu\<rparr>))"
    by (simp add: deck_new_def video_new_wf)
  from deck_picture [OF _ this, of sample_bd "\<lambda>_ _. 7"] show ?thesis
    by (auto simp: sample_cpu_wf elim!: returns_mono)
qed

end
