(* ===== verification/Float32.thy ===== *)
theory Float32
  imports Prelude
begin

text \<open>
  The \<open>f32\<close> of Rust: IEEE 754 binary32 with rounding to nearest, ties to even. A finite number is
  the rational it stands for; the two zeros are not told apart, which no code under \<open>src/audio\<close>
  can see. The bits of a NaN are not kept.
\<close>

section \<open>Numbers\<close>

datatype f32 = Fin rat | Inf bool | NaN

text \<open>\<open>Inf True\<close> is the negative infinity.\<close>

fun bit_len :: "nat \<Rightarrow> nat" where
  "bit_len n = (if n = 0 then 0 else Suc (bit_len (n div 2)))"

declare bit_len.simps [simp del]

definition f32_exp :: "rat \<Rightarrow> int" where
  "f32_exp x =
     (let (p, q) = quotient_of x;
          e = int (bit_len (nat p)) - int (bit_len (nat q))
      in if x < 2 powi e then e - 1 else e)"

definition round_even :: "rat \<Rightarrow> int" where
  "round_even x =
     (let n = \<lfloor>x\<rfloor>; r = x - of_int n
      in if r < 1 / 2 then n else if r > 1 / 2 then n + 1 else if even n then n else n + 1)"

text \<open>The last place of a positive number, and the number rounded to it.\<close>

definition f32_ulp :: "rat \<Rightarrow> rat" where
  "f32_ulp x = 2 powi (max (f32_exp x) (- 126) - 23)"

definition f32_mag :: "rat \<Rightarrow> rat" where
  "f32_mag x = of_int (round_even (x / f32_ulp x)) * f32_ulp x"

definition f32_of :: "rat \<Rightarrow> f32" where
  "f32_of x =
     (if x = 0 then Fin 0
      else let r = f32_mag \<bar>x\<bar>
           in if r \<ge> 2 ^ 128 then Inf (x < 0) else Fin (if x < 0 then - r else r))"

section \<open>Arithmetic\<close>

fun f32_add :: "f32 \<Rightarrow> f32 \<Rightarrow> f32" where
  "f32_add (Fin x) (Fin y) = f32_of (x + y)"
| "f32_add NaN b = NaN"
| "f32_add a NaN = NaN"
| "f32_add (Inf s) (Inf t) = (if s = t then Inf s else NaN)"
| "f32_add (Inf s) (Fin y) = Inf s"
| "f32_add (Fin x) (Inf t) = Inf t"

fun f32_neg :: "f32 \<Rightarrow> f32" where
  "f32_neg (Fin x) = Fin (- x)"
| "f32_neg (Inf s) = Inf (\<not> s)"
| "f32_neg NaN = NaN"

definition f32_sub :: "f32 \<Rightarrow> f32 \<Rightarrow> f32" where
  "f32_sub a b = f32_add a (f32_neg b)"

fun f32_mul :: "f32 \<Rightarrow> f32 \<Rightarrow> f32" where
  "f32_mul (Fin x) (Fin y) = f32_of (x * y)"
| "f32_mul NaN b = NaN"
| "f32_mul a NaN = NaN"
| "f32_mul (Inf s) (Inf t) = Inf (s \<noteq> t)"
| "f32_mul (Inf s) (Fin y) = (if y = 0 then NaN else Inf (s \<noteq> (y < 0)))"
| "f32_mul (Fin x) (Inf t) = (if x = 0 then NaN else Inf ((x < 0) \<noteq> t))"

fun f32_div :: "f32 \<Rightarrow> f32 \<Rightarrow> f32" where
  "f32_div (Fin x) (Fin y) =
     (if y \<noteq> 0 then f32_of (x / y) else if x = 0 then NaN else Inf (x < 0))"
| "f32_div NaN b = NaN"
| "f32_div a NaN = NaN"
| "f32_div (Inf s) (Inf t) = NaN"
| "f32_div (Inf s) (Fin y) = Inf (s \<noteq> (y < 0))"
| "f32_div (Fin x) (Inf t) = Fin 0"

text \<open>\<open>a.mul_add(b, c)\<close> rounds once.\<close>

definition f32_mul_add :: "f32 \<Rightarrow> f32 \<Rightarrow> f32 \<Rightarrow> f32" where
  "f32_mul_add a b c =
     (case (a, b, c) of
        (Fin x, Fin y, Fin z) \<Rightarrow> f32_of (x * y + z)
      | (Fin x, Fin y, _) \<Rightarrow> c
      | _ \<Rightarrow> f32_add (f32_mul a b) c)"

fun f32_le :: "f32 \<Rightarrow> f32 \<Rightarrow> bool" where
  "f32_le (Fin x) (Fin y) \<longleftrightarrow> x \<le> y"
| "f32_le NaN b \<longleftrightarrow> False"
| "f32_le a NaN \<longleftrightarrow> False"
| "f32_le (Inf s) b \<longleftrightarrow> s \<or> b = Inf False"
| "f32_le a (Inf t) \<longleftrightarrow> \<not> t"

text \<open>\<open>x as usize\<close> truncates, and saturates out of range; \<open>n as f32\<close> rounds.\<close>

fun f32_to_usize :: "f32 \<Rightarrow> nat" where
  "f32_to_usize (Fin x) = min (nat \<lfloor>x\<rfloor>) (2 ^ 64 - 1)"
| "f32_to_usize (Inf s) = (if s then 0 else 2 ^ 64 - 1)"
| "f32_to_usize NaN = 0"

definition f32_of_nat :: "nat \<Rightarrow> f32" where
  "f32_of_nat n = f32_of (of_nat n)"

section \<open>Rounding\<close>

lemma bit_len_bounds: "0 < n \<Longrightarrow> 2 ^ bit_len n \<le> 2 * n \<and> n < 2 ^ bit_len n"
proof (induction n rule: bit_len.induct)
  case (1 n)
  show ?case
  proof (cases "n = 1")
    case True
    then show ?thesis by (simp add: bit_len.simps)
  next
    case False
    with 1 have "0 < n div 2" "n \<noteq> 0" by auto
    with 1 have "2 ^ bit_len (n div 2) \<le> 2 * (n div 2)" "n div 2 < 2 ^ bit_len (n div 2)" by auto
    then show ?thesis using \<open>n \<noteq> 0\<close> by (subst (1 2) bit_len.simps) auto
  qed
qed

lemma f32_exp_bounds:
  assumes "0 < x"
  shows "2 powi f32_exp x \<le> x" "x < 2 powi (f32_exp x + 1)"
proof -
  obtain p q where pq: "quotient_of x = (p, q)" by force
  have q: "0 < q" using quotient_of_denom_pos [OF pq] .
  have x: "x = of_int p / of_int q" using quotient_of_div [OF pq] .
  have p: "0 < p" using assms q by (simp add: x zero_less_divide_iff)
  define a b e where "a = bit_len (nat p)" and "b = bit_len (nat q)" and "e = int a - int b"
  have "(2 :: int) ^ a \<le> 2 * p \<and> p < 2 ^ a" "(2 :: int) ^ b \<le> 2 * q \<and> q < 2 ^ b"
    using bit_len_bounds [of "nat p"] bit_len_bounds [of "nat q"] p q
    by (simp_all add: a_def b_def nat_less_iff flip: of_nat_le_iff [where 'a = int])
  then have "(of_int (2 ^ a) :: rat) \<le> of_int (2 * p)" "(of_int p :: rat) < of_int (2 ^ a)"
    "(of_int (2 ^ b) :: rat) \<le> of_int (2 * q)" "(of_int q :: rat) < of_int (2 ^ b)"
    by (simp_all only: of_int_le_iff of_int_less_iff)
  then have bounds: "(2 :: rat) ^ a \<le> 2 * of_int p" "(of_int p :: rat) < 2 ^ a"
    "(2 :: rat) ^ b \<le> 2 * of_int q" "(of_int q :: rat) < 2 ^ b" by simp_all
  have pw: "(2 :: rat) powi e = 2 ^ a / 2 ^ b"
    by (simp add: e_def power_int_diff)
  have q': "(0 :: rat) < of_int q" using q by simp
  have p': "(0 :: rat) < of_int p" using p by simp
  have "x * 2 ^ b * of_int q = of_int p * 2 ^ b" using q' by (simp add: x)
  have lower: "2 powi e \<le> 2 * x"
  proof -
    have "(2 :: rat) ^ a * of_int q \<le> (2 * of_int p) * 2 ^ b"
      using bounds q' p' by (intro mult_mono) auto
    then show ?thesis using q' by (simp add: pw x field_simps)
  qed
  have upper: "x < 2 * 2 powi e"
  proof -
    have "(of_int p :: rat) * 2 ^ b < 2 ^ a * (2 * of_int q)"
      using bounds q' p' by (intro mult_less_le_imp_less) auto
    then show ?thesis using q' by (simp add: pw x field_simps)
  qed
  have "f32_exp x = (if x < 2 powi e then e - 1 else e)"
    by (simp add: f32_exp_def pq a_def b_def e_def Let_def)
  then show "2 powi f32_exp x \<le> x" "x < 2 powi (f32_exp x + 1)"
    using lower upper by (simp_all add: power_int_diff power_int_add)
qed

lemma powi_split:
  assumes "i \<le> j"
  shows "(2 :: rat) powi j = of_int (2 ^ nat (j - i)) * 2 powi i"
proof -
  have "(2 :: rat) powi j = 2 powi (j - i) * 2 powi i" by (simp flip: power_int_add)
  then show ?thesis using assms by (simp add: power_int_def [of _ "j - i"])
qed

lemma f32_exp_mono:
  assumes "0 < x" and "x \<le> y"
  shows "f32_exp x \<le> f32_exp y"
proof (rule ccontr)
  assume "\<not> f32_exp x \<le> f32_exp y"
  then have "(2 :: rat) powi (f32_exp y + 1) \<le> 2 powi f32_exp x"
    by (intro power_int_increasing) auto
  then show False using f32_exp_bounds [of x] f32_exp_bounds [of y] assms by linarith
qed

lemma f32_exp_less:
  assumes "0 < x" and "x < 2 powi n"
  shows "f32_exp x < n"
proof (rule ccontr)
  assume "\<not> f32_exp x < n"
  then have "(2 :: rat) powi n \<le> 2 powi f32_exp x" by (intro power_int_increasing) auto
  then show False using f32_exp_bounds(1) [OF assms(1)] assms(2) by linarith
qed

lemma round_even_of_int [simp]: "round_even (of_int k) = k"
  by (simp add: round_even_def)

lemma round_even_floor: "\<lfloor>x\<rfloor> \<le> round_even x" "round_even x \<le> \<lfloor>x\<rfloor> + 1"
  by (simp_all add: round_even_def Let_def)

lemma round_even_mono:
  assumes "x \<le> y"
  shows "round_even x \<le> round_even y"
proof (cases "\<lfloor>x\<rfloor> = \<lfloor>y\<rfloor>")
  case True
  then show ?thesis using assms by (auto simp: round_even_def Let_def)
next
  case False
  then have "\<lfloor>x\<rfloor> < \<lfloor>y\<rfloor>" using floor_mono [OF assms] by simp
  then show ?thesis using round_even_floor [of x] round_even_floor [of y] by linarith
qed

text \<open>The numbers of the type: a significand of 24 bits and an exponent not below -149.\<close>

definition is_f32 :: "rat \<Rightarrow> bool" where
  "is_f32 x \<longleftrightarrow> (\<exists>k j. \<bar>x\<bar> = of_nat k * 2 powi j \<and> k \<le> 2 ^ 24 \<and> - 149 \<le> j)"

lemma f32_ulp_pos [simp]: "0 < f32_ulp x" "0 \<le> f32_ulp x" "f32_ulp x \<noteq> 0"
  by (simp_all add: f32_ulp_def)

lemma f32_mag_fixed:
  assumes "0 < x" and "is_f32 x"
  shows "f32_mag x = x"
proof -
  obtain k j where k: "x = of_nat k * 2 powi j" "k \<le> 2 ^ 24" and j: "- 149 \<le> j"
    using assms by (auto simp: is_f32_def)
  have "0 < k" using assms(1) k by (cases k) auto
  define i where "i = max (f32_exp x) (- 126) - 23"
  have "\<exists>n :: int. x / 2 powi i = of_int n"
  proof (cases "i \<le> j")
    case True
    then have "x / 2 powi i = of_int (int k * 2 ^ nat (j - i))"
      unfolding k(1) powi_split [OF True] by simp
    then show ?thesis by blast
  next
    case False
    with j have i: "i = f32_exp x - 23" by (auto simp: i_def)
    have e: "2 powi f32_exp x \<le> x" by (rule f32_exp_bounds(1) [OF assms(1)])
    also have "x \<le> 2 ^ 24 * 2 powi j"
    proof -
      have "(of_nat k :: rat) \<le> of_nat (2 ^ 24)" using k(2) by (simp only: of_nat_le_iff)
      then show ?thesis by (simp add: k(1))
    qed
    also have "\<dots> = 2 powi (j + 24)" by (simp add: power_int_add)
    finally have "f32_exp x \<le> j + 24" 
      using power_int_strict_increasing [of "j + 24" "f32_exp x" "2 :: rat"] by linarith
    with i False have ij: "i = j + 1" "f32_exp x = j + 24" by auto
    with e have "(2 :: rat) ^ 24 * 2 powi j \<le> of_nat k * 2 powi j" by (simp add: k(1) power_int_add)
    then have "(of_nat (2 ^ 24) :: rat) \<le> of_nat k" by simp
    then have "2 ^ 24 \<le> k" by (simp only: of_nat_le_iff)
    with k(2) ij have "k = 2 ^ 24 \<and> i = j + 1" by simp
    then show ?thesis
      by (intro exI [of _ "2 ^ 23"]) (simp add: k(1) power_int_add)
  qed
  then obtain n where "x / 2 powi i = of_int n" by blast
  moreover have u: "f32_ulp x = 2 powi i" by (simp add: f32_ulp_def i_def)
  ultimately show ?thesis by (simp add: f32_mag_def) (simp add: field_simps)
qed

lemma f32_mag_is_f32:
  assumes "0 < x"
  shows "is_f32 (f32_mag x)" "0 \<le> f32_mag x"
proof -
  have u: "0 < f32_ulp x" by simp
  have "x < 2 powi (f32_exp x + 1)" using f32_exp_bounds [OF assms] by simp
  also have "\<dots> \<le> 2 powi (max (f32_exp x) (- 126) + 1)" by (intro power_int_increasing) auto
  also have "\<dots> = 2 ^ 24 * f32_ulp x" by (simp add: f32_ulp_def power_int_diff power_int_add)
  finally have "x / f32_ulp x \<le> of_int (2 ^ 24)" using u by (simp add: field_simps)
  from round_even_mono [OF this] have hi: "round_even (x / f32_ulp x) \<le> 2 ^ 24" by (simp only: round_even_of_int)
  have "of_int 0 \<le> x / f32_ulp x" using assms u by simp
  from round_even_mono [OF this] have lo: "0 \<le> round_even (x / f32_ulp x)" by (simp only: round_even_of_int)
  show "0 \<le> f32_mag x" using lo u by (simp add: f32_mag_def)
  then show "is_f32 (f32_mag x)" using lo hi
    by (auto simp: is_f32_def f32_mag_def f32_ulp_def nat_le_iff
      intro!: exI [of _ "nat (round_even (x / f32_ulp x))"] exI [of _ "max (f32_exp x) (- 126) - 23"])
qed

text \<open>Multiples of the last place bound the rounding.\<close>

lemma f32_mag_le: "x \<le> of_int n * f32_ulp x \<Longrightarrow> f32_mag x \<le> of_int n * f32_ulp x"
  using round_even_mono [of "x / f32_ulp x" "of_int n"] f32_ulp_pos (1) [of x]
  by (simp add: f32_mag_def pos_divide_le_eq mult_right_mono)

lemma f32_mag_ge: "of_int n * f32_ulp x \<le> x \<Longrightarrow> of_int n * f32_ulp x \<le> f32_mag x"
  using round_even_mono [of "of_int n" "x / f32_ulp x"] f32_ulp_pos (1) [of x]
  by (simp add: f32_mag_def pos_le_divide_eq mult_right_mono)

lemma f32_mag_mono:
  assumes "0 < x" and "x \<le> y"
  shows "f32_mag x \<le> f32_mag y"
proof (cases "f32_ulp x = f32_ulp y")
  case True
  have "x / f32_ulp y \<le> y / f32_ulp y" using assms(2) by (intro divide_right_mono) auto
  from round_even_mono [OF this] show ?thesis using True by (simp add: f32_mag_def)
next
  case False
  have "f32_exp x \<le> f32_exp y" by (rule f32_exp_mono [OF assms])
  moreover have "max (f32_exp x) (- 126) \<noteq> max (f32_exp y) (- 126)" using False by (auto simp: f32_ulp_def)
  ultimately have e: "f32_exp x < f32_exp y" "- 126 < f32_exp y" by linarith+
  let ?b = "(2 :: rat) powi f32_exp y"
  have "x < 2 powi (f32_exp x + 1)" using f32_exp_bounds [OF assms(1)] by simp
  also have "\<dots> \<le> ?b" using e by (intro power_int_increasing) auto
  finally have "x \<le> ?b" by simp
  moreover have "?b = of_int (2 ^ nat (f32_exp y - max (f32_exp x) (- 126) + 23)) * f32_ulp x"
    using e powi_split [of "max (f32_exp x) (- 126) - 23" "f32_exp y"] by (simp add: f32_ulp_def algebra_simps)
  ultimately have "f32_mag x \<le> ?b" using f32_mag_le by metis
  also have "\<dots> \<le> f32_mag y"
  proof -
    have "?b \<le> y" using f32_exp_bounds [of y] assms by simp
    moreover have "?b = of_int (2 ^ 23) * f32_ulp y" using e by (simp add: f32_ulp_def power_int_diff)
    ultimately show ?thesis using f32_mag_ge by metis
  qed
  finally show ?thesis .
qed

lemma is_f32_uminus [simp]: "is_f32 (- x) = is_f32 x"
  by (simp add: is_f32_def)

lemma is_f32_0 [simp]: "is_f32 0"
  unfolding is_f32_def by (intro exI [of _ 0]) simp

lemma f32_mag_0 [simp]: "f32_mag 0 = 0"
  by (simp add: f32_mag_def round_even_def)

lemma f32_mag_mono0: "0 \<le> x \<Longrightarrow> x \<le> y \<Longrightarrow> f32_mag x \<le> f32_mag y"
  using f32_mag_mono [of x y] f32_mag_is_f32(2) [of y] by (cases "x = 0"; cases "y = 0") auto

lemma f32_mag_fixed0: "0 \<le> x \<Longrightarrow> is_f32 x \<Longrightarrow> f32_mag x = x"
  using f32_mag_fixed [of x] by (cases "x = 0") auto

text \<open>A bound that is itself a number of the type survives the rounding.\<close>

lemma f32_of_between:
  assumes "a \<le> x" and "x \<le> b" and "is_f32 a" and "is_f32 b" and "- (2 ^ 128) < a" and "b < 2 ^ 128"
  shows "\<exists>r. f32_of x = Fin r \<and> a \<le> r \<and> r \<le> b \<and> is_f32 r"
proof (cases "0 \<le> x")
  case True
  have "f32_mag x \<le> b" using f32_mag_mono0 [OF True assms(2)] f32_mag_fixed0 [of b] True assms by simp
  moreover have "a \<le> f32_mag x"
    using f32_mag_mono0 [of a x] f32_mag_fixed0 [of a] f32_mag_is_f32(2) [of x] True assms
    by (cases "0 \<le> a"; cases "x = 0") auto
  moreover have "is_f32 (f32_mag x)" using f32_mag_is_f32(1) [of x] True by (cases "x = 0") auto
  ultimately show ?thesis using True assms by (auto simp: f32_of_def Let_def)
next
  case False
  have "f32_mag (- x) \<le> - a" using f32_mag_mono0 [of "- x" "- a"] f32_mag_fixed0 [of "- a"] False assms by simp
  moreover have "- f32_mag (- x) \<le> b"
    using f32_mag_mono0 [of "- b" "- x"] f32_mag_fixed0 [of "- b"] f32_mag_is_f32(2) [of "- x"] False assms
    by (cases "0 \<le> b") auto
  moreover have "is_f32 (f32_mag (- x))" using f32_mag_is_f32(1) [of "- x"] False by simp
  ultimately show ?thesis using False assms by (auto simp: f32_of_def Let_def)
qed

lemma f32_of_fixed:
  assumes "is_f32 x" and "\<bar>x\<bar> < 2 ^ 128"
  shows "f32_of x = Fin x"
  using f32_of_between [of x x x] assms by (auto simp: abs_less_iff)

lemma is_f32_nat: "n \<le> 2 ^ 24 \<Longrightarrow> is_f32 (of_nat n)"
  unfolding is_f32_def by (intro exI [of _ n] exI [of _ 0]) simp

end
