(* ===== verification/Audio.thy ===== *)
theory Audio
  imports Float32
begin

text \<open>
  \<open>src/audio.rs\<close>, \<open>src/audio/filter.rs\<close> and \<open>src/audio/window_sinc.rs\<close>: the filters, the mixer
  that turns the samples of the APU into samples of the sound card, and the callback that the sound
  card calls for them.

  Parameters. \<open>sn\<close> and \<open>cs\<close> are \<open>f32::sin\<close> and \<open>f32::cos\<close>, whose last places the standard library
  leaves open. The ring buffer is the crate \<open>ringbuf\<close>: \<open>ring_ops\<close> has the operations the source
  calls. The sound device is the one of \<open>pix_engine\<close>. Mixer and callback share a ring: rings live in
  the list \<open>am_rings\<close>, their two ends are positions of it.
\<close>

section \<open>Windowed sinc filters\<close>

record window_sinc =
  ws_m :: nat
  ws_fc :: f32
  ws_bw :: f32
  ws_taps :: "f32 list"
  ws_latency :: nat

definition F32_PI :: f32 where "F32_PI = Fin (13176795 / 2 ^ 22)"

definition blackman_window :: "(f32 \<Rightarrow> f32) \<Rightarrow> nat \<Rightarrow> f32 list option" where
  "blackman_window cs m =
     (let p1 = f32_div (f32_mul (Fin 2) F32_PI) (f32_of_nat m);
          p2 = f32_div (f32_mul (Fin 4) F32_PI) (f32_of_nat m);
          n = (if even m then m + 1 else m)
      in if 4 * n < 2 ^ 63
         then Some (map (\<lambda>i. let i = f32_of_nat i
                in f32_add (f32_sub (f32_of (42 / 100)) (f32_mul (Fin (1 / 2)) (cs (f32_mul p1 i))))
                     (f32_mul (f32_of (8 / 10)) (cs (f32_mul p2 i)))) [0..<n])
         else None)"

text \<open>\<open>(0.0..=0.5).contains(&x)\<close>.\<close>

definition in_half :: "f32 \<Rightarrow> bool" where
  "in_half x \<longleftrightarrow> f32_le (Fin 0) x \<and> f32_le x (Fin (1 / 2))"

definition sinc_tap :: "(f32 \<Rightarrow> f32) \<Rightarrow> f32 \<Rightarrow> nat \<Rightarrow> nat \<Rightarrow> f32 \<Rightarrow> f32" where
  "sinc_tap sn p latency i h =
     (let i = f32_sub (f32_of_nat i) (f32_of_nat latency)
      in f32_mul h (if i = Fin 0 then p else f32_div (sn (f32_mul p i)) i))"

definition f32_sum :: "f32 list \<Rightarrow> f32" where
  "f32_sum xs = foldl f32_add (Fin 0) xs"

text \<open>A window larger than the memory of the machine is not modelled as a failure.\<close>

definition window_sinc_new ::
    "(f32 \<Rightarrow> f32) \<Rightarrow> (f32 \<Rightarrow> f32) \<Rightarrow> f32 \<Rightarrow> f32 \<Rightarrow> f32 \<Rightarrow> window_sinc option" where
  "window_sinc_new sn cs sample_rate cutoff bandwidth =
     (let fc = f32_div cutoff sample_rate;
          bw = f32_div bandwidth sample_rate
      in if in_half fc \<and> in_half bw
         then let m = f32_to_usize (f32_div (Fin 4) bw);
                  latency = m div 2
              in do { h \<leftarrow> blackman_window cs m;
                      let p = f32_mul (f32_mul (Fin 2) F32_PI) fc;
                      let h = map (\<lambda>(i, h). sinc_tap sn p latency i h) (enumerate 0 h);
                      let sum_inv = f32_div (Fin 1) (f32_sum h);
                      Some \<lparr>ws_m = m, ws_fc = fc, ws_bw = bw, ws_taps = map (\<lambda>h. f32_mul h sum_inv) h,
                            ws_latency = latency\<rparr> }
         else None)"

fun invert_taps :: "f32 \<Rightarrow> f32 list \<Rightarrow> f32 list" where
  "invert_taps i [] = []"
| "invert_taps i (h # taps) = (let i = f32_mul i (Fin (- 1)) in f32_mul h i # invert_taps i taps)"

definition spectral_invert :: "window_sinc \<Rightarrow> window_sinc option" where
  "spectral_invert w =
     (let taps = invert_taps (Fin 1) (ws_taps w)
      in do { h \<leftarrow> vec_get taps (ws_latency w);
              taps \<leftarrow> vec_set taps (ws_latency w) (f32_add h (Fin 1));
              Some (w\<lparr>ws_taps := taps\<rparr>) })"

datatype filter_type = LowPass | HighPass | BandPass | BandReject

record audio_filter =
  fl_ty :: filter_type
  fl_sinc :: window_sinc

definition filter_low_pass ::
    "(f32 \<Rightarrow> f32) \<Rightarrow> (f32 \<Rightarrow> f32) \<Rightarrow> f32 \<Rightarrow> f32 \<Rightarrow> f32 \<Rightarrow> audio_filter option" where
  "filter_low_pass sn cs sample_rate cutoff bandwidth =
     do { sinc \<leftarrow> window_sinc_new sn cs sample_rate cutoff bandwidth;
          Some \<lparr>fl_ty = LowPass, fl_sinc = sinc\<rparr> }"

definition filter_high_pass ::
    "(f32 \<Rightarrow> f32) \<Rightarrow> (f32 \<Rightarrow> f32) \<Rightarrow> f32 \<Rightarrow> f32 \<Rightarrow> f32 \<Rightarrow> audio_filter option" where
  "filter_high_pass sn cs sample_rate cutoff bandwidth =
     do { sinc \<leftarrow> window_sinc_new sn cs sample_rate cutoff bandwidth;
          sinc \<leftarrow> spectral_invert sinc;
          Some \<lparr>fl_ty = HighPass, fl_sinc = sinc\<rparr> }"

definition filter_apply :: "audio_filter \<Rightarrow> f32 \<Rightarrow> f32" where
  "filter_apply f sample = foldl (\<lambda>out h. f32_add out (f32_mul sample h)) (Fin 0) (ws_taps (fl_sinc f))"

section \<open>State of the mixer\<close>

text \<open>The operations of the ring buffer: \<open>push\<close> fails on a full ring, \<open>pop\<close> on an empty one.\<close>

record 'rb ring_ops =
  ring_new :: "nat \<Rightarrow> 'rb"
  ring_push :: "f32 \<Rightarrow> 'rb \<Rightarrow> 'rb option"
  ring_pop :: "'rb \<Rightarrow> (f32 \<times> 'rb) option"
  ring_clear :: "'rb \<Rightarrow> 'rb"
  ring_len :: "'rb \<Rightarrow> nat"
  ring_capacity :: "'rb \<Rightarrow> nat"

record audio_callback =
  ac_initialized :: bool
  ac_buffer :: nat

record ('rb, 'd) audio_mixer =
  am_rings :: "'rb list"
  am_device :: "'d option"
  am_producer :: nat
  am_consumer :: "nat option"
  am_input_frequency :: f32
  am_output_frequency :: f32
  am_decim_ratio :: f32
  am_pitch_ratio :: f32
  am_fraction :: f32
  am_avg :: f32
  am_count :: f32
  am_filters :: "audio_filter list"

datatype audio_error = AlreadyOpen | DeviceError

record audio_spec =
  as_freq :: int
  as_channels :: nat
  as_samples :: u16

definition mixer_new ::
    "'rb ring_ops \<Rightarrow> (f32 \<Rightarrow> f32) \<Rightarrow> (f32 \<Rightarrow> f32) \<Rightarrow> f32 \<Rightarrow> f32 \<Rightarrow> nat \<Rightarrow> ('rb, 'd) audio_mixer option" where
  "mixer_new ops sn cs input_frequency output_frequency buffer_size =
     do { f1 \<leftarrow> filter_high_pass sn cs output_frequency (Fin 90) (Fin 1500);
          f2 \<leftarrow> filter_high_pass sn cs output_frequency (Fin 440) (Fin 1500);
          f3 \<leftarrow> filter_low_pass sn cs output_frequency (Fin 12000) (Fin 1500);
          Some \<lparr>am_rings = [ring_new ops buffer_size], am_device = None, am_producer = 0,
                am_consumer = Some 0, am_input_frequency = input_frequency,
                am_output_frequency = output_frequency,
                am_decim_ratio = f32_div input_frequency output_frequency, am_pitch_ratio = Fin 1,
                am_fraction = Fin 0, am_avg = Fin 0, am_count = Fin 0, am_filters = [f1, f2, f3]\<rparr> }"

definition callback_new :: "nat \<Rightarrow> audio_callback" where
  "callback_new buffer = \<lparr>ac_initialized = False, ac_buffer = buffer\<rparr>"

text \<open>\<open>x as i32\<close> and \<open>n as u16\<close>.\<close>

fun f32_to_i32 :: "f32 \<Rightarrow> int" where
  "f32_to_i32 (Fin x) =
     (let t = (if 0 \<le> x then \<lfloor>x\<rfloor> else \<lceil>x\<rceil>) in max (- (2 ^ 31)) (min t (2 ^ 31 - 1)))"
| "f32_to_i32 (Inf s) = (if s then - (2 ^ 31) else 2 ^ 31 - 1)"
| "f32_to_i32 NaN = 0"

definition mixer_ring :: "('rb, 'd) audio_mixer \<Rightarrow> 'rb" where
  "mixer_ring m = am_rings m ! am_producer m"

definition mixer_set_ring :: "('rb, 'd) audio_mixer \<Rightarrow> nat \<Rightarrow> 'rb \<Rightarrow> ('rb, 'd) audio_mixer" where
  "mixer_set_ring m i r = m\<lparr>am_rings := (am_rings m)[i := r]\<rparr>"

definition mixer_len :: "'rb ring_ops \<Rightarrow> ('rb, 'd) audio_mixer \<Rightarrow> nat" where
  "mixer_len ops m = ring_len ops (mixer_ring m)"

definition mixer_is_empty :: "'rb ring_ops \<Rightarrow> ('rb, 'd) audio_mixer \<Rightarrow> bool" where
  "mixer_is_empty ops m \<longleftrightarrow> ring_len ops (mixer_ring m) = 0"

definition mixer_capacity :: "'rb ring_ops \<Rightarrow> ('rb, 'd) audio_mixer \<Rightarrow> nat" where
  "mixer_capacity ops m = ring_capacity ops (mixer_ring m)"

text \<open>Opening a device moves the consumer into its callback; the consumer is gone if that fails.\<close>

definition mixer_open_playback ::
    "'rb ring_ops \<Rightarrow> (audio_spec \<Rightarrow> audio_callback \<Rightarrow> 'd option) \<Rightarrow> ('rb, 'd) audio_mixer
       \<Rightarrow> (audio_error + unit) \<times> ('rb, 'd) audio_mixer" where
  "mixer_open_playback ops open_device m =
     (case am_consumer m of
        Some consumer \<Rightarrow>
          let m = m\<lparr>am_consumer := None\<rparr>;
              spec = \<lparr>as_freq = f32_to_i32 (am_output_frequency m), as_channels = 1,
                      as_samples = of_nat (mixer_capacity ops m div 2)\<rparr>
          in (case open_device spec (callback_new consumer) of
                Some device \<Rightarrow> (Inr (), m\<lparr>am_device := Some device\<rparr>)
              | None \<Rightarrow> (Inl DeviceError, m))
      | None \<Rightarrow> (Inl AlreadyOpen, m))"

definition mixer_open_callback ::
    "('rb, 'd) audio_mixer \<Rightarrow> (audio_error + audio_callback) \<times> ('rb, 'd) audio_mixer" where
  "mixer_open_callback m =
     (case am_consumer m of
        Some consumer \<Rightarrow> (Inr (callback_new consumer), m\<lparr>am_consumer := None\<rparr>)
      | None \<Rightarrow> (Inl AlreadyOpen, m))"

definition mixer_reset :: "'rb ring_ops \<Rightarrow> ('rb, 'd) audio_mixer \<Rightarrow> nat \<Rightarrow> ('rb, 'd) audio_mixer" where
  "mixer_reset ops m buffer_size =
     m\<lparr>am_decim_ratio := f32_div (am_input_frequency m) (am_output_frequency m),
       am_pitch_ratio := Fin 1, am_fraction := Fin 0,
       am_rings := am_rings m @ [ring_new ops buffer_size],
       am_producer := length (am_rings m), am_consumer := Some (length (am_rings m))\<rparr>"

text \<open>\<open>resume\<close> and \<open>pause\<close> of the device are the argument.\<close>

definition mixer_on_device :: "('d \<Rightarrow> 'd) \<Rightarrow> ('rb, 'd) audio_mixer \<Rightarrow> ('rb, 'd) audio_mixer" where
  "mixer_on_device f m = m\<lparr>am_device := map_option f (am_device m)\<rparr>"

definition mixer_set_input_frequency :: "('rb, 'd) audio_mixer \<Rightarrow> f32 \<Rightarrow> ('rb, 'd) audio_mixer" where
  "mixer_set_input_frequency m x = m\<lparr>am_input_frequency := x\<rparr>"

definition mixer_set_output_frequency :: "('rb, 'd) audio_mixer \<Rightarrow> f32 \<Rightarrow> ('rb, 'd) audio_mixer" where
  "mixer_set_output_frequency m x = m\<lparr>am_output_frequency := x\<rparr>"

section \<open>Resampling\<close>

text \<open>The ratio between the two frequencies, adjusted to the fill of the ring.\<close>

definition mixer_set_ratio ::
    "'rb ring_ops \<Rightarrow> ('rb, 'd) audio_mixer \<Rightarrow> bool \<Rightarrow> f32 \<Rightarrow> ('rb, 'd) audio_mixer" where
  "mixer_set_ratio ops m dynamic_rate_control max_delta =
     (let m = m\<lparr>am_pitch_ratio :=
            (if dynamic_rate_control
             then let size = f32_of_nat (mixer_len ops m);
                      capacity = f32_of_nat (mixer_capacity ops m)
                  in f32_mul_add (f32_div (f32_sub capacity (f32_mul (Fin 2) size)) capacity) max_delta (Fin 1)
             else Fin 1)\<rparr>
      in m\<lparr>am_decim_ratio :=
             f32_div (am_input_frequency m) (f32_mul (am_output_frequency m) (am_pitch_ratio m))\<rparr>)"

definition mixer_filtered :: "('rb, 'd) audio_mixer \<Rightarrow> f32 \<Rightarrow> f32" where
  "mixer_filtered m x = foldl (\<lambda>sample f. filter_apply f sample) x (am_filters m)"

text \<open>A sample that finds no room in the ring is dropped.\<close>

definition mixer_push :: "'rb ring_ops \<Rightarrow> ('rb, 'd) audio_mixer \<Rightarrow> f32 \<Rightarrow> ('rb, 'd) audio_mixer" where
  "mixer_push ops m sample =
     (case ring_push ops sample (mixer_ring m) of
        Some r \<Rightarrow> mixer_set_ring m (am_producer m) r
      | None \<Rightarrow> m)"

partial_function (option) consume_loop ::
    "'rb ring_ops \<Rightarrow> ('rb, 'd) audio_mixer \<Rightarrow> nat \<Rightarrow> (nat \<times> ('rb, 'd) audio_mixer) option" where
  "consume_loop ops m sample_count =
     (if f32_le (am_fraction m) (Fin 0)
      then consume_loop ops
             ((mixer_push ops m (mixer_filtered m (f32_div (am_avg m) (am_count m))))
                \<lparr>am_avg := Fin 0, am_count := Fin 0,
                 am_fraction := f32_add (am_fraction m) (am_decim_ratio m)\<rparr>)
             (sample_count + 1)
      else Some (sample_count, m))"

definition consume_sample ::
    "'rb ring_ops \<Rightarrow> ('rb, 'd) audio_mixer \<Rightarrow> nat \<Rightarrow> f32 \<Rightarrow> (nat \<times> ('rb, 'd) audio_mixer) option" where
  "consume_sample ops m sample_count sample =
     (let m = m\<lparr>am_avg := f32_add (am_avg m) sample, am_count := f32_add (am_count m) (Fin 1)\<rparr>
      in do { (sample_count, m) \<leftarrow> consume_loop ops m sample_count;
              Some (sample_count, m\<lparr>am_fraction := f32_sub (am_fraction m) (Fin 1)\<rparr>) })"

fun consume_samples ::
    "'rb ring_ops \<Rightarrow> ('rb, 'd) audio_mixer \<Rightarrow> nat \<Rightarrow> f32 list \<Rightarrow> (nat \<times> ('rb, 'd) audio_mixer) option" where
  "consume_samples ops m sample_count [] = Some (sample_count, m)"
| "consume_samples ops m sample_count (sample # samples) =
     do { (sample_count, m) \<leftarrow> consume_sample ops m sample_count sample;
          consume_samples ops m sample_count samples }"

definition mixer_consume ::
    "'rb ring_ops \<Rightarrow> ('rb, 'd) audio_mixer \<Rightarrow> f32 list \<Rightarrow> bool \<Rightarrow> f32
       \<Rightarrow> (nat \<times> ('rb, 'd) audio_mixer) option" where
  "mixer_consume ops m samples dynamic_rate_control max_delta =
     consume_samples ops (mixer_set_ratio ops m dynamic_rate_control max_delta) 0 samples"

section \<open>The callback\<close>

definition callback_clear :: "'rb ring_ops \<Rightarrow> audio_callback \<Rightarrow> 'rb list \<Rightarrow> 'rb list" where
  "callback_clear ops c rings = rings[ac_buffer c := ring_clear ops (rings ! ac_buffer c)]"

definition callback_len :: "'rb ring_ops \<Rightarrow> audio_callback \<Rightarrow> 'rb list \<Rightarrow> nat" where
  "callback_len ops c rings = ring_len ops (rings ! ac_buffer c)"

definition callback_is_empty :: "'rb ring_ops \<Rightarrow> audio_callback \<Rightarrow> 'rb list \<Rightarrow> bool" where
  "callback_is_empty ops c rings \<longleftrightarrow> ring_len ops (rings ! ac_buffer c) = 0"

text \<open>The loop over a slice of the given length.\<close>

fun callback_fill :: "'rb ring_ops \<Rightarrow> 'rb \<Rightarrow> nat \<Rightarrow> f32 list \<times> 'rb" where
  "callback_fill ops r 0 = ([], r)"
| "callback_fill ops r (Suc n) =
     (case ring_pop ops r of
        Some (sample, r) \<Rightarrow> let (out, r) = callback_fill ops r n in (sample # out, r)
      | None \<Rightarrow> let (out, r) = callback_fill ops r n in (Fin 0 # out, r))"

definition callback_read ::
    "'rb ring_ops \<Rightarrow> audio_callback \<Rightarrow> 'rb list \<Rightarrow> nat \<Rightarrow> f32 list \<times> audio_callback \<times> 'rb list" where
  "callback_read ops c rings n =
     (if \<not> ac_initialized c \<and> callback_len ops c rings < n then (replicate n (Fin 0), c, rings)
      else let c = c\<lparr>ac_initialized := True\<rparr>;
               (out, r) = callback_fill ops (rings ! ac_buffer c) n
           in (out, c, rings[ac_buffer c := r]))"

end
