(* ===== verification/AudioProps.thy ===== *)
theory AudioProps
  imports Audio
begin

text \<open>
  What the mixer does to the samples: the resampling loop, the ring between the mixer and the
  callback, and the filters.
\<close>

section \<open>Rounded results\<close>

lemma f32_of_Fin:
  assumes "f32_of x = Fin r"
  shows "is_f32 r" "\<bar>r\<bar> < 2 ^ 128"
proof -
  have "x = 0 \<and> r = 0 \<or> (0 < \<bar>x\<bar> \<and> f32_mag \<bar>x\<bar> < 2 ^ 128 \<and> \<bar>r\<bar> = f32_mag \<bar>x\<bar> \<and> (r = f32_mag \<bar>x\<bar> \<or> r = - f32_mag \<bar>x\<bar>))"
    using assms f32_mag_is_f32(2) [of "\<bar>x\<bar>"] by (auto simp: f32_of_def Let_def split: if_splits)
  then show "is_f32 r" "\<bar>r\<bar> < 2 ^ 128"
    using f32_mag_is_f32(1) [of "\<bar>x\<bar>"] by auto
qed

text \<open>A number of the type below a value is below its rounding.\<close>

lemma f32_of_ge:
  assumes "a \<le> x" and "is_f32 a" and "f32_of x = Fin r"
  shows "a \<le> r"
proof (cases "0 \<le> x")
  case True
  then have "r = f32_mag x" using assms(3) by (auto simp: f32_of_def Let_def split: if_splits)
  then show ?thesis
    using f32_mag_mono0 [of a x] f32_mag_fixed0 [of a] f32_mag_is_f32(2) [of x] True assms
    by (cases "0 \<le> a"; cases "x = 0") auto
next
  case False
  then have "r = - f32_mag (- x)" using assms(3) by (auto simp: f32_of_def Let_def split: if_splits)
  then show ?thesis using f32_mag_mono0 [of "- x" "- a"] f32_mag_fixed0 [of "- a"] False assms by simp
qed

text \<open>The error of a rounding is at most half a last place, so it is small against any bound of the number.\<close>

lemma round_even_error: "\<bar>of_int (round_even x) - x\<bar> \<le> 1 / 2"
proof -
  have "of_int \<lfloor>x\<rfloor> \<le> x" "x < of_int \<lfloor>x\<rfloor> + 1" by linarith+
  then show ?thesis by (auto simp: round_even_def Let_def abs_le_iff)
qed

lemma f32_mag_error:
  assumes "0 < x" and "x \<le> M" and "2 \<le> M"
  shows "\<bar>f32_mag x - x\<bar> \<le> M / 2 ^ 24"
proof -
  have "(2 :: rat) powi (- 126) \<le> 2 powi 1" by (intro power_int_increasing) auto
  then have "2 powi max (f32_exp x) (- 126) \<le> M"
    using f32_exp_bounds(1) [OF assms(1)] assms(2,3) by (auto simp: max_def)
  then have u: "f32_ulp x \<le> M / 2 ^ 23" by (simp add: f32_ulp_def power_int_diff)
  have "\<bar>f32_mag x - x\<bar> = \<bar>of_int (round_even (x / f32_ulp x)) - x / f32_ulp x\<bar> * f32_ulp x"
    using f32_ulp_pos(1) [of x] by (simp add: f32_mag_def left_diff_distrib abs_mult [of _ "f32_ulp x", symmetric, simplified])
  also have "\<dots> \<le> 1 / 2 * f32_ulp x" by (intro mult_right_mono round_even_error) simp
  finally show ?thesis using u by simp
qed

lemma f32_of_error:
  assumes "f32_of x = Fin r" and "\<bar>x\<bar> \<le> M" and "2 \<le> M"
  shows "\<bar>r - x\<bar> \<le> M / 2 ^ 24"
proof -
  consider "x = 0" | "0 < x" | "x < 0" by linarith
  then show ?thesis
  proof cases
    case 1
    then show ?thesis using assms(1,3) by (simp add: f32_of_def)
  next
    case 2
    then have "r = f32_mag x" using assms(1) by (auto simp: f32_of_def Let_def split: if_splits)
    then show ?thesis using f32_mag_error [of x M] 2 assms(2,3) by simp
  next
    case 3
    then have "r = - f32_mag (- x)" using assms(1) by (auto simp: f32_of_def Let_def split: if_splits)
    then show ?thesis using f32_mag_error [of "- x" M] 3 assms(2,3) by linarith
  qed
qed

lemma f32_div_Fin: "f32_div a b = Fin r \<Longrightarrow> is_f32 r \<and> \<bar>r\<bar> < 2 ^ 128"
  by (cases "(a, b)" rule: f32_div.cases) (auto dest: f32_of_Fin split: if_splits)

lemma is_f32_small: "\<bar>n\<bar> \<le> 2 ^ 24 \<Longrightarrow> is_f32 (of_int n)"
  unfolding is_f32_def
  by (intro exI [of _ "nat \<bar>n\<bar>"] exI [of _ 0]) (simp add: nat_le_iff)

lemma is_f32_1 [simp]: "is_f32 1"
  using is_f32_small [of 1] by simp

lemma is_f32_big: "is_f32 (2 ^ 100)"
  unfolding is_f32_def by (intro exI [of _ 1] exI [of _ 100]) simp

lemma f32_count: "n < 2 ^ 24 \<Longrightarrow> f32_add (Fin (of_nat n)) (Fin 1) = Fin (of_nat (Suc n))"
proof -
  assume "n < 2 ^ 24"
  then have le: "Suc n \<le> 2 ^ 24" by simp
  then have "(of_nat (Suc n) :: rat) \<le> of_nat (2 ^ 24)" by (simp only: of_nat_le_iff)
  then have "f32_of (of_nat (Suc n)) = Fin (of_nat (Suc n))"
    by (intro f32_of_fixed is_f32_nat le) simp
  then show ?thesis by (simp add: add.commute)
qed

section \<open>The ring buffer\<close>

text \<open>What the source relies on: the ring is a bounded queue. \<open>contents\<close> are its samples, oldest first.\<close>

definition ring_laws :: "'rb ring_ops \<Rightarrow> ('rb \<Rightarrow> f32 list) \<Rightarrow> bool" where
  "ring_laws ops contents \<longleftrightarrow>
     (\<forall>n. contents (ring_new ops n) = [] \<and> ring_capacity ops (ring_new ops n) = n)
   \<and> (\<forall>r. ring_len ops r = length (contents r) \<and> contents (ring_clear ops r) = []
        \<and> ring_capacity ops (ring_clear ops r) = ring_capacity ops r)
   \<and> (\<forall>x r. case ring_push ops x r of
          None \<Rightarrow> ring_capacity ops r \<le> length (contents r)
        | Some r' \<Rightarrow> length (contents r) < ring_capacity ops r \<and> contents r' = contents r @ [x]
            \<and> ring_capacity ops r' = ring_capacity ops r)
   \<and> (\<forall>r. case ring_pop ops r of
          None \<Rightarrow> contents r = []
        | Some (x, r') \<Rightarrow> contents r = x # contents r' \<and> ring_capacity ops r' = ring_capacity ops r)"

definition list_ring :: "(f32 list \<times> nat) ring_ops" where
  "list_ring =
     \<lparr>ring_new = \<lambda>n. ([], n),
      ring_push = \<lambda>x (xs, n). if length xs < n then Some (xs @ [x], n) else None,
      ring_pop = \<lambda>(xs, n). case xs of [] \<Rightarrow> None | x # xs \<Rightarrow> Some (x, (xs, n)),
      ring_clear = \<lambda>(xs, n). ([], n), ring_len = \<lambda>(xs, n). length xs, ring_capacity = snd\<rparr>"

lemma list_ring_laws: "ring_laws list_ring fst"
  by (auto simp: ring_laws_def list_ring_def split: list.splits)

lemma ring_pushD:
  assumes "ring_laws ops contents"
  shows "ring_push ops x r = None \<Longrightarrow> ring_capacity ops r \<le> length (contents r)"
    "ring_push ops x r = Some r' \<Longrightarrow> length (contents r) < ring_capacity ops r \<and> contents r' = contents r @ [x]
       \<and> ring_capacity ops r' = ring_capacity ops r"
proof -
  have "case ring_push ops x r of
          None \<Rightarrow> ring_capacity ops r \<le> length (contents r)
        | Some r' \<Rightarrow> length (contents r) < ring_capacity ops r \<and> contents r' = contents r @ [x]
            \<and> ring_capacity ops r' = ring_capacity ops r"
    using assms unfolding ring_laws_def by blast
  then show "ring_push ops x r = None \<Longrightarrow> ring_capacity ops r \<le> length (contents r)"
    "ring_push ops x r = Some r' \<Longrightarrow> length (contents r) < ring_capacity ops r \<and> contents r' = contents r @ [x]
       \<and> ring_capacity ops r' = ring_capacity ops r"
    by simp_all
qed

lemma ring_popD:
  assumes "ring_laws ops contents"
  shows "ring_pop ops r = None \<Longrightarrow> contents r = []"
    "ring_pop ops r = Some (x, r') \<Longrightarrow> contents r = x # contents r' \<and> ring_capacity ops r' = ring_capacity ops r"
proof -
  have "case ring_pop ops r of
          None \<Rightarrow> contents r = []
        | Some (x, r') \<Rightarrow> contents r = x # contents r' \<and> ring_capacity ops r' = ring_capacity ops r"
    using assms unfolding ring_laws_def by blast
  then show "ring_pop ops r = None \<Longrightarrow> contents r = []"
    "ring_pop ops r = Some (x, r') \<Longrightarrow> contents r = x # contents r' \<and> ring_capacity ops r' = ring_capacity ops r"
    by simp_all
qed

lemma ring_lenD: "ring_laws ops contents \<Longrightarrow> ring_len ops r = length (contents r)"
  by (simp add: ring_laws_def)

section \<open>Resampling\<close>

text \<open>Between two samples the fraction is not below -1, and far from an overflow.\<close>

definition resampling :: "rat \<Rightarrow> ('rb, 'd) audio_mixer \<Rightarrow> bool" where
  "resampling d m \<longleftrightarrow> am_decim_ratio m = Fin d \<and> am_producer m < length (am_rings m)
     \<and> (\<exists>f. am_fraction m = Fin f \<and> - 1 \<le> f \<and> f \<le> 2 ^ 100 \<and> is_f32 f)"

text \<open>The samples that the groups of input samples turn into; \<open>a\<close> is the sum of the \<open>k\<close> samples
  that an earlier call left over.\<close>

fun group_outputs :: "audio_filter list \<Rightarrow> f32 \<Rightarrow> nat \<Rightarrow> f32 list list \<Rightarrow> f32 list" where
  "group_outputs fs a k [] = []"
| "group_outputs fs a k (g # gs) =
     foldl (\<lambda>sample f. filter_apply f sample)
       (f32_div (foldl f32_add a g) (Fin (of_nat (k + length g)))) fs
     # group_outputs fs (Fin 0) 0 gs"

definition ring_accepts :: "'rb ring_ops \<Rightarrow> ('rb \<Rightarrow> f32 list) \<Rightarrow> 'rb \<Rightarrow> f32 list \<Rightarrow> 'rb \<Rightarrow> bool" where
  "ring_accepts ops contents r outs r' \<longleftrightarrow> ring_capacity ops r' = ring_capacity ops r
     \<and> contents r' = contents r @ take (ring_capacity ops r - length (contents r)) outs"

lemma ring_accepts_Nil [simp]: "ring_accepts ops contents r [] r"
  by (simp add: ring_accepts_def)

lemma ring_accepts_Cons:
  assumes laws: "ring_laws ops contents"
    and rest: "ring_accepts ops contents (case ring_push ops x r of Some r' \<Rightarrow> r' | None \<Rightarrow> r) outs r''"
  shows "ring_accepts ops contents r (x # outs) r''"
proof (cases "ring_push ops x r")
  case None
  then show ?thesis using rest ring_pushD(1) [OF laws None] by (simp add: ring_accepts_def)
next
  case (Some r')
  then obtain n where "ring_capacity ops r - length (contents r) = Suc n"
    using ring_pushD(2) [OF laws Some] by (metis Suc_diff_Suc)
  then show ?thesis using rest ring_pushD(2) [OF laws Some] Some
    by (simp add: ring_accepts_def) (simp add: diff_Suc)
qed

lemma mixer_push_ring:
  "am_producer m < length (am_rings m) \<Longrightarrow>
     mixer_ring (mixer_push ops m x) = (case ring_push ops x (mixer_ring m) of Some r \<Rightarrow> r | None \<Rightarrow> mixer_ring m)"
  by (simp add: mixer_push_def mixer_ring_def mixer_set_ring_def split: option.split)

lemma mixer_push_other [simp]:
  "am_producer (mixer_push ops m x) = am_producer m" "length (am_rings (mixer_push ops m x)) = length (am_rings m)"
  "am_filters (mixer_push ops m x) = am_filters m" "am_decim_ratio (mixer_push ops m x) = am_decim_ratio m"
  "am_fraction (mixer_push ops m x) = am_fraction m"
  by (simp_all add: mixer_push_def mixer_set_ring_def split: option.split)

lemma mixer_ring_upd [simp]:
  "mixer_ring (m\<lparr>am_avg := a\<rparr>) = mixer_ring m" "mixer_ring (m\<lparr>am_count := a\<rparr>) = mixer_ring m"
  "mixer_ring (m\<lparr>am_fraction := a\<rparr>) = mixer_ring m"
  by (simp_all add: mixer_ring_def)

text \<open>Where the ratio cuts the samples: a sample that finds the fraction at or below zero ends a group and
  adds the ratio to the fraction; every sample takes one from it.\<close>

definition next_fraction :: "f32 \<Rightarrow> f32 \<Rightarrow> f32" where
  "next_fraction d fr = f32_sub (if f32_le fr (Fin 0) then f32_add fr d else fr) (Fin 1)"

fun cut_groups :: "f32 \<Rightarrow> f32 \<Rightarrow> f32 list \<Rightarrow> f32 list list \<times> f32 list \<times> f32" where
  "cut_groups d fr [] = ([], [], fr)"
| "cut_groups d fr (s # samples) =
     (let (groups, rest, fr') = cut_groups d (next_fraction d fr) samples
      in if f32_le fr (Fin 0) then ([s] # groups, rest, fr')
         else (case groups of [] \<Rightarrow> ([], s # rest, fr') | g # gs \<Rightarrow> ((s # g) # gs, rest, fr')))"

lemma f32_sub_Fin: "f32_sub (Fin x) (Fin y) = f32_of (x - y)"
  by (simp add: f32_sub_def)

text \<open>With a ratio of at least two the fraction stays between -1 and the larger of the ratio and the
  fraction at the start, and follows the exact arithmetic up to the roundings.\<close>

lemma add_ratio:
  assumes "2 \<le> d" and "d \<le> M" and "is_f32 d" and "M \<le> 2 ^ 100" and "- 1 \<le> f" and "f \<le> 0"
  shows "\<exists>g. f32_add (Fin f) (Fin d) = Fin g \<and> 1 \<le> g \<and> g \<le> M \<and> is_f32 g \<and> \<bar>g - (f + d)\<bar> \<le> M / 2 ^ 24"
proof -
  have "\<exists>g. f32_of (f + d) = Fin g \<and> 1 \<le> g \<and> g \<le> d \<and> is_f32 g"
    by (rule f32_of_between) (use assms in auto)
  then obtain g where g: "f32_of (f + d) = Fin g" "1 \<le> g" "g \<le> d" "is_f32 g" by blast
  moreover have "\<bar>g - (f + d)\<bar> \<le> M / 2 ^ 24" by (rule f32_of_error [OF g(1)]) (use assms in auto)
  ultimately show ?thesis using assms(2) by auto
qed

lemma less_one:
  assumes "2 \<le> M" and "M \<le> 2 ^ 100" and "0 < g" and "g \<le> M" and "is_f32 g"
  shows "\<exists>h. f32_sub (Fin g) (Fin 1) = Fin h \<and> - 1 \<le> h \<and> h \<le> M \<and> is_f32 h \<and> \<bar>h - (g - 1)\<bar> \<le> M / 2 ^ 24"
proof -
  have "\<exists>h. f32_of (g - 1) = Fin h \<and> - 1 \<le> h \<and> h \<le> g \<and> is_f32 h"
    by (rule f32_of_between) (use assms in auto)
  then obtain h where h: "f32_of (g - 1) = Fin h" "- 1 \<le> h" "h \<le> g" "is_f32 h" by blast
  moreover have "\<bar>h - (g - 1)\<bar> \<le> M / 2 ^ 24" by (rule f32_of_error [OF h(1)]) (use assms in auto)
  ultimately show ?thesis using assms(4) by (auto simp: f32_sub_Fin)
qed

lemma next_fraction_step:
  assumes "2 \<le> d" and "d \<le> M" and "is_f32 d" and "M \<le> 2 ^ 100" and "- 1 \<le> f" and "f \<le> M" and "is_f32 f"
  shows "\<exists>h. next_fraction (Fin d) (Fin f) = Fin h \<and> - 1 \<le> h \<and> h \<le> M \<and> is_f32 h
    \<and> \<bar>h - (f + (if f \<le> 0 then d else 0) - 1)\<bar> \<le> (if f \<le> 0 then 2 else 1) * (M / 2 ^ 24)"
proof (cases "f \<le> 0")
  case True
  from add_ratio [OF assms(1-5) True] obtain g where
    g: "f32_add (Fin f) (Fin d) = Fin g" "1 \<le> g" "g \<le> M" "is_f32 g" "\<bar>g - (f + d)\<bar> \<le> M / 2 ^ 24" by blast
  have "2 \<le> M" "0 < g" using assms(1,2) g(2) by auto
  from less_one [OF this(1) assms(4) this(2) g(3,4)] obtain h where
    h: "f32_sub (Fin g) (Fin 1) = Fin h" "- 1 \<le> h" "h \<le> M" "is_f32 h" "\<bar>h - (g - 1)\<bar> \<le> M / 2 ^ 24" by blast
  have "\<bar>h - (f + d - 1)\<bar> \<le> 2 * (M / 2 ^ 24)" using g(5) h(5) by linarith
  then show ?thesis using True g(1) h(1-4) by (auto simp: next_fraction_def simp del: f32_add.simps)
next
  case False
  have "2 \<le> M" "0 < f" using assms(1,2) False by auto
  from less_one [OF this(1) assms(4) this(2) assms(6,7)] False show ?thesis by (simp add: next_fraction_def)
qed

lemma cut_groups_drift:
  assumes d: "2 \<le> d" "d \<le> M" "is_f32 d" "M \<le> 2 ^ 100" and "- 1 \<le> f" and "f \<le> M" and "is_f32 f"
    and "cut_groups (Fin d) (Fin f) samples = (groups, rest, fr)"
  shows "\<exists>f'. fr = Fin f' \<and> - 1 \<le> f' \<and> f' \<le> M \<and> is_f32 f'
    \<and> \<bar>f' - (f + of_nat (length groups) * d - of_nat (length samples))\<bar>
      \<le> of_nat (length groups + length samples) * (M / 2 ^ 24)"
  using assms(5-)
proof (induction samples arbitrary: f groups rest fr)
  case (Cons s samples)
  obtain h where h: "next_fraction (Fin d) (Fin f) = Fin h" "- 1 \<le> h" "h \<le> M" "is_f32 h"
    "\<bar>h - (f + (if f \<le> 0 then d else 0) - 1)\<bar> \<le> (if f \<le> 0 then 2 else 1) * (M / 2 ^ 24)"
    using next_fraction_step [OF d Cons.prems(1-3)] by blast
  obtain gs rest1 fr1 where c: "cut_groups (Fin d) (Fin h) samples = (gs, rest1, fr1)" by (rule prod_cases3)
  have n: "fr = fr1" "length groups = (if f \<le> 0 then Suc (length gs) else length gs)"
    using Cons.prems(4) by (auto simp: h(1) c split: list.splits if_splits)
  from Cons.IH [OF h(2-4) c] obtain f' where f': "fr1 = Fin f'" "- 1 \<le> f'" "f' \<le> M" "is_f32 f'"
    "\<bar>f' - (h + of_nat (length gs) * d - of_nat (length samples))\<bar> \<le> of_nat (length gs + length samples) * (M / 2 ^ 24)"
    by blast
  have len: "of_nat (length groups) = (of_nat (length gs) + (if f \<le> 0 then 1 else 0) :: rat)" by (simp add: n(2))
  have "\<bar>f' - (f + of_nat (length groups) * d - of_nat (length (s # samples)))\<bar>
      \<le> of_nat (length groups + length (s # samples)) * (M / 2 ^ 24)"
  proof (cases "f \<le> 0")
    case True
    then show ?thesis using h(5) f'(5)
      unfolding of_nat_add len length_Cons of_nat_Suc distrib_right if_P [OF True] by linarith
  next
    case False
    then show ?thesis using h(5) f'(5)
      unfolding of_nat_add len length_Cons of_nat_Suc distrib_right if_not_P [OF False] by linarith
  qed
  then show ?case using f' n(1) by blast
qed simp

text \<open>A sample leads to at most one output.\<close>

lemma consume_sample_step:
  fixes m :: "('rb, 'd) audio_mixer"
  assumes r: "resampling d m" and d: "2 \<le> d" "d \<le> 2 ^ 100" "is_f32 d"
  shows "\<exists>f'. - 1 \<le> f' \<and> f' \<le> 2 ^ 100 \<and> is_f32 f' \<and> next_fraction (Fin d) (am_fraction m) = Fin f' \<and>
    consume_sample ops m n s =
      (let m1 = m\<lparr>am_avg := f32_add (am_avg m) s, am_count := f32_add (am_count m) (Fin 1)\<rparr>
       in if f32_le (am_fraction m) (Fin 0)
          then Some (n + 1, (mixer_push ops m1 (mixer_filtered m (f32_div (am_avg m1) (am_count m1))))
                 \<lparr>am_avg := Fin 0, am_count := Fin 0, am_fraction := Fin f'\<rparr>)
          else Some (n, m1\<lparr>am_fraction := Fin f'\<rparr>))"
proof -
  obtain f where f: "am_decim_ratio m = Fin d" "am_fraction m = Fin f" "- 1 \<le> f" "f \<le> 2 ^ 100" "is_f32 f"
    using r by (auto simp: resampling_def)
  have stop: "consume_loop ops m n = Some (n, m)" if "\<not> f32_le (am_fraction m) (Fin 0)" for m :: "('rb, 'd) audio_mixer" and n
    by (subst consume_loop.simps) (simp add: that)
  obtain f' where f': "- 1 \<le> f'" "f' \<le> 2 ^ 100" "is_f32 f'" "next_fraction (Fin d) (Fin f) = Fin f'"
    using next_fraction_step [OF d(1,2,3) order_refl f(3-5)] by blast
  show ?thesis
  proof (cases "f \<le> 0")
    case True
    from add_ratio [OF d(1,2,3) order_refl f(3) True] obtain g where
      g: "f32_add (Fin f) (Fin d) = Fin g" "1 \<le> g" by blast
    let ?m = "m\<lparr>am_avg := f32_add (am_avg m) s, am_count := f32_add (am_count m) (Fin 1)\<rparr>"
    have "consume_loop ops ?m n = Some (n + 1, (mixer_push ops ?m (mixer_filtered ?m (f32_div (am_avg ?m) (am_count ?m))))
          \<lparr>am_avg := Fin 0, am_count := Fin 0, am_fraction := Fin g\<rparr>)"
      using f True g by (subst consume_loop.simps) (simp add: stop del: f32_add.simps)
    moreover have "f32_sub (Fin g) (Fin 1) = Fin f'" using f'(4) True g(1) by (simp add: next_fraction_def del: f32_add.simps)
    ultimately show ?thesis using True f f'
      by (intro exI [of _ f']) (simp add: consume_sample_def mixer_filtered_def Let_def del: f32_add.simps)
  next
    case False
    moreover have "f32_sub (Fin f) (Fin 1) = Fin f'" using f'(4) False by (simp add: next_fraction_def)
    ultimately show ?thesis using f f'
      by (intro exI [of _ f']) (simp add: consume_sample_def stop Let_def del: f32_add.simps)
  qed
qed

text \<open>The whole of a call.\<close>

lemma consume_samples_groups:
  assumes laws: "ring_laws ops contents" and d: "2 \<le> d" "d \<le> 2 ^ 100" "is_f32 d"
    and "resampling d m" and "am_count m = Fin (of_nat k)" and "k + length samples \<le> 2 ^ 24"
  shows "\<exists>groups rest m'. consume_samples ops m n samples = Some (n + length groups, m')
    \<and> cut_groups (Fin d) (am_fraction m) samples = (groups, rest, am_fraction m')
    \<and> concat groups @ rest = samples \<and> [] \<notin> set groups \<and> resampling d m' \<and> am_producer m' = am_producer m
    \<and> ring_accepts ops contents (mixer_ring m) (group_outputs (am_filters m) (am_avg m) k groups) (mixer_ring m')
    \<and> am_avg m' = foldl f32_add (if groups = [] then am_avg m else Fin 0) rest
    \<and> am_count m' = Fin (of_nat ((if groups = [] then k else 0) + length rest))"
  using assms(5-)
proof (induction samples arbitrary: m k n)
  case Nil
  then show ?case by (intro exI [of _ "[]"]) simp
next
  case (Cons s samples)
  obtain f' where f': "- 1 \<le> f'" "f' \<le> 2 ^ 100" "is_f32 f'" "next_fraction (Fin d) (am_fraction m) = Fin f'" and step: "consume_sample ops m n s =
      (let m1 = m\<lparr>am_avg := f32_add (am_avg m) s, am_count := f32_add (am_count m) (Fin 1)\<rparr>
       in if f32_le (am_fraction m) (Fin 0)
          then Some (n + 1, (mixer_push ops m1 (mixer_filtered m (f32_div (am_avg m1) (am_count m1))))
                 \<lparr>am_avg := Fin 0, am_count := Fin 0, am_fraction := Fin f'\<rparr>)
          else Some (n, m1\<lparr>am_fraction := Fin f'\<rparr>))"
    using consume_sample_step [OF Cons.prems(1) d] by blast
  let ?m1 = "m\<lparr>am_avg := f32_add (am_avg m) s, am_count := f32_add (am_count m) (Fin 1)\<rparr>"
  have k: "am_count ?m1 = Fin (of_nat (Suc k))" using Cons.prems(2,3) by (simp add: f32_count del: f32_add.simps of_nat_Suc)
  show ?case
  proof (cases "f32_le (am_fraction m) (Fin 0)")
    case True
    let ?x = "mixer_filtered m (f32_div (am_avg ?m1) (am_count ?m1))"
    let ?m2 = "(mixer_push ops ?m1 ?x)\<lparr>am_avg := Fin 0, am_count := Fin 0, am_fraction := Fin f'\<rparr>"
    have "resampling d ?m2" using Cons.prems(1) f' by (auto simp: resampling_def)
    from Cons.IH [OF this, of 0 "n + 1"] Cons.prems(3) obtain groups rest m' where
      ih: "consume_samples ops ?m2 (n + 1) samples = Some (n + 1 + length groups, m')"
      "cut_groups (Fin d) (Fin f') samples = (groups, rest, am_fraction m')"
      "concat groups @ rest = samples" "[] \<notin> set groups" "resampling d m'" "am_producer m' = am_producer m"
      "ring_accepts ops contents (mixer_ring ?m2) (group_outputs (am_filters m) (Fin 0) 0 groups) (mixer_ring m')"
      "am_avg m' = foldl f32_add (Fin 0) rest" "am_count m' = Fin (of_nat (length rest))"
      by auto
    have "mixer_ring ?m2 = (case ring_push ops ?x (mixer_ring m) of Some r \<Rightarrow> r | None \<Rightarrow> mixer_ring m)"
      using Cons.prems(1) mixer_push_ring [of ?m1 ops ?x] by (simp add: resampling_def cong: option.case_cong)
    with ih(7) have "ring_accepts ops contents (mixer_ring m)
        (?x # group_outputs (am_filters m) (Fin 0) 0 groups) (mixer_ring m')"
      by (intro ring_accepts_Cons [OF laws]) simp
    then have "ring_accepts ops contents (mixer_ring m) (group_outputs (am_filters m) (am_avg m) k ([s] # groups)) (mixer_ring m')"
      using k by (simp add: mixer_filtered_def)
    then show ?thesis using ih True step f'(4)
      by (intro exI [of _ "[s] # groups"] exI [of _ rest] exI [of _ m']) (simp add: Let_def)
  next
    case False
    let ?m2 = "?m1\<lparr>am_fraction := Fin f'\<rparr>"
    have "resampling d ?m2" using Cons.prems(1) f' by (auto simp: resampling_def)
    from Cons.IH [OF this, of "Suc k" n] Cons.prems(3) k obtain groups rest m' where
      ih: "consume_samples ops ?m2 n samples = Some (n + length groups, m')"
      "cut_groups (Fin d) (Fin f') samples = (groups, rest, am_fraction m')"
      "concat groups @ rest = samples" "[] \<notin> set groups" "resampling d m'" "am_producer m' = am_producer m"
      "ring_accepts ops contents (mixer_ring m) (group_outputs (am_filters m) (f32_add (am_avg m) s) (Suc k) groups) (mixer_ring m')"
      "am_avg m' = foldl f32_add (if groups = [] then f32_add (am_avg m) s else Fin 0) rest"
      "am_count m' = Fin (of_nat ((if groups = [] then Suc k else 0) + length rest))"
      by auto
    show ?thesis
    proof (cases groups)
      case Nil
      then show ?thesis using ih False step f'(4)
        by (intro exI [of _ "[]"] exI [of _ "s # rest"] exI [of _ m']) (simp add: Let_def)
    next
      case (Cons g gs)
      then show ?thesis using ih False step f'(4)
        by (intro exI [of _ "(s # g) # gs"] exI [of _ rest] exI [of _ m']) (simp add: Let_def)
    qed
  qed
qed

section \<open>The callback\<close>

lemma callback_fill_queue:
  assumes laws: "ring_laws ops contents"
  shows "\<exists>r'. callback_fill ops r n = (take n (contents r) @ replicate (n - length (contents r)) (Fin 0), r')
    \<and> contents r' = drop n (contents r) \<and> ring_capacity ops r' = ring_capacity ops r"
proof (induction n arbitrary: r)
  case (Suc n)
  show ?case
  proof (cases "ring_pop ops r")
    case None
    then show ?thesis using Suc [of r] ring_popD(1) [OF laws None] by auto
  next
    case (Some p)
    then obtain x r1 where p: "ring_pop ops r = Some (x, r1)" by (cases p) auto
    then show ?thesis using Suc [of r1] ring_popD(2) [OF laws p] by auto
  qed
qed simp

lemma callback_read_queue:
  assumes laws: "ring_laws ops contents" and c: "ac_buffer c < length rings"
  defines "q \<equiv> contents (rings ! ac_buffer c)"
  shows "\<exists>out c' rings'. callback_read ops c rings n = (out, c', rings') \<and> ac_buffer c' = ac_buffer c
    \<and> (if \<not> ac_initialized c \<and> length q < n
       then out = replicate n (Fin 0) \<and> c' = c \<and> rings' = rings
       else out = take n q @ replicate (n - length q) (Fin 0) \<and> ac_initialized c'
         \<and> contents (rings' ! ac_buffer c) = drop n q
         \<and> (\<forall>i. i \<noteq> ac_buffer c \<longrightarrow> rings' ! i = rings ! i))"
proof -
  obtain r' where "callback_fill ops (rings ! ac_buffer c) n = (take n q @ replicate (n - length q) (Fin 0), r')"
    "contents r' = drop n q"
    using callback_fill_queue [OF laws, of "rings ! ac_buffer c" n] unfolding q_def by blast
  then show ?thesis using c ring_lenD [OF laws]
    by (auto simp: callback_read_def callback_len_def q_def Let_def)
qed

lemma mixer_set_ratio_other [simp]:
  "am_producer (mixer_set_ratio ops m b x) = am_producer m" "am_rings (mixer_set_ratio ops m b x) = am_rings m"
  "am_filters (mixer_set_ratio ops m b x) = am_filters m" "am_fraction (mixer_set_ratio ops m b x) = am_fraction m"
  "am_avg (mixer_set_ratio ops m b x) = am_avg m" "am_count (mixer_set_ratio ops m b x) = am_count m"
  "mixer_ring (mixer_set_ratio ops m b x) = mixer_ring m"
  by (simp_all add: mixer_set_ratio_def mixer_ring_def Let_def)

section \<open>From the chips to the speaker\<close>

text \<open>C5: The mixer and the callback are a resampler and a bounded queue. With a ratio of at least two, a
  call of \<open>consume\<close> ends; it cuts its samples into groups, none of them empty, with the samples
  that are left over for the next call. Where it cuts is decided by the ratio (\<open>cut_groups\<close>): a
  sample that finds the fraction at or below zero ends its group and adds the ratio, and each sample
  takes one off. So the number of groups times the ratio is the number of samples, up to the
  difference of the fractions, which are between -1 and the larger of the ratio and the fraction at the start,
  and the rounding of each step. Each group becomes one output, its mean put through the
  filters, the first together with what the last call left; the outputs that find room in the ring
  go to its end, in order, the others are lost. The callback then plays the oldest samples of the
  ring, then silence; before the ring has once held a whole request, it plays silence only and
  takes nothing.\<close>

theorem mixer_to_speaker:
  fixes m :: "('rb, 'd) audio_mixer"
  assumes "ring_laws ops contents"
    and "am_decim_ratio (mixer_set_ratio ops m drc delta) = Fin d" and "2 \<le> d" and "d \<le> 2 ^ 100"
    and "am_producer m < length (am_rings m)" and "ac_buffer c = am_producer m"
    and "am_fraction m = Fin f" and "- 1 \<le> f" and "f \<le> 2 ^ 100" and "is_f32 f"
    and "am_count m = Fin (of_nat k)" and "k + length samples \<le> 2 ^ 24"
  shows "\<exists>groups rest m' out c' rings' queue.
      mixer_consume ops m samples drc delta = Some (length groups, m')
    \<and> cut_groups (Fin d) (Fin f) samples = (groups, rest, am_fraction m')
    \<and> concat groups @ rest = samples \<and> [] \<notin> set groups
    \<and> am_avg m' = foldl f32_add (if groups = [] then am_avg m else Fin 0) rest
    \<and> am_count m' = Fin (of_nat ((if groups = [] then k else 0) + length rest))
    \<and> (\<exists>f'. am_fraction m' = Fin f' \<and> - 1 \<le> f' \<and> f' \<le> max f d \<and> is_f32 f'
        \<and> \<bar>of_nat (length groups) * d - (of_nat (length samples) + f' - f)\<bar>
          \<le> of_nat (length groups + length samples) * (max f d / 2 ^ 24))
    \<and> queue = contents (mixer_ring m)
        @ take (ring_capacity ops (mixer_ring m) - length (contents (mixer_ring m)))
            (group_outputs (am_filters m) (am_avg m) k groups)
    \<and> callback_read ops c (am_rings m') n = (out, c', rings')
    \<and> (if \<not> ac_initialized c \<and> length queue < n
       then out = replicate n (Fin 0) \<and> c' = c \<and> rings' = am_rings m'
       else out = take n queue @ replicate (n - length queue) (Fin 0) \<and> ac_initialized c'
         \<and> contents (rings' ! ac_buffer c) = drop n queue)"
proof -
  let ?m = "mixer_set_ratio ops m drc delta"
  have d: "is_f32 d"
    using assms(2) f32_div_Fin by (auto simp: mixer_set_ratio_def Let_def)
  have "resampling d ?m" using assms by (auto simp: resampling_def)
  have k: "am_count ?m = Fin (of_nat k)" using assms(11) by simp
  from consume_samples_groups [OF assms(1,3,4) d \<open>resampling d ?m\<close> k assms(12), of 0] obtain groups rest m' where
    cut: "cut_groups (Fin d) (Fin f) samples = (groups, rest, am_fraction m')" and
    m': "mixer_consume ops m samples drc delta = Some (length groups, m')" "concat groups @ rest = samples"
    "[] \<notin> set groups" "resampling d m'" "am_producer m' = am_producer m"
    "ring_accepts ops contents (mixer_ring m) (group_outputs (am_filters m) (am_avg m) k groups) (mixer_ring m')"
    "am_avg m' = foldl f32_add (if groups = [] then am_avg m else Fin 0) rest"
    "am_count m' = Fin (of_nat ((if groups = [] then k else 0) + length rest))"
    unfolding mixer_set_ratio_other assms(7) mixer_consume_def [symmetric] add_0 by blast
  from cut_groups_drift [OF assms(3) _ d _ assms(8) _ assms(10) cut, of "max f d"] assms(4,9) obtain f' where
    f': "am_fraction m' = Fin f'" "- 1 \<le> f'" "f' \<le> max f d" "is_f32 f'"
    "\<bar>f' - (f + of_nat (length groups) * d - of_nat (length samples))\<bar>
      \<le> of_nat (length groups + length samples) * (max f d / 2 ^ 24)"
    by auto
  have "\<bar>of_nat (length groups) * d - (of_nat (length samples) + f' - f)\<bar>
      \<le> of_nat (length groups + length samples) * (max f d / 2 ^ 24)"
    using f'(5) by linarith
  with f'(1-4) have drift: "\<exists>f'. am_fraction m' = Fin f' \<and> - 1 \<le> f' \<and> f' \<le> max f d \<and> is_f32 f'
        \<and> \<bar>of_nat (length groups) * d - (of_nat (length samples) + f' - f)\<bar>
          \<le> of_nat (length groups + length samples) * (max f d / 2 ^ 24)"
    by blast
  have c: "ac_buffer c < length (am_rings m')" and ring: "am_rings m' ! ac_buffer c = mixer_ring m'"
    using m'(4,5) assms(6) by (auto simp: resampling_def mixer_ring_def)
  let ?queue = "contents (mixer_ring m) @ take (ring_capacity ops (mixer_ring m) - length (contents (mixer_ring m)))
      (group_outputs (am_filters m) (am_avg m) k groups)"
  have queue: "contents (mixer_ring m') = ?queue" using m'(6) by (simp add: ring_accepts_def)
  from callback_read_queue [OF assms(1) c, of n] obtain out c' rings' where
    out: "callback_read ops c (am_rings m') n = (out, c', rings')"
    "if \<not> ac_initialized c \<and> length ?queue < n
       then out = replicate n (Fin 0) \<and> c' = c \<and> rings' = am_rings m'
       else out = take n ?queue @ replicate (n - length ?queue) (Fin 0)
         \<and> ac_initialized c' \<and> contents (rings' ! ac_buffer c) = drop n ?queue
         \<and> (\<forall>i. i \<noteq> ac_buffer c \<longrightarrow> rings' ! i = am_rings m' ! i)"
    unfolding ring queue by blast
  have heard: "if \<not> ac_initialized c \<and> length ?queue < n
       then out = replicate n (Fin 0) \<and> c' = c \<and> rings' = am_rings m'
       else out = take n ?queue @ replicate (n - length ?queue) (Fin 0) \<and> ac_initialized c'
         \<and> contents (rings' ! ac_buffer c) = drop n ?queue"
    using out(2) by presburger
  show ?thesis
    by (rule exI [of _ groups], rule exI [of _ rest], rule exI [of _ m'], rule exI [of _ out], rule exI [of _ c'],
        rule exI [of _ rings'], rule exI [of _ ?queue], intro conjI)
      (rule m' cut drift refl out(1) heard)+
qed

text \<open>Four input samples for two outputs, a ring with one place, and a callback that asks for two.\<close>

definition sample_mixer :: "(f32 list \<times> nat, unit) audio_mixer" where
  "sample_mixer =
     \<lparr>am_rings = [([], 1)], am_device = None, am_producer = 0, am_consumer = None, am_input_frequency = Fin 4,
       am_output_frequency = Fin 2, am_decim_ratio = Fin 2, am_pitch_ratio = Fin 1, am_fraction = Fin 0,
       am_avg = Fin 0, am_count = Fin 0, am_filters = []\<rparr>"

lemma f32_of_small: "\<bar>n\<bar> \<le> 2 ^ 24 \<Longrightarrow> f32_of (of_int n) = Fin (of_int n)"
proof -
  assume n: "\<bar>n\<bar> \<le> 2 ^ 24"
  then have "(of_int \<bar>n\<bar> :: rat) \<le> of_int (2 ^ 24)" by (simp only: of_int_le_iff)
  then show ?thesis using n by (intro f32_of_fixed is_f32_small) auto
qed

theorem mixer_to_speaker_witness:
  "\<exists>k m'. mixer_consume list_ring sample_mixer [Fin 1, Fin 2, Fin 3, Fin 4] False (Fin 0) = Some (k, m')
    \<and> fst (callback_read list_ring \<lparr>ac_initialized = False, ac_buffer = 0\<rparr> (am_rings m') 2) = replicate 2 (Fin 0)"
proof -
  have "am_decim_ratio (mixer_set_ratio list_ring sample_mixer False (Fin 0)) = Fin 2"
    using f32_of_small [of 2] by (simp add: mixer_set_ratio_def sample_mixer_def Let_def)
  from mixer_to_speaker [OF list_ring_laws this, where c = "\<lparr>ac_initialized = False, ac_buffer = 0\<rparr>" and f = 0
      and k = 0 and samples = "[Fin 1, Fin 2, Fin 3, Fin 4]" and n = 2]
  show ?thesis
    by (auto simp: sample_mixer_def mixer_ring_def list_ring_def min_def split: if_splits)
qed

section \<open>The filters\<close>

lemma blackman_window_length:
  "blackman_window cs m = Some h \<Longrightarrow> length h = 2 * (m div 2) + 1"
  by (auto simp: blackman_window_def Let_def split: if_splits)

lemma invert_taps_length [simp]: "length (invert_taps i taps) = length taps"
  by (induction taps arbitrary: i) (simp_all add: Let_def)

text \<open>A filter is symmetric about its middle tap, which is what \<open>spectral_invert\<close> changes.\<close>

definition filter_wf :: "audio_filter \<Rightarrow> bool" where
  "filter_wf f \<longleftrightarrow> length (ws_taps (fl_sinc f)) = 2 * ws_latency (fl_sinc f) + 1"

lemma window_sinc_new_taps:
  "window_sinc_new sn cs r cutoff bw = Some w \<Longrightarrow> length (ws_taps w) = 2 * ws_latency w + 1"
  by (auto simp: window_sinc_new_def Let_def dest!: blackman_window_length split: if_splits bind_splits)

lemma spectral_invert_ok:
  "length (ws_taps w) = 2 * ws_latency w + 1 \<Longrightarrow>
     \<exists>w'. spectral_invert w = Some w' \<and> length (ws_taps w') = 2 * ws_latency w' + 1"
  by (simp add: spectral_invert_def Let_def)

lemma is_f32_powi: "- 149 \<le> j \<Longrightarrow> is_f32 (2 powi j)"
  unfolding is_f32_def by (intro exI [of _ 1] exI [of _ j]) simp

text \<open>What the assertions of the constructor ask of the sampling rate.\<close>

lemma window_sinc_new_ok:
  assumes "0 \<le> c" and "2 * c \<le> r" and "1500 * 2 \<le> r" and "r \<le> 2 ^ 40"
  shows "\<exists>w. window_sinc_new sn cs (Fin r) (Fin c) (Fin 1500) = Some w"
proof -
  have half: "is_f32 (1 / 2)" using is_f32_powi [of "- 1"] by simp
  have tiny: "is_f32 (1 / 2 ^ 30)" using is_f32_powi [of "- 30"] by (simp add: power_int_def field_simps)
  have "\<exists>x. f32_of (c / r) = Fin x \<and> 0 \<le> x \<and> x \<le> 1 / 2 \<and> is_f32 x"
    by (rule f32_of_between) (use assms half in \<open>auto simp: field_simps\<close>)
  then obtain fc where fc: "f32_of (c / r) = Fin fc" "0 \<le> fc" "fc \<le> 1 / 2" by blast
  have "\<exists>x. f32_of (1500 / r) = Fin x \<and> 1 / 2 ^ 30 \<le> x \<and> x \<le> 1 / 2 \<and> is_f32 x"
    by (rule f32_of_between) (use assms half tiny in \<open>auto simp: field_simps\<close>)
  then obtain bw where bw: "f32_of (1500 / r) = Fin bw" "1 / 2 ^ 30 \<le> bw" "bw \<le> 1 / 2" by blast
  have "0 < bw" using bw(2) by (rule less_le_trans [rotated]) simp
  have "\<exists>x. f32_of (4 / bw) = Fin x \<and> 0 \<le> x \<and> x \<le> 2 ^ 32 \<and> is_f32 x"
    by (rule f32_of_between) (use \<open>0 < bw\<close> bw is_f32_powi [of 32] in \<open>auto simp: field_simps\<close>)
  then obtain m where m: "f32_of (4 / bw) = Fin m" "0 \<le> m" "m \<le> 2 ^ 32" by blast
  then have "\<lfloor>m\<rfloor> \<le> 2 ^ 32" by (simp add: floor_le_iff)
  then have "f32_to_usize (Fin m) \<le> 2 ^ 32" using m(2) by (simp add: nat_le_iff)
  then have "\<exists>h. blackman_window cs (f32_to_usize (Fin m)) = Some h"
    unfolding blackman_window_def Let_def by (auto split: if_splits)
  then show ?thesis using assms(3) fc bw m \<open>0 < bw\<close>
    by (auto simp: window_sinc_new_def Let_def in_half_def simp del: f32_to_usize.simps)
qed

lemma window_sinc_new_panics:
  assumes "0 < r" and "r \<le> 23999"
  shows "window_sinc_new sn cs (Fin r) (Fin 12000) (Fin 1500) = None"
proof (cases "f32_of (12000 / r)")
  case (Fin x)
  let ?a = "1 / 2 + 1 / 2 ^ 20 :: rat"
  have "(2 :: rat) powi - 20 = 1 / 2 ^ 20" by (simp add: power_int_def power_divide)
  then have "\<bar>?a\<bar> = of_nat 524289 * 2 powi - 20" by simp
  moreover have "(524289 :: nat) \<le> 2 ^ 24" "- 149 \<le> (- 20 :: int)" by simp_all
  ultimately have a: "is_f32 ?a" unfolding is_f32_def by blast
  have "?a * r \<le> ?a * 23999" using assms by (intro mult_left_mono) auto
  then have "?a \<le> 12000 / r" using assms by (simp add: pos_le_divide_eq)
  from f32_of_ge [OF this a Fin] have "1 / 2 < x" by (auto simp: field_simps)
  then show ?thesis using Fin assms by (simp add: window_sinc_new_def Let_def in_half_def)
qed (use assms in \<open>auto simp: window_sinc_new_def Let_def in_half_def\<close>)

text \<open>C27: The mixer can be built for a sampling rate of 24000 and more, and then each of its filters has
  an odd number of taps about its middle, as \<open>spectral_invert\<close> needs. For a rate below that (a lower
  one that \<open>f32\<close> tells apart by more than rounding) the constructor panics, because the cutoff of
  its last filter is above half of the rate. The application passes the sampling rate divided by
  the speed, so with 44100 Hz it panics at twice the speed.\<close>

theorem mixer_new_rates:
  "(24000 \<le> r \<and> r \<le> 2 ^ 40 \<longrightarrow>
      returns (mixer_new ops sn cs freq (Fin r) buffer_size) (\<lambda>m. length (am_filters m) = 3
        \<and> (\<forall>f\<in>set (am_filters m). filter_wf f) \<and> am_consumer m = Some (am_producer m)
        \<and> mixer_ring m = ring_new ops buffer_size))
   \<and> (0 < r \<and> r \<le> 23999 \<longrightarrow> mixer_new ops sn cs freq (Fin r) buffer_size = None)"
proof (intro conjI impI)
  assume r: "24000 \<le> r \<and> r \<le> 2 ^ 40"
  then have low: "1500 * 2 \<le> r" and top: "r \<le> 2 ^ 40" by linarith+
  have sinc: "\<exists>w. window_sinc_new sn cs (Fin r) (Fin c) (Fin 1500) = Some w" if "0 \<le> c" "c \<le> 12000" for c
    using that r by (intro window_sinc_new_ok low top) linarith+
  have high: "\<exists>f. filter_high_pass sn cs (Fin r) (Fin c) (Fin 1500) = Some f \<and> filter_wf f"
    if c: "0 \<le> c" "c \<le> 12000" for c
  proof -
    obtain w where w: "window_sinc_new sn cs (Fin r) (Fin c) (Fin 1500) = Some w" using sinc [OF c] by blast
    from spectral_invert_ok [OF window_sinc_new_taps [OF w]] show ?thesis
      by (auto simp: filter_high_pass_def filter_wf_def w)
  qed
  obtain w where w: "window_sinc_new sn cs (Fin r) (Fin 12000) (Fin 1500) = Some w" using sinc [of 12000] by auto
  have "filter_wf \<lparr>fl_ty = LowPass, fl_sinc = w\<rparr>"
    using window_sinc_new_taps [OF w] by (simp add: filter_wf_def)
  moreover obtain f1 f2 where
    "filter_high_pass sn cs (Fin r) (Fin 90) (Fin 1500) = Some f1" "filter_wf f1"
    "filter_high_pass sn cs (Fin r) (Fin 440) (Fin 1500) = Some f2" "filter_wf f2"
    using high [of 90] high [of 440] by auto
  ultimately show "returns (mixer_new ops sn cs freq (Fin r) buffer_size) (\<lambda>m. length (am_filters m) = 3
        \<and> (\<forall>f\<in>set (am_filters m). filter_wf f) \<and> am_consumer m = Some (am_producer m)
        \<and> mixer_ring m = ring_new ops buffer_size)"
    by (simp add: mixer_new_def mixer_ring_def filter_low_pass_def w)
next
  assume "0 < r \<and> r \<le> 23999"
  then have "filter_low_pass sn cs (Fin r) (Fin 12000) (Fin 1500) = None"
    using window_sinc_new_panics [of r sn cs] by (simp add: filter_low_pass_def)
  then show "mixer_new ops sn cs freq (Fin r) buffer_size = None"
    by (auto simp: mixer_new_def bind_eq_None_conv)
qed

text \<open>At 44100 Hz, and at twice the speed.\<close>

theorem mixer_new_rates_witness:
  "(mixer_new list_ring (\<lambda>x. x) (\<lambda>x. x) (Fin 1789773) (Fin 44100) 4096 :: (_, unit) audio_mixer option) \<noteq> None
   \<and> f32_div (Fin 44100) (Fin 2) = Fin 22050
   \<and> (mixer_new list_ring (\<lambda>x. x) (\<lambda>x. x) (Fin 1789773) (Fin 22050) 4096 :: (_, unit) audio_mixer option) = None"
proof (intro conjI)
  let ?m = "\<lambda>r. mixer_new list_ring (\<lambda>x. x) (\<lambda>x. x) (Fin 1789773) (Fin r) 4096 :: (_, unit) audio_mixer option"
  have "24000 \<le> (44100 :: rat) \<and> (44100 :: rat) \<le> 2 ^ 40" by simp
  then have "\<exists>Q. returns (?m 44100) Q" using mixer_new_rates by blast
  then show "?m 44100 \<noteq> None" by (metis returns_None)
  have "0 < (22050 :: rat) \<and> (22050 :: rat) \<le> 23999" by simp
  then show "?m 22050 = None" using mixer_new_rates by blast
  show "f32_div (Fin 44100) (Fin 2) = Fin 22050" using f32_of_small [of 22050] by simp
qed

section \<open>What the filters cannot do\<close>

text \<open>\<open>apply\<close> sees one sample and keeps nothing of it. A steady signal and one that changes its sign
  with each sample, the highest frequency there is, come out of the mixer equally loud, so no
  choice of taps makes a high pass or a low pass of it.\<close>

lemma f32_of_uminus: "f32_of (- x) = f32_neg (f32_of x)"
  by (auto simp: f32_of_def Let_def)

lemma f32_add_neg: "f32_add (f32_neg a) (f32_neg b) = f32_neg (f32_add a b)"
  using f32_of_uminus [of "x + y" for x y] by (cases "(a, b)" rule: f32_add.cases) auto

lemma f32_mul_neg: "f32_mul (f32_neg a) b = f32_neg (f32_mul a b)"
  using f32_of_uminus by (cases "(a, b)" rule: f32_mul.cases) auto

lemma filter_apply_neg: "filter_apply f (f32_neg x) = f32_neg (filter_apply f x)"
proof -
  have "foldl (\<lambda>out h. f32_add out (f32_mul (f32_neg x) h)) (f32_neg a) taps
      = f32_neg (foldl (\<lambda>out h. f32_add out (f32_mul x h)) a taps)" for a taps
    by (induction taps arbitrary: a) (simp_all add: f32_mul_neg f32_add_neg)
  from this [of "Fin 0"] show ?thesis by (simp add: filter_apply_def)
qed

lemma mixer_filtered_neg: "mixer_filtered m (f32_neg x) = f32_neg (mixer_filtered m x)"
proof -
  have "foldl (\<lambda>sample f. filter_apply f sample) (f32_neg x) fs = f32_neg (foldl (\<lambda>sample f. filter_apply f sample) x fs)" for x fs
    by (induction fs arbitrary: x) (simp_all add: filter_apply_neg)
  then show ?thesis by (simp add: mixer_filtered_def)
qed

end
