(* ===== verification/SaveFiles.thy ===== *)
theory SaveFiles
  imports Prelude
begin

text \<open>
  The files of \<open>src/nes/filesystem.rs\<close>: a magic string and the version of the program, followed by
  the data compressed with the crate \<open>flate2\<close>, whose two directions are the parameters \<open>deflate\<close> and
  \<open>inflate\<close>. A file store has the contents of the files by their paths; which of them can be opened
  or created is part of it. Creating the missing directories of a path belongs to creating the file.
  A disk that fails between two writes of a file is not modelled.
\<close>

section \<open>The header\<close>

datatype file_error = OpenFailed | CreateFailed | ReadFailed | InvalidFormat | InvalidVersion | CodecFailed

definition SAVE_FILE_MAGIC_LEN :: nat where "SAVE_FILE_MAGIC_LEN = 8"

definition SAVE_FILE_MAGIC :: "u8 list" where
  "SAVE_FILE_MAGIC = [0x54, 0x45, 0x54, 0x41, 0x4E, 0x45, 0x53, 0x1A]"

text \<open>The major version of \<open>Cargo.toml\<close>, as text.\<close>

definition MAJOR_VERSION :: "u8 list" where "MAJOR_VERSION = [0x30]"

definition write_save_header :: "u8 list \<Rightarrow> u8 list" where
  "write_save_header f = f @ SAVE_FILE_MAGIC @ MAJOR_VERSION"

text \<open>The rest of the file is what the reader still has.\<close>

definition validate_save_header :: "u8 list \<Rightarrow> file_error + u8 list" where
  "validate_save_header f =
     (if length f < SAVE_FILE_MAGIC_LEN then Inl ReadFailed
      else if take SAVE_FILE_MAGIC_LEN f = SAVE_FILE_MAGIC
      then let f = drop SAVE_FILE_MAGIC_LEN f
           in (case f of
                 [] \<Rightarrow> Inl ReadFailed
               | version # f \<Rightarrow> if [version] = MAJOR_VERSION then Inr f else Inl InvalidVersion)
      else Inl InvalidFormat)"

section \<open>Files\<close>

record file_store =
  fs_files :: "string \<rightharpoonup> u8 list"
  fs_readable :: "string \<Rightarrow> bool"
  fs_creatable :: "string \<Rightarrow> bool"

definition file_open :: "file_store \<Rightarrow> string \<Rightarrow> file_error + u8 list" where
  "file_open fs path =
     (case fs_files fs path of
        Some f \<Rightarrow> if fs_readable fs path then Inr f else Inl OpenFailed
      | None \<Rightarrow> Inl OpenFailed)"

definition file_put :: "file_store \<Rightarrow> string \<Rightarrow> u8 list \<Rightarrow> file_store" where
  "file_put fs path f = fs\<lparr>fs_files := (fs_files fs)(path \<mapsto> f)\<rparr>"

text \<open>A file is created empty, then the header and the compressed data are written to it.\<close>

definition write_save_data ::
    "(u8 list \<Rightarrow> u8 list option) \<Rightarrow> string \<Rightarrow> u8 list \<Rightarrow> file_store \<Rightarrow> (file_error + unit) \<times> file_store" where
  "write_save_data deflate path data fs =
     (if fs_creatable fs path
      then let header = write_save_header []
           in (case deflate data of
                 Some encoded \<Rightarrow> (Inr (), file_put fs path (header @ encoded))
               | None \<Rightarrow> (Inl CodecFailed, file_put fs path header))
      else (Inl CreateFailed, fs))"

definition save_data ::
    "(u8 list \<Rightarrow> u8 list option) \<Rightarrow> string \<Rightarrow> u8 list \<Rightarrow> file_store \<Rightarrow> (file_error + unit) \<times> file_store" where
  "save_data deflate path data fs =
     (if fs_files fs path \<noteq> None
      then (case file_open fs path of
              Inl e \<Rightarrow> (Inl e, fs)
            | Inr f \<Rightarrow>
                (case validate_save_header f of
                   Inl e \<Rightarrow> (Inl e, fs)
                 | Inr _ \<Rightarrow> write_save_data deflate path data fs))
      else write_save_data deflate path data fs)"

definition load_data ::
    "(u8 list \<Rightarrow> u8 list option) \<Rightarrow> string \<Rightarrow> file_store \<Rightarrow> file_error + u8 list" where
  "load_data inflate path fs =
     (case file_open fs path of
        Inl e \<Rightarrow> Inl e
      | Inr f \<Rightarrow>
          (case validate_save_header f of
             Inl e \<Rightarrow> Inl e
           | Inr f \<Rightarrow> (case inflate f of Some bytes \<Rightarrow> Inr bytes | None \<Rightarrow> Inl CodecFailed)))"

section \<open>Lemmas\<close>

lemma validate_write [simp]: "validate_save_header (write_save_header [] @ f) = Inr f"
  by (simp add: validate_save_header_def write_save_header_def SAVE_FILE_MAGIC_LEN_def SAVE_FILE_MAGIC_def
      MAJOR_VERSION_def)

text \<open>A successful save can be loaded.\<close>

lemma save_data_Inr:
  assumes "save_data deflate path data fs = (Inr (), fs')"
  obtains encoded where "deflate data = Some encoded" "fs' = file_put fs path (write_save_header [] @ encoded)"
  using assms by (auto simp: save_data_def write_save_data_def Let_def split: sum.splits option.splits if_splits)

lemma save_data_loads:
  assumes "save_data deflate path data fs = (Inr (), fs')"
    and "\<And>x y. deflate x = Some y \<Longrightarrow> inflate y = Some x"
    and "fs_readable fs path"
  shows "load_data inflate path fs' = Inr data"
proof -
  obtain encoded where "deflate data = Some encoded" "fs' = file_put fs path (write_save_header [] @ encoded)"
    using save_data_Inr [OF assms(1)] .
  then show ?thesis using assms(2,3) by (simp add: load_data_def file_open_def file_put_def)
qed

lemma save_data_other:
  assumes "save_data deflate path data fs = (r, fs')"
  shows "p \<noteq> path \<Longrightarrow> fs_files fs' p = fs_files fs p"
    and "fs_readable fs' = fs_readable fs" and "fs_creatable fs' = fs_creatable fs"
proof -
  have "fs' = fs \<or> (\<exists>f. fs' = file_put fs path f)"
    using assms by (auto simp: save_data_def write_save_data_def Let_def split: sum.splits option.splits if_splits)
  then show "p \<noteq> path \<Longrightarrow> fs_files fs' p = fs_files fs p" "fs_readable fs' = fs_readable fs"
    "fs_creatable fs' = fs_creatable fs" by (auto simp: file_put_def)
qed

text \<open>A file that was not written by this version of the program is never changed.\<close>

lemma save_data_foreign:
  assumes "fs_files fs path = Some f" and "validate_save_header f = Inl e"
  shows "\<exists>e'. save_data deflate path data fs = (Inl e', fs)"
  using assms by (auto simp: save_data_def file_open_def split: sum.splits if_splits)

lemma save_data_fails:
  assumes "\<not> fs_creatable fs path"
  shows "\<exists>e. save_data deflate path data fs = (Inl e, fs)"
  using assms by (auto simp: save_data_def write_save_data_def split: sum.splits)

end
