(* ===== verification/Text.thy ===== *)
theory Text
  imports Prelude
begin

text \<open>
  The formatting of the standard library that the source uses for file names and for the
  disassembler: decimal numbers, and hexadecimal numbers of a fixed width.
\<close>

definition digit_char :: "nat \<Rightarrow> char" where
  "digit_char d = (if d < 10 then char_of (48 + d) else char_of (55 + d))"

text \<open>\<open>n.to_string()\<close>.\<close>

fun show_nat :: "nat \<Rightarrow> string" where
  "show_nat n = (if n < 10 then [digit_char n] else show_nat (n div 10) @ [digit_char (n mod 10)])"

declare show_nat.simps [simp del]

text \<open>The last \<open>k\<close> digits of a number. \<open>{:02X}\<close> of a byte and \<open>{:04X}\<close> of a word print all digits.\<close>

fun hex_digits :: "nat \<Rightarrow> nat \<Rightarrow> string" where
  "hex_digits 0 n = []"
| "hex_digits (Suc k) n = hex_digits k (n div 16) @ [digit_char (n mod 16)]"

definition hex02 :: "u8 \<Rightarrow> string" where "hex02 v = hex_digits 2 (unat v)"
definition hex04 :: "u16 \<Rightarrow> string" where "hex04 v = hex_digits 4 (unat v)"

section \<open>Reading numbers back\<close>

definition char_digit :: "char \<Rightarrow> nat" where
  "char_digit c = (if of_char c < (58 :: nat) then of_char c - 48 else of_char c - 55)"

definition number_of :: "nat \<Rightarrow> string \<Rightarrow> nat" where
  "number_of base s = foldl (\<lambda>n c. n * base + char_digit c) 0 s"

lemma number_of_snoc [simp]: "number_of base (s @ [c]) = number_of base s * base + char_digit c"
  by (simp add: number_of_def)

lemma char_digit_char [simp]: "d < 16 \<Longrightarrow> char_digit (digit_char d) = d"
  by (simp add: char_digit_def digit_char_def)

lemma number_of_hex: "n < 16 ^ k \<Longrightarrow> number_of 16 (hex_digits k n) = n"
proof (induction k arbitrary: n)
  case (Suc k)
  then have "n div 16 < 16 ^ k" by (simp add: less_mult_imp_div_less mult.commute)
  with Suc.IH show ?case by simp
qed (simp add: number_of_def)

lemma hex_digits_length [simp]: "length (hex_digits k n) = k"
  by (induction k arbitrary: n) simp_all

lemma number_of_hex02 [simp]: "number_of 16 (hex02 v) = unat v"
proof -
  have "unat v < 2 ^ 8" using unsigned_less [of v] by simp
  then show ?thesis using number_of_hex [of "unat v" 2] by (simp add: hex02_def)
qed

lemma number_of_hex04 [simp]: "number_of 16 (hex04 v) = unat v"
proof -
  have "unat v < 2 ^ 16" using unsigned_less [of v] by simp
  then show ?thesis using number_of_hex [of "unat v" 4] by (simp add: hex04_def)
qed

lemma number_of_show: "number_of 10 (show_nat n) = n"
proof (induction n rule: show_nat.induct)
  case (1 n)
  then show ?case
    by (subst show_nat.simps) (simp add: number_of_def)
qed

lemma show_nat_inj [simp]: "show_nat m = show_nat n \<longleftrightarrow> m = n"
  by (metis number_of_show)

end
