(* ===== verification/NesTypes.thy ===== *)
theory NesTypes
  imports ControlDeck Audio SaveFiles Text
begin

text \<open>
  The data of the application under \<open>src/nes/\<close>: menus, actions and their bindings, replays and the
  configuration. Keys, buttons and axes of the window library are numbers; key modifiers too.
\<close>

section \<open>Menus\<close>

datatype config_section = GeneralSection | EmulationSection | AudioSection | VideoSection

definition config_section_as_slice :: "config_section list" where
  "config_section_as_slice = [GeneralSection, EmulationSection, AudioSection, VideoSection]"

fun config_section_name :: "config_section \<Rightarrow> string" where
  "config_section_name GeneralSection = ''General''"
| "config_section_name EmulationSection = ''Emulation''"
| "config_section_name AudioSection = ''Audio''"
| "config_section_name VideoSection = ''Video''"

datatype menu_player = PlayerOne | PlayerTwo | PlayerThree | PlayerFour

definition menu_player_as_slice :: "menu_player list" where
  "menu_player_as_slice = [PlayerOne, PlayerTwo, PlayerThree, PlayerFour]"

fun menu_player_name :: "menu_player \<Rightarrow> string" where
  "menu_player_name PlayerOne = ''Player One''"
| "menu_player_name PlayerTwo = ''Player Two''"
| "menu_player_name PlayerThree = ''Player Three''"
| "menu_player_name PlayerFour = ''Player Four''"

definition menu_player_from :: "nat \<Rightarrow> menu_player" where
  "menu_player_from value =
     (if value = 1 then PlayerTwo else if value = 2 then PlayerThree
      else if value = 3 then PlayerFour else PlayerOne)"

datatype nes_menu = MainMenu | ConfigMenu config_section | KeybindMenu menu_player | LoadRomMenu | AboutMenu

datatype sample_rate = S32 | S44 | S48 | S96

definition sample_rate_as_slice :: "sample_rate list" where
  "sample_rate_as_slice = [S32, S44, S48, S96]"

fun sample_rate_as_f32 :: "sample_rate \<Rightarrow> f32" where
  "sample_rate_as_f32 S32 = Fin 32000"
| "sample_rate_as_f32 S44 = Fin 44100"
| "sample_rate_as_f32 S48 = Fin 48000"
| "sample_rate_as_f32 S96 = Fin 96000"

fun sample_rate_name :: "sample_rate \<Rightarrow> string" where
  "sample_rate_name S32 = ''32 kHz''"
| "sample_rate_name S44 = ''44.1 kHz''"
| "sample_rate_name S48 = ''48 kHz''"
| "sample_rate_name S96 = ''96 kHz''"

definition sample_rate_from :: "nat \<Rightarrow> sample_rate" where
  "sample_rate_from value =
     (if value = 0 then S32 else if value = 1 then S44 else if value = 3 then S96 else S48)"

definition sample_rate_from_f32 :: "f32 \<Rightarrow> sample_rate" where
  "sample_rate_from_f32 value =
     (let i = f32_to_i32 value
      in if i = 32000 then S32 else if i = 44100 then S44 else if i = 96000 then S96 else S48)"

datatype emu_speed = S25 | S50 | S75 | S100 | S125 | S150 | S175 | S200

definition emu_speed_as_slice :: "emu_speed list" where
  "emu_speed_as_slice = [S25, S50, S75, S100, S125, S150, S175, S200]"

fun emu_speed_as_f32 :: "emu_speed \<Rightarrow> f32" where
  "emu_speed_as_f32 S25 = Fin (1 / 4)"
| "emu_speed_as_f32 S50 = Fin (1 / 2)"
| "emu_speed_as_f32 S75 = Fin (3 / 4)"
| "emu_speed_as_f32 S100 = Fin 1"
| "emu_speed_as_f32 S125 = Fin (5 / 4)"
| "emu_speed_as_f32 S150 = Fin (3 / 2)"
| "emu_speed_as_f32 S175 = Fin (7 / 4)"
| "emu_speed_as_f32 S200 = Fin 2"

fun emu_speed_name :: "emu_speed \<Rightarrow> string" where
  "emu_speed_name S25 = ''25%''"
| "emu_speed_name S50 = ''50%''"
| "emu_speed_name S75 = ''75%''"
| "emu_speed_name S100 = ''100%''"
| "emu_speed_name S125 = ''125%''"
| "emu_speed_name S150 = ''150%''"
| "emu_speed_name S175 = ''175%''"
| "emu_speed_name S200 = ''200%''"

definition emu_speed_from :: "nat \<Rightarrow> emu_speed" where
  "emu_speed_from value =
     (if value = 0 then S25 else if value = 1 then S50 else if value = 2 then S75
      else if value = 4 then S125 else if value = 5 then S150 else if value = 6 then S175
      else if value = 7 then S200 else S100)"

text \<open>\<open>saturating_sub\<close> is the subtraction of \<open>nat\<close>.\<close>

definition emu_speed_from_f32 :: "f32 \<Rightarrow> emu_speed" where
  "emu_speed_from_f32 value = emu_speed_from (f32_to_usize (f32_mul (Fin 4) value) - 1)"

section \<open>Actions\<close>

datatype mapper_revision = Mmc1Rev mmc1_revision | Mmc3Rev mmc3_revision | Bf909Rev bf909_revision

datatype nes_state = Quit | TogglePause | SoftReset | HardReset | SetMapperRevision mapper_revision

datatype feature = ToggleGameplayRecording | ToggleSoundRecording | Rewind | TakeScreenshot | SaveState | LoadState

datatype setting = SetSaveSlot u8 | ToggleFullscreen | ToggleVsync | ToggleNtscFilter
  | SetVideoFilter video_filter | SetNesFormat nes_region | ToggleSound | TogglePulse1 | TogglePulse2
  | ToggleTriangle | ToggleNoise | ToggleDmc | FastForward | IncSpeed | DecSpeed

datatype debug_action = ToggleCpuDebugger | TogglePpuDebugger | ToggleApuDebugger | StepInto | StepOver
  | StepOut | StepFrame | StepScanline | IncScanline | DecScanline

datatype action = NesAct nes_state | MenuAct nes_menu | FeatureAct feature | SettingAct setting
  | JoypadAct joypad_btn | ZapperTriggerAct | ZeroAxisAct joypad_btn joypad_btn | DebugAct debug_action

datatype axis_direction = NoDirection | Positive | Negative

record action_event =
  ae_frame :: u32
  ae_slot :: slot
  ae_action :: action
  ae_pressed :: bool
  ae_repeat :: bool

datatype app_input = KeyInput slot nat nat | ButtonInput slot nat | AxisInput slot nat axis_direction
  | MouseInput slot nat

record key_binding =
  kb_player :: slot
  kb_key :: nat
  kb_keymod :: nat
  kb_action :: action

record mouse_binding =
  ms_player :: slot
  ms_button :: nat
  ms_action :: action

record button_binding =
  bb_player :: slot
  bb_button :: nat
  bb_action :: action

record axis_binding =
  ax_player :: slot
  ax_axis :: nat
  ax_direction :: axis_direction
  ax_action :: action

record input_bindings =
  ib_keys :: "key_binding list"
  ib_mouse :: "mouse_binding list"
  ib_buttons :: "button_binding list"
  ib_axes :: "axis_binding list"

section \<open>Replays\<close>

datatype replay_mode = ReplayOff | Recording | Playback

text \<open>The end of \<open>buffer\<close> is the end of the vector, where events are pushed and popped.\<close>

record replay =
  rp_mode :: replay_mode
  rp_start :: "cpu option"
  rp_buffer :: "action_event list"

definition replay_default :: replay where
  "replay_default = \<lparr>rp_mode = ReplayOff, rp_start = None, rp_buffer = []\<rparr>"

section \<open>Configuration\<close>

definition CONFIG_FILE :: string where "CONFIG_FILE = ''config.json''"
definition MIN_SPEED :: f32 where "MIN_SPEED = Fin (1 / 4)"
definition MAX_SPEED :: f32 where "MAX_SPEED = Fin 2"

record config =
  cf_rom_path :: string
  cf_show_hidden_files :: bool
  cf_pause_in_bg :: bool
  cf_sound :: bool
  cf_fullscreen :: bool
  cf_vsync :: bool
  cf_filter :: video_filter
  cf_concurrent_dpad :: bool
  cf_region :: nes_region
  cf_ram_state :: ram_state
  cf_save_slot :: u8
  cf_scale :: f32
  cf_speed :: f32
  cf_rewind :: bool
  cf_rewind_frames :: u32
  cf_rewind_buffer_size :: nat
  cf_four_player :: four_player
  cf_zapper :: bool
  cf_audio_sample_rate :: f32
  cf_audio_buffer_size :: nat
  cf_dynamic_rate_control :: bool
  cf_dynamic_rate_delta :: f32
  cf_genie_codes :: "string list"
  cf_bindings :: input_bindings
  cf_input_map :: "app_input \<rightharpoonup> action"

definition config_default :: config where
  "config_default =
     \<lparr>cf_rom_path = ''./'', cf_show_hidden_files = False, cf_pause_in_bg = True, cf_sound = True,
      cf_fullscreen = False, cf_vsync = True, cf_filter = NtscFilter, cf_concurrent_dpad = False,
      cf_region = Ntsc, cf_ram_state = AllZeros, cf_save_slot = 1, cf_scale = Fin 3, cf_speed = Fin 1,
      cf_rewind = False, cf_rewind_frames = 2, cf_rewind_buffer_size = 20, cf_four_player = Disabled,
      cf_zapper = False, cf_audio_sample_rate = Fin 44100, cf_audio_buffer_size = 4096,
      cf_dynamic_rate_control = True, cf_dynamic_rate_delta = f32_of (5 / 1000), cf_genie_codes = [],
      cf_bindings = \<lparr>ib_keys = [], ib_mouse = [], ib_buttons = [], ib_axes = []\<rparr>,
      cf_input_map = Map.empty\<rparr>"

text \<open>The four loops of \<open>Config::load\<close> over the bindings of the file.\<close>

definition bindings_map :: "input_bindings \<Rightarrow> (app_input \<rightharpoonup> action) \<Rightarrow> app_input \<rightharpoonup> action" where
  "bindings_map b m =
     (let m = foldl (\<lambda>m b. m(KeyInput (kb_player b) (kb_key b) (kb_keymod b) \<mapsto> kb_action b)) m (ib_keys b);
          m = foldl (\<lambda>m b. m(MouseInput (ms_player b) (ms_button b) \<mapsto> ms_action b)) m (ib_mouse b);
          m = foldl (\<lambda>m b. m(ButtonInput (bb_player b) (bb_button b) \<mapsto> bb_action b)) m (ib_buttons b)
      in foldl (\<lambda>m b. m(AxisInput (ax_player b) (ax_axis b) (ax_direction b) \<mapsto> ax_action b)) m (ib_axes b))"

definition config_bind :: "config \<Rightarrow> config" where
  "config_bind config = config\<lparr>cf_input_map := bindings_map (cf_bindings config) (cf_input_map config)\<rparr>"

text \<open>\<open>x as u32\<close> saturates.\<close>

definition f32_to_u32 :: "f32 \<Rightarrow> nat" where
  "f32_to_u32 x = min (f32_to_usize x) (2 ^ 32 - 1)"

definition WINDOW_WIDTH_NTSC :: f32 where
  "WINDOW_WIDTH_NTSC = f32_add (f32_div (f32_mul (Fin 256) (Fin 8)) (Fin 7)) (Fin (1 / 2))"
definition WINDOW_WIDTH_PAL :: f32 where
  "WINDOW_WIDTH_PAL = f32_add (f32_div (f32_mul (Fin 256) (Fin 18)) (Fin 13)) (Fin (1 / 2))"
definition WINDOW_HEIGHT :: f32 where "WINDOW_HEIGHT = Fin 240"

definition config_get_dimensions :: "config \<Rightarrow> nat \<times> nat" where
  "config_get_dimensions config =
     (let width = (if cf_region config = Ntsc then WINDOW_WIDTH_NTSC else WINDOW_WIDTH_PAL)
      in (f32_to_u32 (f32_mul (cf_scale config) width), f32_to_u32 (f32_mul (cf_scale config) WINDOW_HEIGHT)))"

end
