(* ===== verification/NesState.thy ===== *)
theory NesState
  imports NesTypes
begin

text \<open>
  The state of the application and its operations on modes, saved states, rewinding and replays:
  \<open>src/nes/state.rs\<close>, with the parts of \<open>src/nes/config.rs\<close>, \<open>src/nes/menu.rs\<close> and
  \<open>src/nes/filesystem.rs\<close> that they use.

  Parameters, collected in \<open>nes_env\<close>: the ring buffer and the sound device; \<open>pix_ops\<close>, the calls into
  the window library that change what the program does, of which a \<open>False\<close> or \<open>None\<close> is an error;
  \<open>codec\<close>, the crates \<open>bincode\<close> and \<open>flate2\<close>; the home directory, the formatted time, error texts,
  the random bytes, the order in which a hash map is iterated, and the table of the picture filter. Drawing is left out, and a
  message has no time.
\<close>

section \<open>The environment\<close>

record 'p pix_ops =
  px_cursor :: "bool \<Rightarrow> 'p \<Rightarrow> bool \<times> 'p"
  px_fullscreen :: "bool \<Rightarrow> 'p \<Rightarrow> bool \<times> 'p"
  px_vsync :: "bool \<Rightarrow> 'p \<Rightarrow> bool \<times> 'p"
  px_dimensions :: "nat \<times> nat \<Rightarrow> 'p \<Rightarrow> bool \<times> 'p"
  px_frame_rate :: "nat \<Rightarrow> 'p \<Rightarrow> 'p"
  px_open_window :: "string \<Rightarrow> 'p \<Rightarrow> nat option \<times> 'p"
  px_close_window :: "nat \<Rightarrow> 'p \<Rightarrow> bool \<times> 'p"
  px_save_canvas :: "string \<Rightarrow> 'p \<Rightarrow> bool \<times> 'p"
  px_quit :: "'p \<Rightarrow> 'p"
  px_abort_quit :: "'p \<Rightarrow> 'p"
  px_shift_down :: "'p \<Rightarrow> bool"
  px_focused :: "'p \<Rightarrow> bool"

record codec =
  co_deflate :: "u8 list \<Rightarrow> u8 list option"
  co_inflate :: "u8 list \<Rightarrow> u8 list option"
  co_ser_cpu :: "cpu \<Rightarrow> u8 list option"
  co_de_cpu :: "u8 list \<Rightarrow> cpu option"
  co_ser_replay :: "replay \<Rightarrow> u8 list option"
  co_de_replay :: "u8 list \<Rightarrow> replay option"

record ('rb, 'd, 'p) nes_env =
  ne_ring :: "'rb ring_ops"
  ne_sin :: "f32 \<Rightarrow> f32"
  ne_cos :: "f32 \<Rightarrow> f32"
  ne_open_device :: "audio_spec \<Rightarrow> audio_callback \<Rightarrow> 'd option"
  ne_resume :: "'d \<Rightarrow> 'd"
  ne_pause :: "'d \<Rightarrow> 'd"
  ne_pix :: "'p pix_ops"
  ne_codec :: codec
  ne_home_dir :: string
  ne_time :: string
  ne_is_dir :: "string \<Rightarrow> bool"
  ne_error_text :: "deck_error \<Rightarrow> string"
  ne_genie_text :: "genie_error \<Rightarrow> string"
  ne_rng :: "nat \<Rightarrow> u8"
  ne_rngs :: "nat \<Rightarrow> nat \<Rightarrow> u8"
  ne_region_of :: "u8 list \<Rightarrow> nes_region"
  ne_slots :: "slot list"
  ne_rnd :: "rat \<Rightarrow> rat"
  ne_palette :: "u32 list"

section \<open>The state\<close>

datatype mode = Playing | Paused | PausedBg | InMenu nes_menu | Rewinding

record ('rb, 'd, 'p) nes =
  n_deck :: control_deck
  n_audio :: "('rb, 'd) audio_mixer"
  n_players :: "slot \<rightharpoonup> nat"
  n_emulation :: "nat option"
  n_debugger :: "nat option"
  n_ppu_viewer :: "(nat \<times> u32) option"
  n_apu_viewer :: "nat option"
  n_config :: config
  n_mode :: mode
  n_replay_path :: "string option"
  n_record_sound :: bool
  n_debug :: bool
  n_rewind_frame :: u32
  n_rewind_buffer :: "u8 list list"
  n_replay :: replay
  n_messages :: "string list"
  n_error :: "string option"
  n_paths :: "string list"
  n_selected_path :: nat
  n_confirm_quit :: "(string \<times> bool) option"
  n_files :: file_store
  n_pix :: 'p

datatype app_error = PixError | AppFileError file_error | AppAudioError audio_error | BadPath | NoRom

type_synonym ('s, 'a) outcome = "((app_error + 'a) \<times> 's) option"

text \<open>The operator \<open>?\<close>: an error ends the operation with the state reached.\<close>

definition and_then :: "('s, 'a) outcome \<Rightarrow> ('a \<Rightarrow> 's \<Rightarrow> ('s, 'b) outcome) \<Rightarrow> ('s, 'b) outcome" where
  "and_then m f = do { (r, s) \<leftarrow> m; case r of Inl e \<Rightarrow> Some (Inl e, s) | Inr a \<Rightarrow> f a s }"

definition succeed :: "'a \<Rightarrow> 's \<Rightarrow> ('s, 'a) outcome" where
  "succeed a s = Some (Inr a, s)"

text \<open>A call into the window library.\<close>

definition pix_call :: "('p \<Rightarrow> bool \<times> 'p) \<Rightarrow> ('rb, 'd, 'p) nes \<Rightarrow> (('rb, 'd, 'p) nes, unit) outcome" where
  "pix_call f n = (let (success, p) = f (n_pix n) in Some (if success then Inr () else Inl PixError, n\<lparr>n_pix := p\<rparr>))"

definition add_message :: "('rb, 'd, 'p) nes \<Rightarrow> string \<Rightarrow> ('rb, 'd, 'p) nes" where
  "add_message n text = n\<lparr>n_messages := n_messages n @ [text]\<rparr>"

section \<open>Modes and menus\<close>

definition nes_audio_resume :: "('rb, 'd, 'p) nes_env \<Rightarrow> ('rb, 'd, 'p) nes \<Rightarrow> ('rb, 'd, 'p) nes" where
  "nes_audio_resume env n = n\<lparr>n_audio := mixer_on_device (ne_resume env) (n_audio n)\<rparr>"

definition nes_audio_pause :: "('rb, 'd, 'p) nes_env \<Rightarrow> ('rb, 'd, 'p) nes \<Rightarrow> ('rb, 'd, 'p) nes" where
  "nes_audio_pause env n = n\<lparr>n_audio := mixer_on_device (ne_pause env) (n_audio n)\<rparr>"

definition resume_play :: "('rb, 'd, 'p) nes_env \<Rightarrow> ('rb, 'd, 'p) nes \<Rightarrow> ('rb, 'd, 'p) nes" where
  "resume_play env n =
     (if cd_running (n_deck n) then nes_audio_resume env (n\<lparr>n_mode := Playing\<rparr>) else n)"

definition pause_play :: "('rb, 'd, 'p) nes_env \<Rightarrow> ('rb, 'd, 'p) nes \<Rightarrow> ('rb, 'd, 'p) nes" where
  "pause_play env n =
     (if cd_running (n_deck n) then nes_audio_pause env (n\<lparr>n_mode := Paused\<rparr>) else n)"

definition open_menu ::
    "('rb, 'd, 'p) nes_env \<Rightarrow> nes_menu \<Rightarrow> ('rb, 'd, 'p) nes \<Rightarrow> (('rb, 'd, 'p) nes, unit) outcome" where
  "open_menu env menu n =
     and_then (pix_call (px_cursor (ne_pix env) True) n) (\<lambda>_ n.
       succeed () (nes_audio_pause env (n\<lparr>n_mode := InMenu menu\<rparr>)))"

definition exit_menu ::
    "('rb, 'd, 'p) nes_env \<Rightarrow> ('rb, 'd, 'p) nes \<Rightarrow> (('rb, 'd, 'p) nes, unit) outcome" where
  "exit_menu env n =
     and_then (if cf_zapper (n_config n) then pix_call (px_cursor (ne_pix env) False) n else succeed () n)
       (\<lambda>_ n. succeed () (resume_play env n))"

definition toggle_menu ::
    "('rb, 'd, 'p) nes_env \<Rightarrow> nes_menu \<Rightarrow> ('rb, 'd, 'p) nes \<Rightarrow> (('rb, 'd, 'p) nes, unit) outcome" where
  "toggle_menu env menu n = (if n_mode n = InMenu menu then exit_menu env n else open_menu env menu n)"

definition handle_emulation_error ::
    "('rb, 'd, 'p) nes_env \<Rightarrow> deck_error \<Rightarrow> ('rb, 'd, 'p) nes \<Rightarrow> (('rb, 'd, 'p) nes, unit) outcome" where
  "handle_emulation_error env err n =
     open_menu env LoadRomMenu (n\<lparr>n_error := Some (ne_error_text env err)\<rparr>)"

definition toggle_pause ::
    "('rb, 'd, 'p) nes_env \<Rightarrow> ('rb, 'd, 'p) nes \<Rightarrow> (('rb, 'd, 'p) nes, unit) outcome" where
  "toggle_pause env n =
     (case n_mode n of
        Playing \<Rightarrow> succeed () (n\<lparr>n_mode := Paused\<rparr>)
      | Rewinding \<Rightarrow> succeed () (n\<lparr>n_mode := Paused\<rparr>)
      | Paused \<Rightarrow> succeed () (resume_play env n)
      | PausedBg \<Rightarrow> succeed () (resume_play env n)
      | InMenu _ \<Rightarrow> exit_menu env n)"

definition toggle_sound_recording :: "('rb, 'd, 'p) nes \<Rightarrow> ('rb, 'd, 'p) nes" where
  "toggle_sound_recording n =
     add_message (n\<lparr>n_record_sound := \<not> n_record_sound n\<rparr>) ''Toggle sound recording not implemented yet''"

section \<open>Speed and scale\<close>

definition set_scale :: "f32 \<Rightarrow> ('rb, 'd, 'p) nes \<Rightarrow> ('rb, 'd, 'p) nes" where
  "set_scale scale n = n\<lparr>n_config := (n_config n)\<lparr>cf_scale := scale\<rparr>\<rparr>"

definition set_speed :: "f32 \<Rightarrow> ('rb, 'd, 'p) nes \<Rightarrow> ('rb, 'd, 'p) nes" where
  "set_speed speed n =
     (let n = n\<lparr>n_config := (n_config n)\<lparr>cf_speed := speed\<rparr>\<rparr>
      in n\<lparr>n_audio := mixer_set_output_frequency (n_audio n)
             (f32_div (cf_audio_sample_rate (n_config n)) (cf_speed (n_config n)))\<rparr>)"

text \<open>\<open>clamp\<close> keeps a NaN.\<close>

definition f32_clamp :: "f32 \<Rightarrow> f32 \<Rightarrow> f32 \<Rightarrow> f32" where
  "f32_clamp x lo hi =
     (if x = NaN then NaN else if \<not> f32_le lo x then lo else if \<not> f32_le x hi then hi else x)"

definition change_speed :: "f32 \<Rightarrow> ('rb, 'd, 'p) nes \<Rightarrow> ('rb, 'd, 'p) nes" where
  "change_speed delta n =
     (let n = n\<lparr>n_config := (n_config n)\<lparr>cf_speed :=
                 f32_clamp (f32_add (cf_speed (n_config n)) delta) MIN_SPEED MAX_SPEED\<rparr>\<rparr>
      in set_speed (cf_speed (n_config n)) n)"

definition update_frame_rate ::
    "('rb, 'd, 'p) nes_env \<Rightarrow> ('rb, 'd, 'p) nes \<Rightarrow> (('rb, 'd, 'p) nes, unit) outcome" where
  "update_frame_rate env n =
     (let rate = (case cf_region (n_config n) of Ntsc \<Rightarrow> 60 | Pal \<Rightarrow> 50 | Dendy \<Rightarrow> 59);
          n = n\<lparr>n_pix := px_frame_rate (ne_pix env) rate (n_pix n)\<rparr>
      in if cf_vsync (n_config n) \<and> cf_region (n_config n) \<noteq> Ntsc
         then pix_call (px_vsync (ne_pix env) False) n else succeed () n)"

section \<open>Paths\<close>

text \<open>\<open>Path::file_stem\<close> and \<open>with_extension\<close> of the standard library.\<close>

fun split_at :: "char \<Rightarrow> string \<Rightarrow> string list" where
  "split_at c [] = [[]]"
| "split_at c (x # xs) =
     (if x = c then [] # split_at c xs
      else case split_at c xs of [] \<Rightarrow> [[x]] | p # ps \<Rightarrow> (x # p) # ps)"

definition file_name :: "string \<Rightarrow> string option" where
  "file_name path =
     (let comps = filter (\<lambda>p. p \<noteq> [] \<and> p \<noteq> ''.'') (split_at CHR ''/'' path)
      in if comps = [] \<or> last comps = ''..'' then None else Some (last comps))"

text \<open>The part before the last dot, if the dot is not the first character.\<close>

definition stem_of :: "string \<Rightarrow> string" where
  "stem_of name =
     (let parts = split_at CHR ''.'' name
      in if length parts < 2 \<or> (length parts = 2 \<and> hd parts = []) then name
         else tl (concat (map (\<lambda>p. CHR ''.'' # p) (butlast parts))))"

definition file_stem :: "string \<Rightarrow> string option" where
  "file_stem path = map_option stem_of (file_name path)"

definition with_extension :: "string \<Rightarrow> string \<Rightarrow> string" where
  "with_extension name ext = stem_of name @ CHR ''.'' # ext"

definition config_dir :: "('rb, 'd, 'p) nes_env \<Rightarrow> string" where
  "config_dir env = ne_home_dir env @ ''/.config/tetanes''"

definition config_path :: "('rb, 'd, 'p) nes_env \<Rightarrow> string \<Rightarrow> string" where
  "config_path env path = config_dir env @ ''/'' @ path"

definition sram_path :: "('rb, 'd, 'p) nes_env \<Rightarrow> ('rb, 'd, 'p) nes \<Rightarrow> app_error + string" where
  "sram_path env n =
     (case cd_loaded_rom (n_deck n) of
        Some rom \<Rightarrow>
          (case file_stem rom of
             None \<Rightarrow> Inl BadPath
           | Some save_name \<Rightarrow> Inr (config_dir env @ ''/sram/'' @ with_extension save_name ''sram''))
      | None \<Rightarrow> Inl NoRom)"

definition save_path :: "('rb, 'd, 'p) nes_env \<Rightarrow> u8 \<Rightarrow> ('rb, 'd, 'p) nes \<Rightarrow> app_error + string" where
  "save_path env slot n =
     (case cd_loaded_rom (n_deck n) of
        Some rom \<Rightarrow>
          (case file_stem rom of
             None \<Rightarrow> Inl BadPath
           | Some save_name \<Rightarrow>
               Inr (config_dir env @ ''/save/'' @ save_name @ ''/'' @ with_extension (show_nat (unat slot)) ''save''))
      | None \<Rightarrow> Inl NoRom)"

end
