(* ===== verification/NesSaves.thy ===== *)
theory NesSaves
  imports NesState
begin

text \<open>
  Saved states, save RAM, rewinding and replays: the rest of \<open>src/nes/state.rs\<close>, and loading a ROM
  of \<open>src/nes/filesystem.rs\<close>.
\<close>

section \<open>Saved states\<close>

fun starts_with :: "string \<Rightarrow> string \<Rightarrow> bool" where
  "starts_with [] s = True"
| "starts_with (c # p) [] = False"
| "starts_with (c # p) (x # s) = (c = x \<and> starts_with p s)"

fun contains_text :: "string \<Rightarrow> string \<Rightarrow> bool" where
  "contains_text p [] = (p = [])"
| "contains_text p (x # s) = (starts_with p (x # s) \<or> contains_text p s)"

definition nes_save_data ::
    "('rb, 'd, 'p) nes_env \<Rightarrow> string \<Rightarrow> u8 list \<Rightarrow> ('rb, 'd, 'p) nes \<Rightarrow> (file_error + unit) \<times> ('rb, 'd, 'p) nes" where
  "nes_save_data env path data n =
     (let (r, fs) = save_data (co_deflate (ne_codec env)) path data (n_files n) in (r, n\<lparr>n_files := fs\<rparr>))"

text \<open>\<open>map\<close> keeps the result of \<open>save_data\<close> inside an \<open>Ok\<close>: a file that could not be written counts
  as saved.\<close>

definition save_state :: "('rb, 'd, 'p) nes_env \<Rightarrow> u8 \<Rightarrow> ('rb, 'd, 'p) nes \<Rightarrow> ('rb, 'd, 'p) nes" where
  "save_state env slot n =
     (if contains_text ''test'' (cf_rom_path (n_config n)) then n
      else let failed = add_message n (''Failed to save slot '' @ show_nat (unat slot))
           in (case save_path env slot n of
                 Inl _ \<Rightarrow> failed
               | Inr path \<Rightarrow>
                   (case co_ser_cpu (ne_codec env) (cd_cpu (n_deck n)) of
                      None \<Rightarrow> failed
                    | Some data \<Rightarrow>
                        let (_, n) = nes_save_data env path data n
                        in add_message n (''Saved slot '' @ show_nat (unat slot)))))"

definition load_state :: "('rb, 'd, 'p) nes_env \<Rightarrow> u8 \<Rightarrow> ('rb, 'd, 'p) nes \<Rightarrow> ('rb, 'd, 'p) nes" where
  "load_state env slot n =
     (case save_path env slot n of
        Inl _ \<Rightarrow> add_message n (''Failed to determine save path '' @ show_nat (unat slot))
      | Inr path \<Rightarrow>
          if fs_files (n_files n) path \<noteq> None
          then let failed = add_message n (''Failed to load slot '' @ show_nat (unat slot))
               in (case load_data (co_inflate (ne_codec env)) path (n_files n) of
                     Inl _ \<Rightarrow> failed
                   | Inr data \<Rightarrow>
                       (case co_de_cpu (ne_codec env) data of
                          None \<Rightarrow> failed
                        | Some c \<Rightarrow>
                            add_message (n\<lparr>n_deck := deck_load_cpu (n_deck n) c\<rparr>)
                              (''Loaded slot '' @ show_nat (unat slot))))
          else add_message n (''No save state found for slot '' @ show_nat (unat slot)))"

definition save_screenshot :: "('rb, 'd, 'p) nes_env \<Rightarrow> ('rb, 'd, 'p) nes \<Rightarrow> ('rb, 'd, 'p) nes" where
  "save_screenshot env n =
     (let filename = ''Screen_Shot_'' @ ne_time env @ ''.png'';
          (success, p) = px_save_canvas (ne_pix env) filename (n_pix n);
          n = n\<lparr>n_pix := p\<rparr>
      in if success then add_message n filename else add_message n ''Failed to save screenshot'')"

section \<open>Save RAM\<close>

definition deck_cart_battery_backed :: "control_deck \<Rightarrow> bool" where
  "deck_cart_battery_backed d = cb_battery_backed (c_bus (cd_cpu d))"

definition deck_sram :: "control_deck \<Rightarrow> u8 list" where
  "deck_sram d = cb_prg_ram (c_bus (cd_cpu d))"

definition save_sram :: "('rb, 'd, 'p) nes_env \<Rightarrow> ('rb, 'd, 'p) nes \<Rightarrow> (app_error + unit) \<times> ('rb, 'd, 'p) nes" where
  "save_sram env n =
     (if deck_cart_battery_backed (n_deck n)
      then (case sram_path env n of
              Inl e \<Rightarrow> (Inl e, n)
            | Inr path \<Rightarrow>
                let (r, n) = nes_save_data env path (deck_sram (n_deck n)) n
                in (case r of Inl e \<Rightarrow> Inl (AppFileError e) | Inr _ \<Rightarrow> Inr (), n))
      else (Inr (), n))"

definition load_sram :: "('rb, 'd, 'p) nes_env \<Rightarrow> ('rb, 'd, 'p) nes \<Rightarrow> (app_error + unit) \<times> ('rb, 'd, 'p) nes" where
  "load_sram env n =
     (case sram_path env n of
        Inl e \<Rightarrow> (Inl e, n)
      | Inr path \<Rightarrow>
          if deck_cart_battery_backed (n_deck n) \<and> fs_files (n_files n) path \<noteq> None
          then (case load_data (co_inflate (ne_codec env)) path (n_files n) of
                  Inl e \<Rightarrow> (Inl (AppFileError e), n)
                | Inr data \<Rightarrow> (Inr (), n\<lparr>n_deck := deck_load_sram (n_deck n) data\<rparr>))
          else (Inr (), n))"

section \<open>Rewinding\<close>

text \<open>The front of the deque is the head of the list.\<close>

definition rewind_disable :: "('rb, 'd, 'p) nes \<Rightarrow> ('rb, 'd, 'p) nes" where
  "rewind_disable n = n\<lparr>n_config := (n_config n)\<lparr>cf_rewind := False\<rparr>, n_rewind_buffer := []\<rparr>"

definition rewind_save :: "('rb, 'd, 'p) nes_env \<Rightarrow> ('rb, 'd, 'p) nes \<Rightarrow> u8 list option" where
  "rewind_save env n =
     do { data \<leftarrow> co_ser_cpu (ne_codec env) (cd_cpu (n_deck n)); co_deflate (ne_codec env) data }"

definition update_rewind :: "('rb, 'd, 'p) nes_env \<Rightarrow> ('rb, 'd, 'p) nes \<Rightarrow> ('rb, 'd, 'p) nes" where
  "update_rewind env n =
     (if \<not> cf_rewind (n_config n) then n
      else let n = n\<lparr>n_rewind_frame := n_rewind_frame n + 1\<rparr>
           in if n_rewind_frame n \<ge> cf_rewind_frames (n_config n)
              then let n = n\<lparr>n_rewind_frame := 0\<rparr>
                   in (case rewind_save env n of
                         None \<Rightarrow> rewind_disable n
                       | Some data \<Rightarrow>
                           let n = n\<lparr>n_rewind_buffer := data # n_rewind_buffer n\<rparr>;
                               buffer_size = foldl (\<lambda>size data. size + length data) 0 (n_rewind_buffer n)
                           in if buffer_size > cf_rewind_buffer_size (n_config n) * 1024 * 1024
                              then n\<lparr>n_rewind_buffer := take (length (n_rewind_buffer n) div 2) (n_rewind_buffer n)\<rparr>
                              else n)
              else n)"

definition rewind_load :: "('rb, 'd, 'p) nes_env \<Rightarrow> u8 list \<Rightarrow> ('rb, 'd, 'p) nes \<Rightarrow> ('rb, 'd, 'p) nes" where
  "rewind_load env data n =
     (case do { data \<leftarrow> co_inflate (ne_codec env) data; co_de_cpu (ne_codec env) data } of
        Some c \<Rightarrow> n\<lparr>n_deck := deck_load_cpu (n_deck n) c\<rparr>
      | None \<Rightarrow> rewind_disable n)"

definition nes_rewind :: "('rb, 'd, 'p) nes_env \<Rightarrow> ('rb, 'd, 'p) nes \<Rightarrow> ('rb, 'd, 'p) nes" where
  "nes_rewind env n =
     (case n_rewind_buffer n of
        [] \<Rightarrow> n
      | data # buffer \<Rightarrow> rewind_load env data (n\<lparr>n_rewind_buffer := buffer\<rparr>))"

text \<open>A division by zero panics.\<close>

definition instant_rewind :: "('rb, 'd, 'p) nes_env \<Rightarrow> ('rb, 'd, 'p) nes \<Rightarrow> ('rb, 'd, 'p) nes option" where
  "instant_rewind env n =
     (if cf_rewind (n_config n)
      then if cf_rewind_frames (n_config n) = 0 then None
           else let n = n\<lparr>n_rewind_buffer :=
                       drop (120 div unat (cf_rewind_frames (n_config n))) (n_rewind_buffer n)\<rparr>
                in Some (case n_rewind_buffer n of
                     [] \<Rightarrow> n
                   | data # buffer \<Rightarrow>
                       rewind_load env data (add_message (n\<lparr>n_rewind_buffer := buffer\<rparr>) ''Rewind''))
      else Some (add_message n ''Rewind disabled. You can enable it in the Config menu.''))"

section \<open>Replays\<close>

definition start_replay :: "('rb, 'd, 'p) nes \<Rightarrow> ('rb, 'd, 'p) nes" where
  "start_replay n =
     add_message (n\<lparr>n_replay := (n_replay n)\<lparr>rp_start := Some (cd_cpu (n_deck n)), rp_mode := Recording\<rparr>\<rparr>)
       ''Replay Recording Started''"

definition save_replay :: "('rb, 'd, 'p) nes_env \<Rightarrow> ('rb, 'd, 'p) nes \<Rightarrow> ('rb, 'd, 'p) nes" where
  "save_replay env n =
     (let path = with_extension (''tetanes_'' @ ne_time env) ''replay'';
          n = n\<lparr>n_replay := (n_replay n)\<lparr>rp_buffer := rev (rp_buffer (n_replay n))\<rparr>\<rparr>
      in (case co_ser_replay (ne_codec env) (n_replay n) of
            None \<Rightarrow> add_message n ''Failed to save replay recording''
          | Some data \<Rightarrow>
              let (_, n) = nes_save_data env path data n;
                  n = n\<lparr>n_replay := (n_replay n)\<lparr>rp_buffer := []\<rparr>\<rparr>
              in add_message n ''Saved replay recording''))"

definition stop_replay :: "('rb, 'd, 'p) nes_env \<Rightarrow> ('rb, 'd, 'p) nes \<Rightarrow> ('rb, 'd, 'p) nes" where
  "stop_replay env n =
     (let n = (if rp_mode (n_replay n) = Playback then add_message n ''Replay Playback Stopped''
               else save_replay env (add_message n ''Replay Recording Stopped''))
      in n\<lparr>n_replay := (n_replay n)\<lparr>rp_mode := ReplayOff\<rparr>\<rparr>)"

text \<open>\<open>expect\<close> panics on a replay without a start.\<close>

definition load_replay :: "('rb, 'd, 'p) nes_env \<Rightarrow> ('rb, 'd, 'p) nes \<Rightarrow> ('rb, 'd, 'p) nes option" where
  "load_replay env n =
     (case n_replay_path n of
        None \<Rightarrow> Some n
      | Some path \<Rightarrow>
          let failed = add_message n ''Failed to load replay recording''
          in (case load_data (co_inflate (ne_codec env)) path (n_files n) of
                Inl _ \<Rightarrow> Some failed
              | Inr data \<Rightarrow>
                  (case co_de_replay (ne_codec env) data of
                     None \<Rightarrow> Some failed
                   | Some replay \<Rightarrow>
                       (case rp_start replay of
                          None \<Rightarrow> None
                        | Some start \<Rightarrow>
                            Some (add_message
                              (n\<lparr>n_deck := deck_load_cpu (n_deck n) start,
                                 n_replay := replay\<lparr>rp_start := None, rp_mode := Playback\<rparr>\<rparr>)
                              ''Loaded replay recording'')))))"

section \<open>Loading a ROM\<close>

definition rom_filename :: "('rb, 'd, 'p) nes \<Rightarrow> string" where
  "rom_filename n = (case file_name (cf_rom_path (n_config n)) of Some name \<Rightarrow> name | None \<Rightarrow> [])"

definition is_nes_rom :: "file_store \<Rightarrow> string \<Rightarrow> bool" where
  "is_nes_rom fs path =
     (case file_open fs path of
        Inl _ \<Rightarrow> False
      | Inr rom \<Rightarrow> (case nes_header_load rom of Inl _ \<Rightarrow> False | Inr _ \<Rightarrow> True))"

text \<open>A file name in a message is quoted.\<close>

definition quoted :: "string \<Rightarrow> string" where "quoted s = CHR 0x22 # s @ [CHR 0x22]"

definition nes_audio_new ::
    "('rb, 'd, 'p) nes_env \<Rightarrow> control_deck \<Rightarrow> config \<Rightarrow> ('rb, 'd) audio_mixer option" where
  "nes_audio_new env d config =
     mixer_new (ne_ring env) (ne_sin env) (ne_cos env) (Fin (deck_clock_rate d))
       (f32_div (cf_audio_sample_rate config) (cf_speed config)) (cf_audio_buffer_size config)"

definition nes_open_playback ::
    "('rb, 'd, 'p) nes_env \<Rightarrow> ('rb, 'd, 'p) nes \<Rightarrow> (('rb, 'd, 'p) nes, unit) outcome" where
  "nes_open_playback env n =
     (let (r, m) = mixer_open_playback (ne_ring env) (ne_open_device env) (n_audio n)
      in Some (case r of Inl e \<Rightarrow> Inl (AppAudioError e) | Inr _ \<Rightarrow> Inr (), n\<lparr>n_audio := m\<rparr>))"

text \<open>The new mixer and its device, as after loading a ROM or changing the region.\<close>

definition nes_renew_audio ::
    "('rb, 'd, 'p) nes_env \<Rightarrow> ('rb, 'd, 'p) nes \<Rightarrow> (('rb, 'd, 'p) nes, unit) outcome" where
  "nes_renew_audio env n =
     do { m \<leftarrow> nes_audio_new env (n_deck n) (n_config n); nes_open_playback env (n\<lparr>n_audio := m\<rparr>) }"

definition rom_loaded ::
    "('rb, 'd, 'p) nes_env \<Rightarrow> ('rb, 'd, 'p) nes \<Rightarrow> (('rb, 'd, 'p) nes, unit) outcome" where
  "rom_loaded env n =
     (let n = n\<lparr>n_config := (n_config n)\<lparr>cf_region := cd_region (n_deck n)\<rparr>\<rparr>
      in and_then (pix_call (px_dimensions (ne_pix env) (config_get_dimensions (n_config n))) n) (\<lambda>_ n.
         and_then (update_frame_rate env n) (\<lambda>_ n.
         and_then (nes_renew_audio env n) (\<lambda>_ n.
           let n = nes_audio_resume env n;
               (r, n) = load_sram env n;
               n = (case r of Inl _ \<Rightarrow> add_message n ''Failed to load game state'' | Inr _ \<Rightarrow> n)
           in succeed () (n\<lparr>n_mode := Playing\<rparr>)))))"

definition rom_path_name :: "string \<Rightarrow> string" where
  "rom_path_name path = (case file_name path of Some name \<Rightarrow> name | None \<Rightarrow> ''unknown'')"

definition nes_load_rom ::
    "('rb, 'd, 'p) nes_env \<Rightarrow> ('rb, 'd, 'p) nes \<Rightarrow> (('rb, 'd, 'p) nes, unit) outcome" where
  "nes_load_rom env n =
     (let path = cf_rom_path (n_config n)
      in if ne_is_dir env path then succeed () (n\<lparr>n_mode := InMenu LoadRomMenu\<rparr>)
         else if \<not> is_nes_rom (n_files n) path
         then succeed () (n\<lparr>n_error := Some (''Invalid NES ROM '' @ quoted (rom_filename n))\<rparr>)
         else
           let n = nes_audio_pause env (n\<lparr>n_error := None, n_mode := Paused\<rparr>)
           in (case file_open (n_files n) path of
                 Inl _ \<Rightarrow> succeed () (n\<lparr>n_mode := InMenu LoadRomMenu,
                            n_error := Some (''Failed to open ROM '' @ quoted (rom_filename n))\<rparr>)
               | Inr rom \<Rightarrow>
                   do { (r, d) \<leftarrow> deck_load_rom (ne_rng env) (ne_rngs env) (ne_region_of env) (n_deck n)
                                   (rom_path_name path) rom;
                        let n = n\<lparr>n_deck := d\<rparr>;
                        and_then (case r of
                            Inr _ \<Rightarrow> rom_loaded env n
                          | Inl _ \<Rightarrow> succeed () (n\<lparr>n_mode := InMenu LoadRomMenu,
                              n_error := Some (''Failed to load ROM '' @ quoted (rom_filename n))\<rparr>))
                          (\<lambda>_ n.
                            let n = (case save_path env 1 n of
                                       Inr path \<Rightarrow> if fs_files (n_files n) path \<noteq> None then load_state env 1 n else n
                                     | Inl _ \<Rightarrow> n)
                            in do { n \<leftarrow> load_replay env n; succeed () n }) }))"

end
