(* ===== verification/Nes.thy ===== *)
theory Nes
  imports NesSaves
begin

text \<open>
  The application: \<open>src/nes.rs\<close> and \<open>src/nes/event.rs\<close>. Input events are looked up in the bindings
  and become actions; an action may be recorded; an update replays actions, runs the deck for the
  time that has passed and hands its samples to the mixer. Drawing is left out; the menus, which
  draw and change the configuration together, are the parameter \<open>menus\<close> of an update.
\<close>

section \<open>Joypads\<close>

definition deck_joypad_mut :: "control_deck \<Rightarrow> slot \<Rightarrow> (joypad \<Rightarrow> joypad) \<Rightarrow> control_deck" where
  "deck_joypad_mut d slot f =
     deck_on_bus (\<lambda>b. b\<lparr>cb_input := (cb_input b)\<lparr>in_joypads :=
        (in_joypads (cb_input b))[slot_index slot := f (in_joypads (cb_input b) ! slot_index slot)]\<rparr>\<rparr>) d"

definition press_joypad :: "bool \<Rightarrow> joypad_btn \<Rightarrow> bool \<Rightarrow> joypad \<Rightarrow> joypad" where
  "press_joypad concurrent_dpad button pressed joypad =
     (let joypad = (if \<not> concurrent_dpad \<and> pressed
            then (case button of
                    BtnLeft \<Rightarrow> joypad_set_button joypad BTN_RIGHT False
                  | BtnRight \<Rightarrow> joypad_set_button joypad BTN_LEFT False
                  | BtnUp \<Rightarrow> joypad_set_button joypad BTN_DOWN False
                  | BtnDown \<Rightarrow> joypad_set_button joypad BTN_UP False
                  | _ \<Rightarrow> joypad)
            else joypad);
          joypad = joypad_set_button joypad (btn_state_from button) pressed
      in (case button of
            BtnTurboA \<Rightarrow> joypad_set_button joypad BTN_A pressed
          | BtnTurboB \<Rightarrow> joypad_set_button joypad BTN_B pressed
          | _ \<Rightarrow> joypad))"

definition handle_joypad_pressed ::
    "slot \<Rightarrow> joypad_btn \<Rightarrow> bool \<Rightarrow> ('rb, 'd, 'p) nes \<Rightarrow> bool \<times> ('rb, 'd, 'p) nes" where
  "handle_joypad_pressed slot button pressed n =
     (if n_mode n \<noteq> Playing then (False, n)
      else (True, n\<lparr>n_deck := deck_joypad_mut (n_deck n) slot
                     (press_joypad (cf_concurrent_dpad (n_config n)) button pressed)\<rparr>))"

section \<open>Debugger\<close>

definition nes_clock_instr ::
    "('rb, 'd, 'p) nes \<Rightarrow> ((deck_error + control_flow) \<times> ('rb, 'd, 'p) nes) option" where
  "nes_clock_instr n = do { (r, d) \<leftarrow> deck_clock_instr (n_deck n); Some (r, n\<lparr>n_deck := d\<rparr>) }"

definition report_error ::
    "('rb, 'd, 'p) nes_env \<Rightarrow> (deck_error + 'a) \<times> ('rb, 'd, 'p) nes \<Rightarrow> (('rb, 'd, 'p) nes, unit) outcome" where
  "report_error env rn =
     (case rn of (Inl err, n) \<Rightarrow> handle_emulation_error env err n | (Inr _, n) \<Rightarrow> succeed () n)"

definition debug_step_into ::
    "('rb, 'd, 'p) nes_env \<Rightarrow> ('rb, 'd, 'p) nes \<Rightarrow> (('rb, 'd, 'p) nes, unit) outcome" where
  "debug_step_into env n = do { rn \<leftarrow> nes_clock_instr (pause_play env n); report_error env rn }"

definition next_instr :: "('rb, 'd, 'p) nes \<Rightarrow> instr option" where
  "next_instr n =
     do { opcode \<leftarrow> cpu_peek (cd_cpu (n_deck n)) (c_pc (cd_cpu (n_deck n))) AccDummy;
          Some (INSTRUCTIONS ! unat opcode) }"

partial_function (option) step_over_loop ::
    "('rb, 'd, 'p) nes_env \<Rightarrow> u16 \<Rightarrow> ('rb, 'd, 'p) nes \<Rightarrow> (('rb, 'd, 'p) nes, unit) outcome" where
  "step_over_loop env rti_addr n =
     (if c_pc (cd_cpu (n_deck n)) = rti_addr then Some (Inr (), n)
      else Option.bind (nes_clock_instr n) (\<lambda>(r, n).
             case r of
               Inl err \<Rightarrow> handle_emulation_error env err n
             | Inr _ \<Rightarrow> step_over_loop env rti_addr n))"

definition debug_step_over ::
    "('rb, 'd, 'p) nes_env \<Rightarrow> ('rb, 'd, 'p) nes \<Rightarrow> (('rb, 'd, 'p) nes, unit) outcome" where
  "debug_step_over env n =
     (let n = pause_play env n
      in do { instr \<leftarrow> next_instr n;
              rn \<leftarrow> nes_clock_instr n;
              and_then (report_error env rn) (\<lambda>_ n.
                if instr_op instr = JSR
                then do { addr \<leftarrow> peek_stack_u16 (cd_cpu (n_deck n)); step_over_loop env (addr + 1) n }
                else succeed () n) })"

partial_function (option) step_out_loop ::
    "('rb, 'd, 'p) nes_env \<Rightarrow> instr \<Rightarrow> ('rb, 'd, 'p) nes \<Rightarrow> (('rb, 'd, 'p) nes, unit) outcome" where
  "step_out_loop env instr n =
     (if instr_op instr = RTS \<or> instr_op instr = RTI then Some (Inr (), n)
      else Option.bind (nes_clock_instr n) (\<lambda>(r, n).
             case r of
               Inl err \<Rightarrow> handle_emulation_error env err n
             | Inr _ \<Rightarrow> Option.bind (next_instr n) (\<lambda>instr. step_out_loop env instr n)))"

definition debug_step_out ::
    "('rb, 'd, 'p) nes_env \<Rightarrow> ('rb, 'd, 'p) nes \<Rightarrow> (('rb, 'd, 'p) nes, unit) outcome" where
  "debug_step_out env n =
     do { instr \<leftarrow> next_instr n;
          and_then (step_out_loop env instr n) (\<lambda>_ n.
            do { rn \<leftarrow> nes_clock_instr n; report_error env rn }) }"

definition debug_step_frame ::
    "('rb, 'd, 'p) nes_env \<Rightarrow> ('rb, 'd, 'p) nes \<Rightarrow> (('rb, 'd, 'p) nes, unit) outcome" where
  "debug_step_frame env n =
     (let n = pause_play env n
      in do { (r, d) \<leftarrow> deck_clock_frame (n_deck n); report_error env (r, n\<lparr>n_deck := d\<rparr>) })"

definition debug_step_scanline ::
    "('rb, 'd, 'p) nes_env \<Rightarrow> ('rb, 'd, 'p) nes \<Rightarrow> (('rb, 'd, 'p) nes, unit) outcome" where
  "debug_step_scanline env n =
     (let n = pause_play env n
      in do { (r, d) \<leftarrow> deck_clock_scanline (n_deck n); report_error env (r, n\<lparr>n_deck := d\<rparr>) })"

definition nes_open_window ::
    "('rb, 'd, 'p) nes_env \<Rightarrow> string \<Rightarrow> ('rb, 'd, 'p) nes \<Rightarrow> (('rb, 'd, 'p) nes, nat) outcome" where
  "nes_open_window env title n =
     (let (w, p) = px_open_window (ne_pix env) title (n_pix n)
      in Some (case w of Some i \<Rightarrow> Inr i | None \<Rightarrow> Inl PixError, n\<lparr>n_pix := p\<rparr>))"

definition toggle_debugger ::
    "('rb, 'd, 'p) nes_env \<Rightarrow> ('rb, 'd, 'p) nes \<Rightarrow> (('rb, 'd, 'p) nes, unit) outcome" where
  "toggle_debugger env n =
     (case n_debugger n of
        None \<Rightarrow> and_then (nes_open_window env ''Debugger'' n) (\<lambda>w n.
                  succeed () (pause_play env (n\<lparr>n_debugger := Some w\<rparr>)))
      | Some w \<Rightarrow> and_then (pix_call (px_close_window (ne_pix env) w) n) (\<lambda>_ n.
                  succeed () (n\<lparr>n_debugger := None\<rparr>)))"

definition toggle_ppu_viewer ::
    "('rb, 'd, 'p) nes_env \<Rightarrow> ('rb, 'd, 'p) nes \<Rightarrow> (('rb, 'd, 'p) nes, unit) outcome" where
  "toggle_ppu_viewer env n =
     (case n_ppu_viewer n of
        None \<Rightarrow> and_then (nes_open_window env ''PPU Viewer'' n) (\<lambda>w n.
                  succeed () (n\<lparr>n_ppu_viewer := Some (w, 0)\<rparr>))
      | Some (w, _) \<Rightarrow> and_then (pix_call (px_close_window (ne_pix env) w) n) (\<lambda>_ n.
                  succeed () (n\<lparr>n_ppu_viewer := None\<rparr>)))"

definition toggle_apu_viewer ::
    "('rb, 'd, 'p) nes_env \<Rightarrow> ('rb, 'd, 'p) nes \<Rightarrow> (('rb, 'd, 'p) nes, unit) outcome" where
  "toggle_apu_viewer env n =
     (case n_apu_viewer n of
        None \<Rightarrow> and_then (nes_open_window env ''APU Viewer'' n) (\<lambda>w n.
                  succeed () (n\<lparr>n_apu_viewer := Some w\<rparr>))
      | Some w \<Rightarrow> and_then (pix_call (px_close_window (ne_pix env) w) n) (\<lambda>_ n.
                  succeed () (n\<lparr>n_apu_viewer := None\<rparr>)))"

definition inc_scanline :: "u32 \<Rightarrow> u32 \<Rightarrow> u32" where
  "inc_scanline scanline increment = min (scanline + increment) (240 - 1)"

definition dec_scanline :: "u32 \<Rightarrow> u32 \<Rightarrow> u32" where
  "dec_scanline scanline decrement = (if decrement \<le> scanline then scanline - decrement else 0)"

definition nes_move_scanline ::
    "('rb, 'd, 'p) nes_env \<Rightarrow> (u32 \<Rightarrow> u32 \<Rightarrow> u32) \<Rightarrow> ('rb, 'd, 'p) nes \<Rightarrow> (('rb, 'd, 'p) nes, unit) outcome" where
  "nes_move_scanline env f n =
     succeed () (case n_ppu_viewer n of
        Some (w, scanline) \<Rightarrow>
          n\<lparr>n_ppu_viewer := Some (w, f scanline (if px_shift_down (ne_pix env) (n_pix n) then 10 else 1))\<rparr>
      | None \<Rightarrow> n)"

definition handle_debug ::
    "('rb, 'd, 'p) nes_env \<Rightarrow> debug_action \<Rightarrow> bool \<Rightarrow> ('rb, 'd, 'p) nes \<Rightarrow> (('rb, 'd, 'p) nes, bool) outcome" where
  "handle_debug env action repeat n =
     (let debugging = (n_debugger n \<noteq> None);
          act = (\<lambda>guard f. if guard then and_then (f env n) (\<lambda>_ n. succeed True n) else succeed False n)
      in (case action of
            ToggleCpuDebugger \<Rightarrow> act (\<not> repeat) toggle_debugger
          | TogglePpuDebugger \<Rightarrow> act (\<not> repeat) toggle_ppu_viewer
          | ToggleApuDebugger \<Rightarrow> act (\<not> repeat) toggle_apu_viewer
          | StepInto \<Rightarrow> act debugging debug_step_into
          | StepOver \<Rightarrow> act debugging debug_step_over
          | StepOut \<Rightarrow> act debugging debug_step_out
          | StepFrame \<Rightarrow> act debugging debug_step_frame
          | StepScanline \<Rightarrow> act debugging debug_step_scanline
          | IncScanline \<Rightarrow> act True (\<lambda>env n. nes_move_scanline env inc_scanline n)
          | DecScanline \<Rightarrow> act True (\<lambda>env n. nes_move_scanline env dec_scanline n)))"

section \<open>Actions\<close>

text \<open>The mapper revision is a \<open>todo!\<close>, which panics.\<close>

definition handle_nes_state ::
    "('rb, 'd, 'p) nes_env \<Rightarrow> nes_state \<Rightarrow> ('rb, 'd, 'p) nes \<Rightarrow> (('rb, 'd, 'p) nes, bool) outcome" where
  "handle_nes_state env state n =
     (if rp_mode (n_replay n) = Recording then succeed False n
      else (case state of
              Quit \<Rightarrow>
                let n = pause_play env n in succeed True (n\<lparr>n_pix := px_quit (ne_pix env) (n_pix n)\<rparr>)
            | TogglePause \<Rightarrow> and_then (toggle_pause env n) (\<lambda>_ n. succeed True n)
            | SoftReset \<Rightarrow>
                do { d \<leftarrow> deck_reset (ne_rng env) (n_deck n) Soft;
                     let n = add_message (n\<lparr>n_error := None, n_deck := d\<rparr>) ''Reset'';
                     succeed True (if n_debugger n \<noteq> None \<and> n_mode n \<noteq> Paused then n\<lparr>n_mode := Paused\<rparr> else n) }
            | HardReset \<Rightarrow>
                do { d \<leftarrow> deck_reset (ne_rng env) (n_deck n) Hard;
                     let n = add_message (n\<lparr>n_error := None, n_deck := d\<rparr>) ''Power Cycled'';
                     succeed True (if n_debugger n \<noteq> None then n\<lparr>n_mode := Paused\<rparr> else n) }
            | SetMapperRevision _ \<Rightarrow> None))"

definition handle_feature ::
    "('rb, 'd, 'p) nes_env \<Rightarrow> feature \<Rightarrow> bool \<Rightarrow> bool \<Rightarrow> ('rb, 'd, 'p) nes \<Rightarrow> ('rb, 'd, 'p) nes option" where
  "handle_feature env feature pressed repeat n =
     (if feature = Rewind
      then if repeat
           then Some (if cf_rewind (n_config n) then n\<lparr>n_mode := Rewinding\<rparr>
                      else add_message n ''Rewind disabled. You can enable it in the Config menu.'')
           else if \<not> pressed
           then if n_mode n = Rewinding then Some (resume_play env n) else instant_rewind env n
           else Some n
      else if pressed
      then Some (case feature of
              ToggleGameplayRecording \<Rightarrow>
                (case rp_mode (n_replay n) of
                   ReplayOff \<Rightarrow> start_replay n
                 | Recording \<Rightarrow> stop_replay env n
                 | Playback \<Rightarrow> stop_replay env n)
            | ToggleSoundRecording \<Rightarrow> toggle_sound_recording n
            | TakeScreenshot \<Rightarrow> save_screenshot env n
            | SaveState \<Rightarrow> save_state env (cf_save_slot (n_config n)) n
            | LoadState \<Rightarrow> load_state env (cf_save_slot (n_config n)) n
            | Rewind \<Rightarrow> n)
      else Some n)"

definition on_config :: "(config \<Rightarrow> config) \<Rightarrow> ('rb, 'd, 'p) nes \<Rightarrow> ('rb, 'd, 'p) nes" where
  "on_config f n = n\<lparr>n_config := f (n_config n)\<rparr>"

definition toggle_filter :: "video_filter \<Rightarrow> video_filter" where
  "toggle_filter f = (case f of Pixellate \<Rightarrow> NtscFilter | NtscFilter \<Rightarrow> Pixellate)"

definition handle_setting ::
    "('rb, 'd, 'p) nes_env \<Rightarrow> setting \<Rightarrow> bool \<Rightarrow> bool \<Rightarrow> ('rb, 'd, 'p) nes \<Rightarrow> (('rb, 'd, 'p) nes, bool) outcome" where
  "handle_setting env setting pressed repeat n =
     (let toggle = (\<lambda>channel. succeed True (n\<lparr>n_deck := deck_toggle_channel (n_deck n) channel\<rparr>))
      in if setting = FastForward
         then succeed True (if repeat then set_speed (Fin 2) n else if \<not> pressed then set_speed (Fin 1) n else n)
         else if pressed
         then (case setting of
                 SetSaveSlot slot \<Rightarrow>
                   succeed True (add_message (on_config (cf_save_slot_update (\<lambda>_. slot)) n)
                     (''Set Save Slot to '' @ show_nat (unat slot)))
               | ToggleFullscreen \<Rightarrow>
                   let n = on_config (cf_fullscreen_update Not) n
                   in and_then (pix_call (px_fullscreen (ne_pix env) (cf_fullscreen (n_config n))) n)
                        (\<lambda>_ n. succeed True n)
               | ToggleVsync \<Rightarrow>
                   let n = on_config (cf_vsync_update Not) n
                   in and_then (pix_call (px_vsync (ne_pix env) (cf_vsync (n_config n))) n) (\<lambda>_ n.
                        succeed True (add_message n
                          (if cf_vsync (n_config n) then ''Vsync Enabled'' else ''Vsync Disabled'')))
               | ToggleNtscFilter \<Rightarrow>
                   let n = on_config (cf_filter_update toggle_filter) n
                   in succeed True (n\<lparr>n_deck := deck_set_filter (n_deck n) (cf_filter (n_config n))\<rparr>)
               | ToggleSound \<Rightarrow>
                   let n = on_config (cf_sound_update Not) n
                   in succeed True (add_message n
                        (if cf_sound (n_config n) then ''Sound Enabled'' else ''Sound Disabled''))
               | TogglePulse1 \<Rightarrow> toggle Pulse1
               | TogglePulse2 \<Rightarrow> toggle Pulse2
               | ToggleTriangle \<Rightarrow> toggle Triangle
               | ToggleNoise \<Rightarrow> toggle Noise
               | ToggleDmc \<Rightarrow> toggle Dmc
               | IncSpeed \<Rightarrow> succeed True (change_speed (Fin (1 / 4)) n)
               | DecSpeed \<Rightarrow> succeed True (change_speed (Fin (- 1 / 4)) n)
               | _ \<Rightarrow> succeed False n)
         else succeed False n)"

definition nes_action_event ::
    "slot \<Rightarrow> action \<Rightarrow> bool \<Rightarrow> bool \<Rightarrow> ('rb, 'd, 'p) nes \<Rightarrow> action_event" where
  "nes_action_event slot action pressed repeat n =
     \<lparr>ae_frame = deck_frame_number (n_deck n), ae_slot = slot, ae_action = action, ae_pressed = pressed,
      ae_repeat = repeat\<rparr>"

text \<open>What an action does, before it is recorded. A guard \<open>if pressed\<close> that fails falls through to the
  last case.\<close>

definition do_action ::
    "('rb, 'd, 'p) nes_env \<Rightarrow> slot \<Rightarrow> action \<Rightarrow> bool \<Rightarrow> bool \<Rightarrow> ('rb, 'd, 'p) nes
       \<Rightarrow> (('rb, 'd, 'p) nes, bool) outcome" where
  "do_action env slot action pressed repeat n =
     (case action of
        DebugAct a \<Rightarrow> if pressed then handle_debug env a repeat n else succeed False n
      | FeatureAct feature \<Rightarrow> do { n \<leftarrow> handle_feature env feature pressed repeat n; succeed True n }
      | NesAct state \<Rightarrow> if pressed then handle_nes_state env state n else succeed False n
      | MenuAct menu \<Rightarrow>
          if pressed then and_then (toggle_menu env menu n) (\<lambda>_ n. succeed True n) else succeed False n
      | SettingAct setting \<Rightarrow> handle_setting env setting pressed repeat n
      | JoypadAct button \<Rightarrow> (let (handled, n) = handle_joypad_pressed slot button pressed n in succeed handled n)
      | ZapperTriggerAct \<Rightarrow>
          if pressed then succeed True (n\<lparr>n_deck := deck_trigger_zapper (n_deck n)\<rparr>) else succeed False n
      | ZeroAxisAct button1 button2 \<Rightarrow>
          (let (handled, n) = handle_joypad_pressed slot button1 pressed n
           in if handled then succeed True n
              else let (handled, n) = handle_joypad_pressed slot button2 pressed n in succeed handled n))"

definition record_action ::
    "slot \<Rightarrow> action \<Rightarrow> bool \<Rightarrow> bool \<Rightarrow> ('rb, 'd, 'p) nes \<Rightarrow> ('rb, 'd, 'p) nes" where
  "record_action slot action pressed repeat n =
     (if rp_mode (n_replay n) = Recording
      then n\<lparr>n_replay := (n_replay n)\<lparr>rp_buffer :=
               rp_buffer (n_replay n) @ [nes_action_event slot action pressed repeat n]\<rparr>\<rparr>
      else n)"

definition handle_action ::
    "('rb, 'd, 'p) nes_env \<Rightarrow> slot \<Rightarrow> action \<Rightarrow> bool \<Rightarrow> bool \<Rightarrow> ('rb, 'd, 'p) nes
       \<Rightarrow> (('rb, 'd, 'p) nes, bool) outcome" where
  "handle_action env slot action pressed repeat n =
     and_then (do_action env slot action pressed repeat n) (\<lambda>handled n.
       succeed handled (record_action slot action pressed repeat n))"

text \<open>\<open>Greater\<close> leaves the loop with the event still in the buffer.\<close>

partial_function (option) replay_loop ::
    "('rb, 'd, 'p) nes_env \<Rightarrow> u32 \<Rightarrow> ('rb, 'd, 'p) nes \<Rightarrow> (('rb, 'd, 'p) nes, unit) outcome" where
  "replay_loop env current_frame n =
     (if rp_buffer (n_replay n) = [] then Some (Inr (), n)
      else let event = last (rp_buffer (n_replay n));
               popped = n\<lparr>n_replay := (n_replay n)\<lparr>rp_buffer := butlast (rp_buffer (n_replay n))\<rparr>\<rparr>
           in if ae_frame event = current_frame
              then Option.bind (handle_action env (ae_slot event) (ae_action event) (ae_pressed event)
                                 (ae_repeat event) popped)
                     (\<lambda>(r, n). case r of Inl e \<Rightarrow> Some (Inl e, n) | Inr _ \<Rightarrow> replay_loop env current_frame n)
              else if ae_frame event < current_frame then replay_loop env current_frame popped
              else Some (Inr (), n))"

definition replay_action ::
    "('rb, 'd, 'p) nes_env \<Rightarrow> ('rb, 'd, 'p) nes \<Rightarrow> (('rb, 'd, 'p) nes, unit) outcome" where
  "replay_action env n =
     and_then (replay_loop env (deck_frame_number (n_deck n)) n) (\<lambda>_ n.
       succeed () (if rp_buffer (n_replay n) = [] then stop_replay env n else n))"

section \<open>Events\<close>

definition handle_input ::
    "('rb, 'd, 'p) nes_env \<Rightarrow> slot \<Rightarrow> app_input \<Rightarrow> bool \<Rightarrow> bool \<Rightarrow> ('rb, 'd, 'p) nes
       \<Rightarrow> (('rb, 'd, 'p) nes, bool) outcome" where
  "handle_input env slot input pressed repeat n =
     (case cf_input_map (n_config n) input of
        None \<Rightarrow> succeed False n
      | Some action \<Rightarrow> handle_action env slot action pressed repeat n)"

text \<open>The first slot whose binding handles the event; an error counts as not handled.\<close>

fun try_slots ::
    "(slot \<Rightarrow> 's \<Rightarrow> ('s, bool) outcome) \<Rightarrow> slot list \<Rightarrow> 's \<Rightarrow> (bool \<times> 's) option" where
  "try_slots f [] n = Some (False, n)"
| "try_slots f (slot # slots) n =
     do { (r, n) \<leftarrow> f slot n; if r = Inr True then Some (True, n) else try_slots f slots n }"

definition handle_key_event ::
    "('rb, 'd, 'p) nes_env \<Rightarrow> nat \<Rightarrow> nat \<Rightarrow> bool \<Rightarrow> bool \<Rightarrow> ('rb, 'd, 'p) nes \<Rightarrow> (bool \<times> ('rb, 'd, 'p) nes) option" where
  "handle_key_event env key keymod repeat pressed n =
     try_slots (\<lambda>slot n. handle_input env slot (KeyInput slot key keymod) pressed repeat n)
       [One, Two, Three, Four] n"

definition handle_mouse_click ::
    "('rb, 'd, 'p) nes_env \<Rightarrow> nat \<Rightarrow> ('rb, 'd, 'p) nes \<Rightarrow> (bool \<times> ('rb, 'd, 'p) nes) option" where
  "handle_mouse_click env btn n =
     (if n_mode n = Playing
      then try_slots (\<lambda>slot n. handle_input env slot (MouseInput slot btn) True False n) [One, Two] n
      else Some (False, n))"

text \<open>Division of an \<open>i32\<close> rounds towards zero; by zero it panics. The picture is rows 8 to 231.\<close>

definition i32_div :: "int \<Rightarrow> int \<Rightarrow> int option" where
  "i32_div a b = (if b = 0 then None else Some (sgn a * sgn b * (\<bar>a\<bar> div \<bar>b\<bar>)))"

definition set_zapper_pos :: "int \<Rightarrow> int \<Rightarrow> ('rb, 'd, 'p) nes \<Rightarrow> ('rb, 'd, 'p) nes option" where
  "set_zapper_pos px py n =
     do { x \<leftarrow> i32_div px (f32_to_i32 (cf_scale (n_config n)));
          y \<leftarrow> i32_div py (f32_to_i32 (cf_scale (n_config n)));
          let x = f32_to_i32 (f32_add (f32_div (f32_mul (f32_of (of_int x)) (Fin 8)) (Fin 7)) (Fin (1 / 2)));
          let y = (if y < 8 then 8 else if y \<ge> 232 then 231 else y);
          Some (n\<lparr>n_deck := deck_aim_zapper (n_deck n) (of_int x) (of_int y)\<rparr>) }"

definition handle_mouse_motion :: "int \<Rightarrow> int \<Rightarrow> ('rb, 'd, 'p) nes \<Rightarrow> (bool \<times> ('rb, 'd, 'p) nes) option" where
  "handle_mouse_motion px py n =
     (if n_mode n = Playing then do { n \<leftarrow> set_zapper_pos px py n; Some (True, n) } else Some (False, n))"

definition get_controller_slot :: "('rb, 'd, 'p) nes_env \<Rightarrow> nat \<Rightarrow> ('rb, 'd, 'p) nes \<Rightarrow> slot option" where
  "get_controller_slot env controller n = find (\<lambda>slot. n_players n slot = Some controller) (ne_slots env)"

definition handle_controller_event ::
    "('rb, 'd, 'p) nes_env \<Rightarrow> nat \<Rightarrow> nat \<Rightarrow> bool \<Rightarrow> ('rb, 'd, 'p) nes \<Rightarrow> (('rb, 'd, 'p) nes, bool) outcome" where
  "handle_controller_event env controller button pressed n =
     (case get_controller_slot env controller n of
        None \<Rightarrow> succeed False n
      | Some slot \<Rightarrow> handle_input env slot (ButtonInput slot button) pressed False n)"

definition handle_controller_axis ::
    "('rb, 'd, 'p) nes_env \<Rightarrow> nat \<Rightarrow> nat \<Rightarrow> int \<Rightarrow> ('rb, 'd, 'p) nes \<Rightarrow> (('rb, 'd, 'p) nes, bool) outcome" where
  "handle_controller_axis env controller axis value n =
     (case get_controller_slot env controller n of
        None \<Rightarrow> succeed False n
      | Some slot \<Rightarrow>
          let direction = (if value > 0 then Positive else if value < 0 then Negative else NoDirection)
          in handle_input env slot (AxisInput slot axis direction) True False n)"

datatype controller_update = ControllerAdded | ControllerRemoved | ControllerRemapped

definition on_controller_update ::
    "nat \<Rightarrow> controller_update \<Rightarrow> ('rb, 'd, 'p) nes \<Rightarrow> bool \<times> ('rb, 'd, 'p) nes" where
  "on_controller_update controller update n =
     (case update of
        ControllerAdded \<Rightarrow>
          (True, n\<lparr>n_players :=
             (if n_players n One = None then (n_players n)(One \<mapsto> controller)
              else if n_players n Two = None then (n_players n)(Two \<mapsto> controller) else n_players n)\<rparr>)
      | ControllerRemoved \<Rightarrow>
          (True, n\<lparr>n_players := (\<lambda>slot. if n_players n slot = Some controller then None else n_players n slot)\<rparr>)
      | ControllerRemapped \<Rightarrow> (False, n))"

datatype window_event = WindowClose | WindowHidden | WindowFocusLost | WindowRestored | WindowFocusGained
  | WindowOther

definition on_window_event ::
    "('rb, 'd, 'p) nes_env \<Rightarrow> nat \<Rightarrow> window_event \<Rightarrow> ('rb, 'd, 'p) nes \<Rightarrow> ('rb, 'd, 'p) nes" where
  "on_window_event env window event n =
     (if event = WindowClose
      then if n_emulation n = Some window then n\<lparr>n_pix := px_quit (ne_pix env) (n_pix n)\<rparr>
           else if n_debugger n = Some window then n\<lparr>n_debugger := None\<rparr>
           else if map_option fst (n_ppu_viewer n) = Some window then n\<lparr>n_ppu_viewer := None\<rparr>
           else if n_apu_viewer n = Some window then n\<lparr>n_apu_viewer := None\<rparr> else n
      else if event = WindowHidden \<or> event = WindowFocusLost
      then if n_mode n = Playing \<and> cf_pause_in_bg (n_config n) \<and> \<not> px_focused (ne_pix env) (n_pix n)
           then n\<lparr>n_mode := PausedBg\<rparr> else n
      else if event = WindowRestored \<or> event = WindowFocusGained
      then if n_mode n = PausedBg then resume_play env n else n
      else n)"

section \<open>The samples\<close>

definition pulse_table_entry :: "nat \<Rightarrow> f32" where
  "pulse_table_entry i =
     (if i = 0 then Fin 0
      else f32_div (f32_of (9552 / 100)) (f32_add (f32_div (Fin 8128) (f32_of_nat i)) (Fin 100)))"

definition tnd_table_entry :: "nat \<Rightarrow> f32" where
  "tnd_table_entry i =
     (if i = 0 then Fin 0
      else f32_div (f32_of (16367 / 100)) (f32_add (f32_div (Fin 24329) (f32_of_nat i)) (Fin 100)))"

fun sample_f32 :: "sample \<Rightarrow> f32" where
  "sample_f32 Silence = Fin 0"
| "sample_f32 (PulseEntry i) = pulse_table_entry i"
| "sample_f32 (TndEntry i) = tnd_table_entry i"
| "sample_f32 (Plus a b) = f32_add (sample_f32 a) (sample_f32 b)"
| "sample_f32 (Over a x) = f32_div (sample_f32 a) (f32_of x)"
| "sample_f32 (Times a x) = f32_mul (sample_f32 a) (f32_of x)"

definition deck_audio_samples :: "control_deck \<Rightarrow> f32 list" where
  "deck_audio_samples d = map sample_f32 (cb_audio_samples (c_bus (cd_cpu d)))"

section \<open>Start, update and stop\<close>

definition nes_new ::
    "('rb, 'd, 'p) nes_env \<Rightarrow> control_deck \<Rightarrow> config \<Rightarrow> string option \<Rightarrow> bool \<Rightarrow> file_store \<Rightarrow> 'p
       \<Rightarrow> ('rb, 'd, 'p) nes option" where
  "nes_new env control_deck config replay_path debug files pix =
     do { audio \<leftarrow> nes_audio_new env control_deck config;
          Some \<lparr>n_deck = control_deck, n_audio = audio, n_players = Map.empty, n_emulation = None,
                n_debugger = None, n_ppu_viewer = None, n_apu_viewer = None, n_config = config,
                n_mode = (if debug then Paused else InMenu LoadRomMenu), n_replay_path = replay_path,
                n_record_sound = False, n_debug = debug, n_rewind_frame = 0, n_rewind_buffer = [],
                n_replay = replay_default, n_messages = [], n_error = None, n_paths = [], n_selected_path = 0, n_confirm_quit = None,
                n_files = files, n_pix = pix\<rparr> }"

record nes_builder =
  nb_path :: string
  nb_replay :: "string option"
  nb_fullscreen :: bool
  nb_ram_state :: "ram_state option"
  nb_scale :: "f32 option"
  nb_speed :: "f32 option"
  nb_genie_codes :: "string list"
  nb_debug :: bool

fun unwrap_or :: "'a option \<Rightarrow> 'a \<Rightarrow> 'a" where
  "unwrap_or (Some x) y = x"
| "unwrap_or None y = y"

text \<open>\<open>loaded\<close> is the configuration of the file; \<open>canonicalize\<close> fails on a path that does not exist.\<close>

definition nes_build ::
    "('rb, 'd, 'p) nes_env \<Rightarrow> config \<Rightarrow> (string \<Rightarrow> string option) \<Rightarrow> file_store \<Rightarrow> 'p \<Rightarrow> nes_builder
       \<Rightarrow> (app_error + ('rb, 'd, 'p) nes) option" where
  "nes_build env loaded canonicalize files pix b =
     (let config = config_bind loaded
      in (case canonicalize (nb_path b) of
            None \<Rightarrow> Some (Inl BadPath)
          | Some path \<Rightarrow>
              let config = config\<lparr>cf_rom_path := path,
                    cf_fullscreen := (nb_fullscreen b \<or> cf_fullscreen config),
                    cf_ram_state := unwrap_or (nb_ram_state b) (cf_ram_state config),
                    cf_scale := unwrap_or (nb_scale b) (cf_scale config),
                    cf_speed := unwrap_or (nb_speed b) (cf_speed config),
                    cf_genie_codes := cf_genie_codes config @ nb_genie_codes b\<rparr>;
                  d = deck_new (ne_rng env) (cf_ram_state config);
                  d = deck_set_region d (cf_region config);
                  d = deck_set_filter d (cf_filter config);
                  d = deck_set_four_player d (cf_four_player config);
                  d = deck_connect_zapper d (cf_zapper config)
              in map_option Inr (nes_new env d config (nb_replay b) (nb_debug b) files pix)))"

fun add_genie_codes :: "('rb, 'd, 'p) nes_env \<Rightarrow> string list \<Rightarrow> ('rb, 'd, 'p) nes \<Rightarrow> ('rb, 'd, 'p) nes" where
  "add_genie_codes env [] n = n"
| "add_genie_codes env (code # codes) n =
     (case deck_add_genie_code (n_deck n) code of
        Inl _ \<Rightarrow> add_message n (''Invalid Genie Code: '' @ CHR 0x27 # code @ [CHR 0x27])
      | Inr d \<Rightarrow> add_genie_codes env codes (n\<lparr>n_deck := d\<rparr>))"

text \<open>\<open>window\<close> is the window of the application.\<close>

definition on_start ::
    "('rb, 'd, 'p) nes_env \<Rightarrow> nat \<Rightarrow> ('rb, 'd, 'p) nes \<Rightarrow> (('rb, 'd, 'p) nes, unit) outcome" where
  "on_start env window n =
     and_then (update_frame_rate env n) (\<lambda>_ n.
     and_then (if cf_zapper (n_config n) then pix_call (px_cursor (ne_pix env) False) n else succeed () n) (\<lambda>_ n.
     and_then (nes_open_playback env n) (\<lambda>_ n.
       let n = set_scale (cf_scale (n_config n)) n;
           n = add_genie_codes env (cf_genie_codes (n_config n)) n;
           n = n\<lparr>n_emulation := Some window\<rparr>
       in and_then (nes_load_rom env n) (\<lambda>_ n.
            if n_debug n then toggle_debugger env n else succeed () n))))"

text \<open>\<open>clamp\<close> of the standard library panics unless the lower bound is at most the upper one.\<close>

definition seconds_to_run :: "f32 \<Rightarrow> f32 \<Rightarrow> f32 option" where
  "seconds_to_run speed delta =
     (let hi = f32_mul speed (f32_div (Fin 1) (Fin 20))
      in if f32_le (Fin 0) hi then Some (f32_clamp (f32_mul speed delta) (Fin 0) hi) else None)"

fun f32_rat :: "f32 \<Rightarrow> rat" where
  "f32_rat (Fin x) = x"
| "f32_rat _ = 0"

text \<open>A frame that is over is saved for rewinding, and its samples go to the mixer.\<close>

definition update_frame :: "('rb, 'd, 'p) nes_env \<Rightarrow> ('rb, 'd, 'p) nes \<Rightarrow> ('rb, 'd, 'p) nes option" where
  "update_frame env n =
     (let n = update_rewind env n
      in do { n \<leftarrow> (if cf_sound (n_config n)
                    then do { (_, m) \<leftarrow> mixer_consume (ne_ring env) (n_audio n) (deck_audio_samples (n_deck n))
                                          (cf_dynamic_rate_control (n_config n)) (cf_dynamic_rate_delta (n_config n));
                              Some (n\<lparr>n_audio := m\<rparr>) }
                    else Some n);
              Some (n\<lparr>n_deck := deck_clear_audio_samples (n_deck n)\<rparr>) })"

text \<open>\<open>False\<close> ends the update after an error.\<close>

definition update_play ::
    "('rb, 'd, 'p) nes_env \<Rightarrow> f32 \<Rightarrow> ('rb, 'd, 'p) nes \<Rightarrow> (('rb, 'd, 'p) nes, bool) outcome" where
  "update_play env delta n =
     do { seconds \<leftarrow> seconds_to_run (cf_speed (n_config n)) delta;
          let prev_frame = deck_frame_number (n_deck n);
          (r, d) \<leftarrow> deck_clock_seconds_inspect (ne_rnd env) (\<lambda>c. c) (n_deck n) (f32_rat seconds);
          let n = n\<lparr>n_deck := d\<rparr>;
          case r of
            Inl err \<Rightarrow> and_then (handle_emulation_error env err n) (\<lambda>_ n. succeed False n)
          | Inr _ \<Rightarrow>
              if prev_frame \<noteq> deck_frame_number (n_deck n)
              then do { n \<leftarrow> update_frame env n; succeed True n }
              else succeed True n }"

definition render_views :: "('rb, 'd, 'p) nes_env \<Rightarrow> ('rb, 'd, 'p) nes \<Rightarrow> ('rb, 'd, 'p) nes option" where
  "render_views env n =
     (if n_emulation n = None then Some n
      else do { (_, d) \<leftarrow> deck_frame_buffer (ne_palette env) (n_deck n); Some (n\<lparr>n_deck := d\<rparr>) })"

text \<open>The two buttons of the question; \<open>True\<close> is the answer to quit.\<close>

definition render_confirm_quit ::
    "('rb, 'd, 'p) nes_env \<Rightarrow> bool \<Rightarrow> bool \<Rightarrow> ('rb, 'd, 'p) nes \<Rightarrow> bool \<times> ('rb, 'd, 'p) nes" where
  "render_confirm_quit env confirm cancel n =
     (case n_confirm_quit n of
        Some (msg, _) \<Rightarrow>
          if confirm then (True, n\<lparr>n_confirm_quit := Some (msg, True)\<rparr>)
          else if cancel then (False, resume_play env (n\<lparr>n_confirm_quit := None\<rparr>))
          else (False, n)
      | None \<Rightarrow> (False, n))"

definition render_mode ::
    "('rb, 'd, 'p) nes_env \<Rightarrow> (nes_menu \<Rightarrow> ('rb, 'd, 'p) nes \<Rightarrow> (('rb, 'd, 'p) nes, unit) outcome)
       \<Rightarrow> bool \<Rightarrow> bool \<Rightarrow> ('rb, 'd, 'p) nes \<Rightarrow> (('rb, 'd, 'p) nes, unit) outcome" where
  "render_mode env menus confirm cancel n =
     (let question =
            (if n_confirm_quit n \<noteq> None
             then let (quit, n) = render_confirm_quit env confirm cancel n
                  in succeed () (if quit then n\<lparr>n_pix := px_quit (ne_pix env) (n_pix n)\<rparr> else n)
             else succeed () n)
      in (case n_mode n of
            Paused \<Rightarrow> question
          | PausedBg \<Rightarrow> question
          | InMenu menu \<Rightarrow> menus menu (n\<lparr>n_messages := []\<rparr>)
          | Rewinding \<Rightarrow> succeed () (nes_rewind env n)
          | Playing \<Rightarrow> succeed () n))"

definition on_update ::
    "('rb, 'd, 'p) nes_env \<Rightarrow> (nes_menu \<Rightarrow> ('rb, 'd, 'p) nes \<Rightarrow> (('rb, 'd, 'p) nes, unit) outcome)
       \<Rightarrow> bool \<Rightarrow> bool \<Rightarrow> f32 \<Rightarrow> ('rb, 'd, 'p) nes \<Rightarrow> (('rb, 'd, 'p) nes, unit) outcome" where
  "on_update env menus confirm cancel delta n =
     and_then (if rp_mode (n_replay n) = Playback then replay_action env n else succeed () n) (\<lambda>_ n.
     and_then (if n_mode n = Playing then update_play env delta n else succeed True n) (\<lambda>go_on n.
       if go_on then do { n \<leftarrow> render_views env n; render_mode env menus confirm cancel n }
       else succeed () n))"

text \<open>\<open>save_config\<close> is the parameter \<open>save\<close>.\<close>

definition on_stop ::
    "('rb, 'd, 'p) nes_env \<Rightarrow> (('rb, 'd, 'p) nes \<Rightarrow> ('rb, 'd, 'p) nes) \<Rightarrow> ('rb, 'd, 'p) nes \<Rightarrow> ('rb, 'd, 'p) nes" where
  "on_stop env save n =
     (if cd_loaded_rom (n_deck n) = None then save n
      else let (r, saved) = (if n_confirm_quit n = None then save_sram env n else (Inr (), n))
           in (case r of
                 Inl _ \<Rightarrow>
                   let n = saved\<lparr>n_messages := [], n_confirm_quit :=
                             Some (''Failed to save game state. Do you still want to quit?'', False)\<rparr>;
                       n = pause_play env n
                   in n\<lparr>n_pix := px_abort_quit (ne_pix env) (n_pix n)\<rparr>
               | Inr _ \<Rightarrow>
                   save (if rp_mode (n_replay saved) = Recording then stop_replay env saved else saved)))"

end
