(* ===== verification/NesProps.thy ===== *)
theory NesProps
  imports Nes DeckProps AudioProps
begin

text \<open>What the application does with controllers, saved states, rewinding and replays.\<close>

section \<open>Joypads\<close>

lemmas btn_bits = BTN_A_def BTN_B_def BTN_SELECT_def BTN_START_def BTN_UP_def BTN_DOWN_def BTN_LEFT_def
  BTN_RIGHT_def BTN_TURBO_A_def BTN_TURBO_B_def

text \<open>Opposite directions are not held together.\<close>

definition dpad_ok :: "joypad \<Rightarrow> bool" where
  "dpad_ok j \<longleftrightarrow> \<not> (joypad_button j BTN_LEFT \<and> joypad_button j BTN_RIGHT)
     \<and> \<not> (joypad_button j BTN_UP \<and> joypad_button j BTN_DOWN)"

lemma press_joypad_button: "joypad_button (press_joypad conc button pressed j) (btn_state_from button) = pressed"
  by (cases button) (simp_all add: press_joypad_def joypad_button_def joypad_set_button_def btn_bits Let_def)

lemma press_joypad_dpad: "dpad_ok j \<Longrightarrow> dpad_ok (press_joypad False button pressed j)"
  by (cases button; cases pressed)
    (simp_all add: dpad_ok_def press_joypad_def joypad_button_def joypad_set_button_def btn_bits Let_def)

text \<open>The joypad of a slot.\<close>

definition nes_joypad :: "('rb, 'd, 'p) nes \<Rightarrow> slot \<Rightarrow> joypad" where
  "nes_joypad n slot = in_joypads (cb_input (c_bus (cd_cpu (n_deck n)))) ! slot_index slot"

definition four_joypads :: "('rb, 'd, 'p) nes \<Rightarrow> bool" where
  "four_joypads n \<longleftrightarrow> length (in_joypads (cb_input (c_bus (cd_cpu (n_deck n))))) = 4"

lemma slot_index_less [simp]: "slot_index slot < 4"
  by (cases slot) simp_all

lemma slot_index_inj [simp]: "slot_index s = slot_index t \<longleftrightarrow> s = t"
  by (cases s; cases t) simp_all

lemma joypad_mut_joypad:
  "four_joypads n \<Longrightarrow> nes_joypad (n\<lparr>n_deck := deck_joypad_mut (n_deck n) slot f\<rparr>) t
     = (if t = slot then f (nes_joypad n slot) else nes_joypad n t)"
  "four_joypads (n\<lparr>n_deck := deck_joypad_mut (n_deck n) slot f\<rparr>) = four_joypads n"
  by (auto simp: nes_joypad_def four_joypads_def deck_joypad_mut_def deck_on_bus_def)

lemma handle_joypad_keeps:
  assumes "handle_joypad_pressed slot button pressed n = (h, n')" and "four_joypads n"
    and "\<not> cf_concurrent_dpad (n_config n)" and "\<forall>t. dpad_ok (nes_joypad n t)"
  shows "four_joypads n'" "n_config n' = n_config n" "\<forall>t. dpad_ok (nes_joypad n' t)"
  using assms
  by (auto simp: handle_joypad_pressed_def joypad_mut_joypad press_joypad_dpad split: if_splits)

section \<open>A sample application\<close>

definition sample_deck :: control_deck where
  "sample_deck = (deck_new (\<lambda>_. 0) AllZeros)\<lparr>cd_cpu := sample_cpu, cd_running := True,
     cd_loaded_rom := Some ''game.nes''\<rparr>"

definition sample_config :: config where
  "sample_config = config_default\<lparr>cf_rom_path := ''/game.nes'', cf_rewind := True, cf_rewind_frames := 1,
     cf_input_map := [AxisInput One 0 NoDirection \<mapsto> ZeroAxisAct BtnLeft BtnRight]\<rparr>"

definition sample_event :: action_event where
  "sample_event = \<lparr>ae_frame = 7, ae_slot = One, ae_action = JoypadAct BtnA, ae_pressed = True, ae_repeat = False\<rparr>"

definition sample_replay :: replay where
  "sample_replay = \<lparr>rp_mode = Recording, rp_start = Some sample_cpu,
     rp_buffer = [sample_event, \<lparr>ae_frame = 0, ae_slot = One, ae_action = FeatureAct ToggleGameplayRecording,
        ae_pressed = True, ae_repeat = False\<rparr>]\<rparr>"

text \<open>What the source relies on: deserialising gives back the CPU that was serialised, all of it but the
  one field that is marked \<open>serde(skip)\<close>, \<open>corrupted\<close>, which gets its default; and inflating undoes
  deflating.\<close>

definition reloaded :: "cpu \<Rightarrow> cpu" where
  "reloaded c = c\<lparr>c_corrupted := False\<rparr>"

definition codec_laws :: "codec \<Rightarrow> bool" where
  "codec_laws co \<longleftrightarrow> (\<forall>c x. co_ser_cpu co c = Some x \<longrightarrow> co_de_cpu co x = Some (reloaded c))
     \<and> (\<forall>x y. co_deflate co x = Some y \<longrightarrow> co_inflate co y = Some x)"

text \<open>A codec for the states of the sample CPU that differ in one register and in the skipped field.\<close>

definition sample_codec :: codec where
  "sample_codec = \<lparr>co_deflate = Some, co_inflate = Some,
     co_ser_cpu = \<lambda>c. if reloaded c = sample_cpu\<lparr>c_acc := c_acc c\<rparr> then Some [c_acc c] else None,
     co_de_cpu = \<lambda>bytes. Some (sample_cpu\<lparr>c_acc := hd bytes\<rparr>), co_ser_replay = \<lambda>_. Some [],
     co_de_replay = \<lambda>_. Some sample_replay\<rparr>"

definition sample_pix :: "unit pix_ops" where
  "sample_pix = \<lparr>px_cursor = \<lambda>_ p. (True, p), px_fullscreen = \<lambda>_ p. (True, p), px_vsync = \<lambda>_ p. (True, p),
     px_dimensions = \<lambda>_ p. (True, p), px_frame_rate = \<lambda>_ p. p, px_open_window = \<lambda>_ p. (Some 1, p),
     px_close_window = \<lambda>_ p. (True, p), px_save_canvas = \<lambda>_ p. (True, p), px_quit = \<lambda>p. p,
     px_abort_quit = \<lambda>p. p, px_shift_down = \<lambda>_. False, px_focused = \<lambda>_. True\<rparr>"

definition sample_env :: "(f32 list \<times> nat, unit, unit) nes_env" where
  "sample_env = \<lparr>ne_ring = list_ring, ne_sin = \<lambda>x. x, ne_cos = \<lambda>x. x, ne_open_device = \<lambda>_ _. Some (),
     ne_resume = \<lambda>d. d, ne_pause = \<lambda>d. d, ne_pix = sample_pix, ne_codec = sample_codec, ne_home_dir = ''/home'',
     ne_time = ''2024-01-01_at_12.30.15'', ne_is_dir = \<lambda>_. False, ne_error_text = \<lambda>_. [], ne_genie_text = \<lambda>_. [],
     ne_rng = \<lambda>_. 0, ne_rngs = \<lambda>_ _. 0, ne_region_of = \<lambda>_. Ntsc, ne_slots = [One, Two, Three, Four],
     ne_rnd = \<lambda>x. x, ne_palette = []\<rparr>"

definition sample_nes :: "(f32 list \<times> nat, unit, unit) nes" where
  "sample_nes = \<lparr>n_deck = sample_deck, n_audio = sample_mixer, n_players = [One \<mapsto> 5], n_emulation = None,
     n_debugger = None, n_ppu_viewer = None, n_apu_viewer = None, n_config = sample_config, n_mode = Playing,
     n_replay_path = Some ''r'', n_record_sound = False, n_debug = False, n_rewind_frame = 0,
     n_rewind_buffer = [], n_replay = replay_default, n_messages = [], n_error = None, n_paths = [],
     n_selected_path = 0, n_confirm_quit = None,
     n_files = \<lparr>fs_files = [''r'' \<mapsto> write_save_header [] @ []], fs_readable = \<lambda>_. True, fs_creatable = \<lambda>_. True\<rparr>,
     n_pix = ()\<rparr>"

lemmas sample_defs = sample_nes_def sample_env_def sample_deck_def sample_config_def sample_codec_def

lemma sample_codec_laws: "codec_laws sample_codec"
  by (simp add: codec_laws_def sample_codec_def)

lemma sample_reloaded: "reloaded (sample_cpu\<lparr>c_acc := a, c_corrupted := b\<rparr>) = sample_cpu\<lparr>c_acc := a\<rparr>"
  by (simp add: reloaded_def sample_cpu_def cpu_load_cart_def cb_load_cart_def cpu_new_def cpu_set_region_def Let_def)

lemma sample_four_joypads: "four_joypads sample_nes"
  by (simp add: four_joypads_def sample_nes_def sample_deck_def sample_cpu_def cpu_load_cart_def cb_load_cart_def
      cpu_new_def cpu_set_region_def cpu_bus_new_def cb_set_region_def input_new_def Let_def split_beta)

lemma sample_frame_number: "deck_frame_number sample_deck = 0"
  by (simp add: deck_frame_number_def sample_deck_def sample_cpu_def cpu_load_cart_def cb_load_cart_def
      cpu_new_def cpu_set_region_def cpu_bus_new_def cb_set_region_def Let_def split_beta ppu_new_def
      ppu_load_mapper_def ppu_update_mirroring_def ppu_set_region_def frame_new_def frame_number_def)

section \<open>Controllers\<close>

text \<open>C32: A stick that comes back to its centre is meant to release a direction. Its action is one of the
  configuration, \<open>ZeroAxis [Left, Right]\<close>, but the event of an axis always counts as pressed: the
  first of the two buttons is pressed and stays pressed, the second is not touched unless the
  direction pad forbids opposite directions, which releases it.\<close>

theorem centred_stick_presses:
  assumes "n_mode n = Playing" and "four_joypads n"
    and "get_controller_slot env controller n = Some slot"
    and "cf_input_map (n_config n) (AxisInput slot axis NoDirection) = Some (ZeroAxisAct button1 button2)"
  shows "\<exists>n'. handle_controller_axis env controller axis 0 n = Some (Inr True, n')
    \<and> nes_joypad n' slot = press_joypad (cf_concurrent_dpad (n_config n)) button1 True (nes_joypad n slot)
    \<and> joypad_button (nes_joypad n' slot) (btn_state_from button1)"
proof -
  let ?n = "n\<lparr>n_deck := deck_joypad_mut (n_deck n) slot (press_joypad (cf_concurrent_dpad (n_config n)) button1 True)\<rparr>"
  have "handle_controller_axis env controller axis 0 n
      = Some (Inr True, record_action slot (ZeroAxisAct button1 button2) True False ?n)"
    using assms by (simp add: handle_controller_axis_def handle_input_def handle_action_def do_action_def
        handle_joypad_pressed_def and_then_def succeed_def)
  moreover have "nes_joypad (record_action slot (ZeroAxisAct button1 button2) True False ?n) slot = nes_joypad ?n slot"
    by (simp add: record_action_def nes_joypad_def)
  ultimately show ?thesis using joypad_mut_joypad(1) [OF assms(2)] by (simp add: press_joypad_button)
qed

theorem centred_stick_presses_witness:
  "\<exists>n'. handle_controller_axis sample_env 5 0 0 sample_nes = Some (Inr True, n')
    \<and> joypad_button (nes_joypad n' One) BTN_LEFT"
proof -
  have "n_mode sample_nes = Playing" "get_controller_slot sample_env 5 sample_nes = Some One"
    "cf_input_map (n_config sample_nes) (AxisInput One 0 NoDirection) = Some (ZeroAxisAct BtnLeft BtnRight)"
    by (simp_all add: sample_defs get_controller_slot_def)
  from centred_stick_presses [where n = sample_nes, OF this(1) sample_four_joypads this(2,3)] show ?thesis by auto
qed

section \<open>Saved states\<close>

lemma rewind_load_cpu:
  assumes "co_inflate (ne_codec env) y = Some x" and "co_de_cpu (ne_codec env) x = Some c"
  shows "rewind_load env y n = n\<lparr>n_deck := deck_load_cpu (n_deck n) c\<rparr>"
  using assms by (simp add: rewind_load_def)

lemma nes_save_dataE:
  assumes "nes_save_data env path data n = (r, n')"
  obtains fs where "save_data (co_deflate (ne_codec env)) path data (n_files n) = (r, fs)" "n' = n\<lparr>n_files := fs\<rparr>"
  using assms by (auto simp: nes_save_data_def split: prod.splits)

text \<open>C29: A saved state can be loaded. Saving to a file that can be created and is new, or was written
  by this program, stores the whole CPU with the machine on its bus; whatever runs then, loading the
  slot brings it back, as long as the files and the name of the ROM are as they were. All fields come
  back as they were saved but the one that is not serialised: \<open>corrupted\<close>, which is clear after the
  load. If the file cannot be created, nothing is stored, and the message still says that the slot was
  saved. The serialiser and the compression are parameters with the laws \<open>codec_laws\<close>.\<close>

theorem save_state_load_state:
  assumes path: "save_path env slot n = Inr path" and "\<not> contains_text ''test'' (cf_rom_path (n_config n))"
    and laws: "codec_laws (ne_codec env)"
    and ser: "co_ser_cpu (ne_codec env) (cd_cpu (n_deck n)) = Some data"
    and deflate: "co_deflate (ne_codec env) data = Some encoded"
    and own: "fs_readable (n_files n) path"
      "\<forall>f. fs_files (n_files n) path = Some f \<longrightarrow> (\<exists>g. validate_save_header f = Inr g)"
    and later: "n_files later = n_files (save_state env slot n)"
      "cd_loaded_rom (n_deck later) = cd_loaded_rom (n_deck n)"
  shows "n_messages (save_state env slot n) = n_messages n @ [''Saved slot '' @ show_nat (unat slot)]
    \<and> (fs_creatable (n_files n) path \<longrightarrow>
        cd_cpu (n_deck (load_state env slot later)) = (cd_cpu (n_deck n))\<lparr>c_corrupted := False\<rparr>)
    \<and> (\<not> fs_creatable (n_files n) path \<longrightarrow> n_files (save_state env slot n) = n_files n)"
proof -
  have de: "co_de_cpu (ne_codec env) data = Some ((cd_cpu (n_deck n))\<lparr>c_corrupted := False\<rparr>)"
    and inflate: "co_inflate (ne_codec env) encoded = Some data"
    using laws ser deflate unfolding codec_laws_def reloaded_def by blast+
  obtain r fs where r: "save_data (co_deflate (ne_codec env)) path data (n_files n) = (r, fs)" by force
  have saved: "save_state env slot n = add_message (n\<lparr>n_files := fs\<rparr>) (''Saved slot '' @ show_nat (unat slot))"
    using assms(1,2) ser r by (simp add: save_state_def nes_save_data_def Let_def)
  have path': "save_path env slot later = Inr path" using path later(2) by (simp add: save_path_def)
  have "r = Inr () \<and> fs = file_put (n_files n) path (write_save_header [] @ encoded)" if "fs_creatable (n_files n) path"
    using r that own deflate
    by (auto simp: save_data_def write_save_data_def file_open_def Let_def split: option.splits sum.splits)
  moreover have "fs = n_files n" if "\<not> fs_creatable (n_files n) path"
    using save_data_fails [OF that, of "co_deflate (ne_codec env)" data] r by auto
  ultimately show ?thesis
    using saved path' later own deflate inflate de
    by (auto simp: add_message_def load_state_def load_data_def file_open_def file_put_def deck_load_cpu_def Let_def)
qed

theorem save_state_load_state_witness:
  "cd_cpu (n_deck (load_state sample_env 1 (sample_nes\<lparr>n_files := n_files (save_state sample_env 1 sample_nes)\<rparr>)))
     = sample_cpu\<lparr>c_corrupted := False\<rparr>"
proof -
  have "show_nat 1 = ''1''" by code_simp
  then have "save_path sample_env 1 sample_nes = Inr ''/home/.config/tetanes/save/game/1.save''"
    by (simp add: save_path_def sample_defs config_dir_def file_stem_def file_name_def stem_of_def
        with_extension_def)
  moreover have "co_ser_cpu (ne_codec sample_env) (cd_cpu (n_deck sample_nes)) = Some [c_acc sample_cpu]"
    using sample_reloaded [where a = "c_acc sample_cpu" and b = "c_corrupted sample_cpu"] by (simp add: sample_defs)
  moreover have "codec_laws (ne_codec sample_env)" using sample_codec_laws by (simp add: sample_env_def)
  ultimately show ?thesis
    using save_state_load_state [of sample_env 1 sample_nes _ "[c_acc sample_cpu]" "[c_acc sample_cpu]"
        "sample_nes\<lparr>n_files := n_files (save_state sample_env 1 sample_nes)\<rparr>"]
    by (simp add: sample_defs)
qed

section \<open>Rewinding\<close>

text \<open>One frame after another is saved.\<close>

fun play_frames :: "('rb, 'd, 'p) nes_env \<Rightarrow> cpu list \<Rightarrow> ('rb, 'd, 'p) nes \<Rightarrow> ('rb, 'd, 'p) nes" where
  "play_frames env [] n = n"
| "play_frames env (c # cs) n =
     play_frames env cs (update_rewind env (n\<lparr>n_deck := deck_load_cpu (n_deck n) c\<rparr>))"

text \<open>The frames of these that are saved, when every \<open>r\<close>-th one is and \<open>k\<close> have passed since the last.\<close>

definition saved_frames :: "nat \<Rightarrow> nat \<Rightarrow> cpu list \<Rightarrow> cpu list" where
  "saved_frames r k cs = nths cs {i. r dvd k + i + 1}"

lemma saved_frames_Cons:
  assumes "k < r"
  shows "saved_frames r k (c # cs) = (if k + 1 = r then c # saved_frames r 0 cs else saved_frames r (k + 1) cs)"
proof (cases "k + 1 = r")
  case True
  have "k + Suc j + 1 = r + (0 + j + 1)" for j using True by simp
  then have "{j. Suc j \<in> {i. r dvd k + i + 1}} = {i. r dvd 0 + i + 1}"
    by (simp only: mem_Collect_eq dvd_add_triv_left_iff)
  then show ?thesis using True by (simp add: saved_frames_def nths_Cons)
next
  case False
  then have "\<not> r dvd k + 1" using assms by (auto dest: dvd_imp_le)
  moreover have "{j. Suc j \<in> {i. r dvd k + i + 1}} = {i. r dvd k + 1 + i + 1}" by simp
  ultimately show ?thesis using False by (simp add: saved_frames_def nths_Cons)
qed

text \<open>A CPU whose state is encoded by these bytes.\<close>

definition encodes :: "codec \<Rightarrow> (cpu \<Rightarrow> u8 list) \<Rightarrow> cpu \<Rightarrow> bool" where
  "encodes co enc c \<longleftrightarrow> (\<exists>x. co_ser_cpu co c = Some x \<and> co_deflate co x = Some (enc c))"

lemma encodesD:
  assumes "codec_laws co" and "encodes co enc c"
  obtains x where "co_ser_cpu co c = Some x" "co_deflate co x = Some (enc c)"
    "co_inflate co (enc c) = Some x" "co_de_cpu co x = Some (reloaded c)"
  using assms unfolding codec_laws_def encodes_def by blast

lemma foldl_lengths: "foldl (\<lambda>size data. size + length data) k xs = k + sum_list (map length xs)"
  by (induction xs arbitrary: k) simp_all

definition rewind_every :: "('rb, 'd, 'p) nes \<Rightarrow> nat" where
  "rewind_every n = max 1 (unat (cf_rewind_frames (n_config n)))"

lemma rewind_due:
  assumes "unat (n_rewind_frame n) < rewind_every n"
  shows "cf_rewind_frames (n_config n) \<le> n_rewind_frame n + 1 \<longleftrightarrow> unat (n_rewind_frame n) + 1 = rewind_every n"
    and "unat (n_rewind_frame n) + 1 < rewind_every n \<Longrightarrow> unat (n_rewind_frame n + 1) = unat (n_rewind_frame n) + 1"
proof -
  have "unat (cf_rewind_frames (n_config n)) < 2 ^ 32" by (rule order_less_le_trans [OF unsigned_less]) simp
  then have small: "unat (n_rewind_frame n) + 1 < 2 ^ 32" using assms by (simp add: rewind_every_def)
  then have inc: "unat (n_rewind_frame n + 1) = unat (n_rewind_frame n) + 1"
    by (simp add: unat_word_ariths take_bit_nat_eq_self)
  show "cf_rewind_frames (n_config n) \<le> n_rewind_frame n + 1 \<longleftrightarrow> unat (n_rewind_frame n) + 1 = rewind_every n"
    using assms unfolding word_le_nat_alt inc rewind_every_def by simp linarith
  show "unat (n_rewind_frame n) + 1 < rewind_every n \<Longrightarrow> unat (n_rewind_frame n + 1) = unat (n_rewind_frame n) + 1"
    by (rule inc)
qed

lemma update_rewind_saves:
  fixes n :: "('rb, 'd, 'p) nes"
  assumes "cf_rewind (n_config n)" and "unat (n_rewind_frame n) + 1 = rewind_every n"
    and "encodes (ne_codec env) enc (cd_cpu (n_deck n))"
    and "length (enc (cd_cpu (n_deck n))) + sum_list (map length (n_rewind_buffer n))
      \<le> cf_rewind_buffer_size (n_config n) * 1048576"
  shows "update_rewind env n = n\<lparr>n_rewind_frame := 0, n_rewind_buffer := enc (cd_cpu (n_deck n)) # n_rewind_buffer n\<rparr>"
proof -
  obtain x where x: "co_ser_cpu (ne_codec env) (cd_cpu (n_deck n)) = Some x"
    "co_deflate (ne_codec env) x = Some (enc (cd_cpu (n_deck n)))"
    using assms(3) by (auto simp: encodes_def)
  have fits: "\<not> cf_rewind_buffer_size (n_config n) * 1024 * 1024
      < length (enc (cd_cpu (n_deck n))) + sum_list (map length (n_rewind_buffer n))"
    using assms(4) by simp
  have save: "rewind_save env (m\<lparr>n_rewind_frame := k\<rparr>) = rewind_save env m" for m :: "('rb, 'd, 'p) nes" and k
    by (simp add: rewind_save_def)
  have "rewind_save env n = Some (enc (cd_cpu (n_deck n)))" using x by (simp add: rewind_save_def)
  moreover have "cf_rewind_frames (n_config n) \<le> n_rewind_frame n + 1" using rewind_due(1) [of n] assms(2) by simp
  ultimately show ?thesis unfolding update_rewind_def Let_def using assms(1) fits
    by (simp add: save foldl_lengths)
qed

lemma play_frames_buffer:
  assumes "cf_rewind (n_config n)" and "unat (n_rewind_frame n) < rewind_every n"
    and "\<forall>c\<in>set (saved_frames (rewind_every n) (unat (n_rewind_frame n)) cs). encodes (ne_codec env) enc c"
    and "sum_list (map (length \<circ> enc) (saved_frames (rewind_every n) (unat (n_rewind_frame n)) cs))
      + sum_list (map length (n_rewind_buffer n)) \<le> cf_rewind_buffer_size (n_config n) * 1048576"
  shows "n_rewind_buffer (play_frames env cs n)
    = rev (map enc (saved_frames (rewind_every n) (unat (n_rewind_frame n)) cs)) @ n_rewind_buffer n"
  using assms
proof (induction cs arbitrary: n)
  case Nil
  then show ?case by (simp add: saved_frames_def)
next
  case (Cons c cs)
  let ?n = "n\<lparr>n_deck := deck_load_cpu (n_deck n) c\<rparr>"
  note split = saved_frames_Cons [OF Cons.prems(2), of c cs]
  have every: "rewind_every (m\<lparr>n_rewind_frame := k\<rparr>) = rewind_every m" "rewind_every (m\<lparr>n_rewind_buffer := b\<rparr>) = rewind_every m"
    "rewind_every (m\<lparr>n_deck := d\<rparr>) = rewind_every m" for m :: "('rb, 'd, 'p) nes" and k b d
    by (simp_all add: rewind_every_def)
  show ?case
  proof (cases "unat (n_rewind_frame n) + 1 = rewind_every n")
    case True
    then have "update_rewind env ?n = ?n\<lparr>n_rewind_frame := 0, n_rewind_buffer := enc c # n_rewind_buffer n\<rparr>"
      using update_rewind_saves [of ?n env enc] Cons.prems split by (simp add: deck_load_cpu_def every)
    then show ?thesis
      using Cons.IH [of "?n\<lparr>n_rewind_frame := 0, n_rewind_buffer := enc c # n_rewind_buffer n\<rparr>"] Cons.prems True split
      by (simp add: every)
  next
    case False
    then have late: "\<not> cf_rewind_frames (n_config n) \<le> n_rewind_frame n + 1" using rewind_due(1) [OF Cons.prems(2)] by simp
    then have "update_rewind env ?n = ?n\<lparr>n_rewind_frame := n_rewind_frame n + 1\<rparr>"
      using Cons.prems(1) by (simp add: update_rewind_def Let_def)
    moreover have less1: "unat (n_rewind_frame n) + 1 < rewind_every n" using False Cons.prems(2) by simp
    moreover have "unat (n_rewind_frame n + 1) = unat (n_rewind_frame n) + 1" by (rule rewind_due(2) [OF Cons.prems(2) less1])
    ultimately show ?thesis
      using Cons.IH [of "?n\<lparr>n_rewind_frame := n_rewind_frame n + 1\<rparr>"] Cons.prems False split by (simp add: every)
  qed
qed

lemma nes_rewind_top:
  assumes "n_rewind_buffer n = enc c # buffer" and "codec_laws (ne_codec env)" and "encodes (ne_codec env) enc c"
  shows "nes_rewind env n = n\<lparr>n_rewind_buffer := buffer, n_deck := deck_load_cpu (n_deck n) (reloaded c)\<rparr>"
proof -
  obtain x where "co_inflate (ne_codec env) (enc c) = Some x" "co_de_cpu (ne_codec env) x = Some (reloaded c)"
    using encodesD [OF assms(2,3)] by metis
  then show ?thesis using assms(1) by (simp add: nes_rewind_def rewind_load_cpu)
qed

lemma rewind_steps:
  assumes "n_rewind_buffer n = map enc cs @ buffer" and "codec_laws (ne_codec env)"
    and "\<forall>c\<in>set cs. encodes (ne_codec env) enc c" and "k < length cs"
  shows "cd_cpu (n_deck ((nes_rewind env ^^ Suc k) n)) = reloaded (cs ! k)
    \<and> n_rewind_buffer ((nes_rewind env ^^ Suc k) n) = map enc (drop (Suc k) cs) @ buffer"
  using assms(4)
proof (induction k)
  case 0
  then obtain c cs' where "cs = c # cs'" by (cases cs) auto
  then show ?case using assms nes_rewind_top [of n enc c "map enc cs' @ buffer" env] by (simp add: deck_load_cpu_def)
next
  case (Suc k)
  let ?n = "(nes_rewind env ^^ Suc k) n"
  have "n_rewind_buffer ?n = enc (cs ! Suc k) # map enc (drop (Suc (Suc k)) cs) @ buffer"
  proof -
    have "drop (Suc k) cs = cs ! Suc k # drop (Suc (Suc k)) cs" using Suc.prems by (rule Cons_nth_drop_Suc [symmetric])
    then show ?thesis using Suc.IH Suc.prems by simp
  qed
  from nes_rewind_top [where n = ?n and enc = enc and c = "cs ! Suc k", OF this assms(2)] assms(3) Suc.prems
  have "nes_rewind env ?n = ?n\<lparr>n_rewind_buffer := map enc (drop (Suc (Suc k)) cs) @ buffer,
      n_deck := deck_load_cpu (n_deck ?n) (reloaded (cs ! Suc k))\<rparr>" by simp
  then have "cd_cpu (n_deck (nes_rewind env ?n)) = reloaded (cs ! Suc k)
      \<and> n_rewind_buffer (nes_rewind env ?n) = map enc (drop (Suc (Suc k)) cs) @ buffer"
    by (simp add: deck_load_cpu_def)
  then show ?case by simp
qed

text \<open>C28: Rewinding plays the saved frames backwards. Of the frames \<open>cs\<close> every \<open>rewind_frames\<close>-th one is saved
  (every one for 0 and 1; the default is 2), counted from the last one saved. If the saved frames fit
  into the rewind buffer, each step of rewinding brings back the CPU of the next older saved frame, the
  whole of it but the field \<open>corrupted\<close>, which is not serialised and comes back clear; what was in
  the buffer before stays below them. The serialiser and the compression are parameters with the laws
  \<open>codec_laws\<close>.\<close>

theorem rewind_plays_backwards:
  fixes n :: "('rb, 'd, 'p) nes"
  assumes "cf_rewind (n_config n)" and "r = max 1 (unat (cf_rewind_frames (n_config n)))"
    and "unat (n_rewind_frame n) < r" and "saved = nths cs {i. r dvd unat (n_rewind_frame n) + i + 1}"
    and "codec_laws (ne_codec env)" and "\<forall>c\<in>set saved. encodes (ne_codec env) enc c"
    and "sum_list (map (length \<circ> enc) saved) + sum_list (map length (n_rewind_buffer n))
      \<le> cf_rewind_buffer_size (n_config n) * 1048576"
    and "k < length saved"
  shows "cd_cpu (n_deck ((nes_rewind env ^^ Suc k) (play_frames env cs n))) = (rev saved ! k)\<lparr>c_corrupted := False\<rparr>
    \<and> n_rewind_buffer ((nes_rewind env ^^ Suc k) (play_frames env cs n))
        = map enc (drop (Suc k) (rev saved)) @ n_rewind_buffer n"
proof -
  have r: "rewind_every n = r" and saved: "saved_frames r (unat (n_rewind_frame n)) cs = saved"
    using assms(2,4) by (simp_all add: rewind_every_def saved_frames_def)
  have "n_rewind_buffer (play_frames env cs n) = map enc (rev saved) @ n_rewind_buffer n"
    using play_frames_buffer [where n = n and cs = cs and env = env and enc = enc, unfolded r saved, OF assms(1,3,6,7)]
    by (simp add: rev_map)
  from rewind_steps [OF this assms(5), of k] assms(6,8) show ?thesis by (simp add: reloaded_def)
qed

theorem rewind_plays_backwards_witness:
  "cd_cpu (n_deck ((nes_rewind sample_env ^^ 2)
     (play_frames sample_env (map (\<lambda>a. sample_cpu\<lparr>c_acc := a\<rparr>) [1, 2, 3, 4])
       (sample_nes\<lparr>n_config := sample_config\<lparr>cf_rewind_frames := 2\<rparr>\<rparr>)))) = sample_cpu\<lparr>c_acc := 2, c_corrupted := False\<rparr>"
proof -
  let ?n = "sample_nes\<lparr>n_config := sample_config\<lparr>cf_rewind_frames := 2\<rparr>\<rparr>" and ?cs = "map (\<lambda>a. sample_cpu\<lparr>c_acc := a\<rparr>) [1, 2, 3, 4]"
  have saved: "nths ?cs {i. 2 dvd i + 1} = [sample_cpu\<lparr>c_acc := 2\<rparr>, sample_cpu\<lparr>c_acc := 4\<rparr>]"
    by (simp add: nths_Cons)
  have enc: "encodes (ne_codec sample_env) (\<lambda>c. [c_acc c]) (sample_cpu\<lparr>c_acc := a\<rparr>)" for a
    using sample_reloaded [where a = a and b = "c_corrupted sample_cpu"] by (simp add: encodes_def sample_defs)
  have laws: "codec_laws (ne_codec sample_env)" using sample_codec_laws by (simp add: sample_env_def)
  have n: "cf_rewind (n_config ?n)" "cf_rewind_frames (n_config ?n) = 2" "n_rewind_frame ?n = 0" "n_rewind_buffer ?n = []"
    "cf_rewind_buffer_size (n_config ?n) = 20"
    by (simp_all add: sample_nes_def sample_config_def config_default_def)
  have r: "2 = max 1 (unat (2 :: u32))" by simp
  have "cd_cpu (n_deck ((nes_rewind sample_env ^^ Suc 1) (play_frames sample_env ?cs ?n)))
      = (rev [sample_cpu\<lparr>c_acc := 2\<rparr>, sample_cpu\<lparr>c_acc := 4\<rparr>] ! 1)\<lparr>c_corrupted := False\<rparr>"
    by (rule conjunct1 [OF rewind_plays_backwards [where r = 2 and enc = "\<lambda>c. [c_acc c]", OF n(1)]])
      (unfold n, simp_all only: saved laws r [symmetric], use enc saved in simp_all)
  then show ?thesis by (simp add: numeral_2_eq_2 del: play_frames.simps)
qed

text \<open>With less than two seconds in the buffer the key for an instant rewind throws the buffer away and
  rewinds nothing.\<close>

lemma instant_rewind_short:
  assumes "cf_rewind (n_config n)" and "cf_rewind_frames (n_config n) \<noteq> 0"
    and "length (n_rewind_buffer n) \<le> 120 div unat (cf_rewind_frames (n_config n))"
  shows "instant_rewind env n = Some (n\<lparr>n_rewind_buffer := []\<rparr>)"
  using assms by (simp add: instant_rewind_def Let_def)

text \<open>\<open>with_extension\<close> replaces what follows the last dot. The save RAM of two games whose names differ
  after a dot is the same file, and the time in the name of a recording loses its seconds.\<close>

lemma sram_path_shared:
  assumes "cd_loaded_rom (n_deck m) = Some ''Dr. Mario.nes''" and "cd_loaded_rom (n_deck n) = Some ''Dr. Chaos.nes''"
  shows "sram_path env m = sram_path env n"
  using assms by (simp add: sram_path_def file_stem_def file_name_def stem_of_def with_extension_def)

lemma replay_name_seconds:
  "with_extension ''tetanes_2024-01-01_at_12.30.15'' ''replay'' = ''tetanes_2024-01-01_at_12.30.replay''"
  by (simp add: stem_of_def with_extension_def)

section \<open>Replays\<close>

text \<open>The key that starts a recording.\<close>

abbreviation toggle_recording :: action where
  "toggle_recording \<equiv> FeatureAct ToggleGameplayRecording"

lemma start_recording:
  assumes "rp_mode (n_replay n) = ReplayOff"
  shows "\<exists>n'. handle_action env slot toggle_recording True rep n = Some (Inr True, n')
    \<and> n_replay n' = \<lparr>rp_mode = Recording, rp_start = Some (cd_cpu (n_deck n)),
        rp_buffer = rp_buffer (n_replay n) @ [nes_action_event slot toggle_recording True rep n]\<rparr>"
  using assms by (simp add: handle_action_def do_action_def handle_feature_def start_replay_def add_message_def
      record_action_def nes_action_event_def and_then_def succeed_def)

lemma stop_replay_mode [simp]: "rp_mode (n_replay (stop_replay env n)) = ReplayOff"
  by (simp add: stop_replay_def Let_def)

lemma stop_playback:
  assumes "rp_mode (n_replay n) = Playback"
  shows "handle_action env slot toggle_recording True rep n
    = Some (Inr True, n\<lparr>n_messages := n_messages n @ [''Replay Playback Stopped''],
        n_replay := (n_replay n)\<lparr>rp_mode := ReplayOff\<rparr>\<rparr>)"
  using assms by (simp add: handle_action_def do_action_def handle_feature_def stop_replay_def add_message_def
      record_action_def and_then_def succeed_def)

lemma replay_loop_later:
  assumes "\<forall>e\<in>set (rp_buffer (n_replay n)). frame < ae_frame e"
  shows "replay_loop env frame n = Some (Inr (), n)"
proof (cases "rp_buffer (n_replay n) = []")
  case False
  then have "frame < ae_frame (last (rp_buffer (n_replay n)))" using assms by simp
  then show ?thesis by (subst replay_loop.simps) (auto simp: Let_def)
qed (simp add: replay_loop.simps)

text \<open>C31: A recording cannot be played back. The key that starts it is itself the first event of the
  recording: it switches the mode, and then the event is recorded. A replay begins with that event,
  in the frame in which it is loaded, and there the same key stops the playback, so every later
  event stays unplayed.\<close>

theorem replay_stops_itself:
  assumes "rp_mode (n_replay n) = ReplayOff" and "rp_buffer (n_replay n) = []"
    and "handle_action env slot toggle_recording True rep n = Some (r, n')"
    and "rp_start replay = rp_start (n_replay n')" and "rp_buffer replay = rev (rp_buffer (n_replay n') @ events)"
    and "\<forall>e\<in>set events. deck_frame_number (n_deck n) < ae_frame e"
    and "n_replay_path m = Some path"
    and "load_data (co_inflate (ne_codec env)) path (n_files m) = Inr data"
    and "co_de_replay (ne_codec env) data = Some replay"
  shows "\<exists>m1 m2. load_replay env m = Some m1 \<and> replay_action env m1 = Some (Inr (), m2)
    \<and> rp_mode (n_replay m1) = Playback \<and> cd_cpu (n_deck m1) = cd_cpu (n_deck n)
    \<and> rp_mode (n_replay m2) = ReplayOff \<and> (events \<noteq> [] \<longrightarrow> rp_buffer (n_replay m2) = rev events)
    \<and> n_deck m2 = n_deck m1"
proof -
  let ?e = "nes_action_event slot toggle_recording True rep n"
  have n': "n_replay n' = \<lparr>rp_mode = Recording, rp_start = Some (cd_cpu (n_deck n)), rp_buffer = [?e]\<rparr>"
    using start_recording [OF assms(1), of env slot rep] assms(2,3) by auto
  define m1 where "m1 = add_message (m\<lparr>n_deck := deck_load_cpu (n_deck m) (cd_cpu (n_deck n)),
      n_replay := replay\<lparr>rp_start := None, rp_mode := Playback\<rparr>\<rparr>) ''Loaded replay recording''"
  have load: "load_replay env m = Some m1"
    using assms(4,7-9) n' by (simp add: load_replay_def m1_def)
  have m1: "rp_buffer (n_replay m1) = rev events @ [?e]" "rp_mode (n_replay m1) = Playback"
    "cd_cpu (n_deck m1) = cd_cpu (n_deck n)"
    using assms(5) n' by (simp_all add: m1_def add_message_def deck_load_cpu_def)
  then have frame: "deck_frame_number (n_deck m1) = ae_frame ?e"
    by (simp add: deck_frame_number_def nes_action_event_def)
  define m2 where "m2 = m1\<lparr>n_replay := (n_replay m1)\<lparr>rp_buffer := rev events, rp_mode := ReplayOff\<rparr>,
      n_messages := n_messages m1 @ [''Replay Playback Stopped'']\<rparr>"
  have "handle_action env slot toggle_recording True rep (m1\<lparr>n_replay := (n_replay m1)\<lparr>rp_buffer := rev events\<rparr>\<rparr>)
      = Some (Inr True, m2)"
    using stop_playback [of "m1\<lparr>n_replay := (n_replay m1)\<lparr>rp_buffer := rev events\<rparr>\<rparr>" env slot rep] m1(2)
    by (simp add: m2_def)
  moreover have "replay_loop env (ae_frame ?e) m2 = Some (Inr (), m2)"
    using assms(6) by (intro replay_loop_later) (simp add: m2_def nes_action_event_def)
  ultimately have loop: "replay_loop env (deck_frame_number (n_deck m1)) m1 = Some (Inr (), m2)"
    unfolding frame by (subst replay_loop.simps) (simp add: m1(1) nes_action_event_def)
  have deck: "n_deck (stop_replay env m2) = n_deck m2"
    by (simp add: stop_replay_def save_replay_def nes_save_data_def add_message_def Let_def split: option.split prod.split)
  have m2: "rp_buffer (n_replay m2) = rev events" "rp_mode (n_replay m2) = ReplayOff" "n_deck m2 = n_deck m1"
    by (simp_all add: m2_def)
  show ?thesis
  proof (cases "events = []")
    case True
    then have "replay_action env m1 = Some (Inr (), stop_replay env m2)"
      using loop m2 by (simp add: replay_action_def and_then_def succeed_def)
    then show ?thesis using load m1 m2 deck True stop_replay_mode [of env m2] by metis
  next
    case False
    then have "replay_action env m1 = Some (Inr (), m2)"
      using loop m2 by (simp add: replay_action_def and_then_def succeed_def)
    then show ?thesis using load m1 m2 by metis
  qed
qed

theorem replay_stops_itself_witness:
  "\<exists>m1 m2. load_replay sample_env sample_nes = Some m1 \<and> replay_action sample_env m1 = Some (Inr (), m2)
    \<and> rp_mode (n_replay m1) = Playback \<and> rp_mode (n_replay m2) = ReplayOff
    \<and> rp_buffer (n_replay m2) = [sample_event]"
proof -
  have off: "rp_mode (n_replay sample_nes) = ReplayOff" "rp_buffer (n_replay sample_nes) = []"
    by (simp_all add: sample_nes_def replay_default_def)
  obtain n' where n': "handle_action sample_env One toggle_recording True False sample_nes = Some (Inr True, n')"
    "n_replay n' = \<lparr>rp_mode = Recording, rp_start = Some (cd_cpu (n_deck sample_nes)),
        rp_buffer = [nes_action_event One toggle_recording True False sample_nes]\<rparr>"
    using start_recording [OF off(1), of sample_env One False] off(2) by auto
  have deck: "cd_cpu (n_deck sample_nes) = sample_cpu" "deck_frame_number (n_deck sample_nes) = 0"
    by (simp_all add: sample_nes_def sample_frame_number) (simp add: sample_deck_def)
  have "rp_start sample_replay = rp_start (n_replay n')"
    "rp_buffer sample_replay = rev (rp_buffer (n_replay n') @ [sample_event])"
    using n'(2) deck by (simp_all add: sample_replay_def nes_action_event_def)
  moreover have "\<forall>e\<in>set [sample_event]. deck_frame_number (n_deck sample_nes) < ae_frame e"
    by (simp add: deck(2) sample_event_def)
  moreover have "n_replay_path sample_nes = Some ''r''"
    "load_data (co_inflate (ne_codec sample_env)) ''r'' (n_files sample_nes) = Inr []"
    "co_de_replay (ne_codec sample_env) [] = Some sample_replay"
    using validate_write [of "[]"]
    by (simp_all add: sample_nes_def sample_env_def sample_codec_def load_data_def file_open_def)
  ultimately obtain m1 m2 where "load_replay sample_env sample_nes = Some m1" "replay_action sample_env m1 = Some (Inr (), m2)"
    "rp_mode (n_replay m1) = Playback" "rp_mode (n_replay m2) = ReplayOff" "rp_buffer (n_replay m2) = rev [sample_event]"
    using replay_stops_itself [where m = sample_nes, OF off n'(1)] by blast
  then show ?thesis by auto
qed

end
