(* ===== verification/NesMenu.thy ===== *)
theory NesMenu
  imports Nes "HOL-Library.List_Lexorder" "HOL-Library.Char_ord"
begin

text \<open>
  The pages of the menu, \<open>src/nes/menu.rs\<close>: what they change when the user acts on them. The widgets of the
  window library are the parameter \<open>menu_ops\<close>: a call takes what it shows and answers what the user did,
  \<open>None\<close> is an error. Calls that only draw or place text are left out. Directories are parameters too; the
  text of a path inside a directory is the parameter \<open>mu_path_text\<close>.
\<close>

section \<open>Widgets\<close>

text \<open>
  A checkbox, a list or a slider answers whether it was changed, and its value. A row of tabs answers the tab
  whose page is drawn, the tab selected, and whether that changed; a tree whether it is open.
\<close>

record 'p menu_ops =
  mu_menu :: "string \<Rightarrow> 'p \<Rightarrow> bool option \<times> 'p"
  mu_button :: "string \<Rightarrow> 'p \<Rightarrow> bool option \<times> 'p"
  mu_link :: "string \<Rightarrow> 'p \<Rightarrow> bool option \<times> 'p"
  mu_open_url :: "string \<Rightarrow> 'p \<Rightarrow> unit option \<times> 'p"
  mu_checkbox :: "string \<Rightarrow> bool \<Rightarrow> 'p \<Rightarrow> (bool \<times> bool) option \<times> 'p"
  mu_select_box :: "string \<Rightarrow> nat \<Rightarrow> string list \<Rightarrow> nat \<Rightarrow> 'p \<Rightarrow> (bool \<times> nat) option \<times> 'p"
  mu_select_list :: "string \<Rightarrow> nat \<Rightarrow> string list \<Rightarrow> nat \<Rightarrow> 'p \<Rightarrow> (bool \<times> nat) option \<times> 'p"
  mu_slider :: "string \<Rightarrow> nat \<Rightarrow> nat \<Rightarrow> nat \<Rightarrow> 'p \<Rightarrow> (bool \<times> nat) option \<times> 'p"
  mu_slider_f32 :: "string \<Rightarrow> f32 \<Rightarrow> f32 \<Rightarrow> f32 \<Rightarrow> 'p \<Rightarrow> (bool \<times> f32) option \<times> 'p"
  mu_tab_bar :: "string \<Rightarrow> string list \<Rightarrow> nat \<Rightarrow> 'p \<Rightarrow> (nat \<times> nat \<times> bool) option \<times> 'p"
  mu_tree :: "string \<Rightarrow> 'p \<Rightarrow> bool option \<times> 'p"
  mu_dbl_clicked :: "'p \<Rightarrow> bool"
  mu_disable :: "bool \<Rightarrow> 'p \<Rightarrow> 'p"
  mu_window_target :: "nat option \<Rightarrow> 'p \<Rightarrow> bool \<times> 'p"
  mu_height :: "'p \<Rightarrow> nat"
  mu_cursor_y :: "'p \<Rightarrow> nat"
  mu_line_height :: "'p \<Rightarrow> nat"
  mu_read_dir :: "string \<Rightarrow> string list option"
  mu_path_text :: "string \<Rightarrow> string \<Rightarrow> string"

definition ui :: "('p \<Rightarrow> 'a option \<times> 'p) \<Rightarrow> ('rb, 'd, 'p) nes \<Rightarrow> (('rb, 'd, 'p) nes, 'a) outcome" where
  "ui f n =
     (let (r, p) = f (n_pix n)
      in Some (case r of None \<Rightarrow> Inl PixError | Some a \<Rightarrow> Inr a, n\<lparr>n_pix := p\<rparr>))"

text \<open>A checkbox, or a slider, on a field of the configuration; the answer is whether it was changed.\<close>

definition config_checkbox ::
    "'p menu_ops \<Rightarrow> string \<Rightarrow> (config \<Rightarrow> bool) \<Rightarrow> ((bool \<Rightarrow> bool) \<Rightarrow> config \<Rightarrow> config)
       \<Rightarrow> ('rb, 'd, 'p) nes \<Rightarrow> (('rb, 'd, 'p) nes, bool) outcome" where
  "config_checkbox mu label field upd n =
     and_then (ui (mu_checkbox mu label (field (n_config n))) n) (\<lambda>(changed, v) n.
       succeed changed (on_config (upd (\<lambda>_. v)) n))"

definition config_slider ::
    "'p menu_ops \<Rightarrow> string \<Rightarrow> (config \<Rightarrow> nat) \<Rightarrow> (nat \<Rightarrow> config \<Rightarrow> config) \<Rightarrow> nat \<Rightarrow> nat
       \<Rightarrow> ('rb, 'd, 'p) nes \<Rightarrow> (('rb, 'd, 'p) nes, bool) outcome" where
  "config_slider mu label field upd lo hi n =
     and_then (ui (mu_slider mu label (field (n_config n)) lo hi) n) (\<lambda>(changed, v) n.
       succeed changed (on_config (upd v) n))"

text \<open>The number of a variant: the slices list the variants in the order of their declaration.\<close>

definition variant_number :: "'a \<Rightarrow> 'a list \<Rightarrow> nat" where
  "variant_number x xs = length (takeWhile (\<lambda>y. y \<noteq> x) xs)"

fun on_true :: "bool \<Rightarrow> ('s \<Rightarrow> ('s, unit) outcome) \<Rightarrow> 's \<Rightarrow> ('s, unit) outcome" where
  "on_true True f n = f n"
| "on_true False f n = succeed () n"

definition render_heading ::
    "('rb, 'd, 'p) nes_env \<Rightarrow> 'p menu_ops \<Rightarrow> ('rb, 'd, 'p) nes \<Rightarrow> (('rb, 'd, 'p) nes, unit) outcome" where
  "render_heading env mu n =
     (if cd_running (n_deck n)
      then and_then (ui (mu_menu mu ''< Exit'') n) (\<lambda>clicked n. on_true clicked (exit_menu env) n)
      else succeed () n)"

section \<open>The settings\<close>

text \<open>\<open>as usize - 1\<close> of the save slot wraps when it is zero.\<close>

definition pick_save_slot ::
    "'p menu_ops \<Rightarrow> ('rb, 'd, 'p) nes \<Rightarrow> (('rb, 'd, 'p) nes, unit) outcome" where
  "pick_save_slot mu n =
     (let save_slot = usize_sub (unat (cf_save_slot (n_config n))) 1
      in and_then (ui (mu_select_box mu ''Save Slot'' save_slot [''1'', ''2'', ''3'', ''4''] 4) n) (\<lambda>(changed, v) n.
            on_true changed (\<lambda>n. succeed () (on_config (cf_save_slot_update (\<lambda>_. of_nat v + 1)) n)) n))"

definition pick_four_player ::
    "'p menu_ops \<Rightarrow> ('rb, 'd, 'p) nes \<Rightarrow> (('rb, 'd, 'p) nes, unit) outcome" where
  "pick_four_player mu n =
     and_then (ui (mu_select_box mu ''Four Player Mode''
         (variant_number (cf_four_player (n_config n)) four_player_as_slice)
         (map four_player_as_ref four_player_as_slice) 3) n) (\<lambda>(changed, v) n.
       on_true changed (\<lambda>n.
         let n = on_config (cf_four_player_update (\<lambda>_. four_player_from v)) n
         in succeed () (n\<lparr>n_deck := deck_set_four_player (n_deck n) (cf_four_player (n_config n))\<rparr>)) n)"

definition rewind_settings ::
    "'p menu_ops \<Rightarrow> ('rb, 'd, 'p) nes \<Rightarrow> (('rb, 'd, 'p) nes, unit) outcome" where
  "rewind_settings mu n =
     and_then (config_checkbox mu ''Enable Rewind'' cf_rewind cf_rewind_update n) (\<lambda>_ n.
       on_true (cf_rewind (n_config n)) (\<lambda>n.
         and_then (config_slider mu ''Rewind Frames'' (\<lambda>c. unat (cf_rewind_frames c))
             (\<lambda>v. cf_rewind_frames_update (\<lambda>_. of_nat v)) 1 10 n) (\<lambda>_ n.
         and_then (config_slider mu ''Rewind Buffer Size (MB)'' cf_rewind_buffer_size
             (\<lambda>v. cf_rewind_buffer_size_update (\<lambda>_. v)) 8 256 n) (\<lambda>_ n. succeed () n))) n)"

definition render_config_general ::
    "'p menu_ops \<Rightarrow> ('rb, 'd, 'p) nes \<Rightarrow> (('rb, 'd, 'p) nes, unit) outcome" where
  "render_config_general mu n =
     and_then (config_checkbox mu ''Pause in Background'' cf_pause_in_bg cf_pause_in_bg_update n) (\<lambda>_ n.
     and_then (pick_save_slot mu n) (\<lambda>_ n.
     and_then (rewind_settings mu n) (\<lambda>_ n.
     and_then (config_checkbox mu ''Enable Zapper'' cf_zapper cf_zapper_update n) (\<lambda>_ n.
       pick_four_player mu n))))"

definition pick_region ::
    "('rb, 'd, 'p) nes_env \<Rightarrow> 'p menu_ops \<Rightarrow> ('rb, 'd, 'p) nes \<Rightarrow> (('rb, 'd, 'p) nes, unit) outcome" where
  "pick_region env mu n =
     and_then (ui (mu_select_box mu ''NES Region'' (variant_number (cf_region (n_config n)) nes_region_as_slice)
         (map nes_region_as_ref nes_region_as_slice) 3) n) (\<lambda>(changed, v) n.
       on_true changed (\<lambda>n.
         let n = on_config (cf_region_update (\<lambda>_. nes_region_from v)) n;
             n = n\<lparr>n_deck := deck_set_region (n_deck n) (cf_region (n_config n))\<rparr>
         in and_then (pix_call (px_dimensions (ne_pix env) (config_get_dimensions (n_config n))) n) (\<lambda>_ n.
            and_then (update_frame_rate env n) (\<lambda>_ n. nes_renew_audio env n))) n)"

definition pick_ram_state ::
    "'p menu_ops \<Rightarrow> ('rb, 'd, 'p) nes \<Rightarrow> (('rb, 'd, 'p) nes, unit) outcome" where
  "pick_ram_state mu n =
     and_then (ui (mu_select_box mu ''Power-up RAM State''
         (variant_number (cf_ram_state (n_config n)) ram_state_as_slice)
         (map ram_state_as_ref ram_state_as_slice) 3) n) (\<lambda>(changed, v) n.
       on_true changed (\<lambda>n. succeed () (on_config (cf_ram_state_update (\<lambda>_. ram_state_from v)) n)) n)"

definition pick_speed ::
    "'p menu_ops \<Rightarrow> ('rb, 'd, 'p) nes \<Rightarrow> (('rb, 'd, 'p) nes, unit) outcome" where
  "pick_speed mu n =
     and_then (ui (mu_select_box mu ''Speed''
         (variant_number (emu_speed_from_f32 (cf_speed (n_config n))) emu_speed_as_slice)
         (map emu_speed_name emu_speed_as_slice) 4) n) (\<lambda>(changed, v) n.
       on_true changed (\<lambda>n. succeed () (set_speed (emu_speed_as_f32 (emu_speed_from v)) n)) n)"

definition render_config_emulation ::
    "('rb, 'd, 'p) nes_env \<Rightarrow> 'p menu_ops \<Rightarrow> ('rb, 'd, 'p) nes \<Rightarrow> (('rb, 'd, 'p) nes, unit) outcome" where
  "render_config_emulation env mu n =
     and_then (pick_region env mu n) (\<lambda>_ n.
     and_then (pick_ram_state mu n) (\<lambda>_ n.
     and_then (pick_speed mu n) (\<lambda>_ n.
     and_then (config_checkbox mu ''Concurrent D-Pad'' cf_concurrent_dpad cf_concurrent_dpad_update n) (\<lambda>_ n.
       succeed () n))))"

definition pick_sample_rate ::
    "'p menu_ops \<Rightarrow> ('rb, 'd, 'p) nes \<Rightarrow> (('rb, 'd, 'p) nes, unit) outcome" where
  "pick_sample_rate mu n =
     and_then (ui (mu_select_box mu ''Sample Rate''
         (variant_number (sample_rate_from_f32 (cf_audio_sample_rate (n_config n))) sample_rate_as_slice)
         (map sample_rate_name sample_rate_as_slice) 4) n) (\<lambda>(changed, v) n.
       on_true changed (\<lambda>n.
         let n = on_config (cf_audio_sample_rate_update (\<lambda>_. sample_rate_as_f32 (sample_rate_from v))) n
         in succeed () (n\<lparr>n_audio := mixer_set_output_frequency (n_audio n)
              (f32_div (cf_audio_sample_rate (n_config n)) (cf_speed (n_config n)))\<rparr>)) n)"

definition pick_buffer_size ::
    "('rb, 'd, 'p) nes_env \<Rightarrow> 'p menu_ops \<Rightarrow> ('rb, 'd, 'p) nes \<Rightarrow> (('rb, 'd, 'p) nes, unit) outcome" where
  "pick_buffer_size env mu n =
     and_then (config_slider mu ''Buffer Size'' cf_audio_buffer_size
         (\<lambda>v. cf_audio_buffer_size_update (\<lambda>_. v)) 512 8192 n) (\<lambda>changed n.
       on_true changed (\<lambda>n.
         nes_open_playback env
           (n\<lparr>n_audio := mixer_reset (ne_ring env) (n_audio n) (cf_audio_buffer_size (n_config n))\<rparr>)) n)"

definition rate_control_settings ::
    "'p menu_ops \<Rightarrow> ('rb, 'd, 'p) nes \<Rightarrow> (('rb, 'd, 'p) nes, unit) outcome" where
  "rate_control_settings mu n =
     and_then (config_checkbox mu ''Dynamic Rate Control'' cf_dynamic_rate_control cf_dynamic_rate_control_update n)
       (\<lambda>_ n. on_true (cf_dynamic_rate_control (n_config n)) (\<lambda>n.
         and_then (ui (mu_slider_f32 mu ''Dynamic Rate Delta'' (cf_dynamic_rate_delta (n_config n))
             (f32_of (1 / 1000)) (f32_of (1 / 10))) n) (\<lambda>(_, v) n.
           succeed () (on_config (cf_dynamic_rate_delta_update (\<lambda>_. v)) n))) n)"

text \<open>One of the five checkboxes of the channels.\<close>

definition channel_checkbox ::
    "'p menu_ops \<Rightarrow> string \<Rightarrow> channel \<Rightarrow> ('rb, 'd, 'p) nes \<Rightarrow> (('rb, 'd, 'p) nes, unit) outcome" where
  "channel_checkbox mu label channel n =
     and_then (ui (mu_checkbox mu label
         (apu_channel_enabled (cb_apu (c_bus (cd_cpu (n_deck n)))) channel)) n) (\<lambda>(changed, _) n.
       on_true changed (\<lambda>n. succeed () (n\<lparr>n_deck := deck_toggle_channel (n_deck n) channel\<rparr>)) n)"

definition channel_settings ::
    "'p menu_ops \<Rightarrow> ('rb, 'd, 'p) nes \<Rightarrow> (('rb, 'd, 'p) nes, unit) outcome" where
  "channel_settings mu n =
     and_then (ui (mu_tree mu ''Channels'') n) (\<lambda>expanded n.
       on_true expanded (\<lambda>n.
         and_then (channel_checkbox mu ''Pulse 1'' Pulse1 n) (\<lambda>_ n.
         and_then (channel_checkbox mu ''Pulse 2'' Pulse2 n) (\<lambda>_ n.
         and_then (channel_checkbox mu ''Triangle'' Triangle n) (\<lambda>_ n.
         and_then (channel_checkbox mu ''Noise'' Noise n) (\<lambda>_ n.
           channel_checkbox mu ''DMC'' Dmc n))))) n)"

definition render_config_audio ::
    "('rb, 'd, 'p) nes_env \<Rightarrow> 'p menu_ops \<Rightarrow> ('rb, 'd, 'p) nes \<Rightarrow> (('rb, 'd, 'p) nes, unit) outcome" where
  "render_config_audio env mu n =
     and_then (config_checkbox mu ''Enabled'' cf_sound cf_sound_update n) (\<lambda>_ n.
       on_true (cf_sound (n_config n)) (\<lambda>n.
         and_then (pick_sample_rate mu n) (\<lambda>_ n.
         and_then (pick_buffer_size env mu n) (\<lambda>_ n.
         and_then (rate_control_settings mu n) (\<lambda>_ n. channel_settings mu n)))) n)"

text \<open>The scale is truncated.\<close>

definition pick_scale ::
    "('rb, 'd, 'p) nes_env \<Rightarrow> 'p menu_ops \<Rightarrow> ('rb, 'd, 'p) nes \<Rightarrow> (('rb, 'd, 'p) nes, unit) outcome" where
  "pick_scale env mu n =
     (let scale = usize_sub (f32_to_usize (cf_scale (n_config n))) 1
      in and_then (ui (mu_select_box mu ''Scale'' scale [''1'', ''2'', ''3'', ''4''] 4) n) (\<lambda>(changed, v) n.
            on_true changed (\<lambda>n.
              let n = set_scale (f32_add (f32_of_nat v) (Fin 1)) n;
                  dims = config_get_dimensions (n_config n)
              in and_then (pix_call (px_dimensions (ne_pix env) dims) n) (\<lambda>_ n.
                   case n_debugger n of
                     Some window \<Rightarrow>
                       and_then (pix_call (mu_window_target mu (Some window)) n) (\<lambda>_ n.
                       and_then (pix_call (px_dimensions (ne_pix env) dims) n) (\<lambda>_ n.
                         succeed () (n\<lparr>n_pix := snd (mu_window_target mu None (n_pix n))\<rparr>)))
                   | None \<Rightarrow> succeed () n)) n))"

definition pick_filter ::
    "'p menu_ops \<Rightarrow> ('rb, 'd, 'p) nes \<Rightarrow> (('rb, 'd, 'p) nes, unit) outcome" where
  "pick_filter mu n =
     and_then (ui (mu_select_box mu ''Filter'' (variant_number (cf_filter (n_config n)) video_filter_as_slice)
         (map video_filter_name [Pixellate, NtscFilter]) 2) n) (\<lambda>(changed, v) n.
       on_true changed (\<lambda>n.
         let n = on_config (cf_filter_update (\<lambda>_. video_filter_from v)) n
         in succeed () (n\<lparr>n_deck := deck_set_filter (n_deck n) (cf_filter (n_config n))\<rparr>)) n)"

definition render_config_video ::
    "('rb, 'd, 'p) nes_env \<Rightarrow> 'p menu_ops \<Rightarrow> ('rb, 'd, 'p) nes \<Rightarrow> (('rb, 'd, 'p) nes, unit) outcome" where
  "render_config_video env mu n =
     and_then (pick_scale env mu n) (\<lambda>_ n.
     and_then (pick_filter mu n) (\<lambda>_ n.
     and_then (config_checkbox mu ''Fullscreen'' cf_fullscreen cf_fullscreen_update n) (\<lambda>changed n.
     and_then (on_true changed (\<lambda>n. pix_call (px_fullscreen (ne_pix env) (cf_fullscreen (n_config n))) n) n) (\<lambda>_ n.
     and_then (config_checkbox mu ''VSync Enabled'' cf_vsync cf_vsync_update n) (\<lambda>changed n.
       on_true changed (\<lambda>n. pix_call (px_vsync (ne_pix env) (cf_vsync (n_config n))) n) n)))))"

section \<open>Choosing a ROM\<close>

text \<open>
  \<open>Path::parent\<close> up to redundant separators: the path without its last component, nothing for the root and the
  empty path.
\<close>

definition path_comps :: "string \<Rightarrow> string list" where
  "path_comps path = filter (\<lambda>p. p \<noteq> []) (split_at CHR ''/'' path)"

fun join_comps :: "string list \<Rightarrow> string" where
  "join_comps [] = []"
| "join_comps [p] = p"
| "join_comps (p # ps) = p @ CHR ''/'' # join_comps ps"

definition path_parent :: "string \<Rightarrow> string option" where
  "path_parent path =
     (let comps = path_comps path;
          root = (if path \<noteq> [] \<and> hd path = CHR ''/'' then ''/'' else [])
      in if comps = [] then None else Some (root @ join_comps (butlast comps)))"

definition path_is_file :: "('rb, 'd, 'p) nes \<Rightarrow> string \<Rightarrow> bool" where
  "path_is_file n path \<longleftrightarrow> fs_files (n_files n) path \<noteq> None"

text \<open>The directory of the ROM path. Its parent is there for a file.\<close>

definition rom_dir :: "('rb, 'd, 'p) nes \<Rightarrow> string option" where
  "rom_dir n =
     (let path = cf_rom_path (n_config n)
      in if path_is_file n path then path_parent path else Some path)"

definition hidden_file :: "string \<Rightarrow> bool" where
  "hidden_file path = (case file_name path of Some name \<Rightarrow> take 1 name = ''.'' | None \<Rightarrow> False)"

definition path_extension :: "string \<Rightarrow> string option" where
  "path_extension path =
     (case file_name path of
        None \<Rightarrow> None
      | Some name \<Rightarrow> if stem_of name = name then None else Some (drop (Suc (length (stem_of name))) name))"

definition PARENT_DIR :: string where "PARENT_DIR = ''../''"

definition shown_path :: "('rb, 'd, 'p) nes_env \<Rightarrow> bool \<Rightarrow> string \<Rightarrow> bool" where
  "shown_path env show_hidden p \<longleftrightarrow>
     (ne_is_dir env p \<or> path_extension p = Some ''nes'') \<and> (show_hidden \<or> \<not> hidden_file p)"

definition update_paths ::
    "('rb, 'd, 'p) nes_env \<Rightarrow> 'p menu_ops \<Rightarrow> ('rb, 'd, 'p) nes \<Rightarrow> ('rb, 'd, 'p) nes option" where
  "update_paths env mu n =
     (let n = n\<lparr>n_selected_path := 0, n_paths := []\<rparr>
      in do { path \<leftarrow> rom_dir n;
              case mu_read_dir mu path of
                Some entries \<Rightarrow>
                  let paths = sort (filter (shown_path env (cf_show_hidden_files (n_config n))) entries)
                  in Some (n\<lparr>n_paths := (if path_parent path \<noteq> None then PARENT_DIR # paths else paths)\<rparr>)
              | None \<Rightarrow> Some (n\<lparr>n_error := Some (''Failed to read '' @ quoted path)\<rparr>) })"

text \<open>A double click on the first entry goes to the parent, on a directory into it.\<close>

definition enter_directory ::
    "('rb, 'd, 'p) nes_env \<Rightarrow> 'p menu_ops \<Rightarrow> string \<Rightarrow> ('rb, 'd, 'p) nes \<Rightarrow> ('rb, 'd, 'p) nes option" where
  "enter_directory env mu path n =
     (if n_selected_path n = 0 then
        (case path_parent (cf_rom_path (n_config n)) of
           Some parent \<Rightarrow> update_paths env mu (on_config (cf_rom_path_update (\<lambda>_. parent)) n)
         | None \<Rightarrow> Some n)
      else if ne_is_dir env path then update_paths env mu (on_config (cf_rom_path_update (\<lambda>_. path)) n)
      else Some n)"

definition on_disable :: "'p menu_ops \<Rightarrow> bool \<Rightarrow> ('rb, 'd, 'p) nes \<Rightarrow> ('rb, 'd, 'p) nes" where
  "on_disable mu disabled n = n\<lparr>n_pix := mu_disable mu disabled (n_pix n)\<rparr>"

text \<open>The label of the list, the number of entries that fit, and the list itself. An empty line has no height to divide by.\<close>

definition path_list ::
    "'p menu_ops \<Rightarrow> ('rb, 'd, 'p) nes \<Rightarrow> (('rb, 'd, 'p) nes, unit) outcome" where
  "path_list mu n =
     do { dir \<leftarrow> rom_dir n;
          displayed_count \<leftarrow> (if mu_line_height mu (n_pix n) = 0 then None
             else Some (usize_sub (mu_height mu (n_pix n)) (mu_cursor_y mu (n_pix n)) div mu_line_height mu (n_pix n)));
          let label = dir @ ''##'' @ (if cf_show_hidden_files (n_config n) then ''true'' else ''false'');
          and_then (ui (mu_select_list mu label (n_selected_path n) (map (mu_path_text mu dir) (n_paths n))
              displayed_count) n) (\<lambda>(_, v) n. succeed () (n\<lparr>n_selected_path := v\<rparr>)) }"

text \<open>\<open>||\<close> asks for the button only without a double click.\<close>

definition open_clicked ::
    "'p menu_ops \<Rightarrow> ('rb, 'd, 'p) nes \<Rightarrow> (('rb, 'd, 'p) nes, bool) outcome" where
  "open_clicked mu n = (if mu_dbl_clicked mu (n_pix n) then succeed True n else ui (mu_button mu ''Open'') n)"

definition render_load_rom ::
    "('rb, 'd, 'p) nes_env \<Rightarrow> 'p menu_ops \<Rightarrow> ('rb, 'd, 'p) nes \<Rightarrow> (('rb, 'd, 'p) nes, unit) outcome" where
  "render_load_rom env mu n =
     and_then (render_heading env mu n) (\<lambda>_ n.
       do { n \<leftarrow> (if n_paths n = [] then update_paths env mu n else Some n);
            and_then (path_list mu n) (\<lambda>_ n.
              do { path \<leftarrow> vec_get (n_paths n) (n_selected_path n);
                   n \<leftarrow> (if mu_dbl_clicked mu (n_pix n) then enter_directory env mu path n else Some n);
                   let n = (if \<not> is_nes_rom (n_files n) path then on_disable mu True n else n);
                   and_then (open_clicked mu n) (\<lambda>clicked n.
                   and_then (on_true clicked (\<lambda>n.
                       nes_load_rom env (on_config (cf_rom_path_update (\<lambda>_. path)) n\<lparr>n_selected_path := 0\<rparr>)) n) (\<lambda>_ n.
                   and_then (config_checkbox mu ''Show hidden files'' cf_show_hidden_files
                       cf_show_hidden_files_update (on_disable mu False n)) (\<lambda>changed n.
                     if changed then do { n \<leftarrow> update_paths env mu n; succeed () n } else succeed () n))) }) })"

section \<open>The pages\<close>

definition to_menu :: "nes_menu \<Rightarrow> ('rb, 'd, 'p) nes \<Rightarrow> (('rb, 'd, 'p) nes, unit) outcome" where
  "to_menu menu n = succeed () (n\<lparr>n_mode := InMenu menu\<rparr>)"

definition render_main ::
    "('rb, 'd, 'p) nes_env \<Rightarrow> 'p menu_ops \<Rightarrow> ('rb, 'd, 'p) nes \<Rightarrow> (('rb, 'd, 'p) nes, unit) outcome" where
  "render_main env mu n =
     and_then (render_heading env mu n) (\<lambda>_ n.
     and_then (ui (mu_menu mu ''Config'') n) (\<lambda>clicked n.
     and_then (on_true clicked (to_menu (ConfigMenu GeneralSection)) n) (\<lambda>_ n.
     and_then (ui (mu_menu mu ''Keybinds'') n) (\<lambda>clicked n.
     and_then (on_true clicked (to_menu (KeybindMenu PlayerOne)) n) (\<lambda>_ n.
     and_then (ui (mu_menu mu ''Load ROM'') n) (\<lambda>clicked n.
     and_then (on_true clicked (to_menu LoadRomMenu) n) (\<lambda>_ n.
     and_then (ui (mu_menu mu ''About'') n) (\<lambda>clicked n.
       on_true clicked (to_menu AboutMenu) n))))))))"

fun render_section ::
    "('rb, 'd, 'p) nes_env \<Rightarrow> 'p menu_ops \<Rightarrow> config_section \<Rightarrow> ('rb, 'd, 'p) nes \<Rightarrow> (('rb, 'd, 'p) nes, unit) outcome" where
  "render_section env mu GeneralSection n = render_config_general mu n"
| "render_section env mu EmulationSection n = render_config_emulation env mu n"
| "render_section env mu AudioSection n = render_config_audio env mu n"
| "render_section env mu VideoSection n = render_config_video env mu n"

definition render_config ::
    "('rb, 'd, 'p) nes_env \<Rightarrow> 'p menu_ops \<Rightarrow> config_section \<Rightarrow> ('rb, 'd, 'p) nes \<Rightarrow> (('rb, 'd, 'p) nes, unit) outcome" where
  "render_config env mu section n =
     and_then (render_heading env mu n) (\<lambda>_ n.
     and_then (ui (mu_tab_bar mu ''Sections'' (map config_section_name config_section_as_slice)
         (variant_number section config_section_as_slice)) n) (\<lambda>(shown, selected, changed) n.
       do { s \<leftarrow> vec_get config_section_as_slice shown;
            and_then (render_section env mu s n) (\<lambda>_ n.
              if changed then do { s \<leftarrow> vec_get config_section_as_slice selected; to_menu (ConfigMenu s) n }
              else succeed () n) }))"

text \<open>The pages of the key bindings have no widget.\<close>

definition render_keybinds ::
    "('rb, 'd, 'p) nes_env \<Rightarrow> 'p menu_ops \<Rightarrow> menu_player \<Rightarrow> ('rb, 'd, 'p) nes \<Rightarrow> (('rb, 'd, 'p) nes, unit) outcome" where
  "render_keybinds env mu player n =
     and_then (render_heading env mu n) (\<lambda>_ n.
     and_then (ui (mu_tab_bar mu ''Sections'' (map menu_player_name menu_player_as_slice)
         (variant_number player menu_player_as_slice)) n) (\<lambda>(_, selected, changed) n.
       if changed then do { p \<leftarrow> vec_get menu_player_as_slice selected; to_menu (KeybindMenu p) n }
       else succeed () n))"

definition render_about ::
    "('rb, 'd, 'p) nes_env \<Rightarrow> 'p menu_ops \<Rightarrow> ('rb, 'd, 'p) nes \<Rightarrow> (('rb, 'd, 'p) nes, unit) outcome" where
  "render_about env mu n =
     and_then (render_heading env mu n) (\<lambda>_ n.
     and_then (ui (mu_link mu ''github.com/lukexor/tetanes'') n) (\<lambda>clicked n.
       on_true clicked (ui (mu_open_url mu ''https://github.com/lukexor/tetanes'')) n))"

fun menu_page ::
    "('rb, 'd, 'p) nes_env \<Rightarrow> 'p menu_ops \<Rightarrow> nes_menu \<Rightarrow> ('rb, 'd, 'p) nes \<Rightarrow> (('rb, 'd, 'p) nes, unit) outcome" where
  "menu_page env mu MainMenu n = render_main env mu n"
| "menu_page env mu (ConfigMenu section) n = render_config env mu section n"
| "menu_page env mu (KeybindMenu player) n = render_keybinds env mu player n"
| "menu_page env mu LoadRomMenu n = render_load_rom env mu n"
| "menu_page env mu AboutMenu n = render_about env mu n"

definition render_menu ::
    "('rb, 'd, 'p) nes_env \<Rightarrow> 'p menu_ops \<Rightarrow> nes_menu \<Rightarrow> ('rb, 'd, 'p) nes \<Rightarrow> (('rb, 'd, 'p) nes, unit) outcome" where
  "render_menu env mu menu n = menu_page env mu menu (n\<lparr>n_messages := []\<rparr>)"

end
