(* ===== verification/MenuProps.thy ===== *)
theory MenuProps
  imports NesMenu NesProps
begin

text \<open>
  The pages of the menu against the machine. Whatever the user does on a page of settings, the devices, the
  region and the picture filter of the running machine follow the configuration; the Zapper and the state of
  the memory at power-up do not. A directory that cannot be read ends the page for choosing a ROM.
\<close>

section \<open>What holds after a page\<close>

definition always :: "('s \<Rightarrow> bool) \<Rightarrow> ('s, 'a) outcome \<Rightarrow> bool" where
  "always P r \<longleftrightarrow> (\<forall>x s. r = Some (x, s) \<longrightarrow> P s)"

named_theorems page_intros

lemma always_None [simp]: "always P None" and always_Some [simp]: "always P (Some (x, s)) = P s"
  by (auto simp: always_def)

lemma always_succeed [page_intros]: "P s \<Longrightarrow> always P (succeed a s)"
  by (simp add: succeed_def)

lemma always_and_then [page_intros]:
  "always P m \<Longrightarrow> (\<And>a s. P s \<Longrightarrow> always P (f a s)) \<Longrightarrow> always P (and_then m f)"
proof -
  assume P: "always P m" "\<And>a s. P s \<Longrightarrow> always P (f a s)"
  then show ?thesis
    by (cases m) (auto simp: always_def and_then_def split: sum.splits)
qed

lemma always_on_true [page_intros]:
  "P n \<Longrightarrow> (b \<Longrightarrow> always P (f n)) \<Longrightarrow> always P (on_true b f n)"
  by (cases b) (simp_all add: succeed_def)

lemma always_if [page_intros]:
  "(b \<Longrightarrow> always P x) \<Longrightarrow> (\<not> b \<Longrightarrow> always P y) \<Longrightarrow> always P (if b then x else y)"
  by simp

lemma always_bind_option: "(\<And>a. always P (f a)) \<Longrightarrow> always P (Option.bind m f)"
  by (cases m) simp_all

section \<open>The machine and the configuration\<close>

definition deck_input :: "control_deck \<Rightarrow> input" where
  "deck_input d = cb_input (c_bus (cd_cpu d))"

definition in_step :: "('rb, 'd, 'p) nes \<Rightarrow> bool" where
  "in_step n \<longleftrightarrow> in_four_player (deck_input (n_deck n)) = cf_four_player (n_config n)
     \<and> cd_region (n_deck n) = cf_region (n_config n) \<and> vd_filter (cd_video (n_deck n)) = cf_filter (n_config n)"

definition follows :: "bool \<Rightarrow> ram_state \<Rightarrow> ('rb, 'd, 'p) nes \<Rightarrow> bool" where
  "follows z r n \<longleftrightarrow> in_step n \<and> zp_connected (in_zapper (deck_input (n_deck n))) = z \<and> cd_ram_state (n_deck n) = r"

lemma deck_input_ops [simp]:
  "in_four_player (deck_input (deck_set_four_player d fp)) = fp"
  "zp_connected (in_zapper (deck_input (deck_set_four_player d fp))) = zp_connected (in_zapper (deck_input d))"
  "deck_input (deck_set_region d region) = deck_input d"
  "deck_input (deck_set_filter d f) = deck_input d"
  "deck_input (deck_toggle_channel d ch) = deck_input d"
  by (simp_all add: deck_input_def deck_set_four_player_def deck_on_bus_def cb_set_four_player_def
      set_four_player_def input_reset_def zapper_reset_def
      deck_set_region_def cpu_set_region_def cb_set_region_def deck_set_filter_def deck_toggle_channel_def Let_def split_beta)

lemma deck_ops_frame [simp]:
  "cd_region (deck_set_four_player d fp) = cd_region d" "cd_video (deck_set_four_player d fp) = cd_video d"
  "cd_ram_state (deck_set_four_player d fp) = cd_ram_state d"
  "cd_region (deck_set_region d region) = region" "cd_video (deck_set_region d region) = cd_video d"
  "cd_ram_state (deck_set_region d region) = cd_ram_state d"
  "cd_region (deck_set_filter d f) = cd_region d" "vd_filter (cd_video (deck_set_filter d f)) = f"
  "cd_ram_state (deck_set_filter d f) = cd_ram_state d"
  "cd_region (deck_toggle_channel d ch) = cd_region d" "cd_video (deck_toggle_channel d ch) = cd_video d"
  "cd_ram_state (deck_toggle_channel d ch) = cd_ram_state d"
  by (simp_all add: deck_set_four_player_def deck_on_bus_def deck_set_region_def deck_set_filter_def
      video_set_filter_def deck_toggle_channel_def)

lemma follows_simps [simp]:
  "follows z r (n\<lparr>n_pix := p\<rparr>) = follows z r n"
  "follows z r (n\<lparr>n_audio := m\<rparr>) = follows z r n"
  "follows z r (n\<lparr>n_mode := md\<rparr>) = follows z r n"
  "follows z r (n\<lparr>n_deck := deck_toggle_channel (n_deck n) ch\<rparr>) = follows z r n"
  by (simp_all add: follows_def in_step_def)

lemma follows_config:
  "follows z r n \<Longrightarrow> cf_four_player (f (n_config n)) = cf_four_player (n_config n) \<Longrightarrow>
     cf_region (f (n_config n)) = cf_region (n_config n) \<Longrightarrow> cf_filter (f (n_config n)) = cf_filter (n_config n) \<Longrightarrow>
     follows z r (on_config f n)"
  by (simp add: follows_def in_step_def on_config_def)

section \<open>Widgets\<close>

lemma follows_ui [page_intros]: "follows z r n \<Longrightarrow> always (follows z r) (ui f n)"
  by (cases "f (n_pix n)") (simp add: ui_def)

lemma follows_pix [page_intros]: "follows z r n \<Longrightarrow> always (follows z r) (pix_call f n)"
  by (cases "f (n_pix n)") (simp add: pix_call_def)

lemma follows_checkbox:
  assumes "follows z r n" and "\<And>f c. cf_four_player (upd f c) = cf_four_player c"
    and "\<And>f c. cf_region (upd f c) = cf_region c" and "\<And>f c. cf_filter (upd f c) = cf_filter c"
  shows "always (follows z r) (config_checkbox mu label field upd n)"
  unfolding config_checkbox_def
  by (intro page_intros assms(1)) (auto intro!: page_intros follows_config simp: assms)

lemma follows_slider:
  assumes "follows z r n" and "\<And>v c. cf_four_player (upd v c) = cf_four_player c"
    and "\<And>v c. cf_region (upd v c) = cf_region c" and "\<And>v c. cf_filter (upd v c) = cf_filter c"
  shows "always (follows z r) (config_slider mu label field upd lo hi n)"
  unfolding config_slider_def
  by (intro page_intros assms(1)) (auto intro!: page_intros follows_config simp: assms)

lemma follows_playback [page_intros]: "follows z r n \<Longrightarrow> always (follows z r) (nes_open_playback env n)"
  by (simp add: nes_open_playback_def split_beta split: sum.splits)

lemma follows_renew [page_intros]: "follows z r n \<Longrightarrow> always (follows z r) (nes_renew_audio env n)"
  by (auto simp: nes_renew_audio_def intro!: always_bind_option follows_playback)

lemma follows_frame_rate [page_intros]: "follows z r n \<Longrightarrow> always (follows z r) (update_frame_rate env n)"
  by (auto simp: update_frame_rate_def Let_def intro!: page_intros)

section \<open>The four pages of settings\<close>

text \<open>The three choices that reach the machine.\<close>

lemma follows_four_player [page_intros]: "follows z r n \<Longrightarrow> always (follows z r) (pick_four_player mu n)"
  unfolding pick_four_player_def Let_def
  by (intro page_intros, assumption)
    (auto intro!: page_intros simp: follows_def in_step_def on_config_def)

lemma follows_filter [page_intros]: "follows z r n \<Longrightarrow> always (follows z r) (pick_filter mu n)"
  unfolding pick_filter_def Let_def
  by (intro page_intros, assumption)
    (auto intro!: page_intros simp: follows_def in_step_def on_config_def)

lemma follows_region [page_intros]: "follows z r n \<Longrightarrow> always (follows z r) (pick_region env mu n)"
  unfolding pick_region_def Let_def
  by (intro page_intros, assumption)
    (auto intro!: page_intros simp: follows_def in_step_def on_config_def)

lemmas widget_intros = follows_checkbox follows_slider page_intros

lemma follows_general: "follows z r n \<Longrightarrow> always (follows z r) (render_config_general mu n)"
  unfolding render_config_general_def pick_save_slot_def rewind_settings_def Let_def
  by (rule widget_intros | assumption | (simp; fail) | clarsimp | rule follows_config)+

lemma follows_emulation: "follows z r n \<Longrightarrow> always (follows z r) (render_config_emulation env mu n)"
  unfolding render_config_emulation_def pick_ram_state_def pick_speed_def set_speed_def Let_def
  by (rule widget_intros | assumption | (simp; fail) | clarsimp | rule follows_config | (simp add: follows_def in_step_def; fail))+

lemma follows_audio: "follows z r n \<Longrightarrow> always (follows z r) (render_config_audio env mu n)"
  unfolding render_config_audio_def pick_sample_rate_def pick_buffer_size_def rate_control_settings_def
    channel_settings_def channel_checkbox_def Let_def
  by (rule widget_intros | assumption | (simp; fail) | clarsimp | rule follows_config)+

lemma follows_video: "follows z r n \<Longrightarrow> always (follows z r) (render_config_video env mu n)"
  unfolding render_config_video_def pick_scale_def set_scale_def Let_def
  by (rule widget_intros conjI impI allI | assumption | (simp; fail) | clarsimp split: option.splits
      | rule follows_config | (simp add: follows_def in_step_def; fail))+

lemma follows_heading [page_intros]: "follows z r n \<Longrightarrow> always (follows z r) (render_heading env mu n)"
  unfolding render_heading_def exit_menu_def
  by (rule page_intros | assumption | (simp add: resume_play_def nes_audio_resume_def; fail) | clarsimp)+

lemma follows_section: "follows z r n \<Longrightarrow> always (follows z r) (render_section env mu sec n)"
  by (cases sec) (simp_all add: follows_general follows_emulation follows_audio follows_video)

text \<open>C30: The settings reach the machine: whatever the user does on a page of settings, and even if a call of
  the window library fails on the way, the four player mode, the region and the picture filter of the running
  machine are those of the configuration afterwards. Two settings do not reach it: the Zapper stays connected
  or not as it was, and the memory of the next ROM is filled as at the start of the program.\<close>

theorem settings_reach_deck:
  assumes "render_config env mu sec n = Some (result, n')" and "in_step n"
  shows "in_step n'
    \<and> zp_connected (in_zapper (deck_input (n_deck n'))) = zp_connected (in_zapper (deck_input (n_deck n)))
    \<and> cd_ram_state (n_deck n') = cd_ram_state (n_deck n)"
proof -
  define z r where "z = zp_connected (in_zapper (deck_input (n_deck n)))" and "r = cd_ram_state (n_deck n)"
  have "follows z r n" using assms(2) by (simp add: follows_def z_def r_def)
  then have "always (follows z r) (render_config env mu sec n)"
    unfolding render_config_def to_menu_def
    by - (rule page_intros always_bind_option follows_section | assumption | (simp; fail) | clarsimp)+
  then show ?thesis using assms(1) by (auto simp: always_def follows_def z_def r_def)
qed

text \<open>A user who asks for the Four Score and for the Zapper.\<close>

definition sample_menu :: "unit menu_ops" where
  "sample_menu =
     \<lparr>mu_menu = \<lambda>_ p. (Some False, p), mu_button = \<lambda>_ p. (Some False, p), mu_link = \<lambda>_ p. (Some False, p),
      mu_open_url = \<lambda>_ p. (Some (), p),
      mu_checkbox = \<lambda>label v p. (Some (if label = ''Enable Zapper'' then (True, \<not> v) else (False, v)), p),
      mu_select_box = \<lambda>label v _ _ p. (Some (if label = ''Four Player Mode'' then (True, 1) else (False, v)), p),
      mu_select_list = \<lambda>_ v _ _ p. (Some (False, v), p), mu_slider = \<lambda>_ v _ _ p. (Some (False, v), p),
      mu_slider_f32 = \<lambda>_ v _ _ p. (Some (False, v), p), mu_tab_bar = \<lambda>_ _ v p. (Some (v, v, False), p),
      mu_tree = \<lambda>_ p. (Some False, p), mu_dbl_clicked = \<lambda>_. False, mu_disable = \<lambda>_ p. p,
      mu_window_target = \<lambda>_ p. (True, p), mu_height = \<lambda>_. 240, mu_cursor_y = \<lambda>_. 40, mu_line_height = \<lambda>_. 20,
      mu_read_dir = \<lambda>_. None, mu_path_text = \<lambda>_ p. p\<rparr>"

lemma sample_in_step: "in_step sample_nes"
  by (simp add: in_step_def deck_input_def sample_nes_def sample_deck_def sample_config_def config_default_def
      sample_cpu_def cpu_load_cart_def cb_load_cart_def cpu_new_def cpu_set_region_def cpu_bus_new_def
      cb_set_region_def input_new_def deck_new_def video_new_def Let_def split_beta)

theorem settings_reach_deck_witness:
  "\<exists>n'. render_config sample_env sample_menu GeneralSection sample_nes = Some (Inr (), n')
     \<and> in_four_player (deck_input (n_deck n')) = FourScore \<and> cf_zapper (n_config n')
     \<and> zp_connected (in_zapper (deck_input (n_deck n'))) = zp_connected (in_zapper (deck_input (n_deck sample_nes)))"
proof -
  obtain n' where n': "render_config sample_env sample_menu GeneralSection sample_nes = Some (Inr (), n')"
    "cf_zapper (n_config n')" "cf_four_player (n_config n') = FourScore"
    by (simp add: render_config_def render_heading_def render_config_general_def pick_save_slot_def
        rewind_settings_def pick_four_player_def config_checkbox_def config_slider_def ui_def and_then_def
        succeed_def on_config_def sample_menu_def sample_nes_def sample_config_def config_default_def
        sample_deck_def variant_number_def config_section_as_slice_def four_player_from_def Let_def vec_get_def)
  from settings_reach_deck [OF n'(1) sample_in_step] n' show ?thesis by (auto simp: in_step_def)
qed

section \<open>Directories\<close>

text \<open>The page lists the directory, finds nothing, and takes the selected entry of the empty list.\<close>

lemma unreadable_directory_panics:
  assumes "\<not> cd_running (n_deck n)" and "n_paths n = []" and "rom_dir n = Some dir" and "mu_read_dir mu dir = None"
  shows "render_load_rom env mu n \<noteq> Some (Inr (), n')"
proof -
  define m where "m = n\<lparr>n_selected_path := 0, n_paths := [], n_error := Some (''Failed to read '' @ quoted dir)\<rparr>"
  have paths: "update_paths env mu n = Some m"
  proof -
    have "rom_dir (n\<lparr>n_selected_path := 0, n_paths := []\<rparr>) = rom_dir n"
      by (simp add: rom_dir_def path_is_file_def)
    with assms(3,4) show ?thesis by (simp add: update_paths_def m_def Let_def)
  qed
  have "n_paths s = []" if "path_list mu m = Some (Inr (), s)" for s
    using that by (auto simp: path_list_def ui_def and_then_def succeed_def bind_Some_iff m_def Let_def split_beta
        split: if_splits option.splits)
  then show ?thesis
    using assms paths by (auto simp: render_load_rom_def render_heading_def and_then_def succeed_def bind_Some_iff
        vec_get_def split: sum.splits)
qed

text \<open>A new sample rate changes the mixer; the device stays the one that was opened with the old rate.\<close>

lemma sample_rate_keeps_device:
  "pick_sample_rate mu n = Some (result, n') \<Longrightarrow> am_device (n_audio n') = am_device (n_audio n)"
  by (cases "mu_select_box mu ''Sample Rate'' (variant_number (sample_rate_from_f32 (cf_audio_sample_rate (n_config n)))
        sample_rate_as_slice) (map sample_rate_name sample_rate_as_slice) 4 (n_pix n)")
    (auto simp: pick_sample_rate_def ui_def and_then_def succeed_def mixer_set_output_frequency_def Let_def
        on_config_def split: option.splits elim!: on_true.elims)

end
