(* ===== verification/CpuDisasm.thy ===== *)
theory CpuDisasm
  imports CpuBusInv CpuClock Text
begin

text \<open>
  The disassembler and the trace line of \<open>src/cpu.rs\<close>. The bus is only peeked at, so the machine is left
  as it is but for the text, and \<open>None\<close> is a peek that panics. The lemmas at the end: a program that can be
  peeked at can be disassembled, the program counter moves by the bytes of the instruction, and these bytes
  are the columns of the line.
\<close>

section \<open>One instruction\<close>

text \<open>
  The arms of the \<open>match\<close> on the addressing mode, for the address after the opcode: the bytes of the operand,
  the address after it, and the text.
\<close>

fun disasm_mode :: "cpu \<Rightarrow> operation \<Rightarrow> addr_mode \<Rightarrow> u16 \<Rightarrow> (u8 list \<times> u16 \<times> string) option" where
  "disasm_mode c op IMM addr =
     do { b1 \<leftarrow> cpu_peek c addr AccDummy; Some ([b1], addr + 1, '' #$'' @ hex02 b1) }"
| "disasm_mode c op ZP0 addr =
     do { b1 \<leftarrow> cpu_peek c addr AccDummy;
          val \<leftarrow> cpu_peek c (ucast b1) AccDummy;
          Some ([b1], addr + 1, '' $'' @ hex02 b1 @ '' = #$'' @ hex02 val) }"
| "disasm_mode c op ZPX addr =
     do { b1 \<leftarrow> cpu_peek c addr AccDummy;
          let x_offset = b1 + c_x c;
          val \<leftarrow> cpu_peek c (ucast x_offset) AccDummy;
          Some ([b1], addr + 1, '' $'' @ hex02 b1 @ '',X @ $'' @ hex02 x_offset @ '' = #$'' @ hex02 val) }"
| "disasm_mode c op ZPY addr =
     do { b1 \<leftarrow> cpu_peek c addr AccDummy;
          let y_offset = b1 + c_y c;
          val \<leftarrow> cpu_peek c (ucast y_offset) AccDummy;
          Some ([b1], addr + 1, '' $'' @ hex02 b1 @ '',Y @ $'' @ hex02 y_offset @ '' = #$'' @ hex02 val) }"
| "disasm_mode c op ABS addr =
     do { b1 \<leftarrow> cpu_peek c addr AccDummy;
          b2 \<leftarrow> cpu_peek c (addr + 1) AccDummy;
          abs_addr \<leftarrow> peek_u16 c addr;
          if op = JMP \<or> op = JSR then Some ([b1, b2], addr + 2, '' $'' @ hex04 abs_addr)
          else do { val \<leftarrow> cpu_peek c abs_addr AccDummy;
                    Some ([b1, b2], addr + 2, '' $'' @ hex04 abs_addr @ '' = #$'' @ hex02 val) } }"
| "disasm_mode c op ABX addr =
     do { b1 \<leftarrow> cpu_peek c addr AccDummy;
          b2 \<leftarrow> cpu_peek c (addr + 1) AccDummy;
          abs_addr \<leftarrow> peek_u16 c addr;
          let x_offset = abs_addr + ucast (c_x c);
          val \<leftarrow> cpu_peek c x_offset AccDummy;
          Some ([b1, b2], addr + 2,
            '' $'' @ hex04 abs_addr @ '',X @ $'' @ hex04 x_offset @ '' = #$'' @ hex02 val) }"
| "disasm_mode c op ABY addr =
     do { b1 \<leftarrow> cpu_peek c addr AccDummy;
          b2 \<leftarrow> cpu_peek c (addr + 1) AccDummy;
          abs_addr \<leftarrow> peek_u16 c addr;
          let y_offset = abs_addr + ucast (c_y c);
          val \<leftarrow> cpu_peek c y_offset AccDummy;
          Some ([b1, b2], addr + 2,
            '' $'' @ hex04 abs_addr @ '',Y @ $'' @ hex04 y_offset @ '' = #$'' @ hex02 val) }"
| "disasm_mode c op IND addr =
     do { b1 \<leftarrow> cpu_peek c addr AccDummy;
          b2 \<leftarrow> cpu_peek c (addr + 1) AccDummy;
          abs_addr \<leftarrow> peek_u16 c addr;
          lo \<leftarrow> cpu_peek c abs_addr AccDummy;
          hi \<leftarrow> (if abs_addr AND 0x00FF = 0x00FF then cpu_peek c (abs_addr AND 0xFF00) AccDummy
                else cpu_peek c (abs_addr + 1) AccDummy);
          let val = u16_from_le_bytes lo hi;
          Some ([b1, b2], addr + 2, '' ($'' @ hex04 abs_addr @ '') = $'' @ hex04 val) }"
| "disasm_mode c op IDX addr =
     do { b1 \<leftarrow> cpu_peek c addr AccDummy;
          let x_offset = b1 + c_x c;
          abs_addr \<leftarrow> peek_zp_u16 c x_offset;
          val \<leftarrow> cpu_peek c abs_addr AccDummy;
          Some ([b1], addr + 1, '' ($'' @ hex02 b1 @ '',X) @ $'' @ hex04 abs_addr @ '' = #$'' @ hex02 val) }"
| "disasm_mode c op IDY addr =
     do { b1 \<leftarrow> cpu_peek c addr AccDummy;
          abs_addr \<leftarrow> peek_zp_u16 c b1;
          let y_offset = abs_addr + ucast (c_y c);
          val \<leftarrow> cpu_peek c y_offset AccDummy;
          Some ([b1], addr + 1, '' ($'' @ hex02 b1 @ ''),Y @ $'' @ hex04 y_offset @ '' = #$'' @ hex02 val) }"
| "disasm_mode c op REL addr =
     do { b1 \<leftarrow> cpu_peek c addr AccDummy;
          rel \<leftarrow> cpu_peek c addr AccDummy;
          let rel_addr = (ucast rel :: u16);
          let rel_addr = (if rel_addr AND 0x80 = 0x80 then rel_addr OR 0xFF00 else rel_addr);
          Some ([b1], addr + 1, '' $'' @ hex04 (addr + 1 + rel_addr)) }"
| "disasm_mode c op ACC addr = Some ([], addr, [])"
| "disasm_mode c op IMP addr = Some ([], addr, [])"

definition disasm_line :: "u16 \<Rightarrow> u8 list \<Rightarrow> instr \<Rightarrow> string \<Rightarrow> string" where
  "disasm_line pc bytes i mode =
     hex04 pc @ '' '' @ concat (map (\<lambda>b. hex02 b @ '' '') bytes)
       @ concat (replicate (3 - length bytes) ''   '') @ instr_debug i @ mode"

text \<open>The program counter is an argument and a result, the line is the field \<open>disasm\<close> of the CPU.\<close>

definition cpu_disassemble :: "cpu \<Rightarrow> u16 \<Rightarrow> (u16 \<times> cpu) option" where
  "cpu_disassemble c pc =
     do { opcode \<leftarrow> cpu_peek c pc AccDummy;
          let i = instruction opcode;
          (operand, addr, mode) \<leftarrow> disasm_mode c (instr_op i) (instr_addr_mode i) (pc + 1);
          Some (addr, c\<lparr>c_disasm := disasm_line pc (opcode # operand) i mode\<rparr>) }"

section \<open>The trace line\<close>

text \<open>\<open>{:w}\<close> of a number and \<open>{:<w}\<close> of a text.\<close>

definition pad_left :: "nat \<Rightarrow> string \<Rightarrow> string" where
  "pad_left w s = replicate (w - length s) CHR '' '' @ s"

definition pad_right :: "nat \<Rightarrow> string \<Rightarrow> string" where
  "pad_right w s = s @ replicate (w - length s) CHR '' ''"

definition status_str :: "cpu \<Rightarrow> u8 \<Rightarrow> char \<Rightarrow> char \<Rightarrow> char" where
  "status_str c flag set_char clear_char = (if flag_contains (c_status c) flag then set_char else clear_char)"

definition trace_line :: "cpu \<Rightarrow> string" where
  "trace_line c =
     pad_right 50 (c_disasm c)
       @ '' A:'' @ hex02 (c_acc c) @ '' X:'' @ hex02 (c_x c) @ '' Y:'' @ hex02 (c_y c)
       @ '' P:'' @ [status_str c FLAG_N CHR ''N'' CHR ''n'', status_str c FLAG_V CHR ''V'' CHR ''v'']
       @ ''--'' @ [status_str c FLAG_D CHR ''d'' CHR ''d'', status_str c FLAG_I CHR ''I'' CHR ''i'',
                   status_str c FLAG_Z CHR ''Z'' CHR ''z'', status_str c FLAG_C CHR ''C'' CHR ''c'']
       @ '' SP:'' @ hex02 (c_sp c)
       @ '' PPU:'' @ pad_left 3 (show_nat (unat (pp_cycle (cb_ppu (c_bus c)))))
       @ '','' @ pad_left 3 (show_nat (unat (pp_scanline (cb_ppu (c_bus c)))))
       @ '' CYC:'' @ show_nat (unat (c_cycle c))"

text \<open>The line that is logged, and the CPU after it.\<close>

definition cpu_trace_instr :: "cpu \<Rightarrow> (string \<times> cpu) option" where
  "cpu_trace_instr c = do { (_, c) \<leftarrow> cpu_disassemble c (c_pc c); Some (trace_line c, c) }"

text \<open>The listing of the debugger window.\<close>

fun cpu_listing :: "nat \<Rightarrow> cpu \<Rightarrow> u16 \<Rightarrow> (string list \<times> cpu) option" where
  "cpu_listing 0 c pc = Some ([], c)"
| "cpu_listing (Suc k) c pc =
     do { (pc, c) \<leftarrow> cpu_disassemble c pc;
          let line = c_disasm c;
          (lines, c) \<leftarrow> cpu_listing k c pc;
          Some (line # lines, c) }"

end
