(* ===== verification/DisasmProps.thy ===== *)
theory DisasmProps
  imports CpuDisasm PowerOn
begin

text \<open>
  The disassembler agrees with the processor: on a machine that can be peeked at it never panics, changes
  nothing but its line, shows the bytes of the instruction in their columns, and moves the program counter as
  decoding the same opcode does.
\<close>

section \<open>Peeking\<close>

definition peekable :: "cpu \<Rightarrow> bool" where
  "peekable c \<longleftrightarrow> peek_oamdata (cb_ppu (c_bus c)) \<noteq> None"

definition peeked :: "cpu \<Rightarrow> u16 \<Rightarrow> u8" where
  "peeked c addr = the (cpu_peek c addr AccDummy)"

lemma peek_ok:
  assumes "cb_wf bd (c_bus c)" and "peekable c"
  shows "cpu_peek c addr AccDummy = Some (peeked c addr)"
proof -
  have "readable (c_bus c) addr" using assms(2) by (simp add: readable_def peekable_def)
  from cb_read_matches [OF assms(1) this, of AccDummy] show ?thesis
    by (auto simp: read_matches_def returns_def cpu_peek_def peeked_def)
qed

section \<open>The bytes of an instruction\<close>

fun operand_bytes :: "addr_mode \<Rightarrow> nat" where
  "operand_bytes ACC = 0"
| "operand_bytes IMP = 0"
| "operand_bytes ABS = 2"
| "operand_bytes ABX = 2"
| "operand_bytes ABY = 2"
| "operand_bytes IND = 2"
| "operand_bytes _ = 1"

definition instr_bytes :: "u8 \<Rightarrow> nat" where
  "instr_bytes opcode = Suc (operand_bytes (instr_addr_mode (instruction opcode)))"

lemma operand_bytes_le: "operand_bytes m \<le> 2"
  by (cases m) simp_all

lemma disasm_mode_ok:
  assumes "cb_wf bd (c_bus c)" and "peekable c"
  shows "\<exists>mode. disasm_mode c op m addr =
     Some (map (\<lambda>k. peeked c (addr + of_nat k)) [0..<operand_bytes m], addr + of_nat (operand_bytes m), mode)"
  by (cases m)
    (simp_all add: peek_ok [OF assms] peek_u16_def peek_zp_u16_def numeral_2_eq_2 Let_def)

lemma operation_name_length [simp]: "length (operation_name op) = 3"
  by (cases op) simp_all

lemma instr_debug_length [simp]: "length (instr_debug i) = 4"
  by (simp add: instr_debug_def Let_def del: operation_name.simps)

section \<open>Columns\<close>

lemma hex02_length [simp]: "length (hex02 v) = 2"
  by (simp add: hex02_def)

lemma hex04_length [simp]: "length (hex04 v) = 4"
  by (simp add: hex04_def)

definition byte_cols :: "u8 list \<Rightarrow> string" where
  "byte_cols bytes = concat (map (\<lambda>b. hex02 b @ '' '') bytes)"

lemma byte_cols_simps [simp]:
  "byte_cols [] = []" "byte_cols (b # bs) = hex02 b @ CHR '' '' # byte_cols bs"
  by (simp_all add: byte_cols_def)

lemma byte_cols_length [simp]: "length (byte_cols bs) = 3 * length bs"
  by (induction bs) simp_all

lemma byte_cols_nth: "k < length bs \<Longrightarrow> take 2 (drop (3 * k) (byte_cols bs)) = hex02 (bs ! k)"
proof (induction bs arbitrary: k)
  case (Cons b bs)
  show ?case
  proof (cases k)
    case (Suc j)
    have "drop (3 * k) (byte_cols (b # bs)) = drop (3 * j) (byte_cols bs)"
      by (simp add: Suc drop_append numeral_3_eq_3)
    then show ?thesis using Cons Suc by simp
  qed simp
qed simp

lemma disasm_line_columns:
  assumes "length bytes \<le> 3"
  shows "take 4 (disasm_line pc bytes i mode) = hex04 pc"
    and "k < length bytes \<Longrightarrow> take 2 (drop (5 + 3 * k) (disasm_line pc bytes i mode)) = hex02 (bytes ! k)"
    and "take 4 (drop 14 (disasm_line pc bytes i mode)) = instr_debug i"
proof -
  define pad where "pad = concat (replicate (3 - length bytes) ''   '')"
  have line: "disasm_line pc bytes i mode = (hex04 pc @ '' '') @ (byte_cols bytes @ pad) @ instr_debug i @ mode"
    by (simp add: disasm_line_def byte_cols_def pad_def)
  have pad: "length pad = 3 * (3 - length bytes)"
    by (simp add: pad_def length_concat sum_list_replicate)
  show "take 4 (disasm_line pc bytes i mode) = hex04 pc" by (simp add: line)
  show "take 4 (drop 14 (disasm_line pc bytes i mode)) = instr_debug i"
    using assms by (simp add: line pad)
  assume k: "k < length bytes"
  have "drop (5 + 3 * k) (disasm_line pc bytes i mode)
      = drop (3 * k) (byte_cols bytes) @ pad @ instr_debug i @ mode"
    using k by (simp add: line)
  moreover have "2 \<le> length (drop (3 * k) (byte_cols bytes))" using k by simp
  ultimately show "take 2 (drop (5 + 3 * k) (disasm_line pc bytes i mode)) = hex02 (bytes ! k)"
    using byte_cols_nth [OF k] by simp
qed

lemma disassemble_eq:
  fixes pc :: u16
  assumes "cb_wf bd (c_bus c)" and "peekable c"
  defines "opcode \<equiv> peeked c pc"
  shows "\<exists>mode. cpu_disassemble c pc = Some (pc + of_nat (instr_bytes opcode),
     c\<lparr>c_disasm := disasm_line pc (map (\<lambda>k. peeked c (pc + of_nat k)) [0..<instr_bytes opcode]) (instruction opcode) mode\<rparr>)"
proof -
  let ?m = "instr_addr_mode (instruction opcode)"
  obtain mode where mode: "disasm_mode c (instr_op (instruction opcode)) ?m (pc + 1) =
      Some (map (\<lambda>k. peeked c (pc + 1 + of_nat k)) [0..<operand_bytes ?m], pc + 1 + of_nat (operand_bytes ?m), mode)"
    using disasm_mode_ok [OF assms(1,2)] by blast
  have "map (\<lambda>k. peeked c (pc + of_nat k)) [0..<instr_bytes opcode]
      = opcode # map (\<lambda>k. peeked c (pc + 1 + of_nat k)) [0..<operand_bytes ?m]"
    by (simp only: instr_bytes_def upt_rec [of 0] zero_less_Suc if_True list.map map_Suc_upt [symmetric] map_map)
      (simp add: opcode_def comp_def add.assoc)
  moreover have "pc + of_nat (instr_bytes opcode) = pc + 1 + of_nat (operand_bytes ?m)"
    by (simp add: instr_bytes_def)
  ultimately show ?thesis
    using mode by (auto simp: cpu_disassemble_def peek_ok [OF assms(1,2)] Let_def simp flip: opcode_def)
qed

section \<open>The program counter while decoding\<close>

text \<open>No cycle, whatever the bus and a transfer do in it, moves the program counter.\<close>

lemma handle_interrupts_pc [simp]:
  "c_pc (cpu_handle_interrupts c) = c_pc c" "c_instr (cpu_handle_interrupts c) = c_instr c"
  by (simp_all add: cpu_handle_interrupts_def poll_dmc_def poll_irq_def poll_nmi_def Let_def split_beta)

lemma cycle_pc:
  "cpu_start_cycle c cyc = Some d \<Longrightarrow> c_pc d = c_pc c \<and> c_instr d = c_instr c"
  "cpu_end_cycle c cyc = Some d \<Longrightarrow> c_pc d = c_pc c \<and> c_instr d = c_instr c"
  "cpu_bus_read c addr access = Some (v, d) \<Longrightarrow> c_pc d = c_pc c \<and> c_instr d = c_instr c"
  "cpu_bus_write c addr v access = Some d \<Longrightarrow> c_pc d = c_pc c \<and> c_instr d = c_instr c"
  by (auto simp: cpu_start_cycle_def cpu_end_cycle_def cpu_bus_read_def cpu_bus_write_def cpu_bus_clock_to_def
      Let_def bind_Some_iff split: if_splits)

lemma dma_cycle_pc:
  "process_dma_cycle c = Some d \<Longrightarrow> c_pc d = c_pc c \<and> c_instr d = c_instr c"
  "dma_idle addr c = Some d \<Longrightarrow> c_pc d = c_pc c \<and> c_instr d = c_instr c"
proof -
  show process: "process_dma_cycle c = Some d \<Longrightarrow> c_pc d = c_pc c \<and> c_instr d = c_instr c" for c d
    by (auto simp: process_dma_cycle_def Let_def dest!: cycle_pc split: if_splits)
  show "dma_idle addr c = Some d \<Longrightarrow> c_pc d = c_pc c \<and> c_instr d = c_instr c"
    by (auto simp: dma_idle_def Let_def bind_Some_iff dest!: cycle_pc process split: if_splits)
qed

lemma dma_step_pc: "dma_step addr base (c, off, n, v) = Some (d, off', n', v') \<Longrightarrow> c_pc d = c_pc c \<and> c_instr d = c_instr c"
  unfolding dma_step_def Let_def prod.case
  by (split if_split_asm | (erule bind_eq_SomeE)+ | clarsimp simp: bind_Some_iff dest!: cycle_pc dma_cycle_pc split del: if_split)+

lemma dma_loop_pc: "dma_loop addr base s = Some d \<Longrightarrow> c_pc d = c_pc (fst s) \<and> c_instr d = c_instr (fst s)"
proof (erule dma_loop.raw_induct [where P = "\<lambda>addr base s d. c_pc d = c_pc (fst s) \<and> c_instr d = c_instr (fst s)", rotated])
  fix dma_loop addr base s d
  assume ih: "\<And>addr base s d. dma_loop addr base s = Some d \<Longrightarrow> c_pc d = c_pc (fst s) \<and> c_instr d = c_instr (fst s)"
    and loop: "(if cb_oam_dma (c_bus (fst s)) \<or> c_dmc_dma (fst s)
      then Option.bind (dma_step addr base s) (dma_loop addr base) else Some (fst s)) = Some d"
  show "c_pc d = c_pc (fst s) \<and> c_instr d = c_instr (fst s)"
  proof (cases "cb_oam_dma (c_bus (fst s)) \<or> c_dmc_dma (fst s)")
    case True
    then obtain t where t: "dma_step addr base s = Some t" "dma_loop addr base t = Some d"
      using loop by (auto simp: bind_Some_iff)
    obtain c off n v where s: "s = (c, off, n, v)" by (cases s)
    obtain e off' n' v' where e: "t = (e, off', n', v')" by (cases t)
    show ?thesis using ih [OF t(2)] dma_step_pc t(1) unfolding s e by force
  qed (use loop in simp)
qed

lemma cpu_read_pc: "cpu_read c addr access = Some (v, d) \<Longrightarrow> c_pc d = c_pc c \<and> c_instr d = c_instr c"
  by (auto simp: cpu_read_def cpu_handle_dma_def Let_def bind_Some_iff dest!: cycle_pc dma_loop_pc split: if_splits)

lemma read_instr_pc: "read_instr c = Some (v, d) \<Longrightarrow> c_pc d = c_pc c + 1 \<and> c_instr d = c_instr c"
  by (auto simp: read_instr_def bind_Some_iff dest!: cpu_read_pc)

lemma read_words_pc:
  "read_instr_u16 c = Some (w, d) \<Longrightarrow> c_pc d = c_pc c + 2 \<and> c_instr d = c_instr c"
  "read_u16 c addr = Some (w, d) \<Longrightarrow> c_pc d = c_pc c \<and> c_instr d = c_instr c"
  "read_zp_u16 c z = Some (w, d) \<Longrightarrow> c_pc d = c_pc c \<and> c_instr d = c_instr c"
  "read_uncorrected c addr = Some d \<Longrightarrow> c_pc d = c_pc c \<and> c_instr d = c_instr c"
  by (auto simp: read_instr_u16_def read_u16_def read_zp_u16_def read_uncorrected_def bind_Some_iff
      dest!: cpu_read_pc read_instr_pc)

lemmas address_pc = cpu_read_pc read_instr_pc read_words_pc

lemma cpu_address_pc: "cpu_address m c = Some d \<Longrightarrow> c_pc d = c_pc c + of_nat (operand_bytes m) \<and> c_instr d = c_instr c"
  by (cases m)
    (auto simp: am_acc_def am_imp_def am_imm_def am_zp0_def am_zpx_def am_zpy_def am_rel_def am_abs_def
      am_abx_def am_aby_def am_ind_def am_idx_def am_idy_def bind_Some_iff Let_def dest!: address_pc split: if_splits)

lemma cpu_decode_pc:
  assumes "cpu_decode c = Some d"
  shows "\<exists>opcode. c_instr d = instruction opcode \<and> c_pc d = c_pc c + of_nat (instr_bytes opcode)"
proof -
  obtain opcode e where e: "read_instr c = Some (opcode, e)"
    "cpu_address (instr_addr_mode (instruction opcode)) (e\<lparr>c_instr := instruction opcode\<rparr>) = Some d"
    using assms by (auto simp: cpu_decode_def Let_def bind_Some_iff)
  from cpu_address_pc [OF e(2)] read_instr_pc [OF e(1)] show ?thesis
    by (intro exI [of _ opcode]) (simp add: instr_bytes_def)
qed

section \<open>The disassembler and the processor\<close>

text \<open>C16: The disassembler shows what the processor runs: on a well-formed machine whose OAM can be peeked at
  it never panics and changes nothing but its own line; the line starts with the address, its columns read as
  numbers are the bytes of the instruction at that address, and the mnemonic of the opcode follows them at a
  fixed place; and the address it hands on is the one the processor reaches when it decodes that opcode.\<close>

theorem disassembly_agrees:
  assumes "cb_wf bd (c_bus c)" and "peek_oamdata (cb_ppu (c_bus c)) \<noteq> None"
    and "cpu_peek c pc AccDummy = Some opcode"
  shows "\<exists>next line. cpu_disassemble c pc = Some (next, c\<lparr>c_disasm := line\<rparr>)
    \<and> number_of 16 (take 4 line) = unat pc
    \<and> (\<forall>k < instr_bytes opcode. \<exists>b. cpu_peek c (pc + of_nat k) AccDummy = Some b
          \<and> number_of 16 (take 2 (drop (5 + 3 * k) line)) = unat b)
    \<and> take 4 (drop 14 line) = instr_debug (instruction opcode)
    \<and> (\<forall>d. cpu_decode c = Some d \<and> c_pc c = pc \<and> c_instr d = instruction opcode \<longrightarrow> c_pc d = next)"
proof -
  have ok: "peekable c" using assms(2) by (simp add: peekable_def)
  note peek = peek_ok [OF assms(1) ok]
  have opcode: "peeked c pc = opcode" using peek [of pc] assms(3) by simp
  let ?bytes = "map (\<lambda>k. peeked c (pc + of_nat k)) [0..<instr_bytes opcode]"
  obtain mode where dis: "cpu_disassemble c pc = Some (pc + of_nat (instr_bytes opcode),
      c\<lparr>c_disasm := disasm_line pc ?bytes (instruction opcode) mode\<rparr>)"
    using disassemble_eq [OF assms(1) ok, of pc] unfolding opcode by blast
  have "length ?bytes \<le> 3" using operand_bytes_le by (simp add: instr_bytes_def)
  note cols = disasm_line_columns [OF this]
  have "c_pc d = pc + of_nat (instr_bytes opcode)"
    if "cpu_decode c = Some d" "c_pc c = pc" "c_instr d = instruction opcode" for d
    using cpu_decode_pc [OF that(1)] that by (auto simp: instr_bytes_def)
  moreover have "number_of 16 (take 2 (drop (5 + 3 * k) (disasm_line pc ?bytes (instruction opcode) mode)))
      = unat (peeked c (pc + of_nat k))" if "k < instr_bytes opcode" for k
    using cols(2) [of k pc] that by simp
  ultimately show ?thesis using dis cols(1,3) peek by (intro exI conjI) auto
qed

theorem disassembly_agrees_witness:
  "\<exists>next line. cpu_disassemble sample_cpu 0 = Some (next, sample_cpu\<lparr>c_disasm := line\<rparr>)
     \<and> number_of 16 (take 4 line) = 0 \<and> number_of 16 (take 2 (drop 5 line)) = 0
     \<and> take 4 (drop 14 line) = '' BRK''"
proof -
  have wf: "cb_wf sample_bd (c_bus sample_cpu)" using sample_cpu_wf by (simp add: cpu_wf_def)
  have oam: "peek_oamdata (cb_ppu (c_bus sample_cpu)) \<noteq> None"
    using readable_not_rendering [OF wf sample_cpu_quiet(2), of "0x2004"] by (simp add: readable_def is_oamdata_def)
  have op: "cpu_peek sample_cpu 0 AccDummy = Some 0"
  proof -
    have "cb_wram (c_bus sample_cpu) = replicate WRAM_SIZE 0"
      by (simp add: sample_cpu_def cpu_load_cart_def cpu_new_def cpu_set_region_def cpu_bus_new_def
          cb_load_cart_def Let_def cb_set_region_def ram_with_capacity_def ram_fill_def map_replicate_const split_beta)
    then show ?thesis
      using cb_peek_wram [OF wf, of 0 AccDummy] by (simp add: cpu_peek_def wram_at_def WRAM_SIZE_def)
  qed
  have i: "instruction 0 = Instr 0x00 IMM BRK 7" by (simp add: instruction_def INSTRUCTIONS_def)
  from disassembly_agrees [OF wf oam op] obtain "next" line where
    l: "cpu_disassemble sample_cpu 0 = Some (next, sample_cpu\<lparr>c_disasm := line\<rparr>)"
      "number_of 16 (take 4 line) = 0" "take 4 (drop 14 line) = instr_debug (instruction 0)"
    and b: "\<forall>k < instr_bytes 0. \<exists>b. cpu_peek sample_cpu (0 + of_nat k) AccDummy = Some b
          \<and> number_of 16 (take 2 (drop (5 + 3 * k) line)) = unat b"
    by auto
  have "number_of 16 (take 2 (drop 5 line)) = 0" using b [rule_format, of 0] op by (auto simp: instr_bytes_def)
  with l show ?thesis by (intro exI conjI) (auto simp: i instr_debug_def)
qed

end
