(* ===== verification/PpuViewer.thy ===== *)
theory PpuViewer
  imports Ppu PpuFrame
begin

text \<open>
  The pictures of the PPU viewer, \<open>src/nes/ppu_viewer.rs\<close>: the four nametables, the two pattern tables and the
  palette, computed by peeking at the PPU. A picture is a vector of bytes, four for a pixel, of which the
  fourth is never written. The window, its texture and the marked scanline belong to the application.
\<close>

text \<open>A loop whose body may panic.\<close>

fun for_each :: "('a \<Rightarrow> 's \<Rightarrow> 's option) \<Rightarrow> 'a list \<Rightarrow> 's \<Rightarrow> 's option" where
  "for_each f [] s = Some s"
| "for_each f (x # xs) s = do { s \<leftarrow> f x s; for_each f xs s }"

section \<open>State\<close>

definition NT_START :: u16 where "NT_START = 0x2000"
definition PALETTE_END :: u16 where "PALETTE_END = 0x3F20"
definition NAMETABLE_SIZE :: nat where "NAMETABLE_SIZE = 4 * PPU_SIZE"
definition NAMETABLE_IDS_SIZE :: nat where "NAMETABLE_IDS_SIZE = 4 * unat NT_SIZE"
definition PATTERN_SIZE :: nat where "PATTERN_SIZE = 4 * (PPU_WIDTH * PPU_WIDTH) div 2"
definition VIEWER_PALETTE_SIZE :: nat where "VIEWER_PALETTE_SIZE = (32 + 4) * 4"

record ppu_viewer =
  pv_mirroring :: mirroring
  pv_nametables :: "u8 list list"
  pv_nametable_ids :: "u8 list"
  pv_pattern_tables :: "u8 list list"
  pv_palette :: "u8 list"
  pv_palette_ids :: "u8 list"

definition ppu_viewer_new :: ppu_viewer where
  "ppu_viewer_new =
     \<lparr>pv_mirroring = mirroring_default, pv_nametables = replicate 4 (replicate NAMETABLE_SIZE 0x00),
      pv_nametable_ids = replicate NAMETABLE_IDS_SIZE 0,
      pv_pattern_tables = replicate 2 (replicate PATTERN_SIZE 0x00),
      pv_palette = replicate VIEWER_PALETTE_SIZE 0, pv_palette_ids = replicate VIEWER_PALETTE_SIZE 0\<rparr>"

definition ppu_peek :: "ppu \<Rightarrow> u16 \<Rightarrow> u8 option" where
  "ppu_peek p addr = pb_peek (pp_bus p) addr"

section \<open>Drawing\<close>

definition viewer_set_pixel :: "u16 \<Rightarrow> nat \<Rightarrow> nat \<Rightarrow> nat \<Rightarrow> u8 list \<Rightarrow> u8 list option" where
  "viewer_set_pixel color x y width pixels =
     (let (red, green, blue) = system_palette color;
          idx = 4 * (x + y * width)
      in if idx + 2 < length pixels
         then Some (pixels[idx := red, idx + 1 := green, idx + 2 := blue]) else None)"

text \<open>The eight rows of a tile, and the eight pixels of a row, for both kinds of pictures.\<close>

definition draw_row :: "ppu \<Rightarrow> u16 \<Rightarrow> u8 \<Rightarrow> u8 \<Rightarrow> u16 \<Rightarrow> u16 \<Rightarrow> nat \<Rightarrow> u8 list \<Rightarrow> u8 list option" where
  "draw_row p palette_base lo8 hi8 tile_x py width =
     (let lo = (ucast lo8 :: u16); hi = (ucast hi8 :: u16)
      in for_each (\<lambda>x pixels.
           let pix_type = (drop_bit x lo AND 1) + push_bit 1 (drop_bit x hi AND 1)
           in do { palette_idx \<leftarrow> ppu_peek p (palette_base + pix_type);
                   viewer_set_pixel (ucast palette_idx) (unat (tile_x + (7 - of_nat x))) (unat py) width pixels })
         [0..<8])"

definition draw_tile :: "ppu \<Rightarrow> u16 \<Rightarrow> u16 \<Rightarrow> u16 \<Rightarrow> u16 \<Rightarrow> nat \<Rightarrow> u8 list \<Rightarrow> u8 list option" where
  "draw_tile p palette_base tile_addr tile_x tile_y width =
     for_each (\<lambda>y pixels.
       do { lo \<leftarrow> ppu_peek p (tile_addr + of_nat y);
            hi \<leftarrow> ppu_peek p (tile_addr + of_nat y + 8);
            draw_row p palette_base lo hi tile_x (tile_y + of_nat y) width pixels }) [0..<8]"

text \<open>The body of the loop over the addresses of a nametable: the tile numbers and the picture.\<close>

definition load_nametable_tile ::
    "ppu \<Rightarrow> u16 \<Rightarrow> u8 list \<times> u8 list \<Rightarrow> (u8 list \<times> u8 list) option" where
  "load_nametable_tile p addr s =
     (let (ids, nametable) = s;
          x_scroll = addr AND COARSE_X_MASK;
          y_scroll = drop_bit 5 (addr AND COARSE_Y_MASK);
          nt_base_addr = NT_START + (addr AND (NT_X_MASK OR NT_Y_MASK))
      in do { tile \<leftarrow> ppu_peek p addr;
              let tile_addr = bg_select (pp_ctrl p) + ucast tile * 16;
              let supertile = x_scroll div 4 + (y_scroll div 4) * 8;
              attr8 \<leftarrow> ppu_peek p (nt_base_addr + 0x03C0 + supertile);
              let attr = (ucast attr8 :: u16);
              let corner = push_bit 1 ((x_scroll mod 4) div 2 + (y_scroll mod 4) div 2 * 2);
              let palette_mask = push_bit (unat corner) 0x03;
              let palette = drop_bit (unat corner) (attr AND palette_mask);
              let tile_num = x_scroll + y_scroll * 32;
              let tile_x = (tile_num mod 32) * 8;
              let tile_y = (tile_num div 32) * 8;
              ids \<leftarrow> vec_set ids (unat (addr - NT_START)) tile;
              nametable \<leftarrow> draw_tile p (PALETTE_START + palette * 4) tile_addr tile_x tile_y PPU_WIDTH nametable;
              Some (ids, nametable) })"

definition load_nametable :: "ppu \<Rightarrow> nat \<Rightarrow> u8 list \<times> u8 list \<Rightarrow> (u8 list \<times> u8 list) option" where
  "load_nametable p i =
     (let base_addr = NT_START + of_nat i * NT_SIZE
      in for_each (load_nametable_tile p) (map (\<lambda>j. base_addr + of_nat j) [0..<unat (NT_SIZE - 64)]))"

definition load_nametables :: "ppu \<Rightarrow> ppu_viewer \<Rightarrow> ppu_viewer option" where
  "load_nametables p v =
     for_each (\<lambda>i v.
       do { nametable \<leftarrow> vec_get (pv_nametables v) i;
            (ids, nametable) \<leftarrow> load_nametable p i (pv_nametable_ids v, nametable);
            Some (v\<lparr>pv_nametable_ids := ids, pv_nametables := (pv_nametables v)[i := nametable]\<rparr>) })
     [0..<length (pv_nametables v)] (v\<lparr>pv_mirroring := ppu_mirroring p\<rparr>)"

definition load_pattern_table :: "ppu \<Rightarrow> nat \<Rightarrow> u8 list \<Rightarrow> u8 list option" where
  "load_pattern_table p i =
     (let start = of_nat i * 0x1000
      in for_each (\<lambda>tile_addr.
           let tile_x = ((tile_addr mod 0x1000) mod 256) div 2;
               tile_y = ((tile_addr mod 0x1000) div 256) * 8
           in draw_tile p PALETTE_START tile_addr tile_x tile_y (PPU_WIDTH div 2))
         (map (\<lambda>j. start + of_nat j * 16) [0..<0x100]))"

definition load_pattern_tables :: "ppu \<Rightarrow> ppu_viewer \<Rightarrow> ppu_viewer option" where
  "load_pattern_tables p v =
     for_each (\<lambda>i v.
       do { pattern_table \<leftarrow> vec_get (pv_pattern_tables v) i;
            pattern_table \<leftarrow> load_pattern_table p i pattern_table;
            Some (v\<lparr>pv_pattern_tables := (pv_pattern_tables v)[i := pattern_table]\<rparr>) })
     [0..<length (pv_pattern_tables v)] v"

definition load_palettes :: "ppu \<Rightarrow> ppu_viewer \<Rightarrow> ppu_viewer option" where
  "load_palettes p v =
     for_each (\<lambda>addr v.
       do { let x = unat ((addr - PALETTE_START) mod 16);
            let y = unat ((addr - PALETTE_START) div 16);
            palette_idx \<leftarrow> ppu_peek p addr;
            ids \<leftarrow> vec_set (pv_palette_ids v) (y * 16 + x) palette_idx;
            palette \<leftarrow> viewer_set_pixel (ucast palette_idx) x y 16 (pv_palette v);
            Some (v\<lparr>pv_palette_ids := ids, pv_palette := palette\<rparr>) })
     (map (\<lambda>j. PALETTE_START + of_nat j) [0..<unat (PALETTE_END - PALETTE_START)]) v"

end
