(* ===== verification/ViewerProps.thy ===== *)
theory ViewerProps
  imports PpuViewer PpuProps
begin

text \<open>
  The pictures of the PPU viewer pixel by pixel: a pixel has the colour of the tile under it. The loops draw
  every pixel once; the set of the pixels that already have their colour grows with each of them.
\<close>

section \<open>The colour of a pixel\<close>

definition peek_of :: "ppu \<Rightarrow> u16 \<Rightarrow> u8" where
  "peek_of p addr = the (ppu_peek p addr)"

text \<open>Bit \<open>7 - x\<close> of the two bytes of a row of a tile, looked up in a palette.\<close>

definition tile_color :: "ppu \<Rightarrow> u16 \<Rightarrow> u16 \<Rightarrow> nat \<Rightarrow> nat \<Rightarrow> u8" where
  "tile_color p palette_base tile_addr x y =
     (let lo = peek_of p (tile_addr + of_nat y);
          hi = peek_of p (tile_addr + of_nat y + 8)
      in peek_of p (palette_base + (of_bool (bit lo (7 - x)) + 2 * of_bool (bit hi (7 - x)))))"

text \<open>Two bits of the attribute table for each square of sixteen by sixteen pixels.\<close>

definition nametable_color :: "ppu \<Rightarrow> nat \<Rightarrow> nat \<Rightarrow> nat \<Rightarrow> u8" where
  "nametable_color p i x y =
     (let base = NT_START + of_nat i * NT_SIZE;
          tile = peek_of p (base + of_nat (32 * (y div 8) + x div 8));
          attr = peek_of p (base + 0x03C0 + of_nat (8 * (y div 32) + x div 32));
          palette = drop_bit (2 * (x div 16 mod 2) + 4 * (y div 16 mod 2)) attr AND 3
      in tile_color p (PALETTE_START + ucast palette * 4) (bg_select (pp_ctrl p) + ucast tile * 16) (x mod 8) (y mod 8))"

definition pattern_color :: "ppu \<Rightarrow> nat \<Rightarrow> nat \<Rightarrow> nat \<Rightarrow> u8" where
  "pattern_color p i x y =
     tile_color p PALETTE_START (of_nat i * 0x1000 + of_nat (256 * (y div 8) + 16 * (x div 8))) (x mod 8) (y mod 8)"

section \<open>Pixels that have their colour\<close>

definition shows_pixel :: "u8 list \<Rightarrow> nat \<Rightarrow> nat \<Rightarrow> nat \<Rightarrow> u8 \<Rightarrow> bool" where
  "shows_pixel pixels width x y c \<longleftrightarrow>
     (pixels ! (4 * (x + y * width)), pixels ! (4 * (x + y * width) + 1), pixels ! (4 * (x + y * width) + 2))
       = system_palette (ucast c)"

definition drawn :: "nat \<Rightarrow> nat \<Rightarrow> (nat \<Rightarrow> nat \<Rightarrow> u8) \<Rightarrow> (nat \<times> nat) set \<Rightarrow> u8 list \<Rightarrow> bool" where
  "drawn n width col D pixels \<longleftrightarrow>
     length pixels = n \<and> (\<forall>(x, y) \<in> D. x < width \<and> shows_pixel pixels width x y (col x y))"

lemma pixel_position_inj:
  "x < w \<Longrightarrow> x' < w \<Longrightarrow> x + y * w = x' + y' * w \<Longrightarrow> x = x' \<and> y = (y' :: nat)"
proof -
  assume x: "x < w" "x' < w" "x + y * w = x' + y' * w"
  then have "(x + y * w) mod w = (x' + y' * w) mod w" "(x + y * w) div w = (x' + y' * w) div w" by simp_all
  with x(1,2) show ?thesis by simp
qed

lemma put_other_pixel:
  fixes j k :: nat and pixels :: "'a list" and r g b :: 'a
  assumes "j \<noteq> k"
  defines "new \<equiv> pixels[4 * k := r, 4 * k + 1 := g, 4 * k + 2 := b]"
  shows "new ! (4 * j) = pixels ! (4 * j)" "new ! (4 * j + 1) = pixels ! (4 * j + 1)"
    "new ! (4 * j + 2) = pixels ! (4 * j + 2)"
proof -
  have "4 * k \<noteq> 4 * j" "4 * k + 1 \<noteq> 4 * j" "4 * k + 2 \<noteq> 4 * j"
    "4 * k \<noteq> 4 * j + 1" "4 * k + 1 \<noteq> 4 * j + 1" "4 * k + 2 \<noteq> 4 * j + 1"
    "4 * k \<noteq> 4 * j + 2" "4 * k + 1 \<noteq> 4 * j + 2" "4 * k + 2 \<noteq> 4 * j + 2"
    using assms(1) by presburger+
  then show "new ! (4 * j) = pixels ! (4 * j)" "new ! (4 * j + 1) = pixels ! (4 * j + 1)"
    "new ! (4 * j + 2) = pixels ! (4 * j + 2)"
    unfolding new_def by (simp_all only: nth_list_update_neq not_False_eq_True)
qed

lemma put_pixel:
  fixes k :: nat
  assumes "4 * k + 2 < length pixels"
  shows "pixels[4 * k := r, 4 * k + 1 := g, 4 * k + 2 := b] ! (4 * k) = r"
    "pixels[4 * k := r, 4 * k + 1 := g, 4 * k + 2 := b] ! (4 * k + 1) = g"
    "pixels[4 * k := r, 4 * k + 1 := g, 4 * k + 2 := b] ! (4 * k + 2) = b"
  using assms by simp_all

lemma set_pixel_drawn:
  assumes "drawn n width col D pixels" and "x < width" and "4 * (x + y * width) + 2 < n"
  shows "returns (viewer_set_pixel (ucast (col x y)) x y width pixels) (drawn n width col (insert (x, y) D))"
proof -
  obtain r g b where c: "system_palette (ucast (col x y)) = (r, g, b)" by (metis prod_cases3)
  let ?k = "4 * (x + y * width)"
  let ?new = "pixels[?k := r, ?k + 1 := g, ?k + 2 := b]"
  have len: "length pixels = n" using assms(1) by (simp add: drawn_def)
  have "4 * (x + y * width) + 2 < length pixels" using assms(3) len by simp
  then have "shows_pixel ?new width x y (col x y)"
    unfolding shows_pixel_def c by (simp only: put_pixel)
  moreover have "x' < width \<and> shows_pixel ?new width x' y' (col x' y')" if "(x', y') \<in> D" for x' y'
  proof (cases "(x', y') = (x, y)")
    case True
    then show ?thesis using \<open>shows_pixel ?new width x y (col x y)\<close> assms(2) by simp
  next
    case False
    have old: "x' < width" "shows_pixel pixels width x' y' (col x' y')"
      using assms(1) that by (auto simp: drawn_def)
    then have neq: "x' + y' * width \<noteq> x + y * width"
      using pixel_position_inj [OF old(1) assms(2)] False unfolding prod.inject by blast
    show ?thesis using old unfolding shows_pixel_def put_other_pixel [OF neq] by blast
  qed
  ultimately show ?thesis
    using assms(2,3) len by (auto simp: viewer_set_pixel_def c drawn_def Let_def)
qed

lemma for_each_grow:
  assumes "\<And>x D s. x \<in> set xs \<Longrightarrow> P D s \<Longrightarrow> returns (f x s) (P (D \<union> R x))" and "P D s"
  shows "returns (for_each f xs s) (P (D \<union> (\<Union>x \<in> set xs. R x)))"
  using assms
proof (induction xs arbitrary: D s)
  case (Cons x xs)
  have "returns (f x s) (P (D \<union> R x))" using Cons.prems by simp
  then show ?case
  proof (simp, rule returns_mono)
    fix s' assume "P (D \<union> R x) s'"
    from Cons.IH [OF Cons.prems(1) this] show "returns (for_each f xs s') (P (D \<union> (R x \<union> \<Union> (R ` set xs))))"
      by (simp add: Un_assoc)
  qed
qed simp

section \<open>A tile\<close>

lemma peek_of_eq: "ppu_bus_wf bd (pp_bus p) \<Longrightarrow> ppu_peek p a = Some (peek_of p a)"
  using pb_peek_ok [of bd "pp_bus p" a] by (auto simp: ppu_peek_def peek_of_def)

lemma pix_type_bits:
  "(drop_bit x (ucast lo) AND 1) + push_bit 1 (drop_bit x (ucast hi) AND 1)
     = (of_bool (bit (lo :: u8) x) + 2 * of_bool (bit (hi :: u8) x) :: u16)"
proof -
  have "drop_bit x (ucast v) AND 1 = (of_bool (bit v x) :: u16)" for v :: u8
    using bit_imp_le_length [of v x]
    by (auto simp: and_one_eq mod_2_eq_odd bit_ucast_iff simp flip: bit_iff_odd_drop_bit)
  then show ?thesis by (simp add: push_bit_eq_mult)
qed

text \<open>
  A tile is drawn at \<open>(X, Y)\<close> with the colours that \<open>col\<close> has there, if the palette, the tile and the position
  passed to the loops stand for them.
\<close>

definition tile_at :: "ppu \<Rightarrow> (nat \<Rightarrow> nat \<Rightarrow> u8) \<Rightarrow> u16 \<Rightarrow> u16 \<Rightarrow> nat \<Rightarrow> nat \<Rightarrow> bool" where
  "tile_at p col palette_base tile_addr X Y \<longleftrightarrow>
     (\<forall>a < 8. \<forall>b < 8. col (X + a) (Y + b) = tile_color p palette_base tile_addr a b)"

lemma draw_row_drawn:
  assumes wf: "ppu_bus_wf bd (pp_bus p)" and col: "tile_at p col palette_base tile_addr X Y" and y: "y < 8"
    and X: "unat tile_x = X" "X + 7 < width" "width \<le> 256" and Y: "unat py = Y + y"
    and n: "4 * (X + 7 + (Y + y) * width) + 2 < n" and P: "drawn n width col D pixels"
  shows "returns (draw_row p palette_base (peek_of p (tile_addr + of_nat y)) (peek_of p (tile_addr + of_nat y + 8))
      tile_x py width pixels) (drawn n width col (D \<union> (\<Union>x \<in> set [0..<8]. {(X + 7 - x, Y + y)})))"
  unfolding draw_row_def Let_def
proof (rule for_each_grow [where P = "drawn n width col" and R = "\<lambda>x. {(X + 7 - x, Y + y)}", OF _ P])
  fix x :: nat and D pixels
  assume x: "x \<in> set [0..<8]" and P: "drawn n width col D pixels"
  have seven: "unat (7 - of_nat x :: u16) = 7 - x"
  proof -
    have "(7 - of_nat x :: u16) = of_nat (7 - x)" using x by (simp add: of_nat_diff)
    then show ?thesis by (simp only: unat_of_nat) simp
  qed
  have "unat (tile_x + (7 - of_nat x)) = X + 7 - x"
    using x X by (simp add: unat_word_ariths(1) seven)
  moreover have "tile_color p palette_base tile_addr (7 - x) y = col (X + 7 - x) (Y + y)"
    using col [unfolded tile_at_def, rule_format, of "7 - x" y] x y by simp
  moreover have "4 * (X + 7 - x + (Y + y) * width) + 2 < n" using n by simp
  ultimately show "returns (do { palette_idx \<leftarrow> ppu_peek p (palette_base +
          ((drop_bit x (ucast (peek_of p (tile_addr + of_nat y))) AND 1)
            + push_bit 1 (drop_bit x (ucast (peek_of p (tile_addr + of_nat y + 8))) AND 1)));
        viewer_set_pixel (ucast palette_idx) (unat (tile_x + (7 - of_nat x))) (unat py) width pixels })
      (drawn n width col (D \<union> {(X + 7 - x, Y + y)}))"
    using set_pixel_drawn [OF P, of "X + 7 - x" "Y + y"] X(2) Y x
    unfolding pix_type_bits peek_of_eq [OF wf] by (simp add: tile_color_def Let_def)
qed

lemma draw_tile_drawn:
  assumes wf: "ppu_bus_wf bd (pp_bus p)" and col: "tile_at p col palette_base tile_addr X Y"
    and X: "unat tile_x = X" "X + 7 < width" "width \<le> 256" and Y: "unat tile_y = Y" "Y < 0x1000"
    and n: "4 * (X + 7 + (Y + 7) * width) + 2 < n" and P: "drawn n width col D pixels"
  shows "returns (draw_tile p palette_base tile_addr tile_x tile_y width pixels)
      (drawn n width col (D \<union> {X..<X + 8} \<times> {Y..<Y + 8}))"
proof -
  let ?R = "\<lambda>y. \<Union>x \<in> set [0..<8]. {(X + 7 - x, Y + y)}"
  have "returns (draw_tile p palette_base tile_addr tile_x tile_y width pixels)
      (drawn n width col (D \<union> (\<Union>y \<in> set [0..<8]. ?R y)))"
    unfolding draw_tile_def
  proof (rule for_each_grow [where P = "drawn n width col" and R = ?R, OF _ P])
    fix y :: nat and D pixels
    assume y: "y \<in> set [0..<8]" and P: "drawn n width col D pixels"
    have "unat (tile_y + of_nat y) = Y + y"
      using Y y by (simp add: unat_word_ariths(1) unat_of_nat)
    moreover have "4 * (X + 7 + (Y + y) * width) + 2 < n"
    proof -
      have "(Y + y) * width \<le> (Y + 7) * width" using y by (intro mult_right_mono) auto
      then have "4 * (X + 7 + (Y + y) * width) + 2 \<le> 4 * (X + 7 + (Y + 7) * width) + 2"
        by (intro add_mono mult_left_mono) simp_all
      then show ?thesis using n by (rule le_less_trans)
    qed
    ultimately show "returns (do { lo \<leftarrow> ppu_peek p (tile_addr + of_nat y); hi \<leftarrow> ppu_peek p (tile_addr + of_nat y + 8);
        draw_row p palette_base lo hi tile_x (tile_y + of_nat y) width pixels }) (drawn n width col (D \<union> ?R y))"
      using draw_row_drawn [OF wf col _ X _ _ P, of y] y by (simp add: peek_of_eq [OF wf])
  qed
  moreover have "(\<Union>y \<in> set [0..<8]. ?R y) = {X..<X + 8} \<times> {Y..<Y + 8}"
  proof (intro equalityI subsetI)
    fix q assume "q \<in> {X..<X + 8} \<times> {Y..<Y + 8}"
    then obtain x y where "q = (x, y)" "X \<le> x" "x < X + 8" "Y \<le> y" "y < Y + 8" by auto
    then have "q \<in> ?R (y - Y)" "y - Y \<in> set [0..<8]" by (auto intro!: bexI [of _ "X + 7 - x"])
    then show "q \<in> (\<Union>y \<in> set [0..<8]. ?R y)" by blast
  qed auto
  ultimately show ?thesis by simp
qed

section \<open>Nametables\<close>

lemma word_of_unat: "unat v = n \<Longrightarrow> v = of_nat n" for v :: u16
  by (metis of_nat_unat ucast_id)

text \<open>The words of the loop over the addresses, for the tile \<open>j\<close> of the nametable \<open>i\<close>.\<close>

lemma nametable_words:
  fixes i j :: nat
  assumes "i < 4" and "j < 960"
  defines "addr \<equiv> NT_START + of_nat i * NT_SIZE + of_nat j"
  shows "addr AND COARSE_X_MASK = of_nat (j mod 32)"
    and "drop_bit 5 (addr AND COARSE_Y_MASK) = of_nat (j div 32)"
    and "NT_START + (addr AND (NT_X_MASK OR NT_Y_MASK)) = NT_START + of_nat i * NT_SIZE"
    and "unat (addr - NT_START) = 1024 * i + j"
proof -
  have u: "unat addr = 0x2000 + 1024 * i + j"
    using assms(1,2) by (simp add: addr_def NT_START_def NT_SIZE_def unat_word_ariths unat_of_nat)
  have m: "unat addr mod 32 = j mod 32" "unat addr div 32 = j div 32 + 32 * (8 + i)"
    "unat addr div 1024 = 8 + i"
  proof -
    have "unat addr = j + 32 * (32 * (8 + i))" "unat addr = j + 1024 * (8 + i)" using u by simp_all
    then show "unat addr mod 32 = j mod 32" "unat addr div 32 = j div 32 + 32 * (8 + i)" "unat addr div 1024 = 8 + i"
      using assms(2) by (simp_all only: div_mult_self2 mod_mult_self2) simp_all
  qed
  have "unat (addr AND COARSE_X_MASK) = j mod 32"
    unfolding COARSE_X_MASK_def masks_eq unat_and_low by (simp add: m)
  then show "addr AND COARSE_X_MASK = of_nat (j mod 32)" by (rule word_of_unat)
  have "drop_bit 5 (addr AND COARSE_Y_MASK) = drop_bit 5 addr AND 0x1F"
    by (simp add: COARSE_Y_MASK_def drop_bit_and)
  then have "unat (drop_bit 5 (addr AND COARSE_Y_MASK)) = (j div 32 + 32 * (8 + i)) mod 32"
    by (simp only: masks_eq unat_and_low unat_drop) (simp add: m)
  also have "\<dots> = j div 32" using assms(2) by (simp only: mod_mult_self2) simp
  finally have "unat (drop_bit 5 (addr AND COARSE_Y_MASK)) = j div 32" .
  then show "drop_bit 5 (addr AND COARSE_Y_MASK) = of_nat (j div 32)" by (rule word_of_unat)
  have "unat (addr AND (NT_X_MASK OR NT_Y_MASK)) = 1024 * i"
  proof -
    have "(NT_X_MASK OR NT_Y_MASK :: u16) = push_bit 10 (mask 2)"
      by (simp add: NT_X_MASK_def NT_Y_MASK_def mask_eq_exp_minus_1 push_bit_eq_mult)
    moreover have "addr AND push_bit 10 (mask 2) = push_bit 10 (drop_bit 10 addr AND mask 2)"
      by (rule bit_word_eqI) (auto simp: bit_simps)
    ultimately have "addr AND (NT_X_MASK OR NT_Y_MASK) = push_bit 10 (drop_bit 10 addr AND mask 2)" by simp
    moreover have "unat (drop_bit 10 addr AND mask 2) = i"
      using assms(1) by (simp only: unat_and_low unat_drop) (simp add: m, presburger)
    ultimately show ?thesis using assms(1) by (simp add: push_bit_eq_mult unat_word_ariths(2))
  qed
  then have "addr AND (NT_X_MASK OR NT_Y_MASK) = of_nat (1024 * i)" by (rule word_of_unat)
  then show "NT_START + (addr AND (NT_X_MASK OR NT_Y_MASK)) = NT_START + of_nat i * NT_SIZE"
    by (simp add: NT_SIZE_def mult.commute)
  have "addr - NT_START = of_nat (1024 * i + j)" by (simp add: addr_def NT_SIZE_def mult.commute)
  then show "unat (addr - NT_START) = 1024 * i + j"
    using assms(1,2) by (simp only: unat_of_nat) simp
qed

lemma u16_div_mod:
  assumes "a < 65536" and "b < 65536"
  shows "(of_nat a :: u16) div of_nat b = of_nat (a div b)" "(of_nat a :: u16) mod of_nat b = of_nat (a mod b)"
  using assms by (auto intro!: word_of_unat simp: unat_div unat_mod unat_of_nat)

text \<open>The position in the attribute table and the palette of a tile, from its column and its row.\<close>

lemma attribute_words:
  fixes c r :: nat
  assumes "c < 32" and "r < 32"
  defines "x \<equiv> (of_nat c :: u16)" and "y \<equiv> (of_nat r :: u16)"
  shows "x div 4 + (y div 4) * 8 = of_nat (8 * (r div 4) + c div 4)"
    and "unat (push_bit 1 ((x mod 4) div 2 + (y mod 4) div 2 * 2)) = 2 * (c div 2 mod 2) + 4 * (r div 2 mod 2)"
    and "((x + y * 32) mod 32) * 8 = of_nat (8 * c)" and "((x + y * 32) div 32) * 8 = of_nat (8 * r)"
proof -
  have d: "x div 4 = of_nat (c div 4)" "y div 4 = of_nat (r div 4)"
    "x mod 4 div 2 = of_nat (c mod 4 div 2)" "y mod 4 div 2 = of_nat (r mod 4 div 2)"
    using assms(1,2) u16_div_mod [of c 4] u16_div_mod [of r 4] u16_div_mod [of "c mod 4" 2] u16_div_mod [of "r mod 4" 2]
    by (simp_all add: x_def y_def)
  show "x div 4 + (y div 4) * 8 = of_nat (8 * (r div 4) + c div 4)" by (simp add: d)
  have "push_bit 1 ((x mod 4) div 2 + (y mod 4) div 2 * 2) = of_nat (2 * (c mod 4 div 2) + 4 * (r mod 4 div 2))"
    by (simp add: d push_bit_eq_mult algebra_simps)
  moreover have "c mod 4 div 2 = c div 2 mod 2" "r mod 4 div 2 = r div 2 mod 2" by presburger+
  moreover have "2 * (c div 2 mod 2) + 4 * (r div 2 mod 2) < 65536" by presburger
  ultimately show "unat (push_bit 1 ((x mod 4) div 2 + (y mod 4) div 2 * 2)) = 2 * (c div 2 mod 2) + 4 * (r div 2 mod 2)"
    by (simp only: unat_of_nat) simp
  have n: "x + y * 32 = of_nat (c + 32 * r)" by (simp add: x_def y_def mult.commute)
  show "((x + y * 32) mod 32) * 8 = of_nat (8 * c)" "((x + y * 32) div 32) * 8 = of_nat (8 * r)"
    unfolding n using assms(1,2) u16_div_mod [of "c + 32 * r" 32] by (simp_all add: mult.commute)
qed

lemma palette_bits: "drop_bit k ((ucast (attr :: u8) :: u16) AND push_bit k 3) = ucast (drop_bit k attr AND 3)"
  by (rule bit_word_eqI) (auto simp: bit_simps dest: bit_imp_le_length)

lemma load_tile_drawn:
  assumes wf: "ppu_bus_wf bd (pp_bus p)" and i: "i < 4" and j: "j < 960"
    and ids: "length ids = NAMETABLE_IDS_SIZE" and P: "drawn NAMETABLE_SIZE PPU_WIDTH (nametable_color p i) D pixels"
  defines "X \<equiv> 8 * (j mod 32)" and "Y \<equiv> 8 * (j div 32)" and "addr \<equiv> NT_START + of_nat i * NT_SIZE + of_nat j"
  shows "returns (load_nametable_tile p addr (ids, pixels)) (\<lambda>(ids', pixels').
      ids' = ids[1024 * i + j := peek_of p addr]
      \<and> drawn NAMETABLE_SIZE PPU_WIDTH (nametable_color p i) (D \<union> {X..<X + 8} \<times> {Y..<Y + 8}) pixels')"
proof -
  note words = nametable_words [OF i j, folded addr_def]
  have c: "j mod 32 < 32" and r: "j div 32 < 30" using j by simp_all
  then have "j div 32 < 32" by simp
  note attr = attribute_words [OF c this]
  let ?attr = "peek_of p (NT_START + of_nat i * NT_SIZE + 0x03C0 + of_nat (8 * (j div 32 div 4) + j mod 32 div 4))"
  let ?k = "2 * (j mod 32 div 2 mod 2) + 4 * (j div 32 div 2 mod 2)"
  let ?palette = "PALETTE_START + ucast (drop_bit ?k ?attr AND 3) * 4"
  let ?tile = "bg_select (pp_ctrl p) + ucast (peek_of p addr) * 16"
  have "tile_at p (nametable_color p i) ?palette ?tile X Y"
    unfolding tile_at_def
  proof (intro allI impI)
    fix a b :: nat assume "a < 8" "b < 8"
    then have q: "(X + a) div 8 = j mod 32" "(Y + b) div 8 = j div 32" "(X + a) mod 8 = a" "(Y + b) mod 8 = b"
      by (simp_all add: X_def Y_def)
    then have "(X + a) div 16 = j mod 32 div 2" "(Y + b) div 16 = j div 32 div 2"
      "(X + a) div 32 = j mod 32 div 4" "(Y + b) div 32 = j div 32 div 4"
      by (simp_all add: div_mult2_eq [of _ 8 2, simplified] div_mult2_eq [of _ 8 4, simplified])
    with q show "nametable_color p i (X + a) (Y + b) = tile_color p ?palette ?tile a b"
      by (simp add: nametable_color_def Let_def addr_def add.commute)
  qed
  note tile = this
  have X: "X \<le> 248" and Y: "Y \<le> 232" using c r by (simp_all add: X_def Y_def)
  then have "unat (of_nat X :: u16) = X" "unat (of_nat Y :: u16) = Y" by (simp_all add: unat_of_nat)
  moreover have "4 * (X + 7 + (Y + 7) * PPU_WIDTH) + 2 < NAMETABLE_SIZE"
    using X Y by (simp add: NAMETABLE_SIZE_def PPU_SIZE_def PPU_WIDTH_def PPU_HEIGHT_def)
  ultimately have "returns (draw_tile p ?palette ?tile (of_nat X) (of_nat Y) PPU_WIDTH pixels)
      (drawn NAMETABLE_SIZE PPU_WIDTH (nametable_color p i) (D \<union> {X..<X + 8} \<times> {Y..<Y + 8}))"
    using X Y P by (intro draw_tile_drawn [OF wf tile]) (simp_all add: PPU_WIDTH_def)
  moreover have "1024 * i + j < length ids" using i j by (simp add: ids NAMETABLE_IDS_SIZE_def NT_SIZE_def)
  ultimately show ?thesis
    unfolding load_nametable_tile_def Let_def prod.case words attr palette_bits peek_of_eq [OF wf] X_def Y_def
    by (simp only: bind.bind_lunit option.case returns_bind returns_Some returns_vec_set simp_thms prod.case)
qed

section \<open>The pictures\<close>

lemma for_each_append: "for_each f (xs @ ys) s = Option.bind (for_each f xs s) (for_each f ys)"
  by (induction xs arbitrary: s) (auto intro!: Option.bind_cong [OF refl])

lemma for_each_map: "for_each f (map g xs) s = for_each (\<lambda>x. f (g x)) xs s"
  by (induction xs arbitrary: s) (auto intro!: Option.bind_cong [OF refl])

lemma for_each_upt:
  assumes "\<And>i s. i < n \<Longrightarrow> P i s \<Longrightarrow> returns (f i s) (P (Suc i))" and "P 0 s"
  shows "returns (for_each f [0..<n] s) (P n)"
  using assms(1)
proof (induction n)
  case (Suc n)
  then have "returns (for_each f [0..<n] s) (P n)" by simp
  then show ?case using Suc.prems [of n] by (auto simp: for_each_append elim!: returns_mono)
qed (simp add: assms(2))

text \<open>The tiles of a picture of \<open>m\<close> columns and \<open>k\<close> rows cover it.\<close>

lemma tiles_cover:
  assumes "0 < m"
  shows "(\<Union>j \<in> set [0..<m * k]. {8 * (j mod m)..<8 * (j mod m) + 8} \<times> {8 * (j div m)..<8 * (j div m) + 8})
     = {0..<8 * m} \<times> {0..<8 * (k :: nat)}" (is "?L = ?R")
proof (intro equalityI subsetI)
  fix q assume "q \<in> ?L"
  then obtain j x y where q: "q = (x, y)" "j < m * k" "x < 8 * (j mod m) + 8" "y < 8 * (j div m) + 8" by auto
  have "j mod m < m" "j div m < k" using assms q(2) by (simp_all add: less_mult_imp_div_less mult.commute)
  then show "q \<in> ?R" using q by auto
next
  fix q assume "q \<in> ?R"
  then obtain x y where q: "q = (x, y)" "x < 8 * m" "y < 8 * k" by auto
  define j where "j = x div 8 + m * (y div 8)"
  have c: "x div 8 < m" and r: "y div 8 < k" using q by (simp_all add: less_mult_imp_div_less mult.commute)
  then have "j mod m = x div 8" "j div m = y div 8" by (simp_all add: j_def)
  moreover have "j < m * k"
  proof -
    have "j < m * Suc (y div 8)" using c by (simp add: j_def)
    also have "\<dots> \<le> m * k" using r by (intro mult_le_mono2) simp
    finally show ?thesis .
  qed
  moreover have "8 * (x div 8) \<le> x" "x < 8 * (x div 8) + 8" "8 * (y div 8) \<le> y" "y < 8 * (y div 8) + 8" by simp_all
  ultimately show "q \<in> ?L" using q(1) by (auto intro!: bexI [of _ j])
qed

lemma load_nametable_drawn:
  assumes wf: "ppu_bus_wf bd (pp_bus p)" and i: "i < 4" and "length ids = NAMETABLE_IDS_SIZE"
    and "length pixels = NAMETABLE_SIZE"
  shows "returns (load_nametable p i (ids, pixels)) (\<lambda>(ids', pixels'). length ids' = NAMETABLE_IDS_SIZE
      \<and> drawn NAMETABLE_SIZE PPU_WIDTH (nametable_color p i) ({0..<256} \<times> {0..<240}) pixels')"
proof -
  let ?P = "\<lambda>D (ids, pixels). length ids = NAMETABLE_IDS_SIZE
      \<and> drawn NAMETABLE_SIZE PPU_WIDTH (nametable_color p i) D pixels"
  let ?R = "\<lambda>j. {8 * (j mod 32)..<8 * (j mod 32) + 8} \<times> {8 * (j div 32)..<8 * (j div 32) + 8 :: nat}"
  have "returns (for_each (\<lambda>j. load_nametable_tile p (NT_START + of_nat i * NT_SIZE + of_nat j)) [0..<32 * 30] (ids, pixels))
      (?P ({} \<union> (\<Union>j \<in> set [0..<32 * 30]. ?R j)))"
  proof (rule for_each_grow [where P = ?P and R = ?R])
    show "?P {} (ids, pixels)" using assms(3,4) by (simp add: drawn_def)
    fix j D and s :: "u8 list \<times> u8 list" assume "j \<in> set [0..<32 * 30]" and P: "?P D s"
    then have "j < 960" by simp
    from load_tile_drawn [OF wf i this, of "fst s" D "snd s"] P
    show "returns (load_nametable_tile p (NT_START + of_nat i * NT_SIZE + of_nat j) s) (?P (D \<union> ?R j))"
      by (auto elim!: returns_mono simp: split_beta)
  qed
  then show ?thesis
    using tiles_cover [of 32 30] by (simp add: load_nametable_def Let_def for_each_map NT_SIZE_def)
qed

definition viewer_wf :: "ppu_viewer \<Rightarrow> bool" where
  "viewer_wf v \<longleftrightarrow> length (pv_nametables v) = 4 \<and> (\<forall>t \<in> set (pv_nametables v). length t = NAMETABLE_SIZE)
     \<and> length (pv_nametable_ids v) = NAMETABLE_IDS_SIZE
     \<and> length (pv_pattern_tables v) = 2 \<and> (\<forall>t \<in> set (pv_pattern_tables v). length t = PATTERN_SIZE)
     \<and> length (pv_palette v) = VIEWER_PALETTE_SIZE \<and> length (pv_palette_ids v) = VIEWER_PALETTE_SIZE"

lemma viewer_new_wf: "viewer_wf ppu_viewer_new"
  by (simp add: viewer_wf_def ppu_viewer_new_def)

text \<open>C14: The PPU viewer shows the memory of the PPU: drawing the four nametables never panics, keeps the sizes
  of the pictures, and gives every pixel the colour of the tile it belongs to, in the palette that the
  attribute table has for its square of sixteen by sixteen pixels. The colour zero is taken from that palette
  too, where the PPU itself shows the backdrop.\<close>

theorem viewer_shows_nametables:
  assumes "ppu_wf bd p" and "viewer_wf v"
  shows "returns (load_nametables p v) (\<lambda>v'. viewer_wf v' \<and> pv_mirroring v' = ppu_mirroring p
    \<and> (\<forall>i < 4. \<forall>x < 256. \<forall>y < 240. shows_pixel (pv_nametables v' ! i) PPU_WIDTH x y (nametable_color p i x y)))"
proof -
  have wf: "ppu_bus_wf bd (pp_bus p)" using assms(1) by (simp add: ppu_wf_def ppu_core_def)
  let ?P = "\<lambda>k v'. viewer_wf v' \<and> pv_mirroring v' = ppu_mirroring p \<and> (\<forall>i < k.
      drawn NAMETABLE_SIZE PPU_WIDTH (nametable_color p i) ({0..<256} \<times> {0..<240}) (pv_nametables v' ! i))"
  have "returns (load_nametables p v) (?P 4)"
  proof -
    have "length (pv_nametables v) = 4" using assms(2) by (simp add: viewer_wf_def)
    moreover have "?P 0 (v\<lparr>pv_mirroring := ppu_mirroring p\<rparr>)" using assms(2) by (simp add: viewer_wf_def)
    moreover have "returns (do { nametable \<leftarrow> vec_get (pv_nametables s) i;
          (ids, nametable) \<leftarrow> load_nametable p i (pv_nametable_ids s, nametable);
          Some (s\<lparr>pv_nametable_ids := ids, pv_nametables := (pv_nametables s)[i := nametable]\<rparr>) }) (?P (Suc i))"
      if i: "i < 4" and P: "?P i s" for i s
    proof -
      have s: "length (pv_nametables s) = 4" "length (pv_nametable_ids s) = NAMETABLE_IDS_SIZE"
        "length (pv_nametables s ! i) = NAMETABLE_SIZE"
        using i P by (auto simp: viewer_wf_def)
      from load_nametable_drawn [OF wf i s(2,3)] show ?thesis
        using i P s(1) by (auto simp: viewer_wf_def nth_list_update less_Suc_eq drawn_def [of _ _ _ "{0..<256} \<times> {0..<240}"]
            elim!: returns_mono dest!: set_update_subset_insert [THEN subsetD])
    qed
    ultimately show ?thesis
      unfolding load_nametables_def by (auto intro!: for_each_upt [where P = ?P])
  qed
  then show ?thesis by (rule returns_mono) (auto simp: drawn_def)
qed

theorem viewer_shows_nametables_witness:
  "returns (load_nametables sample_ppu ppu_viewer_new) (\<lambda>v'.
     shows_pixel (pv_nametables v' ! 3) PPU_WIDTH 255 239 (nametable_color sample_ppu 3 255 239))"
  by (rule returns_mono [OF viewer_shows_nametables [OF sample_ppu_wf viewer_new_wf]]) auto

text \<open>A pixel whose two bits are clear.\<close>

lemma nametable_color_zero:
  assumes "tile = bg_select (pp_ctrl p) + ucast (peek_of p (NT_START + of_nat i * NT_SIZE + of_nat (32 * (y div 8) + x div 8))) * 16"
    and "\<not> bit (peek_of p (tile + of_nat (y mod 8))) (7 - x mod 8)"
    and "\<not> bit (peek_of p (tile + of_nat (y mod 8) + 8)) (7 - x mod 8)"
  shows "\<exists>palette :: u8. nametable_color p i x y = peek_of p (PALETTE_START + ucast (palette AND 3) * 4)"
  using assms by (auto simp: nametable_color_def tile_color_def Let_def)

section \<open>Pattern tables and the palette\<close>

lemma pattern_words:
  fixes i j :: nat
  assumes "i < 2" and "j < 256"
  defines "addr \<equiv> (of_nat i * 0x1000 + of_nat j * 16 :: u16)"
  shows "((addr mod 0x1000) mod 256) div 2 = of_nat (8 * (j mod 16))"
    and "((addr mod 0x1000) div 256) * 8 = of_nat (8 * (j div 16))"
proof -
  have "unat addr = 4096 * i + 16 * j"
    using assms(1,2) by (simp add: addr_def unat_word_ariths unat_of_nat)
  then have "unat addr mod 4096 = 16 * j" using assms(2) by simp
  then have m: "addr mod 0x1000 = of_nat (16 * j)" by (intro word_of_unat) (simp add: unat_mod)
  have j: "16 * j < 65536" using assms(2) by simp
  have "16 * j mod 256 div 2 = 8 * (j mod 16)" "16 * j div 256 = j div 16"
    using mult_mod_right [of 16 j 16] div_mult_mult1 [of 16 j 16] by simp_all
  then show "((addr mod 0x1000) mod 256) div 2 = of_nat (8 * (j mod 16))"
    "((addr mod 0x1000) div 256) * 8 = of_nat (8 * (j div 16))"
    unfolding m using u16_div_mod [OF j, of 256] u16_div_mod(1) [of "16 * j mod 256" 2] j by simp_all
qed

lemma load_pattern_table_drawn:
  assumes wf: "ppu_bus_wf bd (pp_bus p)" and i: "i < 2" and "length pixels = PATTERN_SIZE"
  shows "returns (load_pattern_table p i pixels)
      (drawn PATTERN_SIZE (PPU_WIDTH div 2) (pattern_color p i) ({0..<128} \<times> {0..<128}))"
proof -
  let ?P = "drawn PATTERN_SIZE (PPU_WIDTH div 2) (pattern_color p i)"
  let ?R = "\<lambda>j. {8 * (j mod 16)..<8 * (j mod 16) + 8} \<times> {8 * (j div 16)..<8 * (j div 16) + 8 :: nat}"
  let ?a = "\<lambda>j. of_nat i * 0x1000 + of_nat j * 16 :: u16"
  have "returns (for_each (\<lambda>j. draw_tile p PALETTE_START (?a j) (((?a j mod 0x1000) mod 256) div 2)
      (((?a j mod 0x1000) div 256) * 8) (PPU_WIDTH div 2)) [0..<16 * 16] pixels) (?P ({} \<union> (\<Union>j \<in> set [0..<16 * 16]. ?R j)))"
  proof (rule for_each_grow [where P = ?P and R = ?R])
    show "?P {} pixels" using assms(3) by (simp add: drawn_def)
    fix j D and s :: "u8 list" assume "j \<in> set [0..<16 * 16]" and P: "?P D s"
    then have j: "j < 256" by simp
    define X Y where "X = 8 * (j mod 16)" and "Y = 8 * (j div 16)"
    have XY: "X \<le> 120" "Y \<le> 120" using j by (simp_all add: X_def Y_def)
    have "tile_at p (pattern_color p i) PALETTE_START (?a j) X Y"
    proof -
      have "256 * (j div 16) + 16 * (j mod 16) = 16 * j" by presburger
      then have "of_nat i * 0x1000 + of_nat (256 * (j div 16) + 16 * (j mod 16)) = ?a j" by (simp add: mult.commute)
      then show ?thesis by (simp add: tile_at_def pattern_color_def X_def Y_def)
    qed
    moreover have "unat (of_nat X :: u16) = X" "unat (of_nat Y :: u16) = Y" using XY by (simp_all add: unat_of_nat)
    moreover have "4 * (X + 7 + (Y + 7) * (PPU_WIDTH div 2)) + 2 < PATTERN_SIZE"
      using XY by (simp add: PATTERN_SIZE_def PPU_WIDTH_def)
    ultimately have "returns (draw_tile p PALETTE_START (?a j) (of_nat X) (of_nat Y) (PPU_WIDTH div 2) s)
        (?P (D \<union> {X..<X + 8} \<times> {Y..<Y + 8}))"
      using XY P by (intro draw_tile_drawn [OF wf]) (simp_all add: PPU_WIDTH_def)
    then show "returns (draw_tile p PALETTE_START (?a j) (((?a j mod 0x1000) mod 256) div 2)
        (((?a j mod 0x1000) div 256) * 8) (PPU_WIDTH div 2) s) (?P (D \<union> ?R j))"
      unfolding pattern_words [OF i j] X_def Y_def .
  qed
  then show ?thesis
    using tiles_cover [of 16 16] by (simp add: load_pattern_table_def Let_def for_each_map)
qed

lemma viewer_shows_patterns:
  assumes "ppu_wf bd p" and "viewer_wf v"
  shows "returns (load_pattern_tables p v) (\<lambda>v'. viewer_wf v'
    \<and> (\<forall>i < 2. \<forall>x < 128. \<forall>y < 128. shows_pixel (pv_pattern_tables v' ! i) (PPU_WIDTH div 2) x y (pattern_color p i x y)))"
proof -
  have wf: "ppu_bus_wf bd (pp_bus p)" using assms(1) by (simp add: ppu_wf_def ppu_core_def)
  let ?P = "\<lambda>k v'. viewer_wf v' \<and> (\<forall>i < k.
      drawn PATTERN_SIZE (PPU_WIDTH div 2) (pattern_color p i) ({0..<128} \<times> {0..<128}) (pv_pattern_tables v' ! i))"
  have "returns (load_pattern_tables p v) (?P 2)"
  proof -
    have "length (pv_pattern_tables v) = 2" using assms(2) by (simp add: viewer_wf_def)
    moreover have "returns (do { pattern_table \<leftarrow> vec_get (pv_pattern_tables s) i;
          pattern_table \<leftarrow> load_pattern_table p i pattern_table;
          Some (s\<lparr>pv_pattern_tables := (pv_pattern_tables s)[i := pattern_table]\<rparr>) }) (?P (Suc i))"
      if i: "i < 2" and P: "?P i s" for i s
    proof -
      have s: "length (pv_pattern_tables s) = 2" "length (pv_pattern_tables s ! i) = PATTERN_SIZE"
        using i P by (auto simp: viewer_wf_def)
      from load_pattern_table_drawn [OF wf i s(2)] show ?thesis
        using i P s(1) by (auto simp: viewer_wf_def nth_list_update less_Suc_eq drawn_def [of _ _ _ "{0..<128} \<times> {0..<128}"]
            elim!: returns_mono dest!: set_update_subset_insert [THEN subsetD])
    qed
    ultimately show ?thesis
      using assms(2) unfolding load_pattern_tables_def by (auto intro!: for_each_upt [where P = ?P])
  qed
  then show ?thesis by (rule returns_mono) (auto simp: drawn_def)
qed

end
