(* ===== verification/Hexdump.thy ===== *)
theory Hexdump
  imports Text
begin

text \<open>
  \<open>hexdump\<close> of \<open>src/common.rs\<close>: sixteen bytes in a line, in hexadecimal and as characters, with a star for
  the lines that repeat the one before. The lemmas say what it does at its borders: a full line has its
  characters in column 50, a shorter one has not, and nothing is dumped as a star.
\<close>

text \<open>\<open>{:08x}\<close> of an address: lower case, at least eight digits.\<close>

definition lower_digit :: "nat \<Rightarrow> char" where
  "lower_digit d = (if d < 10 then char_of (48 + d) else char_of (87 + d))"

fun lower_hex :: "nat \<Rightarrow> string" where
  "lower_hex n = (if n < 16 then [lower_digit n] else lower_hex (n div 16) @ [lower_digit (n mod 16)])"

declare lower_hex.simps [simp del]

definition hex08 :: "nat \<Rightarrow> string" where
  "hex08 n = (let s = lower_hex n in replicate (8 - length s) CHR ''0'' @ s)"

text \<open>\<open>is_ascii\<close> and not \<open>is_control\<close>.\<close>

definition ascii_char :: "u8 \<Rightarrow> char" where
  "ascii_char v = (if 0x20 \<le> v \<and> v < 0x7F then char_of (unat v) else CHR ''.'')"

definition hexdump_line :: "u8 list \<Rightarrow> string" where
  "hexdump_line line_data =
     (let line_len = length line_data;
          line = concat (map (\<lambda>b. CHR '' '' # hex02 b) line_data);
          line = (if line_len mod 16 > 0
                  then line @ replicate (3 * ((16 - line_len) div 2)) CHR '' '' else line)
      in if line_len > 0 then line @ ''  |'' @ map ascii_char line_data @ ''|'' else line)"

text \<open>The loop, from an address on, with the last line and whether a star stands for it.\<close>

function hexdump_from :: "u8 list \<Rightarrow> nat \<Rightarrow> nat \<Rightarrow> string \<Rightarrow> bool \<Rightarrow> string list" where
  "hexdump_from data addr_offset addr last_line last_line_same =
     (if addr \<le> length data then
        let end_addr = min (addr + 16) (length data);
            line = hexdump_line (take (end_addr - addr) (drop addr data))
        in if last_line = line then
             (if \<not> last_line_same then [''*''] else []) @ hexdump_from data addr_offset (addr + 16) line True
           else
             (hex08 ((addr + addr_offset) mod 2 ^ 64) @ '' '' @ line) # hexdump_from data addr_offset (addr + 16) line False
      else [])"
  by pat_completeness auto
termination by (relation "measure (\<lambda>(data, off, addr, l, s). length data + 1 - addr)") auto

declare hexdump_from.simps [simp del]

definition hexdump :: "u8 list \<Rightarrow> nat \<Rightarrow> string list" where
  "hexdump data addr_offset = hexdump_from data addr_offset 0 [] False"

section \<open>The borders\<close>

lemma hexdump_empty: "hexdump [] off = [''*'']"
  by (simp add: hexdump_def hexdump_from.simps [of _ _ 0] hexdump_from.simps [of _ _ 16] hexdump_line_def)

lemma hex_cells_length: "length (concat (map (\<lambda>b. CHR '' '' # hex02 b) bs)) = 3 * length bs"
  by (induction bs) (simp_all add: hex02_def)

text \<open>The column of the characters: 50 for sixteen bytes, before that for fewer.\<close>

lemma hexdump_line_column:
  assumes "0 < length bs" and "length bs \<le> 16"
  shows "drop (3 * length bs + 3 * ((16 - length bs) div 2)) (hexdump_line bs) = ''  |'' @ map ascii_char bs @ ''|''"
proof (cases "length bs = 16")
  case True
  then show ?thesis using hex_cells_length [of bs] by (simp add: hexdump_line_def Let_def)
next
  case False
  then have "0 < length bs mod 16" using assms by simp
  then show ?thesis using assms hex_cells_length [of bs] by (simp add: hexdump_line_def Let_def)
qed

lemma hexdump_line_misaligned:
  "0 < n \<Longrightarrow> n < 16 \<Longrightarrow> 3 * n + 3 * ((16 - n) div 2) < 3 * (16 :: nat)"
  by presburger

text \<open>A dump of sixteen bytes ends with a line that has an address only.\<close>

lemma hexdump_sixteen:
  assumes "length data = 16"
  shows "hexdump data off = [hex08 (off mod 2 ^ 64) @ '' '' @ hexdump_line data, hex08 ((16 + off) mod 2 ^ 64) @ '' '']"
proof -
  have "hexdump_line data \<noteq> []" using assms by (simp add: hexdump_line_def Let_def)
  then show ?thesis
    using assms
    by (simp add: hexdump_def hexdump_from.simps [of _ _ 0] hexdump_from.simps [of _ _ 16]
        hexdump_from.simps [of _ _ 32] Let_def)
      (simp add: hexdump_line_def hexdump_from.simps [of _ _ 32])
qed

end
