(* ===== verification/Spec2Isabelle.thy ===== *)
theory Spec2Isabelle
  imports Common GenieMemProps ApuProps CartMapperProps PpuProps InputProps CpuProps CpuDma
    MapperProps ExromProps DeckProps AudioProps NesProps MenuProps DisasmProps ViewerProps Hexdump
begin

text \<open>
  A verification development for the NES emulator under \<open>src/\<close>: the chips of the console, the
  cartridge boards, the cartridge file, the controllers and the deck that drives them. This theory
  imports the others; the properties stand in the theories named \<open>...Props\<close>, in \<open>CpuArith\<close> and in
  \<open>PowerOn\<close>, under the numbers C1 to C40.

  \<^bold>\<open>The program.\<close> A \<open>ControlDeck\<close> owns a \<open>Cpu\<close>; the \<open>Cpu\<close> owns the \<open>CpuBus\<close>; the bus owns work RAM,
  the cartridge's PRG memories, the \<open>Apu\<close>, the \<open>Input\<close> devices and the \<open>Ppu\<close>; the \<open>Ppu\<close> owns a
  \<open>PpuBus\<close> with video memory, CHR memories and the \<open>Mapper\<close> of the cartridge. The deck executes
  instructions until a frame, a scanline or an amount of time is over. An instruction is a sequence
  of bus accesses; each access is one CPU cycle, before and after which the CPU lets the PPU catch
  up with the master clock, clocks the APU, the mapper and the controllers, and samples the
  interrupt lines. The APU (for sample bytes) and the bus register $4014 ask the CPU for memory transfers. The mapper
  turns an address of either bus into an index of a cartridge memory, and may watch both buses. The
  samples the bus collects go through the \<open>AudioMixer\<close> to a ring buffer that the sound card empties;
  the last frame goes through \<open>Video\<close> to the screen. The application \<open>Nes\<close> owns the deck and the mixer,
  turns input events into actions on them, and saves, rewinds, records and replays the CPU.

  \<^bold>\<open>Which theory models what.\<close> A Rust struct is a record with the fields in source order, an enum a
  datatype, a method a function from the old state to the new one, of the same name with a prefix
  for its type (\<open>cb_\<close> for \<open>CpuBus\<close>, \<open>pb_\<close> for \<open>PpuBus\<close>, \<open>pl_\<close>, \<open>tr_\<close>, \<open>no_\<close>, \<open>dmc_\<close> for the channels,
  \<open>sx_\<close>, \<open>tx_\<close>, \<open>px_\<close>, \<open>ex_\<close> for boards, and so on); a long function is split at its branches.
  \<^item> \<open>Prelude\<close>: machine integers, checked slices, \<open>returns\<close>, bit and word lemmas, the collection
    \<open>wf_intros\<close>. Its text has the conventions (wrapping arithmetic, panics as \<open>None\<close>).
  \<^item> \<open>Common\<close> (\<open>src/common.rs\<close>), \<open>CpuRates\<close> (the clock rates of \<open>src/cpu.rs\<close>), \<open>Genie\<close>
    (\<open>src/genie.rs\<close>), \<open>Mem\<close> (\<open>src/mem.rs\<close>).
  \<^item> \<open>ApuUnits\<close>, \<open>ApuPulse\<close>, \<open>ApuChannels\<close>, \<open>ApuDmc\<close>, \<open>Apu\<close>: \<open>src/apu.rs\<close> and \<open>src/apu/\<close>.
  \<^item> \<open>Cart\<close>: \<open>src/cart.rs\<close>. \<open>MapperBase\<close>, \<open>MapperDiscrete\<close> (Nrom, Uxrom, Cnrom, Axrom, Gxrom,
    Bf909x), \<open>MapperSxrom\<close>, \<open>MapperTxrom\<close>, \<open>MapperPxrom\<close>, \<open>MapperVrc6\<close>, \<open>MapperExrom\<close>, \<open>Mapper\<close> (the
    enum, its dispatch and the choice of the board): \<open>src/mapper.rs\<close> and \<open>src/mapper/\<close>.
  \<^item> \<open>PpuRegs\<close> (control, mask, status and scroll), \<open>PpuFrame\<close> (sprites, frame buffers, palette),
    \<open>PpuBus\<close>, \<open>Ppu\<close> (ports), \<open>PpuRender\<close> (the pipeline and the dot clock): \<open>src/ppu.rs\<close>, \<open>src/ppu/\<close>.
  \<^item> \<open>Input\<close>: \<open>src/input.rs\<close>. \<open>CpuBus\<close>: \<open>src/bus.rs\<close>.
  \<^item> \<open>CpuInstr\<close> (the opcode table), \<open>CpuOps\<close> (modes and operations): \<open>src/cpu/instr.rs\<close>; \<open>Cpu\<close>
    (cycles, transfers, interrupts), \<open>CpuClock\<close> (one instruction, reset) and \<open>CpuDisasm\<close> (disassembler,
    trace line): \<open>src/cpu.rs\<close>.
  \<^item> \<open>ControlDeck\<close>: \<open>src/control_deck.rs\<close>. \<open>Video\<close>: \<open>src/video.rs\<close>.
  \<^item> \<open>Float32\<close> (the \<open>f32\<close> of Rust with its rounding), \<open>Audio\<close>: \<open>src/audio.rs\<close> and \<open>src/audio/\<close>.
  \<^item> \<open>Text\<close> (numbers as text), \<open>Hexdump\<close> (\<open>src/common.rs\<close>), \<open>SaveFiles\<close> (headers and files, \<open>src/nes/filesystem.rs\<close>), \<open>NesTypes\<close>
    (actions, bindings, configuration), \<open>NesState\<close> and \<open>NesSaves\<close> (\<open>src/nes/state.rs\<close>), \<open>Nes\<close>
    (\<open>src/nes.rs\<close>, \<open>src/nes/event.rs\<close>), \<open>NesMenu\<close> (\<open>src/nes/menu.rs\<close>), \<open>PpuViewer\<close>
    (\<open>src/nes/ppu_viewer.rs\<close>). An operation that may end with an error is an \<open>outcome\<close>: a panic
    is \<open>None\<close>, an error is \<open>Inl\<close> with the state reached.

  \<^bold>\<open>Interfaces.\<close> \<open>apu_channel\<close> (a length-counted sound channel: bounded output, silence once
  disabled) is proved of the pulse, triangle and noise channels and used by the APU. \<open>bank_window\<close>
  (a switched window stays inside its memory and a switch moves one slot only) is proved of
  \<open>MemBanks\<close>. \<open>mem_map\<close> (no access of a well-formed board panics or leaves a memory, a read returns
  what a peek shows) is proved of every board but Exrom, then of the enum \<open>mapper\<close>, and is what
  \<open>PpuBus\<close>, \<open>PpuInv\<close> and \<open>CpuBusInv\<close> rely on.

  \<^bold>\<open>What the lemmas show.\<close>
  \<^item> Invariants. \<open>apu_wf\<close>, \<open>mapper_wf\<close>, \<open>pb_wf\<close>, \<open>ppu_core\<close> and \<open>ppu_timing\<close>, the invariant of the
    bus in \<open>CpuBusInv\<close> and of the CPU in \<open>CpuInv\<close>: every operation keeps them and, with the stated
    exceptions, does not panic. \<open>PowerOn\<close> shows that loading a ROM image and the reset establish
    them, so they hold of the machine the application starts.
  \<^item> Timing. \<open>CpuTiming\<close> runs every one of the 256 opcodes forward through its accesses and compares
    the cycles with the table of the source; \<open>CpuDma\<close> does the same for the OAM transfer;
    \<open>PpuProps\<close> has the period of a frame and the end of the catch-up loop, \<open>ApuProps\<close> the sequence
    of the frame counter.
  \<^item> Meaning. \<open>CpuArith\<close>: the arithmetic with its flags. \<open>CpuStack\<close> and \<open>CpuProps\<close>: the stack,
    subroutines and interrupts. \<open>PpuProps\<close>: the scroll register as a position on the nametables,
    the VRAM port as a memory. \<open>InputProps\<close>: the ports as queues of bits. \<open>CartMapperProps\<close>,
    \<open>MapperProps\<close>, \<open>ExromProps\<close>: headers, serial ports, interrupt counters, banks of the boards.
    \<open>GenieMemProps\<close>: codes and bank windows. \<open>VideoProps\<close> and \<open>DeckProps\<close>: the picture. \<open>AudioProps\<close>:
    resampling (with the rounding of the fraction), the ring buffer and the filters. \<open>NesProps\<close>: saved states, rewinding, replays, sticks.
    \<open>MenuProps\<close>: the settings against the machine. \<open>DisasmProps\<close>: the disassembler against the decoder.
    \<open>ViewerProps\<close>: the pictures of the PPU viewer, pixel by pixel.
  \<^item> Faults. Where the code does not do what it means to, the theorem states what it does.

  \<^bold>\<open>Builds.\<close> The definitions are those of a release build: arithmetic wraps around where the source does
  not say otherwise, and the \<open>debug_assert!\<close> of \<open>MemBanks\<close> does not run. That assertion is
  the predicate \<open>mb_bounded\<close>; C40 shows it of the switches that fit, C36 where the MMC5 breaks it. Every
  other panic of the source is a \<open>None\<close>.

  \<^bold>\<open>Bounds.\<close> A loop without a structural bound (\<open>ppu_clock_to\<close>, \<open>dma_loop\<close>, the loops of the deck) is
  a \<open>partial_function\<close> into an option; \<open>ppu_clock_to\<close> and the OAM transfer are shown to end. The
  master clock is a 64-bit word: the lemmas on cycles ask for room, at most 20 master clocks per
  cycle, before it wraps around, which at the speed of the console is centuries away. \<open>cb_read\<close>,
  \<open>cb_peek\<close> and \<open>cb_write\<close> call themselves on the mirrors of an address, with the address as measure.

  \<^bold>\<open>Parameters.\<close> The random generator (\<open>rng\<close>), the look-up of a region in a data file (\<open>region_of\<close>),
  the mixing tables of the APU (their entries are in \<open>Nes\<close>), the rounding of \<open>f32\<close> in the deck (\<open>rnd\<close>), the debugger's callback
  (\<open>inspect\<close>), the \<open>f64\<close> end of the table of the picture filter (\<open>level\<close>), sine and cosine of the
  standard library (\<open>sn\<close>, \<open>cs\<close>), the ring buffer of the crate \<open>ringbuf\<close> (\<open>ring_ops\<close>, with the laws
  \<open>ring_laws\<close> of a bounded queue), the sound device, the window library and the serialisation crates
  (\<open>nes_env\<close>), the widgets of the menu and the listing of a directory (\<open>menu_ops\<close>). A sample is kept as the expression the source evaluates. Hypotheses on them are named
  where a property needs them: \<open>codec_laws\<close> says that deserialising gives back the CPU less the field
  marked \<open>serde(skip)\<close> and that inflating undoes deflating.

  \<^bold>\<open>Not modelled.\<close> \<open>src/main.rs\<close> and \<open>src/lib.rs\<close> (the command line), \<open>src/debugger.rs\<close> (types without
  use), and of \<open>src/nes/\<close> what only places text and pictures in a window, among it the messages; the
  configuration file. The viewer's pictures are functions of the PPU; the frame loop of \<open>Nes\<close> keeps its
  window and scanline only. In the modelled files: logging, \<open>Debug\<close> and serde forms, getters, and tests.
\<close>

end
